(* ===== verification/Base.thy ===== *)
theory Base
  imports Main "HOL-Library.AList"
begin

text \<open>
  The prelude of the development: what every component shares.

  \<^item> The exceptions the services throw (\<open>exn\<close>), the effect type \<open>act\<close> of an asynchronous
    handler over a state, and the combinators the handlers are written with. An exception does
    not undo the writes made before it; \<open>transaction\<close> (Prisma's \<open>$transaction\<close>) does.
  \<^item> The environment (\<open>process.env\<close>) and the two switches nearly every service reads.
  \<^item> JavaScript's \<open>Map\<close> (insertion ordered, \<open>set\<close> keeps the place of an existing key) and the
    array idioms \<open>find\<close>, \<open>map\<close>-replace and newest-first upsert.
  \<^item> The locale \<open>machine\<close>: a step relation with an inductive invariant, interpreted by every
    component that is a state machine.
\<close>

section \<open>Exceptions and effects\<close>

text \<open>
  The constructors are the exception classes of the source (NestJS's HTTP exceptions, the
  WebSocket exception, Prisma's known request error with its code, the other \<open>Error\<close> classes,
  and a rejection that is not an \<open>Error\<close> at all). The text is the message: the source's own
  words where they are English, a short English tag where they are Korean; equal messages have
  equal tags.
\<close>

datatype exn =
    BadRequest string
  | Unauthorized string
  | Forbidden string
  | NotFound string
  | Conflict string
  | TooManyRequests string "int option"
  | ServiceUnavailable string
  | WsException string
  | PrismaKnown string
  | OtherError string
  | NonError

definition is_http_exception :: "exn \<Rightarrow> bool" where
  "is_http_exception e \<longleftrightarrow> (case e of BadRequest _ \<Rightarrow> True | Unauthorized _ \<Rightarrow> True
     | Forbidden _ \<Rightarrow> True | NotFound _ \<Rightarrow> True | Conflict _ \<Rightarrow> True | TooManyRequests _ _ \<Rightarrow> True
     | ServiceUnavailable _ \<Rightarrow> True | _ \<Rightarrow> False)"

definition is_error :: "exn \<Rightarrow> bool" where
  "is_error e \<longleftrightarrow> e \<noteq> NonError"

type_synonym 'a res = "exn + 'a"
type_synonym ('s, 'a) act = "'s \<Rightarrow> (exn + 'a) \<times> 's"

definition ret :: "'a \<Rightarrow> ('s, 'a) act" where
  "ret x = (\<lambda>s. (Inr x, s))"

definition throwE :: "exn \<Rightarrow> ('s, 'a) act" where
  "throwE e = (\<lambda>s. (Inl e, s))"

definition bindE :: "('s, 'a) act \<Rightarrow> ('a \<Rightarrow> ('s, 'b) act) \<Rightarrow> ('s, 'b) act" where
  "bindE m f = (\<lambda>s. case m s of (Inl e, t) \<Rightarrow> (Inl e, t) | (Inr x, t) \<Rightarrow> f x t)"

definition catchE :: "('s, 'a) act \<Rightarrow> (exn \<Rightarrow> ('s, 'a) act) \<Rightarrow> ('s, 'a) act" where
  "catchE m h = (\<lambda>s. case m s of (Inl e, t) \<Rightarrow> h e t | (Inr x, t) \<Rightarrow> (Inr x, t))"

definition liftR :: "'a res \<Rightarrow> ('s, 'a) act" where
  "liftR r = (\<lambda>s. (r, s))"

definition transaction :: "('s, 'a) act \<Rightarrow> ('s, 'a) act" where
  "transaction m = (\<lambda>s. case m s of (Inl e, _) \<Rightarrow> (Inl e, s) | (Inr x, t) \<Rightarrow> (Inr x, t))"

text \<open>A guard that either passes or throws, and sequencing of pure results.\<close>

definition guardR :: "bool \<Rightarrow> exn \<Rightarrow> unit res" where
  "guardR b e = (if b then Inr () else Inl e)"

definition bindR :: "'a res \<Rightarrow> ('a \<Rightarrow> 'b res) \<Rightarrow> 'b res" where
  "bindR r f = (case r of Inl e \<Rightarrow> Inl e | Inr x \<Rightarrow> f x)"

named_theorems act_simps \<open>evaluation of the effect combinators\<close>

lemma ret_apply [act_simps]: "ret x s = (Inr x, s)"
  by (simp add: ret_def)

lemma throwE_apply [act_simps]: "throwE e s = (Inl e, s)"
  by (simp add: throwE_def)

lemma liftR_apply [act_simps]: "liftR r s = (r, s)"
  by (simp add: liftR_def)

lemma bindE_apply: "bindE m f s = (case m s of (Inl e, t) \<Rightarrow> (Inl e, t) | (Inr x, t) \<Rightarrow> f x t)"
  by (simp add: bindE_def)

lemma bindE_ret [act_simps, simp]: "bindE (ret x) f = f x"
  by (simp add: bindE_def ret_def)

lemma bindE_throwE [act_simps, simp]: "bindE (throwE e) f = throwE e"
  by (simp add: bindE_def throwE_def)

lemma bindE_Inl: "m s = (Inl e, t) \<Longrightarrow> bindE m f s = (Inl e, t)"
  by (simp add: bindE_def)

lemma bindE_Inr: "m s = (Inr x, t) \<Longrightarrow> bindE m f s = f x t"
  by (simp add: bindE_def)

lemma bindE_liftR_Inr [act_simps, simp]: "bindE (liftR (Inr x)) f = f x"
  by (simp add: bindE_def liftR_def)

lemma bindE_liftR_Inl [act_simps, simp]: "bindE (liftR (Inl e)) f = throwE e"
  by (simp add: bindE_def liftR_def throwE_def)

lemma bindE_assoc: "bindE (bindE m f) g = bindE m (\<lambda>x. bindE (f x) g)"
  by (rule ext) (simp add: bindE_def split: prod.split sum.split)

lemma bindE_InrE:
  assumes "bindE m f s = (Inr y, u)"
  obtains x t where "m s = (Inr x, t)" and "f x t = (Inr y, u)"
  using assms by (auto simp: bindE_def split: prod.splits sum.splits)

lemma bindE_eq_Inr: "bindE m f s = (Inr y, u) \<longleftrightarrow> (\<exists>x t. m s = (Inr x, t) \<and> f x t = (Inr y, u))"
  by (auto simp: bindE_def split: prod.split sum.split)

lemma ret_eq_Inr: "ret x s = (Inr y, t) \<longleftrightarrow> y = x \<and> t = s"
  by (auto simp: ret_def)

lemma throwE_eq_Inr: "throwE e s = (Inr y, t) \<longleftrightarrow> False"
  by (auto simp: throwE_def)

lemma liftR_eq_Inr: "liftR r s = (Inr y, t) \<longleftrightarrow> r = Inr y \<and> t = s"
  by (auto simp: liftR_def)

lemma catchE_eq_Inr: "catchE m h s = (Inr y, u) \<longleftrightarrow> m s = (Inr y, u) \<or> (\<exists>e t. m s = (Inl e, t) \<and> h e t = (Inr y, u))"
  by (auto simp: catchE_def split: prod.split sum.split)

lemma case_throwE_eq_Inr:
  "(case x of None \<Rightarrow> throwE e | Some y \<Rightarrow> f y) s = (Inr r, t) \<longleftrightarrow> (\<exists>y. x = Some y \<and> f y s = (Inr r, t))"
  by (cases x) (simp_all add: throwE_eq_Inr)

lemma if_throwE_eq_Inr: "(if b then throwE e else m) s = (Inr r, t) \<longleftrightarrow> \<not> b \<and> m s = (Inr r, t)"
  by (simp add: throwE_eq_Inr)

lemmas act_Inr = bindE_eq_Inr ret_eq_Inr throwE_eq_Inr liftR_eq_Inr catchE_eq_Inr case_throwE_eq_Inr if_throwE_eq_Inr

lemma transaction_Inl: "transaction m s = (Inl e, t) \<Longrightarrow> t = s"
  by (auto simp: transaction_def split: prod.splits sum.splits)

lemma transaction_Inr: "transaction m s = (Inr x, t) \<longleftrightarrow> m s = (Inr x, t)"
  by (auto simp: transaction_def split: prod.splits sum.splits)

lemma bindR_Inr [simp]: "bindR (Inr x) f = f x"
  by (simp add: bindR_def)

lemma bindR_Inl [simp]: "bindR (Inl e) f = Inl e"
  by (simp add: bindR_def)

lemma bindR_eq_Inr: "bindR r f = Inr y \<longleftrightarrow> (\<exists>x. r = Inr x \<and> f x = Inr y)"
  by (cases r) auto

lemma guardR_Inr [simp]: "guardR b e = Inr u \<longleftrightarrow> b"
  by (simp add: guardR_def)

lemma guardR_Inl [simp]: "guardR b e = Inl x \<longleftrightarrow> \<not> b \<and> x = e"
  by (auto simp: guardR_def)

lemma guardR_simps [simp]: "guardR True e = Inr ()" "guardR False e = Inl e"
  by (simp_all add: guardR_def)

section \<open>The environment\<close>

type_synonym env = "string \<Rightarrow> string option"

text \<open>Times are milliseconds since the epoch, as \<open>Date.now()\<close> reads them.\<close>

type_synonym time = int

definition is_production :: "env \<Rightarrow> bool" where
  "is_production env \<longleftrightarrow> env ''NODE_ENV'' = Some ''production''"

text \<open>JavaScript's truthiness of an optional string: neither \<open>undefined\<close> nor empty.\<close>

definition truthy :: "string option \<Rightarrow> bool" where
  "truthy v \<longleftrightarrow> (case v of None \<Rightarrow> False | Some s \<Rightarrow> s \<noteq> [])"

lemma truthy_simps [simp]: "\<not> truthy None" "truthy (Some s) \<longleftrightarrow> s \<noteq> []"
  by (simp_all add: truthy_def)

section \<open>JavaScript's Map\<close>

type_synonym ('k, 'v) jsmap = "('k \<times> 'v) list"

abbreviation map_get :: "('k, 'v) jsmap \<Rightarrow> 'k \<Rightarrow> 'v option" where
  "map_get m k \<equiv> map_of m k"

abbreviation map_set :: "'k \<Rightarrow> 'v \<Rightarrow> ('k, 'v) jsmap \<Rightarrow> ('k, 'v) jsmap" where
  "map_set k v m \<equiv> AList.update k v m"

abbreviation map_delete :: "'k \<Rightarrow> ('k, 'v) jsmap \<Rightarrow> ('k, 'v) jsmap" where
  "map_delete k m \<equiv> AList.delete k m"

definition map_wf :: "('k, 'v) jsmap \<Rightarrow> bool" where
  "map_wf m \<longleftrightarrow> distinct (map fst m)"

lemma map_wf_Nil [simp]: "map_wf []"
  by (simp add: map_wf_def)

lemma map_wf_set [simp]: "map_wf m \<Longrightarrow> map_wf (map_set k v m)"
  by (simp add: map_wf_def distinct_update)

lemma map_wf_delete [simp]: "map_wf m \<Longrightarrow> map_wf (map_delete k m)"
  by (simp add: map_wf_def distinct_delete)

lemma map_wf_filter [simp]: "map_wf m \<Longrightarrow> map_wf (filter p m)"
  by (auto simp: map_wf_def intro: distinct_map_filter)

lemma map_get_set: "map_get (map_set k v m) k' = (if k' = k then Some v else map_get m k')"
  by (simp add: update_conv')

lemma map_get_delete: "map_get (map_delete k m) k' = (if k' = k then None else map_get m k')"
  by (simp add: delete_conv')

lemma map_get_in: "map_wf m \<Longrightarrow> map_get m k = Some v \<longleftrightarrow> (k, v) \<in> set m"
  by (simp add: map_wf_def)

lemma length_map_set:
  "length (map_set k v m) = (if map_get m k = None then Suc (length m) else length m)"
  by (induction m) auto

lemma length_map_delete_le: "length (map_delete k m) \<le> length m"
  by (simp add: length_delete_le)

lemma map_get_filter:
  "map_wf m \<Longrightarrow> map_get (filter (\<lambda>(k, v). p k v) m) k
     = (case map_get m k of None \<Rightarrow> None | Some v \<Rightarrow> if p k v then Some v else None)"
  by (induction m) (auto simp: map_wf_def split: option.splits dest: map_of_SomeD
      intro!: map_of_eq_None_iff [THEN iffD2] rev_image_eqI)

section \<open>Array idioms\<close>

text \<open>\<open>xs.find(p)\<close> is \<open>List.find\<close>; \<open>xs.map(x => p(x) ? f(x) : x)\<close> is \<open>replace_where\<close>.\<close>

definition replace_where :: "('a \<Rightarrow> bool) \<Rightarrow> ('a \<Rightarrow> 'a) \<Rightarrow> 'a list \<Rightarrow> 'a list" where
  "replace_where p f xs = map (\<lambda>x. if p x then f x else x) xs"

lemma length_replace_where [simp]: "length (replace_where p f xs) = length xs"
  by (simp add: replace_where_def)

lemma replace_where_other: "\<not> p x \<Longrightarrow> x \<in> set xs \<Longrightarrow> x \<in> set (replace_where p f xs)"
  by (force simp: replace_where_def)

lemma set_replace_where:
  "set (replace_where p f xs) = {x \<in> set xs. \<not> p x} \<union> f ` {x \<in> set xs. p x}"
  by (auto simp: replace_where_def)

lemma filter_replace_where_other:
  "(\<And>x. p x \<Longrightarrow> \<not> q x \<and> \<not> q (f x)) \<Longrightarrow> filter q (replace_where p f xs) = filter q xs"
  by (induction xs) (auto simp: replace_where_def)

lemma find_replace_where_same:
  "(\<And>x. p x \<Longrightarrow> p (f x)) \<Longrightarrow> List.find p (replace_where p f xs) = map_option f (List.find p xs)"
  by (induction xs) (auto simp: replace_where_def)

lemma find_replace_where_other:
  "(\<And>x. p x \<Longrightarrow> \<not> q x \<and> \<not> q (f x)) \<Longrightarrow> List.find q (replace_where p f xs) = List.find q xs"
  by (induction xs) (auto simp: replace_where_def)

lemma map_replace_where_id:
  "(\<And>x. p x \<Longrightarrow> g (f x) = g x) \<Longrightarrow> map g (replace_where p f xs) = map g xs"
  by (induction xs) (auto simp: replace_where_def)

lemma find_SomeD: "List.find p xs = Some x \<Longrightarrow> x \<in> set xs \<and> p x"
  by (induction xs) (auto split: if_splits)

lemma find_NoneD: "List.find p xs = None \<Longrightarrow> x \<in> set xs \<Longrightarrow> \<not> p x"
  by (simp add: find_None_iff)

lemma find_cong_simple: "(\<And>x. x \<in> set xs \<Longrightarrow> p x = q x) \<Longrightarrow> List.find p xs = List.find q xs"
  by (induction xs) auto

lemma find_hd_filter: "List.find p xs = (case filter p xs of [] \<Rightarrow> None | x # _ \<Rightarrow> Some x)"
  by (induction xs) auto

text \<open>\<open>xs[0]\<close> and \<open>xs.slice(0, n)\<close>.\<close>

definition head_opt :: "'a list \<Rightarrow> 'a option" where
  "head_opt xs = (case xs of [] \<Rightarrow> None | x # _ \<Rightarrow> Some x)"

lemma head_opt_simps [simp]: "head_opt [] = None" "head_opt (x # xs) = Some x"
  by (simp_all add: head_opt_def)

lemma head_opt_None [simp]: "head_opt xs = None \<longleftrightarrow> xs = []"
  by (cases xs) simp_all

text \<open>\<open>[...xs].sort((l, r) => r.key.localeCompare(l.key))\<close>: a stable sort, newest first.\<close>

definition sort_newest :: "('a \<Rightarrow> time) \<Rightarrow> 'a list \<Rightarrow> 'a list" where
  "sort_newest key xs = sort_key (\<lambda>x. - key x) xs"

lemma set_sort_newest [simp]: "set (sort_newest key xs) = set xs"
  by (simp add: sort_newest_def)

lemma length_sort_newest [simp]: "length (sort_newest key xs) = length xs"
  by (simp add: sort_newest_def)

lemma sort_newest_sorted: "sorted (map (\<lambda>x. - key x) (sort_newest key xs))"
  by (simp add: sort_newest_def)

lemma sort_newest_Cons:
  "(\<And>y. y \<in> set xs \<Longrightarrow> key y \<le> key x) \<Longrightarrow> sort_newest key (x # xs) = x # sort_newest key xs"
  by (simp add: sort_newest_def insort_is_Cons)

section \<open>State machines\<close>

locale machine =
  fixes start :: "'s \<Rightarrow> bool"
    and step :: "'s \<Rightarrow> 's \<Rightarrow> bool"
    and inv :: "'s \<Rightarrow> bool"
  assumes start_inv: "start s \<Longrightarrow> inv s"
    and step_inv: "inv s \<Longrightarrow> step s t \<Longrightarrow> inv t"
begin

lemma run_inv:
  assumes "start s" and "step\<^sup>*\<^sup>* s t"
  shows "inv t"
  using assms(2)
proof (induction rule: rtranclp_induct)
  case base
  show ?case using assms(1) by (rule start_inv)
next
  case (step t u)
  then show ?case by (blast intro: step_inv)
qed

lemma run_inv_from:
  assumes "inv s" and "step\<^sup>*\<^sup>* s t"
  shows "inv t"
  using assms(2,1) by (induction rule: rtranclp_induct) (blast intro: step_inv)+

end

end
