(* ===== verification/JsText.thy ===== *)
theory JsText
  imports Base
begin

text \<open>
  The string functions of JavaScript that the services use, on the strings whose UTF-16 code
  units are all below 256 (one \<open>char\<close> per code unit): \<open>trim\<close>, \<open>toLowerCase\<close>, \<open>toUpperCase\<close>,
  \<open>startsWith\<close>, \<open>includes\<close> (\<open>has_text\<close>), \<open>split\<close>, \<open>indexOf\<close>, \<open>slice\<close>, and the whitespace collapsing of
  \<open>replace(/\s+/g, " ")\<close>.
\<close>

abbreviation cu :: "char \<Rightarrow> nat" where
  "cu c \<equiv> of_char c"

text \<open>White space and line terminators below code unit 256.\<close>

definition js_space :: "char \<Rightarrow> bool" where
  "js_space c \<longleftrightarrow> cu c \<in> {9, 10, 11, 12, 13, 32, 160}"

definition trimStart :: "string \<Rightarrow> string" where
  "trimStart s = dropWhile js_space s"

definition trimEnd :: "string \<Rightarrow> string" where
  "trimEnd s = rev (dropWhile js_space (rev s))"

definition trim :: "string \<Rightarrow> string" where
  "trim s = trimEnd (trimStart s)"

definition lower_char :: "char \<Rightarrow> char" where
  "lower_char c = (let n = cu c in
     if 65 \<le> n \<and> n \<le> 90 \<or> 192 \<le> n \<and> n \<le> 222 \<and> n \<noteq> 215 then char_of (n + 32) else c)"

definition toLowerCase :: "string \<Rightarrow> string" where
  "toLowerCase s = map lower_char s"

text \<open>
  Upper casing leaves the range for two code units (\<open>181\<close> and \<open>255\<close>, kept as they are here)
  and writes the sharp s (\<open>223\<close>) as two letters.
\<close>

definition upper_char :: "char \<Rightarrow> string" where
  "upper_char c = (let n = cu c in
     if 97 \<le> n \<and> n \<le> 122 \<or> 224 \<le> n \<and> n \<le> 254 \<and> n \<noteq> 247 then [char_of (n - 32)]
     else if n = 223 then ''SS'' else [c])"

definition toUpperCase :: "string \<Rightarrow> string" where
  "toUpperCase s = concat (map upper_char s)"

definition startsWith :: "string \<Rightarrow> string \<Rightarrow> bool" where
  "startsWith s p \<longleftrightarrow> take (length p) s = p"

definition endsWith :: "string \<Rightarrow> string \<Rightarrow> bool" where
  "endsWith s p \<longleftrightarrow> startsWith (rev s) (rev p)"

fun has_text :: "string \<Rightarrow> string \<Rightarrow> bool" where
  "has_text [] p = (p = [])"
| "has_text (c # s) p = (startsWith (c # s) p \<or> has_text s p)"

fun split_on :: "char \<Rightarrow> string \<Rightarrow> string list" where
  "split_on d [] = [[]]"
| "split_on d (c # s) =
     (if c = d then [] # split_on d s
      else (case split_on d s of [] \<Rightarrow> [[c]] | w # ws \<Rightarrow> (c # w) # ws))"

fun join_with :: "string \<Rightarrow> string list \<Rightarrow> string" where
  "join_with sep [] = []"
| "join_with sep [w] = w"
| "join_with sep (w # ws) = w @ sep @ join_with sep ws"

fun index_of :: "char \<Rightarrow> string \<Rightarrow> nat option" where
  "index_of d [] = None"
| "index_of d (c # s) = (if c = d then Some 0 else map_option Suc (index_of d s))"

text \<open>\<open>s.slice(n)\<close> for a non-negative \<open>n\<close> is \<open>drop n\<close>, \<open>s.slice(0, n)\<close> is \<open>take n\<close>.\<close>

function collapse_spaces :: "string \<Rightarrow> string" where
  "collapse_spaces [] = []"
| "collapse_spaces (c # s) =
     (if js_space c then CHR '' '' # collapse_spaces (dropWhile js_space s)
      else c # collapse_spaces s)"
  by pat_completeness auto
termination
  by (relation "measure length") (auto simp: le_imp_less_Suc length_dropWhile_le)

text \<open>Decimal digits: \<open>/^\d+$/\<close> and \<open>Number(s)\<close> of such a text.\<close>

definition is_digit :: "char \<Rightarrow> bool" where
  "is_digit c \<longleftrightarrow> 48 \<le> cu c \<and> cu c \<le> 57"

definition digits_value :: "string \<Rightarrow> nat" where
  "digits_value s = fold (\<lambda>c n. 10 * n + (cu c - 48)) s 0"

text \<open>A number in a template text.\<close>

fun nat_text :: "nat \<Rightarrow> string" where
  "nat_text n = (if n < 10 then [char_of (48 + n)] else nat_text (n div 10) @ [char_of (48 + n mod 10)])"

declare nat_text.simps [simp del]

definition int_text :: "int \<Rightarrow> string" where
  "int_text z = (if z < 0 then CHR ''-'' # nat_text (nat (- z)) else nat_text (nat z))"

section \<open>Laws\<close>

lemma set_trim: "set (trim s) \<subseteq> set s"
  unfolding trim_def trimStart_def trimEnd_def
  by (metis set_dropWhileD set_rev subsetI)

lemma trim_Nil [simp]: "trim [] = []"
  by (simp add: trim_def trimStart_def trimEnd_def)

lemma length_trim_le: "length (trim s) \<le> length s"
  unfolding trim_def trimStart_def trimEnd_def
  by (metis length_dropWhile_le length_rev order_trans)

lemma trimEnd_last: "trimEnd s \<noteq> [] \<Longrightarrow> \<not> js_space (last (trimEnd s))"
  by (metis hd_dropWhile last_rev rev_is_Nil_conv trimEnd_def)

lemma dropWhile_id: "xs = [] \<or> \<not> p (hd xs) \<Longrightarrow> dropWhile p xs = xs"
  by (cases xs) auto

lemma trimEnd_append_hd:
  "s \<noteq> [] \<Longrightarrow> \<not> js_space (hd s) \<Longrightarrow> trimEnd s \<noteq> [] \<and> hd (trimEnd s) = hd s"
proof (induction s rule: rev_induct)
  case Nil
  then show ?case by simp
next
  case (snoc c s)
  then show ?case
    by (cases s) (auto simp: trimEnd_def split: if_splits)
qed

lemma trim_hd: "trim s \<noteq> [] \<Longrightarrow> \<not> js_space (hd (trim s))"
  by (metis hd_dropWhile rev.simps(1) dropWhile.simps(1) trimEnd_append_hd trimEnd_def trimStart_def trim_def)

theorem trim_idem: "trim (trim s) = trim s"
proof (cases "trim s = []")
  case True
  then show ?thesis by simp
next
  case False
  then have hd: "trimStart (trim s) = trim s"
    by (simp add: trimStart_def dropWhile_id trim_hd)
  have "\<not> js_space (last (trim s))"
    using False by (simp add: trim_def trimEnd_last)
  then have "trimEnd (trim s) = trim s"
    by (simp add: trimEnd_def dropWhile_id hd_rev)
  with hd show ?thesis by (simp add: trim_def [of "trim s"])
qed

lemma code_lt: "cu c < 256"
  by (metis mod_less_divisor of_char_mod_256 zero_less_numeral)

lemma code_char_of: "n < 256 \<Longrightarrow> cu (char_of n) = n"
  by simp

lemma lower_char_idem [simp]: "lower_char (lower_char c) = lower_char c"
  by (auto simp: lower_char_def Let_def)

theorem toLowerCase_idem [simp]: "toLowerCase (toLowerCase s) = toLowerCase s"
  by (simp add: toLowerCase_def)

lemma length_toLowerCase [simp]: "length (toLowerCase s) = length s"
  by (simp add: toLowerCase_def)

lemma js_space_lower [simp]: "js_space (lower_char c) = js_space c"
  by (auto simp: js_space_def lower_char_def Let_def)

lemma dropWhile_map_lower:
  "dropWhile js_space (map lower_char s) = map lower_char (dropWhile js_space s)"
  by (induction s) auto

lemma trim_lower: "trim (toLowerCase s) = toLowerCase (trim s)"
  by (simp add: trim_def trimStart_def trimEnd_def toLowerCase_def dropWhile_map_lower rev_map)

lemma startsWith_append [simp]: "startsWith (p @ s) p"
  by (simp add: startsWith_def)

lemma startsWith_iff: "startsWith s p \<longleftrightarrow> (\<exists>t. s = p @ t)"
  by (metis append_eq_conv_conj append_take_drop_id startsWith_def)

lemma includes_iff: "has_text s p \<longleftrightarrow> (\<exists>a b. s = a @ p @ b)"
proof (induction s)
  case Nil
  then show ?case by simp
next
  case (Cons c s)
  have "(\<exists>a b. c # s = a @ p @ b) \<longleftrightarrow> startsWith (c # s) p \<or> (\<exists>a b. s = a @ p @ b)"
    unfolding startsWith_iff by (auto simp: Cons_eq_append_conv)
  with Cons show ?case by simp
qed

lemma split_on_nonempty: "split_on d s \<noteq> []"
  by (induction s) (auto split: list.splits)

lemma split_on_no_sep: "w \<in> set (split_on d s) \<Longrightarrow> d \<notin> set w"
  by (induction s arbitrary: w) (auto split: list.splits if_splits)

lemma join_split: "join_with [d] (split_on d s) = s"
proof (induction s)
  case Nil
  then show ?case by simp
next
  case (Cons c s)
  obtain w ws where ws: "split_on d s = w # ws"
    using split_on_nonempty by (cases "split_on d s") auto
  with Cons show ?case by (cases ws) auto
qed

lemma split_on_append:
  "d \<notin> set w \<Longrightarrow> split_on d (w @ d # s) = w # split_on d s"
  by (induction w) auto

lemma split_on_single: "d \<notin> set w \<Longrightarrow> split_on d w = [w]"
  by (induction w) auto

lemma split_joined:
  assumes "\<forall>w \<in> set ws. d \<notin> set w" "ws \<noteq> []"
  shows "split_on d (join_with [d] ws) = ws"
  using assms
proof (induction ws)
  case (Cons w ws)
  show ?case
  proof (cases ws)
    case Nil
    then show ?thesis using Cons.prems by (simp add: split_on_single)
  next
    case (Cons v vs)
    then have "join_with [d] (w # ws) = w @ d # join_with [d] ws" by simp
    then show ?thesis using Cons.IH Cons.prems Cons by (simp add: split_on_append del: join_with.simps)
  qed
qed simp

lemma index_of_append: "d \<notin> set w \<Longrightarrow> index_of d (w @ d # s) = Some (length w)"
  by (induction w) auto

lemma index_of_SomeD: "index_of d s = Some n \<Longrightarrow> n < length s \<and> s ! n = d \<and> d \<notin> set (take n s)"
  by (induction s arbitrary: n) (auto split: if_splits)

lemma nat_text_reads_back: "digits_value (nat_text n) = n"
proof (induction n rule: nat_text.induct)
  case (1 n)
  show ?case
  proof (cases "n < 10")
    case True
    then show ?thesis by (simp add: nat_text.simps [of n] digits_value_def code_char_of)
  next
    case False
    with 1 have "digits_value (nat_text n) = 10 * (n div 10) + n mod 10"
      by (simp add: nat_text.simps [of n] digits_value_def code_char_of)
    then show ?thesis by simp
  qed
qed

end
