(* ===== verification/JsNumber.thy ===== *)
theory JsNumber
  imports Complex_Main JsText
begin

text \<open>
  Numbers. \<open>js_number\<close> is JavaScript's \<open>Number(text)\<close> with exact rational values: a double where the
  exact value has at most 15 significant decimal digits (all the program's settings); the rounding
  of longer literals is not modelled. \<open>round_half_up\<close> is \<open>Math.round\<close>.
\<close>

datatype js_num = NaN | Infinite bool | Fin rat

fun radix_value :: "nat \<Rightarrow> string \<Rightarrow> nat option" where
  "radix_value b [] = Some 0"
| "radix_value b (c # s) =
     (let n = cu c;
          d = (if 48 \<le> n \<and> n \<le> 57 then n - 48 else if 97 \<le> n \<and> n \<le> 102 then n - 87
               else if 65 \<le> n \<and> n \<le> 70 then n - 55 else 16)
      in if d < b then map_option (\<lambda>v. d * b ^ length s + v) (radix_value b s) else None)"

definition exponent_part :: "string \<Rightarrow> int option" where
  "exponent_part s = (case s of [] \<Rightarrow> Some 0
     | c # r \<Rightarrow> if c \<in> {CHR ''e'', CHR ''E''} then
         (let (sign, ds) = (case r of d # ds \<Rightarrow>
              if d = CHR ''-'' then (-1, ds) else if d = CHR ''+'' then (1, ds) else (1, d # ds)
            | [] \<Rightarrow> (1::int, []))
          in if ds \<noteq> [] \<and> list_all is_digit ds then Some (sign * int (digits_value ds)) else None)
       else None)"

definition ten_power :: "int \<Rightarrow> rat" where
  "ten_power e = (if 0 \<le> e then 10 ^ nat e else inverse (10 ^ nat (- e)))"

definition decimal_value :: "string \<Rightarrow> rat option" where
  "decimal_value s =
     (let ip = takeWhile is_digit s; r1 = dropWhile is_digit s;
          (fp, r2) = (case r1 of c # r \<Rightarrow>
              if c = CHR ''.'' then (takeWhile is_digit r, dropWhile is_digit r) else ([], r1) | [] \<Rightarrow> ([], []))
      in if ip = [] \<and> fp = [] then None
         else map_option (\<lambda>e. of_nat (digits_value (ip @ fp)) * ten_power (e - int (length fp))) (exponent_part r2))"

definition js_number :: "string \<Rightarrow> js_num" where
  "js_number text =
     (let t = trim text in
      if t = [] then Fin 0
      else if take 2 t \<in> {''0x'', ''0X'', ''0b'', ''0B'', ''0o'', ''0O''} then
        (let b = (if take 2 t \<in> {''0x'', ''0X''} then 16 else if take 2 t \<in> {''0b'', ''0B''} then 2 else 8)
         in if length t = 2 then NaN
            else (case radix_value b (drop 2 t) of None \<Rightarrow> NaN | Some n \<Rightarrow> Fin (of_nat n)))
      else (let (neg, u) = (if hd t = CHR ''-'' then (True, tl t) else if hd t = CHR ''+'' then (False, tl t) else (False, t))
            in if u = ''Infinity'' then Infinite neg
               else (case decimal_value u of None \<Rightarrow> NaN | Some q \<Rightarrow> Fin (if neg then - q else q))))"

definition is_integer :: "js_num \<Rightarrow> bool" where
  "is_integer x = (case x of Fin q \<Rightarrow> snd (quotient_of q) = 1 | _ \<Rightarrow> False)"

definition is_finite :: "js_num \<Rightarrow> bool" where
  "is_finite x = (case x of Fin _ \<Rightarrow> True | _ \<Rightarrow> False)"

text \<open>\<open>Math.round\<close>: to the nearest integer, halves upwards.\<close>

definition round_half_up :: "rat \<Rightarrow> int" where
  "round_half_up q = \<lfloor>q + 1 / 2\<rfloor>"

lemma round_half_up_mono: "p \<le> q \<Longrightarrow> round_half_up p \<le> round_half_up q"
  by (simp add: round_half_up_def floor_mono)

lemma round_half_up_int [simp]: "round_half_up (of_int n) = n"
  unfolding round_half_up_def by linarith

lemma js_number_examples:
  "js_number ''310000'' = Fin 310000" "js_number ''  '' = Fin 0" "js_number ''12a'' = NaN"
  "js_number ''-1.5'' = Fin (- (3 / 2))" "js_number ''0x1F'' = Fin 31" "js_number ''2e3'' = Fin 2000"
  by (simp_all add: js_number_def trim_def trimStart_def trimEnd_def js_space_def decimal_value_def is_digit_def
      digits_value_def exponent_part_def ten_power_def Let_def)

end
