(* ===== verification/Contracts.thy ===== *)
theory Contracts
  imports Complex_Main Base
begin

text \<open>
  The data shared by every component: the enumerations and interfaces of
  \<open>packages/shared/src/index.ts\<close>, one \<open>datatype\<close> per string union and one \<open>record\<close> per interface
  (\<open>extends\<close> is record extension), with the source's field names behind a short prefix.

  An optional property is an \<open>option\<close>. A timestamp printed by \<open>toISOString\<close> is the \<open>time\<close> it was
  printed from; a start or end date, which a client may have typed, is a \<open>date_text\<close>. Counts and
  durations are integers, scores that an outside provider may report as fractions are rationals.
  The login, password and registration texts are optional because the code tests whether they are
  strings at all; the environment results of a request are JSON values because the code reads
  them as unknown.
\<close>

section \<open>Enumerations\<close>

datatype user_role = ADMIN | ORGANIZATION | PROCTOR | CANDIDATE

datatype signup_status = SIGNUP_PENDING | SIGNUP_APPROVED | SIGNUP_REJECTED

datatype exam_status = DRAFT | SCHEDULED | ACTIVE | ENDED | DELETED

datatype candidate_status = INVITED | READY | IN_PROGRESS | COMPLETED

datatype difficulty = EASY | MEDIUM | HARD

datatype question_type = CODING | MULTIPLE_CHOICE | SHORT_ANSWER | ESSAY

datatype execution_status = EXEC_SUCCESS | EXEC_FAILED

datatype event_type =
    TAB_HIDDEN
  | TAB_VISIBLE
  | WINDOW_BLUR
  | WINDOW_FOCUS
  | COPY
  | PASTE
  | FULLSCREEN_EXIT
  | FULLSCREEN_ENTER
  | PRIMARY_CAMERA_CONNECTED
  | PRIMARY_CAMERA_DISCONNECTED
  | PRIMARY_CAMERA_PERMISSION_DENIED
  | MOBILE_CAMERA_CONNECTED
  | MOBILE_CAMERA_DISCONNECTED
  | MOBILE_CAMERA_PERMISSION_DENIED
  | MOBILE_PAGE_HIDDEN
  | MOBILE_PAGE_VISIBLE
  | MOBILE_PAGE_LEFT
  | MOBILE_NETWORK_OFFLINE
  | MOBILE_NETWORK_ONLINE
  | MOBILE_HEARTBEAT_MISSED

datatype device_role = PRIMARY_PC | MOBILE_AUX

datatype device_status = DEV_WAITING | DEV_CONNECTED | DEV_DISCONNECTED | DEV_PERMISSION_DENIED

datatype risk_level = RISK_SAFE | RISK_WARNING | RISK_DANGER

datatype action_type = WARNING_MESSAGE | PAUSE_EXAM | RESUME_EXAM | TERMINATE_EXAM | MEMO

datatype identity_status = ID_PENDING | ID_VERIFIED | ID_FAILED

datatype kyc_decision = KYC_VERIFIED | KYC_REJECTED | KYC_REVIEW_REQUIRED

datatype env_status = ENV_PASSED | ENV_WARNING | ENV_FAILED

datatype env_item = ITEM_BROWSER | ITEM_NETWORK | ITEM_CAMERA | ITEM_MICROPHONE | ITEM_SCREEN

datatype access_status = ACCESS_PENDING | ACCESS_APPROVED | ACCESS_REJECTED

datatype invitation_status = INVITATION_PENDING | INVITATION_ACCEPTED | INVITATION_CANCELLED

datatype readiness_status = OPS_READY | OPS_WARNING | OPS_ACTION_REQUIRED

datatype setup_reason = SETUP_READY | USERS_EXIST | DATABASE_UNAVAILABLE

datatype email_status = EMAIL_SENT | EMAIL_FAILED

section \<open>Values of unknown type\<close>

text \<open>What \<open>JSON.parse\<close> or a request body can hold.\<close>

datatype json = JNull | JBool bool | JNum rat | JStr string | JArr "json list" | JObj "(string \<times> json) list"

text \<open>
  \<open>IsoText t\<close> is the text \<open>toISOString\<close> prints for \<open>t\<close>; \<open>ClientText s\<close> is any other text, as a
  client sent it.
\<close>

datatype date_text = IsoText time | ClientText string

definition CURRENT_PRIVACY_POLICY_VERSION :: string where
  "CURRENT_PRIVACY_POLICY_VERSION = ''2026-07-18''"

section \<open>Interfaces\<close>

record user_ref =
  ur_id :: string
  ur_name :: string
  ur_email :: string

record browser_evidence =
  be_userAgent :: string
  be_secureContext :: bool
  be_checkedAt :: string

record report_signals =
  rs_submissions :: int
  rs_passedTests :: int
  rs_failedTests :: int
  rs_codeRuns :: int
  rs_pasteEvents :: int
  rs_riskScore :: int
  rs_elapsedMinutes :: int

record organization =
  org_id :: string
  org_name :: string
  org_joinCode :: "string option"
  org_createdAt :: time

record organization_option =
  oo_id :: string
  oo_name :: string

record user =
  usr_id :: string
  usr_email :: string
  usr_name :: string
  usr_role :: user_role
  usr_organizationId :: "string option"
  usr_createdAt :: time

record auth_session =
  as_token :: string
  as_user :: user
  as_organization :: organization
  as_passwordChangeRequired :: "bool option"

record signup_request =
  sr_id :: string
  sr_organizationName :: string
  sr_name :: string
  sr_email :: string
  sr_status :: signup_status
  sr_requestedRole :: user_role
  sr_rejectionReason :: "string option"
  sr_reviewedById :: "string option"
  sr_approvedUserId :: "string option"
  sr_createdAt :: time
  sr_reviewedAt :: "time option"

record login_input =
  li_email :: "string option"
  li_password :: "string option"

record change_password_input =
  cp_currentPassword :: "string option"
  cp_newPassword :: "string option"

record setup_status =
  ss_enabled :: bool
  ss_reason :: setup_reason

record initial_admin_input =
  ia_organizationName :: string
  ia_name :: string
  ia_email :: string
  ia_password :: "string option"
  ia_privacyConsentAccepted :: bool
  ia_privacyPolicyVersion :: string

record signup_request_input =
  si_organizationName :: string
  si_name :: string
  si_email :: string
  si_password :: "string option"
  si_reason :: string

record org_signup_input =
  osi_organizationName :: string
  osi_reason :: string

record register_input =
  ri_name :: string
  ri_email :: string
  ri_password :: "string option"
  ri_privacyConsentAccepted :: bool
  ri_privacyPolicyVersion :: string

record access_request_input =
  ari_joinCode :: string
  ari_requestedRole :: user_role
  ari_reason :: string

record access_review_input =
  avi_action :: string
  avi_rejectionReason :: "string option"

record access_request =
  ar_id :: string
  ar_user :: user_ref
  ar_organization :: organization
  ar_requestedRole :: user_role
  ar_reason :: string
  ar_status :: access_status
  ar_rejectionReason :: "string option"
  ar_reviewedById :: "string option"
  ar_createdAt :: time
  ar_reviewedAt :: "time option"

record pending_approval_count =
  pac_count :: int

record invitation_input =
  ii_email :: string
  ii_requestedRole :: user_role

record accept_invitation_input =
  aii_invitationId :: string

record org_invitation =
  inv_id :: string
  inv_token :: string
  inv_organization :: organization
  inv_email :: string
  inv_requestedRole :: user_role
  inv_status :: invitation_status
  inv_createdAt :: time
  inv_acceptedAt :: "time option"
  inv_message :: string

record update_user_input =
  uu_name :: string
  uu_email :: string
  uu_role :: user_role
  uu_organizationId :: "string option"

record signup_review_input =
  sri_action :: string
  sri_rejectionReason :: "string option"

record exam =
  ex_id :: string
  ex_organizationId :: string
  ex_title :: string
  ex_description :: string
  ex_startAt :: date_text
  ex_endAt :: date_text
  ex_durationMinutes :: int
  ex_status :: exam_status
  ex_languages :: "string list"
  ex_proctoringEnabled :: bool
  ex_identityVerificationEnabled :: bool
  ex_mobileCameraRequired :: bool
  ex_screenShareRequired :: bool
  ex_createdAt :: time

record question =
  q_id :: string
  q_examId :: string
  q_title :: string
  q_description :: string
  q_type :: question_type
  q_points :: int
  q_difficulty :: difficulty
  q_timeLimitMs :: int
  q_memoryLimitMb :: int
  q_choices :: "string list"
  q_expectedAnswer :: "string option"
  q_createdAt :: time

record test_case =
  tc_id :: string
  tc_questionId :: string
  tc_input :: string
  tc_expectedOutput :: string
  tc_isPublic :: bool
  tc_createdAt :: time

record candidate =
  cand_id :: string
  cand_examId :: string
  cand_name :: string
  cand_email :: string
  cand_status :: candidate_status
  cand_inviteToken :: string
  cand_identityPrivacyConsentVersion :: "string option"
  cand_identityPrivacyConsentAcceptedAt :: "time option"
  cand_createdAt :: time

record proctor_device =
  pd_id :: string
  pd_candidateId :: string
  pd_examId :: string
  pd_role :: device_role
  pd_status :: device_status
  pd_connectedAt :: "time option"
  pd_disconnectedAt :: "time option"
  pd_lastHeartbeatAt :: "time option"
  pd_detail :: "string option"
  pd_createdAt :: time
  pd_updatedAt :: time

record identity_verification =
  iv_id :: string
  iv_candidateId :: string
  iv_examId :: string
  iv_documentCaptureConfirmed :: bool
  iv_documentImageName :: string
  iv_faceImageCaptured :: bool
  iv_provider :: string
  iv_providerDecision :: kyc_decision
  iv_providerReferenceId :: string
  iv_failureReason :: "string option"
  iv_similarityScore :: rat
  iv_documentAuthenticityScore :: rat
  iv_faceMatchScore :: rat
  iv_livenessScore :: rat
  iv_ocrNameMatched :: bool
  iv_verificationChecks :: "string list"
  iv_privacyConsentVersion :: "string option"
  iv_privacyConsentAcceptedAt :: "time option"
  iv_status :: identity_status
  iv_verifiedAt :: "time option"
  iv_createdAt :: time

record env_check_result =
  er_id :: env_item
  er_status :: env_status
  er_detail :: "string option"

record environment_check =
  ec_id :: string
  ec_candidateId :: string
  ec_examId :: string
  ec_results :: "env_check_result list"
  ec_requiredPassed :: bool
  ec_createdAt :: time

record candidate_invite =
  ci_candidate :: candidate
  ci_exam :: exam
  ci_organization :: organization
  ci_questions :: "question list"
  ci_proctorDevices :: "proctor_device list"
  ci_identityVerification :: "identity_verification option"
  ci_environmentCheck :: "environment_check option"

record judge_test_result =
  jt_id :: string
  jt_codeExecutionId :: "string option"
  jt_submissionId :: "string option"
  jt_testIndex :: int
  jt_input :: string
  jt_expectedOutput :: string
  jt_actualOutput :: string
  jt_passed :: bool
  jt_error :: "string option"
  jt_executionTimeMs :: int
  jt_isPublic :: bool
  jt_createdAt :: time

record submission =
  sub_id :: string
  sub_examId :: string
  sub_candidateId :: string
  sub_questionId :: string
  sub_language :: string
  sub_code :: string
  sub_score :: int
  sub_passedTests :: int
  sub_totalTests :: int
  sub_testResults :: "judge_test_result list"
  sub_submittedAt :: time

record code_execution =
  ce_id :: string
  ce_candidateId :: string
  ce_questionId :: string
  ce_language :: string
  ce_code :: string
  ce_status :: execution_status
  ce_output :: string
  ce_error :: "string option"
  ce_executionTimeMs :: int
  ce_memoryUsageMb :: int
  ce_passedTests :: int
  ce_totalTests :: int
  ce_testResults :: "judge_test_result list"
  ce_createdAt :: time

record proctor_event =
  pe_id :: string
  pe_candidateId :: string
  pe_examId :: string
  pe_type :: event_type
  pe_detail :: "string option"
  pe_createdAt :: time

record proctor_action =
  pa_id :: string
  pa_candidateId :: string
  pa_examId :: string
  pa_type :: action_type
  pa_message :: string
  pa_createdAt :: time

record env_check_session =
  es_sessionId :: string
  es_evidenceToken :: string
  es_expiresAt :: string
  es_requiredItems :: "env_item list"

record exam_session =
  xs_id :: string
  xs_candidateId :: string
  xs_examId :: string
  xs_startedAt :: time
  xs_endsAt :: time
  xs_completedAt :: "time option"
  xs_serverNow :: time
  xs_remainingSeconds :: int

record code_draft =
  cd_id :: string
  cd_candidateId :: string
  cd_examId :: string
  cd_questionId :: string
  cd_language :: string
  cd_code :: string
  cd_savedAt :: time
  cd_createdAt :: time

record invite_email_log =
  el_id :: string
  el_candidateId :: string
  el_examId :: string
  el_email :: string
  el_inviteUrl :: string
  el_provider :: string
  el_providerMessageId :: "string option"
  el_status :: email_status
  el_message :: string
  el_sentAt :: "time option"
  el_createdAt :: time

record question_with_tests = question +
  qt_testCases :: "test_case list"

record candidate_workspace = candidate_invite +
  cw_submissions :: "submission list"
  cw_executions :: "code_execution list"
  cw_proctorEvents :: "proctor_event list"
  cw_proctorActions :: "proctor_action list"
  cw_examSession :: exam_session
  cw_drafts :: "code_draft list"

record competency_report =
  rep_id :: string
  rep_examSessionId :: string
  rep_candidateId :: string
  rep_examId :: string
  rep_problemSolvingScore :: rat
  rep_implementationScore :: rat
  rep_debuggingScore :: rat
  rep_codeQualityScore :: rat
  rep_timeManagementScore :: rat
  rep_integrityScore :: rat
  rep_overallScore :: rat
  rep_aiSummary :: string
  rep_strengths :: "string list"
  rep_improvementAreas :: "string list"
  rep_recommendations :: "string list"
  rep_createdAt :: time

record candidate_exam_report =
  cr_candidate :: candidate
  cr_submissions :: "submission list"
  cr_executions :: "code_execution list"
  cr_latestSubmission :: "submission option"
  cr_latestExecution :: "code_execution option"
  cr_latestAiReport :: "competency_report option"
  cr_latestIdentityVerification :: "identity_verification option"
  cr_latestEnvironmentCheck :: "environment_check option"
  cr_bestScore :: int
  cr_submissionCount :: int
  cr_executionCount :: int
  cr_riskEventCount :: int
  cr_riskScore :: int
  cr_riskLevel :: risk_level
  cr_proctorEvents :: "proctor_event list"
  cr_proctorDevices :: "proctor_device list"
  cr_proctorActions :: "proctor_action list"
  cr_aiReports :: "competency_report list"
  cr_inviteEmailLogs :: "invite_email_log list"

record exam_report =
  xr_exam :: exam
  xr_candidates :: "candidate_exam_report list"

record code_run_input =
  cri_questionId :: string
  cri_language :: string
  cri_code :: string

record code_submit_input =
  csi_questionId :: string
  csi_language :: string
  csi_code :: string

record code_draft_input =
  cdi_questionId :: string
  cdi_language :: string
  cdi_code :: string

record event_input =
  ei_type :: event_type
  ei_detail :: "string option"

record device_input =
  di_role :: device_role
  di_status :: device_status
  di_detail :: "string option"

record live_candidate =
  lc_candidate :: candidate
  lc_riskScore :: int
  lc_riskLevel :: risk_level
  lc_proctorEvents :: "proctor_event list"
  lc_proctorDevices :: "proctor_device list"
  lc_proctorActions :: "proctor_action list"

record live_exam =
  le_exam :: exam
  le_candidates :: "live_candidate list"

record identity_input =
  idi_documentImageName :: "string option"
  idi_documentCaptured :: bool
  idi_faceImageCaptured :: bool
  idi_livenessConfirmed :: bool
  idi_providerSessionId :: "string option"
  idi_documentUploadRef :: "string option"
  idi_faceUploadRef :: "string option"

record consent_input =
  coi_privacyConsentAccepted :: bool
  coi_privacyPolicyVersion :: string

record provider_session =
  ps_provider :: string
  ps_providerSessionId :: string
  ps_documentUploadRef :: string
  ps_faceUploadRef :: string
  ps_expiresAt :: string

record env_check_input =
  eci_sessionId :: string
  eci_evidenceToken :: string
  eci_results :: "json list"
  eci_browserEvidence :: browser_evidence

record exam_detail = exam +
  xd_questions :: "question_with_tests list"
  xd_candidates :: "candidate list"

record dashboard_summary =
  ds_organization :: organization
  ds_totalExams :: int
  ds_activeExams :: int
  ds_totalCandidates :: int
  ds_pendingReports :: int
  ds_recentExams :: "exam list"

record readiness_check =
  rc_id :: string
  rc_label :: string
  rc_status :: readiness_status
  rc_detail :: string
  rc_action :: string

record operations_readiness =
  or_generatedAt :: time
  or_overallStatus :: readiness_status
  or_checks :: "readiness_check list"

record invite_email_result =
  ir_candidateId :: string
  ir_email :: string
  ir_inviteUrl :: string
  ir_delivered :: bool
  ir_provider :: string
  ir_providerMessageId :: "string option"
  ir_message :: string
  ir_log :: "invite_email_log option"

record exam_input =
  xi_title :: string
  xi_description :: string
  xi_startAt :: date_text
  xi_endAt :: date_text
  xi_durationMinutes :: int
  xi_languages :: "string list"
  xi_proctoringEnabled :: bool
  xi_identityVerificationEnabled :: bool
  xi_mobileCameraRequired :: bool
  xi_screenShareRequired :: bool

record question_input =
  qi_title :: string
  qi_description :: string
  qi_type :: question_type
  qi_points :: int
  qi_difficulty :: difficulty
  qi_timeLimitMs :: int
  qi_memoryLimitMb :: int
  qi_choices :: "string list"
  qi_expectedAnswer :: "string option"

record test_case_input =
  tci_input :: string
  tci_expectedOutput :: string
  tci_isPublic :: bool

record candidate_input =
  cai_name :: string
  cai_email :: string

record action_input =
  ai_type :: action_type
  ai_message :: string

record report_input =
  gr_examSessionId :: string
  gr_candidateId :: string
  gr_examId :: string
  gr_signals :: report_signals

end
