(* ===== verification/SessionRegistry.thy ===== *)
theory SessionRegistry
  imports Contracts
begin

text \<open>
  The in-memory session registry (\<open>auth-session-registry.ts\<close>): a JavaScript \<open>Map\<close> from tokens to
  sessions with an absolute and an idle lifetime, one expiry timer per session, and a listener
  that hears of every revoked session.

  The timers of Node are part of the state: \<open>reg_timers\<close> maps the handle \<open>setTimeout\<close> returned to
  its due time and the token its callback expires; \<open>clearTimeout\<close> deletes it; \<open>fire\<close> runs a callback.
  \<open>reg_revoked\<close> records the calls of the listener, the latest last.
\<close>

section \<open>State and operations\<close>

record stored_session =
  st_session :: auth_session
  st_createdAt :: time
  st_lastSeenAt :: time
  st_expiryTimer :: nat

record registry =
  reg_sessions :: "(string, stored_session) jsmap"
  reg_timers :: "(nat, time \<times> string) jsmap"
  reg_nextTimer :: nat
  reg_revoked :: "auth_session list"

record registry_options =
  absoluteTtlMs :: time
  idleTtlMs :: time

definition ABSOLUTE_TTL_MS :: time where
  "ABSOLUTE_TTL_MS = 8 * 60 * 60 * 1000"

definition IDLE_TTL_MS :: time where
  "IDLE_TTL_MS = 30 * 60 * 1000"

definition default_options :: registry_options where
  "default_options = \<lparr>absoluteTtlMs = ABSOLUTE_TTL_MS, idleTtlMs = IDLE_TTL_MS\<rparr>"

definition empty_registry :: registry where
  "empty_registry = \<lparr>reg_sessions = [], reg_timers = [], reg_nextTimer = 0, reg_revoked = []\<rparr>"

definition clear_timer :: "nat option \<Rightarrow> registry \<Rightarrow> registry" where
  "clear_timer h r = (case h of None \<Rightarrow> r
     | Some i \<Rightarrow> r\<lparr>reg_timers := map_delete i (reg_timers r)\<rparr>)"

definition expires_at :: "registry_options \<Rightarrow> stored_session \<Rightarrow> time" where
  "expires_at opts st = min (st_createdAt st + absoluteTtlMs opts) (st_lastSeenAt st + idleTtlMs opts)"

text \<open>\<open>store\<close>: clear the previous timer, start a new one, write the entry.\<close>

definition store_session ::
  "registry_options \<Rightarrow> time \<Rightarrow> string \<Rightarrow> auth_session \<Rightarrow> time \<Rightarrow> time \<Rightarrow> nat option \<Rightarrow> registry \<Rightarrow> registry"
where
  "store_session opts now token session createdAt lastSeenAt previousTimer r =
     (let r1 = clear_timer previousTimer r;
          h = reg_nextTimer r1;
          st = \<lparr>st_session = session, st_createdAt = createdAt, st_lastSeenAt = lastSeenAt, st_expiryTimer = h\<rparr>;
          due = now + max 0 (expires_at opts st - now)
      in r1\<lparr>reg_timers := map_set h (due, token) (reg_timers r1), reg_nextTimer := Suc h,
            reg_sessions := map_set token st (reg_sessions r1)\<rparr>)"

text \<open>The test both \<open>get\<close> and \<open>expire\<close> make.\<close>

definition is_expired :: "registry_options \<Rightarrow> time \<Rightarrow> stored_session \<Rightarrow> bool" where
  "is_expired opts now st \<longleftrightarrow> st_createdAt st + absoluteTtlMs opts \<le> now \<or> st_lastSeenAt st + idleTtlMs opts \<le> now"

definition delete_session :: "string \<Rightarrow> registry \<Rightarrow> auth_session option \<times> registry" where
  "delete_session token r = (case map_get (reg_sessions r) token of
       None \<Rightarrow> (None, r)
     | Some st \<Rightarrow>
         let r1 = clear_timer (Some (st_expiryTimer st)) (r\<lparr>reg_sessions := map_delete token (reg_sessions r)\<rparr>)
         in (Some (st_session st), r1\<lparr>reg_revoked := reg_revoked r1 @ [st_session st]\<rparr>))"

definition get_session :: "registry_options \<Rightarrow> time \<Rightarrow> string \<Rightarrow> registry \<Rightarrow> auth_session option \<times> registry" where
  "get_session opts now token r = (case map_get (reg_sessions r) token of
       None \<Rightarrow> (None, r)
     | Some st \<Rightarrow>
         if is_expired opts now st then (None, snd (delete_session token r))
         else (Some (st_session st),
               store_session opts now token (st_session st) (st_createdAt st) now (Some (st_expiryTimer st)) r))"

definition set_session :: "registry_options \<Rightarrow> time \<Rightarrow> string \<Rightarrow> auth_session \<Rightarrow> registry \<Rightarrow> registry" where
  "set_session opts now token session r =
     (let stored = map_get (reg_sessions r) token
      in store_session opts now token session
           (case stored of None \<Rightarrow> now | Some st \<Rightarrow> st_createdAt st) now
           (map_option st_expiryTimer stored) r)"

text \<open>
  \<open>revokeUser\<close> walks the entries in order and deletes those of the user; deleting the current
  entry of a \<open>Map\<close> does not disturb the walk, so it is a loop over the entries at its start.
\<close>

fun revoke_entries :: "string \<Rightarrow> (string \<times> stored_session) list \<Rightarrow> registry \<Rightarrow> auth_session list \<times> registry" where
  "revoke_entries userId [] r = ([], r)"
| "revoke_entries userId ((token, st) # rest) r =
     (if usr_id (as_user (st_session st)) \<noteq> userId then revoke_entries userId rest r
      else (let (revoked, r') = revoke_entries userId rest (snd (delete_session token r))
            in (st_session st # revoked, r')))"

definition revokeUser :: "string \<Rightarrow> registry \<Rightarrow> auth_session list \<times> registry" where
  "revokeUser userId r = revoke_entries userId (reg_sessions r) r"

definition expire_session :: "registry_options \<Rightarrow> time \<Rightarrow> string \<Rightarrow> registry \<Rightarrow> registry" where
  "expire_session opts now token r = (case map_get (reg_sessions r) token of
       None \<Rightarrow> r
     | Some st \<Rightarrow>
         if st_createdAt st + absoluteTtlMs opts > now \<and> st_lastSeenAt st + idleTtlMs opts > now
         then store_session opts now token (st_session st) (st_createdAt st) (st_lastSeenAt st) (Some (st_expiryTimer st)) r
         else snd (delete_session token r))"

text \<open>Node runs the callback of a pending timer, which removes the timer and calls \<open>expire\<close>.\<close>

definition fire_timer :: "registry_options \<Rightarrow> time \<Rightarrow> nat \<Rightarrow> registry \<Rightarrow> registry" where
  "fire_timer opts now h r = (case map_get (reg_timers r) h of
       None \<Rightarrow> r
     | Some (due, token) \<Rightarrow> expire_session opts now token (clear_timer (Some h) r))"

section \<open>The registry as a state machine\<close>

text \<open>
  A state is a registry and the clock. The operations happen at the clock's time; a timer may
  fire at any time (also early, which the code allows for by starting it again).
\<close>

inductive reg_step :: "registry_options \<Rightarrow> registry \<times> time \<Rightarrow> registry \<times> time \<Rightarrow> bool"
  for opts :: registry_options where
  tick: "now \<le> now' \<Longrightarrow> reg_step opts (r, now) (r, now')"
| get: "reg_step opts (r, now) (snd (get_session opts now token r), now)"
| set: "reg_step opts (r, now) (set_session opts now token session r, now)"
| delete: "reg_step opts (r, now) (snd (delete_session token r), now)"
| revoke: "reg_step opts (r, now) (snd (revokeUser userId r), now)"
| fire: "reg_step opts (r, now) (fire_timer opts now h r, now)"

inductive_cases reg_stepE: "reg_step opts (r, now) s'"

text \<open>
  Every session has its own pending timer, which names it and is due no later than the session
  expires (or at once, when the session was already expired when it was stored); no other
  timer is pending.
\<close>

definition timer_ok :: "registry_options \<Rightarrow> registry \<Rightarrow> time \<Rightarrow> string \<Rightarrow> stored_session \<Rightarrow> bool" where
  "timer_ok opts r now token st \<longleftrightarrow>
     (\<exists>due. map_get (reg_timers r) (st_expiryTimer st) = Some (due, token) \<and>
            (due \<le> expires_at opts st \<or> due \<le> now))"

definition reg_inv :: "registry_options \<Rightarrow> registry \<times> time \<Rightarrow> bool" where
  "reg_inv opts = (\<lambda>(r, now).
     map_wf (reg_sessions r) \<and> map_wf (reg_timers r) \<and>
     (\<forall>h p. map_get (reg_timers r) h = Some p \<longrightarrow> h < reg_nextTimer r) \<and>
     (\<forall>token st. map_get (reg_sessions r) token = Some st \<longrightarrow> timer_ok opts r now token st) \<and>
     (\<forall>h due token. map_get (reg_timers r) h = Some (due, token) \<longrightarrow>
        (\<exists>st. map_get (reg_sessions r) token = Some st \<and> st_expiryTimer st = h)))"

text \<open>A step in which the token stays stored.\<close>

definition keeps_token :: "registry_options \<Rightarrow> string \<Rightarrow> registry \<times> time \<Rightarrow> registry \<times> time \<Rightarrow> bool" where
  "keeps_token opts token s t \<longleftrightarrow> reg_step opts s t \<and> map_get (reg_sessions (fst t)) token \<noteq> None"

section \<open>The operations keep the invariant\<close>

named_theorems reg_simps \<open>projections of the registry's operations\<close>

lemma clear_timer_simps [reg_simps]:
  "reg_sessions (clear_timer h r) = reg_sessions r"
  "reg_nextTimer (clear_timer h r) = reg_nextTimer r"
  "reg_revoked (clear_timer h r) = reg_revoked r"
  "reg_timers (clear_timer None r) = reg_timers r"
  "reg_timers (clear_timer (Some i) r) = map_delete i (reg_timers r)"
  by (simp_all add: clear_timer_def split: option.split)

lemma store_session_simps [reg_simps]:
  "reg_sessions (store_session opts now token session c l prev r) =
     map_set token \<lparr>st_session = session, st_createdAt = c, st_lastSeenAt = l, st_expiryTimer = reg_nextTimer r\<rparr>
       (reg_sessions r)"
  "reg_timers (store_session opts now token session c l prev r) =
     map_set (reg_nextTimer r) (max now (min (c + absoluteTtlMs opts) (l + idleTtlMs opts)), token)
       (reg_timers (clear_timer prev r))"
  "reg_nextTimer (store_session opts now token session c l prev r) = Suc (reg_nextTimer r)"
  "reg_revoked (store_session opts now token session c l prev r) = reg_revoked r"
  by (simp_all add: store_session_def Let_def expires_at_def reg_simps max_def)

lemma delete_session_simps:
  "map_get (reg_sessions r) token = None \<Longrightarrow> delete_session token r = (None, r)"
  "map_get (reg_sessions r) token = Some st \<Longrightarrow>
     delete_session token r = (Some (st_session st),
       r\<lparr>reg_sessions := map_delete token (reg_sessions r),
         reg_timers := map_delete (st_expiryTimer st) (reg_timers r),
         reg_revoked := reg_revoked r @ [st_session st]\<rparr>)"
  by (simp_all add: delete_session_def clear_timer_def)

lemma map_get_delete_sessions [reg_simps]:
  "map_get (reg_sessions (snd (delete_session token r))) token' =
     (if token' = token then None else map_get (reg_sessions r) token')"
  by (cases "map_get (reg_sessions r) token") (auto simp: delete_session_simps map_get_delete)

lemma reg_invD:
  assumes "reg_inv opts (r, now)"
  shows "map_wf (reg_sessions r)" and "map_wf (reg_timers r)"
    and "map_get (reg_timers r) h = Some p \<Longrightarrow> h < reg_nextTimer r"
    and "map_get (reg_sessions r) token = Some st \<Longrightarrow> timer_ok opts r now token st"
    and "map_get (reg_timers r) h = Some (due, token) \<Longrightarrow>
      \<exists>st. map_get (reg_sessions r) token = Some st \<and> st_expiryTimer st = h"
  using assms by (auto simp: reg_inv_def)

lemma reg_invI:
  assumes "map_wf (reg_sessions r)" and "map_wf (reg_timers r)"
    and "\<And>h p. map_get (reg_timers r) h = Some p \<Longrightarrow> h < reg_nextTimer r"
    and "\<And>token st. map_get (reg_sessions r) token = Some st \<Longrightarrow> timer_ok opts r now token st"
    and "\<And>h due token. map_get (reg_timers r) h = Some (due, token) \<Longrightarrow>
      \<exists>st. map_get (reg_sessions r) token = Some st \<and> st_expiryTimer st = h"
  shows "reg_inv opts (r, now)"
  using assms by (auto simp: reg_inv_def)

text \<open>Two sessions never share a timer.\<close>

lemma timers_distinct:
  assumes "reg_inv opts (r, now)"
    and "map_get (reg_sessions r) tok1 = Some st1" and "map_get (reg_sessions r) tok2 = Some st2"
    and "st_expiryTimer st1 = st_expiryTimer st2"
  shows "tok1 = tok2"
  using reg_invD(4) [OF assms(1,2)] reg_invD(4) [OF assms(1,3)] assms(4)
  by (auto simp: timer_ok_def)

text \<open>The registry without one session and its timer still satisfies the invariant.\<close>

definition without :: "string \<Rightarrow> registry \<Rightarrow> registry" where
  "without token r = (case map_get (reg_sessions r) token of None \<Rightarrow> r
     | Some st \<Rightarrow> r\<lparr>reg_sessions := map_delete token (reg_sessions r),
                   reg_timers := map_delete (st_expiryTimer st) (reg_timers r)\<rparr>)"

lemma without_sessions:
  "map_get (reg_sessions (without token r)) tok = (if tok = token then None else map_get (reg_sessions r) tok)"
  by (auto simp: without_def map_get_delete split: option.split)

lemma without_inv:
  assumes inv: "reg_inv opts (r, now)"
  shows "reg_inv opts (without token r, now)"
proof (cases "map_get (reg_sessions r) token")
  case None
  then show ?thesis using inv by (simp add: without_def)
next
  case (Some st)
  note w = without_def [of token r, unfolded Some option.case]
  show ?thesis
  proof (rule reg_invI)
    fix tok st'
    assume "map_get (reg_sessions (without token r)) tok = Some st'"
    then have ne: "tok \<noteq> token" and st': "map_get (reg_sessions r) tok = Some st'"
      by (auto simp: without_sessions split: if_splits)
    have "st_expiryTimer st' \<noteq> st_expiryTimer st"
      using timers_distinct [OF inv st' Some] ne by blast
    then show "timer_ok opts (without token r) now tok st'"
      using reg_invD(4) [OF inv st'] by (simp add: timer_ok_def w map_get_delete)
  next
    fix h due tok
    assume "map_get (reg_timers (without token r)) h = Some (due, tok)"
    then have "h \<noteq> st_expiryTimer st" and "map_get (reg_timers r) h = Some (due, tok)"
      by (auto simp: w map_get_delete split: if_splits)
    then show "\<exists>st. map_get (reg_sessions (without token r)) tok = Some st \<and> st_expiryTimer st = h"
      using reg_invD(5) [OF inv, of h due tok] Some by (auto simp: without_sessions)
  next
    fix h p
    assume "map_get (reg_timers (without token r)) h = Some p"
    then have "map_get (reg_timers r) h = Some p"
      by (auto simp: w map_get_delete split: if_splits)
    then show "h < reg_nextTimer (without token r)"
      using reg_invD(3) [OF inv] by (simp add: w)
  qed (use reg_invD(1,2) [OF inv] in \<open>simp_all add: w\<close>)
qed

lemma clear_timers_without:
  "reg_timers (clear_timer (map_option st_expiryTimer (map_get (reg_sessions r) token)) r) =
     reg_timers (without token r)"
  by (simp add: without_def clear_timer_def split: option.split)

lemma store_session_inv:
  assumes inv: "reg_inv opts (r, now)"
    and prev: "prev = map_option st_expiryTimer (map_get (reg_sessions r) token)"
  shows "reg_inv opts (store_session opts now token session c l prev r, now)" (is "reg_inv opts (?r, now)")
proof (rule reg_invI)
  let ?w = "without token r"
  note winv = without_inv [OF inv, of token]
  have next_w: "reg_nextTimer ?w = reg_nextTimer r"
    by (simp add: without_def split: option.split)
  have timers: "reg_timers ?r = map_set (reg_nextTimer r)
      (max now (min (c + absoluteTtlMs opts) (l + idleTtlMs opts)), token) (reg_timers ?w)"
    by (simp only: store_session_simps prev clear_timers_without)
  show "map_wf (reg_sessions ?r)" "map_wf (reg_timers ?r)"
    using reg_invD(1) [OF inv] reg_invD(2) [OF winv] by (simp_all add: timers store_session_simps(1))
  show "h < reg_nextTimer ?r" if "map_get (reg_timers ?r) h = Some p" for h p
    using that reg_invD(3) [OF winv, of h p]
    by (auto simp: timers map_get_set store_session_simps(3) next_w split: if_splits)
  show "timer_ok opts ?r now tok st" if st: "map_get (reg_sessions ?r) tok = Some st" for tok st
  proof (cases "tok = token")
    case True
    with st show ?thesis
      by (auto simp: timer_ok_def timers map_get_set store_session_simps(1) expires_at_def max_def)
  next
    case False
    with st have "map_get (reg_sessions ?w) tok = Some st"
      by (simp add: store_session_simps(1) map_get_set without_sessions)
    from reg_invD(4) [OF winv this] show ?thesis
      using reg_invD(3) [OF winv] by (fastforce simp: timer_ok_def timers map_get_set next_w)
  qed
  show "\<exists>st. map_get (reg_sessions ?r) tok = Some st \<and> st_expiryTimer st = h"
    if h: "map_get (reg_timers ?r) h = Some (due, tok)" for h due tok
  proof (cases "h = reg_nextTimer r")
    case True
    with h show ?thesis by (auto simp: timers map_get_set store_session_simps(1))
  next
    case False
    with h have "map_get (reg_timers ?w) h = Some (due, tok)"
      by (simp add: timers map_get_set)
    from reg_invD(5) [OF winv this] show ?thesis
      by (auto simp: without_sessions store_session_simps(1) map_get_set split: if_splits)
  qed
qed

lemma restore_session_inv:
  assumes "reg_inv opts (r, now)" and "map_get (reg_sessions r) token = Some st"
  shows "reg_inv opts (store_session opts now token session c l (Some (st_expiryTimer st)) r, now)"
  by (rule store_session_inv [OF assms(1)]) (simp add: assms(2))

lemma reg_inv_notify:
  "reg_inv opts (r\<lparr>reg_revoked := xs\<rparr>, now) = reg_inv opts (r, now)"
  by (simp add: reg_inv_def timer_ok_def)

lemma delete_session_without:
  "\<exists>xs. snd (delete_session token r) = (without token r)\<lparr>reg_revoked := xs\<rparr>"
  by (cases "map_get (reg_sessions r) token")
     (auto simp: delete_session_simps without_def intro: exI [of _ "reg_revoked r"])

lemma delete_session_inv:
  assumes "reg_inv opts (r, now)"
  shows "reg_inv opts (snd (delete_session token r), now)"
  using without_inv [OF assms] delete_session_without [of token r] by (auto simp: reg_inv_notify)

lemma get_session_inv:
  assumes "reg_inv opts (r, now)"
  shows "reg_inv opts (snd (get_session opts now token r), now)"
  using assms by (auto simp: delete_session_inv restore_session_inv get_session_def split: option.split)

lemma set_session_inv:
  assumes "reg_inv opts (r, now)"
  shows "reg_inv opts (set_session opts now token session r, now)"
  using store_session_inv [OF assms] by (simp add: set_session_def Let_def)

lemma revoke_entries_inv:
  "reg_inv opts (r, now) \<Longrightarrow> reg_inv opts (snd (revoke_entries userId es r), now)"
  by (induction userId es r rule: revoke_entries.induct) (auto simp: delete_session_inv split: prod.split)

lemma clear_timer_twice [simp]: "clear_timer h (clear_timer h r) = clear_timer h r"
  by (cases h) (simp_all add: clear_timer_def delete_idem)

lemma store_session_cleared:
  "store_session opts now token session c l h (clear_timer h r) = store_session opts now token session c l h r"
  by (simp add: store_session_def)

lemma delete_session_cleared:
  assumes "map_get (reg_sessions r) token = Some st"
  shows "snd (delete_session token (clear_timer (Some (st_expiryTimer st)) r)) = snd (delete_session token r)"
  using assms by (simp add: delete_session_def clear_timer_def delete_idem Let_def)

text \<open>The callback of a timer acts on the session the timer belongs to.\<close>

lemma fire_timer_eq:
  assumes inv: "reg_inv opts (r, now)" and "map_get (reg_timers r) h = Some (due, token)"
  shows "fire_timer opts now h r = expire_session opts now token r"
proof -
  obtain st where st: "map_get (reg_sessions r) token = Some st" "st_expiryTimer st = h"
    using reg_invD(5) [OF inv assms(2)] by blast
  show ?thesis
    using assms(2) st(1) delete_session_cleared [OF st(1)]
    by (simp add: fire_timer_def expire_session_def clear_timer_simps(1) store_session_cleared st(2))
qed

lemma expire_session_inv:
  assumes "reg_inv opts (r, now)"
  shows "reg_inv opts (expire_session opts now token r, now)"
  using assms by (auto simp: delete_session_inv restore_session_inv expire_session_def split: option.split)

lemma fire_timer_inv:
  assumes inv: "reg_inv opts (r, now)"
  shows "reg_inv opts (fire_timer opts now h r, now)"
proof (cases "map_get (reg_timers r) h")
  case None
  then show ?thesis using inv by (simp add: fire_timer_def)
next
  case (Some p)
  then show ?thesis
    using expire_session_inv [OF inv] fire_timer_eq [OF inv] by (cases p) simp
qed

lemma tick_inv:
  assumes "reg_inv opts (r, now)" and "now \<le> now'"
  shows "reg_inv opts (r, now')"
  using assms by (fastforce simp: reg_inv_def timer_ok_def)

lemma reg_step_inv:
  assumes "reg_inv opts s" and "reg_step opts s t"
  shows "reg_inv opts t"
  using assms(2,1)
  by cases (auto simp: get_session_inv set_session_inv delete_session_inv revokeUser_def
      revoke_entries_inv fire_timer_inv intro: tick_inv)

definition reg_start :: "registry \<times> time \<Rightarrow> bool" where
  "reg_start s \<longleftrightarrow> fst s = empty_registry"

lemma reg_start_inv: "reg_start s \<Longrightarrow> reg_inv opts s"
  by (cases s) (simp add: reg_start_def reg_inv_def empty_registry_def)

interpretation registry_machine: machine reg_start "reg_step opts" "reg_inv opts" for opts
  by unfold_locales (auto intro: reg_start_inv reg_step_inv)

section \<open>Creation times and revocation\<close>

lemma revoke_entries_get:
  "map_get (reg_sessions (snd (revoke_entries userId es r))) token \<in> {None, map_get (reg_sessions r) token}"
proof (induction userId es r rule: revoke_entries.induct)
  case (2 userId tok st rest r)
  then show ?case by (auto simp: reg_simps split: prod.splits if_splits)
qed simp

lemma reg_step_createdAt:
  assumes "reg_step opts s t" and "reg_inv opts s"
    and "map_get (reg_sessions (fst s)) token = Some st" and "map_get (reg_sessions (fst t)) token = Some st'"
  shows "st_createdAt st' = st_createdAt st"
  using assms(1)
proof cases
  case (get r now tok)
  then show ?thesis using assms(3,4)
    by (auto simp: get_session_def reg_simps map_get_set split: option.splits if_splits)
next
  case (set r now tok session)
  then show ?thesis using assms(3,4)
    by (auto simp: set_session_def Let_def reg_simps map_get_set split: option.splits if_splits)
next
  case (delete r now tok)
  then show ?thesis using assms(3,4) by (auto simp: reg_simps split: if_splits)
next
  case (revoke r now userId)
  then show ?thesis using assms(3,4) revoke_entries_get [of userId "reg_sessions r" r token]
    by (simp add: revokeUser_def)
next
  case (fire r now h)
  show ?thesis
  proof (cases "map_get (reg_timers r) h")
    case None
    then show ?thesis using fire assms(3,4) by (simp add: fire_timer_def)
  next
    case (Some p)
    obtain due tok where p: "p = (due, tok)" by (cases p)
    have "fire_timer opts now h r = expire_session opts now tok r"
      by (rule fire_timer_eq) (use fire assms(2) Some p in auto)
    then show ?thesis using fire assms(3,4)
      by (auto simp: expire_session_def reg_simps map_get_set split: option.splits if_splits)
  qed
qed (use assms(3,4) in simp)

lemma keeps_token_createdAt:
  assumes "(keeps_token opts token)\<^sup>*\<^sup>* s t" and "reg_inv opts s"
    and "map_get (reg_sessions (fst s)) token = Some st"
  shows "reg_inv opts t \<and> (\<exists>st'. map_get (reg_sessions (fst t)) token = Some st' \<and> st_createdAt st' = st_createdAt st)"
  using assms(1)
proof (induction rule: rtranclp_induct)
  case base
  show ?case using assms by simp
next
  case (step t u)
  then obtain st' where st': "map_get (reg_sessions (fst t)) token = Some st'" "st_createdAt st' = st_createdAt st"
    and t: "reg_inv opts t" by blast
  obtain st'' where st'': "map_get (reg_sessions (fst u)) token = Some st''" and tu: "reg_step opts t u"
    using step.hyps(2) by (auto simp: keeps_token_def)
  show ?case
    using reg_step_createdAt [OF tu t st'(1) st''] st'' st'(2) reg_step_inv [OF t tu] by simp
qed

definition owned_by :: "string \<Rightarrow> stored_session \<Rightarrow> bool" where
  "owned_by userId st \<longleftrightarrow> usr_id (as_user (st_session st)) = userId"

lemma delete_key_filter:
  "map_wf m \<Longrightarrow> filter p (map_delete k m) = filter (\<lambda>e. fst e \<noteq> k \<and> p e) m"
  by (auto simp: AList.delete_eq filter_filter conj_commute case_prod_beta intro: filter_cong)

lemma revoke_entries_spec:
  assumes "distinct (map fst es)" and "\<forall>(tok, st) \<in> set es. map_get (reg_sessions r) tok = Some st"
    and "map_wf (reg_sessions r)"
  shows "fst (revoke_entries userId es r) = map st_session (filter (owned_by userId) (map snd es)) \<and>
    reg_sessions (snd (revoke_entries userId es r)) =
      filter (\<lambda>e. e \<notin> set (filter (owned_by userId \<circ> snd) es)) (reg_sessions r) \<and>
    reg_revoked (snd (revoke_entries userId es r)) =
      reg_revoked r @ map st_session (filter (owned_by userId) (map snd es))"
  using assms
proof (induction userId es r rule: revoke_entries.induct)
  case (1 userId r)
  then show ?case by simp
next
  case (2 userId tok st rest r)
  show ?case
  proof (cases "owned_by userId st")
    case False
    with 2 show ?thesis by (auto simp: owned_by_def)
  next
    case True
    then have u: "\<not> usr_id (as_user (st_session st)) \<noteq> userId"
      by (simp add: owned_by_def)
    have st: "map_get (reg_sessions r) tok = Some st" using 2 by simp
    let ?d = "snd (delete_session tok r)"
    have d: "reg_sessions ?d = map_delete tok (reg_sessions r)" "reg_revoked ?d = reg_revoked r @ [st_session st]"
      by (simp_all add: delete_session_simps st)
    have rest: "\<forall>(t, s) \<in> set rest. map_get (reg_sessions ?d) t = Some s"
      using 2(4,3) by (force simp: reg_simps)
    have IH: "fst (revoke_entries userId rest ?d) = map st_session (filter (owned_by userId) (map snd rest)) \<and>
      reg_sessions (snd (revoke_entries userId rest ?d)) =
        filter (\<lambda>e. e \<notin> set (filter (owned_by userId \<circ> snd) rest)) (reg_sessions ?d) \<and>
      reg_revoked (snd (revoke_entries userId rest ?d)) =
        reg_revoked ?d @ map st_session (filter (owned_by userId) (map snd rest))"
      using 2(2) [OF u] rest 2(3,5) by (simp add: d)
    have key: "e = (tok, st) \<longleftrightarrow> fst e = tok" if "e \<in> set (reg_sessions r)" for e
    proof
      assume "fst e = tok"
      then have "(tok, snd e) \<in> set (reg_sessions r)" using that by (cases e) auto
      then have "map_get (reg_sessions r) tok = Some (snd e)" using 2(5) by (simp add: map_get_in)
      with st \<open>fst e = tok\<close> show "e = (tok, st)" by (cases e) simp
    qed simp
    have "filter (\<lambda>e. e \<notin> set (filter (owned_by userId \<circ> snd) ((tok, st) # rest))) (reg_sessions r)
        = filter (\<lambda>e. fst e \<noteq> tok \<and> e \<notin> set (filter (owned_by userId \<circ> snd) rest)) (reg_sessions r)"
      by (rule filter_cong [OF refl]) (simp add: key True)
    then show ?thesis
      using IH True u 2(5)
      by (simp add: d delete_key_filter case_prod_beta)
  qed
qed

section \<open>What the operations promise\<close>

text \<open>In every state the registry can reach, an expired session is still in the map only
  while a pending timer that names it is overdue: once the overdue timers have run, every
  session of the map is within both lifetimes.\<close>

theorem expired_sessions_have_overdue_timers:
  assumes "(reg_step opts)\<^sup>*\<^sup>* (empty_registry, t0) (r, now)"
    and "map_get (reg_sessions r) token = Some st" and "is_expired opts now st"
  shows "\<exists>due. map_get (reg_timers r) (st_expiryTimer st) = Some (due, token) \<and> due \<le> now"
proof -
  have "reg_inv opts (r, now)"
    using registry_machine.run_inv [OF _ assms(1)] by (simp add: reg_start_def)
  from reg_invD(4) [OF this assms(2)] assms(3) show ?thesis
    by (auto simp: timer_ok_def is_expired_def expires_at_def)
qed

text \<open>\<open>get\<close> returns a session exactly when the token is stored and both lifetimes last; it
  then moves the idle deadline and nothing else of the entry; an expired session is removed and
  reported to the listener; other tokens are untouched.\<close>

theorem get_session_spec:
  "get_session opts now token r = (res, r') \<Longrightarrow>
     (res = Some x \<longleftrightarrow> (\<exists>st. map_get (reg_sessions r) token = Some st \<and> st_session st = x \<and>
        now < st_createdAt st + absoluteTtlMs opts \<and> now < st_lastSeenAt st + idleTtlMs opts)) \<and>
     (res = Some x \<longrightarrow> (\<exists>st st'. map_get (reg_sessions r) token = Some st \<and>
        map_get (reg_sessions r') token = Some st' \<and> st_session st' = x \<and>
        st_createdAt st' = st_createdAt st \<and> st_lastSeenAt st' = now) \<and> reg_revoked r' = reg_revoked r) \<and>
     (res = None \<longrightarrow> map_get (reg_sessions r') token = None \<and>
        reg_revoked r' = reg_revoked r @ (case map_get (reg_sessions r) token of None \<Rightarrow> [] | Some st \<Rightarrow> [st_session st])) \<and>
     (\<forall>tok. tok \<noteq> token \<longrightarrow> map_get (reg_sessions r') tok = map_get (reg_sessions r) tok)"
  by (auto simp: get_session_def is_expired_def reg_simps map_get_set delete_session_simps map_get_delete
      split: option.splits if_splits)

text \<open>However often a session is used, and whatever else happens to the registry, its
  creation time never moves while it stays in the map; so no \<open>get\<close> returns it once its absolute
  lifetime has passed.\<close>

theorem absolute_lifetime_is_not_extended:
  assumes "(reg_step opts)\<^sup>*\<^sup>* (empty_registry, t0) s"
    and "map_get (reg_sessions (fst s)) token = Some st"
    and "(keeps_token opts token)\<^sup>*\<^sup>* s (r, now)"
    and "st_createdAt st + absoluteTtlMs opts \<le> now"
  shows "fst (get_session opts now token r) = None"
proof -
  have "reg_inv opts s"
    using registry_machine.run_inv [OF _ assms(1)] by (simp add: reg_start_def)
  from keeps_token_createdAt [OF assms(3) this assms(2)] assms(4) show ?thesis
    by (auto simp: get_session_def is_expired_def)
qed

lemma revokeUser_eqs:
  assumes wf: "map_wf (reg_sessions r)" and eq: "revokeUser userId r = (revoked, r')"
  shows "revoked = map st_session (filter (owned_by userId) (map snd (reg_sessions r)))"
    and "reg_sessions r' = filter (\<lambda>e. \<not> owned_by userId (snd e)) (reg_sessions r)"
    and "reg_revoked r' = reg_revoked r @ revoked"
proof -
  have "\<forall>(tok, st) \<in> set (reg_sessions r). map_get (reg_sessions r) tok = Some st"
    using wf by (auto simp: map_get_in)
  from revoke_entries_spec [OF _ this wf, of userId] wf
  have *: "revoked = map st_session (filter (owned_by userId) (map snd (reg_sessions r)))"
    "reg_sessions r' = filter (\<lambda>e. e \<notin> set (filter (owned_by userId \<circ> snd) (reg_sessions r))) (reg_sessions r)"
    "reg_revoked r' = reg_revoked r @ map st_session (filter (owned_by userId) (map snd (reg_sessions r)))"
    using eq by (simp_all add: revokeUser_def map_wf_def)
  have "reg_sessions r' = filter (\<lambda>e. \<not> owned_by userId (snd e)) (reg_sessions r)"
    unfolding *(2) by (rule filter_cong) simp_all
  with * show "revoked = map st_session (filter (owned_by userId) (map snd (reg_sessions r)))"
    and "reg_sessions r' = filter (\<lambda>e. \<not> owned_by userId (snd e)) (reg_sessions r)"
    and "reg_revoked r' = reg_revoked r @ revoked"
    by simp_all
qed

lemma map_wf_operations:
  assumes "map_wf (reg_sessions r)"
  shows "map_wf (reg_sessions (snd (get_session opts now token r)))"
    and "map_wf (reg_sessions (set_session opts now token session r))"
    and "map_wf (reg_sessions (snd (delete_session token r)))"
    and "map_wf (reg_sessions (snd (revokeUser userId r)))"
proof -
  show d: "map_wf (reg_sessions (snd (delete_session token r)))" for token
    using assms by (cases "map_get (reg_sessions r) token") (simp_all add: delete_session_simps)
  show "map_wf (reg_sessions (snd (get_session opts now token r)))"
    using assms d by (auto simp: get_session_def reg_simps split: option.split)
  show "map_wf (reg_sessions (set_session opts now token session r))"
    using assms by (simp add: set_session_def Let_def reg_simps)
  show "map_wf (reg_sessions (snd (revokeUser userId r)))"
    using revokeUser_eqs(2) [OF assms, of userId "fst (revokeUser userId r)"] assms by simp
qed

text \<open>\<open>revokeUser\<close> removes exactly the sessions of the user, keeps the others in their order,
  returns the removed ones and reports each of them once to the listener; afterwards no token
  gives a session of that user.\<close>

theorem revokeUser_spec:
  assumes inv: "reg_inv opts (r, t)" and eq: "revokeUser userId r = (revoked, r')"
  shows "revoked = map st_session (filter (owned_by userId) (map snd (reg_sessions r))) \<and>
    reg_sessions r' = filter (\<lambda>e. \<not> owned_by userId (snd e)) (reg_sessions r) \<and>
    reg_revoked r' = reg_revoked r @ revoked \<and>
    (\<forall>opts now token x. fst (get_session opts now token r') = Some x \<longrightarrow> usr_id (as_user x) \<noteq> userId)"
proof -
  note spec = revokeUser_eqs [OF reg_invD(1) [OF inv] eq]
  have "usr_id (as_user x) \<noteq> userId" if got: "fst (get_session opts now token r') = Some x" for opts now token x
  proof -
    obtain st where "map_get (reg_sessions r') token = Some st" and "st_session st = x"
      using got by (auto simp: get_session_def split: option.splits if_splits)
    then show ?thesis
      by (auto simp: spec(2) owned_by_def dest!: map_of_SomeD)
  qed
  with spec show ?thesis by blast
qed

section \<open>Witnesses\<close>

definition sample_session :: "string \<Rightarrow> string \<Rightarrow> auth_session" where
  "sample_session token userId = \<lparr>as_token = token,
     as_user = \<lparr>usr_id = userId, usr_email = ''admin@example.com'', usr_name = ''Admin'',
       usr_role = ADMIN, usr_organizationId = Some ''org_a'', usr_createdAt = 0\<rparr>,
     as_organization = \<lparr>org_id = ''org_a'', org_name = ''A'', org_joinCode = None, org_createdAt = 0\<rparr>,
     as_passwordChangeRequired = None\<rparr>"

definition sample_registry :: registry where
  "sample_registry = set_session default_options 1000 ''t'' (sample_session ''t'' ''u1'') empty_registry"

lemma sample_registry_run:
  "(reg_step default_options)\<^sup>*\<^sup>* (empty_registry, 1000) (sample_registry, 1000)"
  unfolding sample_registry_def by (rule r_into_rtranclp) (rule reg_step.set)

lemma sample_registry_sessions:
  "reg_sessions sample_registry = [(''t'', \<lparr>st_session = sample_session ''t'' ''u1'', st_createdAt = 1000,
     st_lastSeenAt = 1000, st_expiryTimer = 0\<rparr>)]"
  by (simp add: sample_registry_def set_session_def store_session_def empty_registry_def clear_timer_def Let_def)

lemma expired_sessions_have_overdue_timers_witness:
  "\<exists>due. map_get (reg_timers sample_registry) 0 = Some (due, ''t'') \<and> due \<le> 1801000"
proof -
  have "(reg_step default_options)\<^sup>*\<^sup>* (empty_registry, 1000) (sample_registry, 1801000)"
    by (rule rtranclp.rtrancl_into_rtrancl [OF sample_registry_run]) (rule reg_step.tick, simp)
  from expired_sessions_have_overdue_timers [OF this, of "''t''"] show ?thesis
    by (simp add: sample_registry_sessions is_expired_def default_options_def IDLE_TTL_MS_def)
qed

lemma get_session_spec_witness:
  "fst (get_session default_options 2000 ''t'' sample_registry) = Some (sample_session ''t'' ''u1'')"
  using get_session_spec [of default_options 2000 "''t''" sample_registry
      "fst (get_session default_options 2000 ''t'' sample_registry)"
      "snd (get_session default_options 2000 ''t'' sample_registry)" "sample_session ''t'' ''u1''"]
  by (simp add: sample_registry_sessions default_options_def IDLE_TTL_MS_def ABSOLUTE_TTL_MS_def)

lemma absolute_lifetime_is_not_extended_witness:
  "fst (get_session default_options (1000 + ABSOLUTE_TTL_MS) ''t'' sample_registry) = None"
proof (rule absolute_lifetime_is_not_extended [OF sample_registry_run])
  show "map_get (reg_sessions (fst (sample_registry, 1000::int))) ''t'' =
    Some \<lparr>st_session = sample_session ''t'' ''u1'', st_createdAt = 1000, st_lastSeenAt = 1000, st_expiryTimer = 0\<rparr>"
    by (simp add: sample_registry_sessions)
  show "(keeps_token default_options ''t'')\<^sup>*\<^sup>* (sample_registry, 1000) (sample_registry, 1000 + ABSOLUTE_TTL_MS)"
    by (rule r_into_rtranclp)
      (auto simp: keeps_token_def sample_registry_sessions ABSOLUTE_TTL_MS_def intro: reg_step.tick)
qed (simp add: default_options_def)

lemma revokeUser_spec_witness:
  "fst (revokeUser ''u1'' sample_registry) = [sample_session ''t'' ''u1'']"
proof -
  have "reg_inv default_options (sample_registry, 1000)"
    using registry_machine.run_inv [OF _ sample_registry_run] by (simp add: reg_start_def)
  from revokeUser_spec [OF this, of "''u1''" "fst (revokeUser ''u1'' sample_registry)"
      "snd (revokeUser ''u1'' sample_registry)"]
  show ?thesis
    by (simp add: sample_registry_sessions owned_by_def sample_session_def)
qed

end
