(* ===== verification/FixedWindow.thy ===== *)
theory FixedWindow
  imports Base
begin

text \<open>
  The contract of a fixed-window counter, which the request rate limiters and the code runner's
  per-candidate limit both implement: a window opens with the first call of a key, lasts \<open>span\<close>
  milliseconds, and lets \<open>limit\<close> calls through. \<open>live s now k\<close> is the count and the end of the
  window of \<open>k\<close> that is open at \<open>now\<close>, in a \<open>valid\<close> state; what an implementation does with closed windows is its own
  business.
\<close>

type_synonym 'k event = "'k \<times> time"

text \<open>The run of a list of calls, and how many calls of a key it accepts.\<close>

fun accepted_calls :: "('k \<Rightarrow> time \<Rightarrow> 's \<Rightarrow> bool \<times> 's) \<Rightarrow> 'k \<Rightarrow> 'k event list \<Rightarrow> 's \<Rightarrow> nat" where
  "accepted_calls consume k [] s = 0"
| "accepted_calls consume k ((k', now) # evs) s =
     (let (ok, s') = consume k' now s in (if k' = k \<and> ok then 1 else 0) + accepted_calls consume k evs s')"

definition count_calls :: "'k \<Rightarrow> 'k event list \<Rightarrow> nat" where
  "count_calls k evs = length (filter (\<lambda>(k', _). k' = k) evs)"

lemma count_calls_simps [simp]:
  "count_calls k [] = 0" "count_calls k ((k', t) # evs) = (if k' = k then Suc (count_calls k evs) else count_calls k evs)"
  by (simp_all add: count_calls_def)

locale fixed_window =
  fixes consume :: "'k \<Rightarrow> time \<Rightarrow> 's \<Rightarrow> bool \<times> 's"
    and live :: "'s \<Rightarrow> time \<Rightarrow> 'k \<Rightarrow> (nat \<times> time) option"
    and valid :: "'s \<Rightarrow> bool"
    and limit :: nat
    and span :: time
  assumes span_pos: "0 < span"
    and consume_valid: "valid s \<Longrightarrow> valid (snd (consume k now s))"
    and consume_fresh: "valid s \<Longrightarrow> live s now k = None \<Longrightarrow>
      fst (consume k now s) = (1 \<le> limit) \<and> live (snd (consume k now s)) now k = Some (1, now + span)"
    and consume_open: "valid s \<Longrightarrow> live s now k = Some (c, r) \<Longrightarrow>
      fst (consume k now s) = (Suc c \<le> limit) \<and> live (snd (consume k now s)) now k = Some (Suc c, r)"
    and consume_other: "valid s \<Longrightarrow> k' \<noteq> k \<Longrightarrow> live (snd (consume k now s)) now k' = live s now k'"
    and live_later: "now \<le> now' \<Longrightarrow> live s now' k =
      (case live s now k of None \<Rightarrow> None | Some (c, r) \<Rightarrow> if now' < r then Some (c, r) else None)"
begin

lemma live_None_later: "live s now k = None \<Longrightarrow> now \<le> now' \<Longrightarrow> live s now' k = None"
  using live_later [of now now' s k] by simp

lemma live_Some_later: "live s now k = Some (c, r) \<Longrightarrow> now \<le> now' \<Longrightarrow> now' < r \<Longrightarrow> live s now' k = Some (c, r)"
  using live_later [of now now' s k] by simp

lemma accepted_open:
  assumes "valid s" and "live s now k = Some (c, r)" and "sorted (now # map snd evs)" and "\<forall>t \<in> snd ` set evs. t < r"
  shows "accepted_calls consume k evs s = min (limit - c) (count_calls k evs)"
  using assms
proof (induction evs arbitrary: s now c)
  case Nil
  then show ?case by simp
next
  case (Cons e evs)
  obtain k' t where e: "e = (k', t)" by (cases e)
  obtain ok s' where s': "consume k' t s = (ok, s')" by (cases "consume k' t s")
  have t: "now \<le> t" "t < r" and srt: "sorted (t # map snd evs)" and lt: "\<forall>t \<in> snd ` set evs. t < r"
    using Cons.prems by (auto simp: e)
  have v': "valid s'" using consume_valid [OF Cons.prems(1), of k' t] s' by simp
  have lv: "live s t k = Some (c, r)"
    using Cons.prems(2) t by (rule live_Some_later)
  show ?case
  proof (cases "k' = k")
    case True
    have "ok = (Suc c \<le> limit)" and "live s' t k = Some (Suc c, r)"
      using consume_open [OF Cons.prems(1) lv] s' True by auto
    with Cons.IH [OF v' this(2) srt lt] show ?thesis
      by (auto simp: e True s' [unfolded True])
  next
    case False
    then have "live s' t k = Some (c, r)"
      using consume_other [OF Cons.prems(1), of k k' t] lv s' by simp
    from Cons.IH [OF v' this srt lt] False show ?thesis
      by (simp add: e s')
  qed
qed

text \<open>From a closed window, the calls of a key within one span are accepted up to the limit.\<close>

lemma accepted_exact:
  assumes "valid s" and "live s now k = None" and "sorted (now # map snd evs)" and "\<forall>t \<in> snd ` set evs. t < w"
    and "w \<le> now + span"
  shows "accepted_calls consume k evs s = min limit (count_calls k evs)"
  using assms
proof (induction evs arbitrary: s now)
  case Nil
  then show ?case by simp
next
  case (Cons e evs)
  obtain k' t where e: "e = (k', t)" by (cases e)
  obtain ok s' where s': "consume k' t s = (ok, s')" by (cases "consume k' t s")
  have t: "now \<le> t" and srt: "sorted (t # map snd evs)" and lt: "\<forall>t \<in> snd ` set evs. t < w"
    and w: "w \<le> t + span"
    using Cons.prems by (auto simp: e)
  have v': "valid s'" using consume_valid [OF Cons.prems(1), of k' t] s' by simp
  have lv: "live s t k = None"
    using Cons.prems(2) t by (rule live_None_later)
  show ?case
  proof (cases "k' = k")
    case True
    have ok: "ok = (1 \<le> limit)" and "live s' t k = Some (1, t + span)"
      using consume_fresh [OF Cons.prems(1) lv] s' True by auto
    from accepted_open [OF v' this(2) srt] lt w
    have "accepted_calls consume k evs s' = min (limit - 1) (count_calls k evs)" by fastforce
    with ok show ?thesis by (auto simp: e True s' [unfolded True])
  next
    case False
    have o: "live s' t k = None"
      using consume_other [OF Cons.prems(1), of k k' t] lv s' False by simp
    have "accepted_calls consume k evs s' = min limit (count_calls k evs)"
      by (rule Cons.IH [OF v' o srt lt w])
    with False show ?thesis by (simp add: e s')
  qed
qed

end

end
