(* ===== verification/RateLimiter.thy ===== *)
theory RateLimiter
  imports FixedWindow JsText
begin

text \<open>
  The request rate limiters (\<open>login-rate-limiter.ts\<close>): a map from digests to fixed windows of one
  minute, with a bound on its size. The hash function is a parameter (\<open>digest\<close>).
\<close>

section \<open>State and operations\<close>

definition windowMs :: time where
  "windowMs = 60000"

definition maximumBuckets :: nat where
  "maximumBuckets = 20000"

record bucket =
  b_count :: nat
  b_resetAt :: time

type_synonym buckets = "(string, bucket) jsmap"

text \<open>A request header is absent, one text, or an array of texts.\<close>

datatype header = HMissing | HOne string | HMany "string list"

record request_context =
  rc_remoteAddress :: "string option"
  rc_forwardedFor :: header

record rate_limit_options =
  clientLimit :: nat
  subjectLimit :: nat
  namespace :: string

definition login_limiter :: rate_limit_options where
  "login_limiter = \<lparr>clientLimit = 20, subjectLimit = 10, namespace = ''login-account''\<rparr>"

definition execution_limiter :: rate_limit_options where
  "execution_limiter = \<lparr>clientLimit = 12, subjectLimit = 6, namespace = ''candidate-execution''\<rparr>"

definition account_limiter :: rate_limit_options where
  "account_limiter = \<lparr>clientLimit = 6, subjectLimit = 3, namespace = ''account-creation''\<rparr>"

definition clientAddress :: "env \<Rightarrow> request_context \<Rightarrow> string" where
  "clientAddress env request =
     (let firstAddress =
            (if env ''AUTH_HTTPS_TRUST_PROXY'' = Some ''1'' then
               (let value = (case rc_forwardedFor request of HMissing \<Rightarrow> None | HOne s \<Rightarrow> Some s | HMany ss \<Rightarrow> head_opt ss)
                in case value of None \<Rightarrow> None | Some s \<Rightarrow> map_option trim (head_opt (split_on CHR '','' s)))
             else None)
      in case firstAddress of
           Some (c # cs) \<Rightarrow> c # cs
         | _ \<Rightarrow> (case map_option trim (rc_remoteAddress request) of Some (c # cs) \<Rightarrow> c # cs | _ \<Rightarrow> ''unknown''))"

text \<open>\<open>removeExpiredBuckets\<close>: a pass over the map, then a loop that drops the oldest entry.\<close>

function drop_oldest :: "buckets \<Rightarrow> buckets" where
  "drop_oldest [] = []"
| "drop_oldest ((oldestKey, b) # rest) =
     (if maximumBuckets \<le> length ((oldestKey, b) # rest)
      then (if oldestKey = [] then (oldestKey, b) # rest
            else drop_oldest (map_delete oldestKey ((oldestKey, b) # rest)))
      else (oldestKey, b) # rest)"
  by pat_completeness auto
termination
  by (relation "measure length") (auto simp: le_imp_less_Suc length_delete_le)

definition removeExpiredBuckets :: "time \<Rightarrow> buckets \<Rightarrow> buckets" where
  "removeExpiredBuckets now m =
     (if length m < maximumBuckets then m
      else drop_oldest (filter (\<lambda>(key, b). \<not> b_resetAt b \<le> now) m))"

definition consumeBucket :: "string \<Rightarrow> nat \<Rightarrow> time \<Rightarrow> buckets \<Rightarrow> int \<times> buckets" where
  "consumeBucket key lim now m =
     (let existing = map_get m key;
          bucket = (case existing of
              Some b \<Rightarrow> if b_resetAt b \<le> now then \<lparr>b_count = 0, b_resetAt = now + windowMs\<rparr> else b
            | None \<Rightarrow> \<lparr>b_count = 0, b_resetAt = now + windowMs\<rparr>);
          bucket = bucket\<lparr>b_count := b_count bucket + 1\<rparr>
      in (if lim < b_count bucket then b_resetAt bucket - now else 0, map_set key bucket m))"

definition ceil_seconds :: "int \<Rightarrow> int" where
  "ceil_seconds ms = (ms + 999) div 1000"

text \<open>\<open>consume\<close>; the e-mail is \<open>None\<close> when it is not a text. The result is \<open>null\<close> or the seconds to wait.\<close>

definition consume ::
  "(string \<Rightarrow> string) \<Rightarrow> env \<Rightarrow> rate_limit_options \<Rightarrow> request_context \<Rightarrow> string option \<Rightarrow> time \<Rightarrow> buckets \<Rightarrow>
   int option \<times> buckets"
where
  "consume digest env opts request email now m =
     (let m0 = removeExpiredBuckets now m;
          clientKey = digest (''client:'' @ clientAddress env request);
          subjectKey = digest (namespace opts @ '':'' @
            (case email of Some e \<Rightarrow> toLowerCase (trim e) | None \<Rightarrow> ''invalid''));
          (clientRetry, m1) = consumeBucket clientKey (clientLimit opts) now m0
      in if clientRetry > 0 then (Some (ceil_seconds clientRetry), m1)
         else (let (subjectRetry, m2) = consumeBucket subjectKey (subjectLimit opts) now m1
               in (if subjectRetry > 0 then Some (ceil_seconds subjectRetry) else None, m2)))"

section \<open>The buckets are a fixed window\<close>

definition bucket_live :: "buckets \<Rightarrow> time \<Rightarrow> string \<Rightarrow> (nat \<times> time) option" where
  "bucket_live m now key = (case map_get m key of None \<Rightarrow> None
     | Some b \<Rightarrow> if b_resetAt b \<le> now then None else Some (b_count b, b_resetAt b))"

definition bucket_consume :: "nat \<Rightarrow> string \<Rightarrow> time \<Rightarrow> buckets \<Rightarrow> bool \<times> buckets" where
  "bucket_consume lim key now m = (let (retry, m') = consumeBucket key lim now m in (\<not> retry > 0, m'))"

interpretation buckets: fixed_window "bucket_consume lim" bucket_live "\<lambda>_. True" lim windowMs for lim
proof unfold_locales
  show "0 < windowMs" by (simp add: windowMs_def)
qed (auto simp: bucket_consume_def bucket_live_def consumeBucket_def Let_def map_get_set windowMs_def
      split: option.splits if_splits)

section \<open>Runs of a limiter\<close>

type_synonym call = "request_context \<times> string option \<times> time"

fun consume_all :: "(string \<Rightarrow> string) \<Rightarrow> env \<Rightarrow> rate_limit_options \<Rightarrow> call list \<Rightarrow> buckets \<Rightarrow>
  (call \<times> int option) list \<times> buckets" where
  "consume_all digest env opts [] m = ([], m)"
| "consume_all digest env opts ((request, email, now) # cs) m =
     (let (res, m1) = consume digest env opts request email now m;
          (rest, m2) = consume_all digest env opts cs m1
      in (((request, email, now), res) # rest, m2))"

definition client_key :: "(string \<Rightarrow> string) \<Rightarrow> env \<Rightarrow> request_context \<Rightarrow> string" where
  "client_key digest env request = digest (''client:'' @ clientAddress env request)"

definition subject_key :: "(string \<Rightarrow> string) \<Rightarrow> rate_limit_options \<Rightarrow> string option \<Rightarrow> string" where
  "subject_key digest opts email = digest (namespace opts @ '':'' @
     (case email of Some e \<Rightarrow> toLowerCase (trim e) | None \<Rightarrow> ''invalid''))"

text \<open>The number of accepted calls that satisfy \<open>p\<close>.\<close>

definition let_through :: "(call \<Rightarrow> bool) \<Rightarrow> (call \<times> int option) list \<Rightarrow> nat" where
  "let_through p rs = length (filter (\<lambda>(c, res). p c \<and> res = None) rs)"

lemma let_through_Cons:
  "let_through p ((c, res) # rs) = (if p c \<and> res = None then 1 else 0) + let_through p rs"
  by (simp add: let_through_def)

lemma let_through_Nil [simp]: "let_through p [] = 0"
  by (simp add: let_through_def)

subsection \<open>The size of the map\<close>

lemma length_consumeBucket:
  "length (snd (consumeBucket key lim now m)) \<le> Suc (length m)"
  by (simp add: consumeBucket_def Let_def length_map_set)

lemma keys_consumeBucket:
  "fst ` set (snd (consumeBucket key lim now m)) = insert key (fst ` set m)"
  by (auto simp: consumeBucket_def Let_def dom_update)

lemma length_drop_oldest: "[] \<notin> fst ` set m \<Longrightarrow> length (drop_oldest m) < maximumBuckets"
proof (induction m rule: drop_oldest.induct)
  case 1
  then show ?case by (simp add: maximumBuckets_def)
next
  case (2 k b rest)
  then show ?case by (auto simp: AList.delete_eq)
qed

lemma set_drop_oldest: "x \<in> set (drop_oldest m) \<Longrightarrow> x \<in> set m"
proof (induction m rule: drop_oldest.induct)
  case (2 k b rest)
  then show ?case by (auto simp: AList.delete_eq split: if_splits)
qed simp

lemma set_removeExpired: "x \<in> set (removeExpiredBuckets now m) \<Longrightarrow> x \<in> set m"
  using set_drop_oldest [of x] by (fastforce simp: removeExpiredBuckets_def split: if_splits)

lemma length_removeExpired:
  assumes "[] \<notin> fst ` set m"
  shows "length (removeExpiredBuckets now m) < maximumBuckets"
proof (cases "length m < maximumBuckets")
  case True
  then show ?thesis by (simp add: removeExpiredBuckets_def)
next
  case False
  have "[] \<notin> fst ` set (filter (\<lambda>(key, b). \<not> b_resetAt b \<le> now) m)"
    using assms by force
  from length_drop_oldest [OF this] False show ?thesis
    by (simp add: removeExpiredBuckets_def)
qed

lemma consume_state:
  "snd (consume digest env opts request email now m) =
     (let m0 = removeExpiredBuckets now m;
          (r1, m1) = consumeBucket (client_key digest env request) (clientLimit opts) now m0
      in if r1 > 0 then m1 else snd (consumeBucket (subject_key digest opts email) (subjectLimit opts) now m1))"
  by (simp add: consume_def client_key_def subject_key_def Let_def split: prod.split)

lemma consume_None_iff:
  "fst (consume digest env opts request email now m) = None \<longleftrightarrow>
     (let m0 = removeExpiredBuckets now m;
          (r1, m1) = consumeBucket (client_key digest env request) (clientLimit opts) now m0
      in \<not> r1 > 0 \<and> \<not> fst (consumeBucket (subject_key digest opts email) (subjectLimit opts) now m1) > 0)"
  by (simp add: consume_def client_key_def subject_key_def Let_def split: prod.split)

lemma consume_size:
  assumes "[] \<notin> fst ` set m" and "\<And>v. digest v \<noteq> []"
  shows "length (snd (consume digest env opts request email now m)) \<le> maximumBuckets + 1 \<and>
    [] \<notin> fst ` set (snd (consume digest env opts request email now m))"
proof -
  define m0 where "m0 = removeExpiredBuckets now m"
  define m1 where "m1 = snd (consumeBucket (client_key digest env request) (clientLimit opts) now m0)"
  define m2 where "m2 = snd (consumeBucket (subject_key digest opts email) (subjectLimit opts) now m1)"
  have "length m0 < maximumBuckets" unfolding m0_def by (rule length_removeExpired [OF assms(1)])
  moreover have "length m1 \<le> Suc (length m0)" "length m2 \<le> Suc (length m1)"
    unfolding m1_def m2_def by (rule length_consumeBucket)+
  ultimately have len: "length m1 \<le> maximumBuckets + 1" "length m2 \<le> maximumBuckets + 1"
    by simp_all
  have k0: "[] \<notin> fst ` set m0"
    using assms(1) set_removeExpired by (fastforce simp: m0_def)
  have keys: "[] \<notin> fst ` set m1" "[] \<notin> fst ` set m2"
    using k0 assms(2) [symmetric] by (simp_all add: m1_def m2_def keys_consumeBucket client_key_def subject_key_def)
  have "snd (consume digest env opts request email now m) \<in> {m1, m2}"
    by (simp add: consume_state Let_def case_prod_beta m0_def m1_def m2_def)
  then show ?thesis using len keys by auto
qed

subsection \<open>The time to wait\<close>

definition resets_within :: "time \<Rightarrow> buckets \<Rightarrow> bool" where
  "resets_within now m \<longleftrightarrow> (\<forall>e \<in> set m. b_resetAt (snd e) \<le> now + windowMs)"

lemma set_map_set: "x \<in> set (map_set k v m) \<Longrightarrow> x = (k, v) \<or> x \<in> set m"
  by (induction m) (auto split: if_splits)

lemma consumeBucket_retry:
  "resets_within now m \<Longrightarrow>
   fst (consumeBucket key lim now m) \<le> windowMs \<and> resets_within now (snd (consumeBucket key lim now m))"
  by (auto simp: consumeBucket_def Let_def windowMs_def resets_within_def split: option.splits
      dest!: map_of_SomeD set_map_set)

lemma ceil_seconds_bounds: "0 < ms \<Longrightarrow> ms \<le> windowMs \<Longrightarrow> 1 \<le> ceil_seconds ms \<and> ceil_seconds ms \<le> 60"
  unfolding ceil_seconds_def windowMs_def by (rule conjI; linarith)

lemma consume_retry:
  assumes "resets_within now m"
  shows "resets_within now (snd (consume digest env opts request email now m)) \<and>
    (\<forall>n. fst (consume digest env opts request email now m) = Some n \<longrightarrow> 1 \<le> n \<and> n \<le> 60)"
proof -
  have "resets_within now (removeExpiredBuckets now m)"
    using assms set_removeExpired by (auto simp: resets_within_def)
  from consumeBucket_retry [OF this] show ?thesis
    using consumeBucket_retry ceil_seconds_bounds
    by (simp add: consume_def Let_def case_prod_beta)
qed

lemma resets_later: "resets_within now m \<Longrightarrow> now \<le> now' \<Longrightarrow> resets_within now' m"
  by (auto simp: resets_within_def)

subsection \<open>Acceptances within one window\<close>

definition count_at :: "buckets \<Rightarrow> time \<Rightarrow> string \<Rightarrow> nat" where
  "count_at m now key = (case bucket_live m now key of None \<Rightarrow> 0 | Some (c, _) \<Rightarrow> c)"

text \<open>The window of \<open>key\<close>, open now or opened later, lasts beyond \<open>w\<close>.\<close>

definition lasts_until :: "buckets \<Rightarrow> time \<Rightarrow> string \<Rightarrow> time \<Rightarrow> bool" where
  "lasts_until m now key w \<longleftrightarrow> (case bucket_live m now key of None \<Rightarrow> w \<le> now + windowMs | Some (_, r) \<Rightarrow> w \<le> r)"

lemma count_at_later:
  assumes "lasts_until m now k w" and "now \<le> now'" and "now' < w"
  shows "count_at m now' k = count_at m now k \<and> lasts_until m now' k w"
  using assms buckets.live_later [of now now' m k]
  by (auto simp: count_at_def lasts_until_def split: option.splits)

lemma consumeBucket_as_window:
  "consumeBucket key lim now m = (r, m') \<Longrightarrow> bucket_consume lim key now m = (\<not> r > 0, m')"
  by (simp add: bucket_consume_def)

lemma consumeBucket_count:
  assumes "consumeBucket key lim now m = (r, m')" and "lasts_until m now k w"
  shows "count_at m' now k = count_at m now k + (if key = k then 1 else 0) \<and> lasts_until m' now k w \<and>
    (key = k \<and> \<not> r > 0 \<longrightarrow> Suc (count_at m now k) \<le> lim)"
  using consumeBucket_as_window [OF assms(1)] assms(2) buckets.consume_fresh [OF TrueI, of m now key lim]
    buckets.consume_open [OF TrueI, of m now key _ _ lim] buckets.consume_other [OF TrueI, of k key lim now m]
  by (cases "key = k"; cases "bucket_live m now k") (auto simp: count_at_def lasts_until_def)

lemma consume_count:
  assumes small: "length m < maximumBuckets" and w: "lasts_until m now k w"
    and res: "consume digest env opts request email now m = (res, m')"
  shows "count_at m now k \<le> count_at m' now k \<and> lasts_until m' now k w \<and>
    (res = None \<and> (client_key digest env request = k \<and> clientLimit opts = L \<or>
       subject_key digest opts email = k \<and> subjectLimit opts = L) \<longrightarrow>
     Suc (count_at m now k) \<le> L \<and> Suc (count_at m now k) \<le> count_at m' now k)"
proof -
  have m0: "removeExpiredBuckets now m = m"
    using small by (simp add: removeExpiredBuckets_def)
  obtain r1 m1 where c1: "consumeBucket (client_key digest env request) (clientLimit opts) now m = (r1, m1)"
    by fastforce
  obtain r2 m2 where c2: "consumeBucket (subject_key digest opts email) (subjectLimit opts) now m1 = (r2, m2)"
    by fastforce
  note s1 = consumeBucket_count [OF c1 w]
  note s2 = consumeBucket_count [OF c2, of k w]
  have "m' = (if r1 > 0 then m1 else m2)"
    using consume_state [of digest env opts request email now m] res c1 c2 m0 by (simp add: Let_def)
  moreover have "res = None \<longleftrightarrow> \<not> r1 > 0 \<and> \<not> r2 > 0"
    using consume_None_iff [of digest env opts request email now m] res c1 c2 m0 by (simp add: Let_def)
  ultimately show ?thesis
    using s1 s2 by (auto split: if_splits)
qed

lemma length_consume:
  "length m < maximumBuckets \<Longrightarrow> length (snd (consume digest env opts request email now m)) \<le> length m + 2"
  using length_consumeBucket [of "client_key digest env request" "clientLimit opts" now m]
    length_consumeBucket [of "subject_key digest opts email" "subjectLimit opts" now
      "snd (consumeBucket (client_key digest env request) (clientLimit opts) now m)"]
  by (auto simp: consume_state Let_def case_prod_beta removeExpiredBuckets_def)

lemma consume_all_count:
  assumes "length m + 2 * length cs < maximumBuckets" and "lasts_until m now k w"
    and "sorted (now # map (\<lambda>(_, _, t). t) cs)" and "\<forall>(_, _, t) \<in> set cs. t < w"
    and "\<forall>(request, email, t) \<in> set cs. p (request, email, t) \<longrightarrow>
       client_key digest env request = k \<and> clientLimit opts = L \<or>
       subject_key digest opts email = k \<and> subjectLimit opts = L"
  shows "let_through p (fst (consume_all digest env opts cs m)) + count_at m now k \<le> max L (count_at m now k)"
  using assms
proof (induction cs arbitrary: m now)
  case Nil
  then show ?case by simp
next
  case (Cons c cs)
  obtain request email t where c: "c = (request, email, t)" by (cases c)
  obtain res m' where res: "consume digest env opts request email t m = (res, m')" by fastforce
  have t: "now \<le> t" "t < w" and small: "length m < maximumBuckets"
    using Cons.prems by (auto simp: c)
  note later = count_at_later [OF Cons.prems(2) t]
  have len: "length m' + 2 * length cs < maximumBuckets"
    using length_consume [OF small, of digest env opts request email t] Cons.prems(1) res by simp
  have w': "lasts_until m t k w" and cnt: "count_at m t k = count_at m now k"
    using later by simp_all
  note st = consume_count [OF small w' res, of L]
  have IH: "let_through p (fst (consume_all digest env opts cs m')) + count_at m' t k \<le> max L (count_at m' t k)"
    by (rule Cons.IH) (use len st Cons.prems in \<open>auto simp: c\<close>)
  have "p (request, email, t) \<and> res = None \<longrightarrow> Suc (count_at m now k) \<le> L \<and> Suc (count_at m now k) \<le> count_at m' t k"
    using st Cons.prems(5) by (auto simp: c cnt)
  then show ?case
    using IH st by (auto simp: c res let_through_Cons cnt split: prod.split)
qed

subsection \<open>Acceptances within any minute\<close>

lemma consume_all_append:
  "consume_all digest env opts (cs @ ds) m =
     (let (rs, m1) = consume_all digest env opts cs m; (rs', m2) = consume_all digest env opts ds m1 in (rs @ rs', m2))"
  by (induction cs arbitrary: m) (auto simp: Let_def case_prod_beta)

lemma let_through_append: "let_through p (rs @ rs') = let_through p rs + let_through p rs'"
  by (simp add: let_through_def)

lemma consumeBucket_keeps:
  assumes "consumeBucket key lim now m = (r, m')" and "bucket_live m now k = Some (c, w)"
  shows "\<exists>c'. bucket_live m' now k = Some (c', w)"
  using consumeBucket_as_window [OF assms(1)] assms(2) buckets.consume_open [OF TrueI, of m now key _ _ lim]
    buckets.consume_other [OF TrueI, of k key lim now m]
  by (cases "key = k") auto

lemma consume_keeps:
  assumes "length m < maximumBuckets" and "bucket_live m now k = Some (c, w)"
  shows "\<exists>c'. bucket_live (snd (consume digest env opts request email now m)) now k = Some (c', w)"
proof -
  obtain r1 m1 where c1: "consumeBucket (client_key digest env request) (clientLimit opts) now m = (r1, m1)" by fastforce
  obtain r2 m2 where c2: "consumeBucket (subject_key digest opts email) (subjectLimit opts) now m1 = (r2, m2)" by fastforce
  obtain c' where "bucket_live m1 now k = Some (c', w)" using consumeBucket_keeps [OF c1 assms(2)] by blast
  with consumeBucket_keeps [OF c2 this] show ?thesis
    using assms(1) c1 c2 by (auto simp: consume_state Let_def removeExpiredBuckets_def)
qed

text \<open>A window that is open when a run begins is closed at its end, and not before.\<close>

lemma consume_all_keeps:
  assumes "length m + 2 * length cs < maximumBuckets" and "sorted (now # map (\<lambda>(_, _, t). t) cs)"
    and "\<forall>(_, _, t) \<in> set cs. t < w" and "bucket_live m now k = Some (c, w)"
  shows "bucket_live (snd (consume_all digest env opts cs m)) w k = None \<and>
    length (snd (consume_all digest env opts cs m)) \<le> length m + 2 * length cs"
  using assms
proof (induction cs arbitrary: m now c)
  case Nil
  have "now < w" using Nil.prems(4) by (auto simp: bucket_live_def split: option.splits if_splits)
  with buckets.live_later [of now w m k] Nil.prems(4) show ?case by simp
next
  case (Cons x cs)
  obtain request email t where x: "x = (request, email, t)" by (cases x)
  have t: "now \<le> t" "t < w" and small: "length m < maximumBuckets" using Cons.prems by (auto simp: x)
  have "bucket_live m t k = Some (c, w)" using buckets.live_Some_later [OF Cons.prems(4) t] .
  from consume_keeps [OF small this] obtain c' where
    c': "bucket_live (snd (consume digest env opts request email t m)) t k = Some (c', w)" by blast
  note len = length_consume [OF small, of digest env opts request email t]
  have "bucket_live (snd (consume_all digest env opts cs (snd (consume digest env opts request email t m)))) w k = None \<and>
      length (snd (consume_all digest env opts cs (snd (consume digest env opts request email t m)))) \<le>
      length (snd (consume digest env opts request email t m)) + 2 * length cs"
    by (rule Cons.IH [OF _ _ _ c']) (use Cons.prems len in \<open>auto simp: x\<close>)
  with len show ?case by (simp add: x case_prod_beta Let_def)
qed

text \<open>Within any minute a key passes its limit at most twice over, and only once when its window is closed at the start: a fixed window
  closes once in a minute.\<close>

lemma consume_all_minute:
  assumes small: "length m + 2 * length cs < maximumBuckets" and sorted: "sorted (now # map (\<lambda>(_, _, t). t) cs)"
    and within: "\<forall>(_, _, t) \<in> set cs. t < now + windowMs"
    and key: "\<forall>(request, email, t) \<in> set cs. p (request, email, t) \<longrightarrow>
       client_key digest env request = k \<and> clientLimit opts = L \<or>
       subject_key digest opts email = k \<and> subjectLimit opts = L"
  shows "let_through p (fst (consume_all digest env opts cs m)) \<le> (if bucket_live m now k = None then L else 2 * L)"
proof (cases "bucket_live m now k")
  case None
  then have "lasts_until m now k (now + windowMs)" "count_at m now k = 0" by (simp_all add: lasts_until_def count_at_def)
  with consume_all_count [OF small this(1) sorted within key] None show ?thesis by simp
next
  case (Some b)
  obtain c w where b: "bucket_live m now k = Some (c, w)" using Some by (cases b) simp
  have "now < w" using b by (auto simp: bucket_live_def split: option.splits if_splits)
  define early where "early = takeWhile (\<lambda>(_, _, t). t < w) cs"
  define late where "late = dropWhile (\<lambda>(_, _, t). t < w) cs"
  have cs: "cs = early @ late" by (simp add: early_def late_def)
  have before: "\<forall>(_, _, t) \<in> set early. t < w" by (auto simp: early_def dest: set_takeWhileD)
  have after: "sorted (w # map (\<lambda>(_, _, t). t) late)"
  proof (cases late)
    case (Cons x xs)
    then have "\<not> (\<lambda>(_, _, t). t < w) x" unfolding late_def by (metis hd_dropWhile list.distinct(1) list.sel(1))
    with Cons sorted show ?thesis by (fastforce simp: cs sorted_append)
  qed simp
  obtain rs1 m1 where first: "consume_all digest env opts early m = (rs1, m1)" by fastforce
  obtain rs2 m2 where second: "consume_all digest env opts late m1 = (rs2, m2)" by fastforce
  have len: "length m + 2 * length early < maximumBuckets" using small by (simp add: cs)
  have srt: "sorted (now # map (\<lambda>(_, _, t). t) early)" using sorted by (auto simp: cs sorted_append)
  have kept: "bucket_live m1 w k = None" "length m1 \<le> length m + 2 * length early"
    using consume_all_keeps [OF len srt before b, of digest env opts] by (simp_all add: first)
  have "lasts_until m now k w" using b by (simp add: lasts_until_def)
  from consume_all_count [OF len this srt before, of p digest env opts L] key
  have "let_through p rs1 + count_at m now k \<le> max L (count_at m now k)" by (auto simp: first cs)
  moreover have "let_through p rs2 + count_at m1 w k \<le> max L (count_at m1 w k)"
  proof (rule consume_all_count [of m1 late w k "w + windowMs" p digest env opts L, unfolded second fst_conv])
    show "length m1 + 2 * length late < maximumBuckets" using kept(2) small by (simp add: cs)
    show "lasts_until m1 w k (w + windowMs)" by (simp add: lasts_until_def kept(1))
    show "\<forall>(_, _, t) \<in> set late. t < w + windowMs"
    proof clarify
      fix request email t assume "(request, email, t) \<in> set late"
      then have "(request, email, t) \<in> set cs" by (simp add: cs)
      from bspec [OF within this] \<open>now < w\<close> show "t < w + windowMs" by simp
    qed
  qed (use after key in \<open>auto simp: cs\<close>)
  ultimately have "let_through p rs1 \<le> L" "let_through p rs2 \<le> L" by (auto simp: count_at_def kept(1))
  then show ?thesis by (simp add: b cs consume_all_append first second let_through_append)
qed

section \<open>What the limiters promise\<close>

text \<open>The map never holds more than 20001 windows, however many callers there are: every
  state a limiter reaches from the empty map, for any hash that is never the empty text (no
  SHA-256 digest is).\<close>

theorem limiter_map_bounded:
  assumes "\<And>v. digest v \<noteq> []"
  shows "length (snd (consume_all digest env opts cs [])) \<le> 20001"
proof -
  have "length (snd (consume_all digest env opts cs m)) \<le> maximumBuckets + 1 \<and>
      [] \<notin> fst ` set (snd (consume_all digest env opts cs m))"
    if "length m \<le> maximumBuckets + 1" "[] \<notin> fst ` set m" for m
    using that
  proof (induction cs arbitrary: m)
    case Nil
    then show ?case by simp
  next
    case (Cons c cs)
    obtain request email t where c: "c = (request, email, t)" by (cases c)
    show ?case
      using Cons.IH consume_size [of m digest env opts request email t, OF Cons.prems(2) assms]
      by (simp add: c case_prod_beta Let_def)
  qed
  from this [of "[]"] show ?thesis by (simp add: maximumBuckets_def)
qed

text \<open>A refused caller is told to wait between 1 and 60 seconds, in every run of a limiter
  whose clock does not go back.\<close>

theorem limiter_wait_is_at_most_a_minute:
  assumes "sorted (map (\<lambda>(_, _, t). t) cs)" and "(c, Some n) \<in> set (fst (consume_all digest env opts cs []))"
  shows "1 \<le> n \<and> n \<le> 60"
proof -
  have "\<forall>(c, res) \<in> set (fst (consume_all digest env opts cs m)). \<forall>n. res = Some n \<longrightarrow> 1 \<le> n \<and> n \<le> 60"
    if "sorted (now # map (\<lambda>(_, _, t). t) cs)" "resets_within now m" for now m
    using that
  proof (induction cs arbitrary: now m)
    case Nil
    then show ?case by simp
  next
    case (Cons c cs)
    obtain request email t where c: "c = (request, email, t)" by (cases c)
    have "resets_within t m" using Cons.prems by (auto simp: c intro: resets_later)
    from consume_retry [OF this, of digest env opts request email] Cons.IH [of t] Cons.prems(1)
    show ?case by (auto simp: c case_prod_beta Let_def)
  qed
  from this [of "Min (insert 0 ((\<lambda>(_, _, t). t) ` set cs))" "[]"] assms show ?thesis
    by (fastforce simp: resets_within_def)
qed

text \<open>Whatever a client sends within one minute, at most \<open>clientLimit\<close> of its requests pass,
  and at most \<open>subjectLimit\<close> of the requests for one subject, whichever clients send them; the
  run starts with no window open and is too short for the map to be purged.\<close>

theorem limiter_limits_clients_and_subjects:
  assumes "2 * length cs < maximumBuckets" and "sorted (now # map (\<lambda>(_, _, t). t) cs)"
    and "\<forall>(_, _, t) \<in> set cs. t < now + windowMs"
  shows "let_through (\<lambda>(request, _, _). clientAddress env request = a) (fst (consume_all digest env opts cs [])) \<le> clientLimit opts \<and>
    let_through (\<lambda>(_, email, _). subject_key digest opts email = subject_key digest opts e)
      (fst (consume_all digest env opts cs [])) \<le> subjectLimit opts"
proof -
  have "lasts_until [] now k (now + windowMs)" "count_at [] now k = 0" for k
    by (simp_all add: lasts_until_def bucket_live_def count_at_def)
  note run = consume_all_count [OF _ this(1) assms(2,3), unfolded this(2), simplified]
  have "let_through (\<lambda>(request, _, _). clientAddress env request = a) (fst (consume_all digest env opts cs [])) \<le> clientLimit opts"
    by (rule run [where k = "digest (''client:'' @ a)"]) (use assms(1) in \<open>auto simp: client_key_def\<close>)
  moreover have "let_through (\<lambda>(_, email, _). subject_key digest opts email = subject_key digest opts e)
      (fst (consume_all digest env opts cs [])) \<le> subjectLimit opts"
    by (rule run [where k = "subject_key digest opts e"]) (use assms(1) in auto)
  ultimately show ?thesis ..
qed

text \<open>The bucket itself is exact: from a closed window, the calls of one key within a minute
  pass until the limit is reached, and none after it, whatever other keys do in between.\<close>

theorem bucket_window_is_exact:
  assumes "bucket_live m now key = None" and "sorted (now # map snd evs)"
    and "\<forall>t \<in> snd ` set evs. t < now + windowMs"
  shows "accepted_calls (bucket_consume lim) key evs m = min lim (count_calls key evs)"
  using buckets.accepted_exact [OF _ assms] by simp

section \<open>Witnesses\<close>

definition sample_request :: request_context where
  "sample_request = \<lparr>rc_remoteAddress = Some ''10.0.0.1'', rc_forwardedFor = HMissing\<rparr>"

definition sample_digest :: "string \<Rightarrow> string" where
  "sample_digest v = CHR ''#'' # v"

definition sample_calls :: "call list" where
  "sample_calls = map (\<lambda>t. (sample_request, Some ''a@b.c'', t)) [0, 1, 2, 3]"

lemma limiter_map_bounded_witness:
  "length (snd (consume_all sample_digest (\<lambda>_. None) account_limiter sample_calls [])) \<le> 20001"
  by (rule limiter_map_bounded) (simp add: sample_digest_def)

lemma limiter_wait_is_at_most_a_minute_witness:
  "\<exists>n. ((sample_request, Some ''a@b.c'', 3), Some n) \<in>
      set (fst (consume_all sample_digest (\<lambda>_. None) account_limiter sample_calls [])) \<and> 1 \<le> n \<and> n \<le> 60"
proof -
  have "((sample_request, Some ''a@b.c'', 3), Some 60) \<in>
      set (fst (consume_all sample_digest (\<lambda>_. None) account_limiter sample_calls []))"
    by (simp add: sample_calls_def consume_def sample_digest_def account_limiter_def clientAddress_def sample_request_def
      removeExpiredBuckets_def maximumBuckets_def consumeBucket_def windowMs_def ceil_seconds_def
      Let_def trim_def trimStart_def trimEnd_def js_space_def toLowerCase_def lower_char_def)
  with limiter_wait_is_at_most_a_minute [OF _ this] show ?thesis
    by (auto simp: sample_calls_def)
qed

lemma limiter_limits_clients_and_subjects_witness:
  "let_through (\<lambda>(request, _, _). clientAddress (\<lambda>_. None) request = ''10.0.0.1'')
     (fst (consume_all sample_digest (\<lambda>_. None) account_limiter sample_calls [])) \<le> 6"
  using limiter_limits_clients_and_subjects [of sample_calls 0 "\<lambda>_. None" "''10.0.0.1''" sample_digest account_limiter]
  by (simp add: sample_calls_def maximumBuckets_def windowMs_def account_limiter_def)

lemma bucket_window_is_exact_witness:
  "accepted_calls (bucket_consume 2) ''k'' [(''k'', 0), (''other'', 1), (''k'', 5), (''k'', 9)] [] = 2"
  using bucket_window_is_exact [of "[]" 0 "''k''" "[(''k'', 0), (''other'', 1), (''k'', 5), (''k'', 9)]" 2]
  by (simp add: bucket_live_def windowMs_def)

end
