(* ===== verification/PasswordKdf.thy ===== *)
theory PasswordKdf
  imports JsNumber
begin

text \<open>
  Passwords (\<open>password-hash.ts\<close>, and the web client's copy of the policy in \<open>passwordPolicy.ts\<close>):
  the strength policy, the stored hash format, and the admission of at most four key derivations
  at a time with a bounded waiting line. PBKDF2, the random salt and base64url are parameters;
  bytes are strings.
\<close>

section \<open>The password policy\<close>

text \<open>The categories P and S of Unicode below code unit 256.\<close>

definition punctuation_or_symbol :: "char \<Rightarrow> bool" where
  "punctuation_or_symbol c \<longleftrightarrow> (let n = cu c in
     33 \<le> n \<and> n \<le> 47 \<or> 58 \<le> n \<and> n \<le> 64 \<or> 91 \<le> n \<and> n \<le> 96 \<or> 123 \<le> n \<and> n \<le> 126 \<or>
     161 \<le> n \<and> n \<le> 191 \<and> n \<notin> {170, 173, 178, 179, 181, 185, 186, 188, 189, 190} \<or> n = 215 \<or> n = 247)"

definition character_groups :: "(char \<Rightarrow> bool) list" where
  "character_groups = [\<lambda>c. 65 \<le> cu c \<and> cu c \<le> 90, \<lambda>c. 97 \<le> cu c \<and> cu c \<le> 122, is_digit, punctuation_or_symbol]"

definition group_count :: "string \<Rightarrow> nat" where
  "group_count password = length (filter (\<lambda>g. list_ex g password) character_groups)"

text \<open>\<open>None\<close> is a value that is not a text.\<close>

definition isStrongPassword :: "string option \<Rightarrow> bool" where
  "isStrongPassword password = (case password of None \<Rightarrow> False
     | Some p \<Rightarrow> if length p < 12 \<or> length p > 256 then False else group_count p \<ge> 3)"

definition passwordPolicyError :: "string \<Rightarrow> string option" where
  "passwordPolicyError password =
     (if length password < 12 \<or> length password > 256 then Some ''password policy''
      else if group_count password \<ge> 3 then None else Some ''password policy'')"

section \<open>The stored hash\<close>

definition pbkdf2Iterations :: int where
  "pbkdf2Iterations = 310000"

definition hash_prefix :: string where
  "hash_prefix = ''pbkdf2-sha256''"

text \<open>
  \<open>kdf password salt iterations\<close> is the outcome of \<open>derivePasswordKeyWithAdmission\<close>: a key, or the
  exception of a busy service or of a failed derivation.
\<close>

type_synonym kdf = "string \<Rightarrow> string \<Rightarrow> int \<Rightarrow> string res"

definition createPasswordHash :: "kdf \<Rightarrow> (string \<Rightarrow> string) \<Rightarrow> string \<Rightarrow> string \<Rightarrow> string res" where
  "createPasswordHash kdf base64url random password =
     (let salt = base64url random
      in bindR (kdf password salt pbkdf2Iterations) (\<lambda>key.
           Inr (hash_prefix @ ''$'' @ ''310000'' @ ''$'' @ salt @ ''$'' @ base64url key)))"

definition verifyPassword :: "kdf \<Rightarrow> (string \<Rightarrow> string) \<Rightarrow> string \<Rightarrow> string \<Rightarrow> bool res" where
  "verifyPassword kdf from_base64url password storedHash =
     (case split_on CHR ''$'' storedHash of
        [p0, p1, salt, expectedHash] \<Rightarrow>
          if p0 \<noteq> hash_prefix then Inr False
          else (case js_number p1 of
              Fin iterations \<Rightarrow>
                if \<not> is_integer (Fin iterations) \<or> iterations < 10000 \<or> iterations > 1000000 \<or> salt = [] \<or>
                   length salt > 128 \<or> expectedHash = [] \<or> length expectedHash > 128
                then Inr False
                else bindR (kdf password salt \<lfloor>iterations\<rfloor>) (\<lambda>calculated.
                       let expected = from_base64url expectedHash
                       in Inr (length expected = length calculated \<and> expected = calculated))
            | _ \<Rightarrow> Inr False)
      | _ \<Rightarrow> Inr False)"

definition passwordHashNeedsUpgrade :: "string \<Rightarrow> bool" where
  "passwordHashNeedsUpgrade storedHash \<longleftrightarrow>
     length storedHash = 64 \<or> \<not> startsWith storedHash (hash_prefix @ ''$'' @ ''310000'' @ ''$'')"

section \<open>Admission of key derivations\<close>

definition maxConcurrentPasswordKdf :: nat where
  "maxConcurrentPasswordKdf = 4"

definition maxQueuedPasswordKdf :: nat where
  "maxQueuedPasswordKdf = 16"

text \<open>
  The module's counters. A waiter is the number of its call; \<open>kp_holders\<close> lists the calls that
  are between \<open>acquire\<close> and \<open>release\<close>, and \<open>kp_rejected\<close> the calls refused, the latest last.
\<close>

record kdf_pool =
  kp_active :: nat
  kp_queue :: "nat list"
  kp_holders :: "nat list"
  kp_rejected :: "nat list"
  kp_next :: nat

definition empty_pool :: kdf_pool where
  "empty_pool = \<lparr>kp_active = 0, kp_queue = [], kp_holders = [], kp_rejected = [], kp_next = 0\<rparr>"

definition acquirePasswordKdfSlot :: "kdf_pool \<Rightarrow> kdf_pool" where
  "acquirePasswordKdfSlot p =
     (let w = kp_next p; p = p\<lparr>kp_next := Suc w\<rparr>
      in if kp_active p < maxConcurrentPasswordKdf
         then p\<lparr>kp_active := kp_active p + 1, kp_holders := kp_holders p @ [w]\<rparr>
         else if maxQueuedPasswordKdf \<le> length (kp_queue p)
         then p\<lparr>kp_rejected := kp_rejected p @ [w]\<rparr>
         else p\<lparr>kp_queue := kp_queue p @ [w]\<rparr>)"

text \<open>The timer of a waiter, cleared when it is granted a slot.\<close>

definition kdf_timeout :: "nat \<Rightarrow> kdf_pool \<Rightarrow> kdf_pool" where
  "kdf_timeout w p = p\<lparr>kp_queue := remove1 w (kp_queue p), kp_rejected := kp_rejected p @ [w]\<rparr>"

definition releasePasswordKdfSlot :: "nat \<Rightarrow> kdf_pool \<Rightarrow> kdf_pool" where
  "releasePasswordKdfSlot h p =
     (let p = p\<lparr>kp_active := kp_active p - 1, kp_holders := remove1 h (kp_holders p)\<rparr>
      in case kp_queue p of
           [] \<Rightarrow> p
         | waiter # rest \<Rightarrow> p\<lparr>kp_queue := rest, kp_active := kp_active p + 1, kp_holders := kp_holders p @ [waiter]\<rparr>)"

inductive kdf_step :: "kdf_pool \<Rightarrow> kdf_pool \<Rightarrow> bool" where
  acquire: "kdf_step p (acquirePasswordKdfSlot p)"
| timeout: "w \<in> set (kp_queue p) \<Longrightarrow> kdf_step p (kdf_timeout w p)"
| release: "h \<in> set (kp_holders p) \<Longrightarrow> kdf_step p (releasePasswordKdfSlot h p)"

inductive_cases kdf_stepE: "kdf_step p q"

definition pool_inv :: "kdf_pool \<Rightarrow> bool" where
  "pool_inv p \<longleftrightarrow> kp_active p = length (kp_holders p) \<and> kp_active p \<le> maxConcurrentPasswordKdf \<and>
     length (kp_queue p) \<le> maxQueuedPasswordKdf \<and>
     (kp_queue p \<noteq> [] \<longrightarrow> kp_active p = maxConcurrentPasswordKdf) \<and>
     distinct (kp_holders p @ kp_queue p @ kp_rejected p) \<and>
     set (kp_holders p @ kp_queue p @ kp_rejected p) \<subseteq> {..<kp_next p}"

lemma acquire_inv:
  assumes "pool_inv p"
  shows "pool_inv (acquirePasswordKdfSlot p)"
  using assms
  by (auto simp: pool_inv_def acquirePasswordKdfSlot_def Let_def maxConcurrentPasswordKdf_def maxQueuedPasswordKdf_def
      subset_iff less_Suc_eq)

lemma timeout_inv:
  assumes "pool_inv p" and "w \<in> set (kp_queue p)"
  shows "pool_inv (kdf_timeout w p)"
  using assms
  by (auto simp: pool_inv_def kdf_timeout_def length_remove1 dest: notin_set_remove1 in_set_remove1 set_remove1_subset [THEN subsetD])

lemma release_inv:
  assumes "pool_inv p" and "h \<in> set (kp_holders p)"
  shows "pool_inv (releasePasswordKdfSlot h p)"
  using assms
  by (auto simp: pool_inv_def releasePasswordKdfSlot_def Let_def length_remove1 maxConcurrentPasswordKdf_def
      dest: set_remove1_subset [THEN subsetD] split: list.split)

interpretation kdf_machine: machine "\<lambda>p. p = empty_pool" kdf_step pool_inv
proof unfold_locales
  show "pool_inv p" if "p = empty_pool" for p
    using that by (simp add: pool_inv_def empty_pool_def)
  show "pool_inv q" if "pool_inv p" "kdf_step p q" for p q
    using that(2,1) by cases (simp_all add: acquire_inv timeout_inv release_inv)
qed

section \<open>What the module promises\<close>

lemma split_stored:
  assumes "CHR ''$'' \<notin> set salt" and "CHR ''$'' \<notin> set h"
  shows "split_on CHR ''$'' (hash_prefix @ ''$'' @ ''310000'' @ ''$'' @ salt @ ''$'' @ h) =
    [hash_prefix, ''310000'', salt, h]"
proof -
  have "split_on CHR ''$'' (hash_prefix @ CHR ''$'' # ''310000'' @ CHR ''$'' # salt @ CHR ''$'' # h) =
      hash_prefix # ''310000'' # salt # [h]"
    by (simp add: hash_prefix_def split_on_append [OF assms(1)] split_on_single [OF assms(2)])
  then show ?thesis by simp
qed

lemma verify_stored:
  assumes "CHR ''$'' \<notin> set salt" and "CHR ''$'' \<notin> set h"
    and "salt \<noteq> []" and "length salt \<le> 128" and "h \<noteq> []" and "length h \<le> 128"
  shows "verifyPassword kdf from_base64url password (hash_prefix @ ''$'' @ ''310000'' @ ''$'' @ salt @ ''$'' @ h) =
    bindR (kdf password salt pbkdf2Iterations) (\<lambda>calculated. Inr (from_base64url h = calculated))"
proof -
  have i: "is_integer (Fin 310000)"
    by (simp add: is_integer_def)
  show ?thesis
    using assms unfolding verifyPassword_def split_stored [OF assms(1,2)]
    by (auto simp: js_number_examples(1) i pbkdf2Iterations_def Let_def bindR_def split: sum.split)
qed

text \<open>A new hash verifies exactly the passwords with the same derived key, and is not due for an
  upgrade unless it has the length of a legacy one. The encoding is assumed to behave like
  base64url on the salt and the key: no dollar sign, at most 128 characters, and decodable.\<close>

theorem password_hash_round_trip:
  assumes "kdf password (base64url random) pbkdf2Iterations = Inr key"
    and "from_base64url (base64url key) = key"
    and "\<forall>e \<in> {base64url random, base64url key}. CHR ''$'' \<notin> set e \<and> e \<noteq> [] \<and> length e \<le> 128"
  shows "\<exists>h. createPasswordHash kdf base64url random password = Inr h \<and>
    verifyPassword kdf from_base64url password h = Inr True \<and>
    (\<forall>other key'. kdf other (base64url random) pbkdf2Iterations = Inr key' \<longrightarrow>
       verifyPassword kdf from_base64url other h = Inr (key' = key)) \<and>
    (passwordHashNeedsUpgrade h \<longleftrightarrow> length h = 64)"
proof (rule exI, intro conjI)
  let ?h = "hash_prefix @ ''$'' @ ''310000'' @ ''$'' @ base64url random @ ''$'' @ base64url key"
  have v: "verifyPassword kdf from_base64url pw ?h =
      bindR (kdf pw (base64url random) pbkdf2Iterations) (\<lambda>calculated. Inr (key = calculated))" for pw
    using verify_stored [of "base64url random" "base64url key" kdf from_base64url pw] assms(2,3) by simp
  show "createPasswordHash kdf base64url random password = Inr ?h"
    using assms(1) by (simp add: createPasswordHash_def)
  show "verifyPassword kdf from_base64url password ?h = Inr True"
    unfolding v using assms(1) by simp
  show "\<forall>other key'. kdf other (base64url random) pbkdf2Iterations = Inr key' \<longrightarrow>
       verifyPassword kdf from_base64url other ?h = Inr (key' = key)"
    unfolding v by auto
  have "startsWith ?h (hash_prefix @ ''$'' @ ''310000'' @ ''$'')"
    unfolding startsWith_iff by (rule exI [of _ "base64url random @ ''$'' @ base64url key"]) simp
  then show "passwordHashNeedsUpgrade ?h \<longleftrightarrow> length ?h = 64"
    by (simp only: passwordHashNeedsUpgrade_def) simp
qed

text \<open>In every reachable state of the pool at most four key derivations run and at most sixteen
  calls wait, nobody waits while a slot is free, and a call is running, waiting or refused but
  never two of them.\<close>

theorem kdf_pool_is_bounded_and_work_conserving:
  assumes "kdf_step\<^sup>*\<^sup>* empty_pool p"
  shows "length (kp_holders p) \<le> 4 \<and> length (kp_queue p) \<le> 16 \<and>
    (length (kp_holders p) < 4 \<longrightarrow> kp_queue p = []) \<and>
    distinct (kp_holders p @ kp_queue p @ kp_rejected p)"
proof -
  have "pool_inv p" using kdf_machine.run_inv [OF _ assms] by simp
  then show ?thesis
    by (auto simp: pool_inv_def maxConcurrentPasswordKdf_def maxQueuedPasswordKdf_def)
qed

text \<open>A call is refused at once only when sixteen others wait, and a release grants the slot to
  the call that has waited longest.\<close>

theorem kdf_pool_serves_in_order:
  assumes "kdf_step\<^sup>*\<^sup>* empty_pool p"
  shows "(kp_rejected (acquirePasswordKdfSlot p) \<noteq> kp_rejected p \<longleftrightarrow> length (kp_queue p) = 16) \<and>
    (\<forall>h \<in> set (kp_holders p). \<forall>w ws. kp_queue p = w # ws \<longrightarrow>
       kp_queue (releasePasswordKdfSlot h p) = ws \<and>
       set (kp_holders (releasePasswordKdfSlot h p)) = insert w (set (kp_holders p) - {h}))"
proof -
  have "pool_inv p" using kdf_machine.run_inv [OF _ assms] by simp
  then show ?thesis
    by (auto simp: pool_inv_def acquirePasswordKdfSlot_def releasePasswordKdfSlot_def Let_def
        maxConcurrentPasswordKdf_def maxQueuedPasswordKdf_def)
qed

text \<open>The web client accepts exactly the passwords the server accepts.\<close>

lemma client_policy_matches_server: "passwordPolicyError p = None \<longleftrightarrow> isStrongPassword (Some p)"
  by (simp add: passwordPolicyError_def isStrongPassword_def)

section \<open>Witnesses\<close>

definition sample_kdf :: kdf where
  "sample_kdf password salt iterations = Inr (password @ salt)"

lemma password_hash_round_trip_witness:
  "\<exists>h. createPasswordHash sample_kdf id ''salt'' ''Password-123'' = Inr h \<and>
    verifyPassword sample_kdf id ''Password-123'' h = Inr True"
  using password_hash_round_trip [of sample_kdf "''Password-123''" id "''salt''" "''Password-123salt''" id]
  by (auto simp: sample_kdf_def)

definition sample_pool :: kdf_pool where
  "sample_pool = (acquirePasswordKdfSlot ^^ 6) empty_pool"

lemma sample_pool_run: "kdf_step\<^sup>*\<^sup>* empty_pool sample_pool"
proof -
  have "kdf_step\<^sup>*\<^sup>* empty_pool ((acquirePasswordKdfSlot ^^ n) empty_pool)" for n
    by (induction n) (auto intro: rtranclp.rtrancl_into_rtrancl kdf_step.acquire)
  then show ?thesis by (simp add: sample_pool_def)
qed

lemma sample_pool_eq: "kp_holders sample_pool = [0, 1, 2, 3]" "kp_queue sample_pool = [4, 5]"
  by (simp_all add: sample_pool_def numeral_eq_Suc acquirePasswordKdfSlot_def empty_pool_def Let_def
      maxConcurrentPasswordKdf_def maxQueuedPasswordKdf_def)

lemma kdf_pool_is_bounded_and_work_conserving_witness: "length (kp_queue sample_pool) \<le> 16"
  using kdf_pool_is_bounded_and_work_conserving [OF sample_pool_run] by simp

lemma kdf_pool_serves_in_order_witness: "kp_queue (releasePasswordKdfSlot 2 sample_pool) = [5]"
  using kdf_pool_serves_in_order [OF sample_pool_run] by (simp add: sample_pool_eq)

end
