(* ===== verification/TransportPolicy.thy ===== *)
theory TransportPolicy
  imports JsNumber
begin

text \<open>
  The decisions made on requests before a handler runs and on the addresses the server talks to:
  the HTTPS middleware (\<open>auth-transport-security.ts\<close>, \<open>main.ts\<close>), allowed browser origins
  (\<open>web-origin-policy.ts\<close>), public paths and bearer tokens (\<open>admin-auth.guard.ts\<close>), usable
  configuration values and public URLs (\<open>config-values.ts\<close>, \<open>public-url-config.ts\<close>), and the
  outbound requests (\<open>outbound-http-security.ts\<close>, \<open>identity-provider-security.ts\<close>).

  The URL parser, the IP address classifier, Node's block list, DNS and \<open>fetch\<close> are parameters.
\<close>

section \<open>The HTTPS middleware\<close>

record transport_request =
  tr_forwardedProto :: "string option"
  tr_isProduction :: bool
  tr_path :: string
  tr_socketEncrypted :: bool
  tr_trustProxy :: bool

definition isApiRoute :: "string \<Rightarrow> bool" where
  "isApiRoute path \<longleftrightarrow> path = ''/api'' \<or> startsWith path ''/api/''"

definition hasForwardedHttps :: "string option \<Rightarrow> bool" where
  "hasForwardedHttps forwardedProto = (case forwardedProto of None \<Rightarrow> False
     | Some p \<Rightarrow> (case split_on CHR '','' p of [] \<Rightarrow> False | w # _ \<Rightarrow> toLowerCase (trim w) = ''https''))"

definition shouldRejectInsecureRequest :: "transport_request \<Rightarrow> bool" where
  "shouldRejectInsecureRequest request =
     (if \<not> tr_isProduction request \<or> \<not> isApiRoute (tr_path request) \<or> tr_socketEncrypted request then False
      else \<not> tr_trustProxy request \<or> \<not> hasForwardedHttps (tr_forwardedProto request))"

text \<open>The middleware of \<open>main.ts\<close>: \<open>Inl\<close> is the 403 answer, \<open>Inr ()\<close> is \<open>next()\<close>. The header is a list of
  values when it was sent more than once.\<close>

definition https_middleware :: "env \<Rightarrow> string \<Rightarrow> string list \<Rightarrow> bool \<Rightarrow> unit res" where
  "https_middleware env path forwarded encrypted =
     guardR (\<not> shouldRejectInsecureRequest
        \<lparr>tr_forwardedProto = head_opt forwarded, tr_isProduction = is_production env, tr_path = path,
         tr_socketEncrypted = encrypted, tr_trustProxy = (env ''AUTH_HTTPS_TRUST_PROXY'' = Some ''1'')\<rparr>)
       (Forbidden ''https only'')"

section \<open>Addresses\<close>

record url =
  url_protocol :: string
  url_hostname :: string
  url_port :: string
  url_username :: string
  url_password :: string
  url_text :: string

type_synonym url_parser = "string \<Rightarrow> url option"

definition ipv4_octets :: "string \<Rightarrow> rat list option" where
  "ipv4_octets hostname =
     (let ns = map js_number (split_on CHR ''.'' hostname)
      in if length ns \<noteq> 4 \<or> list_ex (\<lambda>n. \<not> is_integer n \<or> (case n of Fin q \<Rightarrow> q < 0 \<or> 255 < q | _ \<Rightarrow> True)) ns then None
         else Some (map (\<lambda>n. case n of Fin q \<Rightarrow> q | _ \<Rightarrow> 0) ns))"

definition isPrivateIpv4 :: "string \<Rightarrow> bool" where
  "isPrivateIpv4 hostname = (case ipv4_octets hostname of
       Some (first # second # _) \<Rightarrow> first = 10 \<or> first = 192 \<and> second = 168 \<or> first = 172 \<and> 16 \<le> second \<and> second \<le> 31
     | _ \<Rightarrow> False)"

definition isAllowedWebOrigin :: "url_parser \<Rightarrow> env \<Rightarrow> string option \<Rightarrow> bool" where
  "isAllowedWebOrigin parse env origin =
     (if \<not> truthy origin then True
      else if truthy (env ''WEB_ORIGIN'') \<and> origin = env ''WEB_ORIGIN'' then True
      else if is_production env then False
      else (case parse (the origin) of
          Some url \<Rightarrow> url_protocol url = ''http:'' \<and>
            url_port url = (case env ''WEB_PORT'' of None \<Rightarrow> ''5173'' | Some p \<Rightarrow> p) \<and>
            (url_hostname url = ''localhost'' \<or> url_hostname url = ''127.0.0.1'' \<or> isPrivateIpv4 (url_hostname url))
        | None \<Rightarrow> False))"

section \<open>The guard's paths and tokens\<close>

definition isPublicPath :: "string \<Rightarrow> bool" where
  "isPublicPath path \<longleftrightarrow> path = ''/health'' \<or> path = ''/api/mobile-access'' \<or>
     startsWith path ''/api/auth/'' \<or> startsWith path ''/api/exams/invites/''"

definition extractBearerToken :: "string option \<Rightarrow> string option" where
  "extractBearerToken authorization = (case authorization of None \<Rightarrow> None
     | Some a \<Rightarrow> if \<not> startsWith a ''Bearer '' then None else Some (drop 7 a))"

section \<open>Configuration values\<close>

definition placeholderFragments :: "string list" where
  "placeholderFragments = [''replace'', ''your-'', ''example.com'', ''example.'', ''localhost'']"

definition hasUsableConfigValue :: "string option \<Rightarrow> bool" where
  "hasUsableConfigValue value = (case map_option (\<lambda>v. toLowerCase (trim v)) value of
       None \<Rightarrow> False
     | Some normalized \<Rightarrow> normalized \<noteq> [] \<and> \<not> list_ex (has_text normalized) placeholderFragments)"

definition isIpv4Literal :: "string \<Rightarrow> bool" where
  "isIpv4Literal hostname =
     (let parts = split_on CHR ''.'' hostname
      in length parts = 4 \<and> list_all (\<lambda>part. part \<noteq> [] \<and> list_all is_digit part \<and> digits_value part \<le> 255) parts)"

definition publicIpLiteral :: "string \<Rightarrow> bool" where
  "publicIpLiteral hostname \<longleftrightarrow> isIpv4Literal hostname \<or> has_text hostname '':'' \<or> startsWith hostname ''[''"

definition strip_slash :: "string \<Rightarrow> string" where
  "strip_slash s = (if s \<noteq> [] \<and> last s = CHR ''/'' then butlast s else s)"

definition normalizePublicHttpsUrl :: "url_parser \<Rightarrow> string option \<Rightarrow> string option" where
  "normalizePublicHttpsUrl parse value =
     (let trimmedValue = map_option trim value
      in if \<not> truthy trimmedValue \<or> \<not> hasUsableConfigValue trimmedValue then None
         else (case parse (trim (the trimmedValue)) of None \<Rightarrow> None
             | Some parsed \<Rightarrow>
                 if url_protocol parsed \<noteq> ''https:'' \<or> publicIpLiteral (url_hostname parsed) then None
                 else Some (strip_slash (url_text parsed))))"

definition isUsablePublicHttpsUrl :: "url_parser \<Rightarrow> string option \<Rightarrow> bool" where
  "isUsablePublicHttpsUrl parse value \<longleftrightarrow> normalizePublicHttpsUrl parse value \<noteq> None"

section \<open>Outbound requests\<close>

text \<open>\<open>isIP\<close> gives 4, 6 or 0.\<close>

type_synonym ip_family = "string \<Rightarrow> nat"

definition normalizeHostname :: "string \<Rightarrow> string" where
  "normalizeHostname hostname =
     (if startsWith hostname ''['' \<and> endsWith hostname '']'' then butlast (drop 1 hostname) else hostname)"

definition isLoopbackHostname :: "string \<Rightarrow> bool" where
  "isLoopbackHostname hostname \<longleftrightarrow> normalizeHostname hostname \<in> {''localhost'', ''127.0.0.1'', ''::1''}"

definition non_public_subnets :: "(string \<times> nat) list" where
  "non_public_subnets =
    [(''0.0.0.0'', 8), (''10.0.0.0'', 8), (''100.64.0.0'', 10), (''127.0.0.0'', 8),
     (''169.254.0.0'', 16), (''172.16.0.0'', 12), (''192.0.0.0'', 24), (''192.0.2.0'', 24),
     (''192.88.99.0'', 24), (''192.168.0.0'', 16), (''198.18.0.0'', 15), (''198.51.100.0'', 24),
     (''203.0.113.0'', 24), (''224.0.0.0'', 4), (''240.0.0.0'', 4),
     (''::'', 128), (''::1'', 128), (''::ffff:0:0'', 96), (''64:ff9b::'', 96), (''100::'', 64),
     (''2001::'', 23), (''2001:db8::'', 32), (''fc00::'', 7), (''fe80::'', 10), (''ff00::'', 8)]"

type_synonym block_check = "(string \<times> nat) list \<Rightarrow> string \<Rightarrow> bool"

definition isPublicIpAddress :: "ip_family \<Rightarrow> block_check \<Rightarrow> string \<Rightarrow> bool" where
  "isPublicIpAddress isIP check address =
     (if isIP address = 4 then \<not> check non_public_subnets address
      else if isIP address = 6 then \<not> check non_public_subnets address else False)"

definition parseSafeOutboundUrl :: "url_parser \<Rightarrow> ip_family \<Rightarrow> env \<Rightarrow> string \<Rightarrow> url res" where
  "parseSafeOutboundUrl parse isIP env rawUrl = (case parse rawUrl of
       None \<Rightarrow> Inl (OtherError ''outbound url format'')
     | Some url \<Rightarrow>
         let loopback = isLoopbackHostname (url_hostname url);
             developmentLoopback = \<not> is_production env \<and> loopback \<and>
               (url_protocol url = ''http:'' \<or> url_protocol url = ''https:'')
         in if url_username url \<noteq> [] \<or> url_password url \<noteq> [] then Inl (OtherError ''outbound url credentials'')
            else if url_protocol url \<noteq> ''https:'' \<and> \<not> developmentLoopback then Inl (OtherError ''outbound url not https'')
            else if isIP (normalizeHostname (url_hostname url)) \<noteq> 0 \<and> \<not> developmentLoopback
              then Inl (OtherError ''outbound url is an ip'')
            else Inr url)"

text \<open>\<open>lookup host\<close> is DNS: the addresses of a host, or a failure.\<close>

definition assertHostnameResolvesSafely ::
  "(string \<Rightarrow> string list option) \<Rightarrow> ip_family \<Rightarrow> block_check \<Rightarrow> env \<Rightarrow> url \<Rightarrow> unit res" where
  "assertHostnameResolvesSafely lookup isIP check env url =
     (if isLoopbackHostname (url_hostname url) \<and> \<not> is_production env then Inr ()
      else if \<not> is_production env \<and> endsWith (url_hostname url) ''.test'' then Inr ()
      else (case lookup (normalizeHostname (url_hostname url)) of
          None \<Rightarrow> Inl (OtherError ''outbound host unknown'')
        | Some addresses \<Rightarrow>
            if addresses = [] \<or> list_ex (\<lambda>a. \<not> isPublicIpAddress isIP check a) addresses
            then Inl (OtherError ''outbound host not public'') else Inr ()))"

definition secureOutboundFetch ::
  "url_parser \<Rightarrow> (string \<Rightarrow> string list option) \<Rightarrow> ip_family \<Rightarrow> block_check \<Rightarrow> (url \<Rightarrow> 'r option) \<Rightarrow> env \<Rightarrow> string \<Rightarrow> 'r res" where
  "secureOutboundFetch parse lookup isIP check fetch env rawUrl =
     bindR (parseSafeOutboundUrl parse isIP env rawUrl) (\<lambda>url.
     bindR (assertHostnameResolvesSafely lookup isIP check env url) (\<lambda>_.
       case fetch url of None \<Rightarrow> Inl (OtherError ''outbound connection failed'') | Some response \<Rightarrow> Inr response))"

text \<open>
  The reading loop: the body is the list of the chunks the reader delivers (a chunk is a text of
  one-byte characters, so decoding is concatenation). The second component counts the chunks read.
\<close>

fun read_chunks :: "nat \<Rightarrow> nat \<Rightarrow> string \<Rightarrow> string list \<Rightarrow> string res \<times> nat" where
  "read_chunks limitBytes receivedBytes result [] = (Inr result, 0)"
| "read_chunks limitBytes receivedBytes result (chunk # chunks) =
     (let receivedBytes = receivedBytes + length chunk
      in if limitBytes < receivedBytes then (Inl (OtherError ''outbound response too large''), 1)
         else (let (r, n) = read_chunks limitBytes receivedBytes (result @ chunk) chunks in (r, Suc n)))"

text \<open>\<open>Number(null)\<close>, for a missing content-length, is 0.\<close>

definition readBoundedText :: "nat \<Rightarrow> string option \<Rightarrow> string list option \<Rightarrow> string res" where
  "readBoundedText limitBytes contentLength body =
     (if (case (case contentLength of None \<Rightarrow> Fin 0 | Some v \<Rightarrow> js_number v) of
           Fin q \<Rightarrow> q > of_nat limitBytes | _ \<Rightarrow> False)
      then Inl (OtherError ''outbound response too large'')
      else (case body of None \<Rightarrow> Inr [] | Some chunks \<Rightarrow> fst (read_chunks limitBytes 0 [] chunks)))"

section \<open>The identity provider's address\<close>

definition isPrivateIpLiteral :: "string \<Rightarrow> bool" where
  "isPrivateIpLiteral hostname = (case ipv4_octets hostname of
       Some (first # second # _) \<Rightarrow> first = 10 \<or> first = 127 \<or> first = 172 \<and> 16 \<le> second \<and> second \<le> 31 \<or>
         first = 192 \<and> second = 168 \<or> first = 169 \<and> second = 254
     | _ \<Rightarrow> False)"

definition isIpLiteral :: "ip_family \<Rightarrow> string \<Rightarrow> bool" where
  "isIpLiteral isIP hostname \<longleftrightarrow>
     (let normalized = normalizeHostname hostname in isIP normalized \<noteq> 0 \<or> isPrivateIpLiteral normalized)"

definition isAllowedProviderUrl :: "ip_family \<Rightarrow> env \<Rightarrow> url \<Rightarrow> bool" where
  "isAllowedProviderUrl isIP env url =
     (if isLoopbackHostname (url_hostname url)
      then \<not> is_production env \<and> (url_protocol url = ''http:'' \<or> url_protocol url = ''https:'')
      else url_protocol url = ''https:'' \<and> \<not> isIpLiteral isIP (url_hostname url))"

definition providerBaseUrl :: "url_parser \<Rightarrow> ip_family \<Rightarrow> env \<Rightarrow> string res" where
  "providerBaseUrl parse isIP env =
     (if \<not> truthy (env ''KYC_SANDBOX_API_BASE_URL'') then Inl (ServiceUnavailable ''kyc base url missing'')
      else (case parse (the (env ''KYC_SANDBOX_API_BASE_URL'')) of
          None \<Rightarrow> Inl (ServiceUnavailable ''kyc base url format'')
        | Some url \<Rightarrow> if \<not> isAllowedProviderUrl isIP env url then Inl (ServiceUnavailable ''kyc base url not allowed'')
            else Inr (strip_slash (url_text url))))"

definition rejectUnsafeUploadReference :: "string option \<Rightarrow> string \<Rightarrow> unit res" where
  "rejectUnsafeUploadReference uploadRef fieldName =
     (if \<not> truthy uploadRef then Inr ()
      else (let trimmed = trim (the uploadRef); normalized = toLowerCase trimmed
            in if startsWith normalized ''data:'' \<or> startsWith trimmed ''{'' \<or> startsWith trimmed ''['' \<or> length trimmed > 256
               then Inl (ServiceUnavailable (''kyc upload reference '' @ fieldName)) else Inr ()))"

section \<open>What the policies promise\<close>

lemma https_middleware_passes:
  "https_middleware env path forwarded encrypted = Inr () \<longleftrightarrow>
     \<not> is_production env \<or> \<not> isApiRoute path \<or> encrypted \<or>
     env ''AUTH_HTTPS_TRUST_PROXY'' = Some ''1'' \<and> hasForwardedHttps (head_opt forwarded)"
  by (auto simp: https_middleware_def shouldRejectInsecureRequest_def)

lemma read_chunks_spec:
  "received \<le> limitBytes \<Longrightarrow>
   fst (read_chunks limitBytes received result chunks) =
     (if received + length (concat chunks) \<le> limitBytes then Inr (result @ concat chunks)
      else Inl (OtherError ''outbound response too large''))"
  by (induction limitBytes received result chunks rule: read_chunks.induct) (auto simp: Let_def case_prod_beta)

lemma read_chunks_stops:
  "received \<le> limitBytes \<Longrightarrow> limitBytes < received + length (concat (take n chunks)) \<Longrightarrow>
   snd (read_chunks limitBytes received result chunks) \<le> n"
proof (induction chunks arbitrary: received result n)
  case (Cons c cs)
  then show ?case
    by (cases n) (auto simp: Let_def case_prod_beta)
qed simp

text \<open>The reader returns the whole body exactly when it fits the limit, fails otherwise, and stops
  at the chunk that passes the limit: no later chunk is read.\<close>

theorem bounded_read_is_exact:
  "fst (read_chunks limitBytes 0 [] chunks) =
     (if length (concat chunks) \<le> limitBytes then Inr (concat chunks) else Inl (OtherError ''outbound response too large'')) \<and>
   (limitBytes < length (concat (take n chunks)) \<longrightarrow> snd (read_chunks limitBytes 0 [] chunks) \<le> n)"
  using read_chunks_spec [of 0 limitBytes "[]" chunks] read_chunks_stops [of 0 limitBytes n chunks "[]"]
  by simp

text \<open>In production an answer comes back only from an HTTPS address without credentials, whose
  host is a name, neither an IP literal nor a loopback name, and resolves to at least one address, all
  public; nothing else is ever fetched.\<close>

theorem production_fetches_only_public_hosts:
  assumes "is_production env" and "secureOutboundFetch parse lookup isIP check fetch env rawUrl = Inr response"
  shows "\<exists>url addresses. parse rawUrl = Some url \<and> fetch url = Some response \<and>
    url_protocol url = ''https:'' \<and> url_username url = [] \<and> url_password url = [] \<and>
    isIP (normalizeHostname (url_hostname url)) = 0 \<and>
    lookup (normalizeHostname (url_hostname url)) = Some addresses \<and> addresses \<noteq> [] \<and>
    (\<forall>a \<in> set addresses. isPublicIpAddress isIP check a)"
  using assms
  by (auto simp: secureOutboundFetch_def parseSafeOutboundUrl_def assertHostnameResolvesSafely_def bindR_def Let_def
      list_ex_iff split: option.splits sum.splits if_splits)

section \<open>Witnesses\<close>

definition sample_url :: url where
  "sample_url = \<lparr>url_protocol = ''https:'', url_hostname = ''api.vendor.io'', url_port = [], url_username = [],
     url_password = [], url_text = ''https://api.vendor.io/''\<rparr>"

definition outbound_env :: env where
  "outbound_env = (\<lambda>v. if v = ''NODE_ENV'' then Some ''production'' else None)"

lemma production_fetches_only_public_hosts_witness:
  "\<exists>addresses. (\<lambda>_. Some [''8.8.8.8'']) (url_hostname sample_url) = Some addresses \<and> addresses \<noteq> []"
proof -
  have "secureOutboundFetch (\<lambda>_. Some sample_url) (\<lambda>_. Some [''8.8.8.8''])
      (\<lambda>a. if a = ''8.8.8.8'' then 4 else 0) (\<lambda>_ _. False) (\<lambda>_. Some (200::nat)) outbound_env ''https://api.vendor.io/'' = Inr 200"
    by (simp add: secureOutboundFetch_def parseSafeOutboundUrl_def assertHostnameResolvesSafely_def sample_url_def
        outbound_env_def is_production_def isLoopbackHostname_def normalizeHostname_def startsWith_def endsWith_def
        isPublicIpAddress_def)
  from production_fetches_only_public_hosts [OF _ this] show ?thesis
    by (auto simp: outbound_env_def is_production_def)
qed

lemma bounded_read_is_exact_witness:
  "snd (read_chunks 3 0 [] [''ab'', ''cd'', ''ef'']) \<le> 2"
  using bounded_read_is_exact [of 3 "[''ab'', ''cd'', ''ef'']" 2] by (simp add: numeral_2_eq_2)

end
