(* ===== verification/Prisma.thy ===== *)
theory Prisma
  imports Contracts
begin

text \<open>
  The database as the services see it. The rows are the models of \<open>schema.prisma\<close>. The Prisma client
  is third-party code, so a table is a parameter: the record \<open>table\<close> of the queries the services
  make, each an effect over the client's state \<open>'d\<close> that may fail with any exception. The locale
  \<open>prisma_table\<close> states the documented behaviour the services rely on: a query that succeeds acts on
  the table's rows like the list operation, and one that fails leaves the state as it was.
  \<open>reliable_table\<close> adds that no query fails.

  \<open>list_table\<close> is the table of an in-memory database, and every model of the schema that the account
  services use is an instance of the locales.
\<close>

section \<open>Tables\<close>

record ('d, 'r) table =
  t_find :: "('r \<Rightarrow> bool) \<Rightarrow> ('d, 'r option) act"
  t_findMany :: "('r \<Rightarrow> bool) \<Rightarrow> ('d, 'r list) act"
  t_count :: "('r \<Rightarrow> bool) \<Rightarrow> ('d, int) act"
  t_create :: "'r \<Rightarrow> ('d, 'r) act"
  t_update :: "('r \<Rightarrow> bool) \<Rightarrow> ('r \<Rightarrow> 'r) \<Rightarrow> ('d, 'r) act"
  t_updateMany :: "('r \<Rightarrow> bool) \<Rightarrow> ('r \<Rightarrow> 'r) \<Rightarrow> ('d, int) act"
  t_delete :: "('r \<Rightarrow> bool) \<Rightarrow> ('d, 'r) act"
  t_deleteMany :: "('r \<Rightarrow> bool) \<Rightarrow> ('d, int) act"

text \<open>\<open>succeeds m d x d'\<close>: the effect returns \<open>x\<close>; \<open>fails\<close>: it throws and does nothing.\<close>

definition count_rows :: "('r \<Rightarrow> bool) \<Rightarrow> 'r list \<Rightarrow> int" where
  "count_rows p rows = int (length (filter p rows))"

locale prisma_table =
  fixes T :: "('d, 'r) table"
    and rows :: "'d \<Rightarrow> 'r list"
  assumes find_law: "t_find T p d = (res, d') \<Longrightarrow> d' = d \<and> (\<forall>x. res = Inr x \<longrightarrow> x = List.find p (rows d))"
    and findMany_law: "t_findMany T p d = (ress, d') \<Longrightarrow> d' = d \<and> (\<forall>xs. ress = Inr xs \<longrightarrow> xs = filter p (rows d))"
    and count_law: "t_count T p d = (resn, d') \<Longrightarrow> d' = d \<and> (\<forall>n. resn = Inr n \<longrightarrow> n = count_rows p (rows d))"
    and create_law: "t_create T r d = (resr, d') \<Longrightarrow>
      (\<forall>e. resr = Inl e \<longrightarrow> d' = d) \<and> (\<forall>x. resr = Inr x \<longrightarrow> x = r \<and> rows d' = rows d @ [r])"
    and update_law: "t_update T p f d = (resr, d') \<Longrightarrow>
      (\<forall>e. resr = Inl e \<longrightarrow> d' = d) \<and>
      (\<forall>x. resr = Inr x \<longrightarrow> (\<exists>r. List.find p (rows d) = Some r \<and> x = f r) \<and> rows d' = replace_where p f (rows d))"
    and updateMany_law: "t_updateMany T p f d = (resn, d') \<Longrightarrow>
      (\<forall>e. resn = Inl e \<longrightarrow> d' = d) \<and>
      (\<forall>n. resn = Inr n \<longrightarrow> n = count_rows p (rows d) \<and> rows d' = replace_where p f (rows d))"
    and delete_law: "t_delete T p d = (resr, d') \<Longrightarrow>
      (\<forall>e. resr = Inl e \<longrightarrow> d' = d) \<and>
      (\<forall>x. resr = Inr x \<longrightarrow> List.find p (rows d) = Some x \<and> rows d' = filter (\<lambda>r. \<not> p r) (rows d))"
    and deleteMany_law: "t_deleteMany T p d = (resn, d') \<Longrightarrow>
      (\<forall>e. resn = Inl e \<longrightarrow> d' = d) \<and>
      (\<forall>n. resn = Inr n \<longrightarrow> n = count_rows p (rows d) \<and> rows d' = filter (\<lambda>r. \<not> p r) (rows d))"
begin

lemma find_state: "snd (t_find T p d) = d"
  using find_law [of p d "fst (t_find T p d)" "snd (t_find T p d)"] by simp

lemma find_cases:
  obtains (fail) e where "t_find T p d = (Inl e, d)" | (ok) "t_find T p d = (Inr (List.find p (rows d)), d)"
  using find_law [of p d "fst (t_find T p d)" "snd (t_find T p d)"]
  by (cases "fst (t_find T p d)") (auto simp: prod_eq_iff)

lemma count_cases:
  obtains (fail) e where "t_count T p d = (Inl e, d)" | (ok) "t_count T p d = (Inr (count_rows p (rows d)), d)"
  using count_law [of p d "fst (t_count T p d)" "snd (t_count T p d)"]
  by (cases "fst (t_count T p d)") (auto simp: prod_eq_iff)

lemma update_cases:
  obtains (fail) e where "t_update T p f d = (Inl e, d)"
  | (ok) r d' where "t_update T p f d = (Inr (f r), d')" and "List.find p (rows d) = Some r"
      and "rows d' = replace_where p f (rows d)"
  using update_law [of p f d "fst (t_update T p f d)" "snd (t_update T p f d)"]
  by (cases "fst (t_update T p f d)") (auto simp: prod_eq_iff)

lemma create_cases:
  obtains (fail) e where "t_create T r d = (Inl e, d)"
  | (ok) d' where "t_create T r d = (Inr r, d')" and "rows d' = rows d @ [r]"
  using create_law [of r d "fst (t_create T r d)" "snd (t_create T r d)"]
  by (cases "fst (t_create T r d)") (auto simp: prod_eq_iff)

end

locale reliable_table = prisma_table +
  assumes find_ok: "\<exists>x. fst (t_find T p d) = Inr x"
    and update_ok: "List.find p (rows d) \<noteq> None \<Longrightarrow> \<exists>x. fst (t_update T p f d) = Inr x"
begin

lemma find_eq: "t_find T p d = (Inr (List.find p (rows d)), d)"
  using find_ok [of p d] by (cases rule: find_cases [of p d]) auto

lemma update_eq:
  assumes "List.find p (rows d) = Some r"
  obtains d' where "t_update T p f d = (Inr (f r), d')" and "rows d' = replace_where p f (rows d)"
proof (cases rule: update_cases [of p f d])
  case (fail e)
  then show ?thesis using update_ok [of p d f] assms by auto
qed (use assms that in auto)

end

text \<open>Another part of the client's state that the queries on a table leave alone.\<close>

locale framed_table = prisma_table T rows for T :: "('d, 'r) table" and rows :: "'d \<Rightarrow> 'r list" +
  fixes other :: "'d \<Rightarrow> 'x"
  assumes create_frame: "other (snd (t_create T r d)) = other d"
    and update_frame: "other (snd (t_update T p f d)) = other d"
    and updateMany_frame: "other (snd (t_updateMany T p f d)) = other d"
    and deleteMany_frame: "other (snd (t_deleteMany T p d)) = other d"

section \<open>In-memory tables\<close>

text \<open>The known errors are Prisma's codes: \<open>P2025\<close>, no record matched.\<close>

definition list_table :: "('d \<Rightarrow> 'r list) \<Rightarrow> ('r list \<Rightarrow> 'd \<Rightarrow> 'd) \<Rightarrow> ('d, 'r) table" where
  "list_table rows put = \<lparr>
     t_find = \<lambda>p d. (Inr (List.find p (rows d)), d),
     t_findMany = \<lambda>p d. (Inr (filter p (rows d)), d),
     t_count = \<lambda>p d. (Inr (count_rows p (rows d)), d),
     t_create = \<lambda>r d. (Inr r, put (rows d @ [r]) d),
     t_update = \<lambda>p f d. (case List.find p (rows d) of None \<Rightarrow> (Inl (PrismaKnown ''P2025''), d)
       | Some r \<Rightarrow> (Inr (f r), put (replace_where p f (rows d)) d)),
     t_updateMany = \<lambda>p f d. (Inr (count_rows p (rows d)), put (replace_where p f (rows d)) d),
     t_delete = \<lambda>p d. (case List.find p (rows d) of None \<Rightarrow> (Inl (PrismaKnown ''P2025''), d)
       | Some r \<Rightarrow> (Inr r, put (filter (\<lambda>r. \<not> p r) (rows d)) d)),
     t_deleteMany = \<lambda>p d. (Inr (count_rows p (rows d)), put (filter (\<lambda>r. \<not> p r) (rows d)) d)\<rparr>"

lemma list_table_reliable:
  assumes "\<And>rs d. rows (put rs d) = rs"
  shows "reliable_table (list_table rows put) rows"
  by unfold_locales (auto simp: list_table_def assms split: option.splits)

lemma list_table_framed:
  assumes "\<And>rs d. rows (put rs d) = rs" and "\<And>rs d. other (put rs d) = other d"
  shows "framed_table (list_table rows put) rows other"
  by unfold_locales (auto simp: list_table_def assms split: option.splits)

section \<open>The models of the schema\<close>

record organization_row =
  o_id :: string
  o_name :: string
  o_joinCode :: string
  o_createdAt :: time

record user_row =
  u_id :: string
  u_email :: string
  u_passwordHash :: string
  u_name :: string
  u_role :: user_role
  u_organizationId :: "string option"
  u_failedLoginAttempts :: int
  u_lockedUntil :: "time option"
  u_passwordChangedAt :: time
  u_passwordChangeRequired :: bool
  u_privacyConsentVersion :: "string option"
  u_privacyConsentAcceptedAt :: "time option"
  u_createdAt :: time

record invitation_row =
  ivr_id :: string
  ivr_token :: string
  ivr_organizationId :: string
  ivr_invitedUserId :: string
  ivr_requestedRole :: user_role
  ivr_status :: invitation_status
  ivr_invitedById :: string
  ivr_createdAt :: time
  ivr_acceptedAt :: "time option"

record access_request_row =
  arr_id :: string
  arr_userId :: string
  arr_organizationId :: string
  arr_requestedRole :: user_role
  arr_reason :: string
  arr_status :: access_status
  arr_rejectionReason :: "string option"
  arr_reviewedById :: "string option"
  arr_createdAt :: time
  arr_reviewedAt :: "time option"

record signup_row =
  sgr_id :: string
  sgr_organizationName :: string
  sgr_name :: string
  sgr_email :: string
  sgr_passwordHash :: string
  sgr_reason :: string
  sgr_requestedRole :: user_role
  sgr_status :: signup_status
  sgr_rejectionReason :: "string option"
  sgr_reviewedById :: "string option"
  sgr_approvedUserId :: "string option"
  sgr_createdAt :: time
  sgr_reviewedAt :: "time option"

record database =
  db_users :: "user_row list"
  db_organizations :: "organization_row list"
  db_invitations :: "invitation_row list"
  db_accessRequests :: "access_request_row list"
  db_signupRequests :: "signup_row list"

abbreviation users_table :: "(database, user_row) table" where
  "users_table \<equiv> list_table db_users (\<lambda>rs d. d\<lparr>db_users := rs\<rparr>)"

abbreviation organizations_table :: "(database, organization_row) table" where
  "organizations_table \<equiv> list_table db_organizations (\<lambda>rs d. d\<lparr>db_organizations := rs\<rparr>)"

abbreviation invitations_table :: "(database, invitation_row) table" where
  "invitations_table \<equiv> list_table db_invitations (\<lambda>rs d. d\<lparr>db_invitations := rs\<rparr>)"

abbreviation accessRequests_table :: "(database, access_request_row) table" where
  "accessRequests_table \<equiv> list_table db_accessRequests (\<lambda>rs d. d\<lparr>db_accessRequests := rs\<rparr>)"

abbreviation signupRequests_table :: "(database, signup_row) table" where
  "signupRequests_table \<equiv> list_table db_signupRequests (\<lambda>rs d. d\<lparr>db_signupRequests := rs\<rparr>)"

interpretation users: reliable_table users_table db_users
  by (rule list_table_reliable) simp

interpretation organizations: reliable_table organizations_table db_organizations
  by (rule list_table_reliable) simp

interpretation invitations: reliable_table invitations_table db_invitations
  by (rule list_table_reliable) simp

interpretation accessRequests: reliable_table accessRequests_table db_accessRequests
  by (rule list_table_reliable) simp

interpretation signupRequests: reliable_table signupRequests_table db_signupRequests
  by (rule list_table_reliable) simp

interpretation invitations_users: framed_table invitations_table db_invitations db_users
  by (rule list_table_framed) simp_all

interpretation organizations_users: framed_table organizations_table db_organizations db_users
  by (rule list_table_framed) simp_all

section \<open>Transactions and availability\<close>

text \<open>
  \<open>$transaction\<close> runs its callback and commits; the answer to the commit is a parameter, and a
  rejected commit (\<open>P2034\<close>, a serialization failure) undoes the callback's writes.
\<close>

definition run_transaction :: "exn option \<Rightarrow> ('d, 'a) act \<Rightarrow> ('d, 'a) act" where
  "run_transaction commit m = transaction (bindE m (\<lambda>x. case commit of None \<Rightarrow> ret x | Some e \<Rightarrow> throwE e))"

lemma run_transaction_Inr:
  "run_transaction commit m d = (Inr x, d') \<longleftrightarrow> commit = None \<and> m d = (Inr x, d')"
  by (auto simp: run_transaction_def transaction_Inr bindE_def ret_def throwE_def split: prod.splits sum.splits option.splits)

lemma run_transaction_Inl: "run_transaction commit m d = (Inl e, d') \<Longrightarrow> d' = d"
  by (simp add: run_transaction_def transaction_Inl)

lemma run_transaction_error:
  "run_transaction commit m d = (Inl e, d') \<Longrightarrow> (\<exists>d''. m d = (Inl e, d'')) \<or> commit = Some e"
  by (auto simp: run_transaction_def transaction_def bindE_def ret_def throwE_def split: prod.splits sum.splits option.splits)

definition databaseAvailable :: "env \<Rightarrow> bool" where
  "databaseAvailable env \<longleftrightarrow> env ''DISABLE_DATABASE'' \<noteq> Some ''1'' \<and> truthy (env ''DATABASE_URL'')"

text \<open>\<open>runDatabase\<close> of the account services: an \<open>Error\<close> that is not an HTTP exception becomes \<open>undefined\<close>.\<close>

definition runDatabase :: "('d, 'a) act \<Rightarrow> ('d, 'a option) act" where
  "runDatabase operation = catchE (bindE operation (\<lambda>x. ret (Some x)))
     (\<lambda>e. if is_http_exception e then throwE e else if is_error e then ret None else throwE e)"

lemma runDatabase_Some:
  "runDatabase m d = (Inr (Some x), d') \<longleftrightarrow> m d = (Inr x, d')"
  by (auto simp: runDatabase_def catchE_def bindE_def ret_def throwE_def split: prod.splits sum.splits if_splits)

lemma runDatabase_cases:
  "runDatabase m d = (res, d') \<Longrightarrow>
     (\<exists>x. res = Inr (Some x) \<and> m d = (Inr x, d')) \<or>
     (\<exists>e. (res = Inr None \<or> res = Inl e) \<and> m d = (Inl e, d'))"
  by (auto simp: runDatabase_def catchE_def bindE_def ret_def throwE_def split: prod.splits sum.splits if_splits)

end
