(* ===== verification/Auth.thy ===== *)
theory Auth
  imports Prisma SessionRegistry RateLimiter PasswordKdf TransportPolicy
begin

text \<open>
  Authentication (\<open>auth.service.ts\<close>, \<open>auth.controller.ts\<close>, \<open>admin-auth.guard.ts\<close>). The state is the
  database client and the session registry; every handler runs at one time and draws its random
  values from its context.
\<close>

section \<open>Context and state\<close>

record 'd auth_ctx =
  ac_env :: env
  ac_users :: "('d, user_row) table"
  ac_orgs :: "('d, organization_row) table"
  ac_kdf :: kdf
  ac_base64url :: "string \<Rightarrow> string"
  ac_from_base64url :: "string \<Rightarrow> string"
  ac_sha256 :: "string \<Rightarrow> string"
  ac_now :: time
  ac_started :: time
  ac_uuid :: "nat \<Rightarrow> string"
  ac_salt :: string
  ac_commit :: "nat \<Rightarrow> exn option"

type_synonym 'd auth_state = "'d \<times> registry"

definition on_db :: "('d, 'a) act \<Rightarrow> ('d auth_state, 'a) act" where
  "on_db m = (\<lambda>(d, g). let (r, d') = m d in (r, (d', g)))"

definition on_reg :: "(registry \<Rightarrow> 'a \<times> registry) \<Rightarrow> ('d auth_state, 'a) act" where
  "on_reg f = (\<lambda>(d, g). let (x, g') = f g in (Inr x, (d, g')))"

definition put_session :: "'d auth_ctx \<Rightarrow> auth_session \<Rightarrow> ('d auth_state, unit) act" where
  "put_session c session = on_reg (\<lambda>g. ((), set_session default_options (ac_now c) (as_token session) session g))"

definition drop_session :: "string \<Rightarrow> ('d auth_state, unit) act" where
  "drop_session token = on_reg (\<lambda>g. ((), snd (delete_session token g)))"

section \<open>Constants and small functions\<close>

definition demoOrganization :: "'d auth_ctx \<Rightarrow> organization" where
  "demoOrganization c = \<lparr>org_id = ''org_demo'', org_name = ''Acme Engineering Hiring'', org_joinCode = None,
     org_createdAt = ac_started c\<rparr>"

definition demoUser :: "'d auth_ctx \<Rightarrow> user" where
  "demoUser c = \<lparr>usr_id = ''user_admin_001'', usr_email = ''admin@acme.test'', usr_name = ''Acme Operator'',
     usr_role = ADMIN, usr_organizationId = Some ''org_demo'', usr_createdAt = ac_started c\<rparr>"

definition failedLoginLimit :: int where
  "failedLoginLimit = 5"

definition accountLockDurationMs :: time where
  "accountLockDurationMs = 15 * 60 * 1000"

definition passwordLifetimeMs :: time where
  "passwordLifetimeMs = 90 * 24 * 60 * 60 * 1000"

definition invalidCredentials :: exn where
  "invalidCredentials = Unauthorized ''invalid credentials''"

definition dummyPasswordHash :: string where
  "dummyPasswordHash = ''pbkdf2-sha256$310000$dcvp-dummy-login-salt$woK-CvNd4mKHb7rbtzk6crIhkEbVW_m9nXjISMPo2Zg''"

definition isSerializationFailure :: "exn \<Rightarrow> bool" where
  "isSerializationFailure e \<longleftrightarrow> e = PrismaKnown ''P2034''"

definition toUser :: "user_row \<Rightarrow> user" where
  "toUser u = \<lparr>usr_id = u_id u, usr_email = u_email u, usr_name = u_name u, usr_role = u_role u,
     usr_organizationId = u_organizationId u, usr_createdAt = u_createdAt u\<rparr>"

definition toOrganization :: "organization_row \<Rightarrow> organization" where
  "toOrganization r = \<lparr>org_id = o_id r, org_name = o_name r, org_joinCode = Some (o_joinCode r), org_createdAt = o_createdAt r\<rparr>"

definition unaffiliatedOrganization :: organization where
  "unaffiliatedOrganization = \<lparr>org_id = [], org_name = ''unaffiliated'', org_joinCode = None, org_createdAt = 0\<rparr>"

definition organization_or_none :: "organization_row option \<Rightarrow> organization" where
  "organization_or_none r = (case r of Some r \<Rightarrow> toOrganization r | None \<Rightarrow> unaffiliatedOrganization)"

text \<open>\<open>randomUUID\<close> without its dashes, first eight, in upper case.\<close>

definition join_code :: "string \<Rightarrow> string" where
  "join_code uuid = ''ORG-'' @ toUpperCase (take 8 (filter (\<lambda>c. c \<noteq> CHR ''-'') uuid))"

definition passwordMatches :: "'d auth_ctx \<Rightarrow> string \<Rightarrow> string \<Rightarrow> bool res" where
  "passwordMatches c password storedHash =
     bindR (verifyPassword (ac_kdf c) (ac_from_base64url c) password storedHash) (\<lambda>ok.
       Inr (ok \<or> storedHash = ac_sha256 c password))"

definition new_hash :: "'d auth_ctx \<Rightarrow> string \<Rightarrow> string res" where
  "new_hash c password = createPasswordHash (ac_kdf c) (ac_base64url c) (ac_salt c) password"

definition demoAuthEnabled :: "env \<Rightarrow> bool" where
  "demoAuthEnabled env =
     (if is_production env then False
      else if env ''ALLOW_DEMO_AUTH'' = Some ''1'' then True
      else if env ''ALLOW_DEMO_AUTH'' = Some ''0'' then False
      else True)"

definition password_expired :: "'d auth_ctx \<Rightarrow> user_row \<Rightarrow> bool" where
  "password_expired c u \<longleftrightarrow> u_passwordChangeRequired u \<or> u_passwordChangedAt u \<le> ac_now c - passwordLifetimeMs"

section \<open>Input validation\<close>

definition assertCurrentPrivacyConsent :: "bool \<Rightarrow> string \<Rightarrow> unit res" where
  "assertCurrentPrivacyConsent accepted version =
     guardR (accepted \<and> version = CURRENT_PRIVACY_POLICY_VERSION) (BadRequest ''privacy consent required'')"

definition parseInitialAdminInput :: "initial_admin_input \<Rightarrow> initial_admin_input res" where
  "parseInitialAdminInput input =
     (let organizationName = trim (ia_organizationName input);
          name = trim (ia_name input);
          email = toLowerCase (trim (ia_email input))
      in if organizationName = [] \<or> length organizationName > 160 \<or> name = [] \<or> length name > 100 \<or> email = [] \<or>
            length email > 320 \<or> \<not> isStrongPassword (ia_password input)
         then Inl (BadRequest ''organization, name, email and password required'')
         else if \<not> has_text email ''@'' then Inl (BadRequest ''admin email invalid'')
         else bindR (assertCurrentPrivacyConsent (ia_privacyConsentAccepted input) (ia_privacyPolicyVersion input)) (\<lambda>_.
           Inr \<lparr>ia_organizationName = organizationName, ia_name = name, ia_email = email, ia_password = ia_password input,
                ia_privacyConsentAccepted = True, ia_privacyPolicyVersion = CURRENT_PRIVACY_POLICY_VERSION\<rparr>))"

definition parseRegisterInput :: "register_input \<Rightarrow> register_input res" where
  "parseRegisterInput input =
     (let name = trim (ri_name input);
          email = toLowerCase (trim (ri_email input))
      in if name = [] \<or> length name > 100 \<or> email = [] \<or> length email > 320 \<or> \<not> isStrongPassword (ri_password input)
         then Inl (BadRequest ''name, email and password required'')
         else if \<not> has_text email ''@'' then Inl (BadRequest ''email invalid'')
         else bindR (assertCurrentPrivacyConsent (ri_privacyConsentAccepted input) (ri_privacyPolicyVersion input)) (\<lambda>_.
           Inr \<lparr>ri_name = name, ri_email = email, ri_password = ri_password input,
                ri_privacyConsentAccepted = True, ri_privacyPolicyVersion = CURRENT_PRIVACY_POLICY_VERSION\<rparr>))"

definition parseLoginInput :: "login_input \<Rightarrow> (string \<times> string) res" where
  "parseLoginInput input = (case (li_email input, li_password input) of
       (Some e, Some p) \<Rightarrow>
         (let email = toLowerCase (trim e)
          in if email = [] \<or> length email > 320 \<or> \<not> has_text email ''@'' \<or> length p = 0 \<or> length p > 256
             then Inl invalidCredentials else Inr (email, p))
     | _ \<Rightarrow> Inl invalidCredentials)"

definition parseChangePasswordInput :: "change_password_input \<Rightarrow> (string \<times> string) res" where
  "parseChangePasswordInput input = (case (cp_currentPassword input, cp_newPassword input) of
       (Some current, Some new) \<Rightarrow>
         if length current > 256 \<or> \<not> isStrongPassword (Some new) then Inl (BadRequest ''current and new password required'')
         else Inr (current, new)
     | _ \<Rightarrow> Inl (BadRequest ''current and new password required''))"

section \<open>Sessions\<close>

definition createSession :: "'d auth_ctx \<Rightarrow> string \<Rightarrow> user \<Rightarrow> organization \<Rightarrow> ('d auth_state, auth_session) act" where
  "createSession c uuid user organization =
     (let session = \<lparr>as_token = ''session_'' @ uuid, as_user = user, as_organization = organization,
                     as_passwordChangeRequired = Some False\<rparr>
      in bindE (put_session c session) (\<lambda>_. ret session))"

definition me :: "'d auth_ctx \<Rightarrow> string option \<Rightarrow> ('d auth_state, auth_session) act" where
  "me c token =
     (if \<not> truthy token then throwE (Unauthorized ''no session token'')
      else bindE (on_reg (get_session default_options (ac_now c) (the token))) (\<lambda>found. case found of
        None \<Rightarrow> throwE (Unauthorized ''session expired'')
      | Some session \<Rightarrow>
          if \<not> databaseAvailable (ac_env c) then ret session
          else bindE (on_db (t_find (ac_users c) (\<lambda>u. u_id u = usr_id (as_user session)))) (\<lambda>found. case found of
            None \<Rightarrow> bindE (drop_session (as_token session)) (\<lambda>_. throwE (Unauthorized ''session expired''))
          | Some user \<Rightarrow>
              if password_expired c user then
                bindE (if u_passwordChangeRequired user then ret ()
                       else bindE (on_db (t_update (ac_users c) (\<lambda>u. u_id u = u_id user)
                              (\<lambda>u. u\<lparr>u_passwordChangeRequired := True\<rparr>))) (\<lambda>_. ret ())) (\<lambda>_.
                let restricted = session\<lparr>as_passwordChangeRequired := Some True\<rparr>
                in bindE (put_session c restricted) (\<lambda>_. ret restricted))
              else ret session)))"

definition requireActiveSession :: "'d auth_ctx \<Rightarrow> string option \<Rightarrow> ('d auth_state, auth_session) act" where
  "requireActiveSession c token = bindE (me c token) (\<lambda>session.
     if as_passwordChangeRequired session = Some True then throwE (Unauthorized ''password change required'')
     else if \<not> databaseAvailable (ac_env c) then ret session
     else bindE (on_db (t_find (ac_users c) (\<lambda>u. u_id u = usr_id (as_user session)))) (\<lambda>found. case found of
            None \<Rightarrow> bindE (drop_session (as_token session)) (\<lambda>_. throwE (Unauthorized ''session expired''))
          | Some user \<Rightarrow>
              if password_expired c user then
                bindE (if u_passwordChangeRequired user then ret ()
                       else bindE (on_db (t_update (ac_users c) (\<lambda>u. u_id u = u_id user)
                              (\<lambda>u. u\<lparr>u_passwordChangeRequired := True\<rparr>))) (\<lambda>_. ret ())) (\<lambda>_.
                bindE (put_session c (session\<lparr>as_passwordChangeRequired := Some True\<rparr>)) (\<lambda>_.
                throwE (Unauthorized ''password change required'')))
              else ret session))"

definition find_with_organization ::
  "'d auth_ctx \<Rightarrow> (user_row \<Rightarrow> bool) \<Rightarrow> ('d, (user_row \<times> organization_row option) option) act" where
  "find_with_organization c p = bindE (t_find (ac_users c) p) (\<lambda>found. case found of
       None \<Rightarrow> ret None
     | Some u \<Rightarrow> (case u_organizationId u of
           None \<Rightarrow> ret (Some (u, None))
         | Some oid \<Rightarrow> bindE (t_find (ac_orgs c) (\<lambda>r. o_id r = oid)) (\<lambda>r. ret (Some (u, r)))))"

definition revokeUserSessions :: "string \<Rightarrow> ('d auth_state, unit) act" where
  "revokeUserSessions userId = on_reg (\<lambda>g. ((), snd (revokeUser userId g)))"

definition changePassword :: "'d auth_ctx \<Rightarrow> string option \<Rightarrow> change_password_input \<Rightarrow> ('d auth_state, auth_session) act" where
  "changePassword c token input =
     bindE (me c token) (\<lambda>session.
     bindE (liftR (parseChangePasswordInput input)) (\<lambda>(current, new).
     bindE (on_db (find_with_organization c (\<lambda>u. u_id u = usr_id (as_user session)))) (\<lambda>found. case found of
       None \<Rightarrow> throwE invalidCredentials
     | Some (user, organization) \<Rightarrow>
         bindE (liftR (passwordMatches c current (u_passwordHash user))) (\<lambda>ok.
         if \<not> ok then throwE invalidCredentials
         else bindE (liftR (new_hash c new)) (\<lambda>hash.
         bindE (on_db (t_update (ac_users c) (\<lambda>u. u_id u = u_id user)
            (\<lambda>u. u\<lparr>u_passwordHash := hash, u_failedLoginAttempts := 0, u_lockedUntil := None,
                   u_passwordChangedAt := ac_now c, u_passwordChangeRequired := False\<rparr>))) (\<lambda>updated.
         bindE (revokeUserSessions (u_id updated)) (\<lambda>_.
         createSession c (ac_uuid c 0) (toUser updated) (organization_or_none organization))))))))"

definition refreshSession :: "'d auth_ctx \<Rightarrow> string option \<Rightarrow> ('d auth_state, auth_session) act" where
  "refreshSession c token =
     bindE (me c token) (\<lambda>session.
     if \<not> databaseAvailable (ac_env c) then ret session
     else bindE (on_db (find_with_organization c (\<lambda>u. u_id u = usr_id (as_user session)))) (\<lambda>found. case found of
       None \<Rightarrow> ret session
     | Some (user, organization) \<Rightarrow>
         let refreshed = \<lparr>as_token = as_token session, as_user = toUser user,
               as_organization = organization_or_none organization,
               as_passwordChangeRequired = as_passwordChangeRequired session\<rparr>
         in bindE (put_session c refreshed) (\<lambda>_. ret refreshed)))"

definition logout :: "string option \<Rightarrow> ('d auth_state, unit) act" where
  "logout token = (if truthy token then drop_session (the token) else ret ())"

section \<open>Logging in\<close>

text \<open>The result of the login transaction: \<open>None\<close> is \<open>INVALID_CREDENTIALS\<close>.\<close>

type_synonym login_result = "(user \<times> organization \<times> bool) option"

definition login_transaction :: "'d auth_ctx \<Rightarrow> string \<Rightarrow> string \<Rightarrow> ('d, login_result) act" where
  "login_transaction c email password =
     bindE (find_with_organization c (\<lambda>u. u_email u = email)) (\<lambda>found. case found of
       None \<Rightarrow> bindE (liftR (passwordMatches c password dummyPasswordHash)) (\<lambda>_. ret None)
     | Some (user, organization) \<Rightarrow>
         if (case u_lockedUntil user of None \<Rightarrow> False | Some t \<Rightarrow> t > ac_now c) then
           bindE (liftR (passwordMatches c password (u_passwordHash user))) (\<lambda>_. ret None)
         else
         bindE (if u_lockedUntil user \<noteq> None then
                  bindE (t_update (ac_users c) (\<lambda>u. u_id u = u_id user)
                    (\<lambda>u. u\<lparr>u_failedLoginAttempts := 0, u_lockedUntil := None\<rparr>)) (\<lambda>_. ret ())
                else ret ()) (\<lambda>_.
         bindE (liftR (passwordMatches c password (u_passwordHash user))) (\<lambda>ok.
         if \<not> ok then
           bindE (t_update (ac_users c) (\<lambda>u. u_id u = u_id user)
             (\<lambda>u. u\<lparr>u_failedLoginAttempts := u_failedLoginAttempts u + 1\<rparr>)) (\<lambda>updatedUser.
           bindE (if failedLoginLimit \<le> u_failedLoginAttempts updatedUser then
                    bindE (t_update (ac_users c) (\<lambda>u. u_id u = u_id user)
                      (\<lambda>u. u\<lparr>u_lockedUntil := Some (ac_now c + accountLockDurationMs)\<rparr>)) (\<lambda>_. ret ())
                  else ret ()) (\<lambda>_. ret None))
         else
           let passwordChangeRequired = password_expired c user in
           bindE (liftR (if passwordHashNeedsUpgrade (u_passwordHash user) then new_hash c password
                         else Inr (u_passwordHash user))) (\<lambda>passwordHash.
           bindE (if passwordHash \<noteq> u_passwordHash user \<or> u_failedLoginAttempts user \<noteq> 0 \<or> u_lockedUntil user \<noteq> None \<or>
                     passwordChangeRequired \<noteq> u_passwordChangeRequired user then
                    bindE (t_update (ac_users c) (\<lambda>u. u_id u = u_id user)
                      (\<lambda>u. u\<lparr>u_passwordHash := passwordHash, u_failedLoginAttempts := 0, u_lockedUntil := None,
                             u_passwordChangeRequired := passwordChangeRequired\<rparr>)) (\<lambda>_. ret ())
                  else ret ()) (\<lambda>_.
           ret (Some (toUser user, organization_or_none organization, passwordChangeRequired)))))))"

definition login_attempt :: "'d auth_ctx \<Rightarrow> string \<Rightarrow> string \<Rightarrow> nat \<Rightarrow> ('d auth_state, auth_session) act" where
  "login_attempt c email password retry =
     bindE (on_db (run_transaction (ac_commit c retry) (login_transaction c email password))) (\<lambda>result. case result of
       None \<Rightarrow> throwE invalidCredentials
     | Some (user, organization, passwordChangeRequired) \<Rightarrow>
         bindE (createSession c (ac_uuid c retry) user organization) (\<lambda>session.
         let resolved = session\<lparr>as_passwordChangeRequired := Some passwordChangeRequired\<rparr>
         in bindE (put_session c resolved) (\<lambda>_. ret resolved)))"

text \<open>
  The loops \<open>for (let retry = 0; retry < 3; ...)\<close> of \<open>loginWithDatabase\<close> and \<open>createInitialAdmin\<close>:
  try again after a serialization failure, except the last time.
\<close>

fun retry_loop :: "(nat \<Rightarrow> ('s, 'a) act) \<Rightarrow> exn \<Rightarrow> nat list \<Rightarrow> ('s, 'a) act" where
  "retry_loop attempt exceeded [] = throwE exceeded"
| "retry_loop attempt exceeded (retry # retries) =
     catchE (attempt retry) (\<lambda>e.
       if isSerializationFailure e \<and> retry < 2 then retry_loop attempt exceeded retries else throwE e)"

definition loginWithDatabase :: "'d auth_ctx \<Rightarrow> string \<Rightarrow> string \<Rightarrow> ('d auth_state, auth_session) act" where
  "loginWithDatabase c email password =
     retry_loop (login_attempt c email password) (ServiceUnavailable ''login retry limit'') [0, 1, 2]"

text \<open>\<open>null\<close> is \<open>None\<close>.\<close>

definition tryDatabase :: "env \<Rightarrow> ('s, 'a) act \<Rightarrow> ('s, 'a option) act" where
  "tryDatabase env operation =
     (if \<not> databaseAvailable env then ret None
      else if demoAuthEnabled env then ret None
      else catchE (bindE operation (\<lambda>x. ret (Some x))) (\<lambda>e.
        (case e of Unauthorized _ \<Rightarrow> throwE e
         | _ \<Rightarrow> if demoAuthEnabled env then ret None else throwE (ServiceUnavailable ''auth database failed''))))"

definition login :: "'d auth_ctx \<Rightarrow> login_input \<Rightarrow> ('d auth_state, auth_session) act" where
  "login c input =
     bindE (liftR (parseLoginInput input)) (\<lambda>(email, password).
     bindE (tryDatabase (ac_env c) (loginWithDatabase c email password)) (\<lambda>session. case session of
       Some session \<Rightarrow> ret session
     | None \<Rightarrow>
         if \<not> demoAuthEnabled (ac_env c) then throwE (ServiceUnavailable ''database login required'')
         else if email \<noteq> ''admin@acme.test'' \<or> password \<noteq> ''@A1234567890'' then throwE invalidCredentials
         else createSession c (ac_uuid c 0) (demoUser c) (demoOrganization c)))"

section \<open>Setup and registration\<close>

definition trySetupDatabase :: "env \<Rightarrow> ('s, 'a) act \<Rightarrow> ('s, 'a option) act" where
  "trySetupDatabase env operation =
     (if \<not> databaseAvailable env then ret None
      else if demoAuthEnabled env then ret None
      else catchE (bindE operation (\<lambda>x. ret (Some x))) (\<lambda>e. if is_error e then ret None else throwE e))"

definition setupStatus :: "'d auth_ctx \<Rightarrow> ('d auth_state, setup_status) act" where
  "setupStatus c =
     bindE (trySetupDatabase (ac_env c) (on_db (t_count (ac_users c) (\<lambda>_. True)))) (\<lambda>userCount. case userCount of
       None \<Rightarrow> ret \<lparr>ss_enabled = False, ss_reason = DATABASE_UNAVAILABLE\<rparr>
     | Some n \<Rightarrow> ret (if n = 0 then \<lparr>ss_enabled = True, ss_reason = SETUP_READY\<rparr>
                     else \<lparr>ss_enabled = False, ss_reason = USERS_EXIST\<rparr>))"

definition initial_admin_transaction :: "'d auth_ctx \<Rightarrow> initial_admin_input \<Rightarrow> ('d, organization_row \<times> user_row) act" where
  "initial_admin_transaction c parsed =
     bindE (t_count (ac_users c) (\<lambda>_. True)) (\<lambda>n.
     if n \<noteq> 0 then throwE (Conflict ''initial administrator exists'')
     else
     bindE (t_create (ac_orgs c) \<lparr>o_id = ''org_'' @ take 12 (ac_uuid c 0), o_name = ia_organizationName parsed,
              o_joinCode = join_code (ac_uuid c 1), o_createdAt = ac_now c\<rparr>) (\<lambda>organization.
     bindE (liftR (new_hash c (the (ia_password parsed)))) (\<lambda>hash.
     bindE (t_create (ac_users c) \<lparr>u_id = ''user_'' @ take 12 (ac_uuid c 2), u_email = ia_email parsed, u_passwordHash = hash,
              u_name = ia_name parsed, u_role = ADMIN, u_organizationId = Some (o_id organization),
              u_failedLoginAttempts = 0, u_lockedUntil = None, u_passwordChangedAt = ac_now c, u_passwordChangeRequired = False,
              u_privacyConsentVersion = Some (ia_privacyPolicyVersion parsed), u_privacyConsentAcceptedAt = Some (ac_now c),
              u_createdAt = ac_now c\<rparr>) (\<lambda>user.
     ret (organization, user)))))"

definition createInitialAdmin :: "'d auth_ctx \<Rightarrow> initial_admin_input \<Rightarrow> ('d auth_state, auth_session) act" where
  "createInitialAdmin c input =
     bindE (liftR (parseInitialAdminInput input)) (\<lambda>parsed.
     if \<not> databaseAvailable (ac_env c) \<or> demoAuthEnabled (ac_env c)
     then throwE (ServiceUnavailable ''database required for setup'')
     else retry_loop (\<lambda>retry.
         bindE (on_db (run_transaction (ac_commit c retry) (initial_admin_transaction c parsed))) (\<lambda>(organization, user).
         createSession c (ac_uuid c 3) (toUser user) (toOrganization organization)))
       (ServiceUnavailable ''setup retry limit'') [0, 1, 2])"

definition register :: "'d auth_ctx \<Rightarrow> register_input \<Rightarrow> ('d auth_state, auth_session) act" where
  "register c input =
     (if \<not> databaseAvailable (ac_env c) then throwE (ServiceUnavailable ''database required for registration'')
      else bindE (liftR (parseRegisterInput input)) (\<lambda>parsed.
      catchE
        (bindE (on_db (t_find (ac_users c) (\<lambda>u. u_email u = ri_email parsed))) (\<lambda>existing.
         if existing \<noteq> None then throwE (Conflict ''email taken'')
         else bindE (liftR (new_hash c (the (ri_password parsed)))) (\<lambda>hash.
         bindE (on_db (t_create (ac_users c) \<lparr>u_id = ''user_'' @ take 12 (ac_uuid c 0), u_email = ri_email parsed,
              u_passwordHash = hash, u_name = ri_name parsed, u_role = CANDIDATE, u_organizationId = None,
              u_failedLoginAttempts = 0, u_lockedUntil = None, u_passwordChangedAt = ac_now c, u_passwordChangeRequired = False,
              u_privacyConsentVersion = Some (ri_privacyPolicyVersion parsed), u_privacyConsentAcceptedAt = Some (ac_now c),
              u_createdAt = ac_now c\<rparr>)) (\<lambda>user.
         createSession c (ac_uuid c 1) (toUser user) unaffiliatedOrganization))))
        (\<lambda>e. case e of Conflict _ \<Rightarrow> throwE e | ServiceUnavailable _ \<Rightarrow> throwE e
           | PrismaKnown code \<Rightarrow> if code = ''P2002'' then throwE (Conflict ''email taken'')
               else throwE (ServiceUnavailable ''account store unavailable'')
           | _ \<Rightarrow> throwE (ServiceUnavailable ''account store unavailable''))))"

section \<open>The guard and the controller\<close>

definition canActivate :: "'d auth_ctx \<Rightarrow> string option \<Rightarrow> string option \<Rightarrow> string option \<Rightarrow> ('d auth_state, unit) act" where
  "canActivate c request_path request_url authorization =
     (let path = (case request_path of Some p \<Rightarrow> p | None \<Rightarrow> (case request_url of Some u \<Rightarrow> u | None \<Rightarrow> []))
      in if isPublicPath path then ret ()
         else bindE (requireActiveSession c (extractBearerToken authorization)) (\<lambda>_. ret ()))"

text \<open>The controller keeps two limiters of its own beside the service.\<close>

record limiters =
  lm_login :: buckets
  lm_account :: buckets

definition controller_login ::
  "'d auth_ctx \<Rightarrow> (string \<Rightarrow> string) \<Rightarrow> request_context \<Rightarrow> login_input \<Rightarrow> (limiters \<times> 'd auth_state, auth_session) act"
where
  "controller_login c digest request body = (\<lambda>(lm, s).
     let (retryAfter, m) = consume digest (ac_env c) login_limiter request (li_email body) (ac_now c) (lm_login lm);
         lm' = lm\<lparr>lm_login := m\<rparr>
     in case retryAfter of
          Some n \<Rightarrow> (Inl (TooManyRequests ''too many logins'' (Some n)), (lm', s))
        | None \<Rightarrow> (let (r, s') = login c body s in (r, (lm', s'))))"

definition limit_account_creation ::
  "'d auth_ctx \<Rightarrow> (string \<Rightarrow> string) \<Rightarrow> request_context \<Rightarrow> string \<Rightarrow> ('d auth_state, 'a) act \<Rightarrow> (limiters \<times> 'd auth_state, 'a) act"
where
  "limit_account_creation c digest request email handler = (\<lambda>(lm, s).
     let (retryAfter, m) = consume digest (ac_env c) account_limiter request (Some email) (ac_now c) (lm_account lm);
         lm' = lm\<lparr>lm_account := m\<rparr>
     in case retryAfter of
          Some n \<Rightarrow> (Inl (TooManyRequests ''too many accounts'' (Some n)), (lm', s))
        | None \<Rightarrow> (let (r, s') = handler s in (r, (lm', s'))))"

definition controller_register ::
  "'d auth_ctx \<Rightarrow> (string \<Rightarrow> string) \<Rightarrow> request_context \<Rightarrow> register_input \<Rightarrow> (limiters \<times> 'd auth_state, auth_session) act"
where
  "controller_register c digest request body = limit_account_creation c digest request (ri_email body) (register c body)"

definition controller_setup ::
  "'d auth_ctx \<Rightarrow> (string \<Rightarrow> string) \<Rightarrow> request_context \<Rightarrow> initial_admin_input \<Rightarrow> (limiters \<times> 'd auth_state, auth_session) act"
where
  "controller_setup c digest request body = limit_account_creation c digest request (ia_email body) (createInitialAdmin c body)"

section \<open>Successful handlers, step by step\<close>

lemma on_db_eq_Inr: "on_db m s = (Inr x, t) \<longleftrightarrow> (\<exists>d'. m (fst s) = (Inr x, d') \<and> t = (d', snd s))"
  by (cases s) (auto simp: on_db_def split: prod.split)

lemma on_reg_eq_Inr: "on_reg f s = (Inr x, t) \<longleftrightarrow> (\<exists>g'. f (snd s) = (x, g') \<and> t = (fst s, g'))"
  by (cases s) (auto simp: on_reg_def split: prod.split)

lemma on_reg_not_Inl: "on_reg f s \<noteq> (Inl e, t)"
  by (cases s) (auto simp: on_reg_def split: prod.split)

lemma put_session_eq_Inr:
  "put_session c session s = (Inr x, t) \<longleftrightarrow>
     t = (fst s, set_session default_options (ac_now c) (as_token session) session (snd s))"
  by (cases s) (auto simp: put_session_def on_reg_def)

lemma drop_session_eq_Inr:
  "drop_session token s = (Inr x, t) \<longleftrightarrow> t = (fst s, snd (delete_session token (snd s)))"
  by (cases s) (auto simp: drop_session_def on_reg_def)

lemma revokeUserSessions_eq_Inr:
  "revokeUserSessions userId s = (Inr x, t) \<longleftrightarrow> t = (fst s, snd (revokeUser userId (snd s)))"
  by (cases s) (auto simp: revokeUserSessions_def on_reg_def)

lemmas auth_Inr = act_Inr on_db_eq_Inr on_reg_eq_Inr put_session_eq_Inr drop_session_eq_Inr
  revokeUserSessions_eq_Inr run_transaction_Inr

text \<open>The session a token maps to.\<close>

definition session_of :: "registry \<Rightarrow> string \<Rightarrow> auth_session option" where
  "session_of g token = map_option st_session (map_get (reg_sessions g) token)"

lemma session_of_set:
  "session_of (set_session opts now token session g) tok = (if tok = token then Some session else session_of g tok)"
  by (simp add: session_of_def set_session_def Let_def store_session_simps map_get_set)

lemma find_with_organization_Inr:
  assumes "prisma_table (ac_users c) rows" and "prisma_table (ac_orgs c) orows"
    and "find_with_organization c p d = (Inr found, d')"
  shows "d' = d \<and> List.find p (rows d) = map_option fst found"
proof (cases rule: prisma_table.find_cases [OF assms(1), of p d])
  case (1 e)
  with assms(3) show ?thesis by (simp add: find_with_organization_def bindE_def)
next
  case 2
  show ?thesis
  proof (cases "List.find p (rows d)")
    case None
    with 2 assms(3) show ?thesis by (simp add: find_with_organization_def bindE_def ret_def)
  next
    case (Some u)
    show ?thesis
    proof (cases "u_organizationId u")
      case None
      with 2 Some assms(3) show ?thesis by (auto simp: find_with_organization_def bindE_def ret_def)
    next
      case (Some oid)
      with 2 \<open>List.find p (rows d) = Some u\<close> assms(3) show ?thesis
        by (cases rule: prisma_table.find_cases [OF assms(2), of "\<lambda>r. o_id r = oid" d])
          (auto simp: find_with_organization_def bindE_def ret_def)
    qed
  qed
qed

lemma login_transaction_Some:
  assumes "prisma_table (ac_users c) rows" and "prisma_table (ac_orgs c) orows"
    and "login_transaction c email password d = (Inr (Some (user, organization, change)), d')"
  shows "\<exists>u. List.find (\<lambda>u. u_email u = email) (rows d) = Some u \<and> user = toUser u \<and>
    (\<forall>t. u_lockedUntil u = Some t \<longrightarrow> t \<le> ac_now c) \<and>
    passwordMatches c password (u_passwordHash u) = Inr True \<and> change = password_expired c u"
proof -
  from assms(3) obtain found d1 where f: "find_with_organization c (\<lambda>u. u_email u = email) d = (Inr found, d1)"
    unfolding login_transaction_def by (auto simp: act_Inr)
  note found = find_with_organization_Inr [OF assms(1,2) f]
  show ?thesis
    using assms(3) found f unfolding login_transaction_def
    by (auto simp: act_Inr Let_def split: option.splits prod.splits if_splits)
qed

lemma retry_loop_Inr:
  "retry_loop attempt exceeded retries s = (Inr x, t) \<Longrightarrow> \<exists>retry \<in> set retries. \<exists>s'. attempt retry s' = (Inr x, t)"
proof (induction retries arbitrary: s)
  case (Cons r rs)
  then show ?case by (fastforce simp: act_Inr split: if_splits)
qed (simp add: throwE_eq_Inr)

text \<open>A failed attempt that is tried again has left the state as it was.\<close>

lemma retry_loop_Inr_same:
  assumes "retry_loop attempt exceeded retries s = (Inr x, t)"
    and "\<And>retry s e t. attempt retry s = (Inl e, t) \<Longrightarrow> isSerializationFailure e \<Longrightarrow> t = s"
  shows "\<exists>retry \<in> set retries. attempt retry s = (Inr x, t)"
  using assms(1)
proof (induction retries)
  case (Cons r rs)
  from Cons.prems consider "attempt r s = (Inr x, t)"
    | e s' where "attempt r s = (Inl e, s')" "isSerializationFailure e" "retry_loop attempt exceeded rs s' = (Inr x, t)"
    by (auto simp: act_Inr split: if_splits)
  then show ?case
  proof cases
    case (2 e s')
    then have "s' = s" using assms(2) by blast
    with 2 Cons.IH show ?thesis by auto
  qed auto
qed (simp add: throwE_eq_Inr)

text \<open>A failed step leaves the database, and an effect on the database the registry, alone.\<close>

lemma on_db_Inl: "on_db m s = (Inl e, t) \<Longrightarrow> (\<exists>d'. m (fst s) = (Inl e, d') \<and> t = (d', snd s))"
  by (cases s) (auto simp: on_db_def split: prod.splits)

lemma createSession_not_Inl: "createSession c u user org s \<noteq> (Inl e, t)"
  by (auto simp: createSession_def put_session_def Let_def bindE_def ret_def on_reg_not_Inl split: prod.splits sum.splits)

lemma login_attempt_failed:
  assumes "login_attempt c email password retry s = (Inl e, t)" and "isSerializationFailure e"
  shows "t = s"
proof -
  have "e \<noteq> invalidCredentials"
    using assms(2) by (auto simp: isSerializationFailure_def invalidCredentials_def)
  have cs: "createSession c u user org s' = (Inl e, t) \<longleftrightarrow> False" for u user org s' t
    by (simp add: createSession_not_Inl)
  have ps: "put_session c x s' = (Inl e, t) \<longleftrightarrow> False" for x s' t
    by (simp add: put_session_def on_reg_not_Inl)
  from assms(1) \<open>e \<noteq> invalidCredentials\<close> have "on_db (run_transaction (ac_commit c retry) (login_transaction c email password)) s = (Inl e, t)"
    by (auto simp: login_attempt_def bindE_def throwE_def ret_def Let_def cs ps split: prod.splits sum.splits option.splits)
  then show ?thesis
    by (auto dest!: on_db_Inl run_transaction_Inl)
qed

lemma tryDatabase_Some:
  "tryDatabase env m s = (Inr (Some x), t) \<longleftrightarrow> databaseAvailable env \<and> \<not> demoAuthEnabled env \<and> m s = (Inr x, t)"
proof -
  have "\<not> (case e of Unauthorized _ \<Rightarrow> throwE e
      | _ \<Rightarrow> throwE (ServiceUnavailable ''auth database failed'')) s' = (Inr (Some x), t)" for e s'
    by (cases e) (simp_all add: throwE_def)
  then show ?thesis
    by (cases "databaseAvailable env"; cases "demoAuthEnabled env") (simp_all add: tryDatabase_def act_Inr)
qed

lemma demo_off_in_production: "is_production env \<Longrightarrow> \<not> demoAuthEnabled env"
  by (simp add: demoAuthEnabled_def)

lemma login_attempt_Inr:
  assumes "prisma_table (ac_users c) rows" and "prisma_table (ac_orgs c) orows"
    and "login_attempt c email password retry s = (Inr session, t)"
  shows "\<exists>u. List.find (\<lambda>u. u_email u = email) (rows (fst s)) = Some u \<and> as_user session = toUser u \<and>
    (\<forall>t. u_lockedUntil u = Some t \<longrightarrow> t \<le> ac_now c) \<and>
    passwordMatches c password (u_passwordHash u) = Inr True \<and>
    as_passwordChangeRequired session = Some (password_expired c u) \<and>
    session_of (snd t) (as_token session) = Some session"
proof -
  from assms(3) obtain user organization change d' where
    tx: "login_transaction c email password (fst s) = (Inr (Some (user, organization, change)), d')"
    and session: "session = \<lparr>as_token = ''session_'' @ ac_uuid c retry, as_user = user, as_organization = organization,
       as_passwordChangeRequired = Some change\<rparr>"
    and t: "session_of (snd t) (as_token session) = Some session"
    by (auto simp: login_attempt_def auth_Inr createSession_def Let_def session_of_set split: option.splits prod.splits)
  from login_transaction_Some [OF assms(1,2) tx] t show ?thesis
    by (auto simp: session)
qed

lemma login_attempted:
  assumes "\<not> demoAuthEnabled (ac_env c)" and "login c input s = (Inr session, t)"
  obtains e password retry where "li_email input = Some e" and "li_password input = Some password"
    and "login_attempt c (toLowerCase (trim e)) password retry s = (Inr session, t)"
proof -
  from assms(2,1) obtain e password where
    input: "li_email input = Some e" "li_password input = Some password"
    and db: "loginWithDatabase c (toLowerCase (trim e)) password s = (Inr session, t)"
    by (auto simp: login_def auth_Inr parseLoginInput_def Let_def tryDatabase_Some split: option.splits if_splits)
  with retry_loop_Inr_same [OF db [unfolded loginWithDatabase_def]] login_attempt_failed that show ?thesis by blast
qed

section \<open>What authentication promises\<close>

text \<open>C1. Where demo logins are off (in production always), a login succeeds only for the row with the
  given e-mail, trimmed and in lower case, that is not locked and whose hash the password matches;
  the session is the user's, says truthfully whether the password has expired, and is registered.\<close>

theorem login_is_sound:
  assumes "prisma_table (ac_users c) rows" and "prisma_table (ac_orgs c) orows"
    and "is_production (ac_env c) \<or> \<not> demoAuthEnabled (ac_env c)"
    and "login c input s = (Inr session, t)"
  shows "\<exists>e password u. li_email input = Some e \<and> li_password input = Some password \<and>
    List.find (\<lambda>u. u_email u = toLowerCase (trim e)) (rows (fst s)) = Some u \<and> as_user session = toUser u \<and>
    (\<forall>until. u_lockedUntil u = Some until \<longrightarrow> until \<le> ac_now c) \<and>
    passwordMatches c password (u_passwordHash u) = Inr True \<and>
    as_passwordChangeRequired session = Some (password_expired c u) \<and>
    session_of (snd t) (as_token session) = Some session"
proof -
  have no_demo: "\<not> demoAuthEnabled (ac_env c)"
    using assms(3) demo_off_in_production by blast
  from login_attempted [OF no_demo assms(4)] obtain e password retry where "li_email input = Some e" "li_password input = Some password"
    and "login_attempt c (toLowerCase (trim e)) password retry s = (Inr session, t)" .
  with login_attempt_Inr [OF assms(1,2)] show ?thesis by blast
qed

section \<open>Refused logins\<close>

lemma find_replace_where_id:
  assumes "List.find q xs = Some u" and "p u" and "\<And>x. x \<in> set xs \<Longrightarrow> p x \<Longrightarrow> x = u" and "q (f u)"
  shows "List.find q (replace_where p f xs) = Some (f u)"
proof -
  have "List.find q (replace_where p f ys) = (case List.find q ys of None \<Rightarrow> None | Some x \<Rightarrow> Some (if p x then f x else x))"
    if "set ys \<subseteq> set xs" for ys
    using that
  proof (induction ys)
    case (Cons y ys)
    have "q y" if "p y"
      using that Cons.prems assms(3) [of y] find_SomeD [OF assms(1)] by auto
    moreover have "q (f y)" if "p y"
      using that Cons.prems assms(3) [of y] assms(4) by auto
    ultimately show ?case using Cons by (auto simp: replace_where_def)
  qed (simp add: replace_where_def)
  from this [of xs] assms(1,2) show ?thesis by simp
qed

text \<open>The rows of a table of users: the ids are distinct and so are the e-mails.\<close>

definition users_wf :: "user_row list \<Rightarrow> bool" where
  "users_wf us \<longleftrightarrow> distinct (map u_id us) \<and> distinct (map u_email us)"

lemma users_wf_id: "users_wf us \<Longrightarrow> u \<in> set us \<Longrightarrow> v \<in> set us \<Longrightarrow> u_id u = u_id v \<Longrightarrow> u = v"
  by (metis distinct_map inj_onD users_wf_def)

lemma map_replace_where_keys:
  "(\<And>u. g (f u) = g u) \<Longrightarrow> map g (replace_where p f us) = map g us"
  by (simp add: map_replace_where_id)

lemma users_wf_replace:
  assumes "users_wf us" and "\<And>u. u_id (f u) = u_id u" and "\<And>u. u_email (f u) = u_email u"
  shows "users_wf (replace_where p f us)"
  using assms by (simp add: users_wf_def map_replace_where_keys)

lemma find_email_update:
  assumes "users_wf us" and "List.find (\<lambda>u. u_email u = email) us = Some u"
    and "\<And>u. u_email (f u) = u_email u"
  shows "List.find (\<lambda>u. u_email u = email) (replace_where (\<lambda>v. u_id v = u_id u) f us) = Some (f u)"
proof (rule find_replace_where_id [OF assms(2)])
  show "v = u" if "v \<in> set us" "u_id v = u_id u" for v
    using users_wf_id [OF assms(1) that(1) _ that(2)] find_SomeD [OF assms(2)] by simp
qed (use find_SomeD [OF assms(2)] assms(3) in simp_all)

lemma find_id_update:
  assumes "users_wf us" and "u \<in> set us" and "\<And>u. u_id (f u) = u_id u"
  shows "List.find (\<lambda>v. u_id v = u_id u) (replace_where (\<lambda>v. u_id v = u_id u) f us) = Some (f u)"
    and "List.find (\<lambda>v. u_id v = u_id u) us = Some u"
proof -
  show f: "List.find (\<lambda>v. u_id v = u_id u) us = Some u"
  proof (cases "List.find (\<lambda>v. u_id v = u_id u) us")
    case None
    with assms(2) show ?thesis by (auto simp: find_None_iff)
  next
    case (Some v)
    from find_SomeD [OF this] users_wf_id [OF assms(1) _ assms(2)] have "v = u" by simp
    with Some show ?thesis by simp
  qed
  show "List.find (\<lambda>v. u_id v = u_id u) (replace_where (\<lambda>v. u_id v = u_id u) f us) = Some (f u)"
  proof (rule find_replace_where_id [OF f])
    show "v = u" if "v \<in> set us" "u_id v = u_id u" for v
      using users_wf_id [OF assms(1) that(1) assms(2) that(2)] .
  qed (simp_all add: assms(3))
qed

lemma find_with_organization_reliable:
  assumes "reliable_table (ac_users c) rows" and "reliable_table (ac_orgs c) orows"
  shows "\<exists>r. find_with_organization c p d = (Inr (map_option (\<lambda>u. (u, r)) (List.find p (rows d))), d)"
proof -
  note finds = reliable_table.find_eq [OF assms(1), of p d] reliable_table.find_eq [OF assms(2)]
  show ?thesis
  proof (cases "List.find p (rows d)")
    case None
    then show ?thesis by (simp add: find_with_organization_def bindE_def ret_def finds)
  next
    case (Some u)
    then show ?thesis
      by (cases "u_organizationId u") (simp_all add: find_with_organization_def bindE_def ret_def finds)
  qed
qed

text \<open>The row after a wrong password.\<close>

definition after_failure :: "time \<Rightarrow> user_row \<Rightarrow> user_row" where
  "after_failure now u =
     (let n = (if u_lockedUntil u = None then u_failedLoginAttempts u else 0) + 1
      in u\<lparr>u_failedLoginAttempts := n,
           u_lockedUntil := (if failedLoginLimit \<le> n then Some (now + accountLockDurationMs) else None)\<rparr>)"

lemma update_user:
  assumes "reliable_table T rows" and "users_wf (rows d)" and "u \<in> set (rows d)" and "u_id u = i"
    and "\<And>v. u_id (f v) = u_id v" and "\<And>v. u_email (f v) = u_email v"
  obtains d' where "t_update T (\<lambda>v. u_id v = i) f d = (Inr (f u), d')"
    and "rows d' = replace_where (\<lambda>v. u_id v = i) f (rows d)" and "users_wf (rows d')" and "f u \<in> set (rows d')"
proof -
  have "List.find (\<lambda>v. u_id v = i) (rows d) = Some u"
    using find_id_update(2) [OF assms(2,3) assms(5)] assms(4) by simp
  from reliable_table.update_eq [OF assms(1) this, of f] obtain d' where
    d': "t_update T (\<lambda>v. u_id v = i) f d = (Inr (f u), d')" "rows d' = replace_where (\<lambda>v. u_id v = i) f (rows d)"
    by blast
  have "users_wf (rows d')"
    unfolding d'(2) by (rule users_wf_replace [OF assms(2,5,6)])
  moreover have "f u \<in> set (rows d')"
    using assms(3,4) by (auto simp: d'(2) set_replace_where)
  ultimately show thesis by (rule that [OF d'])
qed

lemma replace_where_twice:
  assumes "\<And>v. u_id (f v) = u_id v"
  shows "replace_where (\<lambda>v. u_id v = i) g (replace_where (\<lambda>v. u_id v = i) f us) = replace_where (\<lambda>v. u_id v = i) (\<lambda>v. g (f v)) us"
  using assms by (auto simp: replace_where_def)

lemma replace_user_cong:
  assumes "users_wf us" and "u \<in> set us" and "u_id u = i" and "f u = g u"
  shows "replace_where (\<lambda>v. u_id v = i) f us = replace_where (\<lambda>v. u_id v = i) g us"
  unfolding replace_where_def using users_wf_id [OF assms(1) _ assms(2)] assms(3,4) by auto

lemma login_transaction_wrong:
  assumes T: "reliable_table (ac_users c) rows" and O: "reliable_table (ac_orgs c) orows"
    and wf: "users_wf (rows d)" and u: "List.find (\<lambda>u. u_email u = email) (rows d) = Some u"
    and unlocked: "\<forall>t. u_lockedUntil u = Some t \<longrightarrow> t \<le> ac_now c"
    and wrong: "passwordMatches c password (u_passwordHash u) = Inr False"
  shows "\<exists>d'. login_transaction c email password d = (Inr None, d') \<and>
    rows d' = replace_where (\<lambda>v. u_id v = u_id u) (after_failure (ac_now c)) (rows d)"
proof -
  let ?p = "\<lambda>v. u_id v = u_id u"
  define f1 :: "user_row \<Rightarrow> user_row" where "f1 = (if u_lockedUntil u = None then (\<lambda>v. v) else (\<lambda>v. v\<lparr>u_failedLoginAttempts := 0, u_lockedUntil := None\<rparr>))"
  define f2 :: "user_row \<Rightarrow> user_row" where "f2 = (\<lambda>v. v\<lparr>u_failedLoginAttempts := u_failedLoginAttempts v + 1\<rparr>)"
  define f3 :: "user_row \<Rightarrow> user_row" where "f3 = (\<lambda>v. v\<lparr>u_lockedUntil := Some (ac_now c + accountLockDurationMs)\<rparr>)"
  have keep: "u_id (f1 v) = u_id v" "u_email (f1 v) = u_email v" "u_id (f2 v) = u_id v" "u_email (f2 v) = u_email v"
    "u_id (f3 v) = u_id v" "u_email (f3 v) = u_email v" for v
    by (simp_all add: f1_def f2_def f3_def)
  have u_in: "u \<in> set (rows d)" using find_SomeD [OF u] by simp
  obtain r where find: "find_with_organization c (\<lambda>u. u_email u = email) d = (Inr (Some (u, r)), d)"
    using find_with_organization_reliable [OF T O, of "\<lambda>u. u_email u = email" d] u by auto
  have locked: "\<not> (case u_lockedUntil u of None \<Rightarrow> False | Some t \<Rightarrow> t > ac_now c)"
    using unlocked by (auto split: option.split)
  obtain d1 where d1: "(if u_lockedUntil u \<noteq> None then bindE (t_update (ac_users c) ?p
        (\<lambda>u. u\<lparr>u_failedLoginAttempts := 0, u_lockedUntil := None\<rparr>)) (\<lambda>_. ret ()) else ret ()) d = (Inr (), d1)"
    and rows1: "rows d1 = replace_where ?p f1 (rows d)" "users_wf (rows d1)" "f1 u \<in> set (rows d1)"
  proof (cases "u_lockedUntil u")
    case None
    then show ?thesis using that [of d] wf u_in by (simp add: ret_def f1_def replace_where_def)
  next
    case (Some t)
    obtain d1 where "t_update (ac_users c) ?p f1 d = (Inr (f1 u), d1)"
      "rows d1 = replace_where ?p f1 (rows d)" "users_wf (rows d1)" "f1 u \<in> set (rows d1)"
      by (rule update_user [OF T wf u_in refl keep(1,2)])
    with Some show ?thesis using that [of d1] by (simp add: f1_def bindE_def ret_def)
  qed
  obtain d2 where d2: "t_update (ac_users c) ?p f2 d1 = (Inr (f2 (f1 u)), d2)"
    "rows d2 = replace_where ?p f2 (rows d1)" "users_wf (rows d2)" "f2 (f1 u) \<in> set (rows d2)"
    by (rule update_user [OF T rows1(2,3) keep(1) keep(3,4)])
  have "u_id (f2 (f1 u)) = u_id u" by (simp add: keep)
  then obtain d3 where d3: "t_update (ac_users c) ?p f3 d2 = (Inr (f3 (f2 (f1 u))), d3)"
    "rows d3 = replace_where ?p f3 (rows d2)"
    using update_user [OF T d2(3,4) _ keep(5,6)] by blast
  have cong: "g u = after_failure (ac_now c) u \<Longrightarrow>
      replace_where ?p g (rows d) = replace_where ?p (after_failure (ac_now c)) (rows d)" for g
    by (rule replace_user_cong [OF wf u_in refl])
  show ?thesis
  proof (cases "failedLoginLimit \<le> u_failedLoginAttempts (f2 (f1 u))")
    case True
    have "rows d3 = replace_where ?p (\<lambda>v. f3 (f2 (f1 v))) (rows d)"
      by (simp add: d3(2) d2(2) rows1(1) replace_where_twice keep)
    moreover have "f3 (f2 (f1 u)) = after_failure (ac_now c) u"
      using True by (cases "u_lockedUntil u") (simp_all add: after_failure_def f1_def f2_def f3_def Let_def)
    ultimately have "rows d3 = replace_where ?p (after_failure (ac_now c)) (rows d)"
      using cong [of "\<lambda>v. f3 (f2 (f1 v))"] by simp
    moreover have "login_transaction c email password d = (Inr None, d3)"
      using find locked d1 d2(1) d3(1) True wrong unfolding login_transaction_def f2_def f3_def
      by (simp add: bindE_def liftR_def ret_def)
    ultimately show ?thesis by blast
  next
    case False
    have "rows d2 = replace_where ?p (\<lambda>v. f2 (f1 v)) (rows d)"
      by (simp add: d2(2) rows1(1) replace_where_twice keep)
    moreover have "f2 (f1 u) = after_failure (ac_now c) u"
      using False by (cases "u_lockedUntil u") (simp_all add: after_failure_def f1_def f2_def Let_def)
    ultimately have "rows d2 = replace_where ?p (after_failure (ac_now c)) (rows d)"
      using cong [of "\<lambda>v. f2 (f1 v)"] by simp
    moreover have "login_transaction c email password d = (Inr None, d2)"
      using find locked d1 d2(1) False wrong unfolding login_transaction_def f2_def
      by (simp add: bindE_def liftR_def ret_def)
    ultimately show ?thesis by blast
  qed
qed

lemma login_refused:
  assumes "databaseAvailable (ac_env c)" and "\<not> demoAuthEnabled (ac_env c)" and "ac_commit c 0 = None"
    and "parseLoginInput input = Inr (email, password)"
    and "login_transaction c email password d = (Inr None, d')"
  shows "login c input (d, g) = (Inl invalidCredentials, (d', g))"
proof -
  have "run_transaction None (login_transaction c email password) d = (Inr None, d')"
    using assms(5) by (simp add: run_transaction_Inr)
  then have "login_attempt c email password 0 (d, g) = (Inl invalidCredentials, (d', g))"
    by (simp add: login_attempt_def on_db_def bindE_def assms(3) throwE_def)
  then have "loginWithDatabase c email password (d, g) = (Inl invalidCredentials, (d', g))"
    by (simp add: loginWithDatabase_def catchE_def isSerializationFailure_def invalidCredentials_def throwE_def)
  then have "tryDatabase (ac_env c) (loginWithDatabase c email password) (d, g) = (Inl invalidCredentials, (d', g))"
    using assms(1,2) by (simp add: tryDatabase_def catchE_def bindE_def invalidCredentials_def throwE_def)
  then show ?thesis
    using assms(4) by (simp add: login_def bindE_def liftR_def)
qed

text \<open>C35. An unknown e-mail, a locked account and a wrong password give the same answer, and none of
  them creates a session, when the database and the key derivation answer.\<close>

theorem refused_logins_look_alike:
  assumes T: "reliable_table (ac_users c) rows" and O: "reliable_table (ac_orgs c) orows"
    and "databaseAvailable (ac_env c)" and "\<not> demoAuthEnabled (ac_env c)" and "ac_commit c 0 = None"
    and wf: "users_wf (rows d)" and kdf: "\<forall>h. \<exists>b. passwordMatches c password h = Inr b"
    and input: "parseLoginInput input = Inr (email, password)"
    and bad: "case List.find (\<lambda>u. u_email u = email) (rows d) of None \<Rightarrow> True
       | Some u \<Rightarrow> (\<exists>t. u_lockedUntil u = Some t \<and> ac_now c < t) \<or> passwordMatches c password (u_passwordHash u) = Inr False"
  shows "\<exists>d'. login c input (d, g) = (Inl invalidCredentials, (d', g))"
proof -
  have "\<exists>d'. login_transaction c email password d = (Inr None, d')"
  proof (cases "List.find (\<lambda>u. u_email u = email) (rows d)")
    case None
    then have "find_with_organization c (\<lambda>u. u_email u = email) d = (Inr None, d)"
      using find_with_organization_reliable [OF T O, of "\<lambda>u. u_email u = email" d] by auto
    moreover obtain b where "passwordMatches c password dummyPasswordHash = Inr b" using kdf by blast
    ultimately show ?thesis
      by (simp add: login_transaction_def bindE_def liftR_def ret_def)
  next
    case (Some u)
    show ?thesis
    proof (cases "\<exists>t. u_lockedUntil u = Some t \<and> ac_now c < t")
      case True
      obtain r where "find_with_organization c (\<lambda>u. u_email u = email) d = (Inr (Some (u, r)), d)"
        using find_with_organization_reliable [OF T O, of "\<lambda>u. u_email u = email" d] Some by auto
      moreover obtain b where "passwordMatches c password (u_passwordHash u) = Inr b" using kdf by blast
      ultimately show ?thesis
        using True by (auto simp: login_transaction_def bindE_def liftR_def ret_def)
    next
      case False
      then have "\<forall>t. u_lockedUntil u = Some t \<longrightarrow> t \<le> ac_now c" by fastforce
      moreover have "passwordMatches c password (u_passwordHash u) = Inr False"
        using bad False Some by simp
      ultimately show ?thesis
        using login_transaction_wrong [OF T O wf Some] by blast
    qed
  qed
  then show ?thesis using login_refused [OF assms(3-5) input] by blast
qed

section \<open>Lockout\<close>

fun login_run :: "('d auth_ctx \<times> login_input) list \<Rightarrow> 'd auth_state \<Rightarrow> 'd auth_state" where
  "login_run [] s = s"
| "login_run ((c, input) # rest) s = login_run rest (snd (login c input s))"

text \<open>An attempt with a wrong password for the account \<open>email\<close> with hash \<open>h\<close>, on working tables.\<close>

definition wrong_attempt ::
  "('d, user_row) table \<Rightarrow> ('d, organization_row) table \<Rightarrow> string \<Rightarrow> string \<Rightarrow> 'd auth_ctx \<times> login_input \<Rightarrow> bool" where
  "wrong_attempt T orgs email h a \<longleftrightarrow> (let (c, input) = a in
     ac_users c = T \<and> ac_orgs c = orgs \<and> databaseAvailable (ac_env c) \<and> \<not> demoAuthEnabled (ac_env c) \<and> ac_commit c 0 = None \<and>
     (\<exists>pw. parseLoginInput input = Inr (email, pw) \<and> passwordMatches c pw h = Inr False))"

lemma wrong_attempt_step:
  assumes T: "reliable_table T rows" and O: "reliable_table orgs orows"
    and a: "wrong_attempt T orgs email (u_passwordHash u) (c, input)"
    and wf: "users_wf (rows d)" and u: "List.find (\<lambda>u. u_email u = email) (rows d) = Some u" and "u_lockedUntil u = None"
  obtains d' where "login c input (d, g) = (Inl invalidCredentials, (d', g))" and "users_wf (rows d')"
    and "List.find (\<lambda>u. u_email u = email) (rows d') = Some (after_failure (ac_now c) u)"
proof -
  from a obtain pw where c: "ac_users c = T" "ac_orgs c = orgs" "databaseAvailable (ac_env c)" "\<not> demoAuthEnabled (ac_env c)"
    "ac_commit c 0 = None" and pw: "parseLoginInput input = Inr (email, pw)" "passwordMatches c pw (u_passwordHash u) = Inr False"
    by (auto simp: wrong_attempt_def)
  have keep: "u_id (after_failure t v) = u_id v" "u_email (after_failure t v) = u_email v" for t v
    by (simp_all add: after_failure_def Let_def)
  obtain d' where d': "login_transaction c email pw d = (Inr None, d')"
    "rows d' = replace_where (\<lambda>v. u_id v = u_id u) (after_failure (ac_now c)) (rows d)"
    using login_transaction_wrong [of c rows orows d email u pw] T O wf u pw(2) assms(6) c(1,2) by auto
  show thesis
  proof (rule that)
    show "login c input (d, g) = (Inl invalidCredentials, (d', g))"
      by (rule login_refused [OF c(3-5) pw(1) d'(1)])
    show "users_wf (rows d')" unfolding d'(2) by (rule users_wf_replace [OF wf keep])
    show "List.find (\<lambda>u. u_email u = email) (rows d') = Some (after_failure (ac_now c) u)"
      unfolding d'(2) by (rule find_email_update [OF wf u keep(2)])
  qed
qed

lemma wrong_attempts_count:
  assumes T: "reliable_table T rows" and O: "reliable_table orgs orows"
    and "\<forall>a \<in> set attempts. wrong_attempt T orgs email h a" and "users_wf (rows d)"
    and "List.find (\<lambda>u. u_email u = email) (rows d) = Some u" and "u_passwordHash u = h" and "u_lockedUntil u = None"
    and "u_failedLoginAttempts u + int (length attempts) = failedLoginLimit" and "attempts \<noteq> []"
  shows "\<exists>d' u'. login_run attempts (d, g) = (d', g) \<and> List.find (\<lambda>u. u_email u = email) (rows d') = Some u' \<and>
    u_lockedUntil u' = Some (ac_now (fst (last attempts)) + accountLockDurationMs)"
  using assms(3-9)
proof (induction attempts arbitrary: d u)
  case (Cons a attempts)
  obtain c input where a: "a = (c, input)" by (cases a)
  have wa: "wrong_attempt T orgs email (u_passwordHash u) (c, input)"
    using Cons.prems a by simp
  obtain d' where d': "login c input (d, g) = (Inl invalidCredentials, (d', g))" "users_wf (rows d')"
    "List.find (\<lambda>u. u_email u = email) (rows d') = Some (after_failure (ac_now c) u)"
    by (rule wrong_attempt_step [OF T O wa Cons.prems(2,3,5)])
  show ?case
  proof (cases "attempts = []")
    case True
    then show ?thesis using d' Cons.prems(5,6) by (simp add: a after_failure_def)
  next
    case False
    have "u_failedLoginAttempts (after_failure (ac_now c) u) + int (length attempts) = failedLoginLimit"
      "u_lockedUntil (after_failure (ac_now c) u) = None" "u_passwordHash (after_failure (ac_now c) u) = h"
      using Cons.prems(4,5,6) False by (cases attempts; auto simp: after_failure_def Let_def failedLoginLimit_def)+
    with Cons.IH [OF _ d'(2,3)] Cons.prems(1) False d'(1) show ?thesis by (simp add: a)
  qed
qed simp

text \<open>C13. Five wrong passwords in a row lock an account: for fifteen minutes after the fifth, no login
  for its e-mail succeeds, whatever password it carries.\<close>

theorem five_failures_lock_the_account:
  assumes T: "reliable_table T rows" and O: "reliable_table orgs orows"
    and "length attempts = 5" and "\<forall>a \<in> set attempts. wrong_attempt T orgs email (u_passwordHash u) a"
    and "users_wf (rows d)" and "List.find (\<lambda>u. u_email u = email) (rows d) = Some u"
    and "u_lockedUntil u = None" and "u_failedLoginAttempts u = 0"
    and "ac_users c = T" and "ac_orgs c = orgs" and "\<not> demoAuthEnabled (ac_env c)"
    and "ac_now c < ac_now (fst (last attempts)) + 15 * 60 * 1000"
    and "li_email input = Some e" and "toLowerCase (trim e) = email"
  shows "fst (login c input (login_run attempts (d, g))) \<noteq> Inr session"
proof
  assume ok: "fst (login c input (login_run attempts (d, g))) = Inr session"
  have five: "u_failedLoginAttempts u + int (length attempts) = failedLoginLimit" "attempts \<noteq> []"
    using assms(3,8) by (auto simp: failedLoginLimit_def)
  obtain d' u' where run: "login_run attempts (d, g) = (d', g)" "List.find (\<lambda>u. u_email u = email) (rows d') = Some u'"
    "u_lockedUntil u' = Some (ac_now (fst (last attempts)) + accountLockDurationMs)"
    using wrong_attempts_count [OF T O assms(4-6) refl assms(7) five] by blast
  from ok run(1) obtain t where "login c input (d', g) = (Inr session, t)"
    by (cases "login c input (d', g)") auto
  from login_attempted [OF assms(11) this] obtain e' password retry where "li_email input = Some e'"
    "login_attempt c (toLowerCase (trim e')) password retry (d', g) = (Inr session, t)" .
  then have "login_attempt c email password retry (d', g) = (Inr session, t)" using assms(13,14) by simp
  from login_attempt_Inr [OF _ _ this, of rows orows] run(2,3) assms(9,10,12) T O
  show False
    by (auto simp: accountLockDurationMs_def reliable_table_def)
qed

section \<open>Sessions in use\<close>

lemma get_session_of:
  "fst (get_session opts now token g) = Some x \<Longrightarrow> session_of g token = Some x"
  by (auto simp: get_session_def session_of_def split: option.splits if_splits)

lemma get_session_keeps:
  "fst (get_session opts now token g) = Some x \<Longrightarrow> session_of (snd (get_session opts now token g)) token = Some x"
  by (auto simp: get_session_def session_of_def store_session_simps map_get_set split: option.splits if_splits)

text \<open>What a successful \<open>me\<close> knows: the token names a registered session; with a database, its user
  exists, and the flag of the session is set if the password has expired.\<close>

lemma me_Inr:
  assumes T: "prisma_table (ac_users c) rows" and ok: "me c token s = (Inr session, t)" and wf: "map_wf (reg_sessions (snd s))"
  shows "\<exists>tok x. token = Some tok \<and> session_of (snd s) tok = Some x \<and>
    (session = x \<or> session = x\<lparr>as_passwordChangeRequired := Some True\<rparr>) \<and> map_wf (reg_sessions (snd t)) \<and>
    (databaseAvailable (ac_env c) \<longrightarrow> (\<exists>u. List.find (\<lambda>u. u_id u = usr_id (as_user session)) (rows (fst s)) = Some u \<and>
       (if password_expired c u then as_passwordChangeRequired session = Some True
        else session = x \<and> fst t = fst s \<and> session_of (snd t) tok = Some x)))"
proof -
  obtain tok where tok: "token = Some tok" "tok \<noteq> []"
    using ok by (cases token) (auto simp: me_def throwE_eq_Inr split: if_splits)
  obtain x g1 where get: "get_session default_options (ac_now c) tok (snd s) = (Some x, g1)"
    using ok tok by (auto simp: me_def auth_Inr split: option.splits)
  have x: "session_of (snd s) tok = Some x"
    using get_session_of [of default_options "ac_now c" tok "snd s" x] get by simp
  have kept: "session_of g1 tok = Some x"
    using get_session_keeps [of default_options "ac_now c" tok "snd s" x] get by simp
  have wf1: "map_wf (reg_sessions g1)"
    using map_wf_operations(1) [OF wf, of default_options "ac_now c" tok] get by simp
  show ?thesis
  proof (cases "databaseAvailable (ac_env c)")
    case False
    then show ?thesis using ok tok get x wf1 by (simp add: me_def auth_Inr)
  next
    case True
    have "(\<exists>e. t_find (ac_users c) (\<lambda>u. u_id u = usr_id (as_user x)) (fst s) = (Inl e, fst s)) \<or>
        t_find (ac_users c) (\<lambda>u. u_id u = usr_id (as_user x)) (fst s) =
          (Inr (List.find (\<lambda>u. u_id u = usr_id (as_user x)) (rows (fst s))), fst s)"
      by (cases rule: prisma_table.find_cases [OF T, of "\<lambda>u. u_id u = usr_id (as_user x)" "fst s"]) auto
    then obtain u where find: "t_find (ac_users c) (\<lambda>u. u_id u = usr_id (as_user x)) (fst s) = (Inr (Some u), fst s)"
      and u: "List.find (\<lambda>u. u_id u = usr_id (as_user x)) (rows (fst s)) = Some u"
      using ok tok get True by (auto simp: me_def auth_Inr split: option.splits)
    show ?thesis
    proof (cases "password_expired c u")
      case True
      then have "session = x\<lparr>as_passwordChangeRequired := Some True\<rparr>" and "map_wf (reg_sessions (snd t))"
        using ok tok get find \<open>databaseAvailable (ac_env c)\<close> wf1
        by (auto simp: me_def auth_Inr Let_def map_wf_operations split: if_splits)
      with True u tok x show ?thesis by simp
    next
      case False
      then have "session = x" "t = (fst s, g1)"
        using ok tok get find \<open>databaseAvailable (ac_env c)\<close> by (auto simp: me_def auth_Inr)
      with False u tok x wf1 kept show ?thesis by simp
    qed
  qed
qed

lemma bearer_token: "extractBearerToken authorization = Some tok \<Longrightarrow> authorization = Some (''Bearer '' @ tok)"
  by (auto simp: extractBearerToken_def startsWith_iff split: option.splits if_splits)

text \<open>An active session: registered under the token, its user has a row, and its password is current.\<close>

definition active_session :: "'d auth_ctx \<Rightarrow> ('d \<Rightarrow> user_row list) \<Rightarrow> 'd auth_state \<Rightarrow> string \<Rightarrow> auth_session \<Rightarrow> bool" where
  "active_session c rows s tok session \<longleftrightarrow> session_of (snd s) tok = Some session \<and> as_passwordChangeRequired session \<noteq> Some True \<and>
     (\<exists>u. List.find (\<lambda>u. u_id u = usr_id (as_user session)) (rows (fst s)) = Some u \<and> \<not> password_expired c u)"

lemma me_active:
  assumes "prisma_table (ac_users c) rows" and "databaseAvailable (ac_env c)" and "map_wf (reg_sessions (snd s))"
    and ok: "me c token s = (Inr session, t)" and "as_passwordChangeRequired session \<noteq> Some True"
  obtains tok where "token = Some tok" and "active_session c rows s tok session" and "active_session c rows t tok session"
    and "fst t = fst s" and "map_wf (reg_sessions (snd t))"
proof -
  from me_Inr [OF assms(1) ok assms(3)] assms(2,5) obtain tok u where "token = Some tok" "session_of (snd s) tok = Some session"
    "map_wf (reg_sessions (snd t))" "List.find (\<lambda>u. u_id u = usr_id (as_user session)) (rows (fst s)) = Some u" "\<not> password_expired c u"
    "fst t = fst s" "session_of (snd t) tok = Some session"
    by (auto split: if_splits)
  with that [of tok] assms(5) show ?thesis by (auto simp: active_session_def)
qed

lemma guarded:
  assumes T: "prisma_table (ac_users c) rows" and db: "databaseAvailable (ac_env c)" and "map_wf (reg_sessions (snd s))"
    and ok: "requireActiveSession c token s = (Inr session, t)"
  obtains tok where "token = Some tok" and "active_session c rows s tok session" and "active_session c rows t tok session"
    and "fst t = fst s" and "map_wf (reg_sessions (snd t))"
proof -
  from ok obtain s1 where me: "me c token s = (Inr session, s1)" and fresh: "as_passwordChangeRequired session \<noteq> Some True"
    by (auto simp: requireActiveSession_def auth_Inr split: if_splits option.splits)
  from me_active [OF T db assms(3) me fresh] obtain tok where tok: "token = Some tok" "active_session c rows s tok session"
    "active_session c rows s1 tok session" "fst s1 = fst s" "map_wf (reg_sessions (snd s1))" .
  from tok(3) obtain u where u: "List.find (\<lambda>u. u_id u = usr_id (as_user session)) (rows (fst s1)) = Some u" "\<not> password_expired c u"
    by (auto simp: active_session_def)
  have "t = s1"
  proof (cases rule: prisma_table.find_cases [OF T, of "\<lambda>u. u_id u = usr_id (as_user session)" "fst s1"])
    case (1 e)
    with ok me fresh db show ?thesis by (cases s1) (simp add: requireActiveSession_def bindE_def on_db_def)
  next
    case 2
    with ok me fresh db u show ?thesis by (cases s1) (simp add: requireActiveSession_def bindE_def on_db_def ret_def)
  qed
  with tok that show ?thesis by simp
qed

text \<open>With a database, the guard lets a request through only on a public path or with a bearer
  token that names a registered session, whose user still has a row and whose password neither has
  expired nor has to be changed.\<close>

theorem guard_admits_only_active_sessions:
  assumes T: "prisma_table (ac_users c) rows" and "databaseAvailable (ac_env c)" and wf: "map_wf (reg_sessions (snd s))"
    and ok: "canActivate c (Some path) url authorization s = (Inr (), t)"
  shows "isPublicPath path \<or> (\<exists>tok session u. authorization = Some (''Bearer '' @ tok) \<and>
    session_of (snd s) tok = Some session \<and> as_passwordChangeRequired session \<noteq> Some True \<and>
    List.find (\<lambda>u. u_id u = usr_id (as_user session)) (rows (fst s)) = Some u \<and> \<not> password_expired c u)"
proof (cases "isPublicPath path")
  case False
  with ok obtain session where r: "requireActiveSession c (extractBearerToken authorization) s = (Inr session, t)"
    by (auto simp: canActivate_def act_Inr)
  from guarded [OF T assms(2) wf r] obtain tok where "extractBearerToken authorization = Some tok" "active_session c rows s tok session" .
  moreover from this(1) have "authorization = Some (''Bearer '' @ tok)" by (rule bearer_token)
  ultimately show ?thesis by (auto simp: active_session_def)
qed simp

text \<open>\<open>me\<close> changes at most the flag of the session's user.\<close>

lemma me_rows:
  assumes T: "prisma_table (ac_users c) rows" and ok: "me c token s = (Inr session, t)"
  shows "\<exists>f. rows (fst t) = replace_where (\<lambda>v. u_id v = usr_id (as_user session)) f (rows (fst s)) \<and>
    (\<forall>v. u_id (f v) = u_id v \<and> u_passwordHash (f v) = u_passwordHash v)"
proof -
  let ?flag = "u_passwordChangeRequired_update (\<lambda>_. True)"
  have "\<exists>x. (session = x \<or> session = x\<lparr>as_passwordChangeRequired := Some True\<rparr>) \<and>
      (rows (fst t) = rows (fst s) \<or> rows (fst t) = replace_where (\<lambda>v. u_id v = usr_id (as_user x)) ?flag (rows (fst s)))"
  proof -
    from ok obtain x g1 where get: "get_session default_options (ac_now c) (the token) (snd s) = (Some x, g1)"
      and tok: "truthy token"
      by (auto simp: me_def auth_Inr split: option.splits if_splits)
    show ?thesis
    proof (cases "databaseAvailable (ac_env c)")
      case False
      then show ?thesis using ok get tok by (auto simp: me_def auth_Inr)
    next
      case True
      obtain u where find: "t_find (ac_users c) (\<lambda>u. u_id u = usr_id (as_user x)) (fst s) = (Inr (Some u), fst s)"
        and u: "u_id u = usr_id (as_user x)"
      proof (cases rule: prisma_table.find_cases [OF T, of "\<lambda>u. u_id u = usr_id (as_user x)" "fst s"])
        case (1 e)
        then show ?thesis using ok get tok True by (simp add: me_def auth_Inr)
      next
        case 2
        then show ?thesis using that ok get tok True
          by (cases "List.find (\<lambda>u. u_id u = usr_id (as_user x)) (rows (fst s))")
            (auto simp: me_def auth_Inr dest: find_SomeD)
      qed
      show ?thesis
      proof (cases "password_expired c u \<and> \<not> u_passwordChangeRequired u")
        case False
        then show ?thesis using ok get tok True find
          by (auto simp: me_def auth_Inr Let_def split: if_splits)
      next
        case upd: True
        then obtain r d1 where "t_update (ac_users c) (\<lambda>v. u_id v = usr_id (as_user x)) ?flag (fst s) = (Inr r, d1)"
          and "fst t = d1" "session = x\<lparr>as_passwordChangeRequired := Some True\<rparr>"
          using ok get tok True find u by (auto simp: me_def auth_Inr Let_def)
        with prisma_table.update_law [OF T this(1)] show ?thesis by blast
      qed
    qed
  qed
  then obtain x where x: "session = x \<or> session = x\<lparr>as_passwordChangeRequired := Some True\<rparr>"
    and rows: "rows (fst t) = rows (fst s) \<or> rows (fst t) = replace_where (\<lambda>v. u_id v = usr_id (as_user x)) ?flag (rows (fst s))"
    by blast
  have "as_user session = as_user x" using x by auto
  with rows show ?thesis
    by (elim disjE; intro exI [of _ ?flag] exI [of _ "\<lambda>v. v"]) (auto simp: replace_where_def)
qed

text \<open>C36. A successful password change needed the current password; it stores a hash of a strong new
  one, clears the failures and the lock, and leaves the user exactly one registered session: the returned
  one, under its new token.\<close>

theorem changePassword_revokes_other_sessions:
  assumes T: "prisma_table (ac_users c) rows" and O: "prisma_table (ac_orgs c) orows"
    and wf: "map_wf (reg_sessions (snd s))" and ok: "changePassword c token input s = (Inr session, t)"
  shows "\<exists>current new hash u. cp_currentPassword input = Some current \<and> cp_newPassword input = Some new \<and>
    isStrongPassword (Some new) \<and> new_hash c new = Inr hash \<and> u \<in> set (rows (fst s)) \<and>
    passwordMatches c current (u_passwordHash u) = Inr True \<and> usr_id (as_user session) = u_id u \<and>
    (\<forall>v \<in> set (rows (fst t)). u_id v = u_id u \<longrightarrow> u_passwordHash v = hash \<and> u_failedLoginAttempts v = 0 \<and>
       u_lockedUntil v = None \<and> u_passwordChangedAt v = ac_now c \<and> \<not> u_passwordChangeRequired v) \<and>
    filter (\<lambda>v. u_id v \<noteq> u_id u) (rows (fst t)) = filter (\<lambda>v. u_id v \<noteq> u_id u) (rows (fst s)) \<and>
    (\<forall>tok x. session_of (snd t) tok = Some x \<and> usr_id (as_user x) = u_id u \<longleftrightarrow> tok = as_token session \<and> x = session)"
proof -
  let ?f = "\<lambda>h. \<lambda>v. v\<lparr>u_passwordHash := h, u_failedLoginAttempts := 0, u_lockedUntil := None,
             u_passwordChangedAt := ac_now c, u_passwordChangeRequired := False\<rparr>"
  from ok obtain x s1 current new where me: "me c token s = (Inr x, s1)"
    and p: "parseChangePasswordInput input = Inr (current, new)"
    by (fastforce simp: changePassword_def act_Inr)
  from ok me p obtain u org d1 where f: "find_with_organization c (\<lambda>u. u_id u = usr_id (as_user x)) (fst s1) = (Inr (Some (u, org)), d1)"
    by (auto simp: changePassword_def auth_Inr split: option.splits)
  note found = find_with_organization_Inr [OF T O f]
  from ok me p f found obtain hash updated d2 where pm: "passwordMatches c current (u_passwordHash u) = Inr True"
    and hash: "new_hash c new = Inr hash"
    and up: "t_update (ac_users c) (\<lambda>v. u_id v = u_id u) (?f hash) d1 = (Inr updated, d2)"
    and session: "session = \<lparr>as_token = ''session_'' @ ac_uuid c 0, as_user = toUser updated,
        as_organization = organization_or_none org, as_passwordChangeRequired = Some False\<rparr>"
    and t: "t = (d2, set_session default_options (ac_now c) (as_token session) session (snd (revokeUser (u_id updated) (snd s1))))"
    by (auto simp: changePassword_def auth_Inr createSession_def Let_def split: option.splits if_splits)
  obtain r where r: "List.find (\<lambda>v. u_id v = u_id u) (rows d1) = Some r" "updated = ?f hash r"
    and rows: "rows d2 = replace_where (\<lambda>v. u_id v = u_id u) (?f hash) (rows d1)"
    using prisma_table.update_law [OF T up] by blast
  have id: "u_id updated = u_id u" using find_SomeD [OF r(1)] r(2) by simp
  have wf1: "map_wf (reg_sessions (snd s1))" using me_Inr [OF T me wf] by blast
  have rest: "usr_id (as_user y) \<noteq> u_id u" if "session_of (snd (revokeUser (u_id u) (snd s1))) tok = Some y" for tok y
    using that revokeUser_eqs(2) [OF wf1, of "u_id u" "fst (revokeUser (u_id u) (snd s1))" "snd (revokeUser (u_id u) (snd s1))"]
    by (auto simp: session_of_def owned_by_def dest!: map_of_SomeD)
  have uid: "u_id u = usr_id (as_user x)" using found find_SomeD [of _ "rows (fst s1)" u] by auto
  obtain f where f: "rows (fst s1) = replace_where (\<lambda>v. u_id v = u_id u) f (rows (fst s))"
    "\<And>v. u_id (f v) = u_id v \<and> u_passwordHash (f v) = u_passwordHash v"
    using me_rows [OF T me] uid by auto
  have "u \<in> set (rows (fst s1))" using found find_SomeD [of _ "rows (fst s1)" u] by auto
  then obtain u0 where u0': "u0 \<in> set (rows (fst s))" "u = f u0" unfolding f(1) set_replace_where by blast
  have u0: "u0 \<in> set (rows (fst s))" "u_id u0 = u_id u" "u_passwordHash u0 = u_passwordHash u"
    using u0' f(2) [of u0] by simp_all
  have final: "rows (fst t) = replace_where (\<lambda>v. u_id v = u_id u) (?f hash) (replace_where (\<lambda>v. u_id v = u_id u) f (rows (fst s)))"
    using rows found f(1) t by simp
  have keep: "u_id (f v) = u_id v" for v using f(2) by blast
  have "\<forall>v \<in> set (rows (fst t)). u_id v = u_id u0 \<longrightarrow> u_passwordHash v = hash \<and> u_failedLoginAttempts v = 0 \<and>
       u_lockedUntil v = None \<and> u_passwordChangedAt v = ac_now c \<and> \<not> u_passwordChangeRequired v"
    unfolding final set_replace_where u0(2) by (auto simp: keep)
  moreover have "filter (\<lambda>v. u_id v \<noteq> u_id u0) (rows (fst t)) = filter (\<lambda>v. u_id v \<noteq> u_id u0) (rows (fst s))"
    unfolding final u0(2) by (simp add: filter_replace_where_other keep)
  moreover have "cp_currentPassword input = Some current \<and> cp_newPassword input = Some new \<and> isStrongPassword (Some new)"
    using p by (auto simp: parseChangePasswordInput_def split: option.splits if_splits)
  moreover have own: "usr_id (as_user session) = u_id u0" by (simp add: session toUser_def id u0)
  moreover have "\<forall>tok y. session_of (snd t) tok = Some y \<and> usr_id (as_user y) = u_id u0 \<longleftrightarrow> tok = as_token session \<and> y = session"
    using rest u0(2) own by (auto simp: t id session_of_set split: if_splits)
  moreover have "passwordMatches c current (u_passwordHash u0) = Inr True" using pm u0(3) by simp
  ultimately show ?thesis using hash u0(1)
    by - (intro exI [of _ current] exI [of _ new] exI [of _ hash] exI [of _ u0] conjI; elim conjE; assumption)
qed

lemma initial_admin_transaction_Inr:
  assumes T: "prisma_table (ac_users c) rows" and O: "framed_table (ac_orgs c) orows rows"
    and ok: "initial_admin_transaction c parsed d = (Inr (organization, user), d')"
  shows "rows d = [] \<and> rows d' = [user] \<and> u_role user = ADMIN \<and> u_email user = ia_email parsed \<and>
    u_privacyConsentVersion user = Some (ia_privacyPolicyVersion parsed)"
proof -
  from ok obtain n d1 where n: "t_count (ac_users c) (\<lambda>_. True) d = (Inr n, d1)" "n = 0"
    by (auto simp: initial_admin_transaction_def act_Inr split: if_splits)
  have d1: "d1 = d" "n = count_rows (\<lambda>_. True) (rows d)"
    using prisma_table.count_law [OF T n(1)] by auto
  have empty: "rows d = []" using d1 n(2) by (simp add: count_rows_def)
  from ok n d1 obtain r o1 d2 u where o: "t_create (ac_orgs c) r d = (Inr o1, d2)"
    and u: "t_create (ac_users c) u d2 = (Inr user, d')"
    and fields: "u_role u = ADMIN" "u_email u = ia_email parsed" "u_privacyConsentVersion u = Some (ia_privacyPolicyVersion parsed)"
    by (auto simp: initial_admin_transaction_def act_Inr)
  have "rows d2 = rows d"
    using framed_table.create_frame [OF O, of r d] o by simp
  moreover have "user = u" "rows d' = rows d2 @ [u]"
    using prisma_table.create_law [OF T u] by auto
  ultimately show ?thesis using empty fields by simp
qed

text \<open>The setup creates an administrator only when the table of users is empty, and leaves it with
  exactly that administrator, who has consented to the current privacy policy.\<close>

theorem initial_admin_only_when_no_users:
  assumes T: "prisma_table (ac_users c) rows" and O: "framed_table (ac_orgs c) orows rows"
    and ok: "createInitialAdmin c input (d, g) = (Inr session, (d', g'))"
  shows "rows d = [] \<and> (\<exists>u. rows d' = [u] \<and> u_role u = ADMIN \<and> u_email u = toLowerCase (trim (ia_email input)) \<and>
    u_privacyConsentVersion u = Some CURRENT_PRIVACY_POLICY_VERSION \<and> as_user session = toUser u) \<and>
    isStrongPassword (ia_password input) \<and> ia_privacyConsentAccepted input"
proof -
  define attempt where "attempt parsed retry =
    bindE (on_db (run_transaction (ac_commit c retry) (initial_admin_transaction c parsed)))
      (\<lambda>(organization, user). createSession c (ac_uuid c 3) (toUser user) (toOrganization organization))" for parsed retry
  from ok obtain parsed where parsed: "parseInitialAdminInput input = Inr parsed"
    and loop: "retry_loop (attempt parsed) (ServiceUnavailable ''setup retry limit'') [0, 1, 2] (d, g) = (Inr session, (d', g'))"
    by (fastforce simp: createInitialAdmin_def act_Inr attempt_def [abs_def] simp del: retry_loop.simps split: if_splits)
  have same: "t = s" if "attempt parsed retry s = (Inl e, t)" for retry s e t
  proof -
    have "on_db (run_transaction (ac_commit c retry) (initial_admin_transaction c parsed)) s = (Inl e, t)"
      using that by (auto simp: attempt_def bindE_def createSession_not_Inl split: prod.splits sum.splits)
    then show ?thesis by (auto dest!: on_db_Inl run_transaction_Inl)
  qed
  obtain retry where "attempt parsed retry (d, g) = (Inr session, (d', g'))"
    using retry_loop_Inr_same [OF loop] same by blast
  then obtain organization user where "initial_admin_transaction c parsed d = (Inr (organization, user), d')"
    and session: "as_user session = toUser user"
    by (auto simp: attempt_def auth_Inr createSession_def Let_def)
  from initial_admin_transaction_Inr [OF T O this(1)] session parsed show ?thesis
    by (auto simp: parseInitialAdminInput_def Let_def assertCurrentPrivacyConsent_def bindR_eq_Inr split: if_splits)
qed

section \<open>Witnesses\<close>

definition auth_env :: env where
  "auth_env = (\<lambda>v. if v = ''NODE_ENV'' then Some ''production'' else if v = ''DATABASE_URL'' then Some ''postgresql://db'' else None)"

definition sample_ctx :: "time \<Rightarrow> database auth_ctx" where
  "sample_ctx now = \<lparr>ac_env = auth_env, ac_users = users_table, ac_orgs = organizations_table, ac_kdf = sample_kdf,
     ac_base64url = id, ac_from_base64url = id, ac_sha256 = (\<lambda>p. CHR ''h'' # p), ac_now = now, ac_started = 0,
     ac_uuid = (\<lambda>n. replicate (Suc n) CHR ''0''), ac_salt = ''salt'', ac_commit = (\<lambda>_. None)\<rparr>"

definition sample_user :: user_row where
  "sample_user = \<lparr>u_id = ''u1'', u_email = ''a@b.c'', u_passwordHash = ''hright'', u_name = ''A'', u_role = ORGANIZATION,
     u_organizationId = None, u_failedLoginAttempts = 0, u_lockedUntil = None, u_passwordChangedAt = 1000,
     u_passwordChangeRequired = False, u_privacyConsentVersion = None, u_privacyConsentAcceptedAt = None, u_createdAt = 0\<rparr>"

definition sample_db :: database where
  "sample_db = \<lparr>db_users = [sample_user], db_organizations = [], db_invitations = [], db_accessRequests = [], db_signupRequests = []\<rparr>"

definition sample_login :: "string \<Rightarrow> login_input" where
  "sample_login pw = \<lparr>li_email = Some '' a@b.c'', li_password = Some pw\<rparr>"

lemma sample_ctx_simps [simp]:
  "ac_env (sample_ctx now) = auth_env" "ac_users (sample_ctx now) = users_table" "ac_orgs (sample_ctx now) = organizations_table"
  "ac_kdf (sample_ctx now) = sample_kdf" "ac_from_base64url (sample_ctx now) = id" "ac_sha256 (sample_ctx now) = (\<lambda>p. CHR ''h'' # p)"
  "ac_now (sample_ctx now) = now" "ac_commit (sample_ctx now) n = None"
  by (simp_all add: sample_ctx_def)

lemma auth_env_simps [simp]: "databaseAvailable auth_env" "\<not> demoAuthEnabled auth_env" "is_production auth_env"
  by (simp_all add: databaseAvailable_def demoAuthEnabled_def is_production_def auth_env_def)

lemma sample_login_parse: "pw \<in> {''right'', ''wrong''} \<Longrightarrow> parseLoginInput (sample_login pw) = Inr (''a@b.c'', pw)"
  by (auto simp: parseLoginInput_def sample_login_def Let_def toLowerCase_def lower_char_def trim_def trimStart_def trimEnd_def
      js_space_def startsWith_def)

lemma sample_passwords:
  "passwordMatches (sample_ctx now) ''wrong'' ''hright'' = Inr False" "passwordMatches (sample_ctx now) ''right'' ''hright'' = Inr True"
  by (simp_all add: passwordMatches_def verifyPassword_def)

lemma sample_rows: "users_wf (db_users sample_db)" "List.find (\<lambda>u. u_email u = ''a@b.c'') (db_users sample_db) = Some sample_user"
  "u_passwordHash sample_user = ''hright''" "u_lockedUntil sample_user = None" "u_failedLoginAttempts sample_user = 0"
  by (simp_all add: users_wf_def sample_db_def sample_user_def)

lemma sample_login_succeeds:
  "\<exists>session t. login (sample_ctx 2000) (sample_login ''right'') (sample_db, empty_registry) = (Inr session, t)"
  by (simp add: login_def sample_login_parse bindE_def liftR_def tryDatabase_def loginWithDatabase_def catchE_def login_attempt_def
      on_db_def run_transaction_def transaction_def login_transaction_def find_with_organization_def
      users.find_eq sample_rows sample_passwords ret_def createSession_def put_session_def on_reg_def Let_def
      passwordHashNeedsUpgrade_def new_hash_def createPasswordHash_def sample_kdf_def hash_prefix_def startsWith_def
      list_table_def count_rows_def sample_db_def sample_user_def split: option.split)

lemma login_is_sound_witness:
  "\<exists>(session :: auth_session) u. as_user session = toUser u \<and> List.find (\<lambda>u. u_email u = ''a@b.c'') (db_users sample_db) = Some u"
proof -
  obtain session t where ok: "login (sample_ctx 2000) (sample_login ''right'') (sample_db, empty_registry) = (Inr session, t)"
    using sample_login_succeeds by blast
  from login_is_sound [OF _ _ _ ok, of db_users db_organizations] users.prisma_table_axioms organizations.prisma_table_axioms
  obtain u where u: "as_user session = toUser u" "List.find (\<lambda>u. u_email u = toLowerCase (trim '' a@b.c'')) (db_users sample_db) = Some u"
    by (auto simp: sample_login_def)
  have eq: "toLowerCase (trim '' a@b.c'') = ''a@b.c''"
    using sample_login_parse [of "''right''"] by (auto simp: parseLoginInput_def sample_login_def Let_def split: if_splits)
  show ?thesis using u unfolding eq by blast
qed

lemma refused_logins_look_alike_witness:
  "\<exists>d'. login (sample_ctx 2000) (sample_login ''wrong'') (sample_db, empty_registry) = (Inl invalidCredentials, (d', empty_registry))"
proof (rule refused_logins_look_alike [of "sample_ctx 2000" db_users db_organizations])
  show "reliable_table (ac_users (sample_ctx 2000)) db_users" "reliable_table (ac_orgs (sample_ctx 2000)) db_organizations"
    by (simp_all add: users.reliable_table_axioms organizations.reliable_table_axioms)
  show "\<forall>h. \<exists>b. passwordMatches (sample_ctx 2000) ''wrong'' h = Inr b"
    by (auto simp: passwordMatches_def verifyPassword_def sample_kdf_def Let_def split: list.split js_num.split)
  show "case List.find (\<lambda>u. u_email u = ''a@b.c'') (db_users sample_db) of None \<Rightarrow> True
     | Some u \<Rightarrow> (\<exists>t. u_lockedUntil u = Some t \<and> ac_now (sample_ctx 2000) < t) \<or>
         passwordMatches (sample_ctx 2000) ''wrong'' (u_passwordHash u) = Inr False"
    unfolding sample_rows(2) by (simp add: sample_rows sample_passwords)
qed (simp_all add: sample_rows sample_login_parse)

lemma five_failures_lock_the_account_witness:
  "fst (login (sample_ctx 10000) (sample_login ''right'')
     (login_run (map (\<lambda>i. (sample_ctx i, sample_login ''wrong'')) [1000, 2000, 3000, 4000, 5000]) (sample_db, empty_registry)))
   \<noteq> Inr (sample_session ''t'' ''u1'')"
proof (rule five_failures_lock_the_account [OF users.reliable_table_axioms organizations.reliable_table_axioms])
  show "\<forall>a \<in> set (map (\<lambda>i. (sample_ctx i, sample_login ''wrong'')) [1000, 2000, 3000, 4000, 5000]).
      wrong_attempt users_table organizations_table ''a@b.c'' (u_passwordHash sample_user) a"
    by (simp add: wrong_attempt_def sample_login_parse sample_rows sample_passwords)
  show "li_email (sample_login ''right'') = Some '' a@b.c''" by (simp add: sample_login_def)
  show "toLowerCase (trim '' a@b.c'') = ''a@b.c''"
    using sample_login_parse [of "''right''"] by (auto simp: parseLoginInput_def sample_login_def Let_def split: if_splits)
qed (simp_all add: sample_rows)

definition signed_in :: registry where
  "signed_in = set_session default_options 1500 ''t'' (sample_session ''t'' ''u1'') empty_registry"

lemma signed_in_get:
  "get_session default_options 2000 ''t'' signed_in =
     (Some (sample_session ''t'' ''u1''),
      store_session default_options 2000 ''t'' (sample_session ''t'' ''u1'') 1500 2000 (Some 0) signed_in)"
  by (simp add: get_session_def signed_in_def set_session_def store_session_def clear_timer_def empty_registry_def Let_def
      is_expired_def default_options_def ABSOLUTE_TTL_MS_def IDLE_TTL_MS_def)

lemma signed_in_wf: "map_wf (reg_sessions signed_in)"
  unfolding signed_in_def by (rule map_wf_operations) (simp add: empty_registry_def)

lemma sample_me:
  "me (sample_ctx 2000) (Some ''t'') (sample_db, signed_in) =
     (Inr (sample_session ''t'' ''u1''),
      (sample_db, store_session default_options 2000 ''t'' (sample_session ''t'' ''u1'') 1500 2000 (Some 0) signed_in))"
  by (simp add: me_def on_reg_def bindE_def signed_in_get on_db_def users.find_eq sample_db_def sample_user_def sample_session_def
      password_expired_def passwordLifetimeMs_def ret_def)

lemma guard_admits_only_active_sessions_witness:
  "\<exists>tok. Some (''Bearer t'') = Some (''Bearer '' @ tok) \<and> session_of signed_in tok \<noteq> None"
proof -
  have "canActivate (sample_ctx 2000) (Some ''/api/exams'') None (Some ''Bearer t'') (sample_db, signed_in) =
      (Inr (), (sample_db, store_session default_options 2000 ''t'' (sample_session ''t'' ''u1'') 1500 2000 (Some 0) signed_in))"
    by (simp add: canActivate_def isPublicPath_def startsWith_def extractBearerToken_def requireActiveSession_def bindE_def
        sample_me on_db_def users.find_eq sample_db_def [symmetric])
      (simp add: sample_db_def sample_user_def sample_session_def password_expired_def passwordLifetimeMs_def ret_def)
  from guard_admits_only_active_sessions [OF _ _ _ this, of db_users] users.prisma_table_axioms signed_in_wf
  show ?thesis
    by (auto simp: isPublicPath_def startsWith_def)
qed

lemma sample_strong: "isStrongPassword (Some ''Password-123'')"
  by (simp add: isStrongPassword_def group_count_def character_groups_def is_digit_def)

definition sample_setup :: initial_admin_input where
  "sample_setup = \<lparr>ia_organizationName = ''Org'', ia_name = ''Ann'', ia_email = ''a@b.c'', ia_password = Some ''Password-123'',
     ia_privacyConsentAccepted = True, ia_privacyPolicyVersion = CURRENT_PRIVACY_POLICY_VERSION\<rparr>"

definition empty_db :: database where
  "empty_db = \<lparr>db_users = [], db_organizations = [], db_invitations = [], db_accessRequests = [], db_signupRequests = []\<rparr>"

lemma sample_setup_parse: "parseInitialAdminInput sample_setup = Inr sample_setup"
  by (simp add: parseInitialAdminInput_def sample_setup_def sample_strong Let_def assertCurrentPrivacyConsent_def startsWith_def
      trim_def trimStart_def trimEnd_def js_space_def toLowerCase_def lower_char_def)

lemma sample_setup_run:
  "\<exists>session t. createInitialAdmin (sample_ctx 2000) sample_setup (empty_db, empty_registry) = (Inr session, t)"
  by (simp add: createInitialAdmin_def sample_setup_parse bindE_def liftR_def catchE_def on_db_def run_transaction_def
      transaction_def initial_admin_transaction_def list_table_def count_rows_def empty_db_def new_hash_def
      createPasswordHash_def sample_kdf_def ret_def createSession_def put_session_def on_reg_def Let_def)

lemma initial_admin_only_when_no_users_witness:
  "\<exists>(t :: database auth_state) u. db_users (fst t) = [u] \<and> u_role u = ADMIN \<and>
     fst (createInitialAdmin (sample_ctx 2000) sample_setup (empty_db, empty_registry)) \<noteq> Inl invalidCredentials"
proof -
  obtain session d' g' where ok: "createInitialAdmin (sample_ctx 2000) sample_setup (empty_db, empty_registry) = (Inr session, (d', g'))"
    using sample_setup_run by fastforce
  from initial_admin_only_when_no_users [OF _ _ ok, of db_users db_organizations]
  obtain u where "db_users d' = [u]" "u_role u = ADMIN"
    by (auto simp: users.prisma_table_axioms organizations_users.framed_table_axioms)
  then show ?thesis using ok by (intro exI [of _ "(d', g')"] exI [of _ u]) simp
qed

definition sample_change :: change_password_input where
  "sample_change = \<lparr>cp_currentPassword = Some ''right'', cp_newPassword = Some ''Password-123''\<rparr>"

lemma sample_user_simps: "db_users sample_db = [sample_user]" "u_id sample_user = ''u1''" "u_organizationId sample_user = None"
  "u_passwordHash sample_user = ''hright''" "usr_id (as_user (sample_session ''t'' ''u1'')) = ''u1''"
  by (simp_all add: sample_db_def sample_user_def sample_session_def)

lemma sample_change_run:
  "\<exists>session t. changePassword (sample_ctx 2000) (Some ''t'') sample_change (sample_db, signed_in) = (Inr session, t)"
  by (simp add: changePassword_def bindE_def sample_me liftR_def parseChangePasswordInput_def sample_change_def sample_strong
      on_db_def find_with_organization_def users.find_eq sample_user_simps ret_def
      sample_passwords new_hash_def createPasswordHash_def sample_kdf_def list_table_def revokeUserSessions_def on_reg_def
      createSession_def put_session_def Let_def case_prod_beta)

lemma changePassword_revokes_other_sessions_witness:
  "\<exists>session t. changePassword (sample_ctx 2000) (Some ''t'') sample_change (sample_db, signed_in) = (Inr session, t) \<and>
     session_of (snd t) (as_token session) = Some session \<and> usr_id (as_user session) = ''u1''"
proof -
  obtain session t where ok: "changePassword (sample_ctx 2000) (Some ''t'') sample_change (sample_db, signed_in) = (Inr session, t)"
    using sample_change_run by blast
  from changePassword_revokes_other_sessions [OF _ _ _ ok, of db_users db_organizations]
  show ?thesis
    using ok signed_in_wf
    by (auto simp: users.prisma_table_axioms organizations.prisma_table_axioms sample_user_simps)
qed

end
