(* ===== verification/Accounts.thy ===== *)
theory Accounts
  imports Auth
begin

text \<open>
  Account administration: managed users (\<open>admin-users.service.ts\<close>), sign-up requests for new
  organizations (\<open>admin-signup-requests.service.ts\<close>), requests to join an organization
  (\<open>organization-requests.service.ts\<close>), invitations (\<open>organization-invitations.service.ts\<close>), and the
  controller in front of them (\<open>admin-users.controller.ts\<close>).
\<close>

section \<open>Context\<close>

record 'd acct =
  at_env :: env
  at_users :: "('d, user_row) table"
  at_orgs :: "('d, organization_row) table"
  at_invitations :: "('d, invitation_row) table"
  at_accessRequests :: "('d, access_request_row) table"
  at_signupRequests :: "('d, signup_row) table"
  at_by_name :: "organization_row list \<Rightarrow> organization_row list"
  at_now :: time
  at_uuid :: "nat \<Rightarrow> string"
  at_hash :: "string \<Rightarrow> string res"
  at_commit :: "exn option"

definition session_role :: "auth_session \<Rightarrow> user_role" where
  "session_role session = usr_role (as_user session)"

definition by_id :: "string \<Rightarrow> user_row \<Rightarrow> bool" where
  "by_id i = (\<lambda>u. u_id u = i)"

section \<open>Managed users\<close>

definition assertCanManageAccounts :: "auth_session \<Rightarrow> unit res" where
  "assertCanManageAccounts session =
     guardR (\<not> (session_role session \<noteq> ADMIN \<and> session_role session \<noteq> ORGANIZATION)) (Forbidden ''account managers only'')"

definition listOrganizationUsers :: "'d acct \<Rightarrow> auth_session \<Rightarrow> ('d, user list) act" where
  "listOrganizationUsers c session =
     bindE (liftR (assertCanManageAccounts session)) (\<lambda>_.
     if \<not> databaseAvailable (at_env c) then ret [as_user session]
     else bindE (runDatabase (t_findMany (at_users c) (\<lambda>u. session_role session = ADMIN \<or>
            u_organizationId u = Some (org_id (as_organization session))))) (\<lambda>users. case users of
       None \<Rightarrow> ret [as_user session]
     | Some us \<Rightarrow> ret (map toUser (sort_key u_createdAt us))))"

definition listManagedOrganizations :: "'d acct \<Rightarrow> auth_session \<Rightarrow> ('d, organization_option list) act" where
  "listManagedOrganizations c session =
     (let own = [\<lparr>oo_id = org_id (as_organization session), oo_name = org_name (as_organization session)\<rparr>] in
     bindE (liftR (assertCanManageAccounts session)) (\<lambda>_.
     if \<not> databaseAvailable (at_env c) then ret own
     else bindE (runDatabase (
            bindE (t_findMany (at_users c) (\<lambda>_. True)) (\<lambda>us.
            t_findMany (at_orgs c) (\<lambda>r. if session_role session = ADMIN then list_ex (\<lambda>u. u_organizationId u = Some (o_id r)) us
              else o_id r = org_id (as_organization session))))) (\<lambda>organizations. case organizations of
       None \<Rightarrow> ret own
     | Some os \<Rightarrow> ret (map (\<lambda>r. \<lparr>oo_id = o_id r, oo_name = o_name r\<rparr>) (at_by_name c os)))))"

definition getPendingApprovalCount :: "'d acct \<Rightarrow> auth_session \<Rightarrow> ('d, pending_approval_count) act" where
  "getPendingApprovalCount c session =
     (if session_role session \<noteq> ADMIN \<and> session_role session \<noteq> ORGANIZATION then throwE (Forbidden ''reviewers only'')
      else if \<not> databaseAvailable (at_env c) then ret \<lparr>pac_count = 0\<rparr>
      else bindE (runDatabase (if session_role session = ADMIN then
              bindE (t_count (at_signupRequests c) (\<lambda>r. sgr_status r = SIGNUP_PENDING)) (\<lambda>a.
              bindE (t_count (at_accessRequests c) (\<lambda>r. arr_status r = ACCESS_PENDING)) (\<lambda>b. ret (a + b)))
            else t_count (at_accessRequests c)
              (\<lambda>r. arr_organizationId r = org_id (as_organization session) \<and> arr_status r = ACCESS_PENDING))) (\<lambda>count.
      ret \<lparr>pac_count = (case count of None \<Rightarrow> 0 | Some n \<Rightarrow> n)\<rparr>))"

definition parseEditableRole :: "auth_session \<Rightarrow> user_role \<Rightarrow> user_role res" where
  "parseEditableRole session role =
     (if session_role session = ADMIN then
        (if role = ADMIN \<or> role = ORGANIZATION \<or> role = PROCTOR then Inr role else Inl (BadRequest ''admin role choice''))
      else if session_role session = ORGANIZATION \<and> (role = ORGANIZATION \<or> role = PROCTOR) then Inr role
      else Inl (Forbidden ''organization role choice''))"

definition parseUpdateUserInput :: "auth_session \<Rightarrow> update_user_input \<Rightarrow> update_user_input res" where
  "parseUpdateUserInput session input =
     (let name = trim (uu_name input); email = toLowerCase (trim (uu_email input)) in
      bindR (parseEditableRole session (uu_role input)) (\<lambda>role.
      let organizationId = (if session_role session = ADMIN then map_option trim (uu_organizationId input)
                            else Some (org_id (as_organization session))) in
      if name = [] \<or> email = [] \<or> \<not> truthy organizationId then Inl (BadRequest ''name, email and organization required'')
      else if \<not> has_text email ''@'' then Inl (BadRequest ''email invalid'')
      else Inr \<lparr>uu_name = name, uu_email = email, uu_role = role, uu_organizationId = organizationId\<rparr>))"

definition updateManagedUser :: "'d acct \<Rightarrow> auth_session \<Rightarrow> string \<Rightarrow> update_user_input \<Rightarrow> ('d, user) act" where
  "updateManagedUser c session userId input =
     (if \<not> databaseAvailable (at_env c) then throwE (ServiceUnavailable ''database required'')
      else bindE (runDatabase (t_find (at_users c) (by_id userId))) (\<lambda>target. case target of
        None \<Rightarrow> throwE (ServiceUnavailable ''database required'')
      | Some None \<Rightarrow> throwE (BadRequest ''account not found'')
      | Some (Some target) \<Rightarrow>
          bindE (liftR (parseUpdateUserInput session input)) (\<lambda>parsed.
          if session_role session \<noteq> ADMIN \<and> u_organizationId target \<noteq> Some (org_id (as_organization session))
          then throwE (Forbidden ''own organization only'')
          else if u_role target = ADMIN \<and> session_role session \<noteq> ADMIN then throwE (Forbidden ''administrator account'')
          else bindE (runDatabase (t_find (at_users c) (\<lambda>u. u_email u = uu_email parsed))) (\<lambda>existing. case existing of
            None \<Rightarrow> throwE (ServiceUnavailable ''database required'')
          | Some ex \<Rightarrow>
              if ex \<noteq> None \<and> u_id (the ex) \<noteq> userId then throwE (Conflict ''email taken'')
              else bindE (runDatabase (t_update (at_users c) (by_id userId)
                     (\<lambda>u. u\<lparr>u_name := uu_name parsed, u_email := uu_email parsed, u_role := uu_role parsed,
                            u_organizationId := uu_organizationId parsed\<rparr>))) (\<lambda>user. case user of
                None \<Rightarrow> throwE (ServiceUnavailable ''account not updated'')
              | Some user \<Rightarrow> ret (toUser user))))))"

definition delete_transaction :: "'d acct \<Rightarrow> auth_session \<Rightarrow> string \<Rightarrow> ('d, user_row) act" where
  "delete_transaction c session userId =
     bindE (t_find (at_users c) (by_id (usr_id (as_user session)))) (\<lambda>actor.
     if actor = None \<or> u_role (the actor) \<noteq> ADMIN then throwE (Forbidden ''administrators only'')
     else if u_id (the actor) = userId then throwE (Forbidden ''own account'')
     else bindE (t_find (at_users c) (by_id userId)) (\<lambda>target. case target of
       None \<Rightarrow> throwE (BadRequest ''account not found'')
     | Some target \<Rightarrow>
         bindE (if u_role target = ADMIN then
                  bindE (t_count (at_users c) (\<lambda>u. u_role u = ADMIN)) (\<lambda>administratorCount.
                  if administratorCount \<le> 1 then throwE (Conflict ''last administrator'') else ret ())
                else ret ()) (\<lambda>_.
         bindE (t_deleteMany (at_invitations c) (\<lambda>i. ivr_invitedUserId i = userId \<or> ivr_invitedById i = userId)) (\<lambda>_.
         t_delete (at_users c) (by_id userId)))))"

definition deleteManagedUser :: "'d acct \<Rightarrow> auth_session \<Rightarrow> string \<Rightarrow> ('d, string) act" where
  "deleteManagedUser c session userId =
     (if \<not> databaseAvailable (at_env c) then throwE (ServiceUnavailable ''database required'')
      else bindE (runDatabase (run_transaction (at_commit c) (delete_transaction c session userId))) (\<lambda>deleted.
        case deleted of None \<Rightarrow> throwE (ServiceUnavailable ''database required'') | Some r \<Rightarrow> ret (u_id r)))"

section \<open>Sign-up requests\<close>

text \<open>This service's \<open>runDatabase\<close> swallows every \<open>Error\<close>, also the HTTP exceptions.\<close>

definition runDatabase_any :: "('d, 'a) act \<Rightarrow> ('d, 'a option) act" where
  "runDatabase_any operation = catchE (bindE operation (\<lambda>x. ret (Some x)))
     (\<lambda>e. if is_error e then ret None else throwE e)"

definition toSignupRequest :: "signup_row \<Rightarrow> signup_request" where
  "toSignupRequest r = \<lparr>sr_id = sgr_id r, sr_organizationName = sgr_organizationName r, sr_name = sgr_name r,
     sr_email = sgr_email r, sr_status = sgr_status r, sr_requestedRole = ORGANIZATION,
     sr_rejectionReason = sgr_rejectionReason r, sr_reviewedById = sgr_reviewedById r,
     sr_approvedUserId = sgr_approvedUserId r, sr_createdAt = sgr_createdAt r, sr_reviewedAt = sgr_reviewedAt r\<rparr>"

definition parseSignupRequestInput :: "signup_request_input \<Rightarrow> signup_request_input res" where
  "parseSignupRequestInput input =
     (let organizationName = trim (si_organizationName input); name = trim (si_name input);
          email = toLowerCase (trim (si_email input)); reason = trim (si_reason input)
      in if organizationName = [] \<or> name = [] \<or> email = [] \<or> reason = [] \<or> \<not> isStrongPassword (si_password input)
         then Inl (BadRequest ''sign-up fields required'')
         else if \<not> has_text email ''@'' then Inl (BadRequest ''email invalid'')
         else Inr \<lparr>si_organizationName = organizationName, si_name = name, si_email = email, si_password = si_password input,
                   si_reason = reason\<rparr>)"

definition new_signup :: "'d acct \<Rightarrow> string \<Rightarrow> string \<Rightarrow> string \<Rightarrow> string \<Rightarrow> string \<Rightarrow> signup_row" where
  "new_signup c organizationName name email passwordHash reason =
     \<lparr>sgr_id = ''signup_'' @ take 12 (at_uuid c 0), sgr_organizationName = organizationName, sgr_name = name, sgr_email = email,
      sgr_passwordHash = passwordHash, sgr_reason = reason, sgr_requestedRole = ORGANIZATION, sgr_status = SIGNUP_PENDING,
      sgr_rejectionReason = None, sgr_reviewedById = None, sgr_approvedUserId = None, sgr_createdAt = at_now c, sgr_reviewedAt = None\<rparr>"

definition createSignupRequest :: "'d acct \<Rightarrow> signup_request_input \<Rightarrow> ('d, signup_request) act" where
  "createSignupRequest c input =
     (if \<not> databaseAvailable (at_env c) then throwE (ServiceUnavailable ''database required'')
      else bindE (liftR (parseSignupRequestInput input)) (\<lambda>parsed.
      bindE (runDatabase_any (t_find (at_users c) (\<lambda>u. u_email u = si_email parsed))) (\<lambda>existingUser.
      bindE (runDatabase_any (t_find (at_signupRequests c)
         (\<lambda>r. sgr_email r = si_email parsed \<and> sgr_status r = SIGNUP_PENDING))) (\<lambda>existingPending.
      if existingUser = None \<or> existingPending = None then throwE (ServiceUnavailable ''database required'')
      else if the existingUser \<noteq> None \<or> the existingPending \<noteq> None then throwE (Conflict ''email registered or pending'')
      else bindE (liftR (at_hash c (the (si_password parsed)))) (\<lambda>hash.
      bindE (runDatabase_any (t_create (at_signupRequests c)
         (new_signup c (si_organizationName parsed) (si_name parsed) (si_email parsed) hash (si_reason parsed)))) (\<lambda>request.
      case request of None \<Rightarrow> throwE (ServiceUnavailable ''database required'') | Some r \<Rightarrow> ret (toSignupRequest r)))))))"

definition createRequestForRegisteredUser :: "'d acct \<Rightarrow> auth_session \<Rightarrow> org_signup_input \<Rightarrow> ('d, signup_request) act" where
  "createRequestForRegisteredUser c session input =
     (if \<not> databaseAvailable (at_env c) then throwE (ServiceUnavailable ''database required'')
      else if session_role session = ADMIN \<or> truthy (usr_organizationId (as_user session))
      then throwE (Forbidden ''unaffiliated accounts only'')
      else let organizationName = trim (osi_organizationName input); reason = trim (osi_reason input) in
      if organizationName = [] \<or> reason = [] then throwE (BadRequest ''organization and reason required'')
      else bindE (runDatabase_any (t_find (at_signupRequests c)
             (\<lambda>r. sgr_email r = usr_email (as_user session) \<and> sgr_status r = SIGNUP_PENDING))) (\<lambda>pending. case pending of
        None \<Rightarrow> throwE (ServiceUnavailable ''request not saved'')
      | Some (Some _) \<Rightarrow> throwE (Conflict ''request pending'')
      | Some None \<Rightarrow>
          bindE (runDatabase_any (t_create (at_signupRequests c) (new_signup c organizationName (usr_name (as_user session))
             (usr_email (as_user session)) [] reason))) (\<lambda>request.
          case request of None \<Rightarrow> throwE (ServiceUnavailable ''request not saved'') | Some r \<Rightarrow> ret (toSignupRequest r))))"

definition assertOperator :: "auth_session \<Rightarrow> unit res" where
  "assertOperator session = guardR (session_role session = ADMIN) (Forbidden ''operators only'')"

fun signup_rank :: "signup_status \<Rightarrow> int" where
  "signup_rank SIGNUP_PENDING = 0"
| "signup_rank SIGNUP_APPROVED = 1"
| "signup_rank SIGNUP_REJECTED = 2"

definition listSignupRequests :: "'d acct \<Rightarrow> auth_session \<Rightarrow> ('d, signup_request list) act" where
  "listSignupRequests c session =
     bindE (liftR (assertOperator session)) (\<lambda>_.
     if \<not> databaseAvailable (at_env c) then ret []
     else bindE (runDatabase_any (t_findMany (at_signupRequests c) (\<lambda>_. True))) (\<lambda>requests. case requests of
       None \<Rightarrow> ret []
     | Some rs \<Rightarrow> ret (map toSignupRequest (sort_key (\<lambda>r. signup_rank (sgr_status r)) (sort_newest sgr_createdAt rs)))))"

text \<open>\<open>None\<close> approves, \<open>Some reason\<close> rejects.\<close>

definition parseReviewAction :: "signup_review_input \<Rightarrow> string option res" where
  "parseReviewAction input =
     (if sri_action input = ''APPROVE'' then Inr None
      else if sri_action input = ''REJECT'' then
        (let reason = map_option trim (sri_rejectionReason input)
         in Inr (Some (if truthy reason then the reason else ''request rejected'')))
      else Inl (BadRequest ''approve or reject''))"

definition approve_transaction :: "'d acct \<Rightarrow> auth_session \<Rightarrow> signup_row \<Rightarrow> user_row option \<Rightarrow> ('d, signup_row) act" where
  "approve_transaction c session request existingUser =
     bindE (t_create (at_orgs c) \<lparr>o_id = ''org_'' @ take 12 (at_uuid c 0), o_name = sgr_organizationName request,
        o_joinCode = join_code (at_uuid c 1), o_createdAt = at_now c\<rparr>) (\<lambda>organization.
     bindE (case existingUser of
         Some u \<Rightarrow> t_update (at_users c) (by_id (u_id u))
           (\<lambda>u. u\<lparr>u_role := ORGANIZATION, u_organizationId := Some (o_id organization)\<rparr>)
       | None \<Rightarrow> t_create (at_users c) \<lparr>u_id = ''user_'' @ take 12 (at_uuid c 2), u_email = sgr_email request,
           u_passwordHash = sgr_passwordHash request, u_name = sgr_name request, u_role = ORGANIZATION,
           u_organizationId = Some (o_id organization), u_failedLoginAttempts = 0, u_lockedUntil = None,
           u_passwordChangedAt = at_now c, u_passwordChangeRequired = False, u_privacyConsentVersion = None,
           u_privacyConsentAcceptedAt = None, u_createdAt = at_now c\<rparr>) (\<lambda>user.
     t_update (at_signupRequests c) (\<lambda>r. sgr_id r = sgr_id request)
       (\<lambda>r. r\<lparr>sgr_status := SIGNUP_APPROVED, sgr_reviewedById := Some (usr_id (as_user session)),
              sgr_approvedUserId := Some (u_id user), sgr_reviewedAt := Some (at_now c)\<rparr>)))"

definition reviewSignupRequest :: "'d acct \<Rightarrow> auth_session \<Rightarrow> string \<Rightarrow> signup_review_input \<Rightarrow> ('d, signup_request) act" where
  "reviewSignupRequest c session requestId input =
     bindE (liftR (assertOperator session)) (\<lambda>_.
     bindE (liftR (parseReviewAction input)) (\<lambda>action.
     if \<not> databaseAvailable (at_env c) then throwE (ServiceUnavailable ''database required'')
     else bindE (runDatabase_any (t_find (at_signupRequests c) (\<lambda>r. sgr_id r = requestId))) (\<lambda>request. case request of
       None \<Rightarrow> throwE (ServiceUnavailable ''database required'')
     | Some None \<Rightarrow> throwE (NotFound ''sign-up request not found'')
     | Some (Some request) \<Rightarrow>
         if sgr_status request \<noteq> SIGNUP_PENDING then throwE (Conflict ''already reviewed'')
         else (case action of
           Some rejectionReason \<Rightarrow>
             bindE (runDatabase_any (t_update (at_signupRequests c) (\<lambda>r. sgr_id r = sgr_id request)
               (\<lambda>r. r\<lparr>sgr_status := SIGNUP_REJECTED, sgr_rejectionReason := Some rejectionReason,
                      sgr_reviewedById := Some (usr_id (as_user session)), sgr_reviewedAt := Some (at_now c)\<rparr>))) (\<lambda>rejected.
             case rejected of None \<Rightarrow> throwE (ServiceUnavailable ''rejection not saved'') | Some r \<Rightarrow> ret (toSignupRequest r))
         | None \<Rightarrow>
             bindE (runDatabase_any (t_find (at_users c) (\<lambda>u. u_email u = sgr_email request))) (\<lambda>existing. case existing of
               None \<Rightarrow> throwE (ServiceUnavailable ''database required'')
             | Some existingUser \<Rightarrow>
                 if sgr_passwordHash request = [] \<and> existingUser = None then throwE (NotFound ''applicant not found'')
                 else if existingUser \<noteq> None \<and> sgr_passwordHash request \<noteq> [] then throwE (Conflict ''email taken'')
                 else bindE (runDatabase_any (run_transaction (at_commit c) (approve_transaction c session request existingUser)))
                   (\<lambda>approved. case approved of None \<Rightarrow> throwE (ServiceUnavailable ''account not created'')
                     | Some r \<Rightarrow> ret (toSignupRequest r)))))))"

section \<open>Requests to join an organization\<close>

definition requestableRole :: "user_role \<Rightarrow> user_role res" where
  "requestableRole role = (if role = CANDIDATE \<or> role = PROCTOR \<or> role = ORGANIZATION then Inr role
     else Inl (BadRequest ''stored role invalid''))"

definition toAccessRequest :: "access_request_row \<Rightarrow> user_row \<Rightarrow> organization_row \<Rightarrow> access_request res" where
  "toAccessRequest r u org = bindR (requestableRole (arr_requestedRole r)) (\<lambda>role.
     Inr \<lparr>ar_id = arr_id r, ar_user = \<lparr>ur_id = u_id u, ur_name = u_name u, ur_email = u_email u\<rparr>,
          ar_organization = toOrganization org, ar_requestedRole = role, ar_reason = arr_reason r, ar_status = arr_status r,
          ar_rejectionReason = arr_rejectionReason r, ar_reviewedById = arr_reviewedById r, ar_createdAt = arr_createdAt r,
          ar_reviewedAt = arr_reviewedAt r\<rparr>)"

text \<open>\<open>include: { user: true, organization: true }\<close>; both are required relations, so a row without them
  is a failure of the query.\<close>

definition with_relations :: "'d acct \<Rightarrow> access_request_row \<Rightarrow> ('d, access_request_row \<times> user_row \<times> organization_row) act" where
  "with_relations c r =
     bindE (t_find (at_users c) (by_id (arr_userId r))) (\<lambda>u.
     bindE (t_find (at_orgs c) (\<lambda>x. o_id x = arr_organizationId r)) (\<lambda>org. case (u, org) of
       (Some u, Some org) \<Rightarrow> ret (r, u, org)
     | _ \<Rightarrow> throwE (OtherError ''missing relation'')))"

definition parseAccessRequestInput :: "access_request_input \<Rightarrow> access_request_input res" where
  "parseAccessRequestInput input =
     (let joinCode = toUpperCase (trim (ari_joinCode input)); reason = trim (ari_reason input);
          requestedRole = ari_requestedRole input
      in if joinCode = [] \<or> reason = [] then Inl (BadRequest ''code and reason required'')
         else if requestedRole \<noteq> CANDIDATE \<and> requestedRole \<noteq> PROCTOR \<and> requestedRole \<noteq> ORGANIZATION
         then Inl (BadRequest ''role invalid'')
         else Inr \<lparr>ari_joinCode = joinCode, ari_requestedRole = requestedRole, ari_reason = reason\<rparr>)"

definition assertRequestAllowed :: "auth_session \<Rightarrow> string \<Rightarrow> user_role \<Rightarrow> unit res" where
  "assertRequestAllowed session organizationId requestedRole =
     (if \<not> truthy (usr_organizationId (as_user session)) then
        (if requestedRole \<noteq> CANDIDATE then Inl (Forbidden ''unaffiliated: member role only'') else Inr ())
      else if usr_organizationId (as_user session) \<noteq> Some organizationId then Inl (Forbidden ''other organization'')
      else if requestedRole = CANDIDATE then Inl (BadRequest ''already a member'')
      else if session_role session = PROCTOR \<and> requestedRole = ORGANIZATION then Inr ()
      else if session_role session = CANDIDATE \<and> (requestedRole = PROCTOR \<or> requestedRole = ORGANIZATION) then Inr ()
      else Inl (Conflict ''request not needed''))"

definition createAccessRequest :: "'d acct \<Rightarrow> auth_session \<Rightarrow> access_request_input \<Rightarrow> ('d, access_request) act" where
  "createAccessRequest c session input =
     (if \<not> databaseAvailable (at_env c) then throwE (ServiceUnavailable ''database required'')
      else bindE (liftR (parseAccessRequestInput input)) (\<lambda>parsed.
      bindE (t_find (at_orgs c) (\<lambda>r. o_joinCode r = ari_joinCode parsed)) (\<lambda>organization. case organization of
        None \<Rightarrow> throwE (NotFound ''organization code not found'')
      | Some organization \<Rightarrow>
          bindE (liftR (assertRequestAllowed session (o_id organization) (ari_requestedRole parsed))) (\<lambda>_.
          bindE (t_find (at_accessRequests c)
             (\<lambda>r. arr_userId r = usr_id (as_user session) \<and> arr_status r = ACCESS_PENDING)) (\<lambda>pending.
          if pending \<noteq> None then throwE (Conflict ''request pending'')
          else bindE (t_create (at_accessRequests c) \<lparr>arr_id = ''org_request_'' @ take 12 (at_uuid c 0),
             arr_userId = usr_id (as_user session), arr_organizationId = o_id organization,
             arr_requestedRole = ari_requestedRole parsed, arr_reason = ari_reason parsed, arr_status = ACCESS_PENDING,
             arr_rejectionReason = None, arr_reviewedById = None, arr_createdAt = at_now c, arr_reviewedAt = None\<rparr>) (\<lambda>r.
          bindE (with_relations c r) (\<lambda>(r, u, org). liftR (toAccessRequest r u org))))))))"

definition assertCanReview :: "auth_session \<Rightarrow> unit res" where
  "assertCanReview session =
     guardR (\<not> (session_role session \<noteq> ADMIN \<and> session_role session \<noteq> ORGANIZATION)) (Forbidden ''organization managers only'')"

definition session_organizationId :: "auth_session \<Rightarrow> string res" where
  "session_organizationId session =
     (if \<not> truthy (usr_organizationId (as_user session)) then Inl (Forbidden ''organization required'')
      else Inr (the (usr_organizationId (as_user session))))"

fun access_rank :: "access_status \<Rightarrow> int" where
  "access_rank ACCESS_PENDING = 0"
| "access_rank ACCESS_APPROVED = 1"
| "access_rank ACCESS_REJECTED = 2"

fun mapE :: "('a \<Rightarrow> ('s, 'b) act) \<Rightarrow> 'a list \<Rightarrow> ('s, 'b list) act" where
  "mapE f [] = ret []"
| "mapE f (x # xs) = bindE (f x) (\<lambda>y. bindE (mapE f xs) (\<lambda>ys. ret (y # ys)))"

definition listAccessRequests :: "'d acct \<Rightarrow> auth_session \<Rightarrow> ('d, access_request list) act" where
  "listAccessRequests c session =
     bindE (liftR (assertCanReview session)) (\<lambda>_.
     if \<not> databaseAvailable (at_env c) then ret []
     else bindE (liftR (if session_role session = ADMIN then Inr None else bindR (session_organizationId session) (\<lambda>i. Inr (Some i)))) (\<lambda>scope.
     bindE (t_findMany (at_accessRequests c) (\<lambda>r. case scope of None \<Rightarrow> True | Some i \<Rightarrow> arr_organizationId r = i)) (\<lambda>requests.
     mapE (\<lambda>r. bindE (with_relations c r) (\<lambda>(r, u, org). liftR (toAccessRequest r u org)))
       (sort_key (\<lambda>r. access_rank (arr_status r)) (sort_newest arr_createdAt requests)))))"

definition parseAccessReview :: "access_review_input \<Rightarrow> string option res" where
  "parseAccessReview input =
     (if avi_action input = ''APPROVE'' then Inr None
      else if avi_action input = ''REJECT'' then
        (let reason = map_option trim (avi_rejectionReason input)
         in Inr (Some (if truthy reason then the reason else ''request rejected'')))
      else Inl (BadRequest ''review action invalid''))"

definition access_review_transaction ::
  "'d acct \<Rightarrow> auth_session \<Rightarrow> access_request_row \<Rightarrow> string option \<Rightarrow> ('d, access_request_row \<times> user_row \<times> organization_row) act"
where
  "access_review_transaction c session request action =
     bindE (if action = None then
              bindE (t_update (at_users c) (by_id (arr_userId request))
                (\<lambda>u. u\<lparr>u_organizationId := Some (arr_organizationId request), u_role := arr_requestedRole request\<rparr>)) (\<lambda>_. ret ())
            else ret ()) (\<lambda>_.
     bindE (t_update (at_accessRequests c) (\<lambda>r. arr_id r = arr_id request)
       (\<lambda>r. r\<lparr>arr_status := (if action = None then ACCESS_APPROVED else ACCESS_REJECTED), arr_rejectionReason := action,
              arr_reviewedById := Some (usr_id (as_user session)), arr_reviewedAt := Some (at_now c)\<rparr>)) (\<lambda>r.
     with_relations c r))"

definition reviewAccessRequest :: "'d acct \<Rightarrow> auth_session \<Rightarrow> string \<Rightarrow> access_review_input \<Rightarrow> ('d, access_request) act" where
  "reviewAccessRequest c session requestId input =
     bindE (liftR (assertCanReview session)) (\<lambda>_.
     if \<not> databaseAvailable (at_env c) then throwE (ServiceUnavailable ''database required'')
     else bindE (liftR (parseAccessReview input)) (\<lambda>action.
     bindE (t_find (at_accessRequests c) (\<lambda>r. arr_id r = requestId)) (\<lambda>request. case request of
       None \<Rightarrow> throwE (NotFound ''request not found'')
     | Some request \<Rightarrow>
         bindE (liftR (if session_role session \<noteq> ADMIN then
                  bindR (session_organizationId session) (\<lambda>i.
                    guardR (arr_organizationId request = i) (Forbidden ''own organization only''))
                else Inr ())) (\<lambda>_.
         if arr_status request \<noteq> ACCESS_PENDING then throwE (Conflict ''already reviewed'')
         else bindE (run_transaction (at_commit c) (access_review_transaction c session request action)) (\<lambda>(r, u, org).
         liftR (toAccessRequest r u org))))))"

section \<open>Invitations\<close>

definition invitableRole :: "user_role \<Rightarrow> user_role res" where
  "invitableRole role = (if role = ORGANIZATION \<or> role = PROCTOR then Inr role else Inl (BadRequest ''invitation role invalid''))"

definition toInvitation :: "invitation_row \<Rightarrow> organization_row \<Rightarrow> string \<Rightarrow> org_invitation res" where
  "toInvitation i org email = bindR (invitableRole (ivr_requestedRole i)) (\<lambda>role.
     Inr \<lparr>inv_id = ivr_id i, inv_token = ivr_token i, inv_organization = toOrganization org, inv_email = email,
          inv_requestedRole = role, inv_status = ivr_status i, inv_createdAt = ivr_createdAt i, inv_acceptedAt = ivr_acceptedAt i,
          inv_message = ''invitation registered''\<rparr>)"

definition invitation_organization :: "'d acct \<Rightarrow> invitation_row \<Rightarrow> ('d, organization_row) act" where
  "invitation_organization c i = bindE (t_find (at_orgs c) (\<lambda>r. o_id r = ivr_organizationId i)) (\<lambda>org. case org of
     None \<Rightarrow> throwE (OtherError ''missing relation'') | Some org \<Rightarrow> ret org)"

definition managedOrganizationId :: "'d acct \<Rightarrow> auth_session \<Rightarrow> ('d, string) act" where
  "managedOrganizationId c session =
     bindE (t_find (at_users c) (by_id (usr_id (as_user session)))) (\<lambda>manager. case manager of
       None \<Rightarrow> throwE (Forbidden ''organization managers only'')
     | Some m \<Rightarrow> if u_role m \<noteq> ORGANIZATION \<or> \<not> truthy (u_organizationId m) then throwE (Forbidden ''organization managers only'')
         else ret (the (u_organizationId m)))"

definition parseInvitationInput :: "invitation_input \<Rightarrow> (string \<times> user_role) res" where
  "parseInvitationInput input =
     (let email = toLowerCase (trim (ii_email input))
      in if \<not> has_text email ''@'' then Inl (BadRequest ''email required'')
         else if ii_requestedRole input \<noteq> ORGANIZATION \<and> ii_requestedRole input \<noteq> PROCTOR then Inl (BadRequest ''role not invitable'')
         else Inr (email, ii_requestedRole input))"

definition createInvitation :: "'d acct \<Rightarrow> auth_session \<Rightarrow> invitation_input \<Rightarrow> ('d, org_invitation) act" where
  "createInvitation c session input =
     bindE (managedOrganizationId c session) (\<lambda>organizationId.
     bindE (liftR (parseInvitationInput input)) (\<lambda>(email, role).
     bindE (t_find (at_users c) (\<lambda>u. u_email u = email)) (\<lambda>invitedUser. case invitedUser of
       None \<Rightarrow> throwE (NotFound ''account not found'')
     | Some invitedUser \<Rightarrow>
         if truthy (u_organizationId invitedUser) then throwE (Conflict ''already affiliated'')
         else bindE (t_find (at_invitations c) (\<lambda>i. ivr_organizationId i = organizationId \<and>
                ivr_invitedUserId i = u_id invitedUser \<and> ivr_status i = INVITATION_PENDING)) (\<lambda>pending.
         if pending \<noteq> None then throwE (Conflict ''invitation pending'')
         else bindE (t_create (at_invitations c) \<lparr>ivr_id = ''org_invite_'' @ take 12 (at_uuid c 0), ivr_token = at_uuid c 1,
                ivr_organizationId = organizationId, ivr_invitedUserId = u_id invitedUser, ivr_requestedRole = role,
                ivr_status = INVITATION_PENDING, ivr_invitedById = usr_id (as_user session), ivr_createdAt = at_now c,
                ivr_acceptedAt = None\<rparr>) (\<lambda>i.
         bindE (invitation_organization c i) (\<lambda>org. liftR (toInvitation i org (u_email invitedUser))))))))"

fun list_invitations :: "'d acct \<Rightarrow> invitation_row list \<Rightarrow> ('d, org_invitation list) act" where
  "list_invitations c [] = ret []"
| "list_invitations c (i # is) =
     bindE (t_find (at_users c) (by_id (ivr_invitedUserId i))) (\<lambda>invitedUser. case invitedUser of
       None \<Rightarrow> list_invitations c is
     | Some u \<Rightarrow>
         bindE (invitation_organization c i) (\<lambda>org.
         bindE (liftR (toInvitation i org (u_email u))) (\<lambda>x.
         bindE (list_invitations c is) (\<lambda>xs. ret (x # xs)))))"

definition listInvitations :: "'d acct \<Rightarrow> auth_session \<Rightarrow> ('d, org_invitation list) act" where
  "listInvitations c session =
     bindE (managedOrganizationId c session) (\<lambda>organizationId.
     bindE (t_findMany (at_invitations c) (\<lambda>i. ivr_organizationId i = organizationId)) (\<lambda>is.
     list_invitations c (sort_newest ivr_createdAt is)))"

definition listReceivedInvitations :: "'d acct \<Rightarrow> auth_session \<Rightarrow> ('d, org_invitation list) act" where
  "listReceivedInvitations c session =
     bindE (t_findMany (at_invitations c) (\<lambda>i. ivr_invitedUserId i = usr_id (as_user session) \<and> ivr_status i = INVITATION_PENDING)) (\<lambda>is.
     mapE (\<lambda>i. bindE (invitation_organization c i) (\<lambda>org. liftR (toInvitation i org (usr_email (as_user session)))))
       (sort_newest ivr_createdAt is))"

definition accept_transaction :: "'d acct \<Rightarrow> auth_session \<Rightarrow> invitation_row \<Rightarrow> ('d, invitation_row \<times> organization_row) act" where
  "accept_transaction c session invitation =
     bindE (t_updateMany (at_users c) (\<lambda>u. u_id u = usr_id (as_user session) \<and> u_organizationId u = None)
       (\<lambda>u. u\<lparr>u_organizationId := Some (ivr_organizationId invitation), u_role := ivr_requestedRole invitation\<rparr>)) (\<lambda>userCount.
     if userCount \<noteq> 1 then throwE (Conflict ''already affiliated'')
     else bindE (t_updateMany (at_invitations c)
       (\<lambda>i. ivr_id i = ivr_id invitation \<and> ivr_invitedUserId i = usr_id (as_user session) \<and> ivr_status i = INVITATION_PENDING)
       (\<lambda>i. i\<lparr>ivr_status := INVITATION_ACCEPTED, ivr_acceptedAt := Some (at_now c)\<rparr>)) (\<lambda>invitationCount.
     if invitationCount \<noteq> 1 then throwE (Conflict ''invitation already handled'')
     else bindE (t_find (at_invitations c) (\<lambda>i. ivr_id i = ivr_id invitation)) (\<lambda>updated. case updated of
       None \<Rightarrow> throwE (NotFound ''invitation not found'')
     | Some i \<Rightarrow> bindE (invitation_organization c i) (\<lambda>org. ret (i, org)))))"

definition acceptInvitation :: "'d acct \<Rightarrow> auth_session \<Rightarrow> accept_invitation_input \<Rightarrow> ('d, org_invitation) act" where
  "acceptInvitation c session input =
     bindE (t_find (at_invitations c) (\<lambda>i. ivr_id i = aii_invitationId input)) (\<lambda>invitation. case invitation of
       None \<Rightarrow> throwE (NotFound ''invitation not found'')
     | Some invitation \<Rightarrow>
         if ivr_invitedUserId invitation \<noteq> usr_id (as_user session) then throwE (Forbidden ''not the invitee'')
         else if ivr_status invitation \<noteq> INVITATION_PENDING then throwE (Conflict ''invitation already handled'')
         else bindE (run_transaction (at_commit c) (accept_transaction c session invitation)) (\<lambda>(i, org).
         liftR (toInvitation i org (usr_email (as_user session)))))"

section \<open>The controller\<close>

text \<open>Every route first asks \<open>AuthService.me\<close> for the session of the bearer token.\<close>

definition with_session ::
  "'d auth_ctx \<Rightarrow> string option \<Rightarrow> (auth_session \<Rightarrow> ('d auth_state, 'a) act) \<Rightarrow> ('d auth_state, 'a) act"
where
  "with_session a authorization handler = bindE (me a (extractBearerToken authorization)) handler"

definition controller_update_user ::
  "'d auth_ctx \<Rightarrow> 'd acct \<Rightarrow> string option \<Rightarrow> string \<Rightarrow> update_user_input \<Rightarrow> ('d auth_state, user) act"
where
  "controller_update_user a c authorization userId body = with_session a authorization (\<lambda>session.
     bindE (on_db (updateManagedUser c session userId body)) (\<lambda>user.
     bindE (revokeUserSessions userId) (\<lambda>_. ret user)))"

definition controller_delete_user ::
  "'d auth_ctx \<Rightarrow> 'd acct \<Rightarrow> string option \<Rightarrow> string \<Rightarrow> ('d auth_state, string) act"
where
  "controller_delete_user a c authorization userId = with_session a authorization (\<lambda>session.
     bindE (on_db (deleteManagedUser c session userId)) (\<lambda>deleted.
     bindE (revokeUserSessions userId) (\<lambda>_. ret deleted)))"

definition controller_review_signup ::
  "'d auth_ctx \<Rightarrow> 'd acct \<Rightarrow> string option \<Rightarrow> string \<Rightarrow> signup_review_input \<Rightarrow> ('d auth_state, signup_request) act"
where
  "controller_review_signup a c authorization requestId body = with_session a authorization (\<lambda>session.
     bindE (on_db (reviewSignupRequest c session requestId body)) (\<lambda>request.
     if sr_status request = SIGNUP_APPROVED \<and> truthy (sr_approvedUserId request)
     then bindE (revokeUserSessions (the (sr_approvedUserId request))) (\<lambda>_. ret request)
     else ret request))"

definition controller_accept_invitation ::
  "'d auth_ctx \<Rightarrow> 'd acct \<Rightarrow> string option \<Rightarrow> accept_invitation_input \<Rightarrow> ('d auth_state, org_invitation) act"
where
  "controller_accept_invitation a c authorization body = with_session a authorization (\<lambda>session.
     bindE (on_db (acceptInvitation c session body)) (\<lambda>invitation.
     bindE (refreshSession a (extractBearerToken authorization)) (\<lambda>_. ret invitation)))"

definition controller_review_access ::
  "'d auth_ctx \<Rightarrow> 'd acct \<Rightarrow> string option \<Rightarrow> string \<Rightarrow> access_review_input \<Rightarrow> ('d auth_state, access_request) act"
where
  "controller_review_access a c authorization requestId body = with_session a authorization (\<lambda>session.
     bindE (on_db (reviewAccessRequest c session requestId body)) (\<lambda>request.
     if ar_status request = ACCESS_APPROVED
     then bindE (revokeUserSessions (ur_id (ar_user request))) (\<lambda>_. ret request)
     else ret request))"

text \<open>The routes that only pass the session on.\<close>

definition controller_read ::
  "'d auth_ctx \<Rightarrow> string option \<Rightarrow> (auth_session \<Rightarrow> ('d, 'a) act) \<Rightarrow> ('d auth_state, 'a) act"
where
  "controller_read a authorization service = with_session a authorization (\<lambda>session. on_db (service session))"

section \<open>What account administration promises\<close>

lemma runDatabase_Inr:
  "runDatabase m d = (Inr x, d') \<longleftrightarrow> (\<exists>y. x = Some y \<and> m d = (Inr y, d')) \<or> (\<exists>e. x = None \<and> m d = (Inl e, d') \<and> is_error e \<and> \<not> is_http_exception e)"
  by (auto simp: runDatabase_def catchE_def bindE_def ret_def throwE_def split: prod.splits sum.splits if_splits)

lemma runDatabase_Inl: "runDatabase m d = (Inl e, d') \<Longrightarrow> m d = (Inl e, d')"
  by (auto simp: runDatabase_def catchE_def bindE_def ret_def throwE_def split: prod.splits sum.splits if_splits)

lemma delete_transaction_Inr:
  assumes T: "prisma_table (at_users c) rows" and I: "framed_table (at_invitations c) irows rows"
    and ok: "delete_transaction c session userId d = (Inr deleted, d')"
  shows "rows d' = filter (\<lambda>u. u_id u \<noteq> userId) (rows d) \<and> u_id deleted = userId \<and>
    (\<exists>actor \<in> set (rows d'). u_role actor = ADMIN \<and> u_id actor = usr_id (as_user session))"
proof -
  have find: "t_find (at_users c) q s = (Inr x, t) \<Longrightarrow> t = s \<and> x = List.find q (rows s)" for q s x t
    using prisma_table.find_law [OF T] by blast
  have count: "t_count (at_users c) q s = (Inr x, t) \<Longrightarrow> t = s" for q s x t
    using prisma_table.count_law [OF T] by blast
  have invs: "t_deleteMany (at_invitations c) q s = (Inr x, t) \<Longrightarrow> rows t = rows s" for q s x t
    using framed_table.deleteMany_frame [OF I, of q s] by simp
  from ok obtain actor d1 where "t_find (at_users c) (by_id (usr_id (as_user session))) d = (Inr (Some actor), d1)"
    and admin: "u_role actor = ADMIN" "u_id actor \<noteq> userId"
    by (auto simp: delete_transaction_def act_Inr split: if_splits)
  then have actor: "List.find (by_id (usr_id (as_user session))) (rows d) = Some actor" and d1: "d1 = d"
    using find by auto
  from ok obtain q d2 n d3 where "t_deleteMany (at_invitations c) q d2 = (Inr n, d3)" and "rows d2 = rows d"
    and del: "t_delete (at_users c) (by_id userId) d3 = (Inr deleted, d')"
    by (auto simp: delete_transaction_def act_Inr split: if_splits option.splits dest!: find count)
  then have "rows d3 = rows d" using invs by metis
  with prisma_table.delete_law [OF T del] have "rows d' = filter (\<lambda>u. u_id u \<noteq> userId) (rows d)"
    and "List.find (by_id userId) (rows d) = Some deleted"
    by (auto simp: by_id_def)
  then show ?thesis
    using find_SomeD [OF actor] find_SomeD [of "by_id userId" "rows d" deleted] admin by (auto simp: by_id_def)
qed

text \<open>C33. Deleting an account removes exactly the row it names, on the order of an administrator who
  keeps an own row: there is an administrator after every deletion. A refused or failed deletion
  changes nothing.\<close>

theorem deletion_leaves_an_administrator:
  assumes T: "prisma_table (at_users c) rows" and I: "framed_table (at_invitations c) irows rows"
    and run: "deleteManagedUser c session userId d = (r, d')"
  shows "(\<forall>i. r = Inr i \<longrightarrow> i = userId \<and> rows d' = filter (\<lambda>u. u_id u \<noteq> userId) (rows d) \<and>
      (\<exists>actor \<in> set (rows d'). u_role actor = ADMIN \<and> u_id actor = usr_id (as_user session))) \<and>
    (\<forall>e. r = Inl e \<longrightarrow> d' = d)"
proof (cases r)
  case (Inr i)
  with run obtain deleted where "delete_transaction c session userId d = (Inr deleted, d')" "i = u_id deleted"
    by (auto simp: deleteManagedUser_def act_Inr runDatabase_Inr run_transaction_Inr split: if_splits option.splits)
  from delete_transaction_Inr [OF T I this(1)] this(2) Inr show ?thesis by blast
next
  case (Inl e)
  have tx: "t = d" if "run_transaction (at_commit c) (delete_transaction c session userId) d = (Inl x, t)" for x t
    using that by (rule run_transaction_Inl)
  from run Inl have "d' = d"
    by (auto simp: deleteManagedUser_def bindE_def throwE_def ret_def runDatabase_Inr split: prod.splits sum.splits option.splits if_splits
        dest: runDatabase_Inl tx)
  with Inl show ?thesis by simp
qed

lemma update_user_email_distinct:
  assumes "users_wf us" and "u \<in> set us" and "u_id u = i"
    and new: "case List.find (\<lambda>v. u_email v = email) us of None \<Rightarrow> True | Some v \<Rightarrow> u_id v = i"
    and f: "\<And>v. u_id (f v) = u_id v" "\<And>v. u_email (f v) = email"
  shows "users_wf (replace_where (\<lambda>v. u_id v = i) f us)"
proof -
  have taken: "u_email v \<noteq> email" if "v \<in> set us" "u_id v \<noteq> i" for v
  proof
    assume v: "u_email v = email"
    with that have "List.find (\<lambda>v. u_email v = email) us \<noteq> None" by (auto simp: find_None_iff)
    then obtain w where w: "List.find (\<lambda>v. u_email v = email) us = Some w" by blast
    with new have "u_id w = i" by simp
    moreover have "w \<in> set us" "u_email w = email" using find_SomeD [OF w] by simp_all
    ultimately show False
      using assms(1) that v by (auto simp: users_wf_def distinct_map dest: inj_onD)
  qed
  have "inj_on u_email (set us)" "distinct us" using assms(1) by (simp_all add: users_wf_def distinct_map)
  have ids: "map u_id (replace_where (\<lambda>v. u_id v = i) f us) = map u_id us"
    by (simp add: map_replace_where_keys f(1))
  have dist: "distinct (replace_where (\<lambda>v. u_id v = i) f us)"
    using assms(1) ids by (metis distinct_map users_wf_def)
  have "inj_on u_email (set (replace_where (\<lambda>v. u_id v = i) f us))"
  proof (rule inj_onI)
    fix x y
    assume x: "x \<in> set (replace_where (\<lambda>v. u_id v = i) f us)" and y: "y \<in> set (replace_where (\<lambda>v. u_id v = i) f us)"
      and xy: "u_email x = u_email y"
    have row: "u_id w = i \<and> u_email w = email \<or> u_id w \<noteq> i \<and> w \<in> set us"
      if "w \<in> set (replace_where (\<lambda>v. u_id v = i) f us)" for w
      using that f by (auto simp: set_replace_where)
    have "u_id x = u_id y"
    proof (cases "u_id x = i")
      case True
      then show ?thesis using row [OF x] row [OF y] xy taken [of y] by auto
    next
      case False
      then have "x \<in> set us" "u_email x \<noteq> email" using row [OF x] taken [of x] by auto
      then have "y \<in> set us" using row [OF y] xy by auto
      then show ?thesis using \<open>x \<in> set us\<close> xy \<open>inj_on u_email (set us)\<close> by (auto dest: inj_onD)
    qed
    moreover have "inj_on u_id (set (replace_where (\<lambda>v. u_id v = i) f us))"
      using assms(1) ids by (metis distinct_map users_wf_def)
    ultimately show "x = y" using x y by (auto dest: inj_onD)
  qed
  with dist ids assms(1) show ?thesis by (simp add: users_wf_def distinct_map)
qed

text \<open>An organization manager changes only accounts of the own organization that are not
  administrators, can give them only the two organization roles, and cannot move them elsewhere; the
  other accounts stay as they are, and e-mail addresses stay unique.\<close>

theorem manager_updates_stay_in_the_organization:
  assumes T: "prisma_table (at_users c) rows" and role: "session_role session \<noteq> ADMIN" and wf: "users_wf (rows d)"
    and ok: "updateManagedUser c session userId input d = (Inr user, d')"
  shows "session_role session = ORGANIZATION \<and>
    (\<exists>target. List.find (by_id userId) (rows d) = Some target \<and> u_role target \<noteq> ADMIN \<and>
       u_organizationId target = Some (org_id (as_organization session))) \<and>
    usr_role user \<in> {ORGANIZATION, PROCTOR} \<and> usr_organizationId user = Some (org_id (as_organization session)) \<and>
    filter (\<lambda>u. u_id u \<noteq> userId) (rows d') = filter (\<lambda>u. u_id u \<noteq> userId) (rows d) \<and> users_wf (rows d')"
proof -
  have find: "t_find (at_users c) q s = (Inr x, t) \<Longrightarrow> t = s \<and> x = List.find q (rows s)" for q s x t
    using prisma_table.find_law [OF T] by blast
  from ok obtain target parsed d1 where f: "t_find (at_users c) (by_id userId) d = (Inr (Some target), d1)"
    and p: "parseUpdateUserInput session input = Inr parsed"
    by (auto simp: updateManagedUser_def act_Inr runDatabase_Inr split: if_splits option.splits)
  have t: "List.find (by_id userId) (rows d) = Some target" "d1 = d" using find [OF f] by auto
  let ?f = "\<lambda>u. u\<lparr>u_name := uu_name parsed, u_email := uu_email parsed, u_role := uu_role parsed,
      u_organizationId := uu_organizationId parsed\<rparr>"
  from ok f p t(2) obtain row where scope: "u_organizationId target = Some (org_id (as_organization session))"
    "u_role target \<noteq> ADMIN"
    and ex: "List.find (\<lambda>u. u_email u = uu_email parsed) (rows d) = None \<or>
      u_id (the (List.find (\<lambda>u. u_email u = uu_email parsed) (rows d))) = userId"
    and up: "t_update (at_users c) (by_id userId) ?f d = (Inr row, d')" and user: "user = toUser row"
    using role
    by (auto simp: updateManagedUser_def act_Inr runDatabase_Inr split: if_splits option.splits dest!: find)
  have p': "session_role session = ORGANIZATION \<and> uu_role parsed \<in> {ORGANIZATION, PROCTOR} \<and>
      uu_organizationId parsed = Some (org_id (as_organization session))"
    using p role by (auto simp: parseUpdateUserInput_def parseEditableRole_def bindR_eq_Inr Let_def split: if_splits)
  have upd: "\<exists>r. row = ?f r" "rows d' = replace_where (by_id userId) ?f (rows d)"
    using prisma_table.update_law [OF T up] by blast+
  have "u_id target = userId" "target \<in> set (rows d)" using find_SomeD [OF t(1)] by (auto simp: by_id_def)
  have "users_wf (replace_where (\<lambda>v. u_id v = userId) ?f (rows d))"
  proof (rule update_user_email_distinct [OF wf \<open>target \<in> _\<close> \<open>u_id target = _\<close>])
    show "case List.find (\<lambda>v. u_email v = uu_email parsed) (rows d) of None \<Rightarrow> True | Some v \<Rightarrow> u_id v = userId"
      using ex by (auto split: option.split)
  qed simp_all
  moreover have "filter (\<lambda>u. u_id u \<noteq> userId) (replace_where (by_id userId) ?f (rows d)) = filter (\<lambda>u. u_id u \<noteq> userId) (rows d)"
    by (rule filter_replace_where_other) (simp add: by_id_def)
  ultimately show ?thesis
    using p' scope t(1) upd by (auto simp: user toUser_def by_id_def)
qed

lemma find_replace_first:
  assumes "List.find q xs = Some x" and "p x" and "\<And>y. p y \<Longrightarrow> q y" and "\<And>y. q (f y) = q y"
  shows "List.find q (replace_where p f xs) = Some (f x)"
  using assms(1,2,3,4) by (induction xs) (auto simp: replace_where_def split: if_splits)

lemma accept_transaction_Inr:
  assumes T: "framed_table (at_users c) rows irows" and I: "framed_table (at_invitations c) irows rows"
    and O: "prisma_table (at_orgs c) orows"
    and inv: "List.find (\<lambda>i. ivr_id i = ivr_id invitation) (irows d) = Some invitation"
    and own: "ivr_invitedUserId invitation = usr_id (as_user session)" "ivr_status invitation = INVITATION_PENDING"
    and ok: "accept_transaction c session invitation d = (Inr (i, org), d')"
  shows "count_rows (\<lambda>u. u_id u = usr_id (as_user session) \<and> u_organizationId u = None) (rows d) = 1 \<and>
    rows d' = replace_where (\<lambda>u. u_id u = usr_id (as_user session) \<and> u_organizationId u = None)
       (\<lambda>u. u\<lparr>u_organizationId := Some (ivr_organizationId invitation), u_role := ivr_requestedRole invitation\<rparr>) (rows d) \<and>
    List.find (\<lambda>i. ivr_id i = ivr_id invitation) (irows d') =
      Some (invitation\<lparr>ivr_status := INVITATION_ACCEPTED, ivr_acceptedAt := Some (at_now c)\<rparr>)"
proof -
  let ?p = "\<lambda>u. u_id u = usr_id (as_user session) \<and> u_organizationId u = None"
  let ?f = "\<lambda>u. u\<lparr>u_organizationId := Some (ivr_organizationId invitation), u_role := ivr_requestedRole invitation\<rparr>"
  let ?q = "\<lambda>i. ivr_id i = ivr_id invitation \<and> ivr_invitedUserId i = usr_id (as_user session) \<and> ivr_status i = INVITATION_PENDING"
  let ?g = "\<lambda>i. i\<lparr>ivr_status := INVITATION_ACCEPTED, ivr_acceptedAt := Some (at_now c)\<rparr>"
  note T' = framed_table.axioms(1) [OF T] and I' = framed_table.axioms(1) [OF I]
  from ok obtain d1 d2 where u: "t_updateMany (at_users c) ?p ?f d = (Inr 1, d1)"
    and v: "t_updateMany (at_invitations c) ?q ?g d1 = (Inr 1, d2)" and d2: "d' = d2"
    by (auto simp: accept_transaction_def invitation_organization_def act_Inr split: if_splits option.splits
        dest!: prisma_table.find_law [OF I'] prisma_table.find_law [OF O])
  have "irows d1 = irows d" using framed_table.updateMany_frame [OF T, of ?p ?f d] u by simp
  moreover have "rows d2 = rows d1" using framed_table.updateMany_frame [OF I, of ?q ?g d1] v by simp
  moreover have "rows d1 = replace_where ?p ?f (rows d)" "count_rows ?p (rows d) = 1"
    using prisma_table.updateMany_law [OF T' u] by auto
  moreover have "irows d2 = replace_where ?q ?g (irows d1)"
    using prisma_table.updateMany_law [OF I' v] by auto
  moreover have "List.find (\<lambda>i. ivr_id i = ivr_id invitation) (replace_where ?q ?g (irows d)) = Some (?g invitation)"
    by (rule find_replace_first [OF inv]) (use own in auto)
  ultimately show ?thesis by (simp add: d2)
qed

text \<open>C37. An invitation is accepted only by its invitee, while it is pending and the invitee belongs
  to no organization; the invitee joins with the offered role, and the invitation can never be
  accepted again, by anyone.\<close>

theorem invitation_is_accepted_once:
  assumes T: "framed_table (at_users c) rows irows" and I: "framed_table (at_invitations c) irows rows"
    and O: "prisma_table (at_orgs c) orows"
    and ok: "acceptInvitation c session input d = (Inr result, d')"
    and later: "at_invitations c' = at_invitations c" "aii_invitationId input' = aii_invitationId input"
  shows "\<exists>i. List.find (\<lambda>i. ivr_id i = aii_invitationId input) (irows d) = Some i \<and>
    ivr_invitedUserId i = usr_id (as_user session) \<and> ivr_status i = INVITATION_PENDING \<and>
    count_rows (\<lambda>u. u_id u = usr_id (as_user session) \<and> u_organizationId u = None) (rows d) = 1 \<and>
    rows d' = replace_where (\<lambda>u. u_id u = usr_id (as_user session) \<and> u_organizationId u = None)
       (\<lambda>u. u\<lparr>u_organizationId := Some (ivr_organizationId i), u_role := ivr_requestedRole i\<rparr>) (rows d) \<and>
    (\<forall>x. fst (acceptInvitation c' session' input' d') \<noteq> Inr x)"
proof -
  note I' = framed_table.axioms(1) [OF I]
  from ok obtain i d1 x where f: "t_find (at_invitations c) (\<lambda>i. ivr_id i = aii_invitationId input) d = (Inr (Some i), d1)"
    and own: "ivr_invitedUserId i = usr_id (as_user session)" "ivr_status i = INVITATION_PENDING"
    and tx: "accept_transaction c session i d1 = (Inr x, d')"
    by (auto simp: acceptInvitation_def act_Inr run_transaction_Inr split: option.splits if_splits)
  have i: "List.find (\<lambda>i. ivr_id i = aii_invitationId input) (irows d) = Some i" "d1 = d"
    using prisma_table.find_law [OF I' f] by auto
  have id: "ivr_id i = aii_invitationId input" using find_SomeD [OF i(1)] by simp
  obtain j org where x: "x = (j, org)" by (cases x)
  have eff: "count_rows (\<lambda>u. u_id u = usr_id (as_user session) \<and> u_organizationId u = None) (rows d) = 1 \<and>
      rows d' = replace_where (\<lambda>u. u_id u = usr_id (as_user session) \<and> u_organizationId u = None)
       (\<lambda>u. u\<lparr>u_organizationId := Some (ivr_organizationId i), u_role := ivr_requestedRole i\<rparr>) (rows d) \<and>
      List.find (\<lambda>v. ivr_id v = ivr_id i) (irows d') = Some (i\<lparr>ivr_status := INVITATION_ACCEPTED, ivr_acceptedAt := Some (at_now c)\<rparr>)"
    by (rule accept_transaction_Inr [OF T I O _ own]) (use i id tx x in simp_all)
  have "fst (acceptInvitation c' session' input' d') \<noteq> Inr y" for y
  proof (cases rule: prisma_table.find_cases [OF I', of "\<lambda>v. ivr_id v = ivr_id i" d'])
    case (1 e)
    then show ?thesis by (simp add: acceptInvitation_def later id [symmetric] bindE_def)
  next
    case 2
    then show ?thesis
      using eff by (simp add: acceptInvitation_def later id [symmetric] bindE_def throwE_def)
  qed
  with eff i own show ?thesis by auto
qed

section \<open>Witnesses\<close>

interpretation users_invitations: framed_table users_table db_users db_invitations
  by (rule list_table_framed) simp_all

definition sample_acct :: "database acct" where
  "sample_acct = \<lparr>at_env = auth_env, at_users = users_table, at_orgs = organizations_table, at_invitations = invitations_table,
     at_accessRequests = accessRequests_table, at_signupRequests = signupRequests_table, at_by_name = id, at_now = 5000,
     at_uuid = (\<lambda>n. replicate (Suc n) CHR ''0''), at_hash = (\<lambda>p. Inr p), at_commit = None\<rparr>"

definition manager_session :: "user_role \<Rightarrow> auth_session" where
  "manager_session role = \<lparr>as_token = ''t'', as_user = \<lparr>usr_id = ''u1'', usr_email = ''m@b.c'', usr_name = ''M'', usr_role = role,
     usr_organizationId = Some ''org_a'', usr_createdAt = 0\<rparr>,
     as_organization = \<lparr>org_id = ''org_a'', org_name = ''A'', org_joinCode = None, org_createdAt = 0\<rparr>,
     as_passwordChangeRequired = None\<rparr>"

definition account :: "string \<Rightarrow> string \<Rightarrow> user_role \<Rightarrow> string option \<Rightarrow> user_row" where
  "account i email role organizationId = sample_user\<lparr>u_id := i, u_email := email, u_role := role, u_organizationId := organizationId\<rparr>"

definition accounts_db :: "user_role \<Rightarrow> database" where
  "accounts_db role = \<lparr>db_users = [account ''u1'' ''m@b.c'' role (Some ''org_a''), account ''u2'' ''p@b.c'' PROCTOR (Some ''org_a''),
       account ''u3'' ''n@b.c'' CANDIDATE None],
     db_organizations = [\<lparr>o_id = ''org_a'', o_name = ''A'', o_joinCode = ''ORG-1'', o_createdAt = 0\<rparr>],
     db_invitations = [\<lparr>ivr_id = ''i1'', ivr_token = ''k'', ivr_organizationId = ''org_a'', ivr_invitedUserId = ''u3'',
       ivr_requestedRole = PROCTOR, ivr_status = INVITATION_PENDING, ivr_invitedById = ''u1'', ivr_createdAt = 0, ivr_acceptedAt = None\<rparr>],
     db_accessRequests = [], db_signupRequests = []\<rparr>"

lemma account_simps [simp]:
  "u_id (account i e r x) = i" "u_email (account i e r x) = e" "u_role (account i e r x) = r" "u_organizationId (account i e r x) = x"
  by (simp_all add: account_def)

lemma sample_acct_simps [simp]:
  "at_env sample_acct = auth_env" "at_users sample_acct = users_table" "at_orgs sample_acct = organizations_table"
  "at_invitations sample_acct = invitations_table" "at_commit sample_acct = None"
  by (simp_all add: sample_acct_def)

lemma deletion_leaves_an_administrator_witness:
  "\<exists>actor \<in> set (db_users (snd (deleteManagedUser sample_acct (manager_session ADMIN) ''u2'' (accounts_db ADMIN)))). u_role actor = ADMIN"
proof -
  have "fst (deleteManagedUser sample_acct (manager_session ADMIN) ''u2'' (accounts_db ADMIN)) = Inr ''u2''"
    by (simp add: deleteManagedUser_def delete_transaction_def runDatabase_def run_transaction_def transaction_def catchE_def bindE_def
        ret_def list_table_def by_id_def manager_session_def accounts_db_def)
  with deletion_leaves_an_administrator [of sample_acct db_users db_invitations "manager_session ADMIN" "''u2''" "accounts_db ADMIN"
      "Inr ''u2''" "snd (deleteManagedUser sample_acct (manager_session ADMIN) ''u2'' (accounts_db ADMIN))"]
  show ?thesis
    by (auto simp: users.prisma_table_axioms invitations_users.framed_table_axioms prod_eq_iff)
qed

definition sample_update :: update_user_input where
  "sample_update = \<lparr>uu_name = ''P'', uu_email = ''p2@b.c'', uu_role = ORGANIZATION, uu_organizationId = None\<rparr>"

lemma manager_updates_stay_in_the_organization_witness:
  "\<exists>user d'. updateManagedUser sample_acct (manager_session ORGANIZATION) ''u2'' sample_update (accounts_db ORGANIZATION) = (Inr user, d') \<and>
     usr_organizationId user = Some ''org_a''"
proof -
  have "\<exists>user d'. updateManagedUser sample_acct (manager_session ORGANIZATION) ''u2'' sample_update (accounts_db ORGANIZATION) = (Inr user, d')"
    by (simp add: updateManagedUser_def runDatabase_def catchE_def bindE_def ret_def list_table_def by_id_def manager_session_def
        accounts_db_def sample_update_def parseUpdateUserInput_def parseEditableRole_def session_role_def liftR_def
        toLowerCase_def lower_char_def trim_def trimStart_def trimEnd_def js_space_def startsWith_def)
  then obtain user d' where ok: "updateManagedUser sample_acct (manager_session ORGANIZATION) ''u2'' sample_update (accounts_db ORGANIZATION) = (Inr user, d')"
    by blast
  from manager_updates_stay_in_the_organization [OF _ _ _ ok, of db_users] ok show ?thesis
    by (auto simp: users.prisma_table_axioms users_wf_def accounts_db_def manager_session_def session_role_def)
qed

definition invitee_session :: auth_session where
  "invitee_session = (manager_session CANDIDATE)\<lparr>as_user := \<lparr>usr_id = ''u3'', usr_email = ''n@b.c'', usr_name = ''N'', usr_role = CANDIDATE,
     usr_organizationId = None, usr_createdAt = 0\<rparr>\<rparr>"

lemma invitation_is_accepted_once_witness:
  "\<exists>result d'. acceptInvitation sample_acct invitee_session \<lparr>aii_invitationId = ''i1''\<rparr> (accounts_db ADMIN) = (Inr result, d') \<and>
     (\<forall>x. fst (acceptInvitation sample_acct invitee_session \<lparr>aii_invitationId = ''i1''\<rparr> d') \<noteq> Inr x)"
proof -
  have "\<exists>result d'. acceptInvitation sample_acct invitee_session \<lparr>aii_invitationId = ''i1''\<rparr> (accounts_db ADMIN) = (Inr result, d')"
    by (simp add: acceptInvitation_def accept_transaction_def invitation_organization_def run_transaction_def transaction_def bindE_def
        ret_def liftR_def list_table_def invitee_session_def manager_session_def accounts_db_def count_rows_def replace_where_def
        toInvitation_def invitableRole_def)
  then obtain result d' where ok: "acceptInvitation sample_acct invitee_session \<lparr>aii_invitationId = ''i1''\<rparr> (accounts_db ADMIN) = (Inr result, d')"
    by blast
  from invitation_is_accepted_once [OF _ _ _ ok refl refl, of db_users db_invitations db_organizations invitee_session] ok
  show ?thesis
    by (auto simp: users_invitations.framed_table_axioms invitations_users.framed_table_axioms organizations.prisma_table_axioms)
qed

end
