(* ===== verification/CodeRunner.thy ===== *)
theory CodeRunner
  imports Contracts FixedWindow JsText
begin

text \<open>
  The code runner (\<open>code-runner.service.ts\<close>): the judge over the test cases of a question, the
  limit of six runs a minute per candidate, and the admission of at most two runs at a time, one per
  candidate, with a bounded queue. Docker is a parameter: \<open>run\<close> is what a container did with the
  program and an input.
\<close>

section \<open>Constants and results\<close>

definition DOCKER_TIMEOUT_MS :: int where "DOCKER_TIMEOUT_MS = 8000"
definition MAX_CODE_LENGTH :: nat where "MAX_CODE_LENGTH = 100000"
definition MAX_TEST_CASES :: nat where "MAX_TEST_CASES = 50"
definition MAX_CONCURRENT_RUNS :: nat where "MAX_CONCURRENT_RUNS = 2"
definition MAX_QUEUED_RUNS :: nat where "MAX_QUEUED_RUNS = 8"
definition MAX_RUNS_PER_CANDIDATE_PER_MINUTE :: nat where "MAX_RUNS_PER_CANDIDATE_PER_MINUTE = 6"
definition MAX_JUDGE_DURATION_MS :: int where "MAX_JUDGE_DURATION_MS = 30000"

record runner_test_result =
  rt_testIndex :: nat
  rt_input :: string
  rt_expectedOutput :: string
  rt_actualOutput :: string
  rt_passed :: bool
  rt_error :: "string option"
  rt_executionTimeMs :: int
  rt_isPublic :: bool

record runner_result =
  rr_status :: execution_status
  rr_output :: string
  rr_error :: "string option"
  rr_executionTimeMs :: int
  rr_memoryUsageMb :: int
  rr_passedTests :: nat
  rr_totalTests :: nat
  rr_testResults :: "runner_test_result list"

record single_result =
  sg_passed :: bool
  sg_actualOutput :: string
  sg_error :: "string option"
  sg_executionTimeMs :: int

section \<open>One container\<close>

fun unix_newlines :: "string \<Rightarrow> string" where
  "unix_newlines (c # d # s) =
     (if cu c = 13 \<and> cu d = 10 then d # unix_newlines s else c # unix_newlines (d # s))"
| "unix_newlines s = s"

definition normalizeOutput :: "string \<Rightarrow> string" where
  "normalizeOutput value = trim (unix_newlines value)"

definition quoted :: "string \<Rightarrow> string" where
  "quoted s = CHR 0x27 # s @ [CHR 0x27]"

datatype language = JAVASCRIPT | PYTHON

record container =
  ct_language :: language
  ct_code :: string
  ct_input :: string
  ct_timeoutMs :: int

text \<open>
  What \<open>docker run\<close> did: the exit with its standard output and error, or a failure with its message
  (a non-zero exit, the timeout, an output over the limit); and the milliseconds it took.
\<close>

type_synonym docker = "container \<Rightarrow> (string + string \<times> string) \<times> int"

definition runInDocker :: "docker \<Rightarrow> container \<Rightarrow> string \<Rightarrow> single_result" where
  "runInDocker docker options expected = (case docker options of
       (Inr (stdout, stderr), ms) \<Rightarrow>
         let actualOutput = normalizeOutput stdout; expectedOutput = normalizeOutput expected
         in \<lparr>sg_passed = (actualOutput = expectedOutput), sg_actualOutput = actualOutput,
             sg_error = (if actualOutput = expectedOutput then None
               else Some (''Expected '' @ quoted expectedOutput @ '', received '' @ quoted actualOutput @ ''.'' @
                 (if stderr \<noteq> [] then '' Stderr: '' @ stderr else []))),
             sg_executionTimeMs = ms\<rparr>
     | (Inl message, ms) \<Rightarrow> \<lparr>sg_passed = False, sg_actualOutput = [], sg_error = Some message, sg_executionTimeMs = ms\<rparr>)"

definition run_case :: "docker \<Rightarrow> language \<Rightarrow> string \<Rightarrow> test_case \<Rightarrow> int \<Rightarrow> single_result" where
  "run_case docker lang code testCase remainingMs =
     runInDocker docker \<lparr>ct_language = lang, ct_code = code, ct_input = tc_input testCase,
       ct_timeoutMs = max 1 (min DOCKER_TIMEOUT_MS remainingMs)\<rparr> (tc_expectedOutput testCase)"

section \<open>The judge\<close>

definition language_of :: "string \<Rightarrow> language option" where
  "language_of normalized =
     (if normalized = ''javascript'' \<or> normalized = ''js'' then Some JAVASCRIPT
      else if normalized = ''python'' \<or> normalized = ''py'' then Some PYTHON else None)"

definition failed :: "string \<Rightarrow> test_case list \<Rightarrow> runner_result" where
  "failed message testCases = \<lparr>rr_status = EXEC_FAILED, rr_output = [], rr_error = Some message, rr_executionTimeMs = 0,
     rr_memoryUsageMb = 0, rr_passedTests = 0, rr_totalTests = length testCases,
     rr_testResults = map (\<lambda>(index, testCase). \<lparr>rt_testIndex = index + 1, rt_input = tc_input testCase,
        rt_expectedOutput = tc_expectedOutput testCase, rt_actualOutput = [], rt_passed = False, rt_error = Some message,
        rt_executionTimeMs = 0, rt_isPublic = tc_isPublic testCase\<rparr>) (enumerate 0 testCases)\<rparr>"

definition skipped_result :: single_result where
  "skipped_result = \<lparr>sg_passed = False, sg_actualOutput = [], sg_error = Some ''Overall judge time limit exceeded.'',
     sg_executionTimeMs = 0\<rparr>"

text \<open>The loop over the cases. \<open>clock k\<close> is what \<open>Date.now()\<close> reads before case \<open>k\<close>.\<close>

fun judge_cases :: "docker \<Rightarrow> language \<Rightarrow> string \<Rightarrow> (nat \<Rightarrow> time) \<Rightarrow> time \<Rightarrow> nat \<Rightarrow> test_case list \<Rightarrow> single_result list" where
  "judge_cases docker lang code clock deadlineAt index [] = []"
| "judge_cases docker lang code clock deadlineAt index (testCase # rest) =
     (let remainingMs = deadlineAt - clock index
      in if remainingMs \<le> 0 then replicate (length (testCase # rest)) skipped_result
         else run_case docker lang code testCase remainingMs # judge_cases docker lang code clock deadlineAt (index + 1) rest)"

text \<open>A line of the report.\<close>

definition report_line :: "nat \<times> single_result \<Rightarrow> string" where
  "report_line = (\<lambda>(index, result). nat_text (index + 1) @ ''. '' @ (if sg_passed result then ''PASS'' else ''FAIL'') @
     '' ('' @ int_text (sg_executionTimeMs result) @ ''ms)'')"

definition judgeAdmitted :: "docker \<Rightarrow> string \<Rightarrow> string \<Rightarrow> (nat \<Rightarrow> time) \<Rightarrow> time \<Rightarrow> time \<Rightarrow> test_case list \<Rightarrow> runner_result" where
  "judgeAdmitted docker languageName code clock startedAt endedAt testCases =
     (if trim code = [] then failed ''Code is empty.'' testCases
      else if length code > MAX_CODE_LENGTH \<or> length testCases > MAX_TEST_CASES
      then failed ''Code or test case count exceeds the runner limit.'' (take MAX_TEST_CASES testCases)
      else (case language_of (toLowerCase languageName) of
        None \<Rightarrow> failed (''Language '' @ quoted languageName @ '' is not supported by the Docker runner yet.'') testCases
      | Some lang \<Rightarrow>
          let deadlineAt = startedAt + MAX_JUDGE_DURATION_MS;
              results = judge_cases docker lang code clock deadlineAt 0 testCases;
              passedTests = length (filter sg_passed results);
              totalTests = length testCases;
              failedResult = List.find (\<lambda>r. \<not> sg_passed r) results
          in \<lparr>rr_status = (if failedResult \<noteq> None then EXEC_FAILED else EXEC_SUCCESS),
              rr_output = (if totalTests > 0
                then ''Docker judging finished. '' @ nat_text passedTests @ ''/'' @ nat_text totalTests @ '' tests passed.'' @ [CHR 0x0A] @
                  join_with [CHR 0x0A] (map report_line (enumerate 0 results))
                else ''No test cases are configured.''),
              rr_error = (case failedResult of None \<Rightarrow> None | Some r \<Rightarrow> sg_error r),
              rr_executionTimeMs = endedAt - startedAt, rr_memoryUsageMb = 0, rr_passedTests = passedTests, rr_totalTests = totalTests,
              rr_testResults = map (\<lambda>(index, (r, testCase)). \<lparr>rt_testIndex = index + 1, rt_input = tc_input testCase,
                rt_expectedOutput = tc_expectedOutput testCase, rt_actualOutput = sg_actualOutput r, rt_passed = sg_passed r,
                rt_error = sg_error r, rt_executionTimeMs = sg_executionTimeMs r, rt_isPublic = tc_isPublic testCase\<rparr>)
                (enumerate 0 (zip results testCases))\<rparr>))"

section \<open>Admission\<close>

record run_window =
  rw_count :: nat
  rw_resetAt :: time

record queued_run =
  qr_key :: string
  qr_run :: nat

text \<open>
  The service's fields. A run is numbered by its call; \<open>cr_running\<close> lists the runs between the two
  ends of \<open>runAdmitted\<close>, with their keys.
\<close>

record runner =
  cr_activeRuns :: nat
  cr_activeKeys :: "string list"
  cr_queue :: "queued_run list"
  cr_windows :: "(string, run_window) jsmap"
  cr_running :: "queued_run list"
  cr_rejected :: "nat list"
  cr_nextRun :: nat

definition empty_runner :: runner where
  "empty_runner = \<lparr>cr_activeRuns = 0, cr_activeKeys = [], cr_queue = [], cr_windows = [], cr_running = [], cr_rejected = [], cr_nextRun = 0\<rparr>"

text \<open>\<open>assertRequestRate\<close>: false is the busy error, thrown before the clean-up of old windows.\<close>

definition assertRequestRate :: "string \<Rightarrow> time \<Rightarrow> (string, run_window) jsmap \<Rightarrow> bool \<times> (string, run_window) jsmap" where
  "assertRequestRate admissionKey now m =
     (let window = (case map_get m admissionKey of
              Some w \<Rightarrow> if rw_resetAt w \<le> now then \<lparr>rw_count = 0, rw_resetAt = now + 60000\<rparr> else w
            | None \<Rightarrow> \<lparr>rw_count = 0, rw_resetAt = now + 60000\<rparr>);
          window = window\<lparr>rw_count := rw_count window + 1\<rparr>;
          m = map_set admissionKey window m
      in if rw_count window > MAX_RUNS_PER_CANDIDATE_PER_MINUTE then (False, m)
         else (True, if length m > 10000 then filter (\<lambda>(key, w). \<not> rw_resetAt w \<le> now) m else m))"

definition start_run :: "queued_run \<Rightarrow> runner \<Rightarrow> runner" where
  "start_run q r = r\<lparr>cr_activeRuns := cr_activeRuns r + 1, cr_activeKeys := List.insert (qr_key q) (cr_activeKeys r),
     cr_running := cr_running r @ [q]\<rparr>"

text \<open>\<open>dispatchQueuedRuns\<close>: start the first queued run whose key is idle, while there is room.\<close>

function dispatchQueuedRuns :: "runner \<Rightarrow> runner" where
  "dispatchQueuedRuns r =
     (if cr_activeRuns r < MAX_CONCURRENT_RUNS then
        (case List.extract (\<lambda>q. qr_key q \<notin> set (cr_activeKeys r)) (cr_queue r) of
           None \<Rightarrow> r
         | Some (before, queued, after) \<Rightarrow> dispatchQueuedRuns (start_run queued (r\<lparr>cr_queue := before @ after\<rparr>)))
      else r)"
  by pat_completeness auto
termination
  by (relation "measure (\<lambda>r. length (cr_queue r))") (auto simp: start_run_def extract_Some_iff)

declare dispatchQueuedRuns.simps [simp del]

definition withAdmission :: "string \<Rightarrow> time \<Rightarrow> runner \<Rightarrow> runner" where
  "withAdmission admissionKey now r =
     (let (ok, windows) = assertRequestRate admissionKey now (cr_windows r);
          run = cr_nextRun r;
          r = r\<lparr>cr_windows := windows, cr_nextRun := Suc run\<rparr>;
          q = \<lparr>qr_key = admissionKey, qr_run = run\<rparr>
      in if \<not> ok then r\<lparr>cr_rejected := cr_rejected r @ [run]\<rparr>
         else if cr_activeRuns r < MAX_CONCURRENT_RUNS \<and> admissionKey \<notin> set (cr_activeKeys r) then start_run q r
         else if MAX_QUEUED_RUNS \<le> length (cr_queue r) then r\<lparr>cr_rejected := cr_rejected r @ [run]\<rparr>
         else r\<lparr>cr_queue := cr_queue r @ [q]\<rparr>)"

definition queue_timeout :: "queued_run \<Rightarrow> runner \<Rightarrow> runner" where
  "queue_timeout q r = r\<lparr>cr_queue := remove1 q (cr_queue r), cr_rejected := cr_rejected r @ [qr_run q]\<rparr>"

text \<open>The end of \<open>runAdmitted\<close>, in its \<open>finally\<close>.\<close>

definition finish_run :: "queued_run \<Rightarrow> runner \<Rightarrow> runner" where
  "finish_run q r = dispatchQueuedRuns (r\<lparr>cr_activeRuns := cr_activeRuns r - 1,
     cr_activeKeys := removeAll (qr_key q) (cr_activeKeys r), cr_running := remove1 q (cr_running r)\<rparr>)"

text \<open>\<open>judge\<close> in production refuses before admission.\<close>

definition judge :: "env \<Rightarrow> string \<Rightarrow> time \<Rightarrow> runner \<Rightarrow> unit res \<times> runner" where
  "judge env admissionKey now r =
     (if is_production env then (Inl (ServiceUnavailable ''code execution disabled in production''), r)
      else (let r' = withAdmission admissionKey now r
            in (if cr_rejected r' \<noteq> cr_rejected r then Inl (TooManyRequests ''too many runs'' None) else Inr (), r')))"

inductive runner_step :: "env \<Rightarrow> runner \<Rightarrow> runner \<Rightarrow> bool" for env :: env where
  request: "runner_step env r (snd (judge env admissionKey now r))"
| timeout: "q \<in> set (cr_queue r) \<Longrightarrow> runner_step env r (queue_timeout q r)"
| finish: "q \<in> set (cr_running r) \<Longrightarrow> runner_step env r (finish_run q r)"

inductive_cases runner_stepE: "runner_step env r r'"

section \<open>The admission invariant\<close>

text \<open>The books of the admission: what holds at any moment, also in the middle of \<open>finally\<close>.\<close>

definition runner_books :: "runner \<Rightarrow> bool" where
  "runner_books r \<longleftrightarrow>
     cr_activeRuns r = length (cr_running r) \<and> length (cr_running r) \<le> MAX_CONCURRENT_RUNS \<and>
     length (cr_queue r) \<le> MAX_QUEUED_RUNS \<and>
     set (cr_activeKeys r) = qr_key ` set (cr_running r) \<and> distinct (map qr_key (cr_running r)) \<and>
     distinct (map qr_run (cr_running r @ cr_queue r) @ cr_rejected r) \<and>
     (\<forall>n \<in> set (map qr_run (cr_running r @ cr_queue r) @ cr_rejected r). n < cr_nextRun r) \<and> map_wf (cr_windows r)"

lemma assertRequestRate_wf: "map_wf m \<Longrightarrow> map_wf (snd (assertRequestRate admissionKey now m))"
  by (simp add: assertRequestRate_def Let_def)

text \<open>Nobody waits who could run.\<close>

definition nobody_waits :: "runner \<Rightarrow> bool" where
  "nobody_waits r \<longleftrightarrow> (cr_activeRuns r < MAX_CONCURRENT_RUNS \<longrightarrow> (\<forall>q \<in> set (cr_queue r). qr_key q \<in> set (cr_activeKeys r)))"

lemma start_run_sel [simp]:
  "cr_activeRuns (start_run q r) = Suc (cr_activeRuns r)" "cr_queue (start_run q r) = cr_queue r"
  "set (cr_activeKeys (start_run q r)) = insert (qr_key q) (set (cr_activeKeys r))"
  "cr_running (start_run q r) = cr_running r @ [q]" "cr_rejected (start_run q r) = cr_rejected r"
  "cr_nextRun (start_run q r) = cr_nextRun r" "cr_windows (start_run q r) = cr_windows r"
  by (simp_all add: start_run_def)

lemma runner_books_start:
  assumes "runner_books r" and "cr_activeRuns r < MAX_CONCURRENT_RUNS" and "qr_key q \<notin> set (cr_activeKeys r)"
    and "cr_queue r = before @ q # after"
  shows "runner_books (start_run q (r\<lparr>cr_queue := before @ after\<rparr>))"
  using assms by (auto simp: runner_books_def)

lemma dispatch_induct [case_names stop start]:
  assumes stop: "\<And>r. dispatchQueuedRuns r = r \<Longrightarrow> nobody_waits r \<Longrightarrow> P r"
    and start: "\<And>r before q after. \<lbrakk>cr_activeRuns r < MAX_CONCURRENT_RUNS; cr_queue r = before @ q # after;
      qr_key q \<notin> set (cr_activeKeys r); dispatchQueuedRuns r = dispatchQueuedRuns (start_run q (r\<lparr>cr_queue := before @ after\<rparr>));
      P (start_run q (r\<lparr>cr_queue := before @ after\<rparr>))\<rbrakk> \<Longrightarrow> P r"
  shows "P r"
proof (induction r rule: dispatchQueuedRuns.induct)
  case (1 r)
  show ?case
  proof (cases "cr_activeRuns r < MAX_CONCURRENT_RUNS")
    case False
    then show ?thesis by (intro stop) (simp_all add: dispatchQueuedRuns.simps [of r] nobody_waits_def)
  next
    case True
    show ?thesis
    proof (cases "List.extract (\<lambda>q. qr_key q \<notin> set (cr_activeKeys r)) (cr_queue r)")
      case None
      then have "nobody_waits r" by (auto simp: nobody_waits_def extract_None_iff)
      with None show ?thesis by (intro stop) (simp_all add: dispatchQueuedRuns.simps [of r])
    next
      case (Some t)
      obtain before q after where t: "t = (before, q, after)" by (cases t)
      with Some have q: "cr_queue r = before @ q # after" "qr_key q \<notin> set (cr_activeKeys r)"
        by (auto simp: extract_Some_iff)
      show ?thesis
      proof (rule start [OF True q])
        show "dispatchQueuedRuns r = dispatchQueuedRuns (start_run q (r\<lparr>cr_queue := before @ after\<rparr>))"
          using True Some t by (simp add: dispatchQueuedRuns.simps [of r])
        show "P (start_run q (r\<lparr>cr_queue := before @ after\<rparr>))"
          using "1.IH" [OF True Some] t by blast
      qed
    qed
  qed
qed

lemma dispatch_books: "runner_books r \<Longrightarrow> runner_books (dispatchQueuedRuns r)"
  by (induction r rule: dispatch_induct) (auto dest: runner_books_start)

lemma dispatch_nobody_waits: "nobody_waits (dispatchQueuedRuns r)"
  by (induction r rule: dispatch_induct) simp_all

text \<open>Dispatching only moves runs from the queue to the running ones; it refuses nobody.\<close>

lemma dispatch_moves:
  "set (cr_running (dispatchQueuedRuns r)) \<union> set (cr_queue (dispatchQueuedRuns r)) = set (cr_running r) \<union> set (cr_queue r) \<and>
   set (cr_running r) \<subseteq> set (cr_running (dispatchQueuedRuns r)) \<and>
   cr_rejected (dispatchQueuedRuns r) = cr_rejected r \<and> cr_nextRun (dispatchQueuedRuns r) = cr_nextRun r \<and>
   cr_windows (dispatchQueuedRuns r) = cr_windows r"
proof (induction r rule: dispatch_induct)
  case (start r before q after)
  then show ?case by auto
qed simp

text \<open>Every operation keeps the books and lets nobody wait.\<close>

definition runner_inv :: "runner \<Rightarrow> bool" where
  "runner_inv r \<longleftrightarrow> runner_books r \<and> nobody_waits r"

text \<open>The three ways a request goes.\<close>

lemma withAdmission_cases:
  fixes admissionKey now r
  defines "w \<equiv> assertRequestRate admissionKey now (cr_windows r)"
    and "r1 \<equiv> r\<lparr>cr_windows := snd (assertRequestRate admissionKey now (cr_windows r)), cr_nextRun := Suc (cr_nextRun r)\<rparr>"
    and "q \<equiv> \<lparr>qr_key = admissionKey, qr_run = cr_nextRun r\<rparr>"
  obtains (run) "fst w" "cr_activeRuns r < MAX_CONCURRENT_RUNS" "admissionKey \<notin> set (cr_activeKeys r)"
      "withAdmission admissionKey now r = start_run q r1"
  | (wait) "fst w" "\<not> (cr_activeRuns r < MAX_CONCURRENT_RUNS \<and> admissionKey \<notin> set (cr_activeKeys r))"
      "length (cr_queue r) < MAX_QUEUED_RUNS" "withAdmission admissionKey now r = r1\<lparr>cr_queue := cr_queue r @ [q]\<rparr>"
  | (refuse) "\<not> fst w \<or> \<not> (cr_activeRuns r < MAX_CONCURRENT_RUNS \<and> admissionKey \<notin> set (cr_activeKeys r)) \<and>
        MAX_QUEUED_RUNS \<le> length (cr_queue r)"
      "withAdmission admissionKey now r = r1\<lparr>cr_rejected := cr_rejected r @ [cr_nextRun r]\<rparr>"
proof -
  have eq: "withAdmission admissionKey now r =
      (if \<not> fst w then r1\<lparr>cr_rejected := cr_rejected r @ [cr_nextRun r]\<rparr>
       else if cr_activeRuns r < MAX_CONCURRENT_RUNS \<and> admissionKey \<notin> set (cr_activeKeys r) then start_run q r1
       else if MAX_QUEUED_RUNS \<le> length (cr_queue r) then r1\<lparr>cr_rejected := cr_rejected r @ [cr_nextRun r]\<rparr>
       else r1\<lparr>cr_queue := cr_queue r @ [q]\<rparr>)"
    by (simp add: withAdmission_def w_def r1_def q_def Let_def case_prod_beta)
  show thesis
  proof (cases "fst w \<and> cr_activeRuns r < MAX_CONCURRENT_RUNS \<and> admissionKey \<notin> set (cr_activeKeys r)")
    case True
    then show ?thesis using that(1) eq by simp
  next
    case False
    then show ?thesis using that(2,3) eq by (cases "fst w \<and> length (cr_queue r) < MAX_QUEUED_RUNS") auto
  qed
qed

lemma fresh_run: "runner_books r \<Longrightarrow> cr_nextRun r \<notin> set (map qr_run (cr_running r @ cr_queue r) @ cr_rejected r)"
  by (auto simp: runner_books_def)

lemma withAdmission_inv:
  assumes "runner_inv r"
  shows "runner_inv (withAdmission admissionKey now r)"
proof -
  have books: "runner_books r" and nobody: "nobody_waits r"
    and less: "\<forall>n \<in> set (map qr_run (cr_running r @ cr_queue r) @ cr_rejected r). n < Suc (cr_nextRun r)"
    using assms by (simp_all add: runner_inv_def runner_books_def less_SucI)
  note fresh = fresh_run [OF books]
  have wf: "map_wf (snd (assertRequestRate admissionKey now (cr_windows r)))"
    using books by (simp add: runner_books_def assertRequestRate_wf)
  from withAdmission_cases [of admissionKey now r] show ?thesis
  proof cases
    case run
    then show ?thesis using books nobody fresh less wf
      by (simp add: runner_inv_def runner_books_def nobody_waits_def)
  next
    case wait
    then show ?thesis using books nobody fresh less wf
      by (simp add: runner_inv_def runner_books_def nobody_waits_def)
  next
    case refuse
    then show ?thesis using books nobody fresh less wf
      by (simp add: runner_inv_def runner_books_def nobody_waits_def)
  qed
qed

lemma queue_timeout_inv:
  assumes "runner_inv r" and "q \<in> set (cr_queue r)"
  shows "runner_inv (queue_timeout q r)"
proof -
  obtain before after where q: "cr_queue r = before @ q # after" "q \<notin> set before"
    using split_list_first [OF assms(2)] by blast
  then show ?thesis using assms(1)
    by (auto simp: runner_inv_def runner_books_def nobody_waits_def queue_timeout_def remove1_append)
qed

lemma finish_run_inv:
  assumes "runner_inv r" and "q \<in> set (cr_running r)"
  shows "runner_inv (finish_run q r)"
proof -
  obtain before after where q: "cr_running r = before @ q # after" "q \<notin> set before"
    using split_list_first [OF assms(2)] by blast
  have "runner_books (r\<lparr>cr_activeRuns := cr_activeRuns r - 1,
     cr_activeKeys := removeAll (qr_key q) (cr_activeKeys r), cr_running := remove1 q (cr_running r)\<rparr>)"
    using assms(1) q by (auto simp: runner_inv_def runner_books_def remove1_append) (metis image_eqI)+
  then show ?thesis
    unfolding runner_inv_def finish_run_def by (intro conjI dispatch_books dispatch_nobody_waits)
qed

interpretation runner_machine: machine "\<lambda>r. r = empty_runner" "runner_step env" runner_inv for env
proof unfold_locales
  fix s assume "s = empty_runner"
  then show "runner_inv s" by (simp add: runner_inv_def runner_books_def nobody_waits_def empty_runner_def)
next
  fix s t assume inv: "runner_inv s" and "runner_step env s t"
  from this(2) show "runner_inv t"
    by (cases rule: runner_step.cases)
      (use inv in \<open>auto simp: judge_def Let_def withAdmission_inv queue_timeout_inv finish_run_inv\<close>)
qed

section \<open>The rate of a candidate\<close>

definition run_live :: "(string, run_window) jsmap \<Rightarrow> time \<Rightarrow> string \<Rightarrow> (nat \<times> time) option" where
  "run_live m now key = (case map_get m key of None \<Rightarrow> None
     | Some w \<Rightarrow> if rw_resetAt w \<le> now then None else Some (rw_count w, rw_resetAt w))"

lemma run_live_cleanup:
  "map_wf m \<Longrightarrow> run_live (filter (\<lambda>(key, w). \<not> rw_resetAt w \<le> now) m) now key = run_live m now key"
  by (simp add: run_live_def map_get_filter split: option.split)

lemma run_live_set:
  "run_live (map_set k w m) now k' =
     (if k' = k then if rw_resetAt w \<le> now then None else Some (rw_count w, rw_resetAt w) else run_live m now k')"
  by (simp add: run_live_def map_get_set)

lemma assertRequestRate_spec:
  assumes "map_wf m"
  shows "fst (assertRequestRate k now m) = (Suc (case run_live m now k of None \<Rightarrow> 0 | Some (c, _) \<Rightarrow> c) \<le> MAX_RUNS_PER_CANDIDATE_PER_MINUTE)"
    and "run_live (snd (assertRequestRate k now m)) now k' =
      (if k' = k then case run_live m now k of None \<Rightarrow> Some (1, now + 60000) | Some (c, r) \<Rightarrow> Some (Suc c, r)
       else run_live m now k')"
proof -
  define w0 where "w0 = (case map_get m k of
              Some w \<Rightarrow> if rw_resetAt w \<le> now then \<lparr>rw_count = 0, rw_resetAt = now + 60000\<rparr> else w
            | None \<Rightarrow> \<lparr>rw_count = 0, rw_resetAt = now + 60000\<rparr>)"
  define w where "w = w0\<lparr>rw_count := rw_count w0 + 1\<rparr>"
  have eq: "assertRequestRate k now m = (if rw_count w > MAX_RUNS_PER_CANDIDATE_PER_MINUTE then (False, map_set k w m)
         else (True, if length (map_set k w m) > 10000 then filter (\<lambda>(key, w). \<not> rw_resetAt w \<le> now) (map_set k w m) else map_set k w m))"
    by (simp add: assertRequestRate_def w_def w0_def Let_def)
  have w: "rw_count w = Suc (case run_live m now k of None \<Rightarrow> 0 | Some (c, _) \<Rightarrow> c)"
    "rw_resetAt w = (case run_live m now k of None \<Rightarrow> now + 60000 | Some (_, r) \<Rightarrow> r)"
    "now < rw_resetAt w"
    by (auto simp: w_def w0_def run_live_def split: option.split)
  show "fst (assertRequestRate k now m) = (Suc (case run_live m now k of None \<Rightarrow> 0 | Some (c, _) \<Rightarrow> c) \<le> MAX_RUNS_PER_CANDIDATE_PER_MINUTE)"
    by (simp add: eq w not_less)
  have "run_live (snd (assertRequestRate k now m)) now k' = run_live (map_set k w m) now k'"
    using assms by (simp add: eq run_live_cleanup)
  also have "\<dots> = (if k' = k then case run_live m now k of None \<Rightarrow> Some (1, now + 60000) | Some (c, r) \<Rightarrow> Some (Suc c, r)
       else run_live m now k')"
    using w by (auto simp: run_live_set split: option.split)
  finally show "run_live (snd (assertRequestRate k now m)) now k' =
      (if k' = k then case run_live m now k of None \<Rightarrow> Some (1, now + 60000) | Some (c, r) \<Rightarrow> Some (Suc c, r)
       else run_live m now k')" .
qed

interpretation run_windows: fixed_window assertRequestRate run_live map_wf MAX_RUNS_PER_CANDIDATE_PER_MINUTE 60000
proof unfold_locales
  fix s :: "(string, run_window) jsmap" and now now' :: time and k
  assume "now \<le> now'"
  then show "run_live s now' k =
      (case run_live s now k of None \<Rightarrow> None | Some (c, r) \<Rightarrow> if now' < r then Some (c, r) else None)"
    by (auto simp: run_live_def split: option.split)
qed (simp_all add: assertRequestRate_spec assertRequestRate_wf)

section \<open>The verdicts\<close>

lemma length_judge_cases [simp]: "length (judge_cases docker lang code clock deadlineAt i cs) = length cs"
  by (induction cs arbitrary: i) (simp_all add: Let_def)

lemma all_le_Suc: "(\<forall>j \<le> Suc k. P j) \<longleftrightarrow> P 0 \<and> (\<forall>j \<le> k. P (Suc j))"
  using All_less_Suc2 [of "Suc k" P] by (simp add: less_Suc_eq_le)

lemma judge_cases_nth:
  "k < length cs \<Longrightarrow> judge_cases docker lang code clock deadlineAt i cs ! k =
     (if \<forall>j \<le> k. clock (i + j) < deadlineAt then run_case docker lang code (cs ! k) (deadlineAt - clock (i + k)) else skipped_result)"
proof (induction cs arbitrary: i k)
  case Nil
  then show ?case by simp
next
  case (Cons c cs)
  show ?case
  proof (cases "clock i < deadlineAt")
    case False
    then have "\<not> (\<forall>j \<le> k. clock (i + j) < deadlineAt)" by (metis add.right_neutral le0)
    with False Cons.prems show ?thesis by (simp add: Let_def if_not_P del: replicate_Suc)
  next
    case True
    show ?thesis
    proof (cases k)
      case 0
      with True show ?thesis by (simp add: Let_def)
    next
      case (Suc k')
      have "(\<forall>j \<le> k. clock (i + j) < deadlineAt) \<longleftrightarrow> (\<forall>j \<le> k'. clock (i + 1 + j) < deadlineAt)"
        using True by (simp add: Suc all_le_Suc)
      with True Suc Cons.IH [of k' "i + 1"] Cons.prems show ?thesis by (auto simp: Let_def)
    qed
  qed
qed

lemma judge_cases_error: "r \<in> set (judge_cases docker lang code clock deadlineAt i cs) \<Longrightarrow> sg_passed r \<longleftrightarrow> sg_error r = None"
  by (induction cs arbitrary: i)
    (auto simp: Let_def run_case_def runInDocker_def skipped_result_def split: if_splits sum.splits prod.splits)

lemma find_sg_error:
  "(\<And>r. r \<in> set results \<Longrightarrow> sg_passed r \<longleftrightarrow> sg_error r = None) \<Longrightarrow>
   (case List.find (\<lambda>r. \<not> sg_passed r) results of None \<Rightarrow> None | Some r \<Rightarrow> sg_error r) = None \<longleftrightarrow>
     List.find (\<lambda>r. \<not> sg_passed r) results = None"
  by (auto split: option.split dest: find_SomeD)

text \<open>The verdicts of a judgement, apart from the times: which cases, which result for each.\<close>

definition judged_cases :: "test_case list \<Rightarrow> string \<Rightarrow> test_case list" where
  "judged_cases testCases code =
     (if trim code \<noteq> [] \<and> (length code > MAX_CODE_LENGTH \<or> length testCases > MAX_TEST_CASES) then take MAX_TEST_CASES testCases
      else testCases)"

lemma map_enumerate: "map f (enumerate n xs) = map (\<lambda>i. f (n + i, xs ! i)) [0..<length xs]"
  by (rule nth_equalityI) (simp_all add: nth_enumerate_eq)

text \<open>What a result says of its case.\<close>

definition case_of :: "runner_test_result \<Rightarrow> nat \<times> string \<times> string \<times> bool" where
  "case_of t = (rt_testIndex t, rt_input t, rt_expectedOutput t, rt_isPublic t)"

definition numbered_cases :: "test_case list \<Rightarrow> (nat \<times> string \<times> string \<times> bool) list" where
  "numbered_cases cs = map (\<lambda>(i, c). (i + 1, tc_input c, tc_expectedOutput c, tc_isPublic c)) (enumerate 0 cs)"

definition judgeable :: "string \<Rightarrow> string \<Rightarrow> test_case list \<Rightarrow> bool" where
  "judgeable languageName code testCases \<longleftrightarrow> trim code \<noteq> [] \<and> length code \<le> MAX_CODE_LENGTH \<and>
     length testCases \<le> MAX_TEST_CASES \<and> language_of (toLowerCase languageName) \<noteq> None"

lemma failed_accounts:
  "map case_of (rr_testResults (failed message cs)) = numbered_cases cs"
  "rr_totalTests (failed message cs) = length cs" "length (rr_testResults (failed message cs)) = length cs"
  "filter rt_passed (rr_testResults (failed message cs)) = []" "rr_passedTests (failed message cs) = 0"
  "rr_status (failed message cs) = EXEC_FAILED" "rr_error (failed message cs) = Some message"
  by (auto simp: failed_def numbered_cases_def case_of_def map_enumerate)

lemma judged_results:
  fixes docker languageName code clock startedAt endedAt testCases lang
  defines "r \<equiv> judgeAdmitted docker languageName code clock startedAt endedAt testCases"
    and "results \<equiv> judge_cases docker lang code clock (startedAt + MAX_JUDGE_DURATION_MS) 0 testCases"
  assumes "trim code \<noteq> []" "length code \<le> MAX_CODE_LENGTH" "length testCases \<le> MAX_TEST_CASES"
    and "language_of (toLowerCase languageName) = Some lang"
  shows "map case_of (rr_testResults r) = numbered_cases testCases"
    and "map rt_passed (rr_testResults r) = map sg_passed results"
    and "length (rr_testResults r) = length testCases" and "rr_totalTests r = length testCases"
    and "rr_passedTests r = length (filter sg_passed results)"
    and "rr_status r = (if filter sg_passed results = results then EXEC_SUCCESS else EXEC_FAILED)"
    and "rr_error r = None \<longleftrightarrow> filter sg_passed results = results"
proof -
  have none: "List.find (\<lambda>r. \<not> sg_passed r) results = None \<longleftrightarrow> filter sg_passed results = results"
    by (auto simp: find_None_iff filter_id_conv)
  have len: "length results = length testCases" by (simp add: results_def)
  have r: "r = \<lparr>rr_status = (if List.find (\<lambda>r. \<not> sg_passed r) results \<noteq> None then EXEC_FAILED else EXEC_SUCCESS),
      rr_output = rr_output r, rr_error = (case List.find (\<lambda>r. \<not> sg_passed r) results of None \<Rightarrow> None | Some r \<Rightarrow> sg_error r),
      rr_executionTimeMs = endedAt - startedAt, rr_memoryUsageMb = 0, rr_passedTests = length (filter sg_passed results),
      rr_totalTests = length testCases,
      rr_testResults = map (\<lambda>(index, (r, testCase)). \<lparr>rt_testIndex = index + 1, rt_input = tc_input testCase,
                rt_expectedOutput = tc_expectedOutput testCase, rt_actualOutput = sg_actualOutput r, rt_passed = sg_passed r,
                rt_error = sg_error r, rt_executionTimeMs = sg_executionTimeMs r, rt_isPublic = tc_isPublic testCase\<rparr>)
                (enumerate 0 (zip results testCases))\<rparr>"
    using assms(3-6) by (simp add: r_def results_def judgeAdmitted_def Let_def)
  have error: "(case List.find (\<lambda>r. \<not> sg_passed r) results of None \<Rightarrow> None | Some r \<Rightarrow> sg_error r) = None \<longleftrightarrow>
      List.find (\<lambda>r. \<not> sg_passed r) results = None"
    by (rule find_sg_error, unfold results_def, erule judge_cases_error)
  show "map case_of (rr_testResults r) = numbered_cases testCases"
    by (subst r) (simp add: len numbered_cases_def case_of_def map_enumerate nth_zip)
  show "map rt_passed (rr_testResults r) = map sg_passed results"
    by (subst r) (auto intro!: nth_equalityI simp: len nth_enumerate_eq)
  show "length (rr_testResults r) = length testCases" "rr_totalTests r = length testCases"
    "rr_passedTests r = length (filter sg_passed results)"
    by (subst r, simp add: len)+
  show "rr_status r = (if filter sg_passed results = results then EXEC_SUCCESS else EXEC_FAILED)"
    by (subst r) (simp add: none)
  show "rr_error r = None \<longleftrightarrow> filter sg_passed results = results"
    by (subst r) (simp add: error none)
qed

lemma filter_all_iff: "filter p xs = xs \<longleftrightarrow> length (filter p xs) = length xs"
  by (induction xs) (auto dest: arg_cong [where f = length] simp: order_class.order.eq_iff)

lemma passed_filter: "map f xs = map g ys \<Longrightarrow> length (filter f xs) = length (filter g ys)"
proof -
  have "length (filter h zs) = length (filter id (map h zs))" for h and zs :: "'z list"
    by (induction zs) auto
  then show "map f xs = map g ys \<Longrightarrow> ?thesis" by metis
qed

section \<open>Properties\<close>

text \<open>C5. A judgement accounts for every case in order, with its input, its expected output and its
  visibility (the first fifty when the limit is passed); its counts are those of its results, and it
  succeeds, without an error, exactly if the submission can be judged and every case passes.\<close>

theorem judgement_accounts_for_every_case:
  "let r = judgeAdmitted docker languageName code clock startedAt endedAt testCases in
     map case_of (rr_testResults r) = numbered_cases (judged_cases testCases code) \<and>
     rr_totalTests r = length (rr_testResults r) \<and> rr_passedTests r = length (filter rt_passed (rr_testResults r)) \<and>
     ((rr_status r = EXEC_SUCCESS) = (judgeable languageName code testCases \<and> rr_passedTests r = rr_totalTests r)) \<and>
     ((rr_error r = None) = (rr_status r = EXEC_SUCCESS))"
proof (cases "judgeable languageName code testCases")
  case True
  then obtain lang where ok: "trim code \<noteq> []" "length code \<le> MAX_CODE_LENGTH" "length testCases \<le> MAX_TEST_CASES"
    "language_of (toLowerCase languageName) = Some lang" by (auto simp: judgeable_def)
  note res = judged_results [OF ok, of docker clock startedAt endedAt]
  from ok have cs: "judged_cases testCases code = testCases" by (simp add: judged_cases_def)
  show ?thesis
    using res passed_filter [OF res(2)] True
    by (simp add: cs Let_def filter_all_iff)
next
  case False
  then have "\<exists>message. judgeAdmitted docker languageName code clock startedAt endedAt testCases = failed message (judged_cases testCases code)"
    by (auto simp: judgeAdmitted_def judgeable_def judged_cases_def split: option.split)
  then show ?thesis using False by (auto simp: Let_def failed_accounts)
qed

text \<open>A case of a submission that can be judged passes exactly if every case up to it started
  before the deadline and its container, started with at most eight seconds and never more than
  what is left of the thirty, printed the expected output, up to line ends and outer blanks.\<close>

theorem case_passes_iff_output_matches:
  assumes "trim code \<noteq> []" "length code \<le> MAX_CODE_LENGTH" "length testCases \<le> MAX_TEST_CASES"
    and "language_of (toLowerCase languageName) = Some lang" and k: "k < length testCases"
  shows "rt_passed (rr_testResults (judgeAdmitted docker languageName code clock startedAt endedAt testCases) ! k) \<longleftrightarrow>
    (\<forall>j \<le> k. clock j < startedAt + 30000) \<and>
    (\<exists>stdout stderr ms t. 1 \<le> t \<and> t \<le> 8000 \<and> t \<le> startedAt + 30000 - clock k \<and>
      t = min 8000 (startedAt + 30000 - clock k) \<and>
      docker \<lparr>ct_language = lang, ct_code = code, ct_input = tc_input (testCases ! k), ct_timeoutMs = t\<rparr> = (Inr (stdout, stderr), ms) \<and>
      normalizeOutput stdout = normalizeOutput (tc_expectedOutput (testCases ! k)))"
proof -
  note res = judged_results [OF assms(1-4), of docker clock startedAt endedAt]
  have "rt_passed (rr_testResults (judgeAdmitted docker languageName code clock startedAt endedAt testCases) ! k) =
      sg_passed (judge_cases docker lang code clock (startedAt + MAX_JUDGE_DURATION_MS) 0 testCases ! k)"
    using arg_cong [where f = "\<lambda>xs. xs ! k", OF res(2)] res(3) k by simp
  also have "\<dots> \<longleftrightarrow> (\<forall>j \<le> k. clock j < startedAt + 30000) \<and>
      sg_passed (run_case docker lang code (testCases ! k) (startedAt + 30000 - clock k))"
    by (simp add: judge_cases_nth [OF k] MAX_JUDGE_DURATION_MS_def skipped_result_def)
  finally have eq: "rt_passed (rr_testResults (judgeAdmitted docker languageName code clock startedAt endedAt testCases) ! k) \<longleftrightarrow> \<dots>" .
  show ?thesis
  proof (cases "\<forall>j \<le> k. clock j < startedAt + 30000")
    case False
    then show ?thesis unfolding eq by blast
  next
    case True
    then have "1 \<le> startedAt + 30000 - clock k" by auto
    then have "max 1 (min 8000 (startedAt + 30000 - clock k)) = min 8000 (startedAt + 30000 - clock k)"
      and "1 \<le> min 8000 (startedAt + 30000 - clock k)" by simp_all
    with True show ?thesis unfolding eq
      by (auto simp: run_case_def runInDocker_def DOCKER_TIMEOUT_MS_def Let_def simp del: min.bounded_iff split: sum.split prod.split)
  qed
qed

text \<open>C14. Whatever requests, time-outs and ends come in whatever order: at most two runs are active, no
  two of one candidate, at most eight wait, no run is both waiting or active and refused, and nobody
  waits while there is room and his candidate is idle.\<close>

theorem runner_admits_two_candidates:
  assumes "(runner_step env)\<^sup>*\<^sup>* empty_runner r"
  shows "cr_activeRuns r = length (cr_running r) \<and> cr_activeRuns r \<le> 2 \<and> distinct (map qr_key (cr_running r)) \<and>
    length (cr_queue r) \<le> 8 \<and> distinct (map qr_run (cr_running r @ cr_queue r) @ cr_rejected r) \<and>
    (cr_activeRuns r < 2 \<longrightarrow> (\<forall>q \<in> set (cr_queue r). qr_key q \<in> qr_key ` set (cr_running r)))"
proof -
  have "runner_inv r" by (rule runner_machine.run_inv [OF refl assms])
  then show ?thesis
    by (auto simp: runner_inv_def runner_books_def nobody_waits_def MAX_CONCURRENT_RUNS_def MAX_QUEUED_RUNS_def)
qed

text \<open>In every reachable state, the requests of a candidate whose window is closed pass, within the
  next minute, exactly up to six, whatever other candidates ask for and whichever old windows are
  cleaned up in between; in production no request starts a run.\<close>

theorem candidate_run_rate_is_exact:
  assumes "(runner_step env)\<^sup>*\<^sup>* empty_runner r"
    and "run_live (cr_windows r) now key = None" and "sorted (now # map snd evs)" and "\<forall>t \<in> snd ` set evs. t < now + 60000"
  shows "accepted_calls assertRequestRate key evs (cr_windows r) = min 6 (count_calls key evs) \<and>
    (is_production env \<longrightarrow> r = empty_runner)"
proof
  have "runner_inv r" by (rule runner_machine.run_inv [OF refl assms(1)])
  then have "map_wf (cr_windows r)" by (simp add: runner_inv_def runner_books_def)
  from run_windows.accepted_exact [OF this assms(2-4)]
  show "accepted_calls assertRequestRate key evs (cr_windows r) = min 6 (count_calls key evs)"
    by (simp add: MAX_RUNS_PER_CANDIDATE_PER_MINUTE_def)
  show "is_production env \<longrightarrow> r = empty_runner"
  proof
    assume prod: "is_production env"
    from assms(1) show "r = empty_runner"
    proof (induction rule: rtranclp_induct)
      case (step s t)
      from step(2) show ?case unfolding step(3)
        by (cases rule: runner_step.cases) (simp_all add: prod judge_def empty_runner_def)
    qed simp
  qed
qed

text \<open>The runs that end on their own, without new requests and without time-outs in the queue.\<close>

definition finish_step :: "runner \<Rightarrow> runner \<Rightarrow> bool" where
  "finish_step r r' \<longleftrightarrow> (\<exists>q \<in> set (cr_running r). r' = finish_run q r)"

lemma dispatch_total:
  "length (cr_running (dispatchQueuedRuns r)) + length (cr_queue (dispatchQueuedRuns r)) = length (cr_running r) + length (cr_queue r)"
  by (induction r rule: dispatch_induct) simp_all

lemma finish_step_total:
  assumes "finish_step r r'"
  shows "Suc (length (cr_running r') + length (cr_queue r')) = length (cr_running r) + length (cr_queue r) \<and> cr_rejected r' = cr_rejected r"
proof -
  from assms obtain q where q: "q \<in> set (cr_running r)" and r': "r' = finish_run q r" by (auto simp: finish_step_def)
  from q have "Suc (length (remove1 q (cr_running r))) = length (cr_running r)" using length_pos_if_in_set [OF q] by (simp add: length_remove1)
  then show ?thesis by (simp add: r' finish_run_def dispatch_total dispatch_moves)
qed

text \<open>C34. The runner drains: from any reachable state, whichever active run ends next, every end brings one of the active
  and waiting runs to its end, none of them is refused, and as long as somebody waits a run is active, so that after as
  many ends as there were active and waiting runs all are done.\<close>

theorem runner_drains:
  assumes "(runner_step env)\<^sup>*\<^sup>* empty_runner r" and "(finish_step ^^ n) r r'"
  shows "n + length (cr_running r') + length (cr_queue r') = length (cr_running r) + length (cr_queue r) \<and>
    cr_rejected r' = cr_rejected r \<and> (cr_running r' = [] \<longrightarrow> cr_queue r' = []) \<and> (cr_running r' = [] \<longleftrightarrow> (\<nexists>r2. finish_step r' r2))"
proof -
  have "(runner_step env)\<^sup>*\<^sup>* empty_runner r' \<and> n + length (cr_running r') + length (cr_queue r') = length (cr_running r) + length (cr_queue r) \<and>
      cr_rejected r' = cr_rejected r"
    using assms(2)
  proof (induction n arbitrary: r')
    case 0
    with assms(1) show ?case by simp
  next
    case (Suc n)
    then obtain r1 where r1: "(finish_step ^^ n) r r1" and last: "finish_step r1 r'" by auto
    from last have "runner_step env r1 r'" by (auto simp: finish_step_def intro: runner_step.finish)
    with Suc.IH [OF r1] finish_step_total [OF last] show ?case by (auto intro: rtranclp.rtrancl_into_rtrancl)
  qed
  moreover from this have "runner_inv r'" using runner_machine.run_inv [OF refl] by blast
  then have "cr_running r' = [] \<Longrightarrow> cr_queue r' = []"
    by (auto simp: runner_inv_def runner_books_def nobody_waits_def MAX_CONCURRENT_RUNS_def)
  moreover have "cr_running r' = [] \<longleftrightarrow> (\<nexists>r2. finish_step r' r2)" by (cases "cr_running r'") (auto simp: finish_step_def)
  ultimately show ?thesis by blast
qed

section \<open>Witnesses\<close>

definition echo_docker :: docker where
  "echo_docker c = (Inr (ct_input c, []), 5)"

definition sample_cases :: "test_case list" where
  "sample_cases = [\<lparr>tc_id = ''t1'', tc_questionId = ''q'', tc_input = ''1'', tc_expectedOutput = ''1'', tc_isPublic = True, tc_createdAt = 0\<rparr>,
    \<lparr>tc_id = ''t2'', tc_questionId = ''q'', tc_input = ''2'', tc_expectedOutput = ''3'', tc_isPublic = False, tc_createdAt = 0\<rparr>]"

lemma case_passes_iff_output_matches_witness:
  "rt_passed (rr_testResults (judgeAdmitted echo_docker ''js'' ''x'' (\<lambda>_. 0) 0 9 sample_cases) ! 0) \<and>
   \<not> rt_passed (rr_testResults (judgeAdmitted echo_docker ''js'' ''x'' (\<lambda>_. 0) 0 9 sample_cases) ! 1)"
  using case_passes_iff_output_matches [of "''x''" sample_cases "''js''" JAVASCRIPT 0 echo_docker "\<lambda>_. 0" 0 9]
    case_passes_iff_output_matches [of "''x''" sample_cases "''js''" JAVASCRIPT 1 echo_docker "\<lambda>_. 0" 0 9]
  by (simp add: sample_cases_def echo_docker_def language_of_def toLowerCase_def lower_char_def MAX_CODE_LENGTH_def
    MAX_TEST_CASES_def normalizeOutput_def trim_def trimStart_def trimEnd_def js_space_def)

definition sample_runner :: runner where
  "sample_runner = snd (judge (\<lambda>_. None) ''c1'' 10 (snd (judge (\<lambda>_. None) ''c1'' 5 (snd (judge (\<lambda>_. None) ''c1'' 0 empty_runner)))))"

lemma sample_runner_reachable: "(runner_step (\<lambda>_. None))\<^sup>*\<^sup>* empty_runner sample_runner"
  unfolding sample_runner_def by (rule rtranclp.rtrancl_into_rtrancl, rule rtranclp.rtrancl_into_rtrancl, rule rtranclp.rtrancl_into_rtrancl,
    rule rtranclp.rtrancl_refl) (rule runner_step.request)+

lemma sample_runner_eq:
  "sample_runner = \<lparr>cr_activeRuns = 1, cr_activeKeys = [''c1''], cr_queue = [\<lparr>qr_key = ''c1'', qr_run = 1\<rparr>, \<lparr>qr_key = ''c1'', qr_run = 2\<rparr>],
     cr_windows = [(''c1'', \<lparr>rw_count = 3, rw_resetAt = 60000\<rparr>)], cr_running = [\<lparr>qr_key = ''c1'', qr_run = 0\<rparr>], cr_rejected = [], cr_nextRun = 3\<rparr>"
  by (simp add: sample_runner_def judge_def is_production_def empty_runner_def withAdmission_def assertRequestRate_def Let_def
    MAX_CONCURRENT_RUNS_def MAX_QUEUED_RUNS_def MAX_RUNS_PER_CANDIDATE_PER_MINUTE_def start_run_def)

lemma runner_admits_two_candidates_witness:
  "cr_activeRuns sample_runner = 1 \<and> qr_key ` set (cr_queue sample_runner) \<subseteq> qr_key ` set (cr_running sample_runner)"
  using runner_admits_two_candidates [OF sample_runner_reachable] by (simp add: sample_runner_eq)

lemma candidate_run_rate_is_exact_witness:
  "accepted_calls assertRequestRate ''c2'' [(''c2'', 11), (''c1'', 12), (''c2'', 13)] (cr_windows sample_runner) = 2"
  using candidate_run_rate_is_exact [OF sample_runner_reachable, of 10 "''c2''" "[(''c2'', 11), (''c1'', 12), (''c2'', 13)]"]
  by (simp add: sample_runner_eq run_live_def)

lemma runner_drains_witness:
  "\<exists>r'. (finish_step ^^ 3) sample_runner r' \<and> cr_running r' = [] \<and> cr_queue r' = [] \<and> cr_rejected r' = []"
proof -
  let ?q = "\<lambda>n. \<lparr>qr_key = ''c1'', qr_run = n\<rparr>"
  define r1 r2 r3 where "r1 = finish_run (?q 0) sample_runner" and "r2 = finish_run (?q 1) r1" and "r3 = finish_run (?q 2) r2"
  have r1: "cr_running r1 = [?q 1]" "cr_queue r1 = [?q 2]" "cr_activeRuns r1 = 1" "cr_activeKeys r1 = [''c1'']"
    by (simp_all add: r1_def finish_run_def sample_runner_eq dispatchQueuedRuns.simps MAX_CONCURRENT_RUNS_def extract_Cons_code extract_Nil_code start_run_def)
  have r2: "cr_running r2 = [?q 2]"
    by (simp add: r2_def finish_run_def r1 dispatchQueuedRuns.simps MAX_CONCURRENT_RUNS_def extract_Cons_code extract_Nil_code start_run_def)
  have "finish_step sample_runner r1" "finish_step r1 r2" "finish_step r2 r3"
    by (auto simp: finish_step_def r1_def [symmetric] r1 r2 r3_def [symmetric] sample_runner_eq intro!: exI)
      (simp_all add: r1_def r2_def r3_def sample_runner_eq)
  then have steps: "(finish_step ^^ 3) sample_runner r3" by (auto simp: numeral_3_eq_3)
  have "3 + length (cr_running r3) + length (cr_queue r3) = length (cr_running sample_runner) + length (cr_queue sample_runner) \<and>
      cr_rejected r3 = cr_rejected sample_runner"
    using runner_drains [OF sample_runner_reachable steps] by blast
  then show ?thesis using steps by (auto simp: sample_runner_eq)
qed

end
