(* ===== verification/Mappers.thy ===== *)
theory Mappers
  imports Prisma
begin

text \<open>
  From the rows of the database to the interfaces (\<open>platform-store.exam-mappers.ts\<close>,
  \<open>platform-store.execution-mappers.ts\<close>, \<open>platform-store.report-mappers.ts\<close>), and the JSON of the environment
  checks (\<open>platform-store.helpers.ts\<close>). A date is the \<open>time\<close> it prints, \<open>null\<close> and \<open>undefined\<close> are \<open>None\<close>, so most
  mappers copy every field; those that do not are stated as what they drop, compute or normalize.
\<close>

section \<open>Mappers that copy\<close>

definition mapExam :: "exam \<Rightarrow> exam" where
  "mapExam exam = \<lparr>ex_id = ex_id exam, ex_organizationId = ex_organizationId exam, ex_title = ex_title exam,
    ex_description = ex_description exam, ex_startAt = ex_startAt exam, ex_endAt = ex_endAt exam,
    ex_durationMinutes = ex_durationMinutes exam, ex_status = ex_status exam, ex_languages = ex_languages exam,
    ex_proctoringEnabled = ex_proctoringEnabled exam,
    ex_identityVerificationEnabled = ex_identityVerificationEnabled exam,
    ex_mobileCameraRequired = ex_mobileCameraRequired exam, ex_screenShareRequired = ex_screenShareRequired exam,
    ex_createdAt = ex_createdAt exam\<rparr>"

definition mapQuestion :: "question \<Rightarrow> question" where
  "mapQuestion question = \<lparr>q_id = q_id question, q_examId = q_examId question, q_title = q_title question,
    q_description = q_description question, q_type = q_type question, q_points = q_points question,
    q_difficulty = q_difficulty question, q_timeLimitMs = q_timeLimitMs question,
    q_memoryLimitMb = q_memoryLimitMb question, q_choices = q_choices question,
    q_expectedAnswer = q_expectedAnswer question, q_createdAt = q_createdAt question\<rparr>"

definition mapTestCase :: "test_case \<Rightarrow> test_case" where
  "mapTestCase testCase = \<lparr>tc_id = tc_id testCase, tc_questionId = tc_questionId testCase, tc_input = tc_input testCase,
    tc_expectedOutput = tc_expectedOutput testCase, tc_isPublic = tc_isPublic testCase,
    tc_createdAt = tc_createdAt testCase\<rparr>"

definition mapCandidate :: "candidate \<Rightarrow> candidate" where
  "mapCandidate candidate = \<lparr>cand_id = cand_id candidate, cand_examId = cand_examId candidate, cand_name = cand_name candidate,
    cand_email = cand_email candidate, cand_status = cand_status candidate,
    cand_inviteToken = cand_inviteToken candidate,
    cand_identityPrivacyConsentVersion = cand_identityPrivacyConsentVersion candidate,
    cand_identityPrivacyConsentAcceptedAt = cand_identityPrivacyConsentAcceptedAt candidate,
    cand_createdAt = cand_createdAt candidate\<rparr>"

definition mapJudgeTestResult :: "judge_test_result \<Rightarrow> judge_test_result" where
  "mapJudgeTestResult testResult = \<lparr>jt_id = jt_id testResult, jt_codeExecutionId = jt_codeExecutionId testResult,
    jt_submissionId = jt_submissionId testResult, jt_testIndex = jt_testIndex testResult,
    jt_input = jt_input testResult, jt_expectedOutput = jt_expectedOutput testResult,
    jt_actualOutput = jt_actualOutput testResult, jt_passed = jt_passed testResult, jt_error = jt_error testResult,
    jt_executionTimeMs = jt_executionTimeMs testResult, jt_isPublic = jt_isPublic testResult,
    jt_createdAt = jt_createdAt testResult\<rparr>"

definition mapSubmission :: "submission \<Rightarrow> submission" where
  "mapSubmission submission = \<lparr>sub_id = sub_id submission, sub_examId = sub_examId submission, sub_candidateId = sub_candidateId submission,
    sub_questionId = sub_questionId submission, sub_language = sub_language submission,
    sub_code = sub_code submission, sub_score = sub_score submission, sub_passedTests = sub_passedTests submission,
    sub_totalTests = sub_totalTests submission, sub_testResults = map mapJudgeTestResult (sub_testResults submission),
    sub_submittedAt = sub_submittedAt submission\<rparr>"

definition mapCodeExecution :: "code_execution \<Rightarrow> code_execution" where
  "mapCodeExecution execution = \<lparr>ce_id = ce_id execution, ce_candidateId = ce_candidateId execution, ce_questionId = ce_questionId execution,
    ce_language = ce_language execution, ce_code = ce_code execution, ce_status = ce_status execution,
    ce_output = ce_output execution, ce_error = ce_error execution, ce_executionTimeMs = ce_executionTimeMs execution,
    ce_memoryUsageMb = ce_memoryUsageMb execution, ce_passedTests = ce_passedTests execution,
    ce_totalTests = ce_totalTests execution, ce_testResults = map mapJudgeTestResult (ce_testResults execution),
    ce_createdAt = ce_createdAt execution\<rparr>"

definition mapCodeDraft :: "code_draft \<Rightarrow> code_draft" where
  "mapCodeDraft draft = \<lparr>cd_id = cd_id draft, cd_candidateId = cd_candidateId draft, cd_examId = cd_examId draft,
    cd_questionId = cd_questionId draft, cd_language = cd_language draft, cd_code = cd_code draft,
    cd_savedAt = cd_savedAt draft, cd_createdAt = cd_createdAt draft\<rparr>"

definition mapProctorEvent :: "proctor_event \<Rightarrow> proctor_event" where
  "mapProctorEvent event = \<lparr>pe_id = pe_id event, pe_candidateId = pe_candidateId event, pe_examId = pe_examId event, pe_type = pe_type event,
    pe_detail = pe_detail event, pe_createdAt = pe_createdAt event\<rparr>"

definition mapProctorDevice :: "proctor_device \<Rightarrow> proctor_device" where
  "mapProctorDevice device = \<lparr>pd_id = pd_id device, pd_candidateId = pd_candidateId device, pd_examId = pd_examId device,
    pd_role = pd_role device, pd_status = pd_status device, pd_connectedAt = pd_connectedAt device,
    pd_disconnectedAt = pd_disconnectedAt device, pd_lastHeartbeatAt = pd_lastHeartbeatAt device,
    pd_detail = pd_detail device, pd_createdAt = pd_createdAt device, pd_updatedAt = pd_updatedAt device\<rparr>"

definition mapProctorAction :: "proctor_action \<Rightarrow> proctor_action" where
  "mapProctorAction action = \<lparr>pa_id = pa_id action, pa_candidateId = pa_candidateId action, pa_examId = pa_examId action,
    pa_type = pa_type action, pa_message = pa_message action, pa_createdAt = pa_createdAt action\<rparr>"

definition mapCompetencyReport :: "competency_report \<Rightarrow> competency_report" where
  "mapCompetencyReport report = \<lparr>rep_id = rep_id report, rep_examSessionId = rep_examSessionId report, rep_candidateId = rep_candidateId report,
    rep_examId = rep_examId report, rep_problemSolvingScore = rep_problemSolvingScore report,
    rep_implementationScore = rep_implementationScore report, rep_debuggingScore = rep_debuggingScore report,
    rep_codeQualityScore = rep_codeQualityScore report, rep_timeManagementScore = rep_timeManagementScore report,
    rep_integrityScore = rep_integrityScore report, rep_overallScore = rep_overallScore report,
    rep_aiSummary = rep_aiSummary report, rep_strengths = rep_strengths report,
    rep_improvementAreas = rep_improvementAreas report, rep_recommendations = rep_recommendations report,
    rep_createdAt = rep_createdAt report\<rparr>"

definition mapInviteEmailLog :: "invite_email_log \<Rightarrow> invite_email_log" where
  "mapInviteEmailLog emailLog = \<lparr>el_id = el_id emailLog, el_candidateId = el_candidateId emailLog, el_examId = el_examId emailLog, el_email = el_email emailLog,
    el_inviteUrl = el_inviteUrl emailLog, el_provider = el_provider emailLog,
    el_providerMessageId = (if truthy (el_providerMessageId emailLog) then el_providerMessageId emailLog else None),
    el_status = el_status emailLog, el_message = el_message emailLog, el_sentAt = el_sentAt emailLog, el_createdAt = el_createdAt emailLog\<rparr>"

text \<open>They are identities: no field is lost on the way to a client.\<close>

lemma mapExam_id [simp]: "mapExam = (\<lambda>exam. exam)"
  by (rule ext) (simp add: mapExam_def)

lemma mapQuestion_id [simp]: "mapQuestion = (\<lambda>question. question)"
  by (rule ext) (simp add: mapQuestion_def)

lemma mapTestCase_id [simp]: "mapTestCase = (\<lambda>testCase. testCase)"
  by (rule ext) (simp add: mapTestCase_def)

lemma mapCandidate_id [simp]: "mapCandidate = (\<lambda>candidate. candidate)"
  by (rule ext) (simp add: mapCandidate_def)

lemma mapJudgeTestResult_id [simp]: "mapJudgeTestResult = (\<lambda>testResult. testResult)"
  by (rule ext) (simp add: mapJudgeTestResult_def)

lemma mapCodeDraft_id [simp]: "mapCodeDraft = (\<lambda>draft. draft)"
  by (rule ext) (simp add: mapCodeDraft_def)

lemma mapProctorEvent_id [simp]: "mapProctorEvent = (\<lambda>event. event)"
  by (rule ext) (simp add: mapProctorEvent_def)

lemma mapProctorDevice_id [simp]: "mapProctorDevice = (\<lambda>device. device)"
  by (rule ext) (simp add: mapProctorDevice_def)

lemma mapProctorAction_id [simp]: "mapProctorAction = (\<lambda>action. action)"
  by (rule ext) (simp add: mapProctorAction_def)

lemma mapCompetencyReport_id [simp]: "mapCompetencyReport = (\<lambda>report. report)"
  by (rule ext) (simp add: mapCompetencyReport_def)

lemma mapSubmission_id [simp]: "mapSubmission = (\<lambda>submission. submission)"
  by (rule ext) (simp add: mapSubmission_def)

lemma mapCodeExecution_id [simp]: "mapCodeExecution = (\<lambda>execution. execution)"
  by (rule ext) (simp add: mapCodeExecution_def)

section \<open>Mappers that change something\<close>

text \<open>\<open>mapOrganization\<close> drops the join code; candidates never see an expected answer.\<close>

definition mapOrganization :: "organization_row \<Rightarrow> organization" where
  "mapOrganization organization = \<lparr>org_id = o_id organization, org_name = o_name organization, org_joinCode = None,
    org_createdAt = o_createdAt organization\<rparr>"

definition mapCandidateQuestion :: "question \<Rightarrow> question" where
  "mapCandidateQuestion question = (mapQuestion question)\<lparr>q_expectedAnswer := None\<rparr>"

definition omitExpectedAnswer :: "question \<Rightarrow> question" where
  "omitExpectedAnswer question = question\<lparr>q_expectedAnswer := None\<rparr>"

text \<open>The remaining seconds of a session are computed when it is read.\<close>

definition remaining_seconds :: "time \<Rightarrow> time \<Rightarrow> int" where
  "remaining_seconds endsAt now = max 0 ((endsAt - now) div 1000)"

definition mapExamSession :: "time \<Rightarrow> exam_session \<Rightarrow> exam_session" where
  "mapExamSession now session = \<lparr>xs_id = xs_id session, xs_candidateId = xs_candidateId session, xs_examId = xs_examId session,
    xs_startedAt = xs_startedAt session, xs_endsAt = xs_endsAt session, xs_completedAt = xs_completedAt session,
    xs_serverNow = now, xs_remainingSeconds = remaining_seconds (xs_endsAt session) now\<rparr>"

definition withRemainingSeconds :: "time \<Rightarrow> exam_session \<Rightarrow> exam_session" where
  "withRemainingSeconds now session = session\<lparr>xs_serverNow := now, xs_remainingSeconds := remaining_seconds (xs_endsAt session) now\<rparr>"

lemma mapExamSession_eq: "mapExamSession now session = withRemainingSeconds now session"
  by (simp add: mapExamSession_def withRemainingSeconds_def)

text \<open>An identity verification keeps the provider's decision as text.\<close>

record identity_row =
  idr_id :: string
  idr_candidateId :: string
  idr_examId :: string
  idr_documentImageName :: string
  idr_documentCaptureConfirmed :: bool
  idr_faceImageCaptured :: bool
  idr_provider :: string
  idr_providerDecision :: string
  idr_providerReferenceId :: string
  idr_failureReason :: "string option"
  idr_similarityScore :: rat
  idr_documentAuthenticityScore :: rat
  idr_faceMatchScore :: rat
  idr_livenessScore :: rat
  idr_ocrNameMatched :: bool
  idr_verificationChecks :: "string list"
  idr_privacyConsentVersion :: "string option"
  idr_privacyConsentAcceptedAt :: "time option"
  idr_status :: identity_status
  idr_verifiedAt :: "time option"
  idr_createdAt :: time

definition normalizeKycProviderDecision :: "string \<Rightarrow> kyc_decision" where
  "normalizeKycProviderDecision decision =
     (if decision = ''VERIFIED'' then KYC_VERIFIED else if decision = ''REJECTED'' then KYC_REJECTED
      else if decision = ''REVIEW_REQUIRED'' then KYC_REVIEW_REQUIRED else KYC_REVIEW_REQUIRED)"

definition mapIdentityVerification :: "identity_row \<Rightarrow> identity_verification" where
  "mapIdentityVerification verification = \<lparr>iv_id = idr_id verification, iv_candidateId = idr_candidateId verification,
    iv_examId = idr_examId verification, iv_documentCaptureConfirmed = idr_documentCaptureConfirmed verification,
    iv_documentImageName = idr_documentImageName verification, iv_faceImageCaptured = idr_faceImageCaptured verification,
    iv_provider = idr_provider verification, iv_providerDecision = normalizeKycProviderDecision (idr_providerDecision verification),
    iv_providerReferenceId = idr_providerReferenceId verification, iv_failureReason = idr_failureReason verification,
    iv_similarityScore = idr_similarityScore verification, iv_documentAuthenticityScore = idr_documentAuthenticityScore verification,
    iv_faceMatchScore = idr_faceMatchScore verification, iv_livenessScore = idr_livenessScore verification,
    iv_ocrNameMatched = idr_ocrNameMatched verification, iv_verificationChecks = idr_verificationChecks verification,
    iv_privacyConsentVersion = idr_privacyConsentVersion verification,
    iv_privacyConsentAcceptedAt = idr_privacyConsentAcceptedAt verification, iv_status = idr_status verification,
    iv_verifiedAt = idr_verifiedAt verification, iv_createdAt = idr_createdAt verification\<rparr>"

section \<open>Environment results as JSON\<close>

fun item_text :: "env_item \<Rightarrow> string" where
  "item_text ITEM_BROWSER = ''browser''"
| "item_text ITEM_NETWORK = ''network''"
| "item_text ITEM_CAMERA = ''camera''"
| "item_text ITEM_MICROPHONE = ''microphone''"
| "item_text ITEM_SCREEN = ''screen''"

fun status_text :: "env_status \<Rightarrow> string" where
  "status_text ENV_PASSED = ''PASSED''"
| "status_text ENV_WARNING = ''WARNING''"
| "status_text ENV_FAILED = ''FAILED''"

definition environmentCheckItemIds :: "env_item list" where
  "environmentCheckItemIds = [ITEM_BROWSER, ITEM_NETWORK, ITEM_CAMERA, ITEM_MICROPHONE, ITEM_SCREEN]"

definition environmentCheckStatuses :: "env_status list" where
  "environmentCheckStatuses = [ENV_PASSED, ENV_WARNING, ENV_FAILED]"

text \<open>\<open>isEnvironmentCheckItemId\<close> and \<open>isEnvironmentCheckStatus\<close>: the value, when it is one.\<close>

definition environmentCheckItemId :: "json option \<Rightarrow> env_item option" where
  "environmentCheckItemId value = (case value of
       Some (JStr s) \<Rightarrow> List.find (\<lambda>item. item_text item = s) environmentCheckItemIds | _ \<Rightarrow> None)"

definition environmentCheckStatus :: "json option \<Rightarrow> env_status option" where
  "environmentCheckStatus value = (case value of
       Some (JStr s) \<Rightarrow> List.find (\<lambda>item. status_text item = s) environmentCheckStatuses | _ \<Rightarrow> None)"

text \<open>\<open>Reflect.get\<close> on an object; an array has none of these properties.\<close>

definition get_field :: "json \<Rightarrow> string \<Rightarrow> json option" where
  "get_field value key = (case value of JObj properties \<Rightarrow> map_of properties key | _ \<Rightarrow> None)"

definition normalize_result :: "json \<Rightarrow> env_check_result list" where
  "normalize_result result = (case result of JNull \<Rightarrow> [] | JBool _ \<Rightarrow> [] | JNum _ \<Rightarrow> [] | JStr _ \<Rightarrow> []
     | _ \<Rightarrow> (case environmentCheckItemId (get_field result ''id'') of None \<Rightarrow> []
         | Some item \<Rightarrow> [\<lparr>er_id = item,
             er_status = (case environmentCheckStatus (get_field result ''status'') of Some status \<Rightarrow> status | None \<Rightarrow> ENV_FAILED),
             er_detail = (case get_field result ''detail'' of Some (JStr detail) \<Rightarrow> Some detail | _ \<Rightarrow> None)\<rparr>]))"

definition normalizeEnvironmentResults :: "json list \<Rightarrow> env_check_result list" where
  "normalizeEnvironmentResults results = concat (map normalize_result results)"

definition toEnvironmentCheckJson :: "env_check_result list \<Rightarrow> json list" where
  "toEnvironmentCheckJson results = map (\<lambda>result.
     (case er_detail result of
        None \<Rightarrow> JObj [(''id'', JStr (item_text (er_id result))), (''status'', JStr (status_text (er_status result)))]
      | Some detail \<Rightarrow> JObj [(''id'', JStr (item_text (er_id result))), (''status'', JStr (status_text (er_status result))),
          (''detail'', JStr detail)])) results"

definition didPassRequiredEnvironmentChecks :: "env_check_result list \<Rightarrow> bool" where
  "didPassRequiredEnvironmentChecks results = list_all (\<lambda>required.
     (case List.find (\<lambda>item. er_id item = required) results of
        Some result \<Rightarrow> er_status result = ENV_PASSED \<or> er_status result = ENV_WARNING | None \<Rightarrow> False)) environmentCheckItemIds"

record env_check_row =
  ekr_id :: string
  ekr_candidateId :: string
  ekr_examId :: string
  ekr_results :: json
  ekr_requiredPassed :: bool
  ekr_createdAt :: time

definition mapEnvironmentCheck :: "env_check_row \<Rightarrow> environment_check" where
  "mapEnvironmentCheck check = \<lparr>ec_id = ekr_id check, ec_candidateId = ekr_candidateId check, ec_examId = ekr_examId check,
    ec_results = normalizeEnvironmentResults (case ekr_results check of JArr values \<Rightarrow> values | _ \<Rightarrow> []),
    ec_requiredPassed = ekr_requiredPassed check, ec_createdAt = ekr_createdAt check\<rparr>"

lemma item_of_text [simp]: "environmentCheckItemId (Some (JStr (item_text item))) = Some item"
  by (cases item) (simp_all add: environmentCheckItemId_def environmentCheckItemIds_def)

lemma status_of_text [simp]: "environmentCheckStatus (Some (JStr (status_text status))) = Some status"
  by (cases status) (simp_all add: environmentCheckStatus_def environmentCheckStatuses_def)

text \<open>What is stored reads back.\<close>

lemma environment_json_reads_back: "normalizeEnvironmentResults (toEnvironmentCheckJson results) = results"
  by (induction results)
    (auto simp: normalizeEnvironmentResults_def toEnvironmentCheckJson_def normalize_result_def get_field_def split: option.split)

end
