(* ===== verification/Store.thy ===== *)
theory Store
  imports Mappers CodeRunner
begin

text \<open>
  The foundation of the platform store (\<open>platform-store.database.ts\<close>, \<open>platform-store.state.ts\<close>): the arrays it
  keeps in memory, the tables it reaches through the database, and \<open>tryDatabase\<close>, which decides between the
  two. Every operation of the store is an effect over \<open>store\<close>.

  A row has the fields of the interface it is mapped to, but for the environment checks and the identity
  verifications, which have rows of their own; a row is held with the rows its queries include.
\<close>

section \<open>State\<close>

record memory =
  mm_organization :: organization
  mm_exams :: "exam list"
  mm_questions :: "question list"
  mm_candidates :: "candidate list"
  mm_testCases :: "test_case list"
  mm_proctorEvents :: "proctor_event list"
  mm_proctorDevices :: "proctor_device list"
  mm_proctorActions :: "proctor_action list"
  mm_competencyReports :: "competency_report list"
  mm_identityVerifications :: "identity_verification list"
  mm_environmentChecks :: "environment_check list"
  mm_examSessions :: "exam_session list"
  mm_codeDrafts :: "code_draft list"
  mm_codeExecutions :: "code_execution list"
  mm_submissions :: "submission list"
  mm_inviteEmailLogs :: "invite_email_log list"

text \<open>What the tables of the database hold.\<close>

record contents =
  k_organizations :: "organization_row list"
  k_exams :: "exam list"
  k_questions :: "question list"
  k_candidates :: "candidate list"
  k_testCases :: "test_case list"
  k_proctorEvents :: "proctor_event list"
  k_proctorDevices :: "proctor_device list"
  k_proctorActions :: "proctor_action list"
  k_competencyReports :: "competency_report list"
  k_identityVerifications :: "identity_row list"
  k_environmentChecks :: "env_check_row list"
  k_examSessions :: "exam_session list"
  k_codeDrafts :: "code_draft list"
  k_codeExecutions :: "code_execution list"
  k_submissions :: "submission list"
  k_inviteEmailLogs :: "invite_email_log list"

record ('d, 'r) store_table = "('d, 'r) table" +
  t_upsert :: "('r \<Rightarrow> bool) \<Rightarrow> ('r \<Rightarrow> 'r) \<Rightarrow> 'r \<Rightarrow> ('d, 'r) act"

record 'd store =
  st_db :: 'd
  st_memory :: memory
  st_databaseUnavailable :: bool

text \<open>
  What an operation of the store is given: the environment, the clock, fresh UUIDs, \<open>Date.parse\<close> on texts that
  \<open>toISOString\<close> did not print, the seeding of a development database, the code runner, and the tables.
\<close>

record 'd store_ctx =
  sc_env :: env
  sc_now :: time
  sc_uuid :: "nat \<Rightarrow> string"
  sc_parseDate :: "string \<Rightarrow> time option"
  sc_seed :: "('d, unit) act"
  sc_admit :: "string \<Rightarrow> unit res"
  sc_docker :: docker
  sc_clock :: "nat \<Rightarrow> time"
  sc_endedAt :: time
  sc_organizations :: "('d, organization_row) store_table"
  sc_exams :: "('d, exam) store_table"
  sc_questions :: "('d, question) store_table"
  sc_candidates :: "('d, candidate) store_table"
  sc_testCases :: "('d, test_case) store_table"
  sc_proctorEvents :: "('d, proctor_event) store_table"
  sc_proctorDevices :: "('d, proctor_device) store_table"
  sc_proctorActions :: "('d, proctor_action) store_table"
  sc_competencyReports :: "('d, competency_report) store_table"
  sc_identityVerifications :: "('d, identity_row) store_table"
  sc_environmentChecks :: "('d, env_check_row) store_table"
  sc_examSessions :: "('d, exam_session) store_table"
  sc_codeDrafts :: "('d, code_draft) store_table"
  sc_codeExecutions :: "('d, code_execution) store_table"
  sc_submissions :: "('d, submission) store_table"
  sc_inviteEmailLogs :: "('d, invite_email_log) store_table"

definition createId :: "'d store_ctx \<Rightarrow> nat \<Rightarrow> string \<Rightarrow> string" where
  "createId c n prefix = prefix @ ''_'' @ take 8 (sc_uuid c n)"

definition createSecretToken :: "'d store_ctx \<Rightarrow> nat \<Rightarrow> string \<Rightarrow> string" where
  "createSecretToken c n prefix = prefix @ ''_'' @ sc_uuid c n"

text \<open>\<open>Date.parse\<close>; \<open>None\<close> is \<open>NaN\<close>.\<close>

definition date_value :: "'d store_ctx \<Rightarrow> date_text \<Rightarrow> time option" where
  "date_value c d = (case d of IsoText t \<Rightarrow> Some t | ClientText s \<Rightarrow> sc_parseDate c s)"

section \<open>Effects\<close>

definition memory_of :: "(memory \<Rightarrow> 'a) \<Rightarrow> ('d store, 'a) act" where
  "memory_of f = (\<lambda>s. (Inr (f (st_memory s)), s))"

definition set_memory :: "(memory \<Rightarrow> memory) \<Rightarrow> ('d store, unit) act" where
  "set_memory f = (\<lambda>s. (Inr (), s\<lparr>st_memory := f (st_memory s)\<rparr>))"

definition on_database :: "('d, 'a) act \<Rightarrow> ('d store, 'a) act" where
  "on_database m = (\<lambda>s. let (r, d) = m (st_db s) in (r, s\<lparr>st_db := d\<rparr>))"

definition mark_unavailable :: "('d store, unit) act" where
  "mark_unavailable = (\<lambda>s. (Inr (), s\<lparr>st_databaseUnavailable := True\<rparr>))"

definition storeDemoAuthEnabled :: "env \<Rightarrow> bool" where
  "storeDemoAuthEnabled env =
     (if env ''ALLOW_DEMO_AUTH'' = Some ''1'' then \<not> is_production env
      else if env ''ALLOW_DEMO_AUTH'' = Some ''0'' then False
      else \<not> is_production env)"

definition databaseFallbackEnabled :: "env \<Rightarrow> bool" where
  "databaseFallbackEnabled env =
     (if env ''DISABLE_DATABASE'' = Some ''1'' \<or> storeDemoAuthEnabled env then True else \<not> is_production env)"

definition is_request_error :: "exn \<Rightarrow> bool" where
  "is_request_error e \<longleftrightarrow> (case e of BadRequest _ \<Rightarrow> True | Forbidden _ \<Rightarrow> True | NotFound _ \<Rightarrow> True | _ \<Rightarrow> False)"

definition storeOperation :: "'d store_ctx \<Rightarrow> ('d store, 'a) act \<Rightarrow> ('d store, 'a option) act" where
  "storeOperation c operation = (\<lambda>s.
     if \<not> databaseAvailable (sc_env c) then ret None s
     else if storeDemoAuthEnabled (sc_env c) then ret None s
     else if st_databaseUnavailable s \<and> databaseFallbackEnabled (sc_env c) then ret None s
     else catchE (bindE operation (\<lambda>x. ret (Some x))) (\<lambda>e.
       if is_request_error e then throwE e
       else if databaseFallbackEnabled (sc_env c) then bindE mark_unavailable (\<lambda>_. ret None)
       else throwE (ServiceUnavailable ''Database operation failed.'')) s)"

text \<open>The operations that only query the database, which are nearly all.\<close>

definition storeDatabase :: "'d store_ctx \<Rightarrow> ('d, 'a) act \<Rightarrow> ('d store, 'a option) act" where
  "storeDatabase c operation = storeOperation c (on_database operation)"

text \<open>\<open>seededDatabaseContext\<close> and \<open>unseededDatabaseContext\<close>.\<close>

definition seededDatabase :: "'d store_ctx \<Rightarrow> ('d, 'a) act \<Rightarrow> ('d store, 'a option) act" where
  "seededDatabase c operation = storeDatabase c (bindE (sc_seed c) (\<lambda>_. operation))"

text \<open>\<open>if (db) return db;\<close> and what follows it.\<close>

definition with_fallback :: "('d store, 'a option) act \<Rightarrow> ('d store, 'a) act \<Rightarrow> ('d store, 'a) act" where
  "with_fallback database fallback = bindE database (\<lambda>db. case db of Some x \<Rightarrow> ret x | None \<Rightarrow> fallback)"

text \<open>A row handed to its mapper.\<close>

definition mapped :: "('a \<Rightarrow> 'b) \<Rightarrow> ('s, 'a) act \<Rightarrow> ('s, 'b) act" where
  "mapped f m = bindE m (\<lambda>x. ret (f x))"

lemma mapped_id [simp]: "mapped (\<lambda>x. x) m = m"
  by (rule ext) (simp add: mapped_def bindE_def ret_def split: prod.split sum.split)

lemma mapped_eq_Inr: "mapped f m s = (Inr y, t) \<longleftrightarrow> (\<exists>x. m s = (Inr x, t) \<and> y = f x)"
  by (auto simp: mapped_def act_Inr)

section \<open>What the store relies on\<close>

text \<open>
  \<open>content\<close> reads the tables of a database; \<open>get\<close> and \<open>put\<close> are the field of one of them. A query that fails leaves
  everything as it was, one that succeeds acts on its own table only.
\<close>

locale store_part =
  fixes T :: "('d, 'r) store_table"
    and content :: "'d \<Rightarrow> 'k"
    and get :: "'k \<Rightarrow> 'r list"
    and put :: "('r list \<Rightarrow> 'r list) \<Rightarrow> 'k \<Rightarrow> 'k"
  assumes get_put: "get (put h k) = h (get k)"
    and find_law: "t_find T p d = (res, d') \<Longrightarrow> d' = d \<and> (\<forall>x. res = Inr x \<longrightarrow> x = List.find p (get (content d)))"
    and findMany_law: "t_findMany T p d = (ress, d') \<Longrightarrow> d' = d \<and> (\<forall>xs. ress = Inr xs \<longrightarrow> xs = filter p (get (content d)))"
    and count_law: "t_count T p d = (resn, d') \<Longrightarrow> d' = d \<and> (\<forall>n. resn = Inr n \<longrightarrow> n = count_rows p (get (content d)))"
    and create_law: "t_create T r d = (resr, d') \<Longrightarrow>
      (\<forall>e. resr = Inl e \<longrightarrow> d' = d) \<and> (\<forall>x. resr = Inr x \<longrightarrow> x = r \<and> content d' = put (\<lambda>rs. rs @ [r]) (content d))"
    and update_law: "t_update T p f d = (resr, d') \<Longrightarrow>
      (\<forall>e. resr = Inl e \<longrightarrow> d' = d) \<and>
      (\<forall>x. resr = Inr x \<longrightarrow> (\<exists>r. List.find p (get (content d)) = Some r \<and> x = f r) \<and> content d' = put (replace_where p f) (content d))"
    and upsert_law: "t_upsert T p f r d = (resr, d') \<Longrightarrow>
      (\<forall>e. resr = Inl e \<longrightarrow> d' = d) \<and>
      (\<forall>x. resr = Inr x \<longrightarrow> (case List.find p (get (content d)) of
          Some r0 \<Rightarrow> x = f r0 \<and> content d' = put (replace_where p f) (content d)
        | None \<Rightarrow> x = r \<and> content d' = put (\<lambda>rs. rs @ [r]) (content d)))"
begin

lemma find_InrD: "t_find T p d = (Inr x, d') \<Longrightarrow> x = List.find p (get (content d)) \<and> d' = d"
  using find_law by blast

lemma findMany_InrD: "t_findMany T p d = (Inr x, d') \<Longrightarrow> x = filter p (get (content d)) \<and> d' = d"
  using findMany_law by blast

lemma count_InrD: "t_count T p d = (Inr x, d') \<Longrightarrow> x = count_rows p (get (content d)) \<and> d' = d"
  using count_law by blast

lemma create_InrD: "t_create T r d = (Inr x, d') \<Longrightarrow> x = r \<and> content d' = put (\<lambda>rs. rs @ [r]) (content d)"
  using create_law by blast

lemma update_InrD: "t_update T p f d = (Inr x, d') \<Longrightarrow>
  (\<exists>r. List.find p (get (content d)) = Some r \<and> x = f r) \<and> content d' = put (replace_where p f) (content d)"
  using update_law by blast

lemma upsert_InrD: "t_upsert T p f r d = (Inr x, d') \<Longrightarrow> (case List.find p (get (content d)) of
    Some r0 \<Rightarrow> x = f r0 \<and> content d' = put (replace_where p f) (content d)
  | None \<Rightarrow> x = r \<and> content d' = put (\<lambda>rs. rs @ [r]) (content d))"
  using upsert_law by blast

lemmas reads_keep = find_law [THEN conjunct1] findMany_law [THEN conjunct1] count_law [THEN conjunct1]

lemma failed_keeps:
  "t_create T r d = (Inl e, d') \<Longrightarrow> d' = d" "t_update T p f d = (Inl e, d') \<Longrightarrow> d' = d"
  "t_upsert T p f r d = (Inl e, d') \<Longrightarrow> d' = d"
  using create_law update_law upsert_law by blast+

end

text \<open>The tables of an in-memory database.\<close>

definition part_table :: "('k \<Rightarrow> 'r list) \<Rightarrow> (('r list \<Rightarrow> 'r list) \<Rightarrow> 'k \<Rightarrow> 'k) \<Rightarrow> ('k, 'r) store_table" where
  "part_table get put = table.extend (list_table get (\<lambda>rs. put (\<lambda>_. rs)))
     (store_table.fields (\<lambda>p f r d. case List.find p (get d) of
        Some r0 \<Rightarrow> (Inr (f r0), put (replace_where p f) d) | None \<Rightarrow> (Inr r, put (\<lambda>rs. rs @ [r]) d)))"

lemma part_table_part:
  assumes "\<And>f k. get (put f k) = f (get k)" and "\<And>f g k. f (get k) = g (get k) \<Longrightarrow> put f k = put g k"
  shows "store_part (part_table get put) id get put"
  by unfold_locales
    (auto simp: part_table_def table.defs store_table.defs list_table_def assms(1) intro!: assms(2) split: option.splits)

definition good_tables :: "'d store_ctx \<Rightarrow> ('d \<Rightarrow> contents) \<Rightarrow> bool" where
  "good_tables c content \<longleftrightarrow>
     store_part (sc_organizations c) content k_organizations k_organizations_update \<and>
     store_part (sc_exams c) content k_exams k_exams_update \<and>
     store_part (sc_questions c) content k_questions k_questions_update \<and>
     store_part (sc_candidates c) content k_candidates k_candidates_update \<and>
     store_part (sc_testCases c) content k_testCases k_testCases_update \<and>
     store_part (sc_proctorEvents c) content k_proctorEvents k_proctorEvents_update \<and>
     store_part (sc_proctorDevices c) content k_proctorDevices k_proctorDevices_update \<and>
     store_part (sc_proctorActions c) content k_proctorActions k_proctorActions_update \<and>
     store_part (sc_competencyReports c) content k_competencyReports k_competencyReports_update \<and>
     store_part (sc_identityVerifications c) content k_identityVerifications k_identityVerifications_update \<and>
     store_part (sc_environmentChecks c) content k_environmentChecks k_environmentChecks_update \<and>
     store_part (sc_examSessions c) content k_examSessions k_examSessions_update \<and>
     store_part (sc_codeDrafts c) content k_codeDrafts k_codeDrafts_update \<and>
     store_part (sc_codeExecutions c) content k_codeExecutions k_codeExecutions_update \<and>
     store_part (sc_submissions c) content k_submissions k_submissions_update \<and>
     store_part (sc_inviteEmailLogs c) content k_inviteEmailLogs k_inviteEmailLogs_update"

lemma good_parts:
  assumes "good_tables c content"
  shows good_organizations: "store_part (sc_organizations c) content k_organizations k_organizations_update"
    and good_exams: "store_part (sc_exams c) content k_exams k_exams_update"
    and good_questions: "store_part (sc_questions c) content k_questions k_questions_update"
    and good_candidates: "store_part (sc_candidates c) content k_candidates k_candidates_update"
    and good_testCases: "store_part (sc_testCases c) content k_testCases k_testCases_update"
    and good_proctorEvents: "store_part (sc_proctorEvents c) content k_proctorEvents k_proctorEvents_update"
    and good_proctorDevices: "store_part (sc_proctorDevices c) content k_proctorDevices k_proctorDevices_update"
    and good_proctorActions: "store_part (sc_proctorActions c) content k_proctorActions k_proctorActions_update"
    and good_competencyReports: "store_part (sc_competencyReports c) content k_competencyReports k_competencyReports_update"
    and good_identityVerifications: "store_part (sc_identityVerifications c) content k_identityVerifications k_identityVerifications_update"
    and good_environmentChecks: "store_part (sc_environmentChecks c) content k_environmentChecks k_environmentChecks_update"
    and good_examSessions: "store_part (sc_examSessions c) content k_examSessions k_examSessions_update"
    and good_codeDrafts: "store_part (sc_codeDrafts c) content k_codeDrafts k_codeDrafts_update"
    and good_codeExecutions: "store_part (sc_codeExecutions c) content k_codeExecutions k_codeExecutions_update"
    and good_submissions: "store_part (sc_submissions c) content k_submissions k_submissions_update"
    and good_inviteEmailLogs: "store_part (sc_inviteEmailLogs c) content k_inviteEmailLogs k_inviteEmailLogs_update"
  using assms by (simp_all add: good_tables_def)

text \<open>What a query of a good table answers.\<close>

lemma good_find:
  assumes "good_tables c content"
  shows "t_find (sc_organizations c) p0 d = (Inr x0, d') \<Longrightarrow> x0 = List.find p0 (k_organizations (content d)) \<and> d' = d"
    and "t_find (sc_exams c) p1 d = (Inr x1, d') \<Longrightarrow> x1 = List.find p1 (k_exams (content d)) \<and> d' = d"
    and "t_find (sc_questions c) p2 d = (Inr x2, d') \<Longrightarrow> x2 = List.find p2 (k_questions (content d)) \<and> d' = d"
    and "t_find (sc_candidates c) p3 d = (Inr x3, d') \<Longrightarrow> x3 = List.find p3 (k_candidates (content d)) \<and> d' = d"
    and "t_find (sc_testCases c) p4 d = (Inr x4, d') \<Longrightarrow> x4 = List.find p4 (k_testCases (content d)) \<and> d' = d"
    and "t_find (sc_proctorEvents c) p5 d = (Inr x5, d') \<Longrightarrow> x5 = List.find p5 (k_proctorEvents (content d)) \<and> d' = d"
    and "t_find (sc_proctorDevices c) p6 d = (Inr x6, d') \<Longrightarrow> x6 = List.find p6 (k_proctorDevices (content d)) \<and> d' = d"
    and "t_find (sc_proctorActions c) p7 d = (Inr x7, d') \<Longrightarrow> x7 = List.find p7 (k_proctorActions (content d)) \<and> d' = d"
    and "t_find (sc_competencyReports c) p8 d = (Inr x8, d') \<Longrightarrow> x8 = List.find p8 (k_competencyReports (content d)) \<and> d' = d"
    and "t_find (sc_identityVerifications c) p9 d = (Inr x9, d') \<Longrightarrow> x9 = List.find p9 (k_identityVerifications (content d)) \<and> d' = d"
    and "t_find (sc_environmentChecks c) p10 d = (Inr x10, d') \<Longrightarrow> x10 = List.find p10 (k_environmentChecks (content d)) \<and> d' = d"
    and "t_find (sc_examSessions c) p11 d = (Inr x11, d') \<Longrightarrow> x11 = List.find p11 (k_examSessions (content d)) \<and> d' = d"
    and "t_find (sc_codeDrafts c) p12 d = (Inr x12, d') \<Longrightarrow> x12 = List.find p12 (k_codeDrafts (content d)) \<and> d' = d"
    and "t_find (sc_codeExecutions c) p13 d = (Inr x13, d') \<Longrightarrow> x13 = List.find p13 (k_codeExecutions (content d)) \<and> d' = d"
    and "t_find (sc_submissions c) p14 d = (Inr x14, d') \<Longrightarrow> x14 = List.find p14 (k_submissions (content d)) \<and> d' = d"
    and "t_find (sc_inviteEmailLogs c) p15 d = (Inr x15, d') \<Longrightarrow> x15 = List.find p15 (k_inviteEmailLogs (content d)) \<and> d' = d"
  by (fact store_part.find_InrD [OF good_organizations [OF assms]]
      store_part.find_InrD [OF good_exams [OF assms]]
      store_part.find_InrD [OF good_questions [OF assms]]
      store_part.find_InrD [OF good_candidates [OF assms]]
      store_part.find_InrD [OF good_testCases [OF assms]]
      store_part.find_InrD [OF good_proctorEvents [OF assms]]
      store_part.find_InrD [OF good_proctorDevices [OF assms]]
      store_part.find_InrD [OF good_proctorActions [OF assms]]
      store_part.find_InrD [OF good_competencyReports [OF assms]]
      store_part.find_InrD [OF good_identityVerifications [OF assms]]
      store_part.find_InrD [OF good_environmentChecks [OF assms]]
      store_part.find_InrD [OF good_examSessions [OF assms]]
      store_part.find_InrD [OF good_codeDrafts [OF assms]]
      store_part.find_InrD [OF good_codeExecutions [OF assms]]
      store_part.find_InrD [OF good_submissions [OF assms]]
      store_part.find_InrD [OF good_inviteEmailLogs [OF assms]])+

lemma good_findMany:
  assumes "good_tables c content"
  shows "t_findMany (sc_organizations c) p0 d = (Inr x0, d') \<Longrightarrow> x0 = filter p0 (k_organizations (content d)) \<and> d' = d"
    and "t_findMany (sc_exams c) p1 d = (Inr x1, d') \<Longrightarrow> x1 = filter p1 (k_exams (content d)) \<and> d' = d"
    and "t_findMany (sc_questions c) p2 d = (Inr x2, d') \<Longrightarrow> x2 = filter p2 (k_questions (content d)) \<and> d' = d"
    and "t_findMany (sc_candidates c) p3 d = (Inr x3, d') \<Longrightarrow> x3 = filter p3 (k_candidates (content d)) \<and> d' = d"
    and "t_findMany (sc_testCases c) p4 d = (Inr x4, d') \<Longrightarrow> x4 = filter p4 (k_testCases (content d)) \<and> d' = d"
    and "t_findMany (sc_proctorEvents c) p5 d = (Inr x5, d') \<Longrightarrow> x5 = filter p5 (k_proctorEvents (content d)) \<and> d' = d"
    and "t_findMany (sc_proctorDevices c) p6 d = (Inr x6, d') \<Longrightarrow> x6 = filter p6 (k_proctorDevices (content d)) \<and> d' = d"
    and "t_findMany (sc_proctorActions c) p7 d = (Inr x7, d') \<Longrightarrow> x7 = filter p7 (k_proctorActions (content d)) \<and> d' = d"
    and "t_findMany (sc_competencyReports c) p8 d = (Inr x8, d') \<Longrightarrow> x8 = filter p8 (k_competencyReports (content d)) \<and> d' = d"
    and "t_findMany (sc_identityVerifications c) p9 d = (Inr x9, d') \<Longrightarrow> x9 = filter p9 (k_identityVerifications (content d)) \<and> d' = d"
    and "t_findMany (sc_environmentChecks c) p10 d = (Inr x10, d') \<Longrightarrow> x10 = filter p10 (k_environmentChecks (content d)) \<and> d' = d"
    and "t_findMany (sc_examSessions c) p11 d = (Inr x11, d') \<Longrightarrow> x11 = filter p11 (k_examSessions (content d)) \<and> d' = d"
    and "t_findMany (sc_codeDrafts c) p12 d = (Inr x12, d') \<Longrightarrow> x12 = filter p12 (k_codeDrafts (content d)) \<and> d' = d"
    and "t_findMany (sc_codeExecutions c) p13 d = (Inr x13, d') \<Longrightarrow> x13 = filter p13 (k_codeExecutions (content d)) \<and> d' = d"
    and "t_findMany (sc_submissions c) p14 d = (Inr x14, d') \<Longrightarrow> x14 = filter p14 (k_submissions (content d)) \<and> d' = d"
    and "t_findMany (sc_inviteEmailLogs c) p15 d = (Inr x15, d') \<Longrightarrow> x15 = filter p15 (k_inviteEmailLogs (content d)) \<and> d' = d"
  by (fact store_part.findMany_InrD [OF good_organizations [OF assms]]
      store_part.findMany_InrD [OF good_exams [OF assms]]
      store_part.findMany_InrD [OF good_questions [OF assms]]
      store_part.findMany_InrD [OF good_candidates [OF assms]]
      store_part.findMany_InrD [OF good_testCases [OF assms]]
      store_part.findMany_InrD [OF good_proctorEvents [OF assms]]
      store_part.findMany_InrD [OF good_proctorDevices [OF assms]]
      store_part.findMany_InrD [OF good_proctorActions [OF assms]]
      store_part.findMany_InrD [OF good_competencyReports [OF assms]]
      store_part.findMany_InrD [OF good_identityVerifications [OF assms]]
      store_part.findMany_InrD [OF good_environmentChecks [OF assms]]
      store_part.findMany_InrD [OF good_examSessions [OF assms]]
      store_part.findMany_InrD [OF good_codeDrafts [OF assms]]
      store_part.findMany_InrD [OF good_codeExecutions [OF assms]]
      store_part.findMany_InrD [OF good_submissions [OF assms]]
      store_part.findMany_InrD [OF good_inviteEmailLogs [OF assms]])+

lemmas good_reads = good_find good_findMany

interpretation organizations_part: store_part "part_table k_organizations k_organizations_update" id k_organizations k_organizations_update
  by (rule part_table_part) simp_all

interpretation exams_part: store_part "part_table k_exams k_exams_update" id k_exams k_exams_update
  by (rule part_table_part) simp_all

interpretation questions_part: store_part "part_table k_questions k_questions_update" id k_questions k_questions_update
  by (rule part_table_part) simp_all

interpretation candidates_part: store_part "part_table k_candidates k_candidates_update" id k_candidates k_candidates_update
  by (rule part_table_part) simp_all

interpretation testCases_part: store_part "part_table k_testCases k_testCases_update" id k_testCases k_testCases_update
  by (rule part_table_part) simp_all

interpretation proctorEvents_part: store_part "part_table k_proctorEvents k_proctorEvents_update" id k_proctorEvents k_proctorEvents_update
  by (rule part_table_part) simp_all

interpretation proctorDevices_part: store_part "part_table k_proctorDevices k_proctorDevices_update" id k_proctorDevices k_proctorDevices_update
  by (rule part_table_part) simp_all

interpretation proctorActions_part: store_part "part_table k_proctorActions k_proctorActions_update" id k_proctorActions k_proctorActions_update
  by (rule part_table_part) simp_all

interpretation competencyReports_part: store_part "part_table k_competencyReports k_competencyReports_update" id k_competencyReports k_competencyReports_update
  by (rule part_table_part) simp_all

interpretation identityVerifications_part: store_part "part_table k_identityVerifications k_identityVerifications_update" id k_identityVerifications k_identityVerifications_update
  by (rule part_table_part) simp_all

interpretation environmentChecks_part: store_part "part_table k_environmentChecks k_environmentChecks_update" id k_environmentChecks k_environmentChecks_update
  by (rule part_table_part) simp_all

interpretation examSessions_part: store_part "part_table k_examSessions k_examSessions_update" id k_examSessions k_examSessions_update
  by (rule part_table_part) simp_all

interpretation codeDrafts_part: store_part "part_table k_codeDrafts k_codeDrafts_update" id k_codeDrafts k_codeDrafts_update
  by (rule part_table_part) simp_all

interpretation codeExecutions_part: store_part "part_table k_codeExecutions k_codeExecutions_update" id k_codeExecutions k_codeExecutions_update
  by (rule part_table_part) simp_all

interpretation submissions_part: store_part "part_table k_submissions k_submissions_update" id k_submissions k_submissions_update
  by (rule part_table_part) simp_all

interpretation inviteEmailLogs_part: store_part "part_table k_inviteEmailLogs k_inviteEmailLogs_update" id k_inviteEmailLogs k_inviteEmailLogs_update
  by (rule part_table_part) simp_all

text \<open>A store over an in-memory database, in a production environment with a database.\<close>

definition production_env :: env where
  "production_env = (\<lambda>v. if v = ''NODE_ENV'' then Some ''production'' else if v = ''DATABASE_URL'' then Some ''postgresql://db'' else None)"

definition plain_ctx :: "env \<Rightarrow> time \<Rightarrow> contents store_ctx" where
  "plain_ctx env now = \<lparr>sc_env = env, sc_now = now, sc_uuid = (\<lambda>n. replicate (Suc n) CHR ''0''), sc_parseDate = (\<lambda>_. None),
     sc_seed = ret (), sc_admit = (\<lambda>_. Inr ()), sc_docker = echo_docker, sc_clock = (\<lambda>_. now), sc_endedAt = now,
     sc_organizations = part_table k_organizations k_organizations_update, sc_exams = part_table k_exams k_exams_update,
     sc_questions = part_table k_questions k_questions_update, sc_candidates = part_table k_candidates k_candidates_update,
     sc_testCases = part_table k_testCases k_testCases_update, sc_proctorEvents = part_table k_proctorEvents k_proctorEvents_update,
     sc_proctorDevices = part_table k_proctorDevices k_proctorDevices_update, sc_proctorActions = part_table k_proctorActions k_proctorActions_update,
     sc_competencyReports = part_table k_competencyReports k_competencyReports_update,
     sc_identityVerifications = part_table k_identityVerifications k_identityVerifications_update,
     sc_environmentChecks = part_table k_environmentChecks k_environmentChecks_update,
     sc_examSessions = part_table k_examSessions k_examSessions_update, sc_codeDrafts = part_table k_codeDrafts k_codeDrafts_update,
     sc_codeExecutions = part_table k_codeExecutions k_codeExecutions_update, sc_submissions = part_table k_submissions k_submissions_update,
     sc_inviteEmailLogs = part_table k_inviteEmailLogs k_inviteEmailLogs_update\<rparr>"

lemma good_plain: "good_tables (plain_ctx env now) id"
  unfolding good_tables_def plain_ctx_def
  by (simp add: organizations_part.store_part_axioms exams_part.store_part_axioms questions_part.store_part_axioms
    candidates_part.store_part_axioms testCases_part.store_part_axioms proctorEvents_part.store_part_axioms
    proctorDevices_part.store_part_axioms proctorActions_part.store_part_axioms competencyReports_part.store_part_axioms
    identityVerifications_part.store_part_axioms environmentChecks_part.store_part_axioms examSessions_part.store_part_axioms
    codeDrafts_part.store_part_axioms codeExecutions_part.store_part_axioms submissions_part.store_part_axioms
    inviteEmailLogs_part.store_part_axioms)

lemma part_table_simps [simp]:
  "t_find (part_table get put) p d = (Inr (List.find p (get d)), d)"
  "t_findMany (part_table get put) p d = (Inr (filter p (get d)), d)"
  "t_count (part_table get put) p d = (Inr (count_rows p (get d)), d)"
  "t_create (part_table get put) r d = (Inr r, put (\<lambda>_. get d @ [r]) d)"
  "t_update (part_table get put) p f d = (case List.find p (get d) of None \<Rightarrow> (Inl (PrismaKnown ''P2025''), d)
     | Some r \<Rightarrow> (Inr (f r), put (\<lambda>_. replace_where p f (get d)) d))"
  "t_upsert (part_table get put) p f r d = (case List.find p (get d) of
        Some r0 \<Rightarrow> (Inr (f r0), put (replace_where p f) d) | None \<Rightarrow> (Inr r, put (\<lambda>rs. rs @ [r]) d))"
  by (simp_all add: part_table_def table.defs store_table.defs list_table_def)

section \<open>How a database operation ends\<close>

text \<open>The database is asked at all.\<close>

definition asks_database :: "'d store_ctx \<Rightarrow> 'd store \<Rightarrow> bool" where
  "asks_database c s \<longleftrightarrow> databaseAvailable (sc_env c) \<and> \<not> storeDemoAuthEnabled (sc_env c) \<and>
     \<not> (st_databaseUnavailable s \<and> databaseFallbackEnabled (sc_env c))"

lemma on_database_eq_Inr:
  "on_database m s = (Inr x, s') \<longleftrightarrow> (\<exists>d. m (st_db s) = (Inr x, d) \<and> s' = s\<lparr>st_db := d\<rparr>)"
  by (auto simp: on_database_def Let_def split: prod.split)

lemma memory_of_eq_Inr: "memory_of f s = (Inr x, s') \<longleftrightarrow> x = f (st_memory s) \<and> s' = s"
  by (auto simp: memory_of_def)

lemma set_memory_eq_Inr: "set_memory f s = (Inr x, s') \<longleftrightarrow> s' = s\<lparr>st_memory := f (st_memory s)\<rparr>"
  by (auto simp: set_memory_def)

lemma mark_unavailable_eq_Inr: "mark_unavailable s = (Inr x, s') \<longleftrightarrow> s' = s\<lparr>st_databaseUnavailable := True\<rparr>"
  by (auto simp: mark_unavailable_def)

lemmas store_Inr = act_Inr mapped_eq_Inr on_database_eq_Inr memory_of_eq_Inr set_memory_eq_Inr mark_unavailable_eq_Inr

lemma storeDatabase_Some:
  "storeDatabase c m s = (Inr (Some x), s') \<longleftrightarrow>
     asks_database c s \<and> (\<exists>d. m (st_db s) = (Inr x, d) \<and> s' = s\<lparr>st_db := d\<rparr>)"
  by (auto simp: storeDatabase_def storeOperation_def asks_database_def store_Inr)

lemma storeDatabase_NoneD:
  assumes "storeDatabase c m s = (Inr None, s')"
  shows "st_memory s' = st_memory s"
  using assms by (auto simp: storeDatabase_def storeOperation_def catchE_def throwE_def mark_unavailable_def on_database_def Let_def bindE_def ret_def
      split: if_splits prod.splits sum.splits)

lemma storeDatabase_production:
  assumes "is_production (sc_env c)" and "databaseAvailable (sc_env c)"
  shows "storeDatabase c m s \<noteq> (Inr None, s')"
  using assms by (auto simp: storeDatabase_def storeOperation_def store_Inr storeDemoAuthEnabled_def databaseFallbackEnabled_def databaseAvailable_def split: if_splits)

lemma seededDatabase_Some:
  "seededDatabase c m s = (Inr (Some x), s') \<longleftrightarrow>
     asks_database c s \<and> (\<exists>d0 d. sc_seed c (st_db s) = (Inr (), d0) \<and> m d0 = (Inr x, d) \<and> s' = s\<lparr>st_db := d\<rparr>)"
  by (auto simp: seededDatabase_def storeDatabase_Some bindE_eq_Inr)

lemma seededDatabase_NoneD: "seededDatabase c m s = (Inr None, s') \<Longrightarrow> st_memory s' = st_memory s"
  unfolding seededDatabase_def by (rule storeDatabase_NoneD)

text \<open>The operation was answered by the database: it was asked, and the service did not fall back after a failure.\<close>

definition used_database :: "'d store_ctx \<Rightarrow> 'd store \<Rightarrow> 'd store \<Rightarrow> bool" where
  "used_database c s s' \<longleftrightarrow> asks_database c s \<and> \<not> (databaseFallbackEnabled (sc_env c) \<and> st_databaseUnavailable s')"

lemma used_database_db [simp]: "used_database c s (s\<lparr>st_db := d\<rparr>) = asks_database c s"
  by (auto simp: used_database_def asks_database_def)

lemma used_database_memory [simp]: "used_database c s (s'\<lparr>st_memory := m\<rparr>) = used_database c s s'"
  by (simp add: used_database_def)

lemma storeDatabase_None_unused:
  assumes "storeDatabase c m s = (Inr None, s')"
  shows "\<not> used_database c s s'"
  using assms by (auto simp: used_database_def asks_database_def storeDatabase_def storeOperation_def catchE_def throwE_def mark_unavailable_def
      on_database_def Let_def bindE_def ret_def split: if_splits prod.splits sum.splits)

text \<open>The two ways an operation succeeds: in the database, after the seeding, or by its fallback.\<close>

lemma with_fallback_Inr:
  "with_fallback database fallback s = (Inr x, s') \<longleftrightarrow>
     database s = (Inr (Some x), s') \<or> (\<exists>s1. database s = (Inr None, s1) \<and> fallback s1 = (Inr x, s'))"
  by (auto simp: with_fallback_def store_Inr split: option.splits)

lemma with_seeded_cases:
  assumes "with_fallback (seededDatabase c operation) fallback s = (Inr x, s')"
  obtains (database) d0 d where "asks_database c s" and "sc_seed c (st_db s) = (Inr (), d0)" and "operation d0 = (Inr x, d)"
      and "s' = s\<lparr>st_db := d\<rparr>"
  | (memory) s1 where "fallback s1 = (Inr x, s')" and "st_memory s1 = st_memory s" and "\<not> used_database c s s1"
  using assms seededDatabase_NoneD [of c operation s] storeDatabase_None_unused [of c "bindE (sc_seed c) (\<lambda>_. operation)" s]
  by (auto simp: with_fallback_Inr seededDatabase_Some seededDatabase_def [symmetric])

lemma with_database_cases:
  assumes "with_fallback (storeDatabase c operation) fallback s = (Inr x, s')"
  obtains (database) d where "asks_database c s" and "operation (st_db s) = (Inr x, d)" and "s' = s\<lparr>st_db := d\<rparr>"
  | (memory) s1 where "fallback s1 = (Inr x, s')" and "st_memory s1 = st_memory s" and "\<not> used_database c s s1"
  using assms storeDatabase_NoneD [of c operation s] storeDatabase_None_unused [of c operation s]
  by (auto simp: with_fallback_Inr storeDatabase_Some)

text \<open>
  What an operation read, and a part of the state before and after it: in the tables, after the seeding
  where there is one, or in memory.
\<close>

definition answered_from ::
  "'d store_ctx \<Rightarrow> ('d \<Rightarrow> contents) \<Rightarrow> 'd store \<Rightarrow> 'd store \<Rightarrow> (contents \<Rightarrow> 'a) \<Rightarrow> (memory \<Rightarrow> 'a) \<Rightarrow> 'a \<Rightarrow> bool"
where
  "answered_from c content s s' get mem x \<longleftrightarrow>
     (if used_database c s s' then \<exists>d. sc_seed c (st_db s) = (Inr (), d) \<and> x = get (content d) else x = mem (st_memory s))"

definition list_moved ::
  "'d store_ctx \<Rightarrow> ('d \<Rightarrow> contents) \<Rightarrow> 'd store \<Rightarrow> 'd store \<Rightarrow> (contents \<Rightarrow> 'a) \<Rightarrow> (memory \<Rightarrow> 'a) \<Rightarrow> 'a \<Rightarrow> 'a \<Rightarrow> bool"
where
  "list_moved c content s s' get mem before after \<longleftrightarrow>
     (if used_database c s s'
      then st_memory s' = st_memory s \<and> after = get (content (st_db s')) \<and> (\<exists>d. sc_seed c (st_db s) = (Inr (), d) \<and> before = get (content d))
      else before = mem (st_memory s) \<and> after = mem (st_memory s'))"

definition list_written ::
  "'d store_ctx \<Rightarrow> ('d \<Rightarrow> contents) \<Rightarrow> 'd store \<Rightarrow> 'd store \<Rightarrow> (contents \<Rightarrow> 'a) \<Rightarrow> (memory \<Rightarrow> 'a) \<Rightarrow> 'a \<Rightarrow> 'a \<Rightarrow> bool"
where
  "list_written c content s s' get mem before after \<longleftrightarrow>
     (if used_database c s s'
      then st_memory s' = st_memory s \<and> before = get (content (st_db s)) \<and> after = get (content (st_db s'))
      else before = mem (st_memory s) \<and> after = mem (st_memory s'))"

lemma database_paths:
  assumes "asks_database c s" and "s' = s\<lparr>st_db := d\<rparr>"
  shows "list_written c content s s' get mem (get (content (st_db s))) (get (content d))"
    and "sc_seed c (st_db s) = (Inr (), d0) \<Longrightarrow> list_moved c content s s' get mem (get (content d0)) (get (content d))"
    and "sc_seed c (st_db s) = (Inr (), d0) \<Longrightarrow> answered_from c content s s' get mem (get (content d0))"
  using assms by (auto simp: list_written_def list_moved_def answered_from_def)

lemma memory_paths:
  assumes "\<not> used_database c s s'"
  shows "list_written c content s s' get mem (mem (st_memory s)) (mem (st_memory s'))"
    and "list_moved c content s s' get mem (mem (st_memory s)) (mem (st_memory s'))"
    and "answered_from c content s s' get mem (mem (st_memory s))"
  using assms by (auto simp: list_written_def list_moved_def answered_from_def)

section \<open>Sample data\<close>

definition empty_contents :: contents where
  "empty_contents = \<lparr>k_organizations = [], k_exams = [], k_questions = [], k_candidates = [], k_testCases = [], k_proctorEvents = [],
     k_proctorDevices = [], k_proctorActions = [], k_competencyReports = [], k_identityVerifications = [], k_environmentChecks = [],
     k_examSessions = [], k_codeDrafts = [], k_codeExecutions = [], k_submissions = [], k_inviteEmailLogs = []\<rparr>"

definition empty_memory :: memory where
  "empty_memory = \<lparr>mm_organization = \<lparr>org_id = ''o1'', org_name = ''Org'', org_joinCode = None, org_createdAt = 0\<rparr>,
     mm_exams = [], mm_questions = [], mm_candidates = [], mm_testCases = [], mm_proctorEvents = [], mm_proctorDevices = [],
     mm_proctorActions = [], mm_competencyReports = [], mm_identityVerifications = [], mm_environmentChecks = [], mm_examSessions = [],
     mm_codeDrafts = [], mm_codeExecutions = [], mm_submissions = [], mm_inviteEmailLogs = []\<rparr>"

definition store_of :: "contents \<Rightarrow> contents store" where
  "store_of k = \<lparr>st_db = k, st_memory = empty_memory, st_databaseUnavailable = False\<rparr>"

abbreviation production_ctx :: "time \<Rightarrow> contents store_ctx" where
  "production_ctx now \<equiv> plain_ctx production_env now"

lemma production_env_simps [simp]:
  "databaseAvailable production_env" "\<not> storeDemoAuthEnabled production_env" "\<not> databaseFallbackEnabled production_env"
  "is_production production_env"
  by (simp_all add: databaseAvailable_def storeDemoAuthEnabled_def databaseFallbackEnabled_def is_production_def production_env_def)

lemma plain_ctx_sel [simp]:
  "sc_env (plain_ctx env now) = env" "sc_now (plain_ctx env now) = now" "sc_seed (plain_ctx env now) = ret ()"
  "sc_uuid (plain_ctx env now) n = CHR ''0'' # replicate n CHR ''0''"
  "sc_parseDate (plain_ctx env now) t = None" "sc_admit (plain_ctx env now) k = Inr ()" "sc_docker (plain_ctx env now) = echo_docker"
  "sc_clock (plain_ctx env now) n = now" "sc_endedAt (plain_ctx env now) = now"
  "sc_organizations (plain_ctx env now) = part_table k_organizations k_organizations_update"
  "sc_exams (plain_ctx env now) = part_table k_exams k_exams_update"
  "sc_questions (plain_ctx env now) = part_table k_questions k_questions_update"
  "sc_candidates (plain_ctx env now) = part_table k_candidates k_candidates_update"
  "sc_testCases (plain_ctx env now) = part_table k_testCases k_testCases_update"
  "sc_proctorEvents (plain_ctx env now) = part_table k_proctorEvents k_proctorEvents_update"
  "sc_proctorDevices (plain_ctx env now) = part_table k_proctorDevices k_proctorDevices_update"
  "sc_proctorActions (plain_ctx env now) = part_table k_proctorActions k_proctorActions_update"
  "sc_competencyReports (plain_ctx env now) = part_table k_competencyReports k_competencyReports_update"
  "sc_identityVerifications (plain_ctx env now) = part_table k_identityVerifications k_identityVerifications_update"
  "sc_environmentChecks (plain_ctx env now) = part_table k_environmentChecks k_environmentChecks_update"
  "sc_examSessions (plain_ctx env now) = part_table k_examSessions k_examSessions_update"
  "sc_codeDrafts (plain_ctx env now) = part_table k_codeDrafts k_codeDrafts_update"
  "sc_codeExecutions (plain_ctx env now) = part_table k_codeExecutions k_codeExecutions_update"
  "sc_submissions (plain_ctx env now) = part_table k_submissions k_submissions_update"
  "sc_inviteEmailLogs (plain_ctx env now) = part_table k_inviteEmailLogs k_inviteEmailLogs_update"
  by (simp_all add: plain_ctx_def)

lemma store_of_sel [simp]:
  "st_db (store_of k) = k" "st_memory (store_of k) = empty_memory" "st_databaseUnavailable (store_of k) = False"
  by (simp_all add: store_of_def)

lemma used_store_of [simp]: "used_database (production_ctx now) (store_of k) s'"
  by (simp add: used_database_def asks_database_def)

lemma st_db_store_of [simp]: "(store_of k)\<lparr>st_db := k'\<rparr> = store_of k'"
  by (simp add: store_of_def)

lemma storeDatabase_store_of:
  "storeDatabase (production_ctx now) m (store_of k) = (case m k of
     (Inr x, k') \<Rightarrow> (Inr (Some x), store_of k')
   | (Inl e, k') \<Rightarrow> (Inl (if is_request_error e then e else ServiceUnavailable ''Database operation failed.''), store_of k'))"
  by (simp add: storeDatabase_def storeOperation_def catchE_def bindE_def on_database_def ret_def throwE_def Let_def split: prod.split sum.split)

lemma with_store_of:
  "with_fallback (storeDatabase (production_ctx now) m) fallback (store_of k) = (case m k of
     (Inr x, k') \<Rightarrow> (Inr x, store_of k')
   | (Inl e, k') \<Rightarrow> (Inl (if is_request_error e then e else ServiceUnavailable ''Database operation failed.''), store_of k'))"
  "with_fallback (seededDatabase (production_ctx now) m) fallback (store_of k) = (case m k of
     (Inr x, k') \<Rightarrow> (Inr x, store_of k')
   | (Inl e, k') \<Rightarrow> (Inl (if is_request_error e then e else ServiceUnavailable ''Database operation failed.''), store_of k'))"
  by (simp_all add: with_fallback_def seededDatabase_def bindE_apply storeDatabase_store_of ret_apply split: prod.split sum.split)

lemmas run_simps = with_store_of storeDatabase_store_of bindE_apply ret_apply throwE_apply liftR_apply memory_of_def set_memory_def
  on_database_def

end
