(* ===== verification/ExamAdmin.thy ===== *)
theory ExamAdmin
  imports Store
begin

text \<open>
  The exams of an organization and what they hold (\<open>platform-store.exam-admin.ts\<close>,
  \<open>platform-store.exam-content.ts\<close>): who may see and manage them, and the operations on exams, questions, test
  cases and candidates, each with its two paths, database and memory.
\<close>

section \<open>Access\<close>

definition assertSessionCanManageExams :: "auth_session \<Rightarrow> unit res" where
  "assertSessionCanManageExams session =
     (if usr_role (as_user session) \<noteq> ADMIN \<and> usr_role (as_user session) \<noteq> ORGANIZATION
      then Inl (Forbidden ''organization managers only'') else Inr ())"

definition assertSessionCanViewExams :: "auth_session \<Rightarrow> unit res" where
  "assertSessionCanViewExams session =
     (if usr_role (as_user session) \<noteq> ADMIN \<and> usr_role (as_user session) \<noteq> ORGANIZATION \<and> usr_role (as_user session) \<noteq> PROCTOR
      then Inl (Forbidden ''operators, managers and proctors only'') else Inr ())"

definition assertSessionCanProctor :: "auth_session \<Rightarrow> unit res" where
  "assertSessionCanProctor session =
     (if usr_role (as_user session) \<noteq> ADMIN \<and> usr_role (as_user session) \<noteq> ORGANIZATION \<and> usr_role (as_user session) \<noteq> PROCTOR
      then Inl (Forbidden ''proctoring accounts only'') else Inr ())"

definition assertSessionCanAccessExam :: "auth_session \<Rightarrow> string \<Rightarrow> unit res" where
  "assertSessionCanAccessExam session organizationId =
     (if usr_role (as_user session) \<noteq> ADMIN \<and> org_id (as_organization session) \<noteq> organizationId
      then Inl (NotFound ''Exam not found'') else Inr ())"

definition canAccessExam :: "auth_session \<Rightarrow> exam \<Rightarrow> bool" where
  "canAccessExam session exam \<longleftrightarrow> ex_status exam \<noteq> DELETED \<and>
     (usr_role (as_user session) = ADMIN \<or> ex_organizationId exam = org_id (as_organization session))"

definition scopedExamWhere :: "auth_session \<Rightarrow> exam \<Rightarrow> bool" where
  "scopedExamWhere session = (if usr_role (as_user session) = ADMIN then (\<lambda>exam. ex_status exam \<noteq> DELETED)
     else (\<lambda>exam. ex_status exam \<noteq> DELETED \<and> ex_organizationId exam = org_id (as_organization session)))"

text \<open>The checks every operation on one exam makes after looking it up.\<close>

definition require_exam :: "auth_session \<Rightarrow> exam option \<Rightarrow> exam res" where
  "require_exam session found = (case found of
       None \<Rightarrow> Inl (NotFound ''Exam not found'')
     | Some exam \<Rightarrow> if ex_status exam = DELETED then Inl (NotFound ''Exam not found'')
         else bindR (assertSessionCanAccessExam session (ex_organizationId exam)) (\<lambda>_. Inr exam))"

section \<open>Exams\<close>

definition sort_oldest :: "('a \<Rightarrow> time) \<Rightarrow> 'a list \<Rightarrow> 'a list" where
  "sort_oldest key xs = sort_key key xs"

definition listExams :: "'d store_ctx \<Rightarrow> auth_session \<Rightarrow> ('d store, exam list) act" where
  "listExams c session =
     bindE (liftR (assertSessionCanViewExams session)) (\<lambda>_.
     with_fallback
       (seededDatabase c (bindE (t_findMany (sc_exams c) (scopedExamWhere session)) (\<lambda>exams.
          ret (map mapExam (sort_newest ex_createdAt exams)))))
       (memory_of (\<lambda>m. sort_newest ex_createdAt (filter (canAccessExam session) (mm_exams m)))))"

definition with_tests :: "test_case list \<Rightarrow> question \<Rightarrow> question_with_tests" where
  "with_tests tests q = question.extend q (question_with_tests.fields (filter (\<lambda>t. tc_questionId t = q_id q) tests))"

definition exam_detail_of :: "exam \<Rightarrow> question list \<Rightarrow> test_case list \<Rightarrow> candidate list \<Rightarrow> exam_detail" where
  "exam_detail_of exam questions tests candidates =
     exam.extend exam (exam_detail.fields (map (with_tests tests) questions) candidates)"

definition mapExamDetail :: "exam \<Rightarrow> question list \<Rightarrow> test_case list \<Rightarrow> candidate list \<Rightarrow> exam_detail" where
  "mapExamDetail exam questions tests candidates =
     exam_detail_of (mapExam exam) (map mapQuestion questions) (map mapTestCase tests) (map mapCandidate candidates)"

text \<open>\<open>findUnique\<close> with the questions, their test cases and the candidates.\<close>

definition find_exam_detail :: "'d store_ctx \<Rightarrow> string \<Rightarrow> ('d, (exam \<times> question list \<times> test_case list \<times> candidate list) option) act" where
  "find_exam_detail c examId =
     bindE (t_find (sc_exams c) (\<lambda>e. ex_id e = examId)) (\<lambda>found. case found of
       None \<Rightarrow> ret None
     | Some exam \<Rightarrow>
         bindE (t_findMany (sc_questions c) (\<lambda>q. q_examId q = examId)) (\<lambda>questions.
         bindE (t_findMany (sc_testCases c) (\<lambda>t. tc_questionId t \<in> q_id ` set questions)) (\<lambda>tests.
         bindE (t_findMany (sc_candidates c) (\<lambda>p. cand_examId p = examId)) (\<lambda>candidates.
         ret (Some (exam, sort_oldest q_createdAt questions, sort_oldest tc_createdAt tests, sort_oldest cand_createdAt candidates))))))"

definition getExamDetail :: "'d store_ctx \<Rightarrow> string \<Rightarrow> auth_session \<Rightarrow> ('d store, exam_detail) act" where
  "getExamDetail c examId session =
     bindE (liftR (assertSessionCanManageExams session)) (\<lambda>_.
     with_fallback
       (seededDatabase c (bindE (find_exam_detail c examId) (\<lambda>found.
          bindE (liftR (require_exam session (map_option fst found))) (\<lambda>exam. case found of
            Some (_, questions, tests, candidates) \<Rightarrow> ret (mapExamDetail exam questions tests candidates)
          | None \<Rightarrow> throwE (NotFound ''Exam not found'')))))
       (bindE (memory_of (\<lambda>m. List.find (\<lambda>e. ex_id e = examId) (mm_exams m))) (\<lambda>found.
        bindE (liftR (require_exam session found)) (\<lambda>exam.
        memory_of (\<lambda>m. exam_detail_of exam (filter (\<lambda>q. q_examId q = examId) (mm_questions m)) (mm_testCases m)
          (filter (\<lambda>p. cand_examId p = examId) (mm_candidates m)))))))"

text \<open>\<open>new Date(text)\<close> written to the database: an invalid date is refused by the client.\<close>

definition database_date :: "'d store_ctx \<Rightarrow> date_text \<Rightarrow> date_text res" where
  "database_date c d = (case date_value c d of Some t \<Rightarrow> Inr (IsoText t) | None \<Rightarrow> Inl (OtherError ''Invalid Date''))"

text \<open>The exam a request describes, as the database and as the memory hold its dates.\<close>

definition exam_of :: "string \<Rightarrow> string \<Rightarrow> exam_status \<Rightarrow> time \<Rightarrow> exam_input \<Rightarrow> exam" where
  "exam_of examId organizationId status createdAt input = \<lparr>ex_id = examId, ex_organizationId = organizationId, ex_title = xi_title input,
     ex_description = xi_description input, ex_startAt = xi_startAt input, ex_endAt = xi_endAt input,
     ex_durationMinutes = xi_durationMinutes input, ex_status = status, ex_languages = xi_languages input,
     ex_proctoringEnabled = xi_proctoringEnabled input, ex_identityVerificationEnabled = xi_identityVerificationEnabled input,
     ex_mobileCameraRequired = xi_mobileCameraRequired input, ex_screenShareRequired = xi_screenShareRequired input,
     ex_createdAt = createdAt\<rparr>"

definition database_input :: "'d store_ctx \<Rightarrow> exam_input \<Rightarrow> exam_input res" where
  "database_input c input =
     bindR (database_date c (xi_startAt input)) (\<lambda>startAt.
     bindR (database_date c (xi_endAt input)) (\<lambda>endAt. Inr (input\<lparr>xi_startAt := startAt, xi_endAt := endAt\<rparr>)))"

text \<open>The body of an update: the contract gives it the type of a creation's, but nothing validates it, so it may lack a field or carry
  any other of an exam. A field that it does not carry is \<open>None\<close>; \<open>{ ...exam, ...input }\<close> writes those it carries over the exam's.
  (Values of another type than the field's, and fields that an exam does not have, are left out.)\<close>

record exam_patch =
  xp_id :: "string option"
  xp_organizationId :: "string option"
  xp_title :: "string option"
  xp_description :: "string option"
  xp_startAt :: "date_text option"
  xp_endAt :: "date_text option"
  xp_durationMinutes :: "int option"
  xp_status :: "exam_status option"
  xp_languages :: "string list option"
  xp_proctoringEnabled :: "bool option"
  xp_identityVerificationEnabled :: "bool option"
  xp_mobileCameraRequired :: "bool option"
  xp_screenShareRequired :: "bool option"
  xp_createdAt :: "time option"

definition overwritten :: "'a option \<Rightarrow> 'a \<Rightarrow> 'a" where
  "overwritten field old = (case field of Some v \<Rightarrow> v | None \<Rightarrow> old)"

definition updated_exam :: "exam_patch \<Rightarrow> exam \<Rightarrow> exam" where
  "updated_exam input exam = \<lparr>ex_id = overwritten (xp_id input) (ex_id exam),
     ex_organizationId = overwritten (xp_organizationId input) (ex_organizationId exam),
     ex_title = overwritten (xp_title input) (ex_title exam), ex_description = overwritten (xp_description input) (ex_description exam),
     ex_startAt = overwritten (xp_startAt input) (ex_startAt exam), ex_endAt = overwritten (xp_endAt input) (ex_endAt exam),
     ex_durationMinutes = overwritten (xp_durationMinutes input) (ex_durationMinutes exam),
     ex_status = overwritten (xp_status input) (ex_status exam), ex_languages = overwritten (xp_languages input) (ex_languages exam),
     ex_proctoringEnabled = overwritten (xp_proctoringEnabled input) (ex_proctoringEnabled exam),
     ex_identityVerificationEnabled = overwritten (xp_identityVerificationEnabled input) (ex_identityVerificationEnabled exam),
     ex_mobileCameraRequired = overwritten (xp_mobileCameraRequired input) (ex_mobileCameraRequired exam),
     ex_screenShareRequired = overwritten (xp_screenShareRequired input) (ex_screenShareRequired exam),
     ex_createdAt = overwritten (xp_createdAt input) (ex_createdAt exam)\<rparr>"

text \<open>The query names its fields, and leaves a column whose field is undefined; \<open>new Date(undefined)\<close> is invalid, so both dates are
  needed.\<close>

definition database_patch :: "'d store_ctx \<Rightarrow> exam_patch \<Rightarrow> exam_patch res" where
  "database_patch c input =
     bindR (case xp_startAt input of Some d \<Rightarrow> database_date c d | None \<Rightarrow> Inl (OtherError ''Invalid Date'')) (\<lambda>startAt.
     bindR (case xp_endAt input of Some d \<Rightarrow> database_date c d | None \<Rightarrow> Inl (OtherError ''Invalid Date'')) (\<lambda>endAt.
       Inr (input\<lparr>xp_id := None, xp_organizationId := None, xp_status := None, xp_createdAt := None,
         xp_startAt := Some startAt, xp_endAt := Some endAt\<rparr>)))"

text \<open>The three changes of an exam; a change in memory replaces the service's field.\<close>

definition createExam :: "'d store_ctx \<Rightarrow> exam_input \<Rightarrow> auth_session \<Rightarrow> ('d store, exam) act" where
  "createExam c input session =
     bindE (liftR (assertSessionCanManageExams session)) (\<lambda>_.
     with_fallback
       (seededDatabase c (bindE (liftR (database_input c input)) (\<lambda>dated.
          mapped mapExam (t_create (sc_exams c) (exam_of (createId c 0 ''exam'') (org_id (as_organization session)) DRAFT (sc_now c) dated)))))
       (let exam = exam_of (createId c 0 ''exam'') (org_id (as_organization session)) DRAFT (sc_now c) input
        in bindE (set_memory (mm_exams_update (\<lambda>exams. exam # exams))) (\<lambda>_. ret exam)))"

definition updateExam :: "'d store_ctx \<Rightarrow> string \<Rightarrow> exam_patch \<Rightarrow> auth_session \<Rightarrow> ('d store, exam) act" where
  "updateExam c examId input session =
     bindE (liftR (assertSessionCanManageExams session)) (\<lambda>_.
     with_fallback
       (seededDatabase c (bindE (t_find (sc_exams c) (\<lambda>e. ex_id e = examId)) (\<lambda>found.
          bindE (liftR (require_exam session found)) (\<lambda>_.
          bindE (liftR (database_patch c input)) (\<lambda>dated.
          mapped mapExam (t_update (sc_exams c) (\<lambda>e. ex_id e = examId) (updated_exam dated)))))))
       (bindE (memory_of (\<lambda>m. List.find (\<lambda>e. ex_id e = examId) (mm_exams m))) (\<lambda>found.
        bindE (liftR (require_exam session found)) (\<lambda>exam.
        bindE (set_memory (mm_exams_update (replace_where (\<lambda>e. ex_id e = examId) (\<lambda>_. updated_exam input exam)))) (\<lambda>_.
        ret (updated_exam input exam))))))"

definition deleteExam :: "'d store_ctx \<Rightarrow> string \<Rightarrow> auth_session \<Rightarrow> ('d store, exam) act" where
  "deleteExam c examId session =
     bindE (liftR (assertSessionCanManageExams session)) (\<lambda>_.
     with_fallback
       (seededDatabase c (bindE (t_find (sc_exams c) (\<lambda>e. ex_id e = examId)) (\<lambda>found.
          bindE (liftR (require_exam session found)) (\<lambda>_.
          mapped mapExam (t_update (sc_exams c) (\<lambda>e. ex_id e = examId) (ex_status_update (\<lambda>_. DELETED)))))))
       (bindE (memory_of (\<lambda>m. List.find (\<lambda>e. ex_id e = examId) (mm_exams m))) (\<lambda>found.
        bindE (liftR (require_exam session found)) (\<lambda>exam.
        bindE (set_memory (mm_exams_update (replace_where (\<lambda>e. ex_id e = examId) (\<lambda>_. exam\<lparr>ex_status := DELETED\<rparr>)))) (\<lambda>_.
        ret (exam\<lparr>ex_status := DELETED\<rparr>))))))"

section \<open>What an exam holds\<close>

definition assertDbExamExists :: "'d store_ctx \<Rightarrow> string \<Rightarrow> auth_session \<Rightarrow> ('d, exam) act" where
  "assertDbExamExists c examId session =
     bindE (t_find (sc_exams c) (\<lambda>e. ex_id e = examId)) (\<lambda>found. liftR (require_exam session found))"

text \<open>The question is selected together with its exam.\<close>

definition assertDbQuestionExists :: "'d store_ctx \<Rightarrow> string \<Rightarrow> auth_session \<Rightarrow> ('d, exam) act" where
  "assertDbQuestionExists c questionId session =
     bindE (t_find (sc_questions c) (\<lambda>q. q_id q = questionId)) (\<lambda>found. case found of
       None \<Rightarrow> throwE (NotFound ''Question not found'')
     | Some question \<Rightarrow> assertDbExamExists c (q_examId question) session)"

definition assertMemoryExamExists :: "memory \<Rightarrow> string \<Rightarrow> auth_session \<Rightarrow> exam res" where
  "assertMemoryExamExists m examId session = require_exam session (List.find (\<lambda>e. ex_id e = examId) (mm_exams m))"

definition new_question :: "'d store_ctx \<Rightarrow> string \<Rightarrow> question_input \<Rightarrow> question" where
  "new_question c examId input = \<lparr>q_id = createId c 0 ''question'', q_examId = examId, q_title = qi_title input,
     q_description = qi_description input, q_type = qi_type input, q_points = qi_points input, q_difficulty = qi_difficulty input,
     q_timeLimitMs = qi_timeLimitMs input, q_memoryLimitMb = qi_memoryLimitMb input, q_choices = qi_choices input,
     q_expectedAnswer = qi_expectedAnswer input, q_createdAt = sc_now c\<rparr>"

definition new_test_case :: "'d store_ctx \<Rightarrow> string \<Rightarrow> test_case_input \<Rightarrow> test_case" where
  "new_test_case c questionId input = \<lparr>tc_id = createId c 0 ''case'', tc_questionId = questionId, tc_input = tci_input input,
     tc_expectedOutput = tci_expectedOutput input, tc_isPublic = tci_isPublic input, tc_createdAt = sc_now c\<rparr>"

definition new_candidate :: "'d store_ctx \<Rightarrow> string \<Rightarrow> candidate_input \<Rightarrow> candidate" where
  "new_candidate c examId input = \<lparr>cand_id = createId c 0 ''candidate'', cand_examId = examId, cand_name = cai_name input,
     cand_email = cai_email input, cand_status = INVITED, cand_inviteToken = createSecretToken c 1 ''invite'',
     cand_identityPrivacyConsentVersion = None, cand_identityPrivacyConsentAcceptedAt = None, cand_createdAt = sc_now c\<rparr>"

definition addQuestion :: "'d store_ctx \<Rightarrow> string \<Rightarrow> question_input \<Rightarrow> auth_session \<Rightarrow> ('d store, question) act" where
  "addQuestion c examId input session =
     bindE (liftR (assertSessionCanManageExams session)) (\<lambda>_.
     with_fallback
       (seededDatabase c (bindE (assertDbExamExists c examId session) (\<lambda>_.
          mapped mapQuestion (t_create (sc_questions c) (new_question c examId input)))))
       (bindE (memory_of (\<lambda>m. assertMemoryExamExists m examId session)) (\<lambda>exam.
        bindE (liftR exam) (\<lambda>_.
        bindE (set_memory (mm_questions_update (\<lambda>xs. xs @ [new_question c examId input]))) (\<lambda>_.
        ret (new_question c examId input))))))"

definition addTestCase :: "'d store_ctx \<Rightarrow> string \<Rightarrow> test_case_input \<Rightarrow> auth_session \<Rightarrow> ('d store, test_case) act" where
  "addTestCase c questionId input session =
     bindE (liftR (assertSessionCanManageExams session)) (\<lambda>_.
     with_fallback
       (seededDatabase c (bindE (assertDbQuestionExists c questionId session) (\<lambda>_.
          mapped mapTestCase (t_create (sc_testCases c) (new_test_case c questionId input)))))
       (bindE (memory_of (\<lambda>m. List.find (\<lambda>q. q_id q = questionId) (mm_questions m))) (\<lambda>found. case found of
          None \<Rightarrow> throwE (NotFound ''Question not found'')
        | Some question \<Rightarrow>
            bindE (memory_of (\<lambda>m. assertMemoryExamExists m (q_examId question) session)) (\<lambda>exam.
            bindE (liftR exam) (\<lambda>_.
            bindE (set_memory (mm_testCases_update (\<lambda>xs. xs @ [new_test_case c questionId input]))) (\<lambda>_.
            ret (new_test_case c questionId input)))))))"

definition addCandidate :: "'d store_ctx \<Rightarrow> string \<Rightarrow> candidate_input \<Rightarrow> auth_session \<Rightarrow> ('d store, candidate) act" where
  "addCandidate c examId input session =
     bindE (liftR (assertSessionCanManageExams session)) (\<lambda>_.
     with_fallback
       (seededDatabase c (bindE (assertDbExamExists c examId session) (\<lambda>_.
          mapped mapCandidate (t_create (sc_candidates c) (new_candidate c examId input)))))
       (bindE (memory_of (\<lambda>m. assertMemoryExamExists m examId session)) (\<lambda>exam.
        bindE (liftR exam) (\<lambda>_.
        bindE (set_memory (mm_candidates_update (\<lambda>xs. xs @ [new_candidate c examId input]))) (\<lambda>_.
        ret (new_candidate c examId input))))))"

section \<open>Tenant isolation\<close>

lemma canAccess_scoped: "scopedExamWhere session = canAccessExam session"
  by (auto simp: scopedExamWhere_def canAccessExam_def)

lemma require_exam_Inr:
  "require_exam session found = Inr exam \<longleftrightarrow> found = Some exam \<and> canAccessExam session exam"
  by (auto simp: require_exam_def assertSessionCanAccessExam_def canAccessExam_def split: option.splits)

lemma manages_Inr: "assertSessionCanManageExams session = Inr u \<longleftrightarrow> usr_role (as_user session) \<in> {ADMIN, ORGANIZATION}"
  by (auto simp: assertSessionCanManageExams_def)

lemma views_Inr: "assertSessionCanViewExams session = Inr u \<longleftrightarrow> usr_role (as_user session) \<in> {ADMIN, ORGANIZATION, PROCTOR}"
  by (auto simp: assertSessionCanViewExams_def)

text \<open>The list of exams is for administrators, managers and proctors, and it is exactly the exams, in the
  database or in memory, that are not deleted and belong to the session's organization (all for an
  administrator), newest first.\<close>

theorem listExams_is_tenant_scoped:
  assumes "good_tables c content" and "listExams c session s = (Inr xs, s')"
  shows "usr_role (as_user session) \<noteq> CANDIDATE \<and>
    (\<exists>exams. answered_from c content s s' k_exams mm_exams exams \<and> set xs = {e \<in> set exams. canAccessExam session e} \<and>
      length xs = length (filter (canAccessExam session) exams)) \<and>
    sorted (map (\<lambda>e. - ex_createdAt e) xs) \<and>
    (usr_role (as_user session) \<noteq> ADMIN \<longrightarrow> (\<forall>e \<in> set xs. ex_organizationId e = org_id (as_organization session)))"
proof -
  have role: "usr_role (as_user session) \<in> {ADMIN, ORGANIZATION, PROCTOR}"
    using assms(2) by (auto simp: listExams_def store_Inr views_Inr)
  from assms(2) have "with_fallback
       (seededDatabase c (bindE (t_findMany (sc_exams c) (scopedExamWhere session)) (\<lambda>exams. ret (sort_newest ex_createdAt exams))))
       (memory_of (\<lambda>m. sort_newest ex_createdAt (filter (canAccessExam session) (mm_exams m)))) s = (Inr xs, s')"
    by (auto simp: listExams_def store_Inr)
  then have "\<exists>exams. answered_from c content s s' k_exams mm_exams exams \<and> xs = sort_newest ex_createdAt (filter (canAccessExam session) exams)"
  proof (cases rule: with_seeded_cases)
    case (database d0 d)
    then show ?thesis
      by (auto simp: answered_from_def store_Inr canAccess_scoped dest!: store_part.findMany_InrD [OF good_exams [OF assms(1)]])
  next
    case (memory s1)
    then show ?thesis by (auto simp: answered_from_def store_Inr)
  qed
  then show ?thesis using role by (fastforce simp: sort_newest_sorted canAccessExam_def)
qed

lemma database_input_Inr:
  "database_input c input = Inr dated \<longleftrightarrow> (\<exists>a b. date_value c (xi_startAt input) = Some a \<and> date_value c (xi_endAt input) = Some b \<and>
     dated = input\<lparr>xi_startAt := IsoText a, xi_endAt := IsoText b\<rparr>)"
  by (auto simp: database_input_def database_date_def bindR_eq_Inr split: option.splits)

lemma overwritten_simps [simp]: "overwritten None old = old" "overwritten (Some v) old = v"
  by (simp_all add: overwritten_def)

lemma database_patch_Inr:
  "database_patch c input = Inr written \<longleftrightarrow> (\<exists>d e a b. xp_startAt input = Some d \<and> xp_endAt input = Some e \<and>
     date_value c d = Some a \<and> date_value c e = Some b \<and>
     written = input\<lparr>xp_id := None, xp_organizationId := None, xp_status := None, xp_createdAt := None,
       xp_startAt := Some (IsoText a), xp_endAt := Some (IsoText b)\<rparr>)"
  by (auto simp: database_patch_def database_date_def bindR_eq_Inr split: option.splits)

text \<open>The one exam an operation changed: it was one the session may manage, and every other exam stayed as it was, where it was.\<close>

definition exam_changed :: "auth_session \<Rightarrow> string \<Rightarrow> exam \<Rightarrow> exam \<Rightarrow> exam list \<Rightarrow> exam list \<Rightarrow> bool" where
  "exam_changed session examId old new before after \<longleftrightarrow>
     List.find (\<lambda>e. ex_id e = examId) before = Some old \<and> canAccessExam session old \<and> new \<in> set after \<and>
     list_all2 (\<lambda>e e'. ex_id e \<noteq> examId \<longrightarrow> e' = e) before after"

lemma exam_changed_replace:
  assumes "List.find (\<lambda>e. ex_id e = examId) before = Some old" and "canAccessExam session old" and "new = f old"
  shows "exam_changed session examId old new before (replace_where (\<lambda>e. ex_id e = examId) f before)"
proof -
  have "old \<in> set before" "ex_id old = examId" using find_SomeD [OF assms(1)] by auto
  then show ?thesis using assms
    by (auto simp: exam_changed_def replace_where_def list_all2_map2 intro!: list_all2_same [THEN iffD2])
qed

lemma updateExam_changed:
  assumes "good_tables c content" and "updateExam c examId input session s = (Inr exam, s')"
  shows "\<exists>before after old written. list_moved c content s s' k_exams mm_exams before after \<and>
    exam_changed session examId old exam before after \<and> exam = updated_exam written old \<and>
    (if used_database c s s' then database_patch c input = Inr written else written = input)"
proof -
  note part = good_exams [OF assms(1)]
  from assms(2) have "with_fallback
       (seededDatabase c (bindE (t_find (sc_exams c) (\<lambda>e. ex_id e = examId)) (\<lambda>found.
          bindE (liftR (require_exam session found)) (\<lambda>_.
          bindE (liftR (database_patch c input)) (\<lambda>dated.
          t_update (sc_exams c) (\<lambda>e. ex_id e = examId) (updated_exam dated))))))
       (bindE (memory_of (\<lambda>m. List.find (\<lambda>e. ex_id e = examId) (mm_exams m))) (\<lambda>found.
        bindE (liftR (require_exam session found)) (\<lambda>exam.
        bindE (set_memory (mm_exams_update (replace_where (\<lambda>e. ex_id e = examId) (\<lambda>_. updated_exam input exam)))) (\<lambda>_.
        ret (updated_exam input exam))))) s = (Inr exam, s')"
    by (simp add: updateExam_def store_Inr)
  then show ?thesis
  proof (cases rule: with_seeded_cases)
    case (database d0 d)
    then obtain written old where w: "database_patch c input = Inr written" and
      old: "List.find (\<lambda>e. ex_id e = examId) (k_exams (content d0)) = Some old" "canAccessExam session old"
      and exam: "exam = updated_exam written old"
      and after: "k_exams (content d) = replace_where (\<lambda>e. ex_id e = examId) (updated_exam written) (k_exams (content d0))"
      by (auto simp: store_Inr require_exam_Inr dest!: store_part.find_InrD [OF part] store_part.update_InrD [OF part])
    have "exam_changed session examId old exam (k_exams (content d0)) (k_exams (content d))"
      unfolding after by (rule exam_changed_replace) (use old exam in auto)
    moreover have "used_database c s s'" using database(1,4) by simp
    ultimately show ?thesis using database_paths(2) [OF database(1,4,2), of content k_exams mm_exams] exam w by (metis (no_types))
  next
    case (memory s1)
    then obtain old where old: "List.find (\<lambda>e. ex_id e = examId) (mm_exams (st_memory s)) = Some old" "canAccessExam session old"
      and exam: "exam = updated_exam input old"
      and after: "mm_exams (st_memory s') = replace_where (\<lambda>e. ex_id e = examId) (\<lambda>_. exam) (mm_exams (st_memory s))"
      and unused: "\<not> used_database c s s'"
      by (auto simp: store_Inr require_exam_Inr)
    have "exam_changed session examId old exam (mm_exams (st_memory s)) (mm_exams (st_memory s'))"
      unfolding after by (rule exam_changed_replace) (use old exam in auto)
    then show ?thesis using memory_paths(2) [OF unused, of content k_exams mm_exams] exam unused by (metis (no_types))
  qed
qed

lemma replaced_are_deleted:
  "(\<And>e. ex_status (f e) = DELETED) \<Longrightarrow>
   \<forall>e \<in> set (replace_where (\<lambda>e. ex_id e = examId) f exams). ex_id e = examId \<longrightarrow> ex_status e = DELETED"
  by (auto simp: replace_where_def)

lemma deleteExam_changed:
  assumes "good_tables c content" and "deleteExam c examId session s = (Inr exam, s')"
  shows "\<exists>before after old. list_moved c content s s' k_exams mm_exams before after \<and>
    exam_changed session examId old exam before after \<and> exam = old\<lparr>ex_status := DELETED\<rparr> \<and>
    (\<forall>e \<in> set after. ex_id e = examId \<longrightarrow> ex_status e = DELETED)"
proof -
  note part = good_exams [OF assms(1)]
  from assms(2) have "with_fallback
       (seededDatabase c (bindE (t_find (sc_exams c) (\<lambda>e. ex_id e = examId)) (\<lambda>found.
          bindE (liftR (require_exam session found)) (\<lambda>_.
          t_update (sc_exams c) (\<lambda>e. ex_id e = examId) (ex_status_update (\<lambda>_. DELETED))))))
       (bindE (memory_of (\<lambda>m. List.find (\<lambda>e. ex_id e = examId) (mm_exams m))) (\<lambda>found.
        bindE (liftR (require_exam session found)) (\<lambda>exam.
        bindE (set_memory (mm_exams_update (replace_where (\<lambda>e. ex_id e = examId) (\<lambda>_. exam\<lparr>ex_status := DELETED\<rparr>)))) (\<lambda>_.
        ret (exam\<lparr>ex_status := DELETED\<rparr>))))) s = (Inr exam, s')"
    by (simp add: deleteExam_def store_Inr)
  then show ?thesis
  proof (cases rule: with_seeded_cases)
    case (database d0 d)
    then obtain old where old: "List.find (\<lambda>e. ex_id e = examId) (k_exams (content d0)) = Some old" "canAccessExam session old"
      and exam: "exam = old\<lparr>ex_status := DELETED\<rparr>"
      and after: "k_exams (content d) = replace_where (\<lambda>e. ex_id e = examId) (ex_status_update (\<lambda>_. DELETED)) (k_exams (content d0))"
      by (auto simp: store_Inr require_exam_Inr dest!: store_part.find_InrD [OF part] store_part.update_InrD [OF part])
    have "exam_changed session examId old exam (k_exams (content d0)) (k_exams (content d))"
      unfolding after by (rule exam_changed_replace) (use old exam in auto)
    moreover have "\<forall>e \<in> set (k_exams (content d)). ex_id e = examId \<longrightarrow> ex_status e = DELETED"
      unfolding after by (rule replaced_are_deleted) simp
    ultimately show ?thesis using exam database_paths(2) [OF database(1,4,2)] by blast
  next
    case (memory s1)
    then obtain old where old: "List.find (\<lambda>e. ex_id e = examId) (mm_exams (st_memory s)) = Some old" "canAccessExam session old"
      "exam = old\<lparr>ex_status := DELETED\<rparr>"
      and after: "mm_exams (st_memory s') = replace_where (\<lambda>e. ex_id e = examId) (\<lambda>_. exam) (mm_exams (st_memory s))"
      and unused: "\<not> used_database c s s'"
      by (auto simp: store_Inr require_exam_Inr)
    have "exam_changed session examId old exam (mm_exams (st_memory s)) (mm_exams (st_memory s'))"
      unfolding after by (rule exam_changed_replace) (use old find_SomeD [OF old(1)] in auto)
    moreover have "\<forall>e \<in> set (mm_exams (st_memory s')). ex_id e = examId \<longrightarrow> ex_status e = DELETED"
      unfolding after by (rule replaced_are_deleted) (simp add: old(3))
    ultimately show ?thesis using old(3) memory_paths(2) [OF unused] by blast
  qed
qed

lemma change_manages:
  "updateExam c examId input session s = (Inr exam, s') \<Longrightarrow> usr_role (as_user session) \<in> {ADMIN, ORGANIZATION}"
  "deleteExam c examId session s = (Inr exam, s') \<Longrightarrow> usr_role (as_user session) \<in> {ADMIN, ORGANIZATION}"
  by (auto simp: updateExam_def deleteExam_def store_Inr manages_Inr)

text \<open>The body of an update that claims none of the fields that a manager cannot choose.\<close>

definition plain_patch :: "exam_patch \<Rightarrow> bool" where
  "plain_patch input \<longleftrightarrow> xp_id input = None \<and> xp_organizationId input = None \<and> xp_status input = None \<and> xp_createdAt input = None"

text \<open>C10. Only an administrator or a manager changes an exam, only one that is not deleted and (but for an
  administrator) of the own organization, and every other exam stays. An update writes the fields that its body
  carries: the named ones in the database, so that identity, organization, status and creation stay, and
  whatever the body carries in memory, so that they stay there only if it carries none of them. A deletion
  changes the status alone, and after it no session can access the exam.\<close>

theorem exam_changes_stay_in_the_organization:
  assumes "good_tables c content"
  shows "(updateExam c examId input session s = (Inr exam, s') \<longrightarrow> usr_role (as_user session) \<in> {ADMIN, ORGANIZATION} \<and>
      (\<exists>before after old. list_moved c content s s' k_exams mm_exams before after \<and> exam_changed session examId old exam before after \<and>
        (if used_database c s s' then \<exists>written. database_patch c input = Inr written \<and> exam = updated_exam written old
         else exam = updated_exam input old) \<and>
        (used_database c s s' \<or> plain_patch input \<longrightarrow> ex_id exam = examId \<and> ex_organizationId exam = ex_organizationId old \<and>
          ex_status exam = ex_status old \<and> ex_createdAt exam = ex_createdAt old) \<and>
        ex_title exam = (case xp_title input of Some t \<Rightarrow> t | None \<Rightarrow> ex_title old))) \<and>
    (deleteExam c examId session s = (Inr exam, s') \<longrightarrow> usr_role (as_user session) \<in> {ADMIN, ORGANIZATION} \<and>
      (\<exists>before after old. list_moved c content s s' k_exams mm_exams before after \<and> exam_changed session examId old exam before after \<and>
        exam = old\<lparr>ex_status := DELETED\<rparr> \<and> (\<forall>e \<in> set after. ex_id e = examId \<longrightarrow> \<not> canAccessExam anybody e)))"
proof (intro conjI impI)
  assume upd: "updateExam c examId input session s = (Inr exam, s')"
  then show "usr_role (as_user session) \<in> {ADMIN, ORGANIZATION}" by (rule change_manages)
  from updateExam_changed [OF assms upd] obtain before after old written where
    u: "list_moved c content s s' k_exams mm_exams before after" "exam_changed session examId old exam before after"
      "exam = updated_exam written old"
      "if used_database c s s' then database_patch c input = Inr written else written = input" by blast
  have "ex_id old = examId" using u(2) by (auto simp: exam_changed_def dest!: find_SomeD)
  with u show "\<exists>before after old. list_moved c content s s' k_exams mm_exams before after \<and> exam_changed session examId old exam before after \<and>
        (if used_database c s s' then \<exists>written. database_patch c input = Inr written \<and> exam = updated_exam written old
         else exam = updated_exam input old) \<and>
        (used_database c s s' \<or> plain_patch input \<longrightarrow> ex_id exam = examId \<and> ex_organizationId exam = ex_organizationId old \<and>
          ex_status exam = ex_status old \<and> ex_createdAt exam = ex_createdAt old) \<and>
        ex_title exam = (case xp_title input of Some t \<Rightarrow> t | None \<Rightarrow> ex_title old)"
    by (intro exI [of _ before] exI [of _ after] exI [of _ old])
      (auto simp: updated_exam_def plain_patch_def database_patch_Inr overwritten_def split: if_splits)
next
  assume del: "deleteExam c examId session s = (Inr exam, s')"
  then show "usr_role (as_user session) \<in> {ADMIN, ORGANIZATION}" by (rule change_manages)
  from deleteExam_changed [OF assms del] show "\<exists>before after old. list_moved c content s s' k_exams mm_exams before after \<and>
      exam_changed session examId old exam before after \<and> exam = old\<lparr>ex_status := DELETED\<rparr> \<and>
      (\<forall>e \<in> set after. ex_id e = examId \<longrightarrow> \<not> canAccessExam anybody e)"
    by (fastforce simp: canAccessExam_def)
qed

text \<open>In memory a manager hands an exam of his organization over to any other, or takes its status into his hands.\<close>

lemma an_update_in_memory_moves_the_exam:
  assumes "\<not> databaseAvailable (sc_env c)" and "usr_role (as_user session) \<in> {ADMIN, ORGANIZATION}"
    and "List.find (\<lambda>e. ex_id e = examId) (mm_exams (st_memory s)) = Some old" and "canAccessExam session old"
    and "xp_organizationId input = Some other" and "xp_status input = Some status"
  shows "\<exists>exam s'. updateExam c examId input session s = (Inr exam, s') \<and> ex_organizationId exam = other \<and> ex_status exam = status"
proof -
  have "require_exam session (Some old) = Inr old" "assertSessionCanManageExams session = Inr ()"
    using assms(2,4) by (auto simp: require_exam_Inr manages_Inr)
  with assms show ?thesis
    by (simp add: updateExam_def with_fallback_def seededDatabase_def storeDatabase_def storeOperation_def bindE_def ret_def liftR_def
      memory_of_def set_memory_def updated_exam_def)
qed

text \<open>What an addition leaves: the one new item, at the end, under an exam the session may manage.\<close>

definition adds_to_exam :: "'d store_ctx \<Rightarrow> ('d \<Rightarrow> contents) \<Rightarrow> 'd store \<Rightarrow> 'd store \<Rightarrow> auth_session \<Rightarrow> string \<Rightarrow> bool" where
  "adds_to_exam c content s s' session examId \<longleftrightarrow> usr_role (as_user session) \<in> {ADMIN, ORGANIZATION} \<and>
     (\<exists>exams exam. answered_from c content s s' k_exams mm_exams exams \<and>
        List.find (\<lambda>e. ex_id e = examId) exams = Some exam \<and> canAccessExam session exam)"

lemma assertDbExamExists_Inr:
  assumes "good_tables c content" and "assertDbExamExists c examId session d = (Inr exam, d')"
  shows "d' = d \<and> List.find (\<lambda>e. ex_id e = examId) (k_exams (content d)) = Some exam \<and> canAccessExam session exam"
  using assms(2) store_part.find_InrD [OF good_exams [OF assms(1)]]
  by (auto simp: assertDbExamExists_def store_Inr require_exam_Inr)

text \<open>An addition under an exam, on either path.\<close>

lemma addition_moved:
  assumes "good_tables c content" and "store_part T content get put"
    and mem: "\<And>f m. mem (put' f m) = f (mem m)"
    and role: "usr_role (as_user session) \<in> {ADMIN, ORGANIZATION}"
    and res: "with_fallback
       (seededDatabase c (bindE (assertDbExamExists c examId session) (\<lambda>_. t_create T r)))
       (bindE (memory_of (\<lambda>m. assertMemoryExamExists m examId session)) (\<lambda>exam.
        bindE (liftR exam) (\<lambda>_. bindE (set_memory (put' (\<lambda>xs. xs @ [r]))) (\<lambda>_. ret r)))) s = (Inr x, s')"
  shows "x = r \<and> adds_to_exam c content s s' session examId \<and> (\<exists>before. list_moved c content s s' get mem before (before @ [r]))"
  using res
proof (cases rule: with_seeded_cases)
  case (database d0 d)
  then obtain exam d1 where "assertDbExamExists c examId session d0 = (Inr exam, d1)" and cr: "t_create T r d1 = (Inr x, d)"
    by (auto simp: store_Inr)
  with assertDbExamExists_Inr [OF assms(1) this(1)] store_part.create_InrD [OF assms(2) cr] store_part.get_put [OF assms(2)] database
  have "x = r" "adds_to_exam c content s s' session examId" "list_moved c content s s' get mem (get (content d0)) (get (content d0) @ [r])"
    using role by (auto simp: adds_to_exam_def answered_from_def list_moved_def)
  then show ?thesis by blast
next
  case (memory s1)
  then have "x = r" "adds_to_exam c content s s' session examId" "list_moved c content s s' get mem (mem (st_memory s)) (mem (st_memory s) @ [r])"
    using role by (auto simp: adds_to_exam_def answered_from_def list_moved_def assertMemoryExamExists_def store_Inr require_exam_Inr mem)
  then show ?thesis by blast
qed

text \<open>A question or a candidate is added only by an administrator or a manager, to an exam that is not deleted
  and that he can access; it is appended as requested, a candidate as invited with a token of the fresh
  secret, and nothing else in the list changes.\<close>

theorem additions_stay_in_the_organization:
  assumes "good_tables c content"
  shows "(addQuestion c examId qinput session s = (Inr q, s') \<longrightarrow>
      q = new_question c examId qinput \<and> adds_to_exam c content s s' session examId \<and>
      (\<exists>before. list_moved c content s s' k_questions mm_questions before (before @ [q]))) \<and>
    (addCandidate c examId cinput session s = (Inr p, s') \<longrightarrow>
      cand_status p = INVITED \<and> cand_examId p = examId \<and> cand_email p = cai_email cinput \<and>
      cand_inviteToken p = ''invite_'' @ sc_uuid c 1 \<and> adds_to_exam c content s s' session examId \<and>
      (\<exists>before. list_moved c content s s' k_candidates mm_candidates before (before @ [p])))"
proof (intro conjI impI)
  assume add: "addQuestion c examId qinput session s = (Inr q, s')"
  have "q = new_question c examId qinput \<and> adds_to_exam c content s s' session examId \<and>
      (\<exists>before. list_moved c content s s' k_questions mm_questions before (before @ [new_question c examId qinput]))"
    by (rule addition_moved [OF assms good_questions [OF assms], where put' = mm_questions_update])
      (use add in \<open>auto simp: addQuestion_def store_Inr manages_Inr\<close>)
  then show "q = new_question c examId qinput" "adds_to_exam c content s s' session examId"
    "\<exists>before. list_moved c content s s' k_questions mm_questions before (before @ [q])" by auto
next
  assume add: "addCandidate c examId cinput session s = (Inr p, s')"
  have "p = new_candidate c examId cinput \<and> adds_to_exam c content s s' session examId \<and>
      (\<exists>before. list_moved c content s s' k_candidates mm_candidates before (before @ [new_candidate c examId cinput]))"
    by (rule addition_moved [OF assms good_candidates [OF assms], where put' = mm_candidates_update])
      (use add in \<open>auto simp: addCandidate_def store_Inr manages_Inr\<close>)
  then show "cand_status p = INVITED" "cand_examId p = examId" "cand_email p = cai_email cinput"
    "cand_inviteToken p = ''invite_'' @ sc_uuid c 1" "adds_to_exam c content s s' session examId"
    "\<exists>before. list_moved c content s s' k_candidates mm_candidates before (before @ [p])"
    by (auto simp: new_candidate_def createSecretToken_def)
qed

section \<open>Witnesses\<close>

definition sample_exam :: exam where
  "sample_exam = \<lparr>ex_id = ''e1'', ex_organizationId = ''o1'', ex_title = ''Exam'', ex_description = [], ex_startAt = IsoText 0,
     ex_endAt = IsoText 1000000, ex_durationMinutes = 10, ex_status = SCHEDULED, ex_languages = [''Python''], ex_proctoringEnabled = True,
     ex_identityVerificationEnabled = True, ex_mobileCameraRequired = True, ex_screenShareRequired = False, ex_createdAt = 0\<rparr>"

definition sample_manager :: auth_session where
  "sample_manager = \<lparr>as_token = ''t'', as_user = \<lparr>usr_id = ''u1'', usr_email = ''a@b.c'', usr_name = ''A'', usr_role = ORGANIZATION,
       usr_organizationId = Some ''o1'', usr_createdAt = 0\<rparr>,
     as_organization = \<lparr>org_id = ''o1'', org_name = ''Org'', org_joinCode = None, org_createdAt = 0\<rparr>, as_passwordChangeRequired = None\<rparr>"

definition exam_contents :: contents where
  "exam_contents = empty_contents\<lparr>k_exams := [sample_exam, sample_exam\<lparr>ex_id := ''e2'', ex_organizationId := ''o2''\<rparr>]\<rparr>"

lemma sample_manager_sel [simp]:
  "usr_role (as_user sample_manager) = ORGANIZATION" "org_id (as_organization sample_manager) = ''o1''"
  by (simp_all add: sample_manager_def)

lemma sample_exam_sel [simp]:
  "ex_id sample_exam = ''e1''" "ex_organizationId sample_exam = ''o1''" "ex_status sample_exam = SCHEDULED"
  by (simp_all add: sample_exam_def)

lemma listExams_is_tenant_scoped_witness:
  "listExams (production_ctx 5) sample_manager (store_of exam_contents) = (Inr [sample_exam], store_of exam_contents) \<and>
   ex_organizationId sample_exam = org_id (as_organization sample_manager)"
proof -
  have "listExams (production_ctx 5) sample_manager (store_of exam_contents) = (Inr [sample_exam], store_of exam_contents)"
    by (simp add: listExams_def run_simps assertSessionCanViewExams_def exam_contents_def scopedExamWhere_def sort_newest_def)
  with listExams_is_tenant_scoped [OF good_plain this] show ?thesis by simp
qed

lemma exam_changes_stay_in_the_organization_witness:
  "\<exists>exam s'. deleteExam (production_ctx 5) ''e1'' sample_manager (store_of exam_contents) = (Inr exam, s') \<and>
     ex_organizationId exam = ''o1''"
proof -
  obtain s' where del: "deleteExam (production_ctx 5) ''e1'' sample_manager (store_of exam_contents) = (Inr (sample_exam\<lparr>ex_status := DELETED\<rparr>), s')"
    by (simp add: deleteExam_def run_simps assertSessionCanManageExams_def require_exam_def assertSessionCanAccessExam_def exam_contents_def)
  from conjunct2 [OF exam_changes_stay_in_the_organization [OF good_plain]] del show ?thesis by fastforce
qed

lemma additions_stay_in_the_organization_witness:
  "\<exists>p s'. addCandidate (production_ctx 5) ''e1'' \<lparr>cai_name = ''C'', cai_email = ''c@d.e''\<rparr> sample_manager (store_of exam_contents) = (Inr p, s') \<and>
     cand_status p = INVITED \<and> cand_inviteToken p = ''invite_00''"
proof -
  let ?in = "\<lparr>cai_name = ''C'', cai_email = ''c@d.e''\<rparr>"
  obtain s' where add: "addCandidate (production_ctx 5) ''e1'' ?in sample_manager (store_of exam_contents) =
      (Inr (new_candidate (production_ctx 5) ''e1'' ?in), s')"
    by (simp add: addCandidate_def run_simps assertSessionCanManageExams_def assertDbExamExists_def require_exam_def
      assertSessionCanAccessExam_def exam_contents_def)
  from conjunct2 [OF additions_stay_in_the_organization [OF good_plain]] add show ?thesis by fastforce
qed

end
