(* ===== verification/Seed.thy ===== *)
theory Seed
  imports ExamAdmin
begin

text \<open>
  The demonstration data (\<open>platform-store.seed.ts\<close>) the store starts with in memory, and its copy into an empty
  development database before the operations that ask for it (\<open>platform-store.seed-data.ts\<close>).
\<close>

section \<open>The data\<close>

definition demo_exam :: "time \<Rightarrow> exam" where
  "demo_exam now = \<lparr>ex_id = ''exam_backend_001'', ex_organizationId = ''org_demo'', ex_title = ''Backend Developer Screening'',
     ex_description = ''90 minute coding assessment for API design, data structures, and debugging flow.'',
     ex_startAt = IsoText (now + 1000 * 60 * 60 * 24), ex_endAt = IsoText (now + 1000 * 60 * 60 * 30), ex_durationMinutes = 90,
     ex_status = SCHEDULED, ex_languages = [''Python'', ''JavaScript'', ''Java''], ex_proctoringEnabled = True,
     ex_identityVerificationEnabled = True, ex_mobileCameraRequired = True, ex_screenShareRequired = True, ex_createdAt = now\<rparr>"

definition demo_question :: "time \<Rightarrow> question" where
  "demo_question now = \<lparr>q_id = ''question_cache_001'', q_examId = ''exam_backend_001'', q_title = ''Implement LRU Cache'',
     q_description = ''Implement an LRU Cache where get and put run in average O(1) time.'', q_type = CODING, q_points = 100,
     q_difficulty = MEDIUM, q_timeLimitMs = 2000, q_memoryLimitMb = 256, q_choices = [], q_expectedAnswer = None, q_createdAt = now\<rparr>"

definition demo_candidate :: "time \<Rightarrow> candidate" where
  "demo_candidate now = \<lparr>cand_id = ''candidate_001'', cand_examId = ''exam_backend_001'', cand_name = ''Kim Minjun'',
     cand_email = ''minjun@example.com'', cand_status = INVITED, cand_inviteToken = ''invite_demo_001'',
     cand_identityPrivacyConsentVersion = None, cand_identityPrivacyConsentAcceptedAt = None, cand_createdAt = now\<rparr>"

definition demo_tests :: "time \<Rightarrow> test_case list" where
  "demo_tests now =
     [\<lparr>tc_id = ''case_cache_public_001'', tc_questionId = ''question_cache_001'', tc_input = ''capacity=2; put(1,1); put(2,2); get(1)'',
       tc_expectedOutput = ''1'', tc_isPublic = True, tc_createdAt = now\<rparr>,
      \<lparr>tc_id = ''case_cache_hidden_001'', tc_questionId = ''question_cache_001'', tc_input = ''capacity=2; put(1,1); put(2,2); put(3,3); get(2)'',
       tc_expectedOutput = ''2'', tc_isPublic = False, tc_createdAt = now\<rparr>]"

definition createPlatformSeedData :: "time \<Rightarrow> memory" where
  "createPlatformSeedData now =
     \<lparr>mm_organization = \<lparr>org_id = ''org_demo'', org_name = ''Acme Engineering Hiring'', org_joinCode = None, org_createdAt = now\<rparr>,
      mm_exams = [demo_exam now], mm_questions = [demo_question now], mm_candidates = [demo_candidate now], mm_testCases = demo_tests now,
      mm_proctorEvents = [], mm_proctorDevices = [], mm_proctorActions = [], mm_competencyReports = [], mm_identityVerifications = [],
      mm_environmentChecks = [], mm_examSessions = [], mm_codeDrafts = [], mm_codeExecutions = [], mm_submissions = [],
      mm_inviteEmailLogs = []\<rparr>"

section \<open>Its copy into the database\<close>

definition seed_organization :: "'d store_ctx \<Rightarrow> organization \<Rightarrow> organization_row" where
  "seed_organization c r = \<lparr>o_id = org_id r, o_name = org_name r,
     o_joinCode = (case org_joinCode r of Some joinCode \<Rightarrow> joinCode
       | None \<Rightarrow> ''ORG-'' @ toUpperCase (take 8 (if startsWith (org_id r) ''org_'' then drop 4 (org_id r) else org_id r))),
     o_createdAt = sc_now c\<rparr>"

definition seed_exam :: "'d store_ctx \<Rightarrow> exam \<Rightarrow> exam res" where
  "seed_exam c exam = bindR (database_date c (ex_startAt exam)) (\<lambda>startAt. bindR (database_date c (ex_endAt exam)) (\<lambda>endAt.
     Inr (exam\<lparr>ex_startAt := startAt, ex_endAt := endAt, ex_createdAt := sc_now c\<rparr>)))"

text \<open>\<open>createMany\<close> of rows, and the same with \<open>skipDuplicates\<close>; a nested create and a \<open>createMany\<close> are one transaction.\<close>

fun create_tests :: "'d store_ctx \<Rightarrow> test_case list \<Rightarrow> ('d, unit) act" where
  "create_tests c [] = ret ()"
| "create_tests c (testCase # testCases) = bindE (t_create (sc_testCases c) testCase) (\<lambda>_. create_tests c testCases)"

fun create_new_tests :: "'d store_ctx \<Rightarrow> test_case list \<Rightarrow> ('d, unit) act" where
  "create_new_tests c [] = ret ()"
| "create_new_tests c (testCase # testCases) =
     bindE (t_find (sc_testCases c) (\<lambda>t. tc_id t = tc_id testCase)) (\<lambda>found.
     bindE (case found of Some _ \<Rightarrow> ret () | None \<Rightarrow> bindE (t_create (sc_testCases c) testCase) (\<lambda>_. ret ())) (\<lambda>_.
     create_new_tests c testCases))"

definition create_demo_exam :: "'d store_ctx \<Rightarrow> memory \<Rightarrow> exam \<Rightarrow> question \<Rightarrow> candidate \<Rightarrow> ('d, unit) act" where
  "create_demo_exam c state demoExam demoQuestion demoCandidate =
     transaction
       (bindE (liftR (seed_exam c demoExam)) (\<lambda>exam.
        bindE (t_create (sc_exams c) exam) (\<lambda>_.
        bindE (t_create (sc_questions c) (demoQuestion\<lparr>q_examId := ex_id demoExam, q_createdAt := sc_now c\<rparr>)) (\<lambda>_.
        bindE (create_tests c (map (\<lambda>t. t\<lparr>tc_createdAt := sc_now c\<rparr>) (filter (\<lambda>t. tc_questionId t = q_id demoQuestion) (mm_testCases state)))) (\<lambda>_.
        bindE (t_create (sc_candidates c) (demoCandidate\<lparr>cand_examId := ex_id demoExam, cand_identityPrivacyConsentVersion := None,
          cand_identityPrivacyConsentAcceptedAt := None, cand_createdAt := sc_now c\<rparr>)) (\<lambda>_.
        ret ()))))))"

definition seed_first_exam :: "'d store_ctx \<Rightarrow> memory \<Rightarrow> ('d, unit) act" where
  "seed_first_exam c state = (case (head_opt (mm_exams state), head_opt (mm_questions state), head_opt (mm_candidates state)) of
       (Some demoExam, Some demoQuestion, Some demoCandidate) \<Rightarrow> create_demo_exam c state demoExam demoQuestion demoCandidate
     | _ \<Rightarrow> ret ())"

definition seed_test_cases :: "'d store_ctx \<Rightarrow> memory \<Rightarrow> ('d, unit) act" where
  "seed_test_cases c state = (case head_opt (mm_questions state) of
       None \<Rightarrow> ret ()
     | Some demoQuestion \<Rightarrow>
         bindE (t_count (sc_testCases c) (\<lambda>t. tc_questionId t = q_id demoQuestion)) (\<lambda>testCaseCount.
         if testCaseCount = 0
         then transaction (create_new_tests c (map (\<lambda>t. t\<lparr>tc_createdAt := sc_now c\<rparr>) (mm_testCases state)))
         else ret ()))"

definition ensurePlatformSeedData :: "'d store_ctx \<Rightarrow> memory \<Rightarrow> ('d, unit) act" where
  "ensurePlatformSeedData c state =
     (if is_production (sc_env c) then ret ()
      else bindE (t_upsert (sc_organizations c) (\<lambda>r. o_id r = org_id (mm_organization state)) (\<lambda>r. r)
               (seed_organization c (mm_organization state))) (\<lambda>_.
           bindE (t_count (sc_exams c) (\<lambda>_. True)) (\<lambda>examCount.
           if examCount = 0 then seed_first_exam c state else seed_test_cases c state)))"

section \<open>Seeding fills an empty database once\<close>

lemma create_tests_content:
  assumes "good_tables c content" and "create_tests c ts d = (Inr (), d')"
  shows "content d' = k_testCases_update (\<lambda>rs. rs @ ts) (content d)"
  using assms(2)
proof (induction ts arbitrary: d)
  case (Cons t ts)
  then obtain r d1 where "t_create (sc_testCases c) t d = (Inr r, d1)" "create_tests c ts d1 = (Inr (), d')"
    by (auto simp: store_Inr)
  with Cons.IH [of d1] store_part.create_InrD [OF good_testCases [OF assms(1)], of t d r d1] show ?case by simp
qed (simp add: store_Inr)

fun missing_tests :: "test_case list \<Rightarrow> test_case list \<Rightarrow> test_case list" where
  "missing_tests rs [] = []"
| "missing_tests rs (t # ts) = (if \<exists>r \<in> set rs. tc_id r = tc_id t then missing_tests rs ts else t # missing_tests (rs @ [t]) ts)"

lemma create_new_tests_content:
  assumes "good_tables c content" and "create_new_tests c ts d = (Inr (), d')"
  shows "content d' = k_testCases_update (\<lambda>_. k_testCases (content d) @ missing_tests (k_testCases (content d)) ts) (content d)"
  using assms(2)
proof (induction ts arbitrary: d)
  case (Cons t ts)
  then obtain found d0 where find: "t_find (sc_testCases c) (\<lambda>r. tc_id r = tc_id t) d = (Inr found, d0)"
    and rest: "bindE (case found of Some _ \<Rightarrow> ret () | None \<Rightarrow> bindE (t_create (sc_testCases c) t) (\<lambda>_. ret ()))
      (\<lambda>_. create_new_tests c ts) d0 = (Inr (), d')"
    by (auto simp: store_Inr)
  from store_part.find_InrD [OF good_testCases [OF assms(1)] find]
  have found: "found = List.find (\<lambda>r. tc_id r = tc_id t) (k_testCases (content d))" and [simp]: "d0 = d" by simp_all
  show ?case
  proof (cases found)
    case None
    with rest obtain r d1 where create: "t_create (sc_testCases c) t d = (Inr r, d1)"
      and more: "create_new_tests c ts d1 = (Inr (), d')"
      by (auto simp: store_Inr)
    from store_part.create_InrD [OF good_testCases [OF assms(1)] create]
    have d1: "content d1 = k_testCases_update (\<lambda>rs. rs @ [t]) (content d)" ..
    from None found have "find (\<lambda>r. tc_id r = tc_id t) (k_testCases (content d)) = None" by simp
    then have "missing_tests (k_testCases (content d)) (t # ts) = t # missing_tests (k_testCases (content d) @ [t]) ts"
      unfolding find_None_iff missing_tests.simps by (intro if_not_P) blast
    with Cons.IH [OF more] show ?thesis unfolding d1 by (simp del: missing_tests.simps)
  next
    case (Some r)
    with rest have more: "create_new_tests c ts d = (Inr (), d')" by (simp add: store_Inr)
    from Some found [symmetric] find_SomeD have "\<exists>r \<in> set (k_testCases (content d)). tc_id r = tc_id t" by fastforce
    then have "missing_tests (k_testCases (content d)) (t # ts) = missing_tests (k_testCases (content d)) ts"
      unfolding missing_tests.simps by (rule if_P)
    with Cons.IH [OF more] show ?thesis by (simp only:)
  qed
qed (simp add: store_Inr)

lemma create_demo_exam_content:
  assumes "good_tables c content" and "create_demo_exam c state x q p d = (Inr (), d')"
  shows "k_exams (content d') \<noteq> []"
    and "k_organizations (content d') = k_organizations (content d)"
    and "k_testCases (content d') = k_testCases (content d) @
      map (\<lambda>t. t\<lparr>tc_createdAt := sc_now c\<rparr>) (filter (\<lambda>t. tc_questionId t = q_id q) (mm_testCases state))"
proof -
  let ?ts = "map (\<lambda>t. t\<lparr>tc_createdAt := sc_now c\<rparr>) (filter (\<lambda>t. tc_questionId t = q_id q) (mm_testCases state))"
  obtain exam x1 d1 q1 d2 d3 p1 where e: "t_create (sc_exams c) exam d = (Inr x1, d1)"
    and q: "t_create (sc_questions c) (q\<lparr>q_examId := ex_id x, q_createdAt := sc_now c\<rparr>) d1 = (Inr q1, d2)"
    and t: "create_tests c ?ts d2 = (Inr (), d3)"
    and p: "t_create (sc_candidates c) (p\<lparr>cand_examId := ex_id x, cand_identityPrivacyConsentVersion := None,
          cand_identityPrivacyConsentAcceptedAt := None, cand_createdAt := sc_now c\<rparr>) d3 = (Inr p1, d')"
    using assms(2) by (auto simp: create_demo_exam_def store_Inr transaction_Inr)
  note steps = store_part.create_InrD [OF good_exams [OF assms(1)] e] store_part.create_InrD [OF good_questions [OF assms(1)] q]
    create_tests_content [OF assms(1) t] store_part.create_InrD [OF good_candidates [OF assms(1)] p]
  show "k_exams (content d') \<noteq> []" "k_organizations (content d') = k_organizations (content d)"
    "k_testCases (content d') = k_testCases (content d) @ ?ts"
    using steps by simp_all
qed

text \<open>A seeding that finds its organization, an exam and a test case of its question does nothing more.\<close>

definition seeded :: "memory \<Rightarrow> contents \<Rightarrow> bool" where
  "seeded state k \<longleftrightarrow> (\<exists>r \<in> set (k_organizations k). o_id r = org_id (mm_organization state)) \<and> k_exams k \<noteq> [] \<and>
     (\<forall>q. head_opt (mm_questions state) = Some q \<longrightarrow>
        filter (\<lambda>t. tc_questionId t = q_id q) (k_testCases k) \<noteq> [] \<or>
        (\<forall>t \<in> set (mm_testCases state). \<exists>r \<in> set (k_testCases k). tc_id r = tc_id t))"

lemma replace_where_same [simp]: "replace_where p (\<lambda>r. r) xs = xs"
  by (simp add: replace_where_def)

lemma missing_tests_none: "(\<forall>t \<in> set ts. \<exists>r \<in> set rs. tc_id r = tc_id t) \<Longrightarrow> missing_tests rs ts = []"
  by (induction ts) auto

lemma missing_tests_all: "t \<in> set ts \<Longrightarrow> \<exists>r \<in> set (rs @ missing_tests rs ts). tc_id r = tc_id t"
proof (induction ts arbitrary: rs)
  case (Cons x ts)
  show ?case
  proof (cases "t = x")
    case False
    with Cons.prems Cons.IH [of rs] Cons.IH [of "rs @ [x]"] show ?thesis by simp
  qed auto
qed simp

lemma seed_test_cases_seeded:
  assumes "good_tables c content" and "seeded state (content d)" and "seed_test_cases c state d = (Inr (), d')"
  shows "content d' = content d"
proof (cases "head_opt (mm_questions state)")
  case None
  with assms(3) show ?thesis by (simp add: seed_test_cases_def ret_eq_Inr)
next
  case (Some q)
  let ?ts = "map (\<lambda>t. t\<lparr>tc_createdAt := sc_now c\<rparr>) (mm_testCases state)"
  from Some assms(3) obtain k d3 where tests: "t_count (sc_testCases c) (\<lambda>t. tc_questionId t = q_id q) d = (Inr k, d3)"
    and last: "(if k = 0 then transaction (create_new_tests c ?ts) else ret ()) d3 = (Inr (), d')"
    by (auto simp: seed_test_cases_def bindE_eq_Inr)
  from store_part.count_InrD [OF good_testCases [OF assms(1)] tests]
  have k: "k = count_rows (\<lambda>t. tc_questionId t = q_id q) (k_testCases (content d))" "d3 = d" by simp_all
  show ?thesis
  proof (cases "k = 0")
    case True
    with k assms(2) Some have "\<forall>t \<in> set (mm_testCases state). \<exists>r \<in> set (k_testCases (content d)). tc_id r = tc_id t"
      unfolding seeded_def count_rows_def by auto
    then have "missing_tests (k_testCases (content d)) ?ts = []" by (intro missing_tests_none) simp
    moreover from True last k(2) have "create_new_tests c ?ts d = (Inr (), d')" by (simp add: transaction_Inr)
    ultimately show ?thesis using create_new_tests_content [OF assms(1)] by simp
  next
    case False
    with last k(2) show ?thesis by (simp add: ret_eq_Inr)
  qed
qed

lemma seeded_again:
  assumes "good_tables c content" and "seeded state (content d)" and "ensurePlatformSeedData c state d = (Inr (), d')"
  shows "content d' = content d"
proof (cases "is_production (sc_env c)")
  case True
  with assms(3) show ?thesis by (simp add: ensurePlatformSeedData_def ret_eq_Inr)
next
  case False
  with assms(3) obtain r d1 n d2
    where up: "t_upsert (sc_organizations c) (\<lambda>r. o_id r = org_id (mm_organization state)) (\<lambda>r. r)
        (seed_organization c (mm_organization state)) d = (Inr r, d1)"
      and count: "t_count (sc_exams c) (\<lambda>_. True) d1 = (Inr n, d2)"
      and rest: "(if n = 0 then seed_first_exam c state else seed_test_cases c state) d2 = (Inr (), d')"
    by (auto simp: ensurePlatformSeedData_def bindE_eq_Inr)
  from assms(2) obtain r1 where "r1 \<in> set (k_organizations (content d))" "o_id r1 = org_id (mm_organization state)"
    unfolding seeded_def by blast
  then obtain r0 where "List.find (\<lambda>r. o_id r = org_id (mm_organization state)) (k_organizations (content d)) = Some r0"
    by (cases "List.find (\<lambda>r. o_id r = org_id (mm_organization state)) (k_organizations (content d))") (auto simp: find_None_iff)
  with store_part.upsert_InrD [OF good_organizations [OF assms(1)] up] have d1: "content d1 = content d" by simp
  from store_part.count_InrD [OF good_exams [OF assms(1)] count] have n: "n = count_rows (\<lambda>_. True) (k_exams (content d))" "d2 = d1"
    by (simp_all add: d1)
  with assms(2) rest have "seed_test_cases c state d1 = (Inr (), d')" by (simp add: count_rows_def seeded_def)
  with seed_test_cases_seeded [OF assms(1), of state d1 d'] assms(2) d1 show ?thesis by simp
qed

lemma seed_test_cases_fills:
  assumes "good_tables c content" and "seed_test_cases c state d = (Inr (), d')" and "k_exams (content d) \<noteq> []"
    and "\<exists>r \<in> set (k_organizations (content d)). o_id r = org_id (mm_organization state)"
  shows "seeded state (content d')"
proof (cases "head_opt (mm_questions state)")
  case None
  with assms(2-4) show ?thesis by (simp add: seed_test_cases_def ret_eq_Inr seeded_def)
next
  case (Some q)
  let ?ts = "map (\<lambda>t. t\<lparr>tc_createdAt := sc_now c\<rparr>) (mm_testCases state)"
  from Some assms(2) obtain k d3 where tests: "t_count (sc_testCases c) (\<lambda>t. tc_questionId t = q_id q) d = (Inr k, d3)"
    and last: "(if k = 0 then transaction (create_new_tests c ?ts) else ret ()) d3 = (Inr (), d')"
    by (auto simp: seed_test_cases_def bindE_eq_Inr)
  from store_part.count_InrD [OF good_testCases [OF assms(1)] tests]
  have k: "k = count_rows (\<lambda>t. tc_questionId t = q_id q) (k_testCases (content d))" "d3 = d" by simp_all
  show ?thesis
  proof (cases "k = 0")
    case True
    with last k(2) have "create_new_tests c ?ts d = (Inr (), d')" by (simp add: transaction_Inr)
    note d' = create_new_tests_content [OF assms(1) this]
    have "\<exists>r \<in> set (k_testCases (content d')). tc_id r = tc_id t" if "t \<in> set (mm_testCases state)" for t
      using missing_tests_all [of "t\<lparr>tc_createdAt := sc_now c\<rparr>" ?ts "k_testCases (content d)"] that by (simp add: d')
    then show ?thesis using assms(3,4) by (simp add: seeded_def d')
  next
    case False
    with last k have "d' = d" "filter (\<lambda>t. tc_questionId t = q_id q) (k_testCases (content d)) \<noteq> []"
      by (auto simp: ret_eq_Inr count_rows_def)
    then show ?thesis using assms(3,4) Some by (simp add: seeded_def)
  qed
qed

lemma ensure_seeds:
  assumes "good_tables c content" and "\<not> is_production (sc_env c)"
    and "ensurePlatformSeedData c (createPlatformSeedData t) d = (Inr (), d')"
  shows "seeded (createPlatformSeedData t) (content d')"
proof -
  let ?state = "createPlatformSeedData t"
  from assms(2,3) obtain r d1 n d2
    where up: "t_upsert (sc_organizations c) (\<lambda>r. o_id r = org_id (mm_organization ?state)) (\<lambda>r. r)
        (seed_organization c (mm_organization ?state)) d = (Inr r, d1)"
      and count: "t_count (sc_exams c) (\<lambda>_. True) d1 = (Inr n, d2)"
      and rest: "(if n = 0 then seed_first_exam c ?state else seed_test_cases c ?state) d2 = (Inr (), d')"
    by (auto simp: ensurePlatformSeedData_def bindE_eq_Inr)
  from store_part.upsert_InrD [OF good_organizations [OF assms(1)] up]
  have o: "\<exists>r \<in> set (k_organizations (content d1)). o_id r = org_id (mm_organization ?state)"
    by (auto simp: seed_organization_def split: option.splits dest!: find_SomeD)
  from store_part.count_InrD [OF good_exams [OF assms(1)] count] have n: "n = count_rows (\<lambda>_. True) (k_exams (content d1))" "d2 = d1"
    by simp_all
  show ?thesis
  proof (cases "n = 0")
    case True
    with rest n(2) have "create_demo_exam c ?state (demo_exam t) (demo_question t) (demo_candidate t) d1 = (Inr (), d')"
      by (simp add: seed_first_exam_def createPlatformSeedData_def)
    from create_demo_exam_content [OF assms(1) this] o show ?thesis
      by (auto simp: seeded_def createPlatformSeedData_def demo_question_def demo_tests_def)
  next
    case False
    with n have "k_exams (content d1) \<noteq> []" by (auto simp: count_rows_def)
    with seed_test_cases_fills [OF assms(1), of ?state d1 d'] False rest n(2) o show ?thesis by simp
  qed
qed

text \<open>Seeding is idempotent: in production it does nothing, elsewhere it leaves the demonstration organization, an
  exam and the test cases, and a later seeding changes nothing more.\<close>

theorem seeding_is_idempotent:
  assumes "good_tables c content" and "ensurePlatformSeedData c (createPlatformSeedData t) d = (Inr (), d1)"
    and "ensurePlatformSeedData (c\<lparr>sc_now := later\<rparr>) (createPlatformSeedData t) d1 = (Inr (), d2)"
  shows "content d2 = content d1 \<and>
    (if is_production (sc_env c) then d1 = d else seeded (createPlatformSeedData t) (content d1))"
proof (cases "is_production (sc_env c)")
  case True
  with assms(2,3) show ?thesis by (simp add: ensurePlatformSeedData_def ret_eq_Inr)
next
  case False
  have "good_tables (c\<lparr>sc_now := later\<rparr>) content" using assms(1) by (simp add: good_tables_def)
  with ensure_seeds [OF assms(1) False assms(2)] seeded_again assms(3) False show ?thesis by metis
qed

text \<open>A deployment: production, a database, and the store's own seeding, which then does nothing.\<close>

definition deployed :: "'d store_ctx \<Rightarrow> bool" where
  "deployed c \<longleftrightarrow> is_production (sc_env c) \<and> databaseAvailable (sc_env c) \<and>
     (\<exists>state. sc_seed c = ensurePlatformSeedData c state)"

lemma deployed_seed: "deployed c \<Longrightarrow> sc_seed c = ret ()"
  by (auto simp: deployed_def ensurePlatformSeedData_def)

lemma deployed_fallback:
  assumes "deployed c"
  shows "\<not> databaseFallbackEnabled (sc_env c)" "used_database c s s'" "asks_database c s"
  using assms by (auto simp: deployed_def databaseFallbackEnabled_def storeDemoAuthEnabled_def used_database_def
      asks_database_def databaseAvailable_def)

lemma deployed_production [simp]: "deployed (production_ctx now)"
proof -
  have "ret () = ensurePlatformSeedData (production_ctx now) state" for state
    by (simp add: ensurePlatformSeedData_def)
  then show ?thesis by (auto simp: deployed_def)
qed

definition development_env :: env where
  "development_env = (\<lambda>v. if v = ''DATABASE_URL'' then Some ''postgresql://db'' else if v = ''ALLOW_DEMO_AUTH'' then Some ''0'' else None)"

lemma seeding_is_idempotent_witness:
  "\<exists>d1 d2. ensurePlatformSeedData (plain_ctx development_env 5) (createPlatformSeedData 0) empty_contents = (Inr (), d1) \<and>
     ensurePlatformSeedData ((plain_ctx development_env 5)\<lparr>sc_now := 9\<rparr>) (createPlatformSeedData 0) d1 = (Inr (), d2) \<and>
     d2 = d1 \<and> length (k_testCases d1) = 2"
proof -
  have dev: "\<not> is_production development_env" by (simp add: is_production_def development_env_def)
  note run = ensurePlatformSeedData_def dev createPlatformSeedData_def seed_first_exam_def create_demo_exam_def transaction_def
    run_simps seed_exam_def database_date_def date_value_def demo_exam_def demo_question_def demo_candidate_def demo_tests_def
    count_rows_def empty_contents_def seed_organization_def seed_test_cases_def
  obtain d1 where d1: "ensurePlatformSeedData (plain_ctx development_env 5) (createPlatformSeedData 0) empty_contents = (Inr (), d1)"
    and two: "length (k_testCases d1) = 2"
    by (simp add: run)
  have "\<exists>d2. ensurePlatformSeedData ((plain_ctx development_env 5)\<lparr>sc_now := 9\<rparr>) (createPlatformSeedData 0) d1 = (Inr (), d2)"
    using d1 by (auto simp: run)
  then obtain d2 where d2: "ensurePlatformSeedData ((plain_ctx development_env 5)\<lparr>sc_now := 9\<rparr>) (createPlatformSeedData 0) d1 = (Inr (), d2)" ..
  from seeding_is_idempotent [OF good_plain d1 d2] d1 d2 two show ?thesis by simp
qed

end
