(* ===== verification/Proctor.thy ===== *)
theory Proctor
  imports ExamAdmin JsNumber
begin

text \<open>
  Proctoring (\<open>platform-store.proctor.ts\<close> and the risk functions of \<open>platform-store.helpers.ts\<close>): the events of a
  candidate and their risk, the two devices of a candidate with their heartbeats, and the marking of devices whose
  heartbeat is overdue.
\<close>

section \<open>Risk\<close>

fun risk_weight :: "event_type \<Rightarrow> int" where
  "risk_weight PASTE = 8"
| "risk_weight COPY = 6"
| "risk_weight TAB_HIDDEN = 5"
| "risk_weight WINDOW_BLUR = 4"
| "risk_weight FULLSCREEN_EXIT = 10"
| "risk_weight PRIMARY_CAMERA_DISCONNECTED = 15"
| "risk_weight PRIMARY_CAMERA_PERMISSION_DENIED = 20"
| "risk_weight MOBILE_CAMERA_DISCONNECTED = 12"
| "risk_weight MOBILE_CAMERA_PERMISSION_DENIED = 18"
| "risk_weight MOBILE_PAGE_HIDDEN = 8"
| "risk_weight MOBILE_PAGE_LEFT = 15"
| "risk_weight MOBILE_NETWORK_OFFLINE = 12"
| "risk_weight MOBILE_HEARTBEAT_MISSED = 12"
| "risk_weight _ = 1"

definition calculateRiskScore :: "event_type list \<Rightarrow> int" where
  "calculateRiskScore types = foldl (\<lambda>score type. score + risk_weight type) 0 types"

definition calculateRiskLevel :: "int \<Rightarrow> risk_level" where
  "calculateRiskLevel score = (if score \<ge> 30 then RISK_DANGER else if score \<ge> 12 then RISK_WARNING else RISK_SAFE)"

section \<open>Events and devices\<close>

definition new_event :: "'d store_ctx \<Rightarrow> nat \<Rightarrow> candidate_invite \<Rightarrow> event_input \<Rightarrow> proctor_event" where
  "new_event c n invite input = \<lparr>pe_id = createId c n ''proctor'', pe_candidateId = cand_id (ci_candidate invite),
     pe_examId = ex_id (ci_exam invite), pe_type = ei_type input, pe_detail = ei_detail input, pe_createdAt = sc_now c\<rparr>"

definition logProctorEventInStore :: "'d store_ctx \<Rightarrow> candidate_invite \<Rightarrow> event_input \<Rightarrow> ('d store, proctor_event) act" where
  "logProctorEventInStore c invite input =
     with_fallback (storeDatabase c (mapped mapProctorEvent (t_create (sc_proctorEvents c) (new_event c 0 invite input))))
       (bindE (set_memory (mm_proctorEvents_update (\<lambda>events. new_event c 0 invite input # events))) (\<lambda>_. ret (new_event c 0 invite input)))"

text \<open>The device of the invited candidate and exam in a role.\<close>

definition is_device :: "candidate_invite \<Rightarrow> device_role \<Rightarrow> proctor_device \<Rightarrow> bool" where
  "is_device invite role device \<longleftrightarrow> pd_candidateId device = cand_id (ci_candidate invite) \<and>
     pd_examId device = ex_id (ci_exam invite) \<and> pd_role device = role"

definition connects :: "device_input \<Rightarrow> bool" where
  "connects input \<longleftrightarrow> di_status input = DEV_CONNECTED"

definition disconnects :: "device_input \<Rightarrow> bool" where
  "disconnects input \<longleftrightarrow> di_status input = DEV_DISCONNECTED \<or> di_status input = DEV_PERMISSION_DENIED"

definition new_device :: "'d store_ctx \<Rightarrow> candidate_invite \<Rightarrow> device_input \<Rightarrow> proctor_device" where
  "new_device c invite input = \<lparr>pd_id = createId c 0 ''proctor_device'', pd_candidateId = cand_id (ci_candidate invite),
     pd_examId = ex_id (ci_exam invite), pd_role = di_role input, pd_status = di_status input,
     pd_connectedAt = (if connects input then Some (sc_now c) else None),
     pd_disconnectedAt = (if disconnects input then Some (sc_now c) else None),
     pd_lastHeartbeatAt = (if connects input then Some (sc_now c) else None),
     pd_detail = di_detail input, pd_createdAt = sc_now c, pd_updatedAt = sc_now c\<rparr>"

text \<open>The database leaves a field alone when its new value is \<open>undefined\<close>; in memory the detail is always replaced.\<close>

definition touch_device :: "'d store_ctx \<Rightarrow> device_input \<Rightarrow> proctor_device \<Rightarrow> proctor_device" where
  "touch_device c input device = device\<lparr>pd_status := di_status input,
     pd_connectedAt := (if connects input then Some (sc_now c) else pd_connectedAt device),
     pd_disconnectedAt := (if disconnects input then Some (sc_now c) else pd_disconnectedAt device),
     pd_lastHeartbeatAt := (if connects input then Some (sc_now c) else pd_lastHeartbeatAt device),
     pd_updatedAt := sc_now c\<rparr>"

definition database_device :: "'d store_ctx \<Rightarrow> device_input \<Rightarrow> proctor_device \<Rightarrow> proctor_device" where
  "database_device c input device = (touch_device c input device)\<lparr>pd_detail :=
     (case di_detail input of Some detail \<Rightarrow> Some detail | None \<Rightarrow> pd_detail device)\<rparr>"

definition memory_device :: "'d store_ctx \<Rightarrow> candidate_invite \<Rightarrow> device_input \<Rightarrow> proctor_device list \<Rightarrow> proctor_device" where
  "memory_device c invite input devices = (case List.find (is_device invite (di_role input)) devices of
       Some existing \<Rightarrow> (touch_device c input existing)\<lparr>pd_detail := di_detail input\<rparr>
     | None \<Rightarrow> new_device c invite input)"

definition upsertProctorDeviceInStore :: "'d store_ctx \<Rightarrow> candidate_invite \<Rightarrow> device_input \<Rightarrow> ('d store, proctor_device) act" where
  "upsertProctorDeviceInStore c invite input =
     with_fallback
       (storeDatabase c (mapped mapProctorDevice
          (t_upsert (sc_proctorDevices c) (is_device invite (di_role input)) (database_device c input) (new_device c invite input))))
       (bindE (memory_of (\<lambda>m. memory_device c invite input (mm_proctorDevices m))) (\<lambda>device.
        bindE (set_memory (mm_proctorDevices_update (\<lambda>devices. device # filter (\<lambda>d. pd_id d \<noteq> pd_id device) devices))) (\<lambda>_.
        ret device)))"

section \<open>Overdue heartbeats\<close>

definition proctorHeartbeatTimeoutMs :: "env \<Rightarrow> js_num" where
  "proctorHeartbeatTimeoutMs env = (case env ''PROCTOR_HEARTBEAT_TIMEOUT_MS'' of None \<Rightarrow> Fin 30000 | Some v \<Rightarrow> js_number v)"

text \<open>\<open>new Date(Date.now() - timeout)\<close>: whole milliseconds within the range of dates, or an invalid date.\<close>

definition stale_before :: "'d store_ctx \<Rightarrow> time option" where
  "stale_before c = (case proctorHeartbeatTimeoutMs (sc_env c) of
       Fin q \<Rightarrow> (let t = of_int (sc_now c) - q; ms = (if t < 0 then \<lceil>t\<rceil> else \<lfloor>t\<rfloor>)
                in if \<bar>ms\<bar> \<le> 8640000000000000 then Some ms else None)
     | _ \<Rightarrow> None)"

definition missed_event :: "'d store_ctx \<Rightarrow> nat \<Rightarrow> proctor_device \<Rightarrow> proctor_event" where
  "missed_event c n device = \<lparr>pe_id = createId c n ''proctor'', pe_candidateId = pd_candidateId device, pe_examId = pd_examId device,
     pe_type = (if pd_role device = MOBILE_AUX then MOBILE_HEARTBEAT_MISSED else PRIMARY_CAMERA_DISCONNECTED),
     pe_detail = Some ((if pd_role device = MOBILE_AUX then ''MOBILE_AUX'' else ''PRIMARY_PC'') @ '' heartbeat missed.''),
     pe_createdAt = sc_now c\<rparr>"

definition disconnect_device :: "'d store_ctx \<Rightarrow> proctor_device \<Rightarrow> proctor_device" where
  "disconnect_device c device = device\<lparr>pd_status := DEV_DISCONNECTED, pd_disconnectedAt := Some (sc_now c),
     pd_detail := Some ''heartbeat missed'', pd_updatedAt := sc_now c\<rparr>"

definition is_stale_row :: "string \<Rightarrow> time \<Rightarrow> proctor_device \<Rightarrow> bool" where
  "is_stale_row examId staleBefore device \<longleftrightarrow> pd_examId device = examId \<and> pd_status device = DEV_CONNECTED \<and>
     (case pd_lastHeartbeatAt device of Some t \<Rightarrow> t < staleBefore | None \<Rightarrow> False)"

definition is_stale :: "string \<Rightarrow> time option \<Rightarrow> proctor_device \<Rightarrow> bool" where
  "is_stale examId staleBefore device \<longleftrightarrow> pd_examId device = examId \<and> pd_status device = DEV_CONNECTED \<and>
     (case staleBefore of Some b \<Rightarrow> (case pd_lastHeartbeatAt device of Some t \<Rightarrow> t | None \<Rightarrow> 0) < b | None \<Rightarrow> False)"

text \<open>The writes for the stale devices, in the order of the query; they are not one transaction.\<close>

fun disconnect_all :: "'d store_ctx \<Rightarrow> nat \<Rightarrow> proctor_device list \<Rightarrow> ('d, unit) act" where
  "disconnect_all c n [] = ret ()"
| "disconnect_all c n (device # devices) =
     bindE (t_update (sc_proctorDevices c) (\<lambda>d. pd_id d = pd_id device) (disconnect_device c)) (\<lambda>_.
     bindE (t_create (sc_proctorEvents c) (missed_event c n device)) (\<lambda>_.
     disconnect_all c (Suc n) devices))"

fun missed_events :: "'d store_ctx \<Rightarrow> nat \<Rightarrow> proctor_device list \<Rightarrow> proctor_event list" where
  "missed_events c n [] = []"
| "missed_events c n (device # devices) = missed_event c n device # missed_events c (Suc n) devices"

definition markStaleProctorDevicesInStore :: "'d store_ctx \<Rightarrow> string \<Rightarrow> ('d store, unit) act" where
  "markStaleProctorDevicesInStore c examId =
     with_fallback
       (storeDatabase c (case stale_before c of
          None \<Rightarrow> throwE (OtherError ''Invalid Date'')
        | Some staleBefore \<Rightarrow>
            bindE (t_findMany (sc_proctorDevices c) (is_stale_row examId staleBefore)) (\<lambda>staleDevices.
            disconnect_all c 0 staleDevices)))
       (bindE (memory_of (\<lambda>m. filter (is_stale examId (stale_before c)) (mm_proctorDevices m))) (\<lambda>staleDevices.
        if staleDevices = [] then ret ()
        else bindE (set_memory (mm_proctorDevices_update (replace_where (\<lambda>d. pd_id d \<in> pd_id ` set staleDevices) (disconnect_device c)))) (\<lambda>_.
             set_memory (mm_proctorEvents_update (\<lambda>events. missed_events c 0 staleDevices @ events)))))"

section \<open>One device per candidate, exam and role\<close>

definition device_key :: "proctor_device \<Rightarrow> string \<times> string \<times> device_role" where
  "device_key d = (pd_candidateId d, pd_examId d, pd_role d)"

text \<open>What the lists of devices keep: one device per key, unique ids, and a heartbeat for every connected one.\<close>

definition devices_wf :: "proctor_device list \<Rightarrow> bool" where
  "devices_wf ds \<longleftrightarrow> distinct (map device_key ds) \<and> distinct (map pd_id ds) \<and>
     (\<forall>d \<in> set ds. pd_status d = DEV_CONNECTED \<longrightarrow> pd_lastHeartbeatAt d \<noteq> None)"

definition invite_key :: "candidate_invite \<Rightarrow> device_role \<Rightarrow> string \<times> string \<times> device_role" where
  "invite_key invite role = (cand_id (ci_candidate invite), ex_id (ci_exam invite), role)"

lemma is_device_key: "is_device invite role d \<longleftrightarrow> device_key d = invite_key invite role"
  by (auto simp: is_device_def device_key_def invite_key_def)

lemma device_sel [simp]:
  "device_key (touch_device c input d) = device_key d" "pd_id (touch_device c input d) = pd_id d"
  "pd_status (touch_device c input d) = di_status input"
  "device_key (database_device c input d) = device_key d" "pd_id (database_device c input d) = pd_id d"
  "pd_status (database_device c input d) = di_status input"
  "device_key (new_device c invite input) = invite_key invite (di_role input)"
  "pd_status (new_device c invite input) = di_status input" "pd_id (new_device c invite input) = createId c 0 ''proctor_device''"
  "device_key (d\<lparr>pd_detail := x\<rparr>) = device_key d"
  by (simp_all add: device_key_def touch_device_def database_device_def new_device_def invite_key_def)

lemma connected_has_heartbeat:
  "pd_status (database_device c input d) = DEV_CONNECTED \<Longrightarrow> pd_lastHeartbeatAt (database_device c input d) \<noteq> None"
  "pd_status ((touch_device c input d)\<lparr>pd_detail := x\<rparr>) = DEV_CONNECTED \<Longrightarrow> pd_lastHeartbeatAt ((touch_device c input d)\<lparr>pd_detail := x\<rparr>) \<noteq> None"
  "pd_status (new_device c invite input) = DEV_CONNECTED \<Longrightarrow> pd_lastHeartbeatAt (new_device c invite input) \<noteq> None"
  by (auto simp: database_device_def touch_device_def new_device_def connects_def)

text \<open>The list an upsert leaves holds the device under its key, and the other devices as they were.\<close>

definition device_put :: "candidate_invite \<Rightarrow> device_input \<Rightarrow> proctor_device \<Rightarrow> proctor_device list \<Rightarrow> proctor_device list \<Rightarrow> bool" where
  "device_put invite input device before after \<longleftrightarrow>
     devices_wf after \<and> device_key device = invite_key invite (di_role input) \<and> pd_status device = di_status input \<and>
     set after = insert device {d \<in> set before. device_key d \<noteq> invite_key invite (di_role input)}"

lemma devices_unique:
  assumes "devices_wf ds" and "d \<in> set ds" and "e \<in> set ds"
  shows "device_key d = device_key e \<longleftrightarrow> d = e" and "pd_id d = pd_id e \<longleftrightarrow> d = e"
  using assms inj_on_eq_iff [of device_key "set ds" d e] inj_on_eq_iff [of pd_id "set ds" d e]
  by (auto simp: devices_wf_def distinct_map)

lemma device_put_replace:
  assumes "devices_wf ds" and "List.find (is_device invite (di_role input)) ds = Some old"
  shows "device_put invite input (database_device c input old) ds (replace_where (is_device invite (di_role input)) (database_device c input) ds)"
proof -
  from find_SomeD [OF assms(2)] have old: "old \<in> set ds" "device_key old = invite_key invite (di_role input)" by (simp_all add: is_device_key)
  have uniq: "d = old" if "d \<in> set ds" "device_key d = invite_key invite (di_role input)" for d
    using devices_unique(1) [OF assms(1) that(1) old(1)] old that by simp
  have "set (replace_where (is_device invite (di_role input)) (database_device c input) ds) =
      insert (database_device c input old) {d \<in> set ds. device_key d \<noteq> invite_key invite (di_role input)}"
  proof -
    have "{d \<in> set ds. device_key d = invite_key invite (di_role input)} = {old}"
      using old by (blast dest: uniq)
    then show ?thesis by (simp add: set_replace_where is_device_key)
  qed
  moreover have "map device_key (replace_where (is_device invite (di_role input)) (database_device c input) ds) = map device_key ds"
    "map pd_id (replace_where (is_device invite (di_role input)) (database_device c input) ds) = map pd_id ds"
    by (auto intro!: map_replace_where_id)
  ultimately show ?thesis using assms(1) old connected_has_heartbeat(1)
    by (auto simp: device_put_def devices_wf_def)
qed

lemma device_put_append:
  assumes "devices_wf ds" and "List.find (is_device invite (di_role input)) ds = None"
    and "createId c 0 ''proctor_device'' \<notin> pd_id ` set ds"
  shows "device_put invite input (new_device c invite input) ds (ds @ [new_device c invite input])"
  using assms connected_has_heartbeat(3)
  by (auto simp: device_put_def devices_wf_def find_None_iff is_device_key)

lemma device_put_front:
  assumes wf: "devices_wf ds" and fresh: "createId c 0 ''proctor_device'' \<notin> pd_id ` set ds"
  shows "device_put invite input (memory_device c invite input ds) ds
    (memory_device c invite input ds # filter (\<lambda>d. pd_id d \<noteq> pd_id (memory_device c invite input ds)) ds)"
proof (cases "List.find (is_device invite (di_role input)) ds")
  case None
  then have "\<forall>d \<in> set ds. device_key d \<noteq> invite_key invite (di_role input)" by (auto simp: find_None_iff is_device_key)
  moreover have "filter (\<lambda>d. pd_id d \<noteq> createId c 0 ''proctor_device'') ds = ds"
    using fresh by (auto simp: filter_id_conv image_iff)
  ultimately show ?thesis using wf fresh connected_has_heartbeat(3) None
    by (auto simp: device_put_def devices_wf_def memory_device_def)
next
  case (Some old)
  from find_SomeD [OF Some] have old: "old \<in> set ds" "device_key old = invite_key invite (di_role input)" by (simp_all add: is_device_key)
  let ?new = "(touch_device c input old)\<lparr>pd_detail := di_detail input\<rparr>"
  have new: "memory_device c invite input ds = ?new" by (simp add: memory_device_def Some)
  have same: "pd_id d = pd_id old \<longleftrightarrow> device_key d = invite_key invite (di_role input)" if "d \<in> set ds" for d
    using devices_unique [OF wf that old(1)] old(2) by simp
  have "set (filter (\<lambda>d. pd_id d \<noteq> pd_id old) ds) = {d \<in> set ds. device_key d \<noteq> invite_key invite (di_role input)}"
    using same by auto
  then show ?thesis using wf old connected_has_heartbeat(2) [where c = c and d = old and input = input]
    by (auto simp: device_put_def devices_wf_def new distinct_map_filter)
qed

text \<open>Reporting a device, in the database or in memory, keeps one device per candidate, exam and role, with
  a heartbeat for every connected one; the reported device gets the reported status and no other device
  changes.\<close>

theorem one_device_per_role:
  assumes "good_tables c content" and "upsertProctorDeviceInStore c invite input s = (Inr device, s')"
    and "devices_wf (k_proctorDevices (content (st_db s)))" and "devices_wf (mm_proctorDevices (st_memory s))"
    and "createId c 0 ''proctor_device'' \<notin> pd_id ` set (k_proctorDevices (content (st_db s)) @ mm_proctorDevices (st_memory s))"
  shows "\<exists>before after. list_written c content s s' k_proctorDevices mm_proctorDevices before after \<and>
    device_put invite input device before after"
  using assms(2) [unfolded upsertProctorDeviceInStore_def mapProctorDevice_id mapped_id]
proof (cases rule: with_database_cases)
  case (database d)
  note part = good_proctorDevices [OF assms(1)]
  have fresh: "createId c 0 ''proctor_device'' \<notin> pd_id ` set (k_proctorDevices (content (st_db s)))"
    using assms(5) by auto
  have "device_put invite input device (k_proctorDevices (content (st_db s))) (k_proctorDevices (content d))"
  proof (cases "List.find (is_device invite (di_role input)) (k_proctorDevices (content (st_db s)))")
    case None
    with store_part.upsert_InrD [OF part database(2)] device_put_append [OF assms(3) None fresh] show ?thesis by simp
  next
    case (Some old)
    with store_part.upsert_InrD [OF part database(2)] device_put_replace [OF assms(3) Some] show ?thesis by simp
  qed
  with database_paths(1) [OF database(1,3)] show ?thesis by blast
next
  case (memory s1)
  then have "device_put invite input device (mm_proctorDevices (st_memory s)) (mm_proctorDevices (st_memory s'))"
    and "\<not> used_database c s s'"
    using device_put_front [OF assms(4), of c invite input] assms(5) by (simp_all add: store_Inr image_Un)
  with memory_paths(1) show ?thesis by blast
qed

section \<open>Marking overdue devices\<close>

lemma disconnect_idem [simp]: "disconnect_device c (disconnect_device c d) = disconnect_device c d"
  by (simp add: disconnect_device_def)

lemma disconnect_id [simp]: "pd_id (disconnect_device c d) = pd_id d"
  by (simp add: disconnect_device_def)

lemma replace_where_join:
  "(\<And>x. f (f x) = f x) \<Longrightarrow> (\<And>x. q (f x) = q x) \<Longrightarrow>
   replace_where q f (replace_where p f xs) = replace_where (\<lambda>x. p x \<or> q x) f xs"
  by (induction xs) (auto simp: replace_where_def)

lemma replace_where_none: "(\<And>x. x \<in> set xs \<Longrightarrow> \<not> p x) \<Longrightarrow> replace_where p f xs = xs"
  by (induction xs) (auto simp: replace_where_def)

lemma replace_where_cong: "(\<And>x. x \<in> set xs \<Longrightarrow> p x = q x) \<Longrightarrow> replace_where p f xs = replace_where q f xs"
  by (simp add: replace_where_def)

lemma disconnect_all_content:
  assumes "good_tables c content" and "disconnect_all c n ds d = (Inr (), d')"
  shows "content d' = k_proctorEvents_update (\<lambda>es. es @ missed_events c n ds)
    (k_proctorDevices_update (replace_where (\<lambda>x. pd_id x \<in> pd_id ` set ds) (disconnect_device c)) (content d))"
  using assms(2)
proof (induction ds arbitrary: n d)
  case Nil
  then show ?case by (simp add: ret_eq_Inr replace_where_none)
next
  case (Cons x ds)
  then obtain y d1 z d2 where u: "t_update (sc_proctorDevices c) (\<lambda>d. pd_id d = pd_id x) (disconnect_device c) d = (Inr y, d1)"
    and e: "t_create (sc_proctorEvents c) (missed_event c n x) d1 = (Inr z, d2)" and r: "disconnect_all c (Suc n) ds d2 = (Inr (), d')"
    by (auto simp: store_Inr)
  have "content d2 = k_proctorEvents_update (\<lambda>es. es @ [missed_event c n x])
      (k_proctorDevices_update (replace_where (\<lambda>d. pd_id d = pd_id x) (disconnect_device c)) (content d))"
    using store_part.update_InrD [OF good_proctorDevices [OF assms(1)] u] store_part.create_InrD [OF good_proctorEvents [OF assms(1)] e]
    by simp
  then show ?case unfolding Cons.IH [OF r] by (simp add: replace_where_join comp_def)
qed

text \<open>What the marking of an exam leaves of the devices and the events.\<close>

definition marked :: "'d store_ctx \<Rightarrow> string \<Rightarrow> proctor_device list \<times> proctor_event list \<Rightarrow> proctor_device list \<times> proctor_event list \<Rightarrow> bool" where
  "marked c examId before after \<longleftrightarrow> (let stale = filter (is_stale examId (stale_before c)) (fst before) in
     fst after = replace_where (is_stale examId (stale_before c)) (disconnect_device c) (fst before) \<and>
     filter (is_stale examId (stale_before c)) (fst after) = [] \<and>
     (snd after = snd before @ missed_events c 0 stale \<or> snd after = missed_events c 0 stale @ snd before))"

lemma disconnected_not_stale [simp]: "\<not> is_stale examId b (disconnect_device c d)"
  by (simp add: is_stale_def disconnect_device_def)

lemma not_stale_after: "filter (is_stale examId b) (replace_where (is_stale examId b) (disconnect_device c) ds) = []"
  by (induction ds) (simp_all add: replace_where_def)

lemma stale_by_id:
  assumes "devices_wf ds" and "d \<in> set ds"
  shows "pd_id d \<in> pd_id ` set (filter p ds) \<longleftrightarrow> p d"
proof
  assume "pd_id d \<in> pd_id ` set (filter p ds)"
  then obtain e where "e \<in> set ds" "p e" "pd_id d = pd_id e" by auto
  with devices_unique(2) [OF assms this(1)] show "p d" by simp
qed (use assms(2) in auto)

lemma is_stale_row_eq:
  "devices_wf ds \<Longrightarrow> d \<in> set ds \<Longrightarrow> is_stale_row examId b d = is_stale examId (Some b) d"
  by (auto simp: devices_wf_def is_stale_row_def is_stale_def split: option.split)

lemma markedI:
  assumes "devices_wf ds" and "stale = filter (is_stale examId (stale_before c)) ds"
    and "es' = es @ missed_events c 0 stale \<or> es' = missed_events c 0 stale @ es"
  shows "marked c examId (ds, es) (replace_where (\<lambda>x. pd_id x \<in> pd_id ` set stale) (disconnect_device c) ds, es')"
proof -
  have "replace_where (\<lambda>x. pd_id x \<in> pd_id ` set stale) (disconnect_device c) ds =
      replace_where (is_stale examId (stale_before c)) (disconnect_device c) ds"
    unfolding assms(2) by (rule replace_where_cong) (rule stale_by_id [OF assms(1)])
  then show ?thesis using assms(3) by (auto simp: marked_def Let_def assms(2) not_stale_after)
qed

text \<open>Marking an exam disconnects exactly its connected devices whose last heartbeat is overdue, records one
  missed heartbeat for each, changes no other device, and leaves no overdue device connected.\<close>

theorem overdue_devices_are_disconnected:
  assumes "good_tables c content" and "markStaleProctorDevicesInStore c examId s = (Inr u, s')"
    and "devices_wf (k_proctorDevices (content (st_db s)))" and "devices_wf (mm_proctorDevices (st_memory s))"
  shows "\<exists>before after. list_written c content s s' (\<lambda>k. (k_proctorDevices k, k_proctorEvents k))
      (\<lambda>m. (mm_proctorDevices m, mm_proctorEvents m)) before after \<and> marked c examId before after"
  using assms(2) [unfolded markStaleProctorDevicesInStore_def]
proof (cases rule: with_database_cases)
  case (database d)
  let ?ds = "k_proctorDevices (content (st_db s))" and ?es = "k_proctorEvents (content (st_db s))"
  from database(2) obtain b stale d1 where b: "stale_before c = Some b"
    and f: "t_findMany (sc_proctorDevices c) (is_stale_row examId b) (st_db s) = (Inr stale, d1)"
    and all: "disconnect_all c 0 stale d1 = (Inr (), d)"
    by (auto simp: store_Inr split: option.splits)
  from store_part.findMany_InrD [OF good_proctorDevices [OF assms(1)] f]
  have stale: "stale = filter (is_stale examId (stale_before c)) ?ds" "d1 = st_db s"
    using is_stale_row_eq [OF assms(3)] by (auto simp: b cong: filter_cong)
  have "content d = k_proctorEvents_update (\<lambda>es. es @ missed_events c 0 stale)
      (k_proctorDevices_update (replace_where (\<lambda>x. pd_id x \<in> pd_id ` set stale) (disconnect_device c)) (content (st_db s)))"
    using disconnect_all_content [OF assms(1) all] stale(2) by simp
  then have "list_written c content s s' (\<lambda>k. (k_proctorDevices k, k_proctorEvents k))
      (\<lambda>m. (mm_proctorDevices m, mm_proctorEvents m)) (?ds, ?es)
      (replace_where (\<lambda>x. pd_id x \<in> pd_id ` set stale) (disconnect_device c) ?ds, ?es @ missed_events c 0 stale)"
    using database by (simp add: list_written_def)
  with markedI [OF assms(3) stale(1)] show ?thesis by blast
next
  case (memory s1)
  let ?ds = "mm_proctorDevices (st_memory s)" and ?es = "mm_proctorEvents (st_memory s)"
  define stale where "stale = filter (is_stale examId (stale_before c)) ?ds"
  have "mm_proctorDevices (st_memory s') = replace_where (\<lambda>x. pd_id x \<in> pd_id ` set stale) (disconnect_device c) ?ds"
    and "mm_proctorEvents (st_memory s') = missed_events c 0 stale @ ?es" and "\<not> used_database c s s'"
    using memory by (auto simp: store_Inr stale_def [symmetric] replace_where_none split: if_splits)
  then have "list_written c content s s' (\<lambda>k. (k_proctorDevices k, k_proctorEvents k))
      (\<lambda>m. (mm_proctorDevices m, mm_proctorEvents m)) (?ds, ?es)
      (replace_where (\<lambda>x. pd_id x \<in> pd_id ` set stale) (disconnect_device c) ?ds, missed_events c 0 stale @ ?es)"
    by (simp add: list_written_def)
  with markedI [OF assms(4) stale_def] show ?thesis by blast
qed

section \<open>Risk is additive\<close>

lemma calculateRiskScore_eq: "calculateRiskScore types = sum_list (map risk_weight types)"
proof -
  have "foldl (\<lambda>score type. score + risk_weight type) a types = a + sum_list (map risk_weight types)" for a
    by (induction types arbitrary: a) simp_all
  then show ?thesis by (simp add: calculateRiskScore_def)
qed

lemma risk_weight_bounds: "1 \<le> risk_weight t" "risk_weight t \<le> 20"
  by (cases t; simp)+

fun risk_rank :: "risk_level \<Rightarrow> nat" where
  "risk_rank RISK_SAFE = 0"
| "risk_rank RISK_WARNING = 1"
| "risk_rank RISK_DANGER = 2"

section \<open>Witnesses\<close>

definition sample_candidate :: candidate where
  "sample_candidate = \<lparr>cand_id = ''c1'', cand_examId = ''e1'', cand_name = ''C'', cand_email = ''c@d.e'', cand_status = READY,
     cand_inviteToken = ''invite_1'', cand_identityPrivacyConsentVersion = None, cand_identityPrivacyConsentAcceptedAt = None,
     cand_createdAt = 0\<rparr>"

definition sample_invite :: candidate_invite where
  "sample_invite = \<lparr>ci_candidate = sample_candidate, ci_exam = sample_exam,
     ci_organization = \<lparr>org_id = ''o1'', org_name = ''Org'', org_joinCode = None, org_createdAt = 0\<rparr>, ci_questions = [],
     ci_proctorDevices = [], ci_identityVerification = None, ci_environmentCheck = None\<rparr>"

definition sample_device :: "device_role \<Rightarrow> string \<Rightarrow> time \<Rightarrow> proctor_device" where
  "sample_device role i heartbeat = \<lparr>pd_id = i, pd_candidateId = ''c1'', pd_examId = ''e1'', pd_role = role, pd_status = DEV_CONNECTED,
     pd_connectedAt = Some 0, pd_disconnectedAt = None, pd_lastHeartbeatAt = Some heartbeat, pd_detail = None, pd_createdAt = 0, pd_updatedAt = 0\<rparr>"

definition device_contents :: contents where
  "device_contents = exam_contents\<lparr>k_proctorDevices := [sample_device PRIMARY_PC ''d1'' 90000, sample_device MOBILE_AUX ''d2'' 10]\<rparr>"

lemma device_contents_wf: "devices_wf (k_proctorDevices device_contents)"
  by (simp add: device_contents_def devices_wf_def device_key_def sample_device_def)

lemma memory_devices_wf: "devices_wf (mm_proctorDevices empty_memory)"
  by (simp add: devices_wf_def empty_memory_def)

lemma one_device_per_role_witness:
  "\<exists>device s'. upsertProctorDeviceInStore (production_ctx 95000) sample_invite \<lparr>di_role = MOBILE_AUX, di_status = DEV_DISCONNECTED, di_detail = None\<rparr>
      (store_of device_contents) = (Inr device, s') \<and> pd_status device = DEV_DISCONNECTED \<and> device_key device = (''c1'', ''e1'', MOBILE_AUX)"
proof -
  let ?in = "\<lparr>di_role = MOBILE_AUX, di_status = DEV_DISCONNECTED, di_detail = None\<rparr>"
  obtain device s' where up: "upsertProctorDeviceInStore (production_ctx 95000) sample_invite ?in (store_of device_contents) = (Inr device, s')"
    by (simp add: upsertProctorDeviceInStore_def run_simps device_contents_def is_device_def sample_invite_def sample_candidate_def sample_device_def)
  have "\<exists>before after. list_written (production_ctx 95000) id (store_of device_contents) s' k_proctorDevices mm_proctorDevices before after \<and>
    device_put sample_invite ?in device before after"
    by (rule one_device_per_role [OF good_plain up])
      (simp_all add: device_contents_wf memory_devices_wf, simp add: createId_def device_contents_def sample_device_def empty_memory_def)
  with up show ?thesis by (auto simp: device_put_def invite_key_def sample_invite_def sample_candidate_def)
qed

lemma overdue_devices_are_disconnected_witness:
  "\<exists>s' after. markStaleProctorDevicesInStore (production_ctx 95000) ''e1'' (store_of device_contents) = (Inr (), s') \<and>
     marked (production_ctx 95000) ''e1'' (k_proctorDevices device_contents, []) after"
proof -
  have now: "stale_before (production_ctx 95000) = Some 65000"
    by (simp add: stale_before_def proctorHeartbeatTimeoutMs_def production_env_def Let_def)
  obtain s' where run: "markStaleProctorDevicesInStore (production_ctx 95000) ''e1'' (store_of device_contents) = (Inr (), s')"
    by (simp add: markStaleProctorDevicesInStore_def now run_simps device_contents_def is_stale_row_def sample_device_def)
  have "\<exists>before after. list_written (production_ctx 95000) id (store_of device_contents) s' (\<lambda>k. (k_proctorDevices k, k_proctorEvents k))
      (\<lambda>m. (mm_proctorDevices m, mm_proctorEvents m)) before after \<and> marked (production_ctx 95000) ''e1'' before after"
    by (rule overdue_devices_are_disconnected [OF good_plain run]) (simp_all add: device_contents_wf memory_devices_wf)
  with run show ?thesis
    by (auto simp: list_written_def device_contents_def exam_contents_def empty_contents_def)
qed

end
