(* ===== verification/Workspace.thy ===== *)
theory Workspace
  imports Proctor Seed
begin

text \<open>
  What a candidate reaches with the invite token (\<open>platform-store.candidate-portal.ts\<close>,
  \<open>platform-store.candidate-workspace.ts\<close>, the gates of \<open>platform-store.state.ts\<close> and
  \<open>platform-store.service.ts\<close>), and the actions of the proctors that stop and resume an exam
  (\<open>platform-store.candidate-admin.ts\<close>).
\<close>

section \<open>The invite\<close>

text \<open>\<open>findUnique\<close> with everything it includes; a required relation that is missing is an error of the client.\<close>

definition required :: "'r option \<Rightarrow> ('s, 'r) act" where
  "required found = (case found of Some r \<Rightarrow> ret r | None \<Rightarrow> throwE (OtherError ''Inconsistent query result''))"

definition find_invite :: "'d store_ctx \<Rightarrow> string \<Rightarrow> ('d, candidate_invite option) act" where
  "find_invite c inviteToken =
     bindE (t_find (sc_candidates c) (\<lambda>p. cand_inviteToken p = inviteToken)) (\<lambda>found. case found of
       None \<Rightarrow> ret None
     | Some candidate \<Rightarrow>
         bindE (t_findMany (sc_identityVerifications c) (\<lambda>v. idr_candidateId v = cand_id candidate)) (\<lambda>identities.
         bindE (t_findMany (sc_environmentChecks c) (\<lambda>k. ekr_candidateId k = cand_id candidate)) (\<lambda>checks.
         bindE (t_findMany (sc_proctorDevices c) (\<lambda>d. pd_candidateId d = cand_id candidate)) (\<lambda>devices.
         bindE (bindE (t_find (sc_exams c) (\<lambda>e. ex_id e = cand_examId candidate)) required) (\<lambda>exam.
         bindE (bindE (t_find (sc_organizations c) (\<lambda>r. o_id r = ex_organizationId exam)) required) (\<lambda>organization.
         bindE (t_findMany (sc_questions c) (\<lambda>q. q_examId q = ex_id exam)) (\<lambda>questions.
         ret (Some \<lparr>ci_candidate = mapCandidate candidate, ci_exam = mapExam exam, ci_organization = mapOrganization organization,
           ci_questions = map mapCandidateQuestion (sort_oldest q_createdAt questions),
           ci_proctorDevices = map mapProctorDevice devices,
           ci_identityVerification = map_option mapIdentityVerification (head_opt (sort_newest idr_createdAt identities)),
           ci_environmentCheck = map_option mapEnvironmentCheck (head_opt (sort_newest ekr_createdAt checks))\<rparr>))))))))"

definition memory_invite :: "memory \<Rightarrow> string \<Rightarrow> candidate_invite res" where
  "memory_invite m inviteToken = (case List.find (\<lambda>p. cand_inviteToken p = inviteToken) (mm_candidates m) of
       None \<Rightarrow> Inl (NotFound ''Invite not found'')
     | Some candidate \<Rightarrow> (case List.find (\<lambda>e. ex_id e = cand_examId candidate) (mm_exams m) of
           None \<Rightarrow> Inl (NotFound ''Exam not found'')
         | Some exam \<Rightarrow> if ex_status exam = DELETED then Inl (NotFound ''Exam not found'') else
             Inr \<lparr>ci_candidate = candidate, ci_exam = exam, ci_organization = mm_organization m,
               ci_questions = map omitExpectedAnswer (filter (\<lambda>q. q_examId q = ex_id exam) (mm_questions m)),
               ci_proctorDevices = filter (\<lambda>d. pd_candidateId d = cand_id candidate) (mm_proctorDevices m),
               ci_identityVerification = List.find (\<lambda>v. iv_candidateId v = cand_id candidate) (mm_identityVerifications m),
               ci_environmentCheck = List.find (\<lambda>k. ec_candidateId k = cand_id candidate) (mm_environmentChecks m)\<rparr>))"

definition getCandidateInviteSnapshot :: "'d store_ctx \<Rightarrow> string \<Rightarrow> ('d store, candidate_invite) act" where
  "getCandidateInviteSnapshot c inviteToken =
     with_fallback
       (seededDatabase c (bindE (find_invite c inviteToken) (\<lambda>found. case found of
          None \<Rightarrow> throwE (NotFound ''Invite not found'')
        | Some invite \<Rightarrow> if ex_status (ci_exam invite) = DELETED then throwE (NotFound ''Invite not found'') else ret invite)))
       (bindE (memory_of (\<lambda>m. memory_invite m inviteToken)) liftR)"

definition getCandidateInviteForInternalUse :: "'d store_ctx \<Rightarrow> string \<Rightarrow> ('d store, candidate_invite) act" where
  "getCandidateInviteForInternalUse c inviteToken =
     bindE (getCandidateInviteSnapshot c inviteToken) (\<lambda>invite.
     bindE (markStaleProctorDevicesInStore c (ex_id (ci_exam invite))) (\<lambda>_.
     getCandidateInviteSnapshot c inviteToken))"

definition toPublicCandidateInvite :: "candidate_invite \<Rightarrow> candidate_invite" where
  "toPublicCandidateInvite invite = invite\<lparr>ci_questions := []\<rparr>"

definition getCandidateInvite :: "'d store_ctx \<Rightarrow> string \<Rightarrow> ('d store, candidate_invite) act" where
  "getCandidateInvite c inviteToken =
     bindE (getCandidateInviteForInternalUse c inviteToken) (\<lambda>invite. ret (toPublicCandidateInvite invite))"

text \<open>Confirming the entry. The new candidates become the field only if the invite can be read with them.\<close>

definition with_candidates :: "candidate list \<Rightarrow> ('d store, 'a) act \<Rightarrow> ('d store, 'a) act" where
  "with_candidates candidates m = (\<lambda>s.
     case m (s\<lparr>st_memory := (st_memory s)\<lparr>mm_candidates := candidates\<rparr>\<rparr>) of
       (Inl e, t) \<Rightarrow> (Inl e, t\<lparr>st_memory := st_memory s\<rparr>) | r \<Rightarrow> r)"

definition set_ready :: "candidate \<Rightarrow> candidate" where
  "set_ready candidate = candidate\<lparr>cand_status := READY\<rparr>"

definition markCandidateReady :: "'d store_ctx \<Rightarrow> string \<Rightarrow> ('d store, candidate_invite) act" where
  "markCandidateReady c inviteToken =
     bindE (with_fallback
       (storeOperation c
          (bindE (on_database (bindE (sc_seed c) (\<lambda>_.
             bindE (t_find (sc_candidates c) (\<lambda>p. cand_inviteToken p = inviteToken)) (\<lambda>found. case found of
               None \<Rightarrow> throwE (NotFound ''Invite not found'')
             | Some candidate \<Rightarrow> t_update (sc_candidates c) (\<lambda>p. cand_inviteToken p = inviteToken) set_ready)))) (\<lambda>_.
           getCandidateInviteSnapshot c inviteToken)))
       (bindE (memory_of mm_candidates) (\<lambda>candidates.
        case List.find (\<lambda>p. cand_inviteToken p = inviteToken) candidates of
          None \<Rightarrow> throwE (NotFound ''Invite not found'')
        | Some candidate \<Rightarrow> with_candidates (replace_where (\<lambda>p. cand_inviteToken p = inviteToken) set_ready candidates)
            (getCandidateInviteSnapshot c inviteToken))))
     (\<lambda>invite. ret (toPublicCandidateInvite invite))"

section \<open>The gate of the workspace\<close>

definition exam_available :: "'d store_ctx \<Rightarrow> exam \<Rightarrow> bool" where
  "exam_available c exam \<longleftrightarrow> ex_status exam \<noteq> ENDED \<and> ex_status exam \<noteq> DELETED \<and>
     (case (date_value c (ex_startAt exam), date_value c (ex_endAt exam)) of
        (Some startsAt, Some endsAt) \<Rightarrow> sc_now c \<ge> startsAt \<and> sc_now c < endsAt | _ \<Rightarrow> False)"

definition mobile_connected :: "candidate_invite \<Rightarrow> bool" where
  "mobile_connected invite \<longleftrightarrow> list_ex (\<lambda>d. pd_role d = MOBILE_AUX \<and> pd_status d = DEV_CONNECTED) (ci_proctorDevices invite)"

definition assertCandidateCanUseWorkspace :: "'d store_ctx \<Rightarrow> candidate_invite \<Rightarrow> unit res" where
  "assertCandidateCanUseWorkspace c invite =
     (if \<not> exam_available c (ci_exam invite) then Inl (Forbidden ''Exam is not available at this time'')
      else if cand_status (ci_candidate invite) = INVITED then Inl (Forbidden ''Candidate entry confirmation is required'')
      else if \<not> (case ci_environmentCheck invite of Some check \<Rightarrow> ec_requiredPassed check | None \<Rightarrow> False)
      then Inl (Forbidden ''Environment check is required'')
      else if ex_identityVerificationEnabled (ci_exam invite) \<and> map_option iv_status (ci_identityVerification invite) \<noteq> Some ID_VERIFIED
      then Inl (Forbidden ''Identity verification is required'')
      else if ex_mobileCameraRequired (ci_exam invite) \<and> \<not> mobile_connected invite
      then Inl (Forbidden ''Mobile auxiliary camera connection is required'')
      else Inr ())"

definition getInviteForWorkspaceUse :: "'d store_ctx \<Rightarrow> string \<Rightarrow> ('d store, candidate_invite) act" where
  "getInviteForWorkspaceUse c inviteToken =
     bindE (getCandidateInviteForInternalUse c inviteToken) (\<lambda>invite.
     bindE (liftR (assertCandidateCanUseWorkspace c invite)) (\<lambda>_. ret invite))"

section \<open>Exam sessions\<close>

definition is_session :: "candidate_invite \<Rightarrow> exam_session \<Rightarrow> bool" where
  "is_session invite session \<longleftrightarrow> xs_candidateId session = cand_id (ci_candidate invite) \<and> xs_examId session = ex_id (ci_exam invite)"

text \<open>A session starts now and lasts for the duration of the exam.\<close>

definition new_session :: "'d store_ctx \<Rightarrow> candidate_invite \<Rightarrow> exam_session" where
  "new_session c invite = \<lparr>xs_id = createId c 0 ''session'', xs_candidateId = cand_id (ci_candidate invite),
     xs_examId = ex_id (ci_exam invite), xs_startedAt = sc_now c,
     xs_endsAt = sc_now c + ex_durationMinutes (ci_exam invite) * 60 * 1000, xs_completedAt = None,
     xs_serverNow = sc_now c, xs_remainingSeconds = ex_durationMinutes (ci_exam invite) * 60\<rparr>"

definition ensureExamSession :: "'d store_ctx \<Rightarrow> candidate_invite \<Rightarrow> ('d, exam_session) act" where
  "ensureExamSession c invite =
     mapped (mapExamSession (sc_now c)) (t_upsert (sc_examSessions c) (is_session invite) (\<lambda>session. session) (new_session c invite))"

definition ensureMemoryExamSession :: "'d store_ctx \<Rightarrow> candidate_invite \<Rightarrow> exam_session list \<Rightarrow> exam_session \<times> exam_session list" where
  "ensureMemoryExamSession c invite sessions = (case List.find (is_session invite) sessions of
       Some existing \<Rightarrow> (withRemainingSeconds (sc_now c) existing, sessions)
     | None \<Rightarrow> (new_session c invite, new_session c invite # sessions))"

definition is_blocking :: "candidate_invite \<Rightarrow> proctor_action \<Rightarrow> bool" where
  "is_blocking invite action \<longleftrightarrow> pa_candidateId action = cand_id (ci_candidate invite) \<and>
     (pa_type action = PAUSE_EXAM \<or> pa_type action = RESUME_EXAM \<or> pa_type action = TERMINATE_EXAM)"

text \<open>\<open>findFirst\<close> with the newest first.\<close>

definition latestBlockingAction :: "'d store_ctx \<Rightarrow> candidate_invite \<Rightarrow> ('d, proctor_action option) act" where
  "latestBlockingAction c invite =
     bindE (t_findMany (sc_proctorActions c) (is_blocking invite)) (\<lambda>actions.
     ret (map_option mapProctorAction (head_opt (sort_newest pa_createdAt actions))))"

definition latestMemoryBlockingAction :: "candidate_invite \<Rightarrow> proctor_action list \<Rightarrow> proctor_action option" where
  "latestMemoryBlockingAction invite actions = head_opt (sort_newest pa_createdAt (filter (is_blocking invite) actions))"

definition assertProctorActionAllowsExam :: "proctor_action option \<Rightarrow> unit res" where
  "assertProctorActionAllowsExam action =
     (if map_option pa_type action = Some TERMINATE_EXAM then Inl (Forbidden ''Exam was terminated by a proctor'')
      else if map_option pa_type action = Some PAUSE_EXAM then Inl (Forbidden ''Exam is paused by a proctor'')
      else Inr ())"

definition complete_session :: "'d store_ctx \<Rightarrow> exam_session \<Rightarrow> exam_session" where
  "complete_session c session = session\<lparr>xs_completedAt := Some (sc_now c)\<rparr>"

text \<open>A session made in memory is kept only if the check passes.\<close>

definition assertExamSessionOpen :: "'d store_ctx \<Rightarrow> candidate_invite \<Rightarrow> ('d store, unit) act" where
  "assertExamSessionOpen c invite =
     with_fallback
       (storeDatabase c (bindE (ensureExamSession c invite) (\<lambda>session.
          bindE (latestBlockingAction c invite) (\<lambda>latestAction.
          bindE (liftR (assertProctorActionAllowsExam latestAction)) (\<lambda>_.
          if xs_remainingSeconds session \<le> 0
          then bindE (t_update (sc_examSessions c) (is_session invite) (complete_session c)) (\<lambda>_.
               throwE (Forbidden ''Exam time has expired''))
          else ret ())))))
       (bindE (memory_of (\<lambda>m. (ensureMemoryExamSession c invite (mm_examSessions m), latestMemoryBlockingAction invite (mm_proctorActions m))))
          (\<lambda>((session, examSessions), latestAction).
        bindE (liftR (assertProctorActionAllowsExam latestAction)) (\<lambda>_.
        if xs_remainingSeconds session \<le> 0 then throwE (Forbidden ''Exam time has expired'')
        else set_memory (mm_examSessions_update (\<lambda>_. examSessions)))))"


section \<open>The workspace\<close>

text \<open>What a candidate may see of the results (\<open>platform-store.candidate-results.ts\<close>).\<close>

definition hiddenTestMessage :: string where
  "hiddenTestMessage = ''The results of hidden tests are not disclosed.''"

definition runnerErrorMessage :: string where
  "runnerErrorMessage = ''An error occurred. Check the code and the format of the output.''"

definition toCandidateJudgeTestResult :: "judge_test_result \<Rightarrow> judge_test_result" where
  "toCandidateJudgeTestResult result =
     (if \<not> jt_isPublic result
      then result\<lparr>jt_input := hiddenTestMessage, jt_expectedOutput := hiddenTestMessage, jt_actualOutput := [], jt_error := None\<rparr>
      else result\<lparr>jt_error := (if truthy (jt_error result) then Some runnerErrorMessage else None)\<rparr>)"

definition toCandidateCodeExecution :: "code_execution \<Rightarrow> code_execution" where
  "toCandidateCodeExecution execution = execution\<lparr>
     ce_error := (if truthy (ce_error execution) then Some runnerErrorMessage else None),
     ce_testResults := map toCandidateJudgeTestResult (ce_testResults execution)\<rparr>"

definition toCandidateSubmission :: "submission \<Rightarrow> submission" where
  "toCandidateSubmission submission = submission\<lparr>sub_testResults := map toCandidateJudgeTestResult (sub_testResults submission)\<rparr>"

definition toCandidateWorkspace :: "candidate_workspace \<Rightarrow> candidate_workspace" where
  "toCandidateWorkspace workspace = workspace\<lparr>cw_executions := map toCandidateCodeExecution (cw_executions workspace),
     cw_submissions := map toCandidateSubmission (cw_submissions workspace)\<rparr>"

definition workspace_of :: "candidate_invite \<Rightarrow> submission list \<Rightarrow> code_execution list \<Rightarrow> proctor_event list \<Rightarrow>
    proctor_action list \<Rightarrow> exam_session \<Rightarrow> code_draft list \<Rightarrow> candidate_workspace" where
  "workspace_of invite submissions executions events actions session drafts =
     candidate_invite.extend invite (candidate_workspace.fields submissions executions events actions session drafts)"

definition find_workspace :: "'d store_ctx \<Rightarrow> candidate_invite \<Rightarrow> ('d, candidate_workspace) act" where
  "find_workspace c invite =
     bindE (ensureExamSession c invite) (\<lambda>examSession.
     bindE (t_findMany (sc_submissions c) (\<lambda>r. sub_candidateId r = cand_id (ci_candidate invite))) (\<lambda>submissions.
     bindE (t_findMany (sc_codeExecutions c) (\<lambda>r. ce_candidateId r = cand_id (ci_candidate invite))) (\<lambda>executions.
     bindE (t_findMany (sc_proctorEvents c) (\<lambda>r. pe_candidateId r = cand_id (ci_candidate invite))) (\<lambda>events.
     bindE (t_findMany (sc_proctorActions c) (\<lambda>r. pa_candidateId r = cand_id (ci_candidate invite))) (\<lambda>actions.
     bindE (t_findMany (sc_codeDrafts c) (\<lambda>r. cd_candidateId r = cand_id (ci_candidate invite))) (\<lambda>drafts.
     ret (workspace_of invite (map mapSubmission (sort_newest sub_submittedAt submissions))
       (map mapCodeExecution (take 20 (sort_newest ce_createdAt executions)))
       (map mapProctorEvent (take 50 (sort_newest pe_createdAt events)))
       (map mapProctorAction (take 20 (sort_newest pa_createdAt actions)))
       examSession (map mapCodeDraft (sort_newest cd_savedAt drafts)))))))))"

definition memory_workspace :: "candidate_invite \<Rightarrow> exam_session \<Rightarrow> memory \<Rightarrow> candidate_workspace" where
  "memory_workspace invite session m = workspace_of invite
     (sort_newest sub_submittedAt (filter (\<lambda>r. sub_candidateId r = cand_id (ci_candidate invite)) (mm_submissions m)))
     (take 20 (sort_newest ce_createdAt (filter (\<lambda>r. ce_candidateId r = cand_id (ci_candidate invite)) (mm_codeExecutions m))))
     (filter (\<lambda>r. pe_candidateId r = cand_id (ci_candidate invite)) (mm_proctorEvents m))
     (filter (\<lambda>r. pa_candidateId r = cand_id (ci_candidate invite)) (mm_proctorActions m))
     session (filter (\<lambda>r. cd_candidateId r = cand_id (ci_candidate invite)) (mm_codeDrafts m))"

definition getCandidateWorkspaceInStore :: "'d store_ctx \<Rightarrow> candidate_invite \<Rightarrow> ('d store, candidate_workspace) act" where
  "getCandidateWorkspaceInStore c invite =
     with_fallback (storeDatabase c (find_workspace c invite))
       (bindE (memory_of (\<lambda>m. (m, ensureMemoryExamSession c invite (mm_examSessions m)))) (\<lambda>(m, session, examSessions).
        bindE (set_memory (mm_examSessions_update (\<lambda>_. examSessions))) (\<lambda>_.
        ret (memory_workspace invite session m))))"

definition getCandidateWorkspace :: "'d store_ctx \<Rightarrow> string \<Rightarrow> ('d store, candidate_workspace) act" where
  "getCandidateWorkspace c inviteToken =
     bindE (getInviteForWorkspaceUse c inviteToken) (\<lambda>invite.
     bindE (getCandidateWorkspaceInStore c invite) (\<lambda>workspace. ret (toCandidateWorkspace workspace)))"

section \<open>Events, devices and actions\<close>

definition logProctorEvent :: "'d store_ctx \<Rightarrow> string \<Rightarrow> event_input \<Rightarrow> ('d store, proctor_event) act" where
  "logProctorEvent c inviteToken input =
     bindE (getCandidateInvite c inviteToken) (\<lambda>invite. logProctorEventInStore c invite input)"

definition upsertProctorDevice :: "'d store_ctx \<Rightarrow> string \<Rightarrow> device_input \<Rightarrow> ('d store, proctor_device) act" where
  "upsertProctorDevice c inviteToken input =
     bindE (getCandidateInviteSnapshot c inviteToken) (\<lambda>invite. upsertProctorDeviceInStore c invite input)"

text \<open>A candidate with its exam; \<open>session\<close> is absent for the callers that checked it already.\<close>

definition check_access :: "auth_session option \<Rightarrow> string \<Rightarrow> unit res" where
  "check_access session organizationId = (case session of None \<Rightarrow> Inr () | Some s \<Rightarrow> assertSessionCanAccessExam s organizationId)"

definition findCandidateWithExam :: "'d store_ctx \<Rightarrow> string \<Rightarrow> auth_session option \<Rightarrow> ('d store, candidate \<times> exam) act" where
  "findCandidateWithExam c candidateId session =
     with_fallback
       (seededDatabase c
          (bindE (t_find (sc_candidates c) (\<lambda>p. cand_id p = candidateId)) (\<lambda>found. case found of
             None \<Rightarrow> throwE (NotFound ''Candidate not found'')
           | Some candidate \<Rightarrow>
               bindE (bindE (t_find (sc_exams c) (\<lambda>e. ex_id e = cand_examId candidate)) required) (\<lambda>exam.
               if ex_status exam = DELETED then throwE (NotFound ''Candidate not found'')
               else bindE (liftR (check_access session (ex_organizationId exam))) (\<lambda>_.
                    ret (mapCandidate candidate, mapExam exam))))))
       (bindE (memory_of (\<lambda>m. m)) (\<lambda>m. case List.find (\<lambda>p. cand_id p = candidateId) (mm_candidates m) of
          None \<Rightarrow> throwE (NotFound ''Candidate not found'')
        | Some candidate \<Rightarrow> (case List.find (\<lambda>e. ex_id e = cand_examId candidate) (mm_exams m) of
            None \<Rightarrow> throwE (NotFound ''Exam not found'')
          | Some exam \<Rightarrow>
              if ex_status exam = DELETED then throwE (NotFound ''Exam not found'')
              else bindE (liftR (check_access session (ex_organizationId exam))) (\<lambda>_. ret (candidate, exam)))))"

definition findManageableCandidateWithExam :: "'d store_ctx \<Rightarrow> string \<Rightarrow> auth_session \<Rightarrow> ('d store, candidate \<times> exam) act" where
  "findManageableCandidateWithExam c candidateId session =
     bindE (liftR (assertSessionCanManageExams session)) (\<lambda>_. findCandidateWithExam c candidateId (Some session))"

definition new_action :: "'d store_ctx \<Rightarrow> string \<Rightarrow> exam \<Rightarrow> action_input \<Rightarrow> proctor_action" where
  "new_action c candidateId exam input = \<lparr>pa_id = createId c 0 ''proctor_action'', pa_candidateId = candidateId, pa_examId = ex_id exam,
     pa_type = ai_type input, pa_message = ai_message input, pa_createdAt = sc_now c\<rparr>"

definition createProctorAction :: "'d store_ctx \<Rightarrow> string \<Rightarrow> action_input \<Rightarrow> auth_session \<Rightarrow> ('d store, proctor_action) act" where
  "createProctorAction c candidateId input session =
     (if usr_role (as_user session) \<noteq> ADMIN \<and> usr_role (as_user session) \<noteq> ORGANIZATION \<and> usr_role (as_user session) \<noteq> PROCTOR
      then throwE (Forbidden ''Proctor privileges are required'')
      else bindE (findCandidateWithExam c candidateId (Some session)) (\<lambda>(candidate, exam).
        with_fallback (seededDatabase c (mapped mapProctorAction (t_create (sc_proctorActions c) (new_action c candidateId exam input))))
          (bindE (set_memory (mm_proctorActions_update (\<lambda>actions. new_action c candidateId exam input # actions))) (\<lambda>_.
           ret (new_action c candidateId exam input)))))"


section \<open>What an invite shows\<close>

definition invite_of_token :: "string \<Rightarrow> candidate_invite \<Rightarrow> bool" where
  "invite_of_token inviteToken invite \<longleftrightarrow>
     cand_inviteToken (ci_candidate invite) = inviteToken \<and> ex_id (ci_exam invite) = cand_examId (ci_candidate invite) \<and>
     (\<forall>q \<in> set (ci_questions invite). q_expectedAnswer q = None \<and> q_examId q = ex_id (ci_exam invite)) \<and>
     (\<forall>d \<in> set (ci_proctorDevices invite). pd_candidateId d = cand_id (ci_candidate invite)) \<and>
     (\<forall>v. ci_identityVerification invite = Some v \<longrightarrow> iv_candidateId v = cand_id (ci_candidate invite)) \<and>
     (\<forall>k. ci_environmentCheck invite = Some k \<longrightarrow> ec_candidateId k = cand_id (ci_candidate invite))"

lemma required_eq_Inr: "required found s = (Inr r, t) \<longleftrightarrow> found = Some r \<and> t = s"
  by (auto simp: required_def store_Inr split: option.split)

lemma hidden_answer [simp]:
  "q_expectedAnswer (mapCandidateQuestion q) = None" "q_examId (mapCandidateQuestion q) = q_examId q"
  "q_expectedAnswer (omitExpectedAnswer q) = None" "q_examId (omitExpectedAnswer q) = q_examId q"
  by (simp_all add: mapCandidateQuestion_def omitExpectedAnswer_def)

lemma newest_in:
  assumes "head_opt (sort_newest key xs) = Some x"
  shows "x \<in> set xs"
proof -
  from assms have "x \<in> set (sort_newest key xs)" by (cases "sort_newest key xs") simp_all
  then show ?thesis by simp
qed

lemma newest_mapped:
  assumes "\<And>x. x \<in> set xs \<Longrightarrow> P (f x)" and "map_option f (head_opt (sort_newest key xs)) = Some v"
  shows "P v"
  using assms by (cases "head_opt (sort_newest key xs)") (auto intro: newest_in)

lemma candidate_of_mapped [simp]:
  "iv_candidateId (mapIdentityVerification row) = idr_candidateId row" "ec_candidateId (mapEnvironmentCheck check) = ekr_candidateId check"
  by (simp_all add: mapIdentityVerification_def mapEnvironmentCheck_def)

lemma find_invite_InrD:
  assumes "good_tables c content" and "find_invite c inviteToken d = (Inr (Some invite), d')"
  shows "d' = d"
    and "List.find (\<lambda>p. cand_inviteToken p = inviteToken) (k_candidates (content d)) = Some (ci_candidate invite)"
    and "List.find (\<lambda>e. ex_id e = cand_examId (ci_candidate invite)) (k_exams (content d)) = Some (ci_exam invite)"
    and "ci_proctorDevices invite = filter (\<lambda>x. pd_candidateId x = cand_id (ci_candidate invite)) (k_proctorDevices (content d))"
    and "invite_of_token inviteToken invite"
proof -
  from assms(2) obtain p t1 ids t2 cks t3 ds t4 e t5 r t6 qs
    where f: "t_find (sc_candidates c) (\<lambda>p. cand_inviteToken p = inviteToken) d = (Inr (Some p), t1)"
      "t_findMany (sc_identityVerifications c) (\<lambda>v. idr_candidateId v = cand_id p) t1 = (Inr ids, t2)"
      "t_findMany (sc_environmentChecks c) (\<lambda>k. ekr_candidateId k = cand_id p) t2 = (Inr cks, t3)"
      "t_findMany (sc_proctorDevices c) (\<lambda>x. pd_candidateId x = cand_id p) t3 = (Inr ds, t4)"
      "t_find (sc_exams c) (\<lambda>e. ex_id e = cand_examId p) t4 = (Inr (Some e), t5)"
      "t_find (sc_organizations c) (\<lambda>r. o_id r = ex_organizationId e) t5 = (Inr (Some r), t6)"
      "t_findMany (sc_questions c) (\<lambda>q. q_examId q = ex_id e) t6 = (Inr qs, d')"
      and invite: "invite = \<lparr>ci_candidate = p, ci_exam = e, ci_organization = mapOrganization r,
           ci_questions = map mapCandidateQuestion (sort_oldest q_createdAt qs), ci_proctorDevices = ds,
           ci_identityVerification = map_option mapIdentityVerification (head_opt (sort_newest idr_createdAt ids)),
           ci_environmentCheck = map_option mapEnvironmentCheck (head_opt (sort_newest ekr_createdAt cks))\<rparr>"
    unfolding find_invite_def by (fastforce simp: store_Inr required_eq_Inr split: option.splits)
  note r = good_find(4) [OF assms(1) f(1)] good_findMany(10) [OF assms(1) f(2)] good_findMany(11) [OF assms(1) f(3)]
    good_findMany(7) [OF assms(1) f(4)] good_find(2) [OF assms(1) f(5)] good_find(1) [OF assms(1) f(6)] good_findMany(3) [OF assms(1) f(7)]
  show "d' = d" using r by simp
  show cand: "List.find (\<lambda>p. cand_inviteToken p = inviteToken) (k_candidates (content d)) = Some (ci_candidate invite)"
    and exam: "List.find (\<lambda>e. ex_id e = cand_examId (ci_candidate invite)) (k_exams (content d)) = Some (ci_exam invite)"
    and "ci_proctorDevices invite = filter (\<lambda>x. pd_candidateId x = cand_id (ci_candidate invite)) (k_proctorDevices (content d))"
    using r by (simp_all add: invite)
  have own: "\<forall>v \<in> set ids. idr_candidateId v = cand_id p" "\<forall>k \<in> set cks. ekr_candidateId k = cand_id p"
    "\<forall>x \<in> set ds. pd_candidateId x = cand_id p" "\<forall>q \<in> set qs. q_examId q = ex_id e"
    using r by simp_all
  from find_SomeD [OF cand] find_SomeD [OF exam] have "cand_inviteToken p = inviteToken" "ex_id e = cand_examId p"
    by (simp_all add: invite)
  moreover have "\<forall>v. ci_identityVerification invite = Some v \<longrightarrow> iv_candidateId v = cand_id p"
    using own(1) newest_mapped [of ids "\<lambda>v. iv_candidateId v = cand_id p" mapIdentityVerification] by (simp add: invite)
  moreover have "\<forall>k. ci_environmentCheck invite = Some k \<longrightarrow> ec_candidateId k = cand_id p"
    using own(2) newest_mapped [of cks "\<lambda>k. ec_candidateId k = cand_id p" mapEnvironmentCheck] by (simp add: invite)
  ultimately show "invite_of_token inviteToken invite"
    using own(3,4) by (simp add: invite invite_of_token_def sort_oldest_def)
qed

lemma memory_invite_InrD:
  assumes "memory_invite m inviteToken = Inr invite"
  shows "List.find (\<lambda>p. cand_inviteToken p = inviteToken) (mm_candidates m) = Some (ci_candidate invite)"
    and "List.find (\<lambda>e. ex_id e = cand_examId (ci_candidate invite)) (mm_exams m) = Some (ci_exam invite)"
    and "ex_status (ci_exam invite) \<noteq> DELETED"
    and "invite_of_token inviteToken invite"
proof -
  from assms obtain p e where p: "List.find (\<lambda>p. cand_inviteToken p = inviteToken) (mm_candidates m) = Some p"
    and e: "List.find (\<lambda>e. ex_id e = cand_examId p) (mm_exams m) = Some e" and "ex_status e \<noteq> DELETED"
    and invite: "invite = \<lparr>ci_candidate = p, ci_exam = e, ci_organization = mm_organization m,
               ci_questions = map omitExpectedAnswer (filter (\<lambda>q. q_examId q = ex_id e) (mm_questions m)),
               ci_proctorDevices = filter (\<lambda>d. pd_candidateId d = cand_id p) (mm_proctorDevices m),
               ci_identityVerification = List.find (\<lambda>v. iv_candidateId v = cand_id p) (mm_identityVerifications m),
               ci_environmentCheck = List.find (\<lambda>k. ec_candidateId k = cand_id p) (mm_environmentChecks m)\<rparr>"
    by (auto simp: memory_invite_def split: option.splits if_splits)
  then show "List.find (\<lambda>p. cand_inviteToken p = inviteToken) (mm_candidates m) = Some (ci_candidate invite)"
    and "List.find (\<lambda>e. ex_id e = cand_examId (ci_candidate invite)) (mm_exams m) = Some (ci_exam invite)"
    and "ex_status (ci_exam invite) \<noteq> DELETED"
    by simp_all
  from find_SomeD [OF p] find_SomeD [OF e] have "cand_inviteToken p = inviteToken" "ex_id e = cand_examId p" by simp_all
  then show "invite_of_token inviteToken invite"
    using find_SomeD [of "\<lambda>v. iv_candidateId v = cand_id p" "mm_identityVerifications m"]
      find_SomeD [of "\<lambda>k. ec_candidateId k = cand_id p" "mm_environmentChecks m"]
    by (simp add: invite invite_of_token_def)
qed

text \<open>The invite of a token is the candidate's own, with an exam that is not deleted; none of its questions shows
  the expected answer, and nothing in it belongs to another candidate or exam. Reading it changes nothing in memory.\<close>

theorem invite_hides_answers:
  assumes "good_tables c content" and "getCandidateInviteSnapshot c inviteToken s = (Inr invite, s')"
  shows "invite_of_token inviteToken invite \<and> ex_status (ci_exam invite) \<noteq> DELETED \<and> st_memory s' = st_memory s \<and>
    (\<exists>candidates exams. answered_from c content s s' (\<lambda>k. (k_candidates k, k_exams k)) (\<lambda>m. (mm_candidates m, mm_exams m)) (candidates, exams) \<and>
       ci_candidate invite \<in> set candidates \<and> ci_exam invite \<in> set exams)"
  using assms(2) [unfolded getCandidateInviteSnapshot_def]
proof (cases rule: with_seeded_cases)
  case (database d0 d)
  from database(3) obtain d1 where found: "find_invite c inviteToken d0 = (Inr (Some invite), d1)"
    and ok: "ex_status (ci_exam invite) \<noteq> DELETED" "d = d1"
    by (auto simp: store_Inr split: option.splits if_splits)
  note inv = find_invite_InrD [OF assms(1) found]
  have "ci_candidate invite \<in> set (k_candidates (content d0))" "ci_exam invite \<in> set (k_exams (content d0))"
    using find_SomeD [OF inv(2)] find_SomeD [OF inv(3)] by blast+
  with inv(5) ok database(4) database_paths(3) [OF database(1,4,2)] show ?thesis
    by (intro conjI exI [of _ "k_candidates (content d0)"] exI [of _ "k_exams (content d0)"]) simp_all
next
  case (memory s1)
  from memory(1) have found: "memory_invite (st_memory s1) inviteToken = Inr invite" and "s' = s1" by (auto simp: store_Inr)
  note inv = memory_invite_InrD [OF found]
  have "ci_candidate invite \<in> set (mm_candidates (st_memory s))" "ci_exam invite \<in> set (mm_exams (st_memory s))"
    using find_SomeD [OF inv(1)] find_SomeD [OF inv(2)] memory(2) by simp_all
  with inv(3,4) memory \<open>s' = s1\<close> memory_paths(3) [of c s s'] show ?thesis
    by (intro conjI exI [of _ "mm_candidates (st_memory s)"] exI [of _ "mm_exams (st_memory s)"]) simp_all
qed

section \<open>The gate of the workspace\<close>

lemma deployed_snapshot:
  assumes "good_tables c content" and "deployed c" and "getCandidateInviteSnapshot c inviteToken s = (Inr invite, s')"
  shows "s' = s" and "invite_of_token inviteToken invite"
    and "List.find (\<lambda>p. cand_inviteToken p = inviteToken) (k_candidates (content (st_db s))) = Some (ci_candidate invite)"
    and "List.find (\<lambda>e. ex_id e = cand_examId (ci_candidate invite)) (k_exams (content (st_db s))) = Some (ci_exam invite)"
    and "ci_proctorDevices invite = filter (\<lambda>x. pd_candidateId x = cand_id (ci_candidate invite)) (k_proctorDevices (content (st_db s)))"
proof -
  from assms(3) obtain d where found: "find_invite c inviteToken (st_db s) = (Inr (Some invite), d)" and s': "s' = s\<lparr>st_db := d\<rparr>"
    unfolding getCandidateInviteSnapshot_def
  proof (cases rule: with_seeded_cases)
    case (database d0 d)
    with deployed_seed [OF assms(2)] show ?thesis using that by (auto simp: store_Inr split: option.splits if_splits)
  next
    case (memory s1)
    with deployed_fallback(2) [OF assms(2)] show ?thesis by blast
  qed
  note inv = find_invite_InrD [OF assms(1) found]
  show "s' = s" using s' inv(1) by simp
  show "invite_of_token inviteToken invite"
    "List.find (\<lambda>p. cand_inviteToken p = inviteToken) (k_candidates (content (st_db s))) = Some (ci_candidate invite)"
    "List.find (\<lambda>e. ex_id e = cand_examId (ci_candidate invite)) (k_exams (content (st_db s))) = Some (ci_exam invite)"
    "ci_proctorDevices invite = filter (\<lambda>x. pd_candidateId x = cand_id (ci_candidate invite)) (k_proctorDevices (content (st_db s)))"
    by (fact inv(5) inv(2) inv(3) inv(4))+
qed

lemma deployed_mark:
  assumes "good_tables c content" and "deployed c" and "markStaleProctorDevicesInStore c examId s = (Inr u, s')"
    and "devices_wf (k_proctorDevices (content (st_db s)))"
  obtains es where "content (st_db s') = k_proctorEvents_update (\<lambda>rs. rs @ es)
      (k_proctorDevices_update (replace_where (is_stale examId (stale_before c)) (disconnect_device c)) (content (st_db s)))"
    and "st_memory s' = st_memory s"
  using assms(3) [unfolded markStaleProctorDevicesInStore_def]
proof (cases rule: with_database_cases)
  case (database d)
  let ?ds = "k_proctorDevices (content (st_db s))"
  from database(2) obtain b stale d1 where b: "stale_before c = Some b"
    and f: "t_findMany (sc_proctorDevices c) (is_stale_row examId b) (st_db s) = (Inr stale, d1)"
    and all: "disconnect_all c 0 stale d1 = (Inr (), d)"
    by (auto simp: store_Inr split: option.splits)
  from good_findMany(7) [OF assms(1) f]
  have stale: "stale = filter (is_stale examId (stale_before c)) ?ds" "d1 = st_db s"
    using is_stale_row_eq [OF assms(4)] by (auto simp: b cong: filter_cong)
  have eq: "replace_where (\<lambda>x. pd_id x \<in> pd_id ` set stale) (disconnect_device c) ?ds =
      replace_where (is_stale examId (stale_before c)) (disconnect_device c) ?ds"
    unfolding stale(1) by (rule replace_where_cong) (rule stale_by_id [OF assms(4)])
  have "k_proctorDevices_update (replace_where (\<lambda>x. pd_id x \<in> pd_id ` set stale) (disconnect_device c)) (content (st_db s)) =
      k_proctorDevices_update (replace_where (is_stale examId (stale_before c)) (disconnect_device c)) (content (st_db s))"
    using eq by (auto intro: contents.fold_congs)
  with disconnect_all_content [OF assms(1) all] stale(2) database(3) show ?thesis using that by simp
next
  case (memory s1)
  with deployed_fallback(2) [OF assms(2)] show ?thesis by blast
qed

definition workspace_open :: "'d store_ctx \<Rightarrow> candidate_invite \<Rightarrow> bool" where
  "workspace_open c invite \<longleftrightarrow> exam_available c (ci_exam invite) \<and> cand_status (ci_candidate invite) \<noteq> INVITED \<and>
     (\<exists>check. ci_environmentCheck invite = Some check \<and> ec_requiredPassed check) \<and>
     (ex_identityVerificationEnabled (ci_exam invite) \<longrightarrow> (\<exists>v. ci_identityVerification invite = Some v \<and> iv_status v = ID_VERIFIED)) \<and>
     (ex_mobileCameraRequired (ci_exam invite) \<longrightarrow> mobile_connected invite)"

lemma gate_Inr: "assertCandidateCanUseWorkspace c invite = Inr u \<longleftrightarrow> workspace_open c invite"
  by (auto simp: assertCandidateCanUseWorkspace_def workspace_open_def split: option.splits)

lemma deployed_gate:
  assumes "good_tables c content" and "deployed c" and "devices_wf (k_proctorDevices (content (st_db s)))"
    and "getInviteForWorkspaceUse c inviteToken s = (Inr invite, s')"
  shows "invite_of_token inviteToken invite" and "workspace_open c invite"
    and "\<forall>d \<in> set (ci_proctorDevices invite). \<not> is_stale (ex_id (ci_exam invite)) (stale_before c) d"
    and "List.find (\<lambda>p. cand_inviteToken p = inviteToken) (k_candidates (content (st_db s))) = Some (ci_candidate invite)"
    and "List.find (\<lambda>e. ex_id e = cand_examId (ci_candidate invite)) (k_exams (content (st_db s))) = Some (ci_exam invite)"
    and "k_examSessions (content (st_db s')) = k_examSessions (content (st_db s))"
proof -
  from assms(4) obtain invite0 s1 s2 where first: "getCandidateInviteSnapshot c inviteToken s = (Inr invite0, s1)"
    and mark: "markStaleProctorDevicesInStore c (ex_id (ci_exam invite0)) s1 = (Inr (), s2)"
    and second: "getCandidateInviteSnapshot c inviteToken s2 = (Inr invite, s')"
    and gate: "assertCandidateCanUseWorkspace c invite = Inr ()"
    by (auto simp: getInviteForWorkspaceUse_def getCandidateInviteForInternalUse_def store_Inr)
  note one = deployed_snapshot [OF assms(1,2) first]
  note two = deployed_snapshot [OF assms(1,2) second]
  from one(1) assms(3) have "devices_wf (k_proctorDevices (content (st_db s1)))" by simp
  then obtain es where after: "content (st_db s2) = k_proctorEvents_update (\<lambda>rs. rs @ es) (k_proctorDevices_update
      (replace_where (is_stale (ex_id (ci_exam invite0)) (stale_before c)) (disconnect_device c)) (content (st_db s)))"
    using deployed_mark [OF assms(1,2) mark] one(1) by metis
  have same: "ci_candidate invite = ci_candidate invite0" using one(3) two(3) by (simp add: after)
  then have exam: "ci_exam invite = ci_exam invite0" using one(4) two(4) by (simp add: after)
  have "\<not> is_stale (ex_id (ci_exam invite)) (stale_before c) d" if "d \<in> set (ci_proctorDevices invite)" for d
    using that not_stale_after [of "ex_id (ci_exam invite0)" "stale_before c" c "k_proctorDevices (content (st_db s))"]
    by (auto simp: two(5) after exam filter_empty_conv)
  then show "\<forall>d \<in> set (ci_proctorDevices invite). \<not> is_stale (ex_id (ci_exam invite)) (stale_before c) d" by blast
  show "k_examSessions (content (st_db s')) = k_examSessions (content (st_db s))" using two(1) by (simp add: after)
  show "invite_of_token inviteToken invite" "workspace_open c invite"
    "List.find (\<lambda>p. cand_inviteToken p = inviteToken) (k_candidates (content (st_db s))) = Some (ci_candidate invite)"
    "List.find (\<lambda>e. ex_id e = cand_examId (ci_candidate invite)) (k_exams (content (st_db s))) = Some (ci_exam invite)"
    using two(2) gate one(3,4) by (simp_all add: gate_Inr same exam)
qed

text \<open>C3. In a deployment a candidate uses the workspace only with the own invite, while the exam is open, after
  confirming the entry, passing the environment check, being identified where the exam asks for it and connecting the
  mobile camera where it is required, and no device of the exam counts as connected that has missed its heartbeat.\<close>

theorem workspace_needs_every_check:
  assumes "good_tables c content" and "deployed c" and "devices_wf (k_proctorDevices (content (st_db s)))"
    and "getInviteForWorkspaceUse c inviteToken s = (Inr invite, s')"
  shows "invite_of_token inviteToken invite \<and> workspace_open c invite \<and>
    (\<forall>d \<in> set (ci_proctorDevices invite). \<not> is_stale (ex_id (ci_exam invite)) (stale_before c) d) \<and>
    List.find (\<lambda>p. cand_inviteToken p = inviteToken) (k_candidates (content (st_db s))) = Some (ci_candidate invite) \<and>
    List.find (\<lambda>e. ex_id e = cand_examId (ci_candidate invite)) (k_exams (content (st_db s))) = Some (ci_exam invite)"
  using deployed_gate [OF assms] by blast

section \<open>One session for each candidate and exam\<close>

text \<open>What reading the session of an invite leaves of the sessions: the invite's own one is there, and one that was there
  already keeps its times.\<close>

definition session_kept :: "'d store_ctx \<Rightarrow> candidate_invite \<Rightarrow> exam_session list \<Rightarrow> exam_session list \<Rightarrow> exam_session \<Rightarrow> bool" where
  "session_kept c invite before after row \<longleftrightarrow> List.find (is_session invite) after = Some row \<and>
     (case List.find (is_session invite) before of
        Some old \<Rightarrow> row = old \<and> after = before
      | None \<Rightarrow> row = new_session c invite \<and> set after = insert row (set before) \<and> length after = Suc (length before))"

lemma is_new_session [simp]: "is_session invite (new_session c invite)"
  by (simp add: is_session_def new_session_def)

lemma find_append: "List.find p (xs @ ys) = (case List.find p xs of None \<Rightarrow> List.find p ys | Some x \<Rightarrow> Some x)"
  by (induction xs) auto

lemma withRemainingSeconds_sel [simp]:
  "xs_endsAt (withRemainingSeconds now x) = xs_endsAt x" "xs_startedAt (withRemainingSeconds now x) = xs_startedAt x"
  "xs_candidateId (withRemainingSeconds now x) = xs_candidateId x" "xs_examId (withRemainingSeconds now x) = xs_examId x"
  "xs_remainingSeconds (withRemainingSeconds now x) = remaining_seconds (xs_endsAt x) now"
  by (simp_all add: withRemainingSeconds_def)

lemma remaining_positive: "remaining_seconds endsAt now > 0 \<longleftrightarrow> now + 1000 \<le> endsAt"
  by (auto simp: remaining_seconds_def)

definition shows_session :: "'d store_ctx \<Rightarrow> exam_session \<Rightarrow> exam_session \<Rightarrow> bool" where
  "shows_session c row session \<longleftrightarrow> xs_startedAt session = xs_startedAt row \<and> xs_endsAt session = xs_endsAt row \<and>
     xs_candidateId session = xs_candidateId row \<and> xs_examId session = xs_examId row \<and>
     (xs_remainingSeconds session > 0 \<longleftrightarrow> sc_now c + 1000 \<le> xs_endsAt row)"

lemma ensureExamSession_InrD:
  assumes "good_tables c content" and "ensureExamSession c invite d = (Inr session, d')"
  obtains row where "session_kept c invite (k_examSessions (content d)) (k_examSessions (content d')) row"
    and "content d' = k_examSessions_update (\<lambda>_. k_examSessions (content d')) (content d)" and "shows_session c row session"
proof -
  from assms(2) obtain row where up: "t_upsert (sc_examSessions c) (is_session invite) (\<lambda>session. session) (new_session c invite) d = (Inr row, d')"
    and session: "session = withRemainingSeconds (sc_now c) row"
    by (auto simp: ensureExamSession_def store_Inr mapExamSession_eq)
  note law = store_part.upsert_InrD [OF good_examSessions [OF assms(1)] up]
  have "session_kept c invite (k_examSessions (content d)) (k_examSessions (content d')) row"
    and "content d' = k_examSessions_update (\<lambda>_. k_examSessions (content d')) (content d)"
    using law by (auto simp: session_kept_def find_append split: option.splits)
  then show ?thesis using that by (simp add: session shows_session_def remaining_positive)
qed

lemma ensureMemoryExamSession_D:
  assumes "ensureMemoryExamSession c invite before = (session, after)"
  obtains row where "session_kept c invite before after row" and "shows_session c row session"
proof (cases "List.find (is_session invite) before")
  case None
  with assms have "session_kept c invite before after (new_session c invite)" "session = new_session c invite"
    by (auto simp: ensureMemoryExamSession_def session_kept_def)
  moreover have "shows_session c (new_session c invite) (new_session c invite)"
    by (auto simp: shows_session_def new_session_def)
  ultimately show ?thesis using that by simp
next
  case (Some old)
  with assms have "session_kept c invite before after old" "session = withRemainingSeconds (sc_now c) old"
    by (auto simp: ensureMemoryExamSession_def session_kept_def)
  then show ?thesis using that by (simp add: shows_session_def remaining_positive)
qed

text \<open>Whether the proctors let the exam go on: every pause and termination was answered by a resumption.\<close>

definition exam_released :: "candidate_invite \<Rightarrow> proctor_action list \<Rightarrow> bool" where
  "exam_released invite actions \<longleftrightarrow>
     (\<forall>a \<in> set actions. pa_candidateId a = cand_id (ci_candidate invite) \<and> (pa_type a = PAUSE_EXAM \<or> pa_type a = TERMINATE_EXAM) \<longrightarrow>
        (\<exists>r \<in> set actions. pa_candidateId r = cand_id (ci_candidate invite) \<and> pa_type r = RESUME_EXAM \<and> pa_createdAt r \<ge> pa_createdAt a))"

lemma newest_is_latest:
  assumes "head_opt (sort_newest key xs) = Some x" and "y \<in> set xs"
  shows "key y \<le> key x"
proof -
  from assms(1) obtain rest where xs: "sort_newest key xs = x # rest" by (cases "sort_newest key xs") auto
  with sort_newest_sorted [of key xs] have "\<forall>z \<in> set rest. key z \<le> key x" by simp
  moreover from assms(2) have "y \<in> set (sort_newest key xs)" by simp
  ultimately show ?thesis by (auto simp: xs)
qed

lemma allowed_released:
  assumes "assertProctorActionAllowsExam (head_opt (sort_newest pa_createdAt (filter (is_blocking invite) actions))) = Inr ()"
  shows "exam_released invite actions"
proof (cases "head_opt (sort_newest pa_createdAt (filter (is_blocking invite) actions))")
  case None
  then have "filter (is_blocking invite) actions = []"
    by (metis head_opt_None set_empty set_sort_newest)
  then show ?thesis by (auto simp: exam_released_def is_blocking_def filter_empty_conv)
next
  case (Some r)
  from newest_in [OF Some] assms Some have r: "r \<in> set actions" "is_blocking invite r" "pa_type r = RESUME_EXAM"
    by (auto simp: assertProctorActionAllowsExam_def is_blocking_def split: if_splits)
  show ?thesis unfolding exam_released_def
  proof (intro ballI impI bexI conjI)
    fix a
    assume a: "a \<in> set actions"
      "pa_candidateId a = cand_id (ci_candidate invite) \<and> (pa_type a = PAUSE_EXAM \<or> pa_type a = TERMINATE_EXAM)"
    then show "pa_createdAt a \<le> pa_createdAt r" by (intro newest_is_latest [OF Some]) (auto simp: is_blocking_def)
  qed (use r in \<open>auto simp: is_blocking_def\<close>)
qed

lemma open_session:
  assumes "good_tables c content" and "assertExamSessionOpen c invite s = (Inr u, s')"
  shows "\<exists>before after actions row.
    list_written c content s s' (\<lambda>k. (k_examSessions k, k_proctorActions k)) (\<lambda>m. (mm_examSessions m, mm_proctorActions m))
      (before, actions) (after, actions) \<and>
    session_kept c invite before after row \<and> sc_now c + 1000 \<le> xs_endsAt row \<and> exam_released invite actions"
  using assms(2) [unfolded assertExamSessionOpen_def]
proof (cases rule: with_database_cases)
  case (database d)
  from database(2) obtain session d1 actions where session: "ensureExamSession c invite (st_db s) = (Inr session, d1)"
    and actions: "t_findMany (sc_proctorActions c) (is_blocking invite) d1 = (Inr actions, d)"
    and allowed: "assertProctorActionAllowsExam (head_opt (sort_newest pa_createdAt actions)) = Inr ()"
    and running: "xs_remainingSeconds session > 0"
    by (auto simp: store_Inr latestBlockingAction_def option.map_ident not_le split: if_splits)
  obtain row where row: "session_kept c invite (k_examSessions (content (st_db s))) (k_examSessions (content d1)) row"
    "content d1 = k_examSessions_update (\<lambda>_. k_examSessions (content d1)) (content (st_db s))" "shows_session c row session"
    by (rule ensureExamSession_InrD [OF assms(1) session])
  have same: "k_proctorActions (content d1) = k_proctorActions (content (st_db s))" by (subst row(2)) simp
  from good_findMany(8) [OF assms(1) actions]
  have d: "d = d1" and "actions = filter (is_blocking invite) (k_proctorActions (content (st_db s)))" by (simp_all add: same)
  with allowed have "exam_released invite (k_proctorActions (content (st_db s)))" by (auto intro: allowed_released)
  moreover have "list_written c content s s' (\<lambda>k. (k_examSessions k, k_proctorActions k)) (\<lambda>m. (mm_examSessions m, mm_proctorActions m))
      (k_examSessions (content (st_db s)), k_proctorActions (content (st_db s))) (k_examSessions (content d1), k_proctorActions (content (st_db s)))"
    using database(1,3) by (simp add: list_written_def d same)
  ultimately show ?thesis using row(1,3) running unfolding shows_session_def by blast
next
  case (memory s1)
  let ?actions = "mm_proctorActions (st_memory s)"
  obtain session after where m: "ensureMemoryExamSession c invite (mm_examSessions (st_memory s)) = (session, after)" by fastforce
  with memory have allowed: "assertProctorActionAllowsExam (latestMemoryBlockingAction invite ?actions) = Inr ()"
    and running: "xs_remainingSeconds session > 0" and s': "s' = s1\<lparr>st_memory := mm_examSessions_update (\<lambda>_. after) (st_memory s)\<rparr>"
    by (auto simp: store_Inr split: if_splits)
  obtain row where "session_kept c invite (mm_examSessions (st_memory s)) after row" "shows_session c row session"
    by (rule ensureMemoryExamSession_D [OF m])
  moreover have "exam_released invite ?actions" using allowed by (intro allowed_released) (simp add: latestMemoryBlockingAction_def)
  moreover have "list_written c content s s' (\<lambda>k. (k_examSessions k, k_proctorActions k)) (\<lambda>m. (mm_examSessions m, mm_proctorActions m))
      (mm_examSessions (st_memory s), ?actions) (after, ?actions)"
    using memory(3) by (simp add: list_written_def s')
  ultimately show ?thesis using running unfolding shows_session_def by blast
qed

text \<open>C8. A candidate acts in an exam only while its session runs and no pause or termination stands. The session was
  made once, to end after the exam's duration, and entering again never moves it nor adds another.\<close>

theorem exam_clock_is_fixed:
  assumes "good_tables c content" and "assertExamSessionOpen c invite s = (Inr u, s')"
  shows "\<exists>before after actions row.
    list_written c content s s' (\<lambda>k. (k_examSessions k, k_proctorActions k)) (\<lambda>m. (mm_examSessions m, mm_proctorActions m))
      (before, actions) (after, actions) \<and>
    session_kept c invite before after row \<and> sc_now c + 1000 \<le> xs_endsAt row \<and> exam_released invite actions"
  using open_session [OF assms] .

section \<open>What the workspace shows\<close>

definition own_results :: "candidate_invite \<Rightarrow> candidate_workspace \<Rightarrow> bool" where
  "own_results invite workspace \<longleftrightarrow> candidate_invite.truncate workspace = invite \<and>
     (\<forall>x \<in> set (cw_submissions workspace). sub_candidateId x = cand_id (ci_candidate invite)) \<and>
     (\<forall>x \<in> set (cw_executions workspace). ce_candidateId x = cand_id (ci_candidate invite)) \<and>
     (\<forall>x \<in> set (cw_drafts workspace). cd_candidateId x = cand_id (ci_candidate invite)) \<and>
     is_session invite (cw_examSession workspace)"

lemma workspace_of_sel [simp]:
  "candidate_invite.truncate (workspace_of invite a b d e session f) = invite" "cw_submissions (workspace_of invite a b d e session f) = a"
  "cw_executions (workspace_of invite a b d e session f) = b" "cw_drafts (workspace_of invite a b d e session f) = f"
  "cw_examSession (workspace_of invite a b d e session f) = session"
  by (simp_all add: workspace_of_def candidate_invite.defs candidate_workspace.defs)

lemma session_is_own: "session_kept c invite before after row \<Longrightarrow> shows_session c row session \<Longrightarrow> is_session invite session"
  by (auto simp: session_kept_def shows_session_def is_session_def dest: find_SomeD)

lemma snapshot_of_token:
  assumes "good_tables c content" and "getCandidateInviteSnapshot c inviteToken s = (Inr invite, s')"
  shows "invite_of_token inviteToken invite"
  using assms(2) [unfolded getCandidateInviteSnapshot_def]
proof (cases rule: with_seeded_cases)
  case (database d0 d)
  then obtain d1 where "find_invite c inviteToken d0 = (Inr (Some invite), d1)" by (auto simp: store_Inr split: option.splits if_splits)
  then show ?thesis by (rule find_invite_InrD(5) [OF assms(1)])
next
  case (memory s1)
  then show ?thesis by (auto simp: store_Inr intro: memory_invite_InrD(4))
qed

lemma gate_passed:
  assumes "good_tables c content" and "getInviteForWorkspaceUse c inviteToken s = (Inr invite, s')"
  shows "invite_of_token inviteToken invite" and "workspace_open c invite"
  using assms(2) snapshot_of_token [OF assms(1)]
  by (auto simp: getInviteForWorkspaceUse_def getCandidateInviteForInternalUse_def store_Inr gate_Inr)

lemma own_results_in_store:
  assumes "good_tables c content" and "getCandidateWorkspaceInStore c invite s = (Inr workspace, s')"
  shows "own_results invite workspace"
  using assms(2) [unfolded getCandidateWorkspaceInStore_def]
proof (cases rule: with_database_cases)
  case (database d)
  from database(2) obtain session d1 subs d2 exs d3 evs d4 acts d5 drafts
    where session: "ensureExamSession c invite (st_db s) = (Inr session, d1)"
      and f: "t_findMany (sc_submissions c) (\<lambda>r. sub_candidateId r = cand_id (ci_candidate invite)) d1 = (Inr subs, d2)"
        "t_findMany (sc_codeExecutions c) (\<lambda>r. ce_candidateId r = cand_id (ci_candidate invite)) d2 = (Inr exs, d3)"
        "t_findMany (sc_codeDrafts c) (\<lambda>r. cd_candidateId r = cand_id (ci_candidate invite)) d5 = (Inr drafts, d)"
      and ws: "workspace = workspace_of invite (sort_newest sub_submittedAt subs) (take 20 (sort_newest ce_createdAt exs))
        (take 50 (sort_newest pe_createdAt evs)) (take 20 (sort_newest pa_createdAt acts)) session (sort_newest cd_savedAt drafts)"
    by (auto simp: find_workspace_def store_Inr)
  obtain row where "session_kept c invite (k_examSessions (content (st_db s))) (k_examSessions (content d1)) row" "shows_session c row session"
    by (rule ensureExamSession_InrD [OF assms(1) session])
  then have "is_session invite session" by (rule session_is_own)
  with good_findMany(15) [OF assms(1) f(1)] good_findMany(14) [OF assms(1) f(2)] good_findMany(13) [OF assms(1) f(3)] show ?thesis
    by (auto simp: own_results_def ws dest!: in_set_takeD)
next
  case (memory s1)
  let ?m = "st_memory s"
  obtain session after where e: "ensureMemoryExamSession c invite (mm_examSessions ?m) = (session, after)" by fastforce
  obtain row where "session_kept c invite (mm_examSessions ?m) after row" "shows_session c row session"
    by (rule ensureMemoryExamSession_D [OF e])
  then have "is_session invite session" by (rule session_is_own)
  moreover from memory e have "workspace = memory_workspace invite session ?m" by (auto simp: store_Inr)
  ultimately show ?thesis by (auto simp: own_results_def memory_workspace_def dest!: in_set_takeD)
qed

definition test_hidden :: "judge_test_result \<Rightarrow> bool" where
  "test_hidden r \<longleftrightarrow> (jt_error r = None \<or> jt_error r = Some runnerErrorMessage) \<and>
     (\<not> jt_isPublic r \<longrightarrow> jt_input r = hiddenTestMessage \<and> jt_expectedOutput r = hiddenTestMessage \<and> jt_actualOutput r = [] \<and> jt_error r = None)"

lemma masked_is_hidden [simp]: "test_hidden (toCandidateJudgeTestResult r)"
  by (simp add: test_hidden_def toCandidateJudgeTestResult_def)

lemma masked_sel [simp]:
  "sub_candidateId (toCandidateSubmission x) = sub_candidateId x" "ce_candidateId (toCandidateCodeExecution y) = ce_candidateId y"
  "sub_testResults (toCandidateSubmission x) = map toCandidateJudgeTestResult (sub_testResults x)"
  "ce_testResults (toCandidateCodeExecution y) = map toCandidateJudgeTestResult (ce_testResults y)"
  "candidate_invite.truncate (toCandidateWorkspace w) = candidate_invite.truncate w"
  "cw_submissions (toCandidateWorkspace w) = map toCandidateSubmission (cw_submissions w)"
  "cw_executions (toCandidateWorkspace w) = map toCandidateCodeExecution (cw_executions w)"
  "cw_drafts (toCandidateWorkspace w) = cw_drafts w" "cw_examSession (toCandidateWorkspace w) = cw_examSession w"
  "jt_isPublic (toCandidateJudgeTestResult r) = jt_isPublic r"
  by (simp_all add: toCandidateSubmission_def toCandidateCodeExecution_def toCandidateWorkspace_def candidate_invite.defs
      toCandidateJudgeTestResult_def)

text \<open>C7. The workspace is shown only to a candidate who passes its gate, holds only the candidate's own submissions,
  executions, drafts and session, and gives away neither the inputs and outputs of hidden tests nor the runner's errors.\<close>

theorem workspace_hides_tests:
  assumes "good_tables c content" and "getCandidateWorkspace c inviteToken s = (Inr workspace, s')"
  shows "\<exists>invite. invite_of_token inviteToken invite \<and> workspace_open c invite \<and> own_results invite workspace \<and>
    (\<forall>x \<in> set (cw_submissions workspace). \<forall>r \<in> set (sub_testResults x). test_hidden r) \<and>
    (\<forall>x \<in> set (cw_executions workspace). \<forall>r \<in> set (ce_testResults x). test_hidden r)"
proof -
  from assms(2) obtain invite s1 w where gate: "getInviteForWorkspaceUse c inviteToken s = (Inr invite, s1)"
    and w: "getCandidateWorkspaceInStore c invite s1 = (Inr w, s')" "workspace = toCandidateWorkspace w"
    by (auto simp: getCandidateWorkspace_def store_Inr)
  have "own_results invite workspace"
    using own_results_in_store [OF assms(1) w(1)] by (auto simp: own_results_def w(2))
  with gate_passed [OF assms(1) gate] show ?thesis by (intro exI [of _ invite]) (simp add: w(2))
qed

section \<open>Proctor actions\<close>

lemma deployed_find_candidate:
  assumes "good_tables c content" and "deployed c" and "findCandidateWithExam c candidateId (Some session) s = (Inr (p, e), s')"
  shows "s' = s" and "List.find (\<lambda>p. cand_id p = candidateId) (k_candidates (content (st_db s))) = Some p"
    and "List.find (\<lambda>e. ex_id e = cand_examId p) (k_exams (content (st_db s))) = Some e" and "canAccessExam session e"
proof -
  from assms(3) obtain t1 t2 where f: "t_find (sc_candidates c) (\<lambda>p. cand_id p = candidateId) (st_db s) = (Inr (Some p), t1)"
    "t_find (sc_exams c) (\<lambda>e. ex_id e = cand_examId p) t1 = (Inr (Some e), t2)" and s': "s' = s\<lparr>st_db := t2\<rparr>"
    and access: "ex_status e \<noteq> DELETED" "assertSessionCanAccessExam session (ex_organizationId e) = Inr ()"
    unfolding findCandidateWithExam_def
  proof (cases rule: with_seeded_cases)
    case (database d0 d)
    with deployed_seed [OF assms(2)] show ?thesis using that
      by (auto simp: store_Inr required_eq_Inr check_access_def split: option.splits if_splits)
  next
    case (memory s1)
    with deployed_fallback(2) [OF assms(2)] show ?thesis by blast
  qed
  note r = good_find(4) [OF assms(1) f(1)] good_find(2) [OF assms(1) f(2)]
  show "s' = s" using r s' by simp
  show "List.find (\<lambda>p. cand_id p = candidateId) (k_candidates (content (st_db s))) = Some p"
    "List.find (\<lambda>e. ex_id e = cand_examId p) (k_exams (content (st_db s))) = Some e"
    using r by simp_all
  show "canAccessExam session e"
    using access by (auto simp: canAccessExam_def assertSessionCanAccessExam_def split: if_splits)
qed

text \<open>In a deployment a proctor action is recorded, and nothing else changed, only for a candidate of an exam that
  the administrator, manager or proctor of the session can access.\<close>

theorem proctor_actions_stay_in_the_organization:
  assumes "good_tables c content" and "deployed c" and "createProctorAction c candidateId input session s = (Inr action, s')"
  shows "usr_role (as_user session) \<in> {ADMIN, ORGANIZATION, PROCTOR} \<and>
    (\<exists>candidate exam. List.find (\<lambda>p. cand_id p = candidateId) (k_candidates (content (st_db s))) = Some candidate \<and>
       List.find (\<lambda>e. ex_id e = cand_examId candidate) (k_exams (content (st_db s))) = Some exam \<and> canAccessExam session exam \<and>
       action = new_action c candidateId exam input) \<and>
    content (st_db s') = k_proctorActions_update (\<lambda>actions. actions @ [action]) (content (st_db s)) \<and> st_memory s' = st_memory s"
proof -
  from assms(3) obtain p e s1 where role: "usr_role (as_user session) \<in> {ADMIN, ORGANIZATION, PROCTOR}"
    and find: "findCandidateWithExam c candidateId (Some session) s = (Inr (p, e), s1)"
    and make: "with_fallback (seededDatabase c (mapped mapProctorAction (t_create (sc_proctorActions c) (new_action c candidateId e input))))
          (bindE (set_memory (mm_proctorActions_update (\<lambda>actions. new_action c candidateId e input # actions))) (\<lambda>_.
           ret (new_action c candidateId e input))) s1 = (Inr action, s')"
    by (auto simp: createProctorAction_def bindE_eq_Inr throwE_eq_Inr split: if_splits)
  note found = deployed_find_candidate [OF assms(1,2) find]
  from make obtain d where "t_create (sc_proctorActions c) (new_action c candidateId e input) (st_db s1) = (Inr action, d)"
    and "s' = s1\<lparr>st_db := d\<rparr>"
  proof (cases rule: with_seeded_cases)
    case (database d0 d)
    with deployed_seed [OF assms(2)] show ?thesis using that by (auto simp: store_Inr)
  next
    case (memory s2)
    with deployed_fallback(2) [OF assms(2)] show ?thesis by blast
  qed
  with store_part.create_InrD [OF good_proctorActions [OF assms(1)]] role found show ?thesis by fastforce
qed

section \<open>Witnesses\<close>

definition sample_question :: question where
  "sample_question = \<lparr>q_id = ''q1'', q_examId = ''e1'', q_title = ''Q'', q_description = [], q_type = CODING, q_points = 10, q_difficulty = EASY,
     q_timeLimitMs = 1000, q_memoryLimitMb = 64, q_choices = [], q_expectedAnswer = Some ''42'', q_createdAt = 0\<rparr>"

definition sample_tests :: "test_case list" where
  "sample_tests = [\<lparr>tc_id = ''t1'', tc_questionId = ''q1'', tc_input = ''1'', tc_expectedOutput = ''1'', tc_isPublic = True, tc_createdAt = 0\<rparr>,
     \<lparr>tc_id = ''t2'', tc_questionId = ''q1'', tc_input = ''2'', tc_expectedOutput = ''4'', tc_isPublic = False, tc_createdAt = 0\<rparr>]"

definition sample_identity :: identity_row where
  "sample_identity = \<lparr>idr_id = ''i1'', idr_candidateId = ''c1'', idr_examId = ''e1'', idr_documentImageName = ''id'', idr_documentCaptureConfirmed = True,
     idr_faceImageCaptured = True, idr_provider = ''mock'', idr_providerDecision = ''VERIFIED'', idr_providerReferenceId = ''r'',
     idr_failureReason = None, idr_similarityScore = 1, idr_documentAuthenticityScore = 1, idr_faceMatchScore = 1, idr_livenessScore = 1,
     idr_ocrNameMatched = True, idr_verificationChecks = [], idr_privacyConsentVersion = None, idr_privacyConsentAcceptedAt = None,
     idr_status = ID_VERIFIED, idr_verifiedAt = Some 0, idr_createdAt = 0\<rparr>"

definition sample_check :: env_check_row where
  "sample_check = \<lparr>ekr_id = ''k1'', ekr_candidateId = ''c1'', ekr_examId = ''e1'', ekr_results = JArr [], ekr_requiredPassed = True, ekr_createdAt = 0\<rparr>"

definition sample_hidden_result :: judge_test_result where
  "sample_hidden_result = \<lparr>jt_id = ''r2'', jt_codeExecutionId = None, jt_submissionId = Some ''s1'', jt_testIndex = 1, jt_input = ''2'',
     jt_expectedOutput = ''4'', jt_actualOutput = ''2'', jt_passed = False, jt_error = Some ''wrong'', jt_executionTimeMs = 5, jt_isPublic = False,
     jt_createdAt = 0\<rparr>"

definition sample_submission :: submission where
  "sample_submission = \<lparr>sub_id = ''s1'', sub_examId = ''e1'', sub_candidateId = ''c1'', sub_questionId = ''q1'', sub_language = ''python'',
     sub_code = ''x'', sub_score = 0, sub_passedTests = 0, sub_totalTests = 1, sub_testResults = [sample_hidden_result], sub_submittedAt = 0\<rparr>"

definition workspace_contents :: contents where
  "workspace_contents = empty_contents\<lparr>k_organizations := [\<lparr>o_id = ''o1'', o_name = ''Org'', o_joinCode = ''J'', o_createdAt = 0\<rparr>],
     k_exams := [sample_exam], k_candidates := [sample_candidate], k_questions := [sample_question], k_testCases := sample_tests,
     k_proctorDevices := [sample_device MOBILE_AUX ''d1'' 90000], k_identityVerifications := [sample_identity],
     k_environmentChecks := [sample_check], k_submissions := [sample_submission]\<rparr>"

definition workspace_invite :: candidate_invite where
  "workspace_invite = \<lparr>ci_candidate = sample_candidate, ci_exam = sample_exam,
     ci_organization = mapOrganization \<lparr>o_id = ''o1'', o_name = ''Org'', o_joinCode = ''J'', o_createdAt = 0\<rparr>,
     ci_questions = [mapCandidateQuestion sample_question], ci_proctorDevices = [sample_device MOBILE_AUX ''d1'' 90000],
     ci_identityVerification = Some (mapIdentityVerification sample_identity), ci_environmentCheck = Some (mapEnvironmentCheck sample_check)\<rparr>"

lemma samples_sel [simp]:
  "cand_id sample_candidate = ''c1''" "cand_examId sample_candidate = ''e1''" "cand_inviteToken sample_candidate = ''invite_1''"
  "cand_status sample_candidate = READY" "q_id sample_question = ''q1''" "q_examId sample_question = ''e1''" "q_type sample_question = CODING"
  "pd_candidateId (sample_device role i h) = ''c1''" "pd_examId (sample_device role i h) = ''e1''" "pd_role (sample_device role i h) = role"
  "pd_status (sample_device role i h) = DEV_CONNECTED" "pd_lastHeartbeatAt (sample_device role i h) = Some h"
  "idr_candidateId sample_identity = ''c1''" "idr_status sample_identity = ID_VERIFIED" "ekr_candidateId sample_check = ''c1''"
  "ekr_requiredPassed sample_check"
  "ex_startAt sample_exam = IsoText 0" "ex_endAt sample_exam = IsoText 1000000" "ex_durationMinutes sample_exam = 10"
  "ex_identityVerificationEnabled sample_exam" "ex_mobileCameraRequired sample_exam" "ex_languages sample_exam = [''Python'']"
  by (simp_all add: sample_candidate_def sample_question_def sample_device_def sample_identity_def sample_check_def sample_exam_def)

lemma workspace_contents_sel [simp]:
  "k_organizations workspace_contents = [\<lparr>o_id = ''o1'', o_name = ''Org'', o_joinCode = ''J'', o_createdAt = 0\<rparr>]"
  "k_exams workspace_contents = [sample_exam]" "k_candidates workspace_contents = [sample_candidate]"
  "k_questions workspace_contents = [sample_question]" "k_testCases workspace_contents = sample_tests"
  "k_proctorDevices workspace_contents = [sample_device MOBILE_AUX ''d1'' 90000]" "k_identityVerifications workspace_contents = [sample_identity]"
  "k_environmentChecks workspace_contents = [sample_check]" "k_submissions workspace_contents = [sample_submission]"
  "k_proctorEvents workspace_contents = []" "k_proctorActions workspace_contents = []" "k_examSessions workspace_contents = []"
  "k_codeDrafts workspace_contents = []" "k_codeExecutions workspace_contents = []" "k_competencyReports workspace_contents = []"
  "k_inviteEmailLogs workspace_contents = []"
  by (simp_all add: workspace_contents_def empty_contents_def)

lemma run_snapshot:
  "getCandidateInviteSnapshot (production_ctx 95000) ''invite_1'' (store_of workspace_contents) = (Inr workspace_invite, store_of workspace_contents)"
  by (simp add: getCandidateInviteSnapshot_def find_invite_def required_def run_simps workspace_invite_def sort_newest_def sort_oldest_def)

lemma workspace_devices_wf: "devices_wf (k_proctorDevices (id (st_db (store_of workspace_contents))))"
  by (simp add: devices_wf_def)

lemma run_mark:
  "markStaleProctorDevicesInStore (production_ctx 95000) ''e1'' (store_of workspace_contents) = (Inr (), store_of workspace_contents)"
proof -
  have now: "stale_before (production_ctx 95000) = Some 65000"
    by (simp add: stale_before_def proctorHeartbeatTimeoutMs_def production_env_def Let_def)
  show ?thesis by (simp add: markStaleProctorDevicesInStore_def now run_simps is_stale_row_def)
qed

lemma workspace_invite_sel [simp]:
  "ci_candidate workspace_invite = sample_candidate" "ci_exam workspace_invite = sample_exam"
  "ci_proctorDevices workspace_invite = [sample_device MOBILE_AUX ''d1'' 90000]"
  "ci_questions workspace_invite = [mapCandidateQuestion sample_question]"
  "ci_identityVerification workspace_invite = Some (mapIdentityVerification sample_identity)"
  "ci_environmentCheck workspace_invite = Some (mapEnvironmentCheck sample_check)"
  by (simp_all add: workspace_invite_def)

lemma run_gate:
  "getInviteForWorkspaceUse (production_ctx 95000) ''invite_1'' (store_of workspace_contents) = (Inr workspace_invite, store_of workspace_contents)"
proof -
  have "assertCandidateCanUseWorkspace (production_ctx 95000) workspace_invite = Inr ()"
    by (simp add: assertCandidateCanUseWorkspace_def exam_available_def date_value_def mobile_connected_def mapIdentityVerification_def
      mapEnvironmentCheck_def)
  then show ?thesis
    by (simp add: getInviteForWorkspaceUse_def getCandidateInviteForInternalUse_def bindE_apply run_snapshot run_mark liftR_apply ret_apply)
qed

lemma invite_hides_answers_witness:
  "getCandidateInviteSnapshot (production_ctx 95000) ''invite_1'' (store_of workspace_contents) = (Inr workspace_invite, store_of workspace_contents) \<and>
   q_expectedAnswer sample_question = Some ''42'' \<and> map q_expectedAnswer (ci_questions workspace_invite) = [None]"
  using invite_hides_answers [OF good_plain run_snapshot]
  by (simp add: run_snapshot invite_of_token_def) (simp add: sample_question_def)

lemma workspace_needs_every_check_witness:
  "getInviteForWorkspaceUse (production_ctx 95000) ''invite_1'' (store_of workspace_contents) = (Inr workspace_invite, store_of workspace_contents) \<and>
   workspace_open (production_ctx 95000) workspace_invite"
  using workspace_needs_every_check [OF good_plain deployed_production workspace_devices_wf run_gate] run_gate by blast

lemma exam_clock_is_fixed_witness:
  "\<exists>s'. assertExamSessionOpen (production_ctx 95000) workspace_invite (store_of workspace_contents) = (Inr (), s') \<and>
     map xs_endsAt (k_examSessions (st_db s')) = [695000]"
proof -
  obtain s' where run: "assertExamSessionOpen (production_ctx 95000) workspace_invite (store_of workspace_contents) = (Inr (), s')"
    by (simp add: assertExamSessionOpen_def ensureExamSession_def latestBlockingAction_def mapped_def run_simps mapExamSession_def
      remaining_seconds_def new_session_def assertProctorActionAllowsExam_def sort_newest_def)
  from exam_clock_is_fixed [OF good_plain run] obtain after row
    where "k_examSessions (st_db s') = after" "session_kept (production_ctx 95000) workspace_invite [] after row"
    by (auto simp: list_written_def)
  then have "k_examSessions (st_db s') = [new_session (production_ctx 95000) workspace_invite]"
    by (auto simp: session_kept_def length_Suc_conv)
  with run show ?thesis by (auto simp: new_session_def)
qed

lemma workspace_hides_tests_witness:
  "\<exists>workspace s'. getCandidateWorkspace (production_ctx 95000) ''invite_1'' (store_of workspace_contents) = (Inr workspace, s') \<and>
     map jt_expectedOutput (sub_testResults (hd (cw_submissions workspace))) = [hiddenTestMessage] \<and>
     jt_expectedOutput sample_hidden_result = ''4''"
proof -
  obtain workspace s' where run: "getCandidateWorkspace (production_ctx 95000) ''invite_1'' (store_of workspace_contents) = (Inr workspace, s')"
    and shown: "cw_submissions workspace = [toCandidateSubmission sample_submission]"
    by (simp add: getCandidateWorkspace_def getCandidateWorkspaceInStore_def find_workspace_def bindE_apply [of "getInviteForWorkspaceUse _ _"]
      run_gate ensureExamSession_def mapped_def run_simps mapExamSession_def sample_submission_def sort_newest_def
      workspace_of_sel [unfolded sample_submission_def])
  from workspace_hides_tests [OF good_plain run] have "\<forall>x \<in> set (cw_submissions workspace). \<forall>r \<in> set (sub_testResults x). test_hidden r"
    by blast
  with shown have "jt_expectedOutput (toCandidateJudgeTestResult sample_hidden_result) = hiddenTestMessage"
    by (simp add: test_hidden_def sample_submission_def sample_hidden_result_def del: masked_is_hidden)
  with run shown show ?thesis by (auto simp: sample_submission_def sample_hidden_result_def)
qed

lemma proctor_actions_stay_in_the_organization_witness:
  "\<exists>action s'. createProctorAction (production_ctx 95000) ''c1'' \<lparr>ai_type = PAUSE_EXAM, ai_message = ''wait''\<rparr> sample_manager (store_of workspace_contents) =
      (Inr action, s') \<and> pa_type action = PAUSE_EXAM \<and> k_proctorActions (st_db s') = [action]"
proof -
  let ?in = "\<lparr>ai_type = PAUSE_EXAM, ai_message = ''wait''\<rparr>"
  obtain action s' where run: "createProctorAction (production_ctx 95000) ''c1'' ?in sample_manager (store_of workspace_contents) = (Inr action, s')"
    by (simp add: createProctorAction_def findCandidateWithExam_def required_def check_access_def assertSessionCanAccessExam_def run_simps)
  from proctor_actions_stay_in_the_organization [OF good_plain deployed_production run] run show ?thesis
    by (auto simp: new_action_def)
qed

end
