(* ===== verification/JsDouble.thy ===== *)
theory JsDouble
  imports JsNumber "HOL-Library.Log_Nat"
begin

text \<open>
  Double arithmetic, where a rounding can be seen: \<open>Math.round((passed / total) * 100)\<close> is 57 for 23 of 40. \<open>double\<close>
  rounds a rational to the nearest double (ties to even); its exponent range is not modelled, the quotients and
  percentages of the program stay far inside it. Its relative error is at most \<open>2\<^sup>-\<^sup>5\<^sup>3\<close>.
\<close>

text \<open>The exponent of a positive rational: \<open>2\<^sup>e \<le> q < 2\<^sup>e\<^sup>+\<^sup>1\<close>.\<close>

definition binade :: "rat \<Rightarrow> int" where
  "binade q = (let (a, b) = quotient_of q; k = bitlen a - bitlen b in if 2 powi k \<le> q then k else k - 1)"

definition round_half_even :: "rat \<Rightarrow> int" where
  "round_half_even q = (let f = \<lfloor>q\<rfloor>; r = q - of_int f
     in if r < 1 / 2 \<or> r = 1 / 2 \<and> even f then f else f + 1)"

definition double :: "rat \<Rightarrow> rat" where
  "double q = (if q = 0 then 0 else let unit = 2 powi (binade \<bar>q\<bar> - 52) in sgn q * of_int (round_half_even (\<bar>q\<bar> / unit)) * unit)"

definition percent_of :: "int \<Rightarrow> int \<Rightarrow> int" where
  "percent_of p t = round_half_up (double (double (of_int p / of_int t) * 100))"

lemma round_half_even_error: "\<bar>of_int (round_half_even q) - q\<bar> \<le> 1 / 2"
proof -
  have "of_int \<lfloor>q\<rfloor> \<le> q" "q < of_int \<lfloor>q\<rfloor> + 1" by linarith+
  then show ?thesis by (auto simp: round_half_even_def Let_def abs_le_iff)
qed

lemma round_half_even_nonneg: "0 \<le> q \<Longrightarrow> 0 \<le> round_half_even q"
  by (simp add: round_half_even_def Let_def)

lemma round_half_even_int [simp]: "round_half_even (of_int n) = n"
  by (simp add: round_half_even_def)

lemma binade_le:
  assumes "0 < q"
  shows "2 powi binade q \<le> q"
proof -
  obtain a b where ab: "quotient_of q = (a, b)" by fastforce
  then have b: "0 < b" and q: "q = of_int a / of_int b" by (auto intro: quotient_of_denom_pos quotient_of_div)
  with assms have a: "0 < a" by (simp add: zero_less_divide_iff)
  define m n where "m = nat (bitlen a - 1)" and "n = nat (bitlen b)"
  have "bitlen a \<ge> 1" using a by (simp add: bitlen_alt_def)
  then have lens: "bitlen a - bitlen b - 1 = int m - int n" by (simp add: m_def n_def bitlen_nonneg)
  have "(2::rat) ^ m \<le> of_int a" "of_int b \<le> (2::rat) ^ n"
    using bitlen_bounds [OF a] bitlen_bounds [OF b] unfolding m_def n_def
    by (metis (mono_tags) of_int_le_iff of_int_numeral of_int_power, metis (mono_tags) less_imp_le of_int_le_iff of_int_numeral of_int_power)
  then have "(2::rat) ^ m / 2 ^ n \<le> q"
    unfolding q using a b by (intro frac_le) auto
  then have "2 powi (bitlen a - bitlen b - 1) \<le> q"
    by (simp only: lens power_int_diff power_int_of_nat) (simp add: power_int_diff)
  then show ?thesis by (simp add: binade_def ab Let_def)
qed

lemma double_error:
  assumes "0 < q"
  shows "\<bar>double q - q\<bar> \<le> q / 2 ^ 53"
proof -
  define u where "u = (2::rat) powi (binade q - 52)"
  have u: "0 < u" by (simp add: u_def)
  have "u * 2 ^ 52 = 2 powi binade q" by (simp add: u_def power_int_diff)
  then have big: "u * 2 ^ 52 \<le> q" using binade_le [OF assms] by simp
  have "double q - q = (of_int (round_half_even (q / u)) - q / u) * u"
    using assms u by (simp add: double_def Let_def u_def [symmetric] left_diff_distrib)
  then have "\<bar>double q - q\<bar> = \<bar>of_int (round_half_even (q / u)) - q / u\<bar> * u" using u by (simp add: abs_mult)
  also have "\<dots> \<le> 1 / 2 * u" using u by (intro mult_right_mono round_half_even_error) simp
  also have "\<dots> \<le> q / 2 ^ 53" using big by (simp add: field_simps)
  finally show ?thesis .
qed

lemma double_nonneg: "0 \<le> q \<Longrightarrow> 0 \<le> double q"
  by (auto simp: double_def Let_def intro!: mult_nonneg_nonneg round_half_even_nonneg)

lemma double_0 [simp]: "double 0 = 0"
  by (simp add: double_def)

lemma double_upper: "0 \<le> q \<Longrightarrow> double q \<le> q + q / 2 ^ 53"
  using abs_le_D1 [OF double_error [of q]] by (cases "q = 0") (simp_all add: diff_le_eq add.commute)

lemma bitlen_numerals: "bitlen 1 = 1" "bitlen 100 = 7"
  by (simp_all add: compute_bitlen)

lemma double_exact [simp]: "double 1 = 1" "double 100 = 100"
  by (simp_all add: double_def binade_def bitlen_numerals Let_def round_half_even_def power_int_def power_one_over)

text \<open>A percentage is between 0 and 100, and it is 100 only where nothing is missing of a total of up to 190.\<close>

lemma percent_of_all: "0 < t \<Longrightarrow> percent_of t t = 100"
  using round_half_up_int [of 100] by (simp add: percent_of_def)

lemma percent_of_bounds:
  assumes "0 \<le> p" and "p \<le> t" and "0 < t"
  shows "0 \<le> percent_of p t" and "percent_of p t \<le> 100" and "p < t \<Longrightarrow> t \<le> 190 \<Longrightarrow> percent_of p t < 100"
proof -
  define q where "q = (of_int p / of_int t :: rat)"
  have q: "0 \<le> q" "q \<le> 1" using assms by (simp_all add: q_def)
  define x where "x = double (double q * 100)"
  have d: "0 \<le> double q" "double q \<le> q * (1 + 1 / 2 ^ 53)"
    using q double_nonneg [of q] double_upper [of q] by (simp_all add: algebra_simps)
  have "x \<le> double q * 100 * (1 + 1 / 2 ^ 53)"
    unfolding x_def using d(1) double_upper [of "double q * 100"] by (simp add: algebra_simps)
  also have "\<dots> \<le> q * (1 + 1 / 2 ^ 53) * 100 * (1 + 1 / 2 ^ 53)" using d by (intro mult_right_mono) simp_all
  finally have x: "x \<le> q * ((1 + 1 / 2 ^ 53) * 100 * (1 + 1 / 2 ^ 53))" by (simp only: mult.assoc)
  have x0: "0 \<le> x" unfolding x_def using d(1) by (intro double_nonneg) simp
  have eq: "percent_of p t = \<lfloor>x + 1 / 2\<rfloor>" by (simp add: percent_of_def round_half_up_def x_def q_def)
  from x0 show "0 \<le> percent_of p t" by (simp add: eq)
  have "x \<le> 1 * ((1 + 1 / 2 ^ 53) * 100 * (1 + 1 / 2 ^ 53))" using x q by (intro order_trans [OF x] mult_right_mono) simp_all
  then have "x + 1 / 2 < 101" by simp
  then show "percent_of p t \<le> 100" by (simp add: eq floor_le_iff)
  show "percent_of p t < 100" if "p < t" "t \<le> 190"
  proof -
    have "of_int p \<le> (of_int t - 1 :: rat)" using that(1) by (metis of_int_1 of_int_diff of_int_le_iff zle_diff1_eq)
    then have "q \<le> (of_int t - 1) / of_int t" unfolding q_def using assms(3) by (intro divide_right_mono) simp_all
    also have "\<dots> = 1 - 1 / of_int t" using assms(3) by (simp add: field_simps)
    also have "\<dots> \<le> 1 - 1 / (190 :: rat)" using assms(3) that(2) by (simp add: field_simps)
    finally have "q \<le> 189 / 190" by simp
    then have "x \<le> 189 / 190 * ((1 + 1 / 2 ^ 53) * 100 * (1 + 1 / 2 ^ 53))" by (intro order_trans [OF x] mult_right_mono) simp_all
    then have "x + 1 / 2 < 100" by simp
    then show ?thesis by (simp add: eq floor_less_iff)
  qed
qed

end
