(* ===== verification/Execution.thy ===== *)
theory Execution
  imports Workspace JsDouble
begin

text \<open>
  Drafts, runs and submissions of the candidates (\<open>platform-store.execution-access.ts\<close>,
  \<open>platform-store.execution.ts\<close>, \<open>platform-store.execution-scoring.ts\<close> and the methods of
  \<open>platform-store.service.ts\<close> that compose them). The code runner is the one of theory \<open>CodeRunner\<close>: \<open>sc_admit\<close> is
  its answer to the request for admission, then its judge runs.
\<close>

section \<open>Access\<close>

definition assertQuestionBelongsToInvite :: "candidate_invite \<Rightarrow> string \<Rightarrow> unit res" where
  "assertQuestionBelongsToInvite invite questionId =
     (if list_ex (\<lambda>q. q_id q = questionId) (ci_questions invite) then Inr () else Inl (NotFound ''Question not found''))"

definition getQuestionTestCases :: "'d store_ctx \<Rightarrow> string \<Rightarrow> bool \<Rightarrow> ('d store, test_case list) act" where
  "getQuestionTestCases c questionId publicOnly =
     with_fallback
       (storeDatabase c (bindE (t_findMany (sc_testCases c) (\<lambda>t. tc_questionId t = questionId \<and> (publicOnly \<longrightarrow> tc_isPublic t)))
          (\<lambda>testCases. ret (map mapTestCase (sort_oldest tc_createdAt testCases)))))
       (memory_of (\<lambda>m. filter (\<lambda>t. tc_questionId t = questionId \<and> (\<not> publicOnly \<or> tc_isPublic t)) (mm_testCases m)))"

definition getQuestionForEvaluation :: "'d store_ctx \<Rightarrow> candidate_invite \<Rightarrow> string \<Rightarrow> ('d store, question) act" where
  "getQuestionForEvaluation c invite questionId =
     with_fallback
       (storeDatabase c (bindE (t_find (sc_questions c) (\<lambda>q. q_id q = questionId)) (\<lambda>found. case found of
          None \<Rightarrow> throwE (NotFound ''Question not found'')
        | Some question \<Rightarrow> if q_examId question \<noteq> ex_id (ci_exam invite) then throwE (NotFound ''Question not found'')
            else ret (mapQuestion question))))
       (bindE (memory_of (\<lambda>m. List.find (\<lambda>q. q_id q = questionId \<and> q_examId q = ex_id (ci_exam invite)) (mm_questions m))) (\<lambda>found.
          case found of None \<Rightarrow> throwE (NotFound ''Question not found'') | Some question \<Rightarrow> ret question))"

definition normalizeRunnerLanguage :: "string \<Rightarrow> string" where
  "normalizeRunnerLanguage language = (let v = toLowerCase (trim language) in
     if v = ''javascript'' \<or> v = ''js'' then ''javascript'' else if v = ''python'' \<or> v = ''py'' then ''python'' else [])"

definition supportedRunnerLanguages :: "string list" where
  "supportedRunnerLanguages = [''javascript'', ''python'']"

definition assertLanguageCanRun :: "candidate_invite \<Rightarrow> string \<Rightarrow> unit res" where
  "assertLanguageCanRun invite language =
     (let normalizedLanguage = normalizeRunnerLanguage language;
          allowedLanguages = filter (\<lambda>item. item \<noteq> []) (map normalizeRunnerLanguage (ex_languages (ci_exam invite)))
      in if normalizedLanguage = [] \<or> normalizedLanguage \<notin> set supportedRunnerLanguages
         then Inl (BadRequest (''Language '' @ quoted language @ '' is not supported by the Docker runner yet''))
         else if normalizedLanguage \<notin> set allowedLanguages
         then Inl (BadRequest (''Language '' @ quoted language @ '' is not enabled for this exam''))
         else Inr ())"

section \<open>Scoring\<close>

definition normalizeAnswer :: "string \<Rightarrow> string" where
  "normalizeAnswer answer = toLowerCase (collapse_spaces (trim answer))"

definition evaluateTextAnswer :: "question \<Rightarrow> string \<Rightarrow> runner_result" where
  "evaluateTextAnswer question answer =
     (let expected = q_expectedAnswer question;
          normalizedAnswer = normalizeAnswer answer;
          normalizedExpected = normalizeAnswer (case expected of Some e \<Rightarrow> e | None \<Rightarrow> []);
          isObjective = (q_type question = MULTIPLE_CHOICE \<or> q_type question = SHORT_ANSWER);
          passed = (isObjective \<and> normalizedExpected \<noteq> [] \<and> normalizedAnswer = normalizedExpected)
      in \<lparr>rr_status = EXEC_SUCCESS, rr_output = (if passed then ''The answer matches.'' else ''The answer was saved.''), rr_error = None,
          rr_executionTimeMs = 0, rr_memoryUsageMb = 0,
          rr_passedTests = (if passed then 1 else if q_type question = ESSAY then 1 else 0), rr_totalTests = 1,
          rr_testResults = [\<lparr>rt_testIndex = 1, rt_input = answer,
            rt_expectedOutput = (case expected of Some e \<Rightarrow> e | None \<Rightarrow> ''Reviewed by proctor or AI''),
            rt_actualOutput = answer, rt_passed = (q_type question = ESSAY \<or> passed), rt_error = None, rt_executionTimeMs = 0,
            rt_isPublic = False\<rparr>]\<rparr>)"

definition calculateSubmissionScore :: "runner_result \<Rightarrow> int" where
  "calculateSubmissionScore result =
     (if rr_totalTests result > 0 then percent_of (int (rr_passedTests result)) (int (rr_totalTests result))
      else if rr_status result = EXEC_SUCCESS then 100 else 0)"

section \<open>Drafts\<close>

definition is_draft :: "candidate_invite \<Rightarrow> string \<Rightarrow> string \<Rightarrow> code_draft \<Rightarrow> bool" where
  "is_draft invite questionId language draft \<longleftrightarrow> cd_candidateId draft = cand_id (ci_candidate invite) \<and>
     cd_questionId draft = questionId \<and> cd_language draft = language"

definition new_draft :: "'d store_ctx \<Rightarrow> candidate_invite \<Rightarrow> code_draft_input \<Rightarrow> code_draft" where
  "new_draft c invite input = \<lparr>cd_id = createId c 0 ''draft'', cd_candidateId = cand_id (ci_candidate invite),
     cd_examId = ex_id (ci_exam invite), cd_questionId = cdi_questionId input, cd_language = cdi_language input,
     cd_code = cdi_code input, cd_savedAt = sc_now c, cd_createdAt = sc_now c\<rparr>"

text \<open>The database stamps \<open>savedAt\<close> on every write (\<open>@updatedAt\<close>).\<close>

definition updated_draft :: "'d store_ctx \<Rightarrow> code_draft_input \<Rightarrow> code_draft \<Rightarrow> code_draft" where
  "updated_draft c input draft = draft\<lparr>cd_code := cdi_code input, cd_savedAt := sc_now c\<rparr>"

definition memory_draft :: "'d store_ctx \<Rightarrow> candidate_invite \<Rightarrow> code_draft_input \<Rightarrow> code_draft list \<Rightarrow> code_draft" where
  "memory_draft c invite input drafts = (case List.find (is_draft invite (cdi_questionId input) (cdi_language input)) drafts of
       Some existing \<Rightarrow> (new_draft c invite input)\<lparr>cd_id := cd_id existing, cd_createdAt := cd_createdAt existing\<rparr>
     | None \<Rightarrow> new_draft c invite input)"

definition saveCandidateCodeDraftInStore :: "'d store_ctx \<Rightarrow> candidate_invite \<Rightarrow> code_draft_input \<Rightarrow> ('d store, code_draft) act" where
  "saveCandidateCodeDraftInStore c invite input =
     with_fallback
       (storeDatabase c (mapped mapCodeDraft (t_upsert (sc_codeDrafts c) (is_draft invite (cdi_questionId input) (cdi_language input))
          (updated_draft c input) (new_draft c invite input))))
       (bindE (memory_of (\<lambda>m. memory_draft c invite input (mm_codeDrafts m))) (\<lambda>draft.
        bindE (set_memory (mm_codeDrafts_update (\<lambda>drafts. draft # filter (\<lambda>item. cd_id item \<noteq> cd_id draft) drafts))) (\<lambda>_.
        ret draft)))"

definition saveCandidateCodeDraft :: "'d store_ctx \<Rightarrow> string \<Rightarrow> code_draft_input \<Rightarrow> ('d store, code_draft) act" where
  "saveCandidateCodeDraft c inviteToken input =
     bindE (getInviteForWorkspaceUse c inviteToken) (\<lambda>invite.
     bindE (liftR (assertQuestionBelongsToInvite invite (cdi_questionId input))) (\<lambda>_.
     bindE (liftR (assertLanguageCanRun invite (cdi_language input))) (\<lambda>_.
     bindE (assertExamSessionOpen c invite) (\<lambda>_.
     saveCandidateCodeDraftInStore c invite input))))"

section \<open>Runs and submissions\<close>

text \<open>\<open>codeRunner.judge\<close>: refused in production, else admitted under the candidate's key and judged.\<close>

definition run_judge :: "'d store_ctx \<Rightarrow> string \<Rightarrow> string \<Rightarrow> test_case list \<Rightarrow> string \<Rightarrow> runner_result res" where
  "run_judge c language code testCases admissionKey =
     (if is_production (sc_env c) then Inl (ServiceUnavailable ''code execution disabled in production'')
      else bindR (sc_admit c admissionKey) (\<lambda>_.
        Inr (judgeAdmitted (sc_docker c) language code (sc_clock c) (sc_now c) (sc_endedAt c) testCases)))"

definition test_rows :: "'d store_ctx \<Rightarrow> string option \<Rightarrow> string option \<Rightarrow> runner_test_result list \<Rightarrow> judge_test_result list" where
  "test_rows c executionId submissionId results = map (\<lambda>(n, r). \<lparr>jt_id = createId c (Suc n) ''result'', jt_codeExecutionId = executionId,
     jt_submissionId = submissionId, jt_testIndex = int (rt_testIndex r), jt_input = rt_input r, jt_expectedOutput = rt_expectedOutput r,
     jt_actualOutput = rt_actualOutput r, jt_passed = rt_passed r, jt_error = rt_error r, jt_executionTimeMs = rt_executionTimeMs r,
     jt_isPublic = rt_isPublic r, jt_createdAt = sc_now c\<rparr>) (enumerate 0 results)"

definition new_execution :: "'d store_ctx \<Rightarrow> candidate_invite \<Rightarrow> code_run_input \<Rightarrow> runner_result \<Rightarrow> code_execution" where
  "new_execution c invite input result = \<lparr>ce_id = createId c 0 ''exec'', ce_candidateId = cand_id (ci_candidate invite),
     ce_questionId = cri_questionId input, ce_language = cri_language input, ce_code = cri_code input, ce_status = rr_status result,
     ce_output = rr_output result, ce_error = rr_error result, ce_executionTimeMs = rr_executionTimeMs result,
     ce_memoryUsageMb = rr_memoryUsageMb result, ce_passedTests = int (rr_passedTests result), ce_totalTests = int (rr_totalTests result),
     ce_testResults = test_rows c (Some (createId c 0 ''exec'')) None (rr_testResults result), ce_createdAt = sc_now c\<rparr>"

definition runCandidateCodeInStore :: "'d store_ctx \<Rightarrow> candidate_invite \<Rightarrow> code_run_input \<Rightarrow> test_case list \<Rightarrow> ('d store, code_execution) act" where
  "runCandidateCodeInStore c invite input testCases =
     bindE (liftR (run_judge c (cri_language input) (cri_code input) testCases (cand_id (ci_candidate invite)))) (\<lambda>result.
     with_fallback (storeDatabase c (mapped mapCodeExecution (t_create (sc_codeExecutions c) (new_execution c invite input result))))
       (bindE (set_memory (mm_codeExecutions_update (\<lambda>executions. new_execution c invite input result # executions))) (\<lambda>_.
        ret (new_execution c invite input result))))"

definition runCandidateCode :: "'d store_ctx \<Rightarrow> string \<Rightarrow> code_run_input \<Rightarrow> ('d store, code_execution) act" where
  "runCandidateCode c inviteToken input =
     bindE (getInviteForWorkspaceUse c inviteToken) (\<lambda>invite.
     bindE (liftR (assertQuestionBelongsToInvite invite (cri_questionId input))) (\<lambda>_.
     bindE (liftR (assertLanguageCanRun invite (cri_language input))) (\<lambda>_.
     bindE (assertExamSessionOpen c invite) (\<lambda>_.
     bindE (getQuestionTestCases c (cri_questionId input) True) (\<lambda>testCases.
     bindE (runCandidateCodeInStore c invite input testCases) (\<lambda>execution.
     ret (toCandidateCodeExecution execution)))))))"

definition new_submission :: "'d store_ctx \<Rightarrow> candidate_invite \<Rightarrow> code_submit_input \<Rightarrow> runner_result \<Rightarrow> submission" where
  "new_submission c invite input result = \<lparr>sub_id = createId c 0 ''submission'', sub_examId = ex_id (ci_exam invite),
     sub_candidateId = cand_id (ci_candidate invite), sub_questionId = csi_questionId input, sub_language = csi_language input,
     sub_code = csi_code input, sub_score = calculateSubmissionScore result, sub_passedTests = int (rr_passedTests result),
     sub_totalTests = int (rr_totalTests result),
     sub_testResults = test_rows c None (Some (createId c 0 ''submission'')) (rr_testResults result), sub_submittedAt = sc_now c\<rparr>"

definition set_in_progress :: "candidate \<Rightarrow> candidate" where
  "set_in_progress candidate = candidate\<lparr>cand_status := IN_PROGRESS\<rparr>"

definition evaluate :: "'d store_ctx \<Rightarrow> candidate_invite \<Rightarrow> code_submit_input \<Rightarrow> question \<Rightarrow> test_case list \<Rightarrow> runner_result res" where
  "evaluate c invite input question testCases =
     (if q_type question = CODING then run_judge c (csi_language input) (csi_code input) testCases (cand_id (ci_candidate invite))
      else Inr (evaluateTextAnswer question (csi_code input)))"

definition submitCandidateCodeInStore ::
  "'d store_ctx \<Rightarrow> candidate_invite \<Rightarrow> code_submit_input \<Rightarrow> question \<Rightarrow> test_case list \<Rightarrow> ('d store, submission) act" where
  "submitCandidateCodeInStore c invite input question testCases =
     bindE (liftR (evaluate c invite input question testCases)) (\<lambda>runResult.
     with_fallback
       (storeDatabase c
          (bindE (t_create (sc_submissions c) (new_submission c invite input runResult)) (\<lambda>submission.
           bindE (t_update (sc_candidates c) (\<lambda>p. cand_id p = cand_id (ci_candidate invite)) set_in_progress) (\<lambda>_.
           ret (mapSubmission submission)))))
       (bindE (set_memory (mm_submissions_update (\<lambda>submissions. new_submission c invite input runResult # submissions))) (\<lambda>_.
        bindE (set_memory (mm_candidates_update (replace_where (\<lambda>p. cand_id p = cand_id (ci_candidate invite)) set_in_progress))) (\<lambda>_.
        ret (new_submission c invite input runResult)))))"

definition submitCandidateCode :: "'d store_ctx \<Rightarrow> string \<Rightarrow> code_submit_input \<Rightarrow> ('d store, submission) act" where
  "submitCandidateCode c inviteToken input =
     bindE (getInviteForWorkspaceUse c inviteToken) (\<lambda>invite.
     bindE (liftR (assertQuestionBelongsToInvite invite (csi_questionId input))) (\<lambda>_.
     bindE (assertExamSessionOpen c invite) (\<lambda>_.
     bindE (getQuestionForEvaluation c invite (csi_questionId input)) (\<lambda>question.
     bindE (liftR (if q_type question = CODING then assertLanguageCanRun invite (csi_language input) else Inr ())) (\<lambda>_.
     bindE (if q_type question = CODING then getQuestionTestCases c (csi_questionId input) False else ret []) (\<lambda>testCases.
     bindE (submitCandidateCodeInStore c invite input question testCases) (\<lambda>submission.
     ret (toCandidateSubmission submission))))))))"

section \<open>Drafts are a map\<close>

text \<open>The abstract store of drafts: the code for a candidate, question and language.\<close>

definition draft_key :: "code_draft \<Rightarrow> string \<times> string \<times> string" where
  "draft_key d = (cd_candidateId d, cd_questionId d, cd_language d)"

definition draft_code :: "code_draft list \<Rightarrow> string \<times> string \<times> string \<Rightarrow> string option" where
  "draft_code ds key = map_option cd_code (List.find (\<lambda>d. draft_key d = key) ds)"

definition input_key :: "candidate_invite \<Rightarrow> code_draft_input \<Rightarrow> string \<times> string \<times> string" where
  "input_key invite input = (cand_id (ci_candidate invite), cdi_questionId input, cdi_language input)"

lemma is_draft_key: "is_draft invite (cdi_questionId input) (cdi_language input) = (\<lambda>d. draft_key d = input_key invite input)"
  by (auto simp: is_draft_def draft_key_def input_key_def)

lemma draft_sel [simp]:
  "draft_key (new_draft c invite input) = input_key invite input" "cd_code (new_draft c invite input) = cdi_code input"
  "draft_key (updated_draft c input d) = draft_key d" "cd_code (updated_draft c input d) = cdi_code input"
  "cd_id (updated_draft c input d) = cd_id d" "cd_id (new_draft c invite input) = createId c 0 ''draft''"
  "draft_key (d\<lparr>cd_id := i, cd_createdAt := t\<rparr>) = draft_key d"
  by (simp_all add: new_draft_def updated_draft_def draft_key_def input_key_def)

definition drafts_wf :: "code_draft list \<Rightarrow> bool" where
  "drafts_wf ds \<longleftrightarrow> distinct (map draft_key ds) \<and> distinct (map cd_id ds)"

lemma draft_replaced:
  assumes "List.find (\<lambda>d. draft_key d = key) ds = Some old"
  shows "draft_code (replace_where (\<lambda>d. draft_key d = key) (updated_draft c input) ds) = (draft_code ds)(key \<mapsto> cdi_code input)"
proof
  fix k
  show "draft_code (replace_where (\<lambda>d. draft_key d = key) (updated_draft c input) ds) k = ((draft_code ds)(key \<mapsto> cdi_code input)) k"
  proof (cases "k = key")
    case True
    then show ?thesis using assms
      by (simp add: draft_code_def find_replace_where_same [of "\<lambda>d. draft_key d = key" "updated_draft c input" ds])
  next
    case False
    then have "List.find (\<lambda>d. draft_key d = k) (replace_where (\<lambda>d. draft_key d = key) (updated_draft c input) ds) =
        List.find (\<lambda>d. draft_key d = k) ds"
      by (intro find_replace_where_other) auto
    with False show ?thesis by (simp add: draft_code_def)
  qed
qed

lemma draft_appended:
  assumes "List.find (\<lambda>d. draft_key d = draft_key new) ds = None"
  shows "draft_code (ds @ [new]) = (draft_code ds)(draft_key new \<mapsto> cd_code new)"
  using assms by (auto simp: draft_code_def find_append split: option.split)

lemma draft_front:
  assumes "\<And>d. d \<in> set ds \<Longrightarrow> cd_id d = cd_id new \<Longrightarrow> draft_key d = draft_key new"
  shows "draft_code (new # filter (\<lambda>item. cd_id item \<noteq> cd_id new) ds) = (draft_code ds)(draft_key new \<mapsto> cd_code new)"
proof
  fix k
  have "List.find (\<lambda>d. draft_key d = k) (filter (\<lambda>item. cd_id item \<noteq> cd_id new) ds) = List.find (\<lambda>d. draft_key d = k) ds"
    if "k \<noteq> draft_key new"
    using assms that by (induction ds) auto
  then show "draft_code (new # filter (\<lambda>item. cd_id item \<noteq> cd_id new) ds) k = ((draft_code ds)(draft_key new \<mapsto> cd_code new)) k"
    by (simp add: draft_code_def)
qed

lemma memory_draft_sel:
  "draft_key (memory_draft c invite input ds) = input_key invite input" "cd_code (memory_draft c invite input ds) = cdi_code input"
  by (auto simp: memory_draft_def split: option.split)

lemma memory_draft_id:
  assumes "drafts_wf ds" and "createId c 0 ''draft'' \<notin> cd_id ` set ds" and "d \<in> set ds" and "cd_id d = cd_id (memory_draft c invite input ds)"
  shows "draft_key d = input_key invite input"
proof (cases "List.find (is_draft invite (cdi_questionId input) (cdi_language input)) ds")
  case None
  with assms(4) have "cd_id d = createId c 0 ''draft''" by (simp add: memory_draft_def)
  with assms(2) imageI [OF assms(3), of cd_id] show ?thesis by simp
next
  case (Some old)
  from find_SomeD [OF Some] have "old \<in> set ds" "draft_key old = input_key invite input" by (simp_all add: is_draft_key)
  moreover from Some assms(4) have "cd_id d = cd_id old" by (simp add: memory_draft_def)
  ultimately show ?thesis using assms(1,3) by (auto simp: drafts_wf_def distinct_map inj_on_def)
qed

text \<open>C15. Saving a draft refines the update of a map from candidate, question and language to code, on the database and
  in memory: the saved code is what the workspace reads back, and no other draft changes.\<close>

theorem drafts_refine_a_map:
  assumes "good_tables c content" and "saveCandidateCodeDraftInStore c invite input s = (Inr draft, s')"
    and "drafts_wf (mm_codeDrafts (st_memory s))" and "createId c 0 ''draft'' \<notin> cd_id ` set (mm_codeDrafts (st_memory s))"
  shows "\<exists>before after. list_written c content s s' k_codeDrafts mm_codeDrafts before after \<and> draft \<in> set after \<and>
    draft_key draft = input_key invite input \<and> cd_code draft = cdi_code input \<and>
    draft_code after = (draft_code before)(input_key invite input \<mapsto> cdi_code input)"
  using assms(2) [unfolded saveCandidateCodeDraftInStore_def]
proof (cases rule: with_database_cases)
  case (database d)
  let ?ds = "k_codeDrafts (content (st_db s))"
  from database(2) have up: "t_upsert (sc_codeDrafts c) (\<lambda>d. draft_key d = input_key invite input) (updated_draft c input) (new_draft c invite input)
      (st_db s) = (Inr draft, d)"
    by (simp add: mapped_eq_Inr is_draft_key)
  note law = store_part.upsert_InrD [OF good_codeDrafts [OF assms(1)] up]
  have "draft \<in> set (k_codeDrafts (content d)) \<and> draft_key draft = input_key invite input \<and> cd_code draft = cdi_code input \<and>
      draft_code (k_codeDrafts (content d)) = (draft_code ?ds)(input_key invite input \<mapsto> cdi_code input)"
  proof (cases "List.find (\<lambda>d. draft_key d = input_key invite input) ?ds")
    case None
    with law draft_appended [of "new_draft c invite input" ?ds] show ?thesis by simp
  next
    case (Some old)
    from find_SomeD [OF Some] have "old \<in> set ?ds" "draft_key old = input_key invite input" by simp_all
    with law Some draft_replaced [OF Some, of c input] show ?thesis by (auto simp: set_replace_where)
  qed
  with database_paths(1) [OF database(1,3)] show ?thesis by blast
next
  case (memory s1)
  let ?ds = "mm_codeDrafts (st_memory s)"
  from memory have draft: "draft = memory_draft c invite input ?ds"
    and after: "mm_codeDrafts (st_memory s') = draft # filter (\<lambda>item. cd_id item \<noteq> cd_id draft) ?ds"
    and unused: "\<not> used_database c s s'"
    by (auto simp: store_Inr)
  have "draft_code (draft # filter (\<lambda>item. cd_id item \<noteq> cd_id draft) ?ds) = (draft_code ?ds)(input_key invite input \<mapsto> cdi_code input)"
    using draft_front [of ?ds draft] memory_draft_id [OF assms(3,4)] by (simp add: draft memory_draft_sel)
  with after have "draft \<in> set (mm_codeDrafts (st_memory s')) \<and> draft_key draft = input_key invite input \<and> cd_code draft = cdi_code input \<and>
      draft_code (mm_codeDrafts (st_memory s')) = (draft_code ?ds)(input_key invite input \<mapsto> cdi_code input)"
    by (simp add: draft memory_draft_sel)
  with memory_paths(1) [OF unused] show ?thesis by blast
qed

section \<open>Acting needs an open exam\<close>

lemma asked_question:
  "assertQuestionBelongsToInvite invite questionId = Inr u \<longleftrightarrow> (\<exists>q \<in> set (ci_questions invite). q_id q = questionId)"
  by (simp add: assertQuestionBelongsToInvite_def list_ex_iff)

definition language_enabled :: "exam \<Rightarrow> string \<Rightarrow> bool" where
  "language_enabled exam language \<longleftrightarrow> normalizeRunnerLanguage language \<noteq> [] \<and>
     normalizeRunnerLanguage language \<in> normalizeRunnerLanguage ` set (ex_languages exam)"

lemma normalized_supported: "normalizeRunnerLanguage language \<noteq> [] \<Longrightarrow> normalizeRunnerLanguage language \<in> set supportedRunnerLanguages"
  by (auto simp: normalizeRunnerLanguage_def supportedRunnerLanguages_def Let_def split: if_splits)

lemma language_Inr: "assertLanguageCanRun invite language = Inr u \<longleftrightarrow> language_enabled (ci_exam invite) language"
  using normalized_supported [of language] by (auto simp: assertLanguageCanRun_def language_enabled_def Let_def split: if_splits)

text \<open>What saving, running and submitting check before they act, in the states \<open>s1\<close> and \<open>s2\<close> in between.\<close>

definition exam_entered :: "'d store_ctx \<Rightarrow> string \<Rightarrow> string \<Rightarrow> 'd store \<Rightarrow> candidate_invite \<Rightarrow> 'd store \<Rightarrow> bool" where
  "exam_entered c inviteToken questionId s invite s2 \<longleftrightarrow>
     (\<exists>s1. getInviteForWorkspaceUse c inviteToken s = (Inr invite, s1) \<and> assertExamSessionOpen c invite s1 = (Inr (), s2)) \<and>
     invite_of_token inviteToken invite \<and> workspace_open c invite \<and> (\<exists>q \<in> set (ci_questions invite). q_id q = questionId)"

lemma entered:
  assumes "good_tables c content" and "getInviteForWorkspaceUse c inviteToken s = (Inr invite, s1)"
    and "assertQuestionBelongsToInvite invite questionId = Inr ()" and "assertExamSessionOpen c invite s1 = (Inr (), s2)"
  shows "exam_entered c inviteToken questionId s invite s2"
  unfolding exam_entered_def using assms gate_passed [OF assms(1,2)] by (auto simp: asked_question)

lemma save_entered:
  assumes "good_tables c content" and "saveCandidateCodeDraft c inviteToken input s = (Inr draft, s')"
  obtains invite s2 where "exam_entered c inviteToken (cdi_questionId input) s invite s2"
    and "language_enabled (ci_exam invite) (cdi_language input)" and "saveCandidateCodeDraftInStore c invite input s2 = (Inr draft, s')"
proof -
  from assms(2) obtain invite s1 s2 where a: "getInviteForWorkspaceUse c inviteToken s = (Inr invite, s1)"
    "assertQuestionBelongsToInvite invite (cdi_questionId input) = Inr ()" "assertExamSessionOpen c invite s1 = (Inr (), s2)"
    and b: "language_enabled (ci_exam invite) (cdi_language input)" "saveCandidateCodeDraftInStore c invite input s2 = (Inr draft, s')"
    unfolding saveCandidateCodeDraft_def by (auto simp: bindE_eq_Inr liftR_eq_Inr language_Inr)
  show ?thesis by (rule that [OF entered [OF assms(1) a] b])
qed

lemma run_entered:
  assumes "good_tables c content" and "runCandidateCode c inviteToken input s = (Inr execution, s')"
  obtains invite s2 tests s3 x where "exam_entered c inviteToken (cri_questionId input) s invite s2"
    and "language_enabled (ci_exam invite) (cri_language input)" and "getQuestionTestCases c (cri_questionId input) True s2 = (Inr tests, s3)"
    and "runCandidateCodeInStore c invite input tests s3 = (Inr x, s')" and "execution = toCandidateCodeExecution x"
proof -
  from assms(2) obtain invite s1 s2 tests s3 x where a: "getInviteForWorkspaceUse c inviteToken s = (Inr invite, s1)"
    "assertQuestionBelongsToInvite invite (cri_questionId input) = Inr ()" "assertExamSessionOpen c invite s1 = (Inr (), s2)"
    and b: "language_enabled (ci_exam invite) (cri_language input)" "getQuestionTestCases c (cri_questionId input) True s2 = (Inr tests, s3)"
    "runCandidateCodeInStore c invite input tests s3 = (Inr x, s')" "execution = toCandidateCodeExecution x"
    unfolding runCandidateCode_def by (auto simp: bindE_eq_Inr liftR_eq_Inr ret_eq_Inr language_Inr)
  show ?thesis by (rule that [OF entered [OF assms(1) a] b])
qed

lemma submit_entered:
  assumes "good_tables c content" and "submitCandidateCode c inviteToken input s = (Inr submission, s')"
  obtains invite s2 question s3 tests s4 x where "exam_entered c inviteToken (csi_questionId input) s invite s2"
    and "getQuestionForEvaluation c invite (csi_questionId input) s2 = (Inr question, s3)"
    and "q_type question = CODING \<longrightarrow> language_enabled (ci_exam invite) (csi_language input)"
    and "(if q_type question = CODING then getQuestionTestCases c (csi_questionId input) False else ret []) s3 = (Inr tests, s4)"
    and "submitCandidateCodeInStore c invite input question tests s4 = (Inr x, s')" and "submission = toCandidateSubmission x"
proof -
  from assms(2) obtain invite s1 s2 question s3 tests s4 x
    where a: "getInviteForWorkspaceUse c inviteToken s = (Inr invite, s1)"
      "assertQuestionBelongsToInvite invite (csi_questionId input) = Inr ()" "assertExamSessionOpen c invite s1 = (Inr (), s2)"
      and b: "getQuestionForEvaluation c invite (csi_questionId input) s2 = (Inr question, s3)"
      "(if q_type question = CODING then assertLanguageCanRun invite (csi_language input) else Inr ()) = Inr ()"
      "(if q_type question = CODING then getQuestionTestCases c (csi_questionId input) False else ret []) s3 = (Inr tests, s4)"
      "submitCandidateCodeInStore c invite input question tests s4 = (Inr x, s')" "submission = toCandidateSubmission x"
    unfolding submitCandidateCode_def by (auto simp: bindE_eq_Inr liftR_eq_Inr ret_eq_Inr)
  from b(2) have "q_type question = CODING \<longrightarrow> language_enabled (ci_exam invite) (csi_language input)"
    by (cases "q_type question = CODING") (simp_all add: language_Inr)
  from that [OF entered [OF assms(1) a] b(1) this b(3-5)] show ?thesis .
qed

text \<open>The session stands open: it is the one kept for the candidate, it ends a second from now at the earliest, and no pause or
  termination holds.\<close>

definition session_open :: "'d store_ctx \<Rightarrow> ('d \<Rightarrow> contents) \<Rightarrow> candidate_invite \<Rightarrow> 'd store \<Rightarrow> 'd store \<Rightarrow> bool" where
  "session_open c content invite s s' \<longleftrightarrow> (\<exists>before after actions row.
     list_written c content s s' (\<lambda>k. (k_examSessions k, k_proctorActions k)) (\<lambda>m. (mm_examSessions m, mm_proctorActions m))
       (before, actions) (after, actions) \<and>
     session_kept c invite before after row \<and> sc_now c + 1000 \<le> xs_endsAt row \<and> exam_released invite actions)"

lemma entered_is_open:
  assumes "good_tables c content" and "exam_entered c inviteToken questionId s invite s2"
  shows "\<exists>s1. session_open c content invite s1 s2"
  using assms(2) open_session [OF assms(1)] unfolding exam_entered_def session_open_def by blast

text \<open>C9. A draft is saved, code is run and an answer is submitted only by the candidate of the token, for a question of
  the own exam, after the gate of the workspace and while the session is open. Drafts and runs are in a language that
  the exam enables; a submission is so unless its question is not one of coding.\<close>

theorem acting_needs_an_open_exam:
  assumes "good_tables c content"
  shows "(saveCandidateCodeDraft c inviteToken draftInput s = (Inr draft, s') \<longrightarrow>
      (\<exists>invite s2. exam_entered c inviteToken (cdi_questionId draftInput) s invite s2 \<and> (\<exists>s1. session_open c content invite s1 s2) \<and>
        language_enabled (ci_exam invite) (cdi_language draftInput))) \<and>
    (runCandidateCode c inviteToken runInput s = (Inr execution, s') \<longrightarrow>
      (\<exists>invite s2. exam_entered c inviteToken (cri_questionId runInput) s invite s2 \<and> (\<exists>s1. session_open c content invite s1 s2) \<and>
        language_enabled (ci_exam invite) (cri_language runInput))) \<and>
    (submitCandidateCode c inviteToken submitInput s = (Inr submission, s') \<longrightarrow>
      (\<exists>invite s2 question s3. exam_entered c inviteToken (csi_questionId submitInput) s invite s2 \<and> (\<exists>s1. session_open c content invite s1 s2) \<and>
        getQuestionForEvaluation c invite (csi_questionId submitInput) s2 = (Inr question, s3) \<and>
        (q_type question = CODING \<longrightarrow> language_enabled (ci_exam invite) (csi_language submitInput))))"
proof (intro conjI impI)
  assume "saveCandidateCodeDraft c inviteToken draftInput s = (Inr draft, s')"
  from save_entered [OF assms this] show "\<exists>invite s2. exam_entered c inviteToken (cdi_questionId draftInput) s invite s2 \<and> (\<exists>s1. session_open c content invite s1 s2) \<and>
      language_enabled (ci_exam invite) (cdi_language draftInput)" using entered_is_open [OF assms] by metis
next
  assume "runCandidateCode c inviteToken runInput s = (Inr execution, s')"
  from run_entered [OF assms this] show "\<exists>invite s2. exam_entered c inviteToken (cri_questionId runInput) s invite s2 \<and> (\<exists>s1. session_open c content invite s1 s2) \<and>
      language_enabled (ci_exam invite) (cri_language runInput)" using entered_is_open [OF assms] by metis
next
  assume "submitCandidateCode c inviteToken submitInput s = (Inr submission, s')"
  from submit_entered [OF assms this] show "\<exists>invite s2 question s3. exam_entered c inviteToken (csi_questionId submitInput) s invite s2 \<and> (\<exists>s1. session_open c content invite s1 s2) \<and>
      getQuestionForEvaluation c invite (csi_questionId submitInput) s2 = (Inr question, s3) \<and>
      (q_type question = CODING \<longrightarrow> language_enabled (ci_exam invite) (csi_language submitInput))" using entered_is_open [OF assms] by metis
qed

section \<open>Results count the tests\<close>

text \<open>The counts of an evaluation are those of its results, and at most fifty tests count.\<close>

definition counted :: "runner_result \<Rightarrow> bool" where
  "counted r \<longleftrightarrow> rr_passedTests r = length (filter rt_passed (rr_testResults r)) \<and> rr_totalTests r = length (rr_testResults r) \<and>
     (rr_passedTests r = 0 \<or> rr_totalTests r \<le> MAX_TEST_CASES)"

lemma judge_counted: "counted (judgeAdmitted docker languageName code clock startedAt endedAt testCases)"
proof (cases "judgeable languageName code testCases")
  case True
  then obtain lang where ok: "trim code \<noteq> []" "length code \<le> MAX_CODE_LENGTH" "length testCases \<le> MAX_TEST_CASES"
    "language_of (toLowerCase languageName) = Some lang" by (auto simp: judgeable_def)
  note res = judged_results [OF ok, of docker clock startedAt endedAt]
  then show ?thesis using passed_filter [OF res(2)] ok(3) by (simp add: counted_def)
next
  case False
  then have "\<exists>message cs. judgeAdmitted docker languageName code clock startedAt endedAt testCases = failed message cs"
    by (auto simp: judgeAdmitted_def judgeable_def split: option.split)
  then show ?thesis by (auto simp: counted_def failed_accounts)
qed

lemma judge_visibility:
  assumes "t \<in> set (rr_testResults (judgeAdmitted docker languageName code clock startedAt endedAt testCases))"
  shows "\<exists>x \<in> set testCases. rt_isPublic t = tc_isPublic x \<and> rt_input t = tc_input x \<and> rt_expectedOutput t = tc_expectedOutput x"
proof -
  obtain cs where cs: "map case_of (rr_testResults (judgeAdmitted docker languageName code clock startedAt endedAt testCases)) = numbered_cases cs"
    and sub: "set cs \<subseteq> set testCases"
  proof (cases "judgeable languageName code testCases")
    case True
    then obtain lang where ok: "trim code \<noteq> []" "length code \<le> MAX_CODE_LENGTH" "length testCases \<le> MAX_TEST_CASES"
      "language_of (toLowerCase languageName) = Some lang" by (auto simp: judgeable_def)
    from judged_results(1) [OF ok] show ?thesis using that by blast
  next
    case False
    then have "\<exists>message cs. judgeAdmitted docker languageName code clock startedAt endedAt testCases = failed message cs \<and> set cs \<subseteq> set testCases"
      by (auto simp: judgeAdmitted_def judgeable_def dest: in_set_takeD split: option.split)
    then show ?thesis using that failed_accounts(1) by metis
  qed
  from assms have "case_of t \<in> set (numbered_cases cs)" by (metis cs image_eqI set_map)
  then obtain i x where "(i, x) \<in> set (enumerate 0 cs)" and "case_of t = (i + 1, tc_input x, tc_expectedOutput x, tc_isPublic x)"
    by (auto simp: numbered_cases_def)
  moreover from this(1) have "x \<in> set testCases" using sub by (auto simp: in_set_enumerate_eq)
  ultimately show ?thesis by (auto simp: case_of_def)
qed

lemma text_counted: "counted (evaluateTextAnswer question answer)"
  by (simp add: counted_def evaluateTextAnswer_def Let_def MAX_TEST_CASES_def)

lemma evaluate_counted: "evaluate c invite input question testCases = Inr r \<Longrightarrow> counted r"
  by (auto simp: evaluate_def run_judge_def bindR_eq_Inr judge_counted text_counted split: if_splits)

lemma score_bounds:
  assumes "counted r"
  shows "0 \<le> calculateSubmissionScore r" and "calculateSubmissionScore r \<le> 100"
    and "rr_totalTests r > 0 \<Longrightarrow> calculateSubmissionScore r = 100 \<longleftrightarrow> rr_passedTests r = rr_totalTests r"
proof -
  have le: "rr_passedTests r \<le> rr_totalTests r" using assms by (simp add: counted_def)
  note b = percent_of_bounds [of "int (rr_passedTests r)" "int (rr_totalTests r)"]
  show "0 \<le> calculateSubmissionScore r" "calculateSubmissionScore r \<le> 100"
    using b le by (auto simp: calculateSubmissionScore_def)
  show "calculateSubmissionScore r = 100 \<longleftrightarrow> rr_passedTests r = rr_totalTests r" if pos: "rr_totalTests r > 0"
  proof (cases "rr_passedTests r = rr_totalTests r")
    case True
    with pos show ?thesis by (simp add: calculateSubmissionScore_def percent_of_all)
  next
    case False
    with le have less: "rr_passedTests r < rr_totalTests r" by simp
    have "percent_of (int (rr_passedTests r)) (int (rr_totalTests r)) < 100"
    proof (cases "rr_passedTests r = 0")
      case True
      then show ?thesis by (simp add: percent_of_def round_half_up_def)
    next
      case False
      with assms have "rr_totalTests r \<le> MAX_TEST_CASES" by (simp add: counted_def)
      with less b pos show ?thesis by (simp add: MAX_TEST_CASES_def)
    qed
    with False pos show ?thesis by (simp add: calculateSubmissionScore_def)
  qed
qed

lemma test_rows_counts:
  "length (test_rows c e x rs) = length rs" "length (filter jt_passed (test_rows c e x rs)) = length (filter rt_passed rs)"
proof -
  show "length (test_rows c e x rs) = length rs" by (simp add: test_rows_def)
  have "map jt_passed (test_rows c e x rs) = map rt_passed rs"
    by (rule nth_equalityI) (simp_all add: test_rows_def nth_enumerate_eq)
  then show "length (filter jt_passed (test_rows c e x rs)) = length (filter rt_passed rs)" by (rule passed_filter)
qed

lemma test_rows_public: "j \<in> set (test_rows c e x rs) \<Longrightarrow> \<exists>r \<in> set rs. jt_isPublic j = rt_isPublic r"
  by (auto simp: test_rows_def in_set_enumerate_eq)

lemma masked_passed [simp]: "jt_passed \<circ> toCandidateJudgeTestResult = jt_passed"
  by (rule ext) (simp add: toCandidateJudgeTestResult_def)

lemma public_tests:
  assumes "good_tables c content" and "getQuestionTestCases c questionId True s = (Inr tests, s')" and "t \<in> set tests"
  shows "tc_isPublic t" and "tc_questionId t = questionId"
proof -
  have "tc_isPublic t \<and> tc_questionId t = questionId"
    using assms(2) [unfolded getQuestionTestCases_def]
  proof (cases rule: with_database_cases)
    case (database d)
    from database(2) obtain ts where "t_findMany (sc_testCases c) (\<lambda>t. tc_questionId t = questionId \<and> (True \<longrightarrow> tc_isPublic t)) (st_db s) = (Inr ts, d)"
      and "tests = sort_oldest tc_createdAt ts" by (auto simp: store_Inr)
    with good_findMany(5) [OF assms(1)] assms(3) show ?thesis by (fastforce simp: sort_oldest_def)
  next
    case (memory s1)
    with assms(3) show ?thesis by (auto simp: store_Inr)
  qed
  then show "tc_isPublic t" "tc_questionId t = questionId" by simp_all
qed

lemma run_in_store:
  assumes "good_tables c content" and "runCandidateCodeInStore c invite input tests s = (Inr x, s')"
  obtains r where "run_judge c (cri_language input) (cri_code input) tests (cand_id (ci_candidate invite)) = Inr r"
    and "x = new_execution c invite input r"
proof -
  from assms(2) obtain r where r: "run_judge c (cri_language input) (cri_code input) tests (cand_id (ci_candidate invite)) = Inr r"
    and w: "with_fallback (storeDatabase c (mapped mapCodeExecution (t_create (sc_codeExecutions c) (new_execution c invite input r))))
       (bindE (set_memory (mm_codeExecutions_update (\<lambda>executions. new_execution c invite input r # executions))) (\<lambda>_.
        ret (new_execution c invite input r))) s = (Inr x, s')"
    by (auto simp: runCandidateCodeInStore_def bindE_eq_Inr liftR_eq_Inr)
  from w have "x = new_execution c invite input r"
  proof (cases rule: with_database_cases)
    case (database d)
    with store_part.create_InrD [OF good_codeExecutions [OF assms(1)]] show ?thesis by (auto simp: mapped_eq_Inr)
  qed (auto simp: store_Inr)
  with r that show ?thesis by blast
qed

text \<open>A run outside production judges the code only on the public tests of the question: the candidate sees each of
  them with the counts of those that passed, and no error text of the runner.\<close>

theorem runs_use_public_tests:
  assumes "good_tables c content" and "runCandidateCode c inviteToken input s = (Inr execution, s')"
  shows "\<not> is_production (sc_env c) \<and> ce_questionId execution = cri_questionId input \<and>
    (\<forall>r \<in> set (ce_testResults execution). jt_isPublic r \<and> test_hidden r) \<and>
    ce_totalTests execution = int (length (ce_testResults execution)) \<and>
    ce_passedTests execution = int (length (filter jt_passed (ce_testResults execution)))"
proof -
  obtain invite s2 tests s3 x where tests: "getQuestionTestCases c (cri_questionId input) True s2 = (Inr tests, s3)"
    and run: "runCandidateCodeInStore c invite input tests s3 = (Inr x, s')" and shown: "execution = toCandidateCodeExecution x"
    using run_entered [OF assms] by metis
  obtain r where r: "run_judge c (cri_language input) (cri_code input) tests (cand_id (ci_candidate invite)) = Inr r"
    and x: "x = new_execution c invite input r"
    by (rule run_in_store [OF assms(1) run])
  from r have dev: "\<not> is_production (sc_env c)" and judged: "r = judgeAdmitted (sc_docker c) (cri_language input) (cri_code input)
      (sc_clock c) (sc_now c) (sc_endedAt c) tests"
    by (auto simp: run_judge_def bindR_eq_Inr split: if_splits)
  have "jt_isPublic j" if "j \<in> set (test_rows c e z (rr_testResults r))" for j e z
    using test_rows_public [OF that] judge_visibility public_tests(1) [OF assms(1) tests] unfolding judged by metis
  moreover have "counted r" unfolding judged by (rule judge_counted)
  ultimately show ?thesis using dev
    by (simp add: shown x new_execution_def toCandidateCodeExecution_def test_rows_counts filter_map counted_def)
qed

lemma submit_in_store:
  assumes "good_tables c content" and "submitCandidateCodeInStore c invite input question tests s = (Inr x, s')"
  obtains r where "evaluate c invite input question tests = Inr r" and "x = new_submission c invite input r"
    and "if used_database c s s' then
        content (st_db s') = k_candidates_update (replace_where (\<lambda>p. cand_id p = cand_id (ci_candidate invite)) set_in_progress)
          (k_submissions_update (\<lambda>subs. subs @ [x]) (content (st_db s)))
      else st_memory s' = mm_candidates_update (replace_where (\<lambda>p. cand_id p = cand_id (ci_candidate invite)) set_in_progress)
          (mm_submissions_update (\<lambda>subs. x # subs) (st_memory s))"
proof -
  from assms(2) obtain r where r: "evaluate c invite input question tests = Inr r"
    and w: "with_fallback
       (storeDatabase c
          (bindE (t_create (sc_submissions c) (new_submission c invite input r)) (\<lambda>submission.
           bindE (t_update (sc_candidates c) (\<lambda>p. cand_id p = cand_id (ci_candidate invite)) set_in_progress) (\<lambda>_.
           ret (mapSubmission submission)))))
       (bindE (set_memory (mm_submissions_update (\<lambda>submissions. new_submission c invite input r # submissions))) (\<lambda>_.
        bindE (set_memory (mm_candidates_update (replace_where (\<lambda>p. cand_id p = cand_id (ci_candidate invite)) set_in_progress))) (\<lambda>_.
        ret (new_submission c invite input r)))) s = (Inr x, s')"
    by (auto simp: submitCandidateCodeInStore_def bindE_eq_Inr liftR_eq_Inr)
  from w show ?thesis
  proof (cases rule: with_database_cases)
    case (database d)
    from database(2) obtain y d1 p where create: "t_create (sc_submissions c) (new_submission c invite input r) (st_db s) = (Inr y, d1)"
      and update: "t_update (sc_candidates c) (\<lambda>p. cand_id p = cand_id (ci_candidate invite)) set_in_progress d1 = (Inr p, d)"
      and x: "x = y" by (auto simp: store_Inr)
    from store_part.create_InrD [OF good_submissions [OF assms(1)] create] store_part.update_InrD [OF good_candidates [OF assms(1)] update]
    show ?thesis using that [OF r] database x by simp
  next
    case (memory s1)
    then show ?thesis using that [OF r] by (simp add: store_Inr)
  qed
qed

text \<open>C4. A submission scores between 0 and 100, and 100 exactly if every one of its tests passed; its counts are those of
  its tests, the hidden ones included but not shown. It is stored, and the candidate is in progress.\<close>

theorem submissions_are_scored_by_their_tests:
  assumes "good_tables c content" and "submitCandidateCode c inviteToken input s = (Inr submission, s')"
  shows "0 \<le> sub_score submission \<and> sub_score submission \<le> 100 \<and>
    sub_totalTests submission = int (length (sub_testResults submission)) \<and>
    sub_passedTests submission = int (length (filter jt_passed (sub_testResults submission))) \<and>
    (sub_testResults submission \<noteq> [] \<longrightarrow> (sub_score submission = 100 \<longleftrightarrow> (\<forall>r \<in> set (sub_testResults submission). jt_passed r))) \<and>
    (\<forall>r \<in> set (sub_testResults submission). test_hidden r) \<and>
    (\<exists>stored invite s4. submission = toCandidateSubmission stored \<and> sub_candidateId stored = cand_id (ci_candidate invite) \<and>
       invite_of_token inviteToken invite \<and>
       (if used_database c s4 s' then stored \<in> set (k_submissions (content (st_db s'))) else stored \<in> set (mm_submissions (st_memory s'))))"
proof -
  obtain invite s2 question tests s4 x where e: "exam_entered c inviteToken (csi_questionId input) s invite s2"
    and sub: "submitCandidateCodeInStore c invite input question tests s4 = (Inr x, s')" and shown: "submission = toCandidateSubmission x"
    using submit_entered [OF assms] by metis
  obtain r where r: "evaluate c invite input question tests = Inr r" and x: "x = new_submission c invite input r"
    and stored: "if used_database c s4 s' then
        content (st_db s') = k_candidates_update (replace_where (\<lambda>p. cand_id p = cand_id (ci_candidate invite)) set_in_progress)
          (k_submissions_update (\<lambda>subs. subs @ [x]) (content (st_db s4)))
      else st_memory s' = mm_candidates_update (replace_where (\<lambda>p. cand_id p = cand_id (ci_candidate invite)) set_in_progress)
          (mm_submissions_update (\<lambda>subs. x # subs) (st_memory s4))"
    by (rule submit_in_store [OF assms(1) sub])
  from r have ok: "counted r" by (rule evaluate_counted)
  note score = score_bounds [OF ok]
  let ?rows = "test_rows c None (Some (createId c 0 ''submission'')) (rr_testResults r)"
  have rows: "sub_testResults submission = map toCandidateJudgeTestResult ?rows" by (simp add: shown x new_submission_def)
  have numbers: "sub_score submission = calculateSubmissionScore r" "sub_totalTests submission = int (rr_totalTests r)"
    "sub_passedTests submission = int (rr_passedTests r)"
    by (simp_all add: shown x new_submission_def toCandidateSubmission_def)
  have counts: "rr_totalTests r = length (sub_testResults submission)" "rr_passedTests r = length (filter jt_passed (sub_testResults submission))"
    using ok by (simp_all add: rows counted_def test_rows_counts filter_map)
  have "sub_score submission = 100 \<longleftrightarrow> (\<forall>j \<in> set (sub_testResults submission). jt_passed j)" if "sub_testResults submission \<noteq> []"
    using score(3) that by (simp add: numbers counts filter_all_iff [symmetric] filter_id_conv)
  moreover have "\<exists>stored invite s4. submission = toCandidateSubmission stored \<and> sub_candidateId stored = cand_id (ci_candidate invite) \<and>
       invite_of_token inviteToken invite \<and>
       (if used_database c s4 s' then stored \<in> set (k_submissions (content (st_db s'))) else stored \<in> set (mm_submissions (st_memory s')))"
    using stored e by (intro exI [of _ x] exI [of _ invite] exI [of _ s4]) (auto simp: shown exam_entered_def, simp add: x new_submission_def)
  ultimately show ?thesis using score(1,2) by (simp add: numbers counts rows)
qed

section \<open>Witnesses\<close>

text \<open>A development context with a database; its code runner echoes the input.\<close>

abbreviation development_ctx :: "time \<Rightarrow> contents store_ctx" where
  "development_ctx now \<equiv> plain_ctx development_env now"

lemma development_env_simps [simp]:
  "databaseAvailable development_env" "\<not> storeDemoAuthEnabled development_env" "databaseFallbackEnabled development_env"
  "\<not> is_production development_env"
  by (simp_all add: databaseAvailable_def storeDemoAuthEnabled_def databaseFallbackEnabled_def is_production_def development_env_def)

lemma development_store_of:
  "with_fallback (storeDatabase (development_ctx now) m) fallback (store_of k) = (case m k of
     (Inr x, k') \<Rightarrow> (Inr x, store_of k')
   | (Inl e, k') \<Rightarrow> if is_request_error e then (Inl e, store_of k') else fallback ((store_of k')\<lparr>st_databaseUnavailable := True\<rparr>))"
  "with_fallback (seededDatabase (development_ctx now) m) fallback (store_of k) = (case m k of
     (Inr x, k') \<Rightarrow> (Inr x, store_of k')
   | (Inl e, k') \<Rightarrow> if is_request_error e then (Inl e, store_of k') else fallback ((store_of k')\<lparr>st_databaseUnavailable := True\<rparr>))"
  by (simp_all add: with_fallback_def seededDatabase_def storeDatabase_def storeOperation_def catchE_def bindE_def on_database_def ret_def
      throwE_def mark_unavailable_def Let_def split: prod.split sum.split)

lemma development_gate:
  "getInviteForWorkspaceUse (development_ctx 95000) ''invite_1'' (store_of workspace_contents) = (Inr workspace_invite, store_of workspace_contents)"
proof -
  have now: "stale_before (development_ctx 95000) = Some 65000"
    by (simp add: stale_before_def proctorHeartbeatTimeoutMs_def development_env_def Let_def)
  have snapshot: "getCandidateInviteSnapshot (development_ctx 95000) ''invite_1'' (store_of workspace_contents) = (Inr workspace_invite, store_of workspace_contents)"
    by (simp add: getCandidateInviteSnapshot_def find_invite_def required_def development_store_of run_simps workspace_invite_def sort_newest_def sort_oldest_def)
  have mark: "markStaleProctorDevicesInStore (development_ctx 95000) ''e1'' (store_of workspace_contents) = (Inr (), store_of workspace_contents)"
    by (simp add: markStaleProctorDevicesInStore_def now development_store_of run_simps is_stale_row_def)
  have "assertCandidateCanUseWorkspace (development_ctx 95000) workspace_invite = Inr ()"
    by (simp add: assertCandidateCanUseWorkspace_def exam_available_def date_value_def mobile_connected_def mapIdentityVerification_def
      mapEnvironmentCheck_def)
  then show ?thesis
    by (simp add: getInviteForWorkspaceUse_def getCandidateInviteForInternalUse_def bindE_apply snapshot mark liftR_apply ret_apply)
qed

definition entered_contents :: contents where
  "entered_contents = workspace_contents\<lparr>k_examSessions := [new_session (development_ctx 95000) workspace_invite]\<rparr>"

lemma development_open:
  "assertExamSessionOpen (development_ctx 95000) workspace_invite (store_of workspace_contents) = (Inr (), store_of entered_contents)"
  by (simp add: assertExamSessionOpen_def ensureExamSession_def latestBlockingAction_def mapped_def development_store_of run_simps mapExamSession_def
      remaining_seconds_def assertProctorActionAllowsExam_def sort_newest_def entered_contents_def) (simp add: new_session_def)

lemma entered_contents_sel [simp]:
  "k_testCases entered_contents = sample_tests" "k_codeDrafts entered_contents = []" "k_questions entered_contents = [sample_question]"
  "k_submissions entered_contents = [sample_submission]" "k_candidates entered_contents = [sample_candidate]"
  by (simp_all add: entered_contents_def)

lemma normalized_python: "normalizeRunnerLanguage ''python'' = ''python''" "normalizeRunnerLanguage ''Python'' = ''python''"
  by code_simp+

lemma python_enabled: "assertLanguageCanRun workspace_invite ''python'' = Inr ()" "assertQuestionBelongsToInvite workspace_invite ''q1'' = Inr ()"
  by (simp_all add: assertLanguageCanRun_def normalized_python supportedRunnerLanguages_def Let_def assertQuestionBelongsToInvite_def
      mapCandidateQuestion_def)

lemma drafts_refine_a_map_witness:
  "\<exists>draft s'. saveCandidateCodeDraftInStore (production_ctx 95000) workspace_invite \<lparr>cdi_questionId = ''q1'', cdi_language = ''python'', cdi_code = ''y''\<rparr>
      (store_of workspace_contents) = (Inr draft, s') \<and> draft_code (k_codeDrafts (st_db s')) (''c1'', ''q1'', ''python'') = Some ''y''"
proof -
  let ?in = "\<lparr>cdi_questionId = ''q1'', cdi_language = ''python'', cdi_code = ''y''\<rparr>"
  obtain draft s' where run: "saveCandidateCodeDraftInStore (production_ctx 95000) workspace_invite ?in (store_of workspace_contents) = (Inr draft, s')"
    by (simp add: saveCandidateCodeDraftInStore_def run_simps)
  have "\<exists>before after. list_written (production_ctx 95000) id (store_of workspace_contents) s' k_codeDrafts mm_codeDrafts before after \<and>
    draft \<in> set after \<and> draft_key draft = input_key workspace_invite ?in \<and> cd_code draft = cdi_code ?in \<and>
    draft_code after = (draft_code before)(input_key workspace_invite ?in \<mapsto> cdi_code ?in)"
    by (rule drafts_refine_a_map [OF good_plain run]) (simp_all add: drafts_wf_def empty_memory_def)
  with run show ?thesis by (auto simp: list_written_def input_key_def)
qed

lemma acting_needs_an_open_exam_witness:
  "\<exists>draft s'. saveCandidateCodeDraft (development_ctx 95000) ''invite_1'' \<lparr>cdi_questionId = ''q1'', cdi_language = ''python'', cdi_code = ''y''\<rparr>
      (store_of workspace_contents) = (Inr draft, s') \<and>
    (\<exists>invite s2. exam_entered (development_ctx 95000) ''invite_1'' ''q1'' (store_of workspace_contents) invite s2 \<and>
      language_enabled (ci_exam invite) ''python'')"
proof -
  let ?in = "\<lparr>cdi_questionId = ''q1'', cdi_language = ''python'', cdi_code = ''y''\<rparr>"
  obtain draft s' where run: "saveCandidateCodeDraft (development_ctx 95000) ''invite_1'' ?in (store_of workspace_contents) = (Inr draft, s')"
    by (simp add: saveCandidateCodeDraft_def bindE_apply development_gate development_open python_enabled liftR_apply
      saveCandidateCodeDraftInStore_def mapped_def development_store_of run_simps)
  from conjunct1 [OF acting_needs_an_open_exam [OF good_plain], rule_format, OF run] run show ?thesis by auto
qed

lemma runs_use_public_tests_witness:
  "\<exists>execution s'. runCandidateCode (development_ctx 95000) ''invite_1'' \<lparr>cri_questionId = ''q1'', cri_language = ''python'', cri_code = ''x''\<rparr>
      (store_of workspace_contents) = (Inr execution, s') \<and> length (ce_testResults execution) = 1 \<and> ce_totalTests execution = 1"
proof -
  let ?in = "\<lparr>cri_questionId = ''q1'', cri_language = ''python'', cri_code = ''x''\<rparr>"
  have tests: "getQuestionTestCases (development_ctx 95000) ''q1'' True (store_of entered_contents) = (Inr [hd sample_tests], store_of entered_contents)"
    by (simp add: getQuestionTestCases_def development_store_of run_simps sort_oldest_def) (simp add: sample_tests_def)
  obtain execution s' where run: "runCandidateCode (development_ctx 95000) ''invite_1'' ?in (store_of workspace_contents) = (Inr execution, s')"
    and one: "length (ce_testResults execution) = 1"
    by (simp add: runCandidateCode_def bindE_apply development_gate development_open python_enabled liftR_apply tests runCandidateCodeInStore_def
      run_judge_def mapped_def development_store_of run_simps toCandidateCodeExecution_def new_execution_def test_rows_counts)
      (simp add: judgeAdmitted_def failed_def language_of_def toLowerCase_def lower_char_def trim_def trimStart_def trimEnd_def js_space_def
        MAX_CODE_LENGTH_def MAX_TEST_CASES_def Let_def MAX_JUDGE_DURATION_MS_def)
  from runs_use_public_tests [OF good_plain run] run one show ?thesis by auto
qed

lemma submissions_are_scored_by_their_tests_witness:
  "\<exists>submission s'. submitCandidateCode (development_ctx 95000) ''invite_1'' \<lparr>csi_questionId = ''q1'', csi_language = ''python'', csi_code = ''x''\<rparr>
      (store_of workspace_contents) = (Inr submission, s') \<and> sub_totalTests submission = 2 \<and> sub_score submission \<le> 100"
proof -
  let ?in = "\<lparr>csi_questionId = ''q1'', csi_language = ''python'', csi_code = ''x''\<rparr>"
  have tests: "getQuestionTestCases (development_ctx 95000) ''q1'' False (store_of entered_contents) = (Inr sample_tests, store_of entered_contents)"
    by (simp add: getQuestionTestCases_def development_store_of run_simps sort_oldest_def) (simp add: sample_tests_def)
  have question: "getQuestionForEvaluation (development_ctx 95000) workspace_invite ''q1'' (store_of entered_contents) = (Inr sample_question, store_of entered_contents)"
    by (simp add: getQuestionForEvaluation_def development_store_of run_simps)
  obtain submission s' where run: "submitCandidateCode (development_ctx 95000) ''invite_1'' ?in (store_of workspace_contents) = (Inr submission, s')"
    and two: "length (sub_testResults submission) = 2"
    by (simp add: submitCandidateCode_def bindE_apply development_gate development_open python_enabled liftR_apply tests question
      submitCandidateCodeInStore_def evaluate_def run_judge_def mapped_def development_store_of run_simps toCandidateSubmission_def new_submission_def
      test_rows_counts)
      (simp add: judgeAdmitted_def failed_def language_of_def toLowerCase_def lower_char_def trim_def trimStart_def trimEnd_def js_space_def
        MAX_CODE_LENGTH_def MAX_TEST_CASES_def Let_def MAX_JUDGE_DURATION_MS_def sample_tests_def)
  from submissions_are_scored_by_their_tests [OF good_plain run] run two show ?thesis by auto
qed

end
