(* ===== verification/Kyc.thy ===== *)
theory Kyc
  imports TransportPolicy Contracts
begin

text \<open>
  The identity provider (\<open>identity-verification.service.ts\<close>): the requests to it, and the reading of its answers,
  which are JSON of unknown shape. The network (DNS, \<open>fetch\<close>, the parser of URLs, \<open>JSON.parse\<close>) is a parameter. The
  request's body is kept as the fields it is made of. JSON numbers are exact rationals.
\<close>

section \<open>The network\<close>

record http_response =
  hr_ok :: bool
  hr_status :: nat
  hr_contentLength :: "string option"
  hr_body :: "string list option"

record 'q network =
  nw_parseUrl :: url_parser
  nw_lookup :: "string \<Rightarrow> string list option"
  nw_isIP :: ip_family
  nw_check :: block_check
  nw_fetch :: "'q \<Rightarrow> url \<Rightarrow> http_response option"
  nw_json :: "string \<Rightarrow> json option"
  nw_parseDate :: "string \<Rightarrow> time option"

definition readBoundedJson :: "'q network \<Rightarrow> http_response \<Rightarrow> json res" where
  "readBoundedJson nw response =
     bindR (readBoundedText (64 * 1024) (hr_contentLength response) (hr_body response)) (\<lambda>text.
       case nw_json nw text of None \<Rightarrow> Inl (OtherError ''outbound response is not json'') | Some value \<Rightarrow> Inr value)"

text \<open>A security error of the transport becomes \<open>ServiceUnavailable\<close>.\<close>

definition unavailable :: "string \<Rightarrow> 'a res \<Rightarrow> 'a res" where
  "unavailable message r = (case r of Inl e \<Rightarrow> Inl (ServiceUnavailable message) | Inr x \<Rightarrow> Inr x)"

section \<open>Requests and results\<close>

record engine_input =
  en_candidateId :: string
  en_candidateName :: string
  en_examId :: string
  en_providerSessionId :: "string option"
  en_documentCaptured :: bool
  en_faceImageCaptured :: bool
  en_livenessConfirmed :: bool
  en_documentUploadRef :: "string option"
  en_faceUploadRef :: "string option"

datatype kyc_request =
    SessionRequest (kq_key: string) (kq_candidate: "string \<times> string") (kq_exam: string)
  | VerifyRequest (kq_key: string) (kq_input: engine_input)

record engine_result =
  eg_documentAuthenticityScore :: rat
  eg_faceMatchScore :: rat
  eg_livenessScore :: rat
  eg_ocrNameMatched :: bool
  eg_verificationChecks :: "string list"
  eg_provider :: string
  eg_providerDecision :: kyc_decision
  eg_providerReferenceId :: string
  eg_failureReason :: "string option"

section \<open>Reading the answers\<close>

definition readUnknown :: "json \<Rightarrow> string \<Rightarrow> json option" where
  "readUnknown value key = (case value of JObj properties \<Rightarrow> map_of properties key | _ \<Rightarrow> None)"

definition readString :: "json \<Rightarrow> string \<Rightarrow> string option" where
  "readString value key = (case readUnknown value key of
       Some (JStr field) \<Rightarrow> if trim field \<noteq> [] then Some field else None | _ \<Rightarrow> None)"

definition requiredScore :: "json option \<Rightarrow> rat res" where
  "requiredScore score = (case score of
       Some (JNum q) \<Rightarrow> if q < 0 \<or> q > 100 then Inl (ServiceUnavailable ''kyc score'') else Inr q
     | _ \<Rightarrow> Inl (ServiceUnavailable ''kyc score''))"

definition requiredDecision :: "json option \<Rightarrow> kyc_decision res" where
  "requiredDecision decision =
     (if decision = Some (JStr ''VERIFIED'') then Inr KYC_VERIFIED
      else if decision = Some (JStr ''REJECTED'') then Inr KYC_REJECTED
      else if decision = Some (JStr ''REVIEW_REQUIRED'') then Inr KYC_REVIEW_REQUIRED
      else Inl (ServiceUnavailable ''kyc decision''))"

definition requiredString :: "json option \<Rightarrow> nat \<Rightarrow> string res" where
  "requiredString value maxLength = (case value of
       Some (JStr s) \<Rightarrow> if trim s \<noteq> [] \<and> length s \<le> maxLength then Inr (trim s) else Inl (ServiceUnavailable ''kyc text'')
     | _ \<Rightarrow> Inl (ServiceUnavailable ''kyc text''))"

definition normalizeChecks :: "json option \<Rightarrow> string list" where
  "normalizeChecks checks = (case checks of
       Some (JArr values) \<Rightarrow> take 20 (concat (map (\<lambda>v. case v of JStr s \<Rightarrow> if length s \<le> 200 then [s] else [] | _ \<Rightarrow> []) values))
     | _ \<Rightarrow> [])"

definition sanitizedFailureReason :: "json option \<Rightarrow> string option" where
  "sanitizedFailureReason failureReason = (case failureReason of
       Some (JStr s) \<Rightarrow> if trim s \<noteq> [] then Some ''The KYC provider refused the identity.'' else None | _ \<Rightarrow> None)"

definition provider_name :: "json \<Rightarrow> string" where
  "provider_name value = (case readString value ''provider'' of Some p \<Rightarrow> take 64 p | None \<Rightarrow> ''kyc-sandbox'')"

text \<open>\<open>parseProviderResponse\<close> and \<open>normalizeProviderResult\<close>, in the order the fields are read.\<close>

definition normalizeProviderResult :: "json \<Rightarrow> engine_result res" where
  "normalizeProviderResult value =
     bindR (requiredScore (readUnknown value ''documentAuthenticityScore'')) (\<lambda>documentAuthenticityScore.
     bindR (requiredScore (readUnknown value ''faceMatchScore'')) (\<lambda>faceMatchScore.
     bindR (requiredScore (readUnknown value ''livenessScore'')) (\<lambda>livenessScore.
     bindR (requiredDecision (readUnknown value ''providerDecision'')) (\<lambda>providerDecision.
     bindR (requiredString (readUnknown value ''providerReferenceId'') 256) (\<lambda>providerReferenceId.
     Inr \<lparr>eg_documentAuthenticityScore = documentAuthenticityScore, eg_faceMatchScore = faceMatchScore,
       eg_livenessScore = livenessScore, eg_ocrNameMatched = (readUnknown value ''ocrNameMatched'' = Some (JBool True)),
       eg_verificationChecks = normalizeChecks (readUnknown value ''verificationChecks''), eg_provider = provider_name value,
       eg_providerDecision = providerDecision, eg_providerReferenceId = providerReferenceId,
       eg_failureReason = sanitizedFailureReason (readUnknown value ''failureReason'')\<rparr>)))))"

definition normalizeSession :: "'q network \<Rightarrow> json \<Rightarrow> provider_session res" where
  "normalizeSession nw value =
     bindR (requiredString (readUnknown value ''providerSessionId'') 256) (\<lambda>providerSessionId.
     bindR (requiredString (readUnknown value ''documentUploadRef'') 256) (\<lambda>documentUploadRef.
     bindR (requiredString (readUnknown value ''faceUploadRef'') 256) (\<lambda>faceUploadRef.
     bindR (requiredString (readUnknown value ''expiresAt'') 64) (\<lambda>expiresAt.
     if nw_parseDate nw expiresAt = None then Inl (ServiceUnavailable ''kyc expiry'')
     else Inr \<lparr>ps_provider = provider_name value, ps_providerSessionId = providerSessionId, ps_documentUploadRef = documentUploadRef,
       ps_faceUploadRef = faceUploadRef, ps_expiresAt = expiresAt\<rparr>))))"

section \<open>The service\<close>

definition callProvider :: "kyc_request network \<Rightarrow> env \<Rightarrow> kyc_request \<Rightarrow> string \<Rightarrow> http_response res" where
  "callProvider nw env request address =
     unavailable ''kyc provider unreachable''
       (secureOutboundFetch (nw_parseUrl nw) (nw_lookup nw) (nw_isIP nw) (nw_check nw) (nw_fetch nw request) env address)"

definition readProviderJson :: "kyc_request network \<Rightarrow> http_response \<Rightarrow> json res" where
  "readProviderJson nw response = unavailable ''kyc provider answer'' (readBoundedJson nw response)"

definition createProviderSession :: "kyc_request network \<Rightarrow> env \<Rightarrow> string \<Rightarrow> string \<Rightarrow> string \<Rightarrow> provider_session res" where
  "createProviderSession nw env candidateId candidateName examId =
     bindR (providerBaseUrl (nw_parseUrl nw) (nw_isIP nw) env) (\<lambda>baseUrl.
     if \<not> truthy (env ''KYC_SANDBOX_API_KEY'') then Inl (ServiceUnavailable ''kyc key missing'')
     else bindR (callProvider nw env (SessionRequest (the (env ''KYC_SANDBOX_API_KEY'')) (candidateId, candidateName) examId)
            (baseUrl @ ''/identity/sessions'')) (\<lambda>response.
          if \<not> hr_ok response then Inl (ServiceUnavailable ''kyc session call failed'')
          else bindR (readProviderJson nw response) (\<lambda>value. normalizeSession nw value)))"

definition verifyIdentity :: "kyc_request network \<Rightarrow> env \<Rightarrow> engine_input \<Rightarrow> engine_result res" where
  "verifyIdentity nw env input =
     bindR (providerBaseUrl (nw_parseUrl nw) (nw_isIP nw) env) (\<lambda>baseUrl.
     if \<not> truthy (env ''KYC_SANDBOX_API_KEY'') then Inl (ServiceUnavailable ''kyc key missing'')
     else bindR (rejectUnsafeUploadReference (en_documentUploadRef input) ''documentUploadRef'') (\<lambda>_.
          bindR (rejectUnsafeUploadReference (en_faceUploadRef input) ''faceUploadRef'') (\<lambda>_.
          bindR (callProvider nw env (VerifyRequest (the (env ''KYC_SANDBOX_API_KEY'')) input) (baseUrl @ ''/identity/verify'')) (\<lambda>response.
          if \<not> hr_ok response then Inl (ServiceUnavailable ''kyc call failed'')
          else bindR (readProviderJson nw response) (\<lambda>value. normalizeProviderResult value)))))"

section \<open>What an answer can be\<close>

text \<open>A result that the service returns is well-formed, whatever the provider answered.\<close>

definition result_wf :: "engine_result \<Rightarrow> bool" where
  "result_wf r \<longleftrightarrow> 0 \<le> eg_documentAuthenticityScore r \<and> eg_documentAuthenticityScore r \<le> 100 \<and>
     0 \<le> eg_faceMatchScore r \<and> eg_faceMatchScore r \<le> 100 \<and> 0 \<le> eg_livenessScore r \<and> eg_livenessScore r \<le> 100 \<and>
     length (eg_verificationChecks r) \<le> 20 \<and> (\<forall>check \<in> set (eg_verificationChecks r). length check \<le> 200) \<and>
     length (eg_provider r) \<le> 64 \<and> eg_providerReferenceId r \<noteq> [] \<and> length (eg_providerReferenceId r) \<le> 256"

lemma requiredScore_Inr: "requiredScore score = Inr q \<longleftrightarrow> score = Some (JNum q) \<and> 0 \<le> q \<and> q \<le> 100"
  by (auto simp: requiredScore_def split: option.splits json.splits)

lemma requiredString_Inr:
  "requiredString value n = Inr t \<Longrightarrow> t \<noteq> [] \<and> length t \<le> n"
  by (auto simp: requiredString_def split: option.splits json.splits if_splits intro: order_trans [OF length_trim_le])

lemma normalizeChecks_wf: "length (normalizeChecks checks) \<le> 20" "check \<in> set (normalizeChecks checks) \<Longrightarrow> length check \<le> 200"
  by (auto simp: normalizeChecks_def split: option.splits json.splits if_splits dest!: in_set_takeD)

lemma normalized_wf: "normalizeProviderResult value = Inr r \<Longrightarrow> result_wf r"
  using normalizeChecks_wf
  by (auto simp: normalizeProviderResult_def bindR_eq_Inr result_wf_def requiredScore_Inr provider_name_def dest!: requiredString_Inr
      split: option.splits)

lemma verifyIdentity_InrD:
  assumes "verifyIdentity nw env input = Inr r"
  obtains baseUrl response answer where "providerBaseUrl (nw_parseUrl nw) (nw_isIP nw) env = Inr baseUrl" and "truthy (env ''KYC_SANDBOX_API_KEY'')"
    and "callProvider nw env (VerifyRequest (the (env ''KYC_SANDBOX_API_KEY'')) input) (baseUrl @ ''/identity/verify'') = Inr response"
    and "hr_ok response" and "readProviderJson nw response = Inr answer" and "normalizeProviderResult answer = Inr r"
  using assms by (auto simp: verifyIdentity_def bindR_eq_Inr split: if_splits)

text \<open>A session that the service returns, likewise.\<close>

definition session_wf :: "(string \<Rightarrow> time option) \<Rightarrow> provider_session \<Rightarrow> bool" where
  "session_wf parseDate session \<longleftrightarrow>
     ps_providerSessionId session \<noteq> [] \<and> length (ps_providerSessionId session) \<le> 256 \<and>
     ps_documentUploadRef session \<noteq> [] \<and> length (ps_documentUploadRef session) \<le> 256 \<and>
     ps_faceUploadRef session \<noteq> [] \<and> length (ps_faceUploadRef session) \<le> 256 \<and>
     length (ps_expiresAt session) \<le> 64 \<and> parseDate (ps_expiresAt session) \<noteq> None \<and> length (ps_provider session) \<le> 64"

lemma normalizeSession_wf: "normalizeSession nw answer = Inr session \<Longrightarrow> session_wf (nw_parseDate nw) session"
  by (auto simp: normalizeSession_def session_wf_def bindR_eq_Inr provider_name_def dest!: requiredString_Inr split: if_splits option.splits)

section \<open>What is asked of the network\<close>

text \<open>The network as it answers the requests \<open>asked\<close>, with any answers to all others: an operation that gives the same result over both
  made no request but these.\<close>

definition answering_elsewhere :: "'q network \<Rightarrow> ('q \<Rightarrow> url \<Rightarrow> bool) \<Rightarrow> ('q \<Rightarrow> url \<Rightarrow> http_response option) \<Rightarrow> 'q network" where
  "answering_elsewhere nw asked f = nw\<lparr>nw_fetch := (\<lambda>q u. if asked q u then nw_fetch nw q u else f q u)\<rparr>"

text \<open>The address of a route of the provider: below the configured address, which is encrypted and not an address literal, or the own
  host outside production; there is none without a key.\<close>

definition provider_address :: "'q network \<Rightarrow> env \<Rightarrow> string \<Rightarrow> url \<Rightarrow> bool" where
  "provider_address nw env route u \<longleftrightarrow> truthy (env ''KYC_SANDBOX_API_KEY'') \<and>
     (\<exists>configured base. env ''KYC_SANDBOX_API_BASE_URL'' = Some configured \<and> nw_parseUrl nw configured = Some base \<and>
       (if isLoopbackHostname (url_hostname base) then \<not> is_production env
        else url_protocol base = ''https:'' \<and> \<not> isIpLiteral (nw_isIP nw) (url_hostname base)) \<and>
       nw_parseUrl nw (strip_slash (url_text base) @ route) = Some u)"

lemma answering_elsewhere_sel [simp]:
  "nw_parseUrl (answering_elsewhere nw asked f) = nw_parseUrl nw" "nw_lookup (answering_elsewhere nw asked f) = nw_lookup nw"
  "nw_isIP (answering_elsewhere nw asked f) = nw_isIP nw" "nw_check (answering_elsewhere nw asked f) = nw_check nw"
  "nw_json (answering_elsewhere nw asked f) = nw_json nw" "nw_parseDate (answering_elsewhere nw asked f) = nw_parseDate nw"
  "nw_fetch (answering_elsewhere nw asked f) = (\<lambda>q u. if asked q u then nw_fetch nw q u else f q u)"
  by (simp_all add: answering_elsewhere_def)

lemma same_readers [simp]:
  "readProviderJson (answering_elsewhere nw asked f) = readProviderJson nw"
  "normalizeSession (answering_elsewhere nw asked f) = normalizeSession nw"
  by (simp_all add: fun_eq_iff readProviderJson_def readBoundedJson_def normalizeSession_def)

lemma callProvider_asks:
  assumes "\<And>u. nw_parseUrl nw address = Some u \<Longrightarrow> asked request u"
  shows "callProvider (answering_elsewhere nw asked f) env request address = callProvider nw env request address"
  using assms by (auto simp: callProvider_def secureOutboundFetch_def parseSafeOutboundUrl_def bindR_def Let_def split: option.splits sum.splits if_splits)

lemma base_is_configured:
  assumes "providerBaseUrl (nw_parseUrl nw) (nw_isIP nw) env = Inr baseUrl" and "truthy (env ''KYC_SANDBOX_API_KEY'')"
    and "nw_parseUrl nw (baseUrl @ route) = Some u"
  shows "provider_address nw env route u"
proof -
  from assms(1) obtain configured base where "env ''KYC_SANDBOX_API_BASE_URL'' = Some configured" "nw_parseUrl nw configured = Some base"
    "isAllowedProviderUrl (nw_isIP nw) env base" "baseUrl = strip_slash (url_text base)"
    by (cases "env ''KYC_SANDBOX_API_BASE_URL''") (auto simp: providerBaseUrl_def split: if_splits option.splits)
  with assms(2,3) show ?thesis
    unfolding provider_address_def by (intro conjI exI [of _ configured] exI [of _ base]) (simp_all add: isAllowedProviderUrl_def split: if_splits)
qed

lemma verifyIdentity_asks:
  assumes "\<And>u. provider_address nw env ''/identity/verify'' u \<Longrightarrow> asked (VerifyRequest (the (env ''KYC_SANDBOX_API_KEY'')) input) u"
  shows "verifyIdentity (answering_elsewhere nw asked f) env input = verifyIdentity nw env input"
proof (cases "providerBaseUrl (nw_parseUrl nw) (nw_isIP nw) env")
  case (Inr baseUrl)
  show ?thesis
  proof (cases "truthy (env ''KYC_SANDBOX_API_KEY'')")
    case True
    note call = callProvider_asks [of nw "baseUrl @ ''/identity/verify''" asked, OF assms, OF base_is_configured [OF Inr True]]
    show ?thesis by (simp add: verifyIdentity_def call [where f = f] Inr True cong: if_cong)
  qed (simp add: verifyIdentity_def)
qed (simp add: verifyIdentity_def bindR_def)

lemma createProviderSession_asks:
  assumes "\<And>u. provider_address nw env ''/identity/sessions'' u \<Longrightarrow>
    asked (SessionRequest (the (env ''KYC_SANDBOX_API_KEY'')) (candidateId, candidateName) examId) u"
  shows "createProviderSession (answering_elsewhere nw asked f) env candidateId candidateName examId =
    createProviderSession nw env candidateId candidateName examId"
proof (cases "providerBaseUrl (nw_parseUrl nw) (nw_isIP nw) env")
  case (Inr baseUrl)
  show ?thesis
  proof (cases "truthy (env ''KYC_SANDBOX_API_KEY'')")
    case True
    note call = callProvider_asks [of nw "baseUrl @ ''/identity/sessions''" asked, OF assms, OF base_is_configured [OF Inr True]]
    show ?thesis by (simp add: createProviderSession_def call [where f = f] Inr True cong: if_cong)
  qed (simp add: createProviderSession_def)
qed (simp add: createProviderSession_def bindR_def)

text \<open>C38. Whatever JSON the provider answers, what reaches the callers is well-formed: scores within 0 and 100, at most
  twenty check names of at most 200 characters, a provider name of at most 64, non-empty references of at most 256, a
  readable expiry of at most 64. And whether they succeed or not, the two operations ask nothing but the one request each
  makes, with the configured key, at the route below the configured and allowed address: their results do not
  depend on what the network answers to anything else.\<close>

theorem provider_results_are_well_formed:
  "(case verifyIdentity nw env input of Inl _ \<Rightarrow> True | Inr r \<Rightarrow> result_wf r) \<and>
   verifyIdentity (answering_elsewhere nw (\<lambda>q u. q = VerifyRequest (the (env ''KYC_SANDBOX_API_KEY'')) input \<and>
     provider_address nw env ''/identity/verify'' u) other) env input = verifyIdentity nw env input \<and>
   (case createProviderSession nw env candidateId candidateName examId of Inl _ \<Rightarrow> True
    | Inr session \<Rightarrow> session_wf (nw_parseDate nw) session) \<and>
   createProviderSession (answering_elsewhere nw (\<lambda>q u. q = SessionRequest (the (env ''KYC_SANDBOX_API_KEY'')) (candidateId, candidateName) examId \<and>
     provider_address nw env ''/identity/sessions'' u) other) env candidateId candidateName examId =
     createProviderSession nw env candidateId candidateName examId"
proof (intro conjI)
  show "case verifyIdentity nw env input of Inl _ \<Rightarrow> True | Inr r \<Rightarrow> result_wf r"
    using normalized_wf by (auto split: sum.split elim!: verifyIdentity_InrD)
  show "case createProviderSession nw env candidateId candidateName examId of Inl _ \<Rightarrow> True | Inr session \<Rightarrow> session_wf (nw_parseDate nw) session"
    using normalizeSession_wf by (auto simp: createProviderSession_def bindR_eq_Inr split: sum.split if_splits)
qed (rule verifyIdentity_asks createProviderSession_asks; simp)+

end
