(* ===== verification/IdentityEnvironment.thy ===== *)
theory IdentityEnvironment
  imports Workspace Kyc
begin

text \<open>
  The environment check with its evidence token (\<open>environment-check-evidence.ts\<close>) and the identity verification with
  the consent before it (\<open>platform-store.identity-environment.ts\<close>, \<open>platform-store.identity-session.ts\<close> and the
  methods of \<open>platform-store.service.ts\<close>). HMAC, \<open>toISOString\<close> and \<open>Date.parse\<close> are parameters.
\<close>

section \<open>Evidence tokens\<close>

record evidence =
  ev_hmac :: "string \<Rightarrow> string \<Rightarrow> string"
  ev_iso :: "time \<Rightarrow> string"
  ev_parse :: "string \<Rightarrow> time option"

definition ENVIRONMENT_CHECK_TTL_MS :: time where
  "ENVIRONMENT_CHECK_TTL_MS = 10 * 60 * 1000"

definition byteLength :: "string \<Rightarrow> nat" where
  "byteLength s = sum_list (map (\<lambda>ch. if cu ch < 128 then 1 else 2) s)"

definition environmentCheckSecret :: "env \<Rightarrow> string res" where
  "environmentCheckSecret env =
     (let configuredSecret = (case env ''ENVIRONMENT_CHECK_SECRET'' of Some secret \<Rightarrow> Some secret | None \<Rightarrow> env ''AUTH_SESSION_SECRET'')
      in if truthy configuredSecret \<and>
            (\<not> is_production env \<or> hasUsableConfigValue configuredSecret \<and> byteLength (the configuredSecret) \<ge> 32)
         then Inr (the configuredSecret)
         else if is_production env then Inl (ServiceUnavailable ''ENVIRONMENT_CHECK_SECRET'')
         else Inr ''dcvp-local-environment-check-secret'')"

definition signEnvironmentCheckSession :: "evidence \<Rightarrow> env \<Rightarrow> string \<Rightarrow> string \<Rightarrow> string \<Rightarrow> string res" where
  "signEnvironmentCheckSession ev env inviteToken sessionId expiresAt =
     bindR (environmentCheckSecret env) (\<lambda>secret.
       Inr (expiresAt @ ''|'' @ ev_hmac ev secret (inviteToken @ ''.'' @ sessionId @ ''.'' @ expiresAt)))"

definition readExpiresAtFromEvidenceToken :: "string \<Rightarrow> string option" where
  "readExpiresAtFromEvidenceToken evidenceToken = (case index_of CHR ''|'' evidenceToken of
       Some i \<Rightarrow> if i > 0 then Some (take i evidenceToken) else None | None \<Rightarrow> None)"

definition createEnvironmentCheckSession :: "evidence \<Rightarrow> 'd store_ctx \<Rightarrow> string \<Rightarrow> env_check_session res" where
  "createEnvironmentCheckSession ev c inviteToken =
     (let expiresAt = ev_iso ev (sc_now c + ENVIRONMENT_CHECK_TTL_MS); sessionId = createId c 0 ''envsession''
      in bindR (signEnvironmentCheckSession ev (sc_env c) inviteToken sessionId expiresAt) (\<lambda>evidenceToken.
        Inr \<lparr>es_sessionId = sessionId, es_evidenceToken = evidenceToken, es_expiresAt = expiresAt,
          es_requiredItems = [ITEM_BROWSER, ITEM_NETWORK, ITEM_CAMERA, ITEM_MICROPHONE, ITEM_SCREEN]\<rparr>))"

text \<open>\<open>NaN \<le> now\<close> is false: an expiry that is no date does not expire.\<close>

definition assertEnvironmentCheckSession :: "evidence \<Rightarrow> 'd store_ctx \<Rightarrow> string \<Rightarrow> string \<Rightarrow> string \<Rightarrow> unit res" where
  "assertEnvironmentCheckSession ev c inviteToken sessionId evidenceToken =
     (if sessionId = [] \<or> evidenceToken = [] then Inl (BadRequest ''Environment check session evidence is required.'')
      else (case readExpiresAtFromEvidenceToken evidenceToken of
          None \<Rightarrow> Inl (BadRequest ''Environment check session expired.'')
        | Some expiresAt \<Rightarrow>
            if (case ev_parse ev expiresAt of Some t \<Rightarrow> t \<le> sc_now c | None \<Rightarrow> False)
            then Inl (BadRequest ''Environment check session expired.'')
            else bindR (signEnvironmentCheckSession ev (sc_env c) inviteToken sessionId expiresAt) (\<lambda>expected.
              if evidenceToken \<noteq> expected then Inl (BadRequest ''Invalid environment check evidence token.'') else Inr ())))"

definition createCandidateEnvironmentCheckSession :: "evidence \<Rightarrow> 'd store_ctx \<Rightarrow> string \<Rightarrow> ('d store, env_check_session) act" where
  "createCandidateEnvironmentCheckSession ev c inviteToken =
     bindE (getCandidateInvite c inviteToken) (\<lambda>_. liftR (createEnvironmentCheckSession ev c inviteToken))"

section \<open>Environment checks\<close>

definition bool_text :: "bool \<Rightarrow> string" where
  "bool_text b = (if b then ''true'' else ''false'')"

definition browser_detail :: "browser_evidence \<Rightarrow> string" where
  "browser_detail e = ''secureContext='' @ bool_text (be_secureContext e) @ ''; checkedAt='' @ be_checkedAt e"

definition with_evidence :: "browser_evidence \<Rightarrow> env_check_result \<Rightarrow> env_check_result" where
  "with_evidence e result = (if er_id result = ITEM_BROWSER
     then result\<lparr>er_detail := Some (if truthy (er_detail result) then the (er_detail result) @ ''; '' @ browser_detail e else browser_detail e)\<rparr>
     else result)"

definition evidenced_results :: "env_check_input \<Rightarrow> env_check_result list" where
  "evidenced_results input = map (with_evidence (eci_browserEvidence input)) (normalizeEnvironmentResults (eci_results input))"

definition saveCandidateEnvironmentCheckInStore :: "'d store_ctx \<Rightarrow> candidate_invite \<Rightarrow> env_check_input \<Rightarrow> ('d store, environment_check) act" where
  "saveCandidateEnvironmentCheckInStore c invite input =
     (let resultsWithEvidence = evidenced_results input;
          storedResults = toEnvironmentCheckJson resultsWithEvidence;
          requiredPassed = didPassRequiredEnvironmentChecks resultsWithEvidence;
          check = \<lparr>ec_id = createId c 0 ''envcheck'', ec_candidateId = cand_id (ci_candidate invite), ec_examId = ex_id (ci_exam invite),
            ec_results = resultsWithEvidence, ec_requiredPassed = requiredPassed, ec_createdAt = sc_now c\<rparr>
      in with_fallback
        (storeDatabase c (mapped mapEnvironmentCheck (t_create (sc_environmentChecks c)
           \<lparr>ekr_id = createId c 0 ''envcheck'', ekr_candidateId = cand_id (ci_candidate invite), ekr_examId = ex_id (ci_exam invite),
            ekr_results = JArr storedResults, ekr_requiredPassed = requiredPassed, ekr_createdAt = sc_now c\<rparr>)))
        (bindE (set_memory (mm_environmentChecks_update (\<lambda>checks. check # checks))) (\<lambda>_. ret check)))"

definition saveCandidateEnvironmentCheck :: "evidence \<Rightarrow> 'd store_ctx \<Rightarrow> string \<Rightarrow> env_check_input \<Rightarrow> ('d store, environment_check) act" where
  "saveCandidateEnvironmentCheck ev c inviteToken input =
     bindE (getCandidateInvite c inviteToken) (\<lambda>invite.
     bindE (liftR (assertEnvironmentCheckSession ev c inviteToken (eci_sessionId input) (eci_evidenceToken input))) (\<lambda>_.
     saveCandidateEnvironmentCheckInStore c invite input))"

section \<open>Identity\<close>

definition documentCaptureMarker :: string where "documentCaptureMarker = ''document-capture-confirmed''"
definition minimumDocumentAuthenticityScore :: rat where "minimumDocumentAuthenticityScore = 85"
definition minimumFaceMatchScore :: rat where "minimumFaceMatchScore = 80"
definition minimumLivenessScore :: rat where "minimumLivenessScore = 80"
definition requiredIdentityVerificationChecks :: "string list" where
  "requiredIdentityVerificationChecks = [''DOCUMENT_AUTHENTICITY'', ''FACE_MATCH'', ''LIVENESS'', ''OCR_NAME_MATCH'']"

definition rejectRawIdentityMedia :: "identity_input \<Rightarrow> unit res" where
  "rejectRawIdentityMedia input = (if truthy (idi_documentImageName input) then Inl (BadRequest ''raw identity media'') else Inr ())"

definition didPassIdentityProviderChecks :: "engine_result \<Rightarrow> bool" where
  "didPassIdentityProviderChecks r \<longleftrightarrow> eg_providerDecision r = KYC_VERIFIED \<and>
     eg_documentAuthenticityScore r \<ge> minimumDocumentAuthenticityScore \<and> eg_faceMatchScore r \<ge> minimumFaceMatchScore \<and>
     eg_livenessScore r \<ge> minimumLivenessScore \<and> eg_ocrNameMatched r \<and>
     list_all (\<lambda>check. check \<in> set (eg_verificationChecks r)) requiredIdentityVerificationChecks"

definition identityFailureReason :: "engine_result \<Rightarrow> string" where
  "identityFailureReason r = (if eg_providerDecision r \<noteq> KYC_VERIFIED then ''The KYC provider did not approve the identity.''
     else ''The scores of the KYC provider are too low.'')"

definition identity_preconditions :: "candidate_invite \<Rightarrow> identity_input \<Rightarrow> unit res" where
  "identity_preconditions invite input =
     (if \<not> ex_identityVerificationEnabled (ci_exam invite) then Inl (BadRequest ''identity verification is disabled'')
      else if cand_identityPrivacyConsentVersion (ci_candidate invite) \<noteq> Some CURRENT_PRIVACY_POLICY_VERSION \<or>
        cand_identityPrivacyConsentAcceptedAt (ci_candidate invite) = None
      then Inl (BadRequest ''identity consent is required'')
      else bindR (rejectRawIdentityMedia input) (\<lambda>_.
        if \<not> truthy (idi_providerSessionId input) \<or> \<not> truthy (idi_documentUploadRef input) \<or> \<not> truthy (idi_faceUploadRef input)
        then Inl (BadRequest ''upload references are required'')
        else if \<not> idi_documentCaptured input \<or> \<not> idi_faceImageCaptured input \<or> \<not> idi_livenessConfirmed input
        then Inl (BadRequest ''captures are required'')
        else Inr ()))"

definition engine_request :: "candidate_invite \<Rightarrow> identity_input \<Rightarrow> engine_input" where
  "engine_request invite input = \<lparr>en_candidateId = cand_id (ci_candidate invite), en_candidateName = cand_name (ci_candidate invite),
     en_examId = ex_id (ci_exam invite), en_providerSessionId = idi_providerSessionId input, en_documentCaptured = idi_documentCaptured input,
     en_faceImageCaptured = idi_faceImageCaptured input, en_livenessConfirmed = idi_livenessConfirmed input,
     en_documentUploadRef = idi_documentUploadRef input, en_faceUploadRef = idi_faceUploadRef input\<rparr>"

fun decision_text :: "kyc_decision \<Rightarrow> string" where
  "decision_text KYC_VERIFIED = ''VERIFIED''"
| "decision_text KYC_REJECTED = ''REJECTED''"
| "decision_text KYC_REVIEW_REQUIRED = ''REVIEW_REQUIRED''"

text \<open>The row of a verification; its mapping is the verification kept in memory.\<close>

definition verification_row :: "'d store_ctx \<Rightarrow> candidate_invite \<Rightarrow> identity_input \<Rightarrow> engine_result \<Rightarrow> identity_row" where
  "verification_row c invite input r =
     (let status = (if didPassIdentityProviderChecks r then ID_VERIFIED else ID_FAILED)
      in \<lparr>idr_id = createId c 0 ''identity'', idr_candidateId = cand_id (ci_candidate invite), idr_examId = ex_id (ci_exam invite),
          idr_documentImageName = documentCaptureMarker, idr_documentCaptureConfirmed = True,
          idr_faceImageCaptured = idi_faceImageCaptured input, idr_provider = eg_provider r,
          idr_providerDecision = decision_text (eg_providerDecision r), idr_providerReferenceId = eg_providerReferenceId r,
          idr_failureReason = (if status = ID_VERIFIED then None else Some (identityFailureReason r)),
          idr_similarityScore = eg_faceMatchScore r, idr_documentAuthenticityScore = eg_documentAuthenticityScore r,
          idr_faceMatchScore = eg_faceMatchScore r, idr_livenessScore = eg_livenessScore r, idr_ocrNameMatched = eg_ocrNameMatched r,
          idr_verificationChecks = eg_verificationChecks r, idr_privacyConsentVersion = Some CURRENT_PRIVACY_POLICY_VERSION,
          idr_privacyConsentAcceptedAt = cand_identityPrivacyConsentAcceptedAt (ci_candidate invite), idr_status = status,
          idr_verifiedAt = (if status = ID_VERIFIED then Some (sc_now c) else None), idr_createdAt = sc_now c\<rparr>)"

definition memory_verification :: "'d store_ctx \<Rightarrow> candidate_invite \<Rightarrow> identity_input \<Rightarrow> engine_result \<Rightarrow> identity_verification" where
  "memory_verification c invite input r =
     (let status = (if didPassIdentityProviderChecks r then ID_VERIFIED else ID_FAILED)
      in \<lparr>iv_id = createId c 0 ''identity'', iv_candidateId = cand_id (ci_candidate invite), iv_examId = ex_id (ci_exam invite),
          iv_documentCaptureConfirmed = True, iv_documentImageName = documentCaptureMarker,
          iv_faceImageCaptured = idi_faceImageCaptured input, iv_provider = eg_provider r, iv_providerDecision = eg_providerDecision r,
          iv_providerReferenceId = eg_providerReferenceId r,
          iv_failureReason = (if status = ID_VERIFIED then None else Some (identityFailureReason r)),
          iv_similarityScore = eg_faceMatchScore r, iv_documentAuthenticityScore = eg_documentAuthenticityScore r,
          iv_faceMatchScore = eg_faceMatchScore r, iv_livenessScore = eg_livenessScore r, iv_ocrNameMatched = eg_ocrNameMatched r,
          iv_verificationChecks = eg_verificationChecks r, iv_privacyConsentVersion = Some CURRENT_PRIVACY_POLICY_VERSION,
          iv_privacyConsentAcceptedAt = cand_identityPrivacyConsentAcceptedAt (ci_candidate invite), iv_status = status,
          iv_verifiedAt = (if status = ID_VERIFIED then Some (sc_now c) else None), iv_createdAt = sc_now c\<rparr>)"

definition verifyCandidateIdentityInStore ::
  "kyc_request network \<Rightarrow> 'd store_ctx \<Rightarrow> candidate_invite \<Rightarrow> identity_input \<Rightarrow> ('d store, identity_verification) act" where
  "verifyCandidateIdentityInStore nw c invite input =
     bindE (liftR (identity_preconditions invite input)) (\<lambda>_.
     bindE (liftR (verifyIdentity nw (sc_env c) (engine_request invite input))) (\<lambda>engineResult.
     with_fallback
       (storeDatabase c (mapped mapIdentityVerification
          (t_create (sc_identityVerifications c) (verification_row c invite input engineResult))))
       (bindE (set_memory (mm_identityVerifications_update (\<lambda>vs. memory_verification c invite input engineResult # vs))) (\<lambda>_.
        ret (memory_verification c invite input engineResult)))))"

definition verifyCandidateIdentity ::
  "kyc_request network \<Rightarrow> 'd store_ctx \<Rightarrow> string \<Rightarrow> identity_input \<Rightarrow> ('d store, identity_verification) act" where
  "verifyCandidateIdentity nw c inviteToken input =
     bindE (getCandidateInvite c inviteToken) (\<lambda>invite. verifyCandidateIdentityInStore nw c invite input)"

section \<open>Consent\<close>

definition assertIdentityPrivacyConsent :: "consent_input option \<Rightarrow> unit res" where
  "assertIdentityPrivacyConsent input = (case input of
       Some i \<Rightarrow> if \<not> coi_privacyConsentAccepted i \<or> coi_privacyPolicyVersion i \<noteq> CURRENT_PRIVACY_POLICY_VERSION
         then Inl (BadRequest ''identity consent is required'') else Inr ()
     | None \<Rightarrow> Inl (BadRequest ''identity consent is required''))"

definition set_consent :: "'d store_ctx \<Rightarrow> candidate \<Rightarrow> candidate" where
  "set_consent c candidate = candidate\<lparr>cand_identityPrivacyConsentVersion := Some CURRENT_PRIVACY_POLICY_VERSION,
     cand_identityPrivacyConsentAcceptedAt := Some (sc_now c)\<rparr>"

definition createCandidateIdentitySessionInStore :: "kyc_request network \<Rightarrow> env \<Rightarrow> candidate_invite \<Rightarrow> provider_session res" where
  "createCandidateIdentitySessionInStore nw env invite =
     (if \<not> ex_identityVerificationEnabled (ci_exam invite) then Inl (BadRequest ''identity verification is disabled'')
      else createProviderSession nw env (cand_id (ci_candidate invite)) (cand_name (ci_candidate invite)) (ex_id (ci_exam invite)))"

definition createCandidateIdentitySession ::
  "kyc_request network \<Rightarrow> 'd store_ctx \<Rightarrow> string \<Rightarrow> consent_input option \<Rightarrow> ('d store, provider_session) act" where
  "createCandidateIdentitySession nw c inviteToken input =
     bindE (liftR (assertIdentityPrivacyConsent input)) (\<lambda>_.
     bindE (getCandidateInvite c inviteToken) (\<lambda>invite.
     bindE (with_fallback
        (storeDatabase c (bindE (t_update (sc_candidates c) (\<lambda>p. cand_id p = cand_id (ci_candidate invite)) (set_consent c)) (\<lambda>_. ret ())))
        (set_memory (mm_candidates_update (replace_where (\<lambda>p. cand_id p = cand_id (ci_candidate invite)) (set_consent c))))) (\<lambda>_.
     liftR (createCandidateIdentitySessionInStore nw (sc_env c) invite))))"

section \<open>What the evidence is worth\<close>

lemma evidence_parts:
  assumes "CHR ''|'' \<notin> set t" and "t \<noteq> []"
  shows "readExpiresAtFromEvidenceToken (t @ ''|'' @ digest) = Some t"
  using assms index_of_append [OF assms(1), of digest] by (simp add: readExpiresAtFromEvidenceToken_def)

lemma created_session:
  assumes "createEnvironmentCheckSession ev c inviteToken = Inr session"
  obtains secret where "environmentCheckSecret (sc_env c) = Inr secret"
    and "es_sessionId session = createId c 0 ''envsession''" and "es_expiresAt session = ev_iso ev (sc_now c + ENVIRONMENT_CHECK_TTL_MS)"
    and "es_evidenceToken session = es_expiresAt session @ ''|'' @
      ev_hmac ev secret (inviteToken @ ''.'' @ es_sessionId session @ ''.'' @ es_expiresAt session)"
  using assms by (auto simp: createEnvironmentCheckSession_def signEnvironmentCheckSession_def Let_def bindR_eq_Inr)

lemma evidence_accepted:
  assumes "ev_parse ev expiresAt = Some t" and "CHR ''|'' \<notin> set expiresAt" and "expiresAt \<noteq> []"
    and "environmentCheckSecret (sc_env c) = Inr secret" and "sessionId \<noteq> []"
  shows "(assertEnvironmentCheckSession ev c inviteToken sessionId (expiresAt @ ''|'' @ digest) = Inr ()) =
    (sc_now c < t \<and> digest = ev_hmac ev secret (inviteToken @ ''.'' @ sessionId @ ''.'' @ expiresAt))"
  using assms evidence_parts [OF assms(2,3), of digest]
  by (auto simp: assertEnvironmentCheckSession_def signEnvironmentCheckSession_def split: if_splits)

text \<open>The evidence of a session is accepted again for the same invite and session for exactly ten minutes; for another
  invite or session it is accepted only if the two signed texts have the same HMAC.\<close>

theorem evidence_lasts_ten_minutes:
  assumes "\<And>t. ev_parse ev (ev_iso ev t) = Some t" and "\<And>t. CHR ''|'' \<notin> set (ev_iso ev t) \<and> ev_iso ev t \<noteq> []"
    and "createEnvironmentCheckSession ev c inviteToken = Inr session" and "sessionId \<noteq> []"
  shows "(assertEnvironmentCheckSession ev (c\<lparr>sc_now := later\<rparr>) inviteToken (es_sessionId session) (es_evidenceToken session) = Inr ()) =
      (later < sc_now c + 600000) \<and>
    (assertEnvironmentCheckSession ev (c\<lparr>sc_now := later\<rparr>) otherToken sessionId (es_evidenceToken session) = Inr () \<longrightarrow>
      later < sc_now c + 600000 \<and>
      (\<exists>secret. environmentCheckSecret (sc_env c) = Inr secret \<and>
         ev_hmac ev secret (otherToken @ ''.'' @ sessionId @ ''.'' @ es_expiresAt session) =
         ev_hmac ev secret (inviteToken @ ''.'' @ es_sessionId session @ ''.'' @ es_expiresAt session)))"
proof -
  obtain secret where secret: "environmentCheckSecret (sc_env c) = Inr secret"
    and sid: "es_sessionId session = createId c 0 ''envsession''" and expires: "es_expiresAt session = ev_iso ev (sc_now c + ENVIRONMENT_CHECK_TTL_MS)"
    and token: "es_evidenceToken session = es_expiresAt session @ ''|'' @
      ev_hmac ev secret (inviteToken @ ''.'' @ es_sessionId session @ ''.'' @ es_expiresAt session)"
    by (rule created_session [OF assms(3)])
  have asserted: "(assertEnvironmentCheckSession ev (c\<lparr>sc_now := later\<rparr>) T i (es_evidenceToken session) = Inr ()) =
      (later < sc_now c + 600000 \<and> ev_hmac ev secret (inviteToken @ ''.'' @ es_sessionId session @ ''.'' @ es_expiresAt session) =
         ev_hmac ev secret (T @ ''.'' @ i @ ''.'' @ es_expiresAt session))"
    if "i \<noteq> []" for T i
    unfolding token using assms(1,2) secret that
    by (subst evidence_accepted [where t = "sc_now c + 600000" and secret = secret]) (auto simp: expires ENVIRONMENT_CHECK_TTL_MS_def)
  have nonempty: "es_sessionId session \<noteq> []" by (simp add: sid createId_def)
  show ?thesis unfolding asserted [OF nonempty] asserted [OF assms(4)] using secret by auto
qed

section \<open>What a check records\<close>

lemma results_read_back: "normalizeEnvironmentResults (toEnvironmentCheckJson results) = results"
  by (rule environment_json_reads_back)

lemma environment_passes_iff:
  "didPassRequiredEnvironmentChecks rs \<longleftrightarrow>
     (\<forall>item. \<exists>result. List.find (\<lambda>r. er_id r = item) rs = Some result \<and> er_status result \<in> {ENV_PASSED, ENV_WARNING})"
proof -
  have "item \<in> set environmentCheckItemIds" for item by (cases item) (simp_all add: environmentCheckItemIds_def)
  then have all: "set environmentCheckItemIds = UNIV" by blast
  show ?thesis unfolding didPassRequiredEnvironmentChecks_def list_all_iff all
    by (simp add: option.case_eq_if) (metis (no_types, lifting) option.collapse option.sel option.simps(3))
qed

text \<open>An environment check is saved only with accepted evidence; what is stored as JSON reads back as the results with
  the browser's evidence, in the database as in memory, and it passes exactly if each of the five items is in its
  results, the first time as passed or with a warning.\<close>

theorem environment_check_needs_evidence:
  assumes "good_tables c content" and "saveCandidateEnvironmentCheck ev c inviteToken input s = (Inr check, s')"
  shows "assertEnvironmentCheckSession ev c inviteToken (eci_sessionId input) (eci_evidenceToken input) = Inr () \<and>
    ec_results check = evidenced_results input \<and>
    ec_requiredPassed check = (\<forall>item. \<exists>result. List.find (\<lambda>r. er_id r = item) (evidenced_results input) = Some result \<and>
        er_status result \<in> {ENV_PASSED, ENV_WARNING}) \<and>
    (\<exists>invite. invite_of_token inviteToken invite \<and> ec_candidateId check = cand_id (ci_candidate invite))"
proof -
  from assms(2) obtain invite0 s1 where invite0: "getCandidateInviteForInternalUse c inviteToken s = (Inr invite0, s1)"
    and ok: "assertEnvironmentCheckSession ev c inviteToken (eci_sessionId input) (eci_evidenceToken input) = Inr ()"
    and save: "saveCandidateEnvironmentCheckInStore c (toPublicCandidateInvite invite0) input s1 = (Inr check, s')"
    by (auto simp: saveCandidateEnvironmentCheck_def getCandidateInvite_def store_Inr)
  have own: "invite_of_token inviteToken invite0"
    using invite0 snapshot_of_token [OF assms(1)] by (auto simp: getCandidateInviteForInternalUse_def store_Inr)
  have "ec_results check = evidenced_results input \<and> ec_requiredPassed check = didPassRequiredEnvironmentChecks (evidenced_results input) \<and>
      ec_candidateId check = cand_id (ci_candidate invite0)"
    using save [unfolded saveCandidateEnvironmentCheckInStore_def Let_def]
  proof (cases rule: with_database_cases)
    case (database d)
    then obtain x row where create: "t_create (sc_environmentChecks c) row (st_db s1) = (Inr x, d)" and "check = mapEnvironmentCheck x"
      and "row = \<lparr>ekr_id = createId c 0 ''envcheck'', ekr_candidateId = cand_id (ci_candidate (toPublicCandidateInvite invite0)),
        ekr_examId = ex_id (ci_exam (toPublicCandidateInvite invite0)), ekr_results = JArr (toEnvironmentCheckJson (evidenced_results input)),
        ekr_requiredPassed = didPassRequiredEnvironmentChecks (evidenced_results input), ekr_createdAt = sc_now c\<rparr>"
      by (auto simp: mapped_eq_Inr)
    with store_part.create_InrD [OF good_environmentChecks [OF assms(1)] create] show ?thesis
      by (simp add: mapEnvironmentCheck_def results_read_back toPublicCandidateInvite_def)
  next
    case (memory s2)
    then show ?thesis by (auto simp: store_Inr toPublicCandidateInvite_def)
  qed
  then show ?thesis using ok own environment_passes_iff by auto
qed

section \<open>Who is verified\<close>

lemma decision_reads_back [simp]: "normalizeKycProviderDecision (decision_text d) = d"
  by (cases d) (simp_all add: normalizeKycProviderDecision_def)

lemma verification_mapped: "mapIdentityVerification (verification_row c invite input r) = memory_verification c invite input r"
  by (simp add: mapIdentityVerification_def verification_row_def memory_verification_def Let_def)

definition identity_confirmed :: "engine_result \<Rightarrow> bool" where
  "identity_confirmed r \<longleftrightarrow> eg_providerDecision r = KYC_VERIFIED \<and> 85 \<le> eg_documentAuthenticityScore r \<and> 80 \<le> eg_faceMatchScore r \<and>
     80 \<le> eg_livenessScore r \<and> eg_ocrNameMatched r \<and>
     {''DOCUMENT_AUTHENTICITY'', ''FACE_MATCH'', ''LIVENESS'', ''OCR_NAME_MATCH''} \<subseteq> set (eg_verificationChecks r)"

lemma passes_iff: "didPassIdentityProviderChecks r = identity_confirmed r"
  by (auto simp: didPassIdentityProviderChecks_def identity_confirmed_def requiredIdentityVerificationChecks_def
      minimumDocumentAuthenticityScore_def minimumFaceMatchScore_def minimumLivenessScore_def)

text \<open>The one request that a verification may make: for the candidate of the invite, in an exam that verifies identities, with his
  recorded consent to the current policy, without a raw image, and with the references and captures that the provider needs.\<close>

definition verification_request :: "'d store_ctx \<Rightarrow> string \<Rightarrow> identity_input \<Rightarrow> 'd store \<Rightarrow> kyc_request \<Rightarrow> bool" where
  "verification_request c inviteToken input s q \<longleftrightarrow> (\<exists>invite s1. getCandidateInvite c inviteToken s = (Inr invite, s1) \<and>
     ex_identityVerificationEnabled (ci_exam invite) \<and>
     cand_identityPrivacyConsentVersion (ci_candidate invite) = Some CURRENT_PRIVACY_POLICY_VERSION \<and>
     cand_identityPrivacyConsentAcceptedAt (ci_candidate invite) \<noteq> None \<and> \<not> truthy (idi_documentImageName input) \<and>
     truthy (idi_providerSessionId input) \<and> truthy (idi_documentUploadRef input) \<and> truthy (idi_faceUploadRef input) \<and>
     idi_documentCaptured input \<and> idi_faceImageCaptured input \<and> idi_livenessConfirmed input \<and>
     q = VerifyRequest (the (sc_env c ''KYC_SANDBOX_API_KEY'')) (engine_request invite input))"

lemma identity_preconditions_Inr:
  "identity_preconditions invite input = Inr () \<longleftrightarrow> ex_identityVerificationEnabled (ci_exam invite) \<and>
     cand_identityPrivacyConsentVersion (ci_candidate invite) = Some CURRENT_PRIVACY_POLICY_VERSION \<and>
     cand_identityPrivacyConsentAcceptedAt (ci_candidate invite) \<noteq> None \<and> \<not> truthy (idi_documentImageName input) \<and>
     truthy (idi_providerSessionId input) \<and> truthy (idi_documentUploadRef input) \<and> truthy (idi_faceUploadRef input) \<and>
     idi_documentCaptured input \<and> idi_faceImageCaptured input \<and> idi_livenessConfirmed input"
  by (auto simp: identity_preconditions_def rejectRawIdentityMedia_def bindR_def)

lemma verification_asks:
  "verifyCandidateIdentity (answering_elsewhere nw (\<lambda>q u. verification_request c inviteToken input s q \<and>
     provider_address nw (sc_env c) ''/identity/verify'' u) other) c inviteToken input s = verifyCandidateIdentity nw c inviteToken input s"
    (is "verifyCandidateIdentity ?nw c inviteToken input s = _")
proof -
  have "verifyCandidateIdentityInStore ?nw c invite input s1 = verifyCandidateIdentityInStore nw c invite input s1"
    if invite: "getCandidateInvite c inviteToken s = (Inr invite, s1)" for invite s1
  proof (cases "identity_preconditions invite input")
    case (Inl e)
    then show ?thesis by (simp add: verifyCandidateIdentityInStore_def bindE_def liftR_def)
  next
    case (Inr u)
    with invite have "verification_request c inviteToken input s (VerifyRequest (the (sc_env c ''KYC_SANDBOX_API_KEY'')) (engine_request invite input))"
      by (auto simp: verification_request_def identity_preconditions_Inr)
    then have "verifyIdentity ?nw (sc_env c) (engine_request invite input) = verifyIdentity nw (sc_env c) (engine_request invite input)"
      by (intro verifyIdentity_asks) simp
    then show ?thesis by (simp add: verifyCandidateIdentityInStore_def)
  qed
  then show ?thesis by (auto simp: verifyCandidateIdentity_def bindE_def split: prod.split sum.split)
qed

text \<open>C6. A candidate is verified exactly if the provider's well-formed answer approves the identity with the required
  scores and checks; anything else that it answers is recorded as failed, with a reason. The provider is asked only
  for the candidate of the invite, with the recorded consent to the current policy, in an exam that verifies
  identities and without raw images: whatever the network answers to any other request, at any other address, does
  not matter, and where a condition fails, nothing that it answers matters.\<close>

theorem identity_is_verified_by_the_provider:
  assumes "good_tables c content"
  shows "(verifyCandidateIdentity nw c inviteToken input s = (Inr v, s') \<longrightarrow>
    (\<exists>invite r. invite_of_token inviteToken (invite\<lparr>ci_questions := []\<rparr>) \<and> verifyIdentity nw (sc_env c) (engine_request invite input) = Inr r \<and> result_wf r \<and>
      ex_identityVerificationEnabled (ci_exam invite) \<and> \<not> truthy (idi_documentImageName input) \<and>
      cand_identityPrivacyConsentVersion (ci_candidate invite) = Some CURRENT_PRIVACY_POLICY_VERSION \<and>
      cand_identityPrivacyConsentAcceptedAt (ci_candidate invite) \<noteq> None \<and>
      iv_privacyConsentAcceptedAt v = cand_identityPrivacyConsentAcceptedAt (ci_candidate invite) \<and>
      iv_candidateId v = cand_id (ci_candidate invite) \<and> iv_status v = (if identity_confirmed r then ID_VERIFIED else ID_FAILED) \<and>
      (iv_status v = ID_VERIFIED \<longleftrightarrow> iv_verifiedAt v = Some (sc_now c)) \<and> (iv_status v = ID_FAILED \<longleftrightarrow> iv_failureReason v \<noteq> None))) \<and>
    verifyCandidateIdentity (answering_elsewhere nw (\<lambda>q u. verification_request c inviteToken input s q \<and>
      provider_address nw (sc_env c) ''/identity/verify'' u) other) c inviteToken input s = verifyCandidateIdentity nw c inviteToken input s"
proof (intro conjI impI)
  assume ok: "verifyCandidateIdentity nw c inviteToken input s = (Inr v, s')"
  then obtain invite0 s1 r where invite0: "getCandidateInviteForInternalUse c inviteToken s = (Inr invite0, s1)"
    and pre: "identity_preconditions (toPublicCandidateInvite invite0) input = Inr ()"
    and r: "verifyIdentity nw (sc_env c) (engine_request (toPublicCandidateInvite invite0) input) = Inr r"
    and save: "with_fallback
       (storeDatabase c (mapped mapIdentityVerification (t_create (sc_identityVerifications c) (verification_row c (toPublicCandidateInvite invite0) input r))))
       (bindE (set_memory (mm_identityVerifications_update (\<lambda>vs. memory_verification c (toPublicCandidateInvite invite0) input r # vs))) (\<lambda>_.
        ret (memory_verification c (toPublicCandidateInvite invite0) input r))) s1 = (Inr v, s')"
    by (auto simp: verifyCandidateIdentity_def verifyCandidateIdentityInStore_def getCandidateInvite_def bindE_eq_Inr liftR_eq_Inr ret_eq_Inr)
  have own: "invite_of_token inviteToken invite0"
    using invite0 snapshot_of_token [OF assms] by (auto simp: getCandidateInviteForInternalUse_def store_Inr)
  from save have v: "v = memory_verification c (toPublicCandidateInvite invite0) input r"
  proof (cases rule: with_database_cases)
    case (database d)
    then obtain x where create: "t_create (sc_identityVerifications c) (verification_row c (toPublicCandidateInvite invite0) input r) (st_db s1) = (Inr x, d)"
      and "v = mapIdentityVerification x" by (auto simp: mapped_eq_Inr)
    with store_part.create_InrD [OF good_identityVerifications [OF assms] create] show ?thesis by (simp add: verification_mapped)
  qed (auto simp: store_Inr)
  from verifyIdentity_InrD [OF r] have "result_wf r" by (metis normalized_wf)
  moreover from own have "invite_of_token inviteToken ((toPublicCandidateInvite invite0)\<lparr>ci_questions := []\<rparr>)"
    by (simp add: invite_of_token_def toPublicCandidateInvite_def)
  moreover note pre [unfolded identity_preconditions_Inr]
  ultimately show "\<exists>invite r. invite_of_token inviteToken (invite\<lparr>ci_questions := []\<rparr>) \<and> verifyIdentity nw (sc_env c) (engine_request invite input) = Inr r \<and> result_wf r \<and>
      ex_identityVerificationEnabled (ci_exam invite) \<and> \<not> truthy (idi_documentImageName input) \<and>
      cand_identityPrivacyConsentVersion (ci_candidate invite) = Some CURRENT_PRIVACY_POLICY_VERSION \<and>
      cand_identityPrivacyConsentAcceptedAt (ci_candidate invite) \<noteq> None \<and>
      iv_privacyConsentAcceptedAt v = cand_identityPrivacyConsentAcceptedAt (ci_candidate invite) \<and>
      iv_candidateId v = cand_id (ci_candidate invite) \<and> iv_status v = (if identity_confirmed r then ID_VERIFIED else ID_FAILED) \<and>
      (iv_status v = ID_VERIFIED \<longleftrightarrow> iv_verifiedAt v = Some (sc_now c)) \<and> (iv_status v = ID_FAILED \<longleftrightarrow> iv_failureReason v \<noteq> None)"
    using r by (intro exI [of _ "toPublicCandidateInvite invite0"] exI [of _ r])
      (simp add: v memory_verification_def passes_iff Let_def toPublicCandidateInvite_def)
qed (rule verification_asks)

section \<open>Witnesses\<close>

text \<open>A clock text that reads back, and an HMAC that shows its arguments.\<close>

definition read_int :: "string \<Rightarrow> int option" where
  "read_int t = (case t of [] \<Rightarrow> None
     | ch # digits \<Rightarrow> Some (if ch = CHR ''-'' then - int (digits_value digits) else int (digits_value t)))"

definition sample_evidence :: evidence where
  "sample_evidence = \<lparr>ev_hmac = (\<lambda>secret t. secret @ '':'' @ t), ev_iso = int_text, ev_parse = read_int\<rparr>"

lemma nat_text_chars: "ch \<in> set (nat_text n) \<Longrightarrow> 48 \<le> (of_char ch :: nat) \<and> (of_char ch :: nat) \<le> 57"
proof (induction n rule: nat_text.induct)
  case (1 n)
  then show ?case by (cases "n < 10") (auto simp: nat_text.simps [of n])
qed

lemma nat_text_nonempty: "nat_text n \<noteq> []"
  by (simp add: nat_text.simps [of n])

lemma int_text_reads_back: "read_int (int_text z) = Some z"
proof (cases "z < 0")
  case True
  then show ?thesis by (simp add: int_text_def read_int_def nat_text_reads_back)
next
  case False
  obtain ch digits where read: "nat_text (nat z) = ch # digits" using nat_text_nonempty by (cases "nat_text (nat z)") auto
  with nat_text_chars [of ch "nat z"] have "ch \<noteq> CHR ''-''" by auto
  with False read nat_text_reads_back [of "nat z"] show ?thesis by (simp add: int_text_def read_int_def)
qed

lemma int_text_plain: "CHR ''|'' \<notin> set (int_text z) \<and> int_text z \<noteq> []"
  using nat_text_chars [of "CHR ''|''"] by (auto simp: int_text_def nat_text_nonempty)

text \<open>A development environment with an identity provider on the same host, and a candidate who consented.\<close>

definition kyc_env :: env where
  "kyc_env = (\<lambda>v. if v = ''KYC_SANDBOX_API_BASE_URL'' then Some ''http://localhost:9'' else if v = ''KYC_SANDBOX_API_KEY'' then Some ''key''
     else development_env v)"

definition kyc_answer :: json where
  "kyc_answer = JObj [(''documentAuthenticityScore'', JNum 90), (''faceMatchScore'', JNum 91), (''livenessScore'', JNum 92),
     (''providerDecision'', JStr ''VERIFIED''), (''providerReferenceId'', JStr ''ref''), (''ocrNameMatched'', JBool True),
     (''verificationChecks'', JArr (map JStr requiredIdentityVerificationChecks))]"

definition kyc_network :: "kyc_request network" where
  "kyc_network = \<lparr>nw_parseUrl = (\<lambda>t. Some \<lparr>url_protocol = ''http:'', url_hostname = ''localhost'', url_port = ''9'', url_username = [],
       url_password = [], url_text = t\<rparr>),
     nw_lookup = (\<lambda>_. None), nw_isIP = (\<lambda>_. 0), nw_check = (\<lambda>_ _. False),
     nw_fetch = (\<lambda>_ _. Some \<lparr>hr_ok = True, hr_status = 200, hr_contentLength = None, hr_body = Some [''{}'']\<rparr>),
     nw_json = (\<lambda>_. Some kyc_answer), nw_parseDate = (\<lambda>_. None)\<rparr>"

definition consenting_candidate :: candidate where
  "consenting_candidate = sample_candidate\<lparr>cand_identityPrivacyConsentVersion := Some CURRENT_PRIVACY_POLICY_VERSION,
     cand_identityPrivacyConsentAcceptedAt := Some 1\<rparr>"

definition consent_contents :: contents where
  "consent_contents = workspace_contents\<lparr>k_candidates := [consenting_candidate]\<rparr>"

definition consent_invite :: candidate_invite where
  "consent_invite = workspace_invite\<lparr>ci_candidate := consenting_candidate\<rparr>"

lemma consent_sel [simp]:
  "k_organizations consent_contents = k_organizations workspace_contents" "k_exams consent_contents = [sample_exam]"
  "k_candidates consent_contents = [consenting_candidate]" "k_questions consent_contents = [sample_question]"
  "k_proctorDevices consent_contents = [sample_device MOBILE_AUX ''d1'' 90000]" "k_identityVerifications consent_contents = [sample_identity]"
  "k_environmentChecks consent_contents = [sample_check]" "k_proctorEvents consent_contents = []"
  "cand_id consenting_candidate = ''c1''" "cand_examId consenting_candidate = ''e1''" "cand_inviteToken consenting_candidate = ''invite_1''"
  "cand_identityPrivacyConsentVersion consenting_candidate = Some CURRENT_PRIVACY_POLICY_VERSION"
  "cand_identityPrivacyConsentAcceptedAt consenting_candidate = Some 1"
  "ci_candidate consent_invite = consenting_candidate" "ci_exam consent_invite = sample_exam"
  by (simp_all add: consent_contents_def consenting_candidate_def consent_invite_def)

lemma kyc_env_sel [simp]:
  "databaseAvailable kyc_env" "\<not> storeDemoAuthEnabled kyc_env" "databaseFallbackEnabled kyc_env" "\<not> is_production kyc_env"
  "kyc_env ''KYC_SANDBOX_API_BASE_URL'' = Some ''http://localhost:9''" "kyc_env ''KYC_SANDBOX_API_KEY'' = Some ''key''"
  "kyc_env ''PROCTOR_HEARTBEAT_TIMEOUT_MS'' = None" "kyc_env ''ENVIRONMENT_CHECK_SECRET'' = None" "kyc_env ''AUTH_SESSION_SECRET'' = None"
  by (simp_all add: databaseAvailable_def storeDemoAuthEnabled_def databaseFallbackEnabled_def is_production_def kyc_env_def development_env_def)

lemma kyc_store_of:
  "with_fallback (storeDatabase (plain_ctx kyc_env now) m) fallback (store_of k) = (case m k of
     (Inr x, k') \<Rightarrow> (Inr x, store_of k')
   | (Inl e, k') \<Rightarrow> if is_request_error e then (Inl e, store_of k') else fallback ((store_of k')\<lparr>st_databaseUnavailable := True\<rparr>))"
  "with_fallback (seededDatabase (plain_ctx kyc_env now) m) fallback (store_of k) = (case m k of
     (Inr x, k') \<Rightarrow> (Inr x, store_of k')
   | (Inl e, k') \<Rightarrow> if is_request_error e then (Inl e, store_of k') else fallback ((store_of k')\<lparr>st_databaseUnavailable := True\<rparr>))"
  by (simp_all add: with_fallback_def seededDatabase_def storeDatabase_def storeOperation_def catchE_def bindE_def on_database_def ret_def
      throwE_def mark_unavailable_def Let_def split: prod.split sum.split)

lemma kyc_invite:
  "getCandidateInvite (plain_ctx kyc_env 95000) ''invite_1'' (store_of consent_contents) =
     (Inr (toPublicCandidateInvite consent_invite), store_of consent_contents)"
proof -
  have now: "stale_before (plain_ctx kyc_env 95000) = Some 65000"
    by (simp add: stale_before_def proctorHeartbeatTimeoutMs_def Let_def)
  have snapshot: "getCandidateInviteSnapshot (plain_ctx kyc_env 95000) ''invite_1'' (store_of consent_contents) =
      (Inr consent_invite, store_of consent_contents)"
    by (simp add: getCandidateInviteSnapshot_def find_invite_def required_def kyc_store_of run_simps workspace_invite_def consent_invite_def
      sort_newest_def sort_oldest_def)
  have mark: "markStaleProctorDevicesInStore (plain_ctx kyc_env 95000) ''e1'' (store_of consent_contents) = (Inr (), store_of consent_contents)"
    by (simp add: markStaleProctorDevicesInStore_def now kyc_store_of run_simps is_stale_row_def)
  show ?thesis
    by (simp add: getCandidateInvite_def getCandidateInviteForInternalUse_def bindE_apply snapshot mark ret_apply)
qed

lemma evidence_lasts_ten_minutes_witness:
  "\<exists>session. createEnvironmentCheckSession sample_evidence (plain_ctx kyc_env 95000) ''invite_1'' = Inr session \<and>
     assertEnvironmentCheckSession sample_evidence ((plain_ctx kyc_env 95000)\<lparr>sc_now := 600000\<rparr>) ''invite_1'' (es_sessionId session)
       (es_evidenceToken session) = Inr () \<and>
     assertEnvironmentCheckSession sample_evidence ((plain_ctx kyc_env 95000)\<lparr>sc_now := 700000\<rparr>) ''invite_1'' (es_sessionId session)
       (es_evidenceToken session) \<noteq> Inr ()"
proof -
  obtain session where created: "createEnvironmentCheckSession sample_evidence (plain_ctx kyc_env 95000) ''invite_1'' = Inr session"
    by (simp add: createEnvironmentCheckSession_def signEnvironmentCheckSession_def environmentCheckSecret_def bindR_def Let_def)
  have reads: "ev_parse sample_evidence (ev_iso sample_evidence t) = Some t" for t
    by (simp add: sample_evidence_def int_text_reads_back)
  have plain: "CHR ''|'' \<notin> set (ev_iso sample_evidence t) \<and> ev_iso sample_evidence t \<noteq> []" for t
    using int_text_plain by (simp add: sample_evidence_def)
  from created evidence_lasts_ten_minutes [OF reads plain created, of "''x''" 600000] evidence_lasts_ten_minutes [OF reads plain created, of "''x''" 700000]
  show ?thesis by auto
qed

lemma environment_check_needs_evidence_witness:
  "\<exists>session check s'. createEnvironmentCheckSession sample_evidence (plain_ctx kyc_env 95000) ''invite_1'' = Inr session \<and>
     saveCandidateEnvironmentCheck sample_evidence (plain_ctx kyc_env 95000) ''invite_1''
       \<lparr>eci_sessionId = es_sessionId session, eci_evidenceToken = es_evidenceToken session, eci_results = [],
        eci_browserEvidence = \<lparr>be_userAgent = ''ua'', be_secureContext = True, be_checkedAt = ''now''\<rparr>\<rparr> (store_of consent_contents) = (Inr check, s') \<and>
     \<not> ec_requiredPassed check"
proof -
  obtain session where created: "createEnvironmentCheckSession sample_evidence (plain_ctx kyc_env 95000) ''invite_1'' = Inr session"
    by (simp add: createEnvironmentCheckSession_def signEnvironmentCheckSession_def environmentCheckSecret_def bindR_def Let_def)
  then obtain secret where secret: "environmentCheckSecret kyc_env = Inr secret" and sid: "es_sessionId session \<noteq> []"
    and token: "es_evidenceToken session = int_text 695000 @ ''|'' @
      ev_hmac sample_evidence secret (''invite_1'' @ ''.'' @ es_sessionId session @ ''.'' @ int_text 695000)"
    by (auto elim!: created_session simp: sample_evidence_def ENVIRONMENT_CHECK_TTL_MS_def createId_def)
  have accepted: "assertEnvironmentCheckSession sample_evidence (plain_ctx kyc_env 95000) ''invite_1'' (es_sessionId session)
      (es_evidenceToken session) = Inr ()"
    unfolding token using int_text_plain [of 695000] secret sid
    by (subst evidence_accepted [where t = 695000 and secret = secret]) (simp_all add: sample_evidence_def int_text_reads_back)
  let ?in = "\<lparr>eci_sessionId = es_sessionId session, eci_evidenceToken = es_evidenceToken session, eci_results = [],
        eci_browserEvidence = \<lparr>be_userAgent = ''ua'', be_secureContext = True, be_checkedAt = ''now''\<rparr>\<rparr>"
  obtain check s' where run: "saveCandidateEnvironmentCheck sample_evidence (plain_ctx kyc_env 95000) ''invite_1'' ?in
      (store_of consent_contents) = (Inr check, s')"
    by (simp add: saveCandidateEnvironmentCheck_def bindE_apply kyc_invite accepted liftR_apply saveCandidateEnvironmentCheckInStore_def Let_def
      mapped_def kyc_store_of run_simps)
  from created run environment_check_needs_evidence [OF good_plain run] show ?thesis
    by (intro exI [of _ session] exI [of _ check] exI [of _ s'])
      (auto simp: evidenced_results_def normalizeEnvironmentResults_def)
qed

lemma identity_is_verified_by_the_provider_witness:
  "\<exists>v s'. verifyCandidateIdentity kyc_network (plain_ctx kyc_env 95000) ''invite_1''
      \<lparr>idi_documentImageName = None, idi_documentCaptured = True, idi_faceImageCaptured = True, idi_livenessConfirmed = True,
       idi_providerSessionId = Some ''s'', idi_documentUploadRef = Some ''d'', idi_faceUploadRef = Some ''f''\<rparr> (store_of consent_contents) =
      (Inr v, s') \<and> iv_status v = ID_VERIFIED \<and> iv_verifiedAt v = Some 95000"
proof -
  let ?in = "\<lparr>idi_documentImageName = None, idi_documentCaptured = True, idi_faceImageCaptured = True, idi_livenessConfirmed = True,
       idi_providerSessionId = Some ''s'', idi_documentUploadRef = Some ''d'', idi_faceUploadRef = Some ''f''\<rparr>"
  have pre: "identity_preconditions (toPublicCandidateInvite consent_invite) ?in = Inr ()"
    by (simp add: identity_preconditions_def toPublicCandidateInvite_def rejectRawIdentityMedia_def bindR_def)
  have words: "trim ''d'' = ''d''" "trim ''f'' = ''f''" "toLowerCase ''d'' = ''d''" "toLowerCase ''f'' = ''f''" "trim ''ref'' = ''ref''"
    by code_simp+
  obtain r where answer: "normalizeProviderResult kyc_answer = Inr r" and "identity_confirmed r"
    by (simp add: normalizeProviderResult_def kyc_answer_def readUnknown_def requiredScore_def requiredDecision_def requiredString_def bindR_def
      identity_confirmed_def normalizeChecks_def requiredIdentityVerificationChecks_def words)
  then have r: "verifyIdentity kyc_network kyc_env request = Inr r"
    if "en_documentUploadRef request = Some ''d''" "en_faceUploadRef request = Some ''f''" for request
    using that
    by (simp add: verifyIdentity_def providerBaseUrl_def kyc_network_def isAllowedProviderUrl_def isLoopbackHostname_def normalizeHostname_def
      startsWith_def endsWith_def bindR_def rejectUnsafeUploadReference_def words Let_def callProvider_def unavailable_def secureOutboundFetch_def
      parseSafeOutboundUrl_def assertHostnameResolvesSafely_def readProviderJson_def readBoundedJson_def readBoundedText_def)
  obtain v s' where run: "verifyCandidateIdentity kyc_network (plain_ctx kyc_env 95000) ''invite_1'' ?in (store_of consent_contents) = (Inr v, s')"
    and v: "v = memory_verification (plain_ctx kyc_env 95000) (toPublicCandidateInvite consent_invite) ?in r"
    by (simp add: verifyCandidateIdentity_def bindE_apply kyc_invite verifyCandidateIdentityInStore_def pre r engine_request_def liftR_apply
      mapped_def kyc_store_of run_simps verification_mapped)
  have "iv_status v = ID_VERIFIED" using \<open>identity_confirmed r\<close> by (simp add: v memory_verification_def passes_iff Let_def)
  with run conjunct1 [OF identity_is_verified_by_the_provider [OF good_plain], rule_format, OF run] show ?thesis by auto
qed

end
