(* ===== verification/Report.thy ===== *)
theory Report
  imports Workspace JsDouble "HOL-Library.Multiset"
begin

text \<open>
  What the examiners read (\<open>platform-store.report.ts\<close>, \<open>platform-store.dashboard.ts\<close>,
  \<open>platform-store.report-save.ts\<close> and the methods of \<open>platform-store.service.ts\<close>): the report of an exam with the
  results and the risk of every candidate, the live view of its proctors, the dashboard, and the saved evaluations.
\<close>

section \<open>The report of a candidate\<close>

definition best_score :: "submission list \<Rightarrow> int" where
  "best_score submissions = foldl (\<lambda>best submission. max best (sub_score submission)) 0 submissions"

definition buildCandidateReport ::
  "candidate \<Rightarrow> submission list \<Rightarrow> code_execution list \<Rightarrow> competency_report list \<Rightarrow> identity_verification list \<Rightarrow>
   environment_check list \<Rightarrow> invite_email_log list \<Rightarrow> proctor_event list \<Rightarrow> proctor_device list \<Rightarrow> proctor_action list \<Rightarrow>
   candidate_exam_report" where
  "buildCandidateReport candidate submissions executions aiReports identities checks emails events devices actions =
     (let riskScore = calculateRiskScore (map pe_type events)
      in \<lparr>cr_candidate = candidate, cr_submissions = submissions, cr_executions = executions,
          cr_latestSubmission = head_opt submissions, cr_latestExecution = head_opt executions, cr_latestAiReport = head_opt aiReports,
          cr_latestIdentityVerification = head_opt identities, cr_latestEnvironmentCheck = head_opt checks,
          cr_bestScore = best_score submissions, cr_submissionCount = int (length submissions),
          cr_executionCount = int (length executions), cr_riskEventCount = int (length events), cr_riskScore = riskScore,
          cr_riskLevel = calculateRiskLevel riskScore, cr_proctorEvents = events, cr_proctorDevices = devices,
          cr_proctorActions = actions, cr_aiReports = aiReports, cr_inviteEmailLogs = emails\<rparr>)"

text \<open>The rows of the candidates of an exam, as the query includes them.\<close>

record report_rows =
  rq_submissions :: "submission list"
  rq_executions :: "code_execution list"
  rq_events :: "proctor_event list"
  rq_devices :: "proctor_device list"
  rq_actions :: "proctor_action list"
  rq_reports :: "competency_report list"
  rq_identities :: "identity_row list"
  rq_checks :: "env_check_row list"
  rq_emails :: "invite_email_log list"

definition of_candidate :: "('r \<Rightarrow> string) \<Rightarrow> candidate \<Rightarrow> 'r list \<Rightarrow> 'r list" where
  "of_candidate owner candidate rows = filter (\<lambda>r. owner r = cand_id candidate) rows"

definition database_report :: "report_rows \<Rightarrow> candidate \<Rightarrow> candidate_exam_report" where
  "database_report rows candidate = buildCandidateReport (mapCandidate candidate)
     (map mapSubmission (sort_newest sub_submittedAt (of_candidate sub_candidateId candidate (rq_submissions rows))))
     (map mapCodeExecution (take 20 (sort_newest ce_createdAt (of_candidate ce_candidateId candidate (rq_executions rows)))))
     (map mapCompetencyReport (take 20 (sort_newest rep_createdAt (of_candidate rep_candidateId candidate (rq_reports rows)))))
     (map mapIdentityVerification (take 1 (sort_newest idr_createdAt (of_candidate idr_candidateId candidate (rq_identities rows)))))
     (map mapEnvironmentCheck (take 1 (sort_newest ekr_createdAt (of_candidate ekr_candidateId candidate (rq_checks rows)))))
     (map mapInviteEmailLog (take 20 (sort_newest el_createdAt (of_candidate el_candidateId candidate (rq_emails rows)))))
     (map mapProctorEvent (take 50 (sort_newest pe_createdAt (of_candidate pe_candidateId candidate (rq_events rows)))))
     (map mapProctorDevice (of_candidate pd_candidateId candidate (rq_devices rows)))
     (map mapProctorAction (take 50 (sort_newest pa_createdAt (of_candidate pa_candidateId candidate (rq_actions rows)))))"

definition memory_report :: "memory \<Rightarrow> candidate \<Rightarrow> candidate_exam_report" where
  "memory_report m candidate = buildCandidateReport candidate
     (sort_newest sub_submittedAt (of_candidate sub_candidateId candidate (mm_submissions m)))
     (sort_newest ce_createdAt (of_candidate ce_candidateId candidate (mm_codeExecutions m)))
     (of_candidate rep_candidateId candidate (mm_competencyReports m))
     (of_candidate iv_candidateId candidate (mm_identityVerifications m))
     (of_candidate ec_candidateId candidate (mm_environmentChecks m))
     (of_candidate el_candidateId candidate (mm_inviteEmailLogs m))
     (of_candidate pe_candidateId candidate (mm_proctorEvents m))
     (of_candidate pd_candidateId candidate (mm_proctorDevices m))
     (of_candidate pa_candidateId candidate (mm_proctorActions m))"

section \<open>The report of an exam\<close>

definition find_report_rows :: "'d store_ctx \<Rightarrow> candidate list \<Rightarrow> ('d, report_rows) act" where
  "find_report_rows c candidates =
     (let ids = cand_id ` set candidates in
      bindE (t_findMany (sc_submissions c) (\<lambda>r. sub_candidateId r \<in> ids)) (\<lambda>submissions.
      bindE (t_findMany (sc_codeExecutions c) (\<lambda>r. ce_candidateId r \<in> ids)) (\<lambda>executions.
      bindE (t_findMany (sc_proctorEvents c) (\<lambda>r. pe_candidateId r \<in> ids)) (\<lambda>events.
      bindE (t_findMany (sc_proctorDevices c) (\<lambda>r. pd_candidateId r \<in> ids)) (\<lambda>devices.
      bindE (t_findMany (sc_proctorActions c) (\<lambda>r. pa_candidateId r \<in> ids)) (\<lambda>actions.
      bindE (t_findMany (sc_competencyReports c) (\<lambda>r. rep_candidateId r \<in> ids)) (\<lambda>reports.
      bindE (t_findMany (sc_identityVerifications c) (\<lambda>r. idr_candidateId r \<in> ids)) (\<lambda>identities.
      bindE (t_findMany (sc_environmentChecks c) (\<lambda>r. ekr_candidateId r \<in> ids)) (\<lambda>checks.
      bindE (t_findMany (sc_inviteEmailLogs c) (\<lambda>r. el_candidateId r \<in> ids)) (\<lambda>emails.
      ret \<lparr>rq_submissions = submissions, rq_executions = executions, rq_events = events, rq_devices = devices, rq_actions = actions,
        rq_reports = reports, rq_identities = identities, rq_checks = checks, rq_emails = emails\<rparr>))))))))))"

definition find_exam_report :: "'d store_ctx \<Rightarrow> string \<Rightarrow> ('d, (exam \<times> candidate list \<times> report_rows) option) act" where
  "find_exam_report c examId =
     bindE (t_find (sc_exams c) (\<lambda>e. ex_id e = examId)) (\<lambda>found. case found of
       None \<Rightarrow> ret None
     | Some exam \<Rightarrow>
         bindE (t_findMany (sc_candidates c) (\<lambda>p. cand_examId p = examId)) (\<lambda>candidates.
         bindE (find_report_rows c candidates) (\<lambda>rows. ret (Some (exam, sort_oldest cand_createdAt candidates, rows)))))"

definition getExamReportInStore :: "'d store_ctx \<Rightarrow> string \<Rightarrow> auth_session \<Rightarrow> ('d store, exam_report) act" where
  "getExamReportInStore c examId session =
     with_fallback
       (seededDatabase c (bindE (find_exam_report c examId) (\<lambda>found.
          bindE (liftR (require_exam session (map_option fst found))) (\<lambda>exam. case found of
            Some (_, candidates, rows) \<Rightarrow> ret \<lparr>xr_exam = mapExam exam, xr_candidates = map (database_report rows) candidates\<rparr>
          | None \<Rightarrow> throwE (NotFound ''Exam not found'')))))
       (bindE (memory_of (\<lambda>m. List.find (\<lambda>e. ex_id e = examId) (mm_exams m))) (\<lambda>found.
        bindE (liftR (require_exam session found)) (\<lambda>exam.
        memory_of (\<lambda>m. \<lparr>xr_exam = exam, xr_candidates = map (memory_report m) (filter (\<lambda>p. cand_examId p = examId) (mm_candidates m))\<rparr>))))"

definition getExamReport :: "'d store_ctx \<Rightarrow> string \<Rightarrow> auth_session \<Rightarrow> ('d store, exam_report) act" where
  "getExamReport c examId session =
     bindE (liftR (assertSessionCanManageExams session)) (\<lambda>_.
     bindE (markStaleProctorDevicesInStore c examId) (\<lambda>_. getExamReportInStore c examId session))"

section \<open>The live view\<close>

definition live_of :: "candidate_exam_report \<Rightarrow> live_candidate" where
  "live_of item = \<lparr>lc_candidate = cr_candidate item, lc_riskScore = cr_riskScore item, lc_riskLevel = cr_riskLevel item,
     lc_proctorEvents = cr_proctorEvents item, lc_proctorDevices = cr_proctorDevices item, lc_proctorActions = cr_proctorActions item\<rparr>"

definition buildLiveProctorState :: "exam_report \<Rightarrow> live_exam" where
  "buildLiveProctorState report = \<lparr>le_exam = xr_exam report,
     le_candidates = sort_key (\<lambda>item. - lc_riskScore item) (map live_of (xr_candidates report))\<rparr>"

definition getLiveProctorState :: "'d store_ctx \<Rightarrow> string \<Rightarrow> auth_session \<Rightarrow> ('d store, live_exam) act" where
  "getLiveProctorState c examId session =
     bindE (liftR (assertSessionCanProctor session)) (\<lambda>_.
     bindE (markStaleProctorDevicesInStore c examId) (\<lambda>_.
     bindE (getExamReportInStore c examId session) (\<lambda>report. ret (buildLiveProctorState report))))"

section \<open>The dashboard\<close>

definition dashboard_scope :: "auth_session \<Rightarrow> exam \<Rightarrow> bool" where
  "dashboard_scope session exam \<longleftrightarrow> usr_role (as_user session) = ADMIN \<or> ex_organizationId exam = org_id (as_organization session)"

definition is_open_exam :: "exam \<Rightarrow> bool" where
  "is_open_exam exam \<longleftrightarrow> ex_status exam = ACTIVE \<or> ex_status exam = SCHEDULED"

text \<open>\<open>where: { exam: { organizationId } }\<close> joins the candidates with the exams, deleted ones included.\<close>

definition find_dashboard :: "'d store_ctx \<Rightarrow> auth_session \<Rightarrow> ('d, dashboard_summary) act" where
  "find_dashboard c session =
     bindE (bindE (t_find (sc_organizations c) (\<lambda>r. o_id r = org_id (as_organization session))) required) (\<lambda>organization.
     bindE (t_findMany (sc_exams c) (scopedExamWhere session)) (\<lambda>exams.
     bindE (t_count (sc_exams c) (scopedExamWhere session)) (\<lambda>totalExams.
     bindE (t_count (sc_exams c) (\<lambda>e. is_open_exam e \<and> dashboard_scope session e)) (\<lambda>activeExams.
     bindE (t_findMany (sc_exams c) (dashboard_scope session)) (\<lambda>scope.
     bindE (t_count (sc_candidates c) (\<lambda>p. usr_role (as_user session) = ADMIN \<or> cand_examId p \<in> ex_id ` set scope)) (\<lambda>totalCandidates.
     bindE (t_count (sc_candidates c) (\<lambda>p. cand_status p \<noteq> COMPLETED \<and>
        (usr_role (as_user session) = ADMIN \<or> cand_examId p \<in> ex_id ` set scope))) (\<lambda>pendingReports.
     ret \<lparr>ds_organization = mapOrganization organization, ds_totalExams = totalExams, ds_activeExams = activeExams,
       ds_totalCandidates = totalCandidates, ds_pendingReports = pendingReports,
       ds_recentExams = map mapExam (take 5 (sort_newest ex_createdAt exams))\<rparr>)))))))"

definition memory_dashboard :: "auth_session \<Rightarrow> memory \<Rightarrow> dashboard_summary" where
  "memory_dashboard session m =
     (let accessible = (\<lambda>p. \<exists>e \<in> set (mm_exams m). ex_id e = cand_examId p \<and> canAccessExam session e)
      in \<lparr>ds_organization = as_organization session, ds_totalExams = count_rows (canAccessExam session) (mm_exams m),
          ds_activeExams = count_rows (\<lambda>e. canAccessExam session e \<and> is_open_exam e) (mm_exams m),
          ds_totalCandidates = count_rows accessible (mm_candidates m),
          ds_pendingReports = count_rows (\<lambda>p. cand_status p \<noteq> COMPLETED \<and> accessible p) (mm_candidates m),
          ds_recentExams = take 5 (sort_newest ex_createdAt (filter (canAccessExam session) (mm_exams m)))\<rparr>)"

definition getDashboard :: "'d store_ctx \<Rightarrow> auth_session \<Rightarrow> ('d store, dashboard_summary) act" where
  "getDashboard c session =
     bindE (liftR (assertSessionCanViewExams session)) (\<lambda>_.
     with_fallback (seededDatabase c (find_dashboard c session)) (memory_of (memory_dashboard session)))"

section \<open>Saved evaluations\<close>

definition saved_report :: "report_input \<Rightarrow> competency_report \<Rightarrow> competency_report" where
  "saved_report input report = report\<lparr>rep_examSessionId := gr_examSessionId input, rep_examId := gr_examId input,
     rep_candidateId := gr_candidateId input\<rparr>"

definition saveCompetencyReport :: "'d store_ctx \<Rightarrow> report_input \<Rightarrow> competency_report \<Rightarrow> ('d store, competency_report) act" where
  "saveCompetencyReport c input report =
     with_fallback
       (seededDatabase c (mapped mapCompetencyReport (t_create (sc_competencyReports c) ((saved_report input report)\<lparr>rep_createdAt := sc_now c\<rparr>))))
       (bindE (set_memory (mm_competencyReports_update (\<lambda>reports. saved_report input report # reports))) (\<lambda>_.
        ret (saved_report input report)))"

section \<open>What a report says\<close>

lemma best_score_spec:
  "best_score submissions = Max (insert 0 (sub_score ` set submissions))"
proof -
  have "foldl (\<lambda>best submission. max best (sub_score submission)) b submissions = Max (insert b (sub_score ` set submissions))" for b
  proof (induction submissions arbitrary: b)
    case (Cons x xs)
    have "Max (insert (max b (sub_score x)) (sub_score ` set xs)) = max b (Max (insert (sub_score x) (sub_score ` set xs)))"
      by (cases "xs = []") (simp_all add: max.assoc)
    with Cons show ?case by (cases "xs = []") (simp_all add: max.assoc insert_commute)
  qed simp
  then show ?thesis by (simp add: best_score_def)
qed

lemma risk_is_sum: "calculateRiskScore types = sum_list (map risk_weight types)"
proof -
  have "foldl (\<lambda>score type. score + risk_weight type) b types = b + sum_list (map risk_weight types)" for b
    by (induction types arbitrary: b) simp_all
  then show ?thesis by (simp add: calculateRiskScore_def)
qed

text \<open>The rows of a report belong to its candidate, and its figures are those of its rows.\<close>

definition report_of_candidate :: "candidate_exam_report \<Rightarrow> bool" where
  "report_of_candidate r \<longleftrightarrow>
     (\<forall>x \<in> set (cr_submissions r). sub_candidateId x = cand_id (cr_candidate r)) \<and>
     (\<forall>x \<in> set (cr_executions r). ce_candidateId x = cand_id (cr_candidate r)) \<and>
     (\<forall>x \<in> set (cr_proctorEvents r). pe_candidateId x = cand_id (cr_candidate r)) \<and>
     (\<forall>x \<in> set (cr_proctorDevices r). pd_candidateId x = cand_id (cr_candidate r)) \<and>
     (\<forall>x \<in> set (cr_aiReports r). rep_candidateId x = cand_id (cr_candidate r)) \<and>
     (\<forall>x. cr_latestIdentityVerification r = Some x \<longrightarrow> iv_candidateId x = cand_id (cr_candidate r)) \<and>
     (\<forall>x. cr_latestEnvironmentCheck r = Some x \<longrightarrow> ec_candidateId x = cand_id (cr_candidate r)) \<and>
     sorted (map (\<lambda>x. - sub_submittedAt x) (cr_submissions r)) \<and> cr_latestSubmission r = head_opt (cr_submissions r) \<and>
     cr_bestScore r = Max (insert 0 (sub_score ` set (cr_submissions r))) \<and> cr_submissionCount r = int (length (cr_submissions r)) \<and>
     cr_riskScore r = sum_list (map (\<lambda>x. risk_weight (pe_type x)) (cr_proctorEvents r)) \<and>
     cr_riskLevel r = calculateRiskLevel (cr_riskScore r)"

lemma of_candidate_mem [simp]: "x \<in> set (of_candidate owner candidate rows) \<longleftrightarrow> x \<in> set rows \<and> owner x = cand_id candidate"
  by (auto simp: of_candidate_def)

lemma head_opt_in: "head_opt xs = Some x \<Longrightarrow> x \<in> set xs"
  by (cases xs) auto

lemma built_report:
  assumes "\<And>x. x \<in> set submissions \<Longrightarrow> sub_candidateId x = cand_id candidate"
    and "\<And>x. x \<in> set executions \<Longrightarrow> ce_candidateId x = cand_id candidate"
    and "\<And>x. x \<in> set events \<Longrightarrow> pe_candidateId x = cand_id candidate"
    and "\<And>x. x \<in> set devices \<Longrightarrow> pd_candidateId x = cand_id candidate"
    and "\<And>x. x \<in> set aiReports \<Longrightarrow> rep_candidateId x = cand_id candidate"
    and "\<And>x. x \<in> set identities \<Longrightarrow> iv_candidateId x = cand_id candidate"
    and "\<And>x. x \<in> set checks \<Longrightarrow> ec_candidateId x = cand_id candidate"
    and "sorted (map (\<lambda>x. - sub_submittedAt x) submissions)"
  shows "report_of_candidate (buildCandidateReport candidate submissions executions aiReports identities checks emails events devices actions)"
  using assms
  by (auto simp: report_of_candidate_def buildCandidateReport_def Let_def best_score_spec risk_is_sum comp_def dest: head_opt_in)

lemma database_report_of [simp]: "report_of_candidate (database_report rows candidate)"
  unfolding database_report_def
  by (rule built_report) (auto dest!: in_set_takeD simp: mapSubmission_def mapCodeExecution_def mapProctorEvent_def mapProctorDevice_def
      mapCompetencyReport_def mapIdentityVerification_def mapEnvironmentCheck_def mapCandidate_def comp_def sort_newest_sorted)

lemma memory_report_of [simp]: "report_of_candidate (memory_report m candidate)"
  unfolding memory_report_def by (rule built_report) (auto simp: sort_newest_sorted)

lemma reported_candidate [simp]:
  "cr_candidate (database_report rows candidate) = candidate" "cr_candidate (memory_report m candidate) = candidate"
  by (simp_all add: database_report_def memory_report_def buildCandidateReport_def Let_def)

lemma exam_report_in_store:
  assumes "good_tables c content" and "getExamReportInStore c examId session s = (Inr report, s')"
  shows "canAccessExam session (xr_exam report)" and "ex_id (xr_exam report) = examId"
    and "\<exists>candidates. answered_from c content s s' k_candidates mm_candidates candidates \<and>
      mset (map cr_candidate (xr_candidates report)) = mset (filter (\<lambda>p. cand_examId p = examId) candidates)"
    and "\<forall>r \<in> set (xr_candidates report). report_of_candidate r"
proof -
  have "canAccessExam session (xr_exam report) \<and> ex_id (xr_exam report) = examId \<and> (\<exists>candidates. answered_from c content s s' k_candidates mm_candidates candidates \<and>
      mset (map cr_candidate (xr_candidates report)) = mset (filter (\<lambda>p. cand_examId p = examId) candidates)) \<and>
      (\<forall>r \<in> set (xr_candidates report). report_of_candidate r)"
    using assms(2) [unfolded getExamReportInStore_def]
  proof (cases rule: with_seeded_cases)
    case (database d0 d)
    from database(3) obtain exam d1 candidates d2 rows where f: "t_find (sc_exams c) (\<lambda>e. ex_id e = examId) d0 = (Inr (Some exam), d1)"
      and many: "t_findMany (sc_candidates c) (\<lambda>p. cand_examId p = examId) d1 = (Inr candidates, d2)"
      and access: "canAccessExam session exam"
      and report: "report = \<lparr>xr_exam = exam, xr_candidates = map (database_report rows) (sort_oldest cand_createdAt candidates)\<rparr>"
      by (auto simp: find_exam_report_def store_Inr require_exam_Inr split: option.splits) blast+
    from good_find(2) [OF assms(1) f] have found: "List.find (\<lambda>e. ex_id e = examId) (k_exams (content d0)) = Some exam" and "d1 = d0" by simp_all
    then have exam: "ex_id exam = examId" "d1 = d0" using find_SomeD [OF found] by simp_all
    have "answered_from c content s s' k_candidates mm_candidates (k_candidates (content d0))"
      by (rule database_paths(3) [OF database(1,4,2)])
    moreover have "mset (map cr_candidate (xr_candidates report)) = mset (filter (\<lambda>p. cand_examId p = examId) (k_candidates (content d0)))"
      using good_findMany(4) [OF assms(1) many] by (simp add: report exam(2) sort_oldest_def comp_def)
    ultimately show ?thesis using access exam(1) by (auto simp: report)
  next
    case (memory s1)
    let ?candidates = "mm_candidates (st_memory s)"
    from memory(1) obtain exam where "List.find (\<lambda>e. ex_id e = examId) (mm_exams (st_memory s1)) = Some exam" and access: "canAccessExam session exam"
      and report: "report = \<lparr>xr_exam = exam, xr_candidates = map (memory_report (st_memory s1)) (filter (\<lambda>p. cand_examId p = examId) ?candidates)\<rparr>"
      and "s' = s1"
      by (auto simp: store_Inr require_exam_Inr memory(2))
    then have "answered_from c content s s' k_candidates mm_candidates ?candidates" and "ex_id exam = examId"
      using memory(3) by (auto simp: answered_from_def dest: find_SomeD)
    then show ?thesis using access by (intro conjI exI [of _ ?candidates]) (auto simp: report comp_def)
  qed
  then show "canAccessExam session (xr_exam report)" and "ex_id (xr_exam report) = examId"
    and "\<exists>candidates. answered_from c content s s' k_candidates mm_candidates candidates \<and>
      mset (map cr_candidate (xr_candidates report)) = mset (filter (\<lambda>p. cand_examId p = examId) candidates)"
    and "\<forall>r \<in> set (xr_candidates report). report_of_candidate r" by blast+
qed

text \<open>In a deployment the devices of the report are those of the database.\<close>

lemma rows_devices:
  assumes "good_tables c content" and "find_report_rows c candidates d = (Inr rows, d')"
  shows "set (rq_devices rows) \<subseteq> set (k_proctorDevices (content d))"
proof -
  let ?in = "\<lambda>owner r. owner r \<in> cand_id ` set candidates"
  from assms(2) obtain w x y z d1 d2 d3 d4 where "t_findMany (sc_submissions c) (?in sub_candidateId) d = (Inr w, d1)"
    "t_findMany (sc_codeExecutions c) (?in ce_candidateId) d1 = (Inr x, d2)"
    "t_findMany (sc_proctorEvents c) (?in pe_candidateId) d2 = (Inr y, d3)"
    "t_findMany (sc_proctorDevices c) (?in pd_candidateId) d3 = (Inr z, d4)" and "rq_devices rows = z"
    by (auto simp: find_report_rows_def Let_def store_Inr)
  then show ?thesis
    using good_findMany(15) [OF assms(1), of "?in sub_candidateId" d w d1] good_findMany(14) [OF assms(1), of "?in ce_candidateId" d1 x d2]
      good_findMany(6) [OF assms(1), of "?in pe_candidateId" d2 y d3] good_findMany(7) [OF assms(1), of "?in pd_candidateId" d3 z d4]
    by auto
qed

lemma deployed_report:
  assumes "good_tables c content" and "deployed c" and "getExamReportInStore c examId session s = (Inr report, s')"
    and "r \<in> set (xr_candidates report)" and "device \<in> set (cr_proctorDevices r)"
  shows "device \<in> set (k_proctorDevices (content (st_db s)))"
  using assms(3) [unfolded getExamReportInStore_def]
proof (cases rule: with_seeded_cases)
  case (database d0 d)
  from database(3) obtain exam d1 candidates d2 rows where f: "t_find (sc_exams c) (\<lambda>e. ex_id e = examId) d0 = (Inr (Some exam), d1)"
    and many: "t_findMany (sc_candidates c) (\<lambda>p. cand_examId p = examId) d1 = (Inr candidates, d2)"
    and rows: "find_report_rows c candidates d2 = (Inr rows, d)"
    and report: "report = \<lparr>xr_exam = exam, xr_candidates = map (database_report rows) (sort_oldest cand_createdAt candidates)\<rparr>"
    by (auto simp: find_exam_report_def store_Inr require_exam_Inr split: option.splits)
  have "d2 = st_db s"
    using good_find(2) [OF assms(1) f] good_findMany(4) [OF assms(1) many] database(2) by (simp add: deployed_seed [OF assms(2)] ret_def)
  moreover from assms(4,5) have "device \<in> set (rq_devices rows)"
    by (auto simp: report database_report_def buildCandidateReport_def Let_def)
  ultimately show ?thesis using rows_devices [OF assms(1) rows] by auto
next
  case (memory s1)
  with deployed_fallback(2) [OF assms(2)] show ?thesis by blast
qed

text \<open>The report of an exam goes to its managers only; it lists exactly the candidates of the exam, each with the own
  results only, the best score, and a risk that is the weighted sum of the events.\<close>

theorem exam_report_is_scoped:
  assumes "good_tables c content" and "getExamReport c examId session s = (Inr report, s')"
  shows "usr_role (as_user session) \<in> {ADMIN, ORGANIZATION} \<and> canAccessExam session (xr_exam report) \<and> ex_id (xr_exam report) = examId \<and>
    (\<exists>s1 candidates. markStaleProctorDevicesInStore c examId s = (Inr (), s1) \<and>
      answered_from c content s1 s' k_candidates mm_candidates candidates \<and>
      mset (map cr_candidate (xr_candidates report)) = mset (filter (\<lambda>p. cand_examId p = examId) candidates)) \<and>
    (\<forall>r \<in> set (xr_candidates report). report_of_candidate r)"
proof -
  from assms(2) obtain s1 where role: "usr_role (as_user session) \<in> {ADMIN, ORGANIZATION}"
    and mark: "markStaleProctorDevicesInStore c examId s = (Inr (), s1)" and get: "getExamReportInStore c examId session s1 = (Inr report, s')"
    by (auto simp: getExamReport_def store_Inr manages_Inr)
  note facts = exam_report_in_store [OF assms(1) get]
  from facts(3) mark role facts(1,2,4) show ?thesis by blast
qed

text \<open>C31. In a deployment the live view of an exam lists exactly its candidates, the riskiest first and equal ones in the
  order of the report, the risk of each being the weighted sum of the events; no device of the exam with an overdue
  heartbeat is shown as connected.\<close>

theorem live_view_is_current:
  assumes "good_tables c content" and "deployed c" and "devices_wf (k_proctorDevices (content (st_db s)))"
    and "getLiveProctorState c examId session s = (Inr live, s')"
  shows "usr_role (as_user session) \<in> {ADMIN, ORGANIZATION, PROCTOR} \<and> canAccessExam session (le_exam live) \<and> ex_id (le_exam live) = examId \<and>
    mset (map lc_candidate (le_candidates live)) = mset (filter (\<lambda>p. cand_examId p = examId) (k_candidates (content (st_db s)))) \<and>
    sorted (map (\<lambda>x. - lc_riskScore x) (le_candidates live)) \<and>
    (\<exists>s1 report. getExamReportInStore c examId session s1 = (Inr report, s') \<and>
      (\<forall>k. filter (\<lambda>x. lc_riskScore x = k) (le_candidates live) = filter (\<lambda>x. lc_riskScore x = k) (map live_of (xr_candidates report)))) \<and>
    (\<forall>x \<in> set (le_candidates live). lc_riskScore x = sum_list (map (\<lambda>e. risk_weight (pe_type e)) (lc_proctorEvents x)) \<and>
      (\<forall>d \<in> set (lc_proctorDevices x). pd_candidateId d = cand_id (lc_candidate x) \<and> \<not> is_stale examId (stale_before c) d))"
proof -
  from assms(4) obtain s1 report where role: "usr_role (as_user session) \<in> {ADMIN, ORGANIZATION, PROCTOR}"
    and mark: "markStaleProctorDevicesInStore c examId s = (Inr (), s1)" and get: "getExamReportInStore c examId session s1 = (Inr report, s')"
    and live: "live = buildLiveProctorState report"
    by (auto simp: getLiveProctorState_def store_Inr assertSessionCanProctor_def split: if_splits)
  obtain es where after: "content (st_db s1) = k_proctorEvents_update (\<lambda>rs. rs @ es) (k_proctorDevices_update
      (replace_where (is_stale examId (stale_before c)) (disconnect_device c)) (content (st_db s)))"
    using deployed_mark [OF assms(1,2) mark assms(3)] by metis
  note facts = exam_report_in_store [OF assms(1) get]
  from facts(3) have candidates: "mset (map cr_candidate (xr_candidates report)) =
      mset (filter (\<lambda>p. cand_examId p = examId) (k_candidates (content (st_db s))))"
    by (auto simp: answered_from_def deployed_fallback(2) [OF assms(2)] deployed_seed [OF assms(2)] ret_def after)
  have current: "\<not> is_stale examId (stale_before c) d" if "r \<in> set (xr_candidates report)" "d \<in> set (cr_proctorDevices r)" for r d
    using deployed_report [OF assms(1,2) get that] not_stale_after [of examId "stale_before c" c "k_proctorDevices (content (st_db s))"]
    by (auto simp: after filter_empty_conv)
  have stable: "filter (\<lambda>x. lc_riskScore x = k) (sort_key (\<lambda>item. - lc_riskScore item) xs) = filter (\<lambda>x. lc_riskScore x = k) xs" for k xs
    using sort_key_stable [of "\<lambda>item. - lc_riskScore item" "- k" xs] by simp
  have listed: "mset (map lc_candidate (le_candidates live)) = mset (map cr_candidate (xr_candidates report))"
    by (simp add: live buildLiveProctorState_def live_of_def multiset.map_comp comp_def)
  have each: "lc_riskScore x = sum_list (map (\<lambda>e. risk_weight (pe_type e)) (lc_proctorEvents x)) \<and>
      (\<forall>d \<in> set (lc_proctorDevices x). pd_candidateId d = cand_id (lc_candidate x) \<and> \<not> is_stale examId (stale_before c) d)"
    if x: "x \<in> set (le_candidates live)" for x
  proof -
    from x obtain r where r: "r \<in> set (xr_candidates report)" and x: "x = live_of r" by (auto simp: live buildLiveProctorState_def)
    from r facts(4) have "report_of_candidate r" by blast
    then show ?thesis using current [OF r] by (simp add: x live_of_def report_of_candidate_def)
  qed
  have "le_exam live = xr_exam report" "sorted (map (\<lambda>x. - lc_riskScore x) (le_candidates live))"
    and "filter (\<lambda>x. lc_riskScore x = k) (le_candidates live) = filter (\<lambda>x. lc_riskScore x = k) (map live_of (xr_candidates report))" for k
    unfolding live buildLiveProctorState_def by (simp_all add: stable)
  then show ?thesis using role facts(1,2) get each unfolding listed candidates by auto
qed

section \<open>Witnesses\<close>

lemma run_report:
  obtains r where "getExamReportInStore (production_ctx 95000) ''e1'' sample_manager (store_of workspace_contents) =
     (Inr \<lparr>xr_exam = sample_exam, xr_candidates = [r]\<rparr>, store_of workspace_contents)" and "map pd_id (cr_proctorDevices r) = [''d1'']"
proof -
  have "assertSessionCanAccessExam sample_manager (ex_organizationId sample_exam) = Inr ()"
    by (simp add: assertSessionCanAccessExam_def)
  then have "\<exists>r. getExamReportInStore (production_ctx 95000) ''e1'' sample_manager (store_of workspace_contents) =
     (Inr \<lparr>xr_exam = sample_exam, xr_candidates = [r]\<rparr>, store_of workspace_contents) \<and> map pd_id (cr_proctorDevices r) = [''d1'']"
    by (simp add: getExamReportInStore_def find_exam_report_def find_report_rows_def run_simps require_exam_def sort_oldest_def Let_def Collect_conv_if)
      (simp add: database_report_def buildCandidateReport_def Let_def of_candidate_def sample_exam_def sample_device_def)
  then show ?thesis using that by (elim exE conjE)
qed

lemma exam_report_is_scoped_witness:
  "\<exists>report s'. getExamReport (production_ctx 95000) ''e1'' sample_manager (store_of workspace_contents) = (Inr report, s') \<and>
     list_all report_of_candidate (xr_candidates report) \<and> length (xr_candidates report) = 1"
proof -
  obtain r where "getExamReportInStore (production_ctx 95000) ''e1'' sample_manager (store_of workspace_contents) =
     (Inr \<lparr>xr_exam = sample_exam, xr_candidates = [r]\<rparr>, store_of workspace_contents)"
    by (rule run_report)
  then have run: "getExamReport (production_ctx 95000) ''e1'' sample_manager (store_of workspace_contents) =
     (Inr \<lparr>xr_exam = sample_exam, xr_candidates = [r]\<rparr>, store_of workspace_contents)"
    by (simp add: getExamReport_def bindE_apply run_mark liftR_apply assertSessionCanManageExams_def)
  have "\<forall>r \<in> set (xr_candidates \<lparr>xr_exam = sample_exam, xr_candidates = [r]\<rparr>). report_of_candidate r"
    using exam_report_is_scoped [OF good_plain run] by blast
  then have "list_all report_of_candidate (xr_candidates \<lparr>xr_exam = sample_exam, xr_candidates = [r]\<rparr>)" by (simp only: list_all_iff)
  then show ?thesis by (intro exI conjI) (rule run, simp_all)
qed

lemma live_view_is_current_witness:
  "\<exists>live s'. getLiveProctorState (production_ctx 95000) ''e1'' sample_manager (store_of workspace_contents) = (Inr live, s') \<and>
     map lc_candidate (le_candidates live) = [sample_candidate] \<and> map pd_id (lc_proctorDevices (hd (le_candidates live))) = [''d1'']"
proof -
  obtain r where "getExamReportInStore (production_ctx 95000) ''e1'' sample_manager (store_of workspace_contents) =
     (Inr \<lparr>xr_exam = sample_exam, xr_candidates = [r]\<rparr>, store_of workspace_contents)" and r: "map pd_id (cr_proctorDevices r) = [''d1'']"
    by (rule run_report)
  then have run: "getLiveProctorState (production_ctx 95000) ''e1'' sample_manager (store_of workspace_contents) =
     (Inr (buildLiveProctorState \<lparr>xr_exam = sample_exam, xr_candidates = [r]\<rparr>), store_of workspace_contents)"
    by (simp add: getLiveProctorState_def bindE_apply run_mark liftR_apply assertSessionCanProctor_def ret_apply)
  let ?live = "buildLiveProctorState \<lparr>xr_exam = sample_exam, xr_candidates = [r]\<rparr>"
  have "mset (map lc_candidate (le_candidates ?live)) = mset (filter (\<lambda>p. cand_examId p = ''e1'') (k_candidates (id (st_db (store_of workspace_contents)))))"
    using live_view_is_current [OF good_plain deployed_production workspace_devices_wf run] by blast
  then have "map lc_candidate (le_candidates ?live) = [sample_candidate]"
    by (simp add: buildLiveProctorState_def)
  moreover from r have "map pd_id (lc_proctorDevices (hd (le_candidates ?live))) = [''d1'']" by (simp add: buildLiveProctorState_def live_of_def)
  ultimately show ?thesis by (intro exI conjI) (rule run)
qed

end
