(* ===== verification/AiEvaluation.thy ===== *)
theory AiEvaluation
  imports Report Kyc
begin

text \<open>
  The evaluation of candidates (\<open>ai-evaluation.service.ts\<close>, \<open>ai.controller.ts\<close>): a report computed from the signals of
  the exam, or taken from an external service whose answer is checked field by field, for every candidate of an exam.
  The texts are English. \<open>Math.round\<close> works on doubles.
\<close>

section \<open>The computed report\<close>

definition pass_rate :: "report_signals \<Rightarrow> int" where
  "pass_rate g = (if rs_passedTests g + rs_failedTests g = 0 then 70 else percent_of (rs_passedTests g) (rs_passedTests g + rs_failedTests g))"

definition half_of :: "int \<Rightarrow> int \<Rightarrow> int" where
  "half_of a b = round_half_up (double (of_int (a + b) / 2))"

definition sixth_of :: "int \<Rightarrow> int" where
  "sixth_of points = round_half_up (double (of_int points / 6))"

definition local_summary :: "report_signals \<Rightarrow> string" where
  "local_summary g = int_text (rs_submissions g) @ '' submissions, '' @ int_text (rs_codeRuns g) @ '' runs, '' @
     int_text (rs_failedTests g) @ '' failed tests and risk '' @ int_text (rs_riskScore g) @ '' were weighed.''"

definition localReport :: "string \<Rightarrow> time \<Rightarrow> report_input \<Rightarrow> competency_report" where
  "localReport reportId now input =
     (let g = gr_signals input;
          passRate = pass_rate g;
          integrityScore = max 0 (100 - rs_riskScore g);
          codeQualityScore = max 55 (88 - rs_pasteEvents g * 4);
          timeManagementScore = max 45 (92 - max 0 (rs_elapsedMinutes g - 60));
          debuggingScore = min 95 (65 + rs_codeRuns g * 3 - rs_failedTests g * 2);
          implementationScore = half_of passRate codeQualityScore;
          problemSolvingScore = half_of passRate timeManagementScore;
          overallScore = sixth_of (problemSolvingScore + implementationScore + debuggingScore + codeQualityScore + timeManagementScore + integrityScore)
      in \<lparr>rep_id = reportId, rep_examSessionId = gr_examSessionId input, rep_candidateId = gr_candidateId input, rep_examId = gr_examId input,
          rep_problemSolvingScore = of_int problemSolvingScore, rep_implementationScore = of_int implementationScore,
          rep_debuggingScore = of_int debuggingScore, rep_codeQualityScore = of_int codeQualityScore,
          rep_timeManagementScore = of_int timeManagementScore, rep_integrityScore = of_int integrityScore,
          rep_overallScore = of_int overallScore, rep_aiSummary = local_summary g,
          rep_strengths = [if passRate \<ge> 70 then ''stable pass rate'' else ''completed the required steps'',
            if rs_codeRuns g \<ge> 2 then ''verified by repeated runs'' else ''concise runs'',
            if integrityScore \<ge> 85 then ''low risk of misconduct'' else ''signals for a review''],
          rep_improvementAreas = [if rs_failedTests g > 0 then int_text (rs_failedTests g) @ '' failed tests to review'' else ''boundary values'',
            if rs_pasteEvents g > 0 then ''paste events to review'' else ''a short explanation'',
            if rs_riskScore g \<ge> 20 then ''risk to be confirmed'' else ''time and debugging in the interview''],
          rep_recommendations = [if overallScore \<ge> 80 then ''design interview'' else ''further review'',
            if rs_failedTests g > 0 then ''review the failed tests together'' else ''discuss code quality'',
            if rs_riskScore g \<ge> 20 then ''check the proctor events'' else ''no need to escalate''],
          rep_createdAt = now\<rparr>)"

section \<open>The external report\<close>

definition aiRequiredScore :: "json option \<Rightarrow> rat res" where
  "aiRequiredScore v = (case v of
       Some (JNum q) \<Rightarrow> if q < 0 \<or> q > 100 then Inl (OtherError ''ai score'') else Inr q
     | _ \<Rightarrow> Inl (OtherError ''ai score''))"

definition aiRequiredText :: "nat \<Rightarrow> json option \<Rightarrow> string res" where
  "aiRequiredText maxLength v = (case v of
       Some (JStr t) \<Rightarrow> if trim t = [] \<or> length t > maxLength then Inl (OtherError ''ai text'') else Inr t
     | _ \<Rightarrow> Inl (OtherError ''ai text''))"

definition list_text :: "json \<Rightarrow> string option" where
  "list_text v = (case v of JStr t \<Rightarrow> if trim t = [] \<or> length t > 500 then None else Some t | _ \<Rightarrow> None)"

definition aiRequiredTextList :: "json option \<Rightarrow> string list res" where
  "aiRequiredTextList v = (case v of
       Some (JArr items) \<Rightarrow> if length items > 20 \<or> list_ex (\<lambda>item. list_text item = None) items then Inl (OtherError ''ai list'')
         else Inr (map (\<lambda>item. the (list_text item)) items)
     | _ \<Rightarrow> Inl (OtherError ''ai list''))"

definition parseExternalReport :: "time \<Rightarrow> report_input \<Rightarrow> json \<Rightarrow> competency_report res" where
  "parseExternalReport now input answer =
     (let field = readUnknown answer in
      bindR (guardR (case answer of JObj _ \<Rightarrow> True | _ \<Rightarrow> False) (OtherError ''ai answer'')) (\<lambda>_.
      bindR (aiRequiredText 128 (field ''id'')) (\<lambda>reportId.
      bindR (aiRequiredScore (field ''problemSolvingScore'')) (\<lambda>problemSolvingScore.
      bindR (aiRequiredScore (field ''implementationScore'')) (\<lambda>implementationScore.
      bindR (aiRequiredScore (field ''debuggingScore'')) (\<lambda>debuggingScore.
      bindR (aiRequiredScore (field ''codeQualityScore'')) (\<lambda>codeQualityScore.
      bindR (aiRequiredScore (field ''timeManagementScore'')) (\<lambda>timeManagementScore.
      bindR (aiRequiredScore (field ''integrityScore'')) (\<lambda>integrityScore.
      bindR (aiRequiredScore (field ''overallScore'')) (\<lambda>overallScore.
      bindR (aiRequiredText 5000 (field ''aiSummary'')) (\<lambda>aiSummary.
      bindR (aiRequiredTextList (field ''strengths'')) (\<lambda>strengths.
      bindR (aiRequiredTextList (field ''improvementAreas'')) (\<lambda>improvementAreas.
      bindR (aiRequiredTextList (field ''recommendations'')) (\<lambda>recommendations.
      Inr \<lparr>rep_id = reportId, rep_examSessionId = gr_examSessionId input, rep_candidateId = gr_candidateId input, rep_examId = gr_examId input,
        rep_problemSolvingScore = problemSolvingScore, rep_implementationScore = implementationScore, rep_debuggingScore = debuggingScore,
        rep_codeQualityScore = codeQualityScore, rep_timeManagementScore = timeManagementScore, rep_integrityScore = integrityScore,
        rep_overallScore = overallScore, rep_aiSummary = aiSummary, rep_strengths = strengths, rep_improvementAreas = improvementAreas,
        rep_recommendations = recommendations, rep_createdAt = now\<rparr>))))))))))))))"

section \<open>The service\<close>

record ai_request =
  aq_key :: "string option"
  aq_input :: report_input

definition generateReport :: "ai_request network \<Rightarrow> env \<Rightarrow> string \<Rightarrow> time \<Rightarrow> report_input \<Rightarrow> competency_report res" where
  "generateReport nw env reportId now input =
     (if truthy (env ''AI_API_BASE_URL'')
      then bindR (unavailable ''ai service unreachable''
             (secureOutboundFetch (nw_parseUrl nw) (nw_lookup nw) (nw_isIP nw) (nw_check nw)
               (nw_fetch nw \<lparr>aq_key = (if truthy (env ''AI_API_KEY'') then env ''AI_API_KEY'' else None), aq_input = input\<rparr>) env
               (strip_slash (the (env ''AI_API_BASE_URL'')) @ ''/api/ai/report/generate''))) (\<lambda>response.
           if \<not> hr_ok response then Inl (ServiceUnavailable ''ai call failed'')
           else unavailable ''ai answer'' (bindR (readBoundedJson nw response) (parseExternalReport now input)))
      else Inr (localReport reportId now input))"

text \<open>\<open>Promise.all\<close>: every task runs, here in the order of the list; the first failure is the answer.\<close>

fun promise_all :: "('a \<Rightarrow> ('s, 'b) act) \<Rightarrow> 'a list \<Rightarrow> ('s, 'b list) act" where
  "promise_all f [] s = (Inr [], s)"
| "promise_all f (x # xs) s =
     (let (r, s1) = f x s; (rs, s2) = promise_all f xs s1 in (bindR r (\<lambda>y. bindR rs (\<lambda>ys. Inr (y # ys))), s2))"

definition report_signals_of :: "exam \<Rightarrow> candidate_exam_report \<Rightarrow> report_signals" where
  "report_signals_of exam r =
     (let passedTests = sum_list (map sub_passedTests (cr_submissions r)); totalTests = sum_list (map sub_totalTests (cr_submissions r))
      in \<lparr>rs_submissions = cr_submissionCount r, rs_passedTests = passedTests, rs_failedTests = max 0 (totalTests - passedTests),
          rs_codeRuns = cr_executionCount r, rs_pasteEvents = count_rows (\<lambda>e. pe_type e = PASTE) (cr_proctorEvents r),
          rs_riskScore = cr_riskScore r, rs_elapsedMinutes = ex_durationMinutes exam\<rparr>)"

definition report_input_of :: "string \<Rightarrow> exam \<Rightarrow> candidate_exam_report \<Rightarrow> report_input" where
  "report_input_of examId exam r = \<lparr>gr_examSessionId = examId @ ''_'' @ cand_id (cr_candidate r), gr_candidateId = cand_id (cr_candidate r),
     gr_examId = examId, gr_signals = report_signals_of exam r\<rparr>"

definition evaluate_candidate ::
  "ai_request network \<Rightarrow> 'd store_ctx \<Rightarrow> string \<Rightarrow> exam \<Rightarrow> nat \<times> candidate_exam_report \<Rightarrow> ('d store, competency_report) act" where
  "evaluate_candidate nw c examId exam = (\<lambda>(n, r).
     (let input = report_input_of examId exam r
      in bindE (liftR (generateReport nw (sc_env c) (createId c n ''report'') (sc_now c) input)) (\<lambda>aiReport.
         saveCompetencyReport c input aiReport)))"

definition generateExamReports ::
  "ai_request network \<Rightarrow> 'd store_ctx \<Rightarrow> string \<Rightarrow> auth_session \<Rightarrow> ('d store, competency_report list) act" where
  "generateExamReports nw c examId session =
     bindE (getExamReport c examId session) (\<lambda>report.
     promise_all (evaluate_candidate nw c examId (xr_exam report)) (enumerate 0 (xr_candidates report)))"

section \<open>The scores\<close>

definition signals_wf :: "report_signals \<Rightarrow> bool" where
  "signals_wf g \<longleftrightarrow> 0 \<le> rs_passedTests g \<and> 0 \<le> rs_failedTests g \<and> 0 \<le> rs_codeRuns g \<and> 0 \<le> rs_pasteEvents g \<and>
     0 \<le> rs_riskScore g \<and> 0 \<le> rs_elapsedMinutes g"

lemma pass_rate_bounds: "signals_wf g \<Longrightarrow> 0 \<le> pass_rate g \<and> pass_rate g \<le> 100"
  using percent_of_bounds [of "rs_passedTests g" "rs_passedTests g + rs_failedTests g"]
  by (auto simp: pass_rate_def signals_wf_def)

lemma double_uminus: "double (- q) = - double q"
  by (simp add: double_def Let_def sgn_if)

lemma round_double_nonneg: "0 \<le> q \<Longrightarrow> 0 \<le> round_half_up (double q)"
  using double_nonneg [of q] by (simp add: round_half_up_def)

lemma round_double_upper:
  assumes "q \<le> of_int n + 1 / 3" and "0 \<le> n" and "n \<le> 1000"
  shows "round_half_up (double q) \<le> n"
proof (cases "0 \<le> q")
  case True
  have "q / 2 ^ 53 \<le> 1001 / 2 ^ 53" using assms by (intro divide_right_mono) (auto simp: order_trans [OF assms(1)])
  also have "\<dots> < (1 / 6 :: rat)" by simp
  finally have "double q < of_int n + 1 / 3 + 1 / 6" using double_upper [OF True] assms(1) by linarith
  then show ?thesis by (simp add: round_half_up_def floor_le_iff)
next
  case False
  then have "double q \<le> 0" using double_nonneg [of "- q"] by (simp add: double_uminus)
  then have "round_half_up (double q) \<le> 0" by (simp add: round_half_up_def floor_le_iff)
  with assms(2) show ?thesis by linarith
qed

lemma half_of_bounds:
  assumes "0 \<le> a" and "0 \<le> b" and "a + b \<le> 2 * n" and "n \<le> 1000"
  shows "0 \<le> half_of a b \<and> half_of a b \<le> n"
proof -
  have "of_int (a + b) \<le> (of_int (2 * n) :: rat)" using assms(3) by (simp only: of_int_le_iff)
  then have "of_int (a + b) / 2 \<le> (of_int n :: rat) + 1 / 3" by simp
  then show ?thesis unfolding half_of_def using assms
    by (intro conjI round_double_nonneg round_double_upper) simp_all
qed

lemma sixth_of_upper: "total \<le> 6 * n + 2 \<Longrightarrow> 0 \<le> n \<Longrightarrow> n \<le> 1000 \<Longrightarrow> sixth_of total \<le> n" for total n :: int
proof -
  assume "total \<le> 6 * n + 2" and n: "0 \<le> n" "n \<le> 1000"
  then have "of_int total \<le> (of_int (6 * n + 2) :: rat)" by (simp only: of_int_le_iff)
  then have "of_int total / 6 \<le> (of_int n :: rat) + 1 / 3" by simp
  with n show ?thesis unfolding sixth_of_def by (intro round_double_upper)
qed

definition scores_of :: "competency_report \<Rightarrow> rat list" where
  "scores_of r = [rep_problemSolvingScore r, rep_implementationScore r, rep_debuggingScore r, rep_codeQualityScore r,
     rep_timeManagementScore r, rep_integrityScore r, rep_overallScore r]"

definition local_bounds :: "competency_report \<Rightarrow> bool" where
  "local_bounds r \<longleftrightarrow> 0 \<le> rep_problemSolvingScore r \<and> rep_problemSolvingScore r \<le> 96 \<and> 0 \<le> rep_implementationScore r \<and>
     rep_implementationScore r \<le> 94 \<and> rep_debuggingScore r \<le> 95 \<and> 55 \<le> rep_codeQualityScore r \<and> rep_codeQualityScore r \<le> 88 \<and>
     45 \<le> rep_timeManagementScore r \<and> rep_timeManagementScore r \<le> 92 \<and> 0 \<le> rep_integrityScore r \<and> rep_integrityScore r \<le> 100 \<and>
     rep_overallScore r \<le> 94"

lemma localReport_bounds:
  assumes "signals_wf (gr_signals input)"
  shows "local_bounds (localReport reportId now input)"
proof -
  let ?g = "gr_signals input"
  define cq tm dbg integrity where "cq = max 55 (88 - rs_pasteEvents ?g * 4)" and "tm = max 45 (92 - max 0 (rs_elapsedMinutes ?g - 60))"
    and "dbg = min 95 (65 + rs_codeRuns ?g * 3 - rs_failedTests ?g * 2)" and "integrity = max 0 (100 - rs_riskScore ?g)"
  note p = pass_rate_bounds [OF assms]
  have b: "55 \<le> cq" "cq \<le> 88" "45 \<le> tm" "tm \<le> 92" "dbg \<le> 95" "0 \<le> integrity" "integrity \<le> 100"
    using assms by (auto simp: cq_def tm_def dbg_def integrity_def signals_wf_def)
  have impl: "0 \<le> half_of (pass_rate ?g) cq \<and> half_of (pass_rate ?g) cq \<le> 94"
    and ps: "0 \<le> half_of (pass_rate ?g) tm \<and> half_of (pass_rate ?g) tm \<le> 96"
    using p b by (intro half_of_bounds; simp)+
  have "sixth_of (half_of (pass_rate ?g) tm + half_of (pass_rate ?g) cq + dbg + cq + tm + integrity) \<le> 94"
    using impl ps b by (intro sixth_of_upper) simp_all
  then have "of_int (sixth_of (half_of (pass_rate ?g) tm + half_of (pass_rate ?g) cq + dbg + cq + tm + integrity)) \<le> (94 :: rat)"
    by (metis of_int_le_iff of_int_numeral)
  moreover have "0 \<le> (of_int (half_of (pass_rate ?g) tm) :: rat)" "of_int (half_of (pass_rate ?g) tm) \<le> (96 :: rat)"
    "0 \<le> (of_int (half_of (pass_rate ?g) cq) :: rat)" "of_int (half_of (pass_rate ?g) cq) \<le> (94 :: rat)" "of_int dbg \<le> (95 :: rat)"
    "55 \<le> (of_int cq :: rat)" "of_int cq \<le> (88 :: rat)" "45 \<le> (of_int tm :: rat)" "of_int tm \<le> (92 :: rat)"
    "0 \<le> (of_int integrity :: rat)" "of_int integrity \<le> (100 :: rat)"
    using impl ps b by simp_all
  ultimately show ?thesis
    unfolding local_bounds_def localReport_def Let_def cq_def [symmetric] tm_def [symmetric] dbg_def [symmetric] integrity_def [symmetric]
    by (simp only: competency_report.simps)
qed

lemma unavailable_Inr: "unavailable message r = Inr x \<longleftrightarrow> r = Inr x"
  by (cases r) (simp_all add: unavailable_def)

lemma aiRequiredScore_Inr: "aiRequiredScore v = Inr q \<Longrightarrow> 0 \<le> q \<and> q \<le> 100"
  by (auto simp: aiRequiredScore_def split: option.splits json.splits if_splits)

lemma external_report:
  assumes "parseExternalReport now input answer = Inr r"
  shows "\<forall>score \<in> set (scores_of r). 0 \<le> score \<and> score \<le> 100" and "rep_candidateId r = gr_candidateId input" and "rep_examId r = gr_examId input"
    and "rep_examSessionId r = gr_examSessionId input"
  using assms by (auto simp: parseExternalReport_def Let_def bindR_eq_Inr scores_of_def dest!: aiRequiredScore_Inr)

lemma external_generated:
  assumes "truthy (env ''AI_API_BASE_URL'')" and "generateReport nw env reportId now input = Inr r"
  obtains answer where "parseExternalReport now input answer = Inr r"
  using assms by (auto simp: generateReport_def bindR_eq_Inr unavailable_Inr split: if_splits)

lemma generated_for:
  assumes "generateReport nw env reportId now input = Inr r"
  shows "rep_candidateId r = gr_candidateId input \<and> rep_examId r = gr_examId input \<and> rep_examSessionId r = gr_examSessionId input \<and>
    (if truthy (env ''AI_API_BASE_URL'') then \<forall>score \<in> set (scores_of r). 0 \<le> score \<and> score \<le> 100 else r = localReport reportId now input)"
proof (cases "truthy (env ''AI_API_BASE_URL'')")
  case True
  obtain answer where "parseExternalReport now input answer = Inr r" by (rule external_generated [OF True assms])
  from external_report [OF this] True show ?thesis by simp
next
  case False
  with assms have "r = localReport reportId now input" by (simp add: generateReport_def)
  with False show ?thesis by (simp add: localReport_def Let_def)
qed

text \<open>An evaluation is filed under the candidate, exam and session of the request, whatever an external service
  answers. The scores of an external service are between 0 and 100; the computed ones are within their ranges, only the
  debugging score and the overall score have no lower bound.\<close>

theorem evaluation_scores_are_bounded:
  assumes "generateReport nw env reportId now input = Inr r" and "signals_wf (gr_signals input)"
  shows "rep_candidateId r = gr_candidateId input \<and> rep_examId r = gr_examId input \<and> rep_examSessionId r = gr_examSessionId input \<and>
    (if truthy (env ''AI_API_BASE_URL'') then list_all (\<lambda>score. 0 \<le> score \<and> score \<le> 100) (scores_of r)
     else local_bounds r \<and> rep_id r = reportId \<and> rep_createdAt r = now)"
proof -
  have "rep_id (localReport reportId now input) = reportId \<and> rep_createdAt (localReport reportId now input) = now"
    by (simp add: localReport_def Let_def)
  with generated_for [OF assms(1)] localReport_bounds [OF assms(2), of reportId now] show ?thesis
    by (simp add: list_all_iff split: if_splits)
qed

section \<open>Every candidate of an exam\<close>

lemma promise_all_appends:
  assumes "promise_all f xs s = (Inr ys, s')"
    and "\<And>x s y s'. x \<in> set xs \<Longrightarrow> f x s = (Inr y, s') \<Longrightarrow> P x y \<and> g s' = g s @ [y]"
  shows "list_all2 P xs ys \<and> g s' = g s @ ys"
  using assms
proof (induction xs arbitrary: s ys)
  case (Cons x xs)
  obtain r s1 rs s2 where f: "f x s = (r, s1)" and rest: "promise_all f xs s1 = (rs, s2)" by fastforce
  with Cons.prems(1) obtain y zs where "r = Inr y" "rs = Inr zs" "ys = y # zs" "s' = s2" by (auto simp: bindR_eq_Inr)
  with Cons.IH [of s1 zs] Cons.prems(2) [of x s y s1] Cons.prems(2) f rest show ?case by auto
qed simp

lemma saved_in_deployment:
  assumes "good_tables c content" and "deployed c" and "saveCompetencyReport c input report s = (Inr x, s')"
  shows "x = (saved_report input report)\<lparr>rep_createdAt := sc_now c\<rparr>"
    and "k_competencyReports (content (st_db s')) = k_competencyReports (content (st_db s)) @ [x]"
proof -
  have "x = (saved_report input report)\<lparr>rep_createdAt := sc_now c\<rparr> \<and> k_competencyReports (content (st_db s')) = k_competencyReports (content (st_db s)) @ [x]"
    using assms(3) [unfolded saveCompetencyReport_def]
  proof (cases rule: with_seeded_cases)
    case (database d0 d)
    then have create: "t_create (sc_competencyReports c) ((saved_report input report)\<lparr>rep_createdAt := sc_now c\<rparr>) (st_db s) = (Inr x, d)"
      by (auto simp: mapped_eq_Inr deployed_seed [OF assms(2)] ret_def)
    from store_part.create_InrD [OF good_competencyReports [OF assms(1)] create] database(4) show ?thesis by simp
  next
    case (memory s1)
    with deployed_fallback(2) [OF assms(2)] show ?thesis by blast
  qed
  then show "x = (saved_report input report)\<lparr>rep_createdAt := sc_now c\<rparr>"
    and "k_competencyReports (content (st_db s')) = k_competencyReports (content (st_db s)) @ [x]" by simp_all
qed

definition evaluation_of :: "ai_request network \<Rightarrow> 'd store_ctx \<Rightarrow> string \<Rightarrow> exam \<Rightarrow> candidate_exam_report \<Rightarrow> competency_report \<Rightarrow> bool" where
  "evaluation_of nw c examId exam r x \<longleftrightarrow> rep_candidateId x = cand_id (cr_candidate r) \<and> rep_examId x = examId \<and>
     (\<exists>n generated. generateReport nw (sc_env c) (createId c n ''report'') (sc_now c) (report_input_of examId exam r) = Inr generated \<and>
        scores_of x = scores_of generated)"

text \<open>C32. In a deployment the evaluation of an exam returns one report for every candidate of the exam report, in its order,
  with the scores generated from the own results of that candidate, and appends exactly these to the saved ones.\<close>

theorem every_candidate_is_evaluated:
  assumes "good_tables c content" and "deployed c" and "generateExamReports nw c examId session s = (Inr reports, s')"
  shows "\<exists>report s1. getExamReport c examId session s = (Inr report, s1) \<and>
    list_all2 (evaluation_of nw c examId (xr_exam report)) (xr_candidates report) reports \<and>
    k_competencyReports (content (st_db s')) = k_competencyReports (content (st_db s1)) @ reports"
proof -
  from assms(3) obtain report s1 where report: "getExamReport c examId session s = (Inr report, s1)"
    and all: "promise_all (evaluate_candidate nw c examId (xr_exam report)) (enumerate 0 (xr_candidates report)) s1 = (Inr reports, s')"
    by (auto simp: generateExamReports_def bindE_eq_Inr)
  have "list_all2 (\<lambda>(n, r). evaluation_of nw c examId (xr_exam report) r) (enumerate 0 (xr_candidates report)) reports \<and>
      k_competencyReports (content (st_db s')) = k_competencyReports (content (st_db s1)) @ reports"
  proof (rule promise_all_appends [OF all])
    fix x s y s'
    assume "evaluate_candidate nw c examId (xr_exam report) x s = (Inr y, s')"
    then obtain n r generated where x: "x = (n, r)"
      and gen: "generateReport nw (sc_env c) (createId c n ''report'') (sc_now c) (report_input_of examId (xr_exam report) r) = Inr generated"
      and save: "saveCompetencyReport c (report_input_of examId (xr_exam report) r) generated s = (Inr y, s')"
      by (cases x) (auto simp: evaluate_candidate_def Let_def store_Inr)
    from saved_in_deployment [OF assms(1,2) save] gen
    show "(case x of (n, r) \<Rightarrow> evaluation_of nw c examId (xr_exam report) r) y \<and>
        k_competencyReports (content (st_db s')) = k_competencyReports (content (st_db s)) @ [y]"
      by (auto simp: x evaluation_of_def saved_report_def report_input_of_def scores_of_def)
  qed
  then have "list_all2 (evaluation_of nw c examId (xr_exam report)) (xr_candidates report) reports"
    and "k_competencyReports (content (st_db s')) = k_competencyReports (content (st_db s1)) @ reports"
    by (auto simp: list_all2_conv_all_nth nth_enumerate_eq)
  with report show ?thesis by blast
qed

section \<open>Witnesses\<close>

definition sample_signals :: report_signals where
  "sample_signals = \<lparr>rs_submissions = 1, rs_passedTests = 0, rs_failedTests = 50, rs_codeRuns = 0, rs_pasteEvents = 0, rs_riskScore = 0,
     rs_elapsedMinutes = 10\<rparr>"

definition sample_input :: report_input where
  "sample_input = \<lparr>gr_examSessionId = ''e1_c1'', gr_candidateId = ''c1'', gr_examId = ''e1'', gr_signals = sample_signals\<rparr>"

definition no_network :: "ai_request network" where
  "no_network = \<lparr>nw_parseUrl = (\<lambda>_. None), nw_lookup = (\<lambda>_. None), nw_isIP = (\<lambda>_. 0), nw_check = (\<lambda>_ _. True), nw_fetch = (\<lambda>_ _. None),
     nw_json = (\<lambda>_. None), nw_parseDate = (\<lambda>_. None)\<rparr>"

text \<open>The debugging score may be negative.\<close>

lemma evaluation_scores_are_bounded_witness:
  "\<exists>r. generateReport no_network production_env ''report_1'' 5 sample_input = Inr r \<and> local_bounds r \<and> rep_debuggingScore r = - 35"
proof -
  have env: "\<not> truthy (production_env ''AI_API_BASE_URL'')" by (simp add: production_env_def)
  then have run: "generateReport no_network production_env ''report_1'' 5 sample_input = Inr (localReport ''report_1'' 5 sample_input)"
    by (simp add: generateReport_def)
  have "local_bounds (localReport ''report_1'' 5 sample_input)"
    using evaluation_scores_are_bounded [OF run] env by (simp add: sample_input_def sample_signals_def signals_wf_def)
  with run show ?thesis by (simp add: localReport_def Let_def sample_input_def sample_signals_def)
qed

lemma every_candidate_is_evaluated_witness:
  "\<exists>reports s'. generateExamReports no_network (production_ctx 95000) ''e1'' sample_manager (store_of workspace_contents) = (Inr reports, s') \<and>
     length reports = 1 \<and> length (k_competencyReports (st_db s')) = 1"
proof -
  obtain r where stored: "getExamReportInStore (production_ctx 95000) ''e1'' sample_manager (store_of workspace_contents) =
     (Inr \<lparr>xr_exam = sample_exam, xr_candidates = [r]\<rparr>, store_of workspace_contents)"
    by (rule run_report)
  then have report: "getExamReport (production_ctx 95000) ''e1'' sample_manager (store_of workspace_contents) =
     (Inr \<lparr>xr_exam = sample_exam, xr_candidates = [r]\<rparr>, store_of workspace_contents)"
    by (simp add: getExamReport_def bindE_apply run_mark liftR_apply assertSessionCanManageExams_def)
  have env: "\<not> truthy (production_env ''AI_API_BASE_URL'')" by (simp add: production_env_def)
  obtain reports s' where run: "generateExamReports no_network (production_ctx 95000) ''e1'' sample_manager (store_of workspace_contents) = (Inr reports, s')"
    by (simp add: generateExamReports_def bindE_apply report evaluate_candidate_def generateReport_def env Let_def liftR_apply saveCompetencyReport_def
      mapped_def run_simps)
  from every_candidate_is_evaluated [OF good_plain deployed_production run] report run show ?thesis
    by (auto dest: list_all2_lengthD)
qed

end
