(* ===== verification/Gateway.thy ===== *)
theory Gateway
  imports Report Auth
begin

text \<open>
  The signalling between candidates and proctors (\<open>proctor.gateway.ts\<close>): sockets join the room of an exam's
  proctors or the room of one device of a candidate, and the WebRTC messages are relayed between these rooms.

  The sockets of socket.io are part of the state: which are connected, the \<open>data\<close> of each, the members of the rooms
  and the messages sent. \<open>AuthService\<close> and \<open>PlatformStore\<close> answer through a record of functions, their answers at
  the moment of the step. A join of a proctor awaits both before it changes anything, so it is two steps, with any other
  step in between; the other handlers are one step each.
\<close>

section \<open>Payloads and messages\<close>

datatype socket_role = SOCKET_ADMIN | SOCKET_CANDIDATE

record join_admin_payload =
  ja_examId :: string
  ja_token :: "string option"

record join_candidate_payload =
  jc_examId :: string
  jc_candidateId :: string
  jc_inviteToken :: string
  jc_deviceRole :: string

record signal_payload =
  sp_examId :: string
  sp_candidateId :: string
  sp_deviceRole :: string
  sp_description :: "string option"
  sp_candidate :: "string option"

record socket_data =
  sk_role :: "socket_role option"
  sk_adminToken :: "string option"
  sk_examId :: "string option"
  sk_candidateId :: "string option"
  sk_inviteToken :: "string option"
  sk_deviceRole :: "string option"
  sk_handshakeToken :: "string option"

datatype server_event =
    JoinedAdmin string
  | JoinedCandidate string string string
  | ProctorError string
  | DeviceJoined string string string
  | DeviceLeft string string
  | RequestOffer signal_payload
  | WebrtcOffer signal_payload string
  | WebrtcAnswer signal_payload
  | IceCandidate signal_payload

definition adminRoom :: "string \<Rightarrow> string" where
  "adminRoom examId = ''exam:'' @ examId @ '':admins''"

definition candidateRoom :: "string \<Rightarrow> string \<Rightarrow> string \<Rightarrow> string" where
  "candidateRoom examId candidateId deviceRole = ''exam:'' @ examId @ '':candidate:'' @ candidateId @ '':'' @ deviceRole"

definition proctorDeviceRoles :: "string list" where
  "proctorDeviceRoles = [''PRIMARY_PC'', ''MOBILE_AUX'']"

section \<open>State\<close>

text \<open>\<open>gw_joining\<close> holds the joins of proctors that wait for their answers and will finish.\<close>

record gateway =
  gw_connected :: "string list"
  gw_data :: "(string, socket_data) jsmap"
  gw_rooms :: "(string \<times> string) list"
  gw_adminClientsByToken :: "(string, string list) jsmap"
  gw_joining :: "(string \<times> join_admin_payload) list"
  gw_sent :: "(string \<times> server_event) list"

definition empty_gateway :: gateway where
  "empty_gateway = \<lparr>gw_connected = [], gw_data = [], gw_rooms = [], gw_adminClientsByToken = [], gw_joining = [], gw_sent = []\<rparr>"

record services =
  sv_session :: "string option \<Rightarrow> auth_session res"
  sv_live :: "string \<Rightarrow> auth_session \<Rightarrow> live_exam res"
  sv_invite :: "string \<Rightarrow> candidate_invite res"
  sv_device :: "string \<Rightarrow> device_input \<Rightarrow> unit res"
  sv_event :: "string \<Rightarrow> event_input \<Rightarrow> unit res"

definition no_data :: socket_data where
  "no_data = \<lparr>sk_role = None, sk_adminToken = None, sk_examId = None, sk_candidateId = None, sk_inviteToken = None, sk_deviceRole = None,
     sk_handshakeToken = None\<rparr>"

definition data_of :: "gateway \<Rightarrow> string \<Rightarrow> socket_data" where
  "data_of g client = (case map_get (gw_data g) client of Some d \<Rightarrow> d | None \<Rightarrow> no_data)"

definition set_data :: "string \<Rightarrow> (socket_data \<Rightarrow> socket_data) \<Rightarrow> gateway \<Rightarrow> gateway" where
  "set_data client f g = g\<lparr>gw_data := map_set client (f (data_of g client)) (gw_data g)\<rparr>"

text \<open>A message to a room reaches its connected members.\<close>

definition members :: "gateway \<Rightarrow> string \<Rightarrow> string list" where
  "members g room = filter (\<lambda>client. (room, client) \<in> set (gw_rooms g)) (gw_connected g)"

definition emit :: "string \<Rightarrow> server_event \<Rightarrow> gateway \<Rightarrow> gateway" where
  "emit client event g = g\<lparr>gw_sent := gw_sent g @ [(client, event)]\<rparr>"

definition emit_room :: "string \<Rightarrow> server_event \<Rightarrow> gateway \<Rightarrow> gateway" where
  "emit_room room event g = g\<lparr>gw_sent := gw_sent g @ map (\<lambda>client. (client, event)) (members g room)\<rparr>"

definition join_room :: "string \<Rightarrow> string \<Rightarrow> gateway \<Rightarrow> gateway" where
  "join_room room client g = g\<lparr>gw_rooms := List.insert (room, client) (gw_rooms g)\<rparr>"

definition reject :: "string \<Rightarrow> string \<Rightarrow> gateway \<Rightarrow> 'a res \<times> gateway" where
  "reject client message g = (Inl (OtherError message), emit client (ProctorError message) g)"

section \<open>The clients of a token\<close>

definition trackAdminClient :: "string \<Rightarrow> gateway \<Rightarrow> gateway" where
  "trackAdminClient client g = (case sk_adminToken (data_of g client) of
       Some token \<Rightarrow> if token = [] then g
         else g\<lparr>gw_adminClientsByToken := map_set token
           (List.insert client (case map_get (gw_adminClientsByToken g) token of Some clients \<Rightarrow> clients | None \<Rightarrow> []))
           (gw_adminClientsByToken g)\<rparr>
     | None \<Rightarrow> g)"

definition untrackAdminClient :: "string \<Rightarrow> gateway \<Rightarrow> gateway" where
  "untrackAdminClient client g = (case sk_adminToken (data_of g client) of
       None \<Rightarrow> g
     | Some token \<Rightarrow> if token = [] then g else (case map_get (gw_adminClientsByToken g) token of
           None \<Rightarrow> g
         | Some clients \<Rightarrow>
             let remaining = removeAll client clients
             in if remaining = [] then g\<lparr>gw_adminClientsByToken := map_delete token (gw_adminClientsByToken g)\<rparr>
                else g\<lparr>gw_adminClientsByToken := map_set token remaining (gw_adminClientsByToken g)\<rparr>))"

section \<open>Joining\<close>

definition extractAdminToken :: "gateway \<Rightarrow> string \<Rightarrow> join_admin_payload \<Rightarrow> string option" where
  "extractAdminToken g client payload =
     (if truthy (ja_token payload) then ja_token payload else sk_handshakeToken (data_of g client))"

definition authenticateAdmin :: "services \<Rightarrow> string \<Rightarrow> string option \<Rightarrow> gateway \<Rightarrow> auth_session res \<times> gateway" where
  "authenticateAdmin sv client token g = (case sv_session sv token of
       Inr session \<Rightarrow> (Inr session, g)
     | Inl (Unauthorized message) \<Rightarrow> reject client message g
     | Inl e \<Rightarrow> (Inl e, g))"

text \<open>\<open>handleJoinAdmin\<close> up to its last \<open>await\<close>, and from there.\<close>

definition join_admin_begin :: "services \<Rightarrow> string \<Rightarrow> join_admin_payload \<Rightarrow> gateway \<Rightarrow> unit res \<times> gateway" where
  "join_admin_begin sv client payload g =
     (case authenticateAdmin sv client (extractAdminToken g client payload) g of
        (Inl e, g) \<Rightarrow> (Inl e, g)
      | (Inr session, g) \<Rightarrow> (case sv_live sv (ja_examId payload) session of
            Inl e \<Rightarrow> (Inl e, g)
          | Inr _ \<Rightarrow> (Inr (), g\<lparr>gw_joining := (client, payload) # gw_joining g\<rparr>)))"

definition join_admin_finish :: "string \<Rightarrow> join_admin_payload \<Rightarrow> gateway \<Rightarrow> gateway" where
  "join_admin_finish client payload g =
     (let g = g\<lparr>gw_joining := remove1 (client, payload) (gw_joining g)\<rparr>;
          token = extractAdminToken g client payload;
          g = untrackAdminClient client g;
          g = set_data client (\<lambda>d. d\<lparr>sk_role := Some SOCKET_ADMIN, sk_adminToken := token, sk_examId := Some (ja_examId payload)\<rparr>) g;
          g = trackAdminClient client g;
          g = join_room (adminRoom (ja_examId payload)) client g
      in emit client (JoinedAdmin (ja_examId payload)) g)"

definition assertCandidateJoin :: "services \<Rightarrow> string \<Rightarrow> join_candidate_payload \<Rightarrow> gateway \<Rightarrow> unit res \<times> gateway" where
  "assertCandidateJoin sv client payload g =
     (if jc_deviceRole payload \<notin> set proctorDeviceRoles then reject client ''Invalid proctor device role.'' g
      else (case sv_invite sv (jc_inviteToken payload) of
          Inl e \<Rightarrow> (Inl e, g)
        | Inr invite \<Rightarrow>
            if ex_id (ci_exam invite) \<noteq> jc_examId payload \<or> cand_id (ci_candidate invite) \<noteq> jc_candidateId payload
            then reject client ''Candidate invite does not match proctor join payload.'' g
            else (Inr (), g)))"

definition handleJoinCandidate :: "services \<Rightarrow> string \<Rightarrow> join_candidate_payload \<Rightarrow> gateway \<Rightarrow> unit res \<times> gateway" where
  "handleJoinCandidate sv client payload g = (case assertCandidateJoin sv client payload g of
       (Inl e, g) \<Rightarrow> (Inl e, g)
     | (Inr _, g) \<Rightarrow>
         let g = set_data client (\<lambda>d. d\<lparr>sk_role := Some SOCKET_CANDIDATE, sk_examId := Some (jc_examId payload),
               sk_candidateId := Some (jc_candidateId payload), sk_inviteToken := Some (jc_inviteToken payload),
               sk_deviceRole := Some (jc_deviceRole payload)\<rparr>) g;
             g = join_room (candidateRoom (jc_examId payload) (jc_candidateId payload) (jc_deviceRole payload)) client g;
             g = emit_room (adminRoom (jc_examId payload)) (DeviceJoined client (jc_candidateId payload) (jc_deviceRole payload)) g
         in (Inr (), emit client (JoinedCandidate (jc_examId payload) (jc_candidateId payload) (jc_deviceRole payload)) g))"

section \<open>Relaying\<close>

definition assertCanRelay :: "services \<Rightarrow> string \<Rightarrow> signal_payload \<Rightarrow> gateway \<Rightarrow> unit res \<times> gateway" where
  "assertCanRelay sv client payload g =
     (let d = data_of g client in
      if sk_role d = Some SOCKET_ADMIN \<and> sk_examId d = Some (sp_examId payload)
      then (case authenticateAdmin sv client (sk_adminToken d) g of (Inl e, g) \<Rightarrow> (Inl e, g) | (Inr _, g) \<Rightarrow> (Inr (), g))
      else if sk_role d = Some SOCKET_CANDIDATE \<and> sk_examId d = Some (sp_examId payload) \<and>
        sk_candidateId d = Some (sp_candidateId payload) \<and> sk_deviceRole d = Some (sp_deviceRole payload)
      then (Inr (), g)
      else reject client ''Proctor signaling is outside the joined room scope.'' g)"

definition candidate_room_of :: "signal_payload \<Rightarrow> string" where
  "candidate_room_of payload = candidateRoom (sp_examId payload) (sp_candidateId payload) (sp_deviceRole payload)"

datatype signal_kind = OFFER | REQUEST_OFFER | ANSWER | ICE

definition signal_room :: "signal_kind \<Rightarrow> signal_payload \<Rightarrow> socket_data \<Rightarrow> string" where
  "signal_room kind payload d = (case kind of
       OFFER \<Rightarrow> adminRoom (sp_examId payload)
     | REQUEST_OFFER \<Rightarrow> candidate_room_of payload
     | ANSWER \<Rightarrow> candidate_room_of payload
     | ICE \<Rightarrow> if sk_role d = Some SOCKET_ADMIN then candidate_room_of payload else adminRoom (sp_examId payload))"

definition signal_event :: "signal_kind \<Rightarrow> signal_payload \<Rightarrow> string \<Rightarrow> server_event" where
  "signal_event kind payload client = (case kind of
       OFFER \<Rightarrow> WebrtcOffer payload client | REQUEST_OFFER \<Rightarrow> RequestOffer payload | ANSWER \<Rightarrow> WebrtcAnswer payload | ICE \<Rightarrow> IceCandidate payload)"

text \<open>\<open>handleOffer\<close>, \<open>handleRequestOffer\<close>, \<open>handleAnswer\<close> and \<open>handleIceCandidate\<close>.\<close>

definition handleSignal :: "signal_kind \<Rightarrow> services \<Rightarrow> string \<Rightarrow> signal_payload \<Rightarrow> gateway \<Rightarrow> unit res \<times> gateway" where
  "handleSignal kind sv client payload g = (case assertCanRelay sv client payload g of
       (Inl e, g) \<Rightarrow> (Inl e, g)
     | (Inr _, g) \<Rightarrow> (Inr (), emit_room (signal_room kind payload (data_of g client)) (signal_event kind payload client) g))"

section \<open>Leaving\<close>

definition device_role_of :: "string \<Rightarrow> device_role" where
  "device_role_of r = (if r = ''MOBILE_AUX'' then MOBILE_AUX else PRIMARY_PC)"

text \<open>socket.io takes a socket that disconnects out of its rooms before it calls \<open>handleDisconnect\<close>.\<close>

definition handleDisconnect :: "services \<Rightarrow> string \<Rightarrow> gateway \<Rightarrow> gateway" where
  "handleDisconnect sv client g =
     (let g = untrackAdminClient client g; d = data_of g client in
      if sk_role d \<noteq> Some SOCKET_CANDIDATE \<or> \<not> truthy (sk_examId d) \<or> \<not> truthy (sk_candidateId d) \<or>
        \<not> truthy (sk_inviteToken d) \<or> \<not> truthy (sk_deviceRole d) then g
      else (let role = device_role_of (the (sk_deviceRole d)) in
        case sv_device sv (the (sk_inviteToken d)) \<lparr>di_role = role, di_status = DEV_DISCONNECTED, di_detail = Some ''proctor socket disconnected''\<rparr> of
          Inl _ \<Rightarrow> g
        | Inr _ \<Rightarrow> (case sv_event sv (the (sk_inviteToken d))
              \<lparr>ei_type = (if role = MOBILE_AUX then MOBILE_CAMERA_DISCONNECTED else PRIMARY_CAMERA_DISCONNECTED),
               ei_detail = Some ''Proctor socket disconnected.''\<rparr> of
            Inl _ \<Rightarrow> g
          | Inr _ \<Rightarrow> emit_room (adminRoom (the (sk_examId d))) (DeviceLeft (the (sk_candidateId d)) (the (sk_deviceRole d))) g)))"

definition disconnect :: "services \<Rightarrow> string \<Rightarrow> gateway \<Rightarrow> gateway" where
  "disconnect sv client g = (if client \<in> set (gw_connected g)
     then handleDisconnect sv client (g\<lparr>gw_connected := removeAll client (gw_connected g), gw_rooms := filter (\<lambda>(room, c). c \<noteq> client) (gw_rooms g)\<rparr>)
     else g)"

text \<open>The listener of revoked sessions.\<close>

definition disconnectAdminClients :: "services \<Rightarrow> string \<Rightarrow> gateway \<Rightarrow> gateway" where
  "disconnectAdminClients sv token g = (case map_get (gw_adminClientsByToken g) token of
       None \<Rightarrow> g
     | Some clients \<Rightarrow> fold (disconnect sv) clients (g\<lparr>gw_adminClientsByToken := map_delete token (gw_adminClientsByToken g)\<rparr>))"

section \<open>Runs of the gateway\<close>

definition connect :: "string \<Rightarrow> string option \<Rightarrow> gateway \<Rightarrow> gateway" where
  "connect client handshake g = g\<lparr>gw_connected := client # gw_connected g,
     gw_data := map_set client (no_data\<lparr>sk_handshakeToken := handshake\<rparr>) (gw_data g)\<rparr>"

inductive gateway_step :: "gateway \<Rightarrow> gateway \<Rightarrow> bool" where
  connects: "map_get (gw_data g) client = None \<Longrightarrow> gateway_step g (connect client handshake g)"
| begins: "client \<in> set (gw_connected g) \<Longrightarrow> gateway_step g (snd (join_admin_begin sv client payload g))"
| finishes: "(client, payload) \<in> set (gw_joining g) \<Longrightarrow> gateway_step g (join_admin_finish client payload g)"
| joins: "client \<in> set (gw_connected g) \<Longrightarrow> gateway_step g (snd (handleJoinCandidate sv client payload g))"
| signals: "client \<in> set (gw_connected g) \<Longrightarrow> gateway_step g (snd (handleSignal kind sv client signal g))"
| leaves: "gateway_step g (disconnect sv client g)"
| revokes: "gateway_step g (disconnectAdminClients sv token g)"

inductive_cases gateway_stepE: "gateway_step g g'"

section \<open>The clients of a token are its connected sockets\<close>

abbreviation token_of :: "gateway \<Rightarrow> string \<Rightarrow> string option" where
  "token_of g client \<equiv> sk_adminToken (data_of g client)"

definition tracked :: "gateway \<Rightarrow> string \<Rightarrow> string set" where
  "tracked g token = (case map_get (gw_adminClientsByToken g) token of Some clients \<Rightarrow> set clients | None \<Rightarrow> {})"

lemma data_of_set [simp]: "data_of (set_data client f g) c = (if c = client then f (data_of g client) else data_of g c)"
  by (simp add: set_data_def data_of_def map_get_set)

lemma set_data_sel [simp]:
  "gw_connected (set_data client f g) = gw_connected g" "gw_adminClientsByToken (set_data client f g) = gw_adminClientsByToken g"
  "gw_rooms (set_data client f g) = gw_rooms g" "gw_joining (set_data client f g) = gw_joining g"
  "map_get (gw_data (set_data client f g)) c = None \<longleftrightarrow> c \<noteq> client \<and> map_get (gw_data g) c = None"
  by (simp_all add: set_data_def map_get_set)

lemma emit_sel [simp]:
  "gw_connected (emit c e g) = gw_connected g" "gw_data (emit c e g) = gw_data g" "gw_rooms (emit c e g) = gw_rooms g"
  "gw_adminClientsByToken (emit c e g) = gw_adminClientsByToken g" "gw_joining (emit c e g) = gw_joining g"
  "gw_connected (emit_room r e g) = gw_connected g" "gw_data (emit_room r e g) = gw_data g" "gw_rooms (emit_room r e g) = gw_rooms g"
  "gw_adminClientsByToken (emit_room r e g) = gw_adminClientsByToken g" "gw_joining (emit_room r e g) = gw_joining g"
  "gw_connected (join_room r c g) = gw_connected g" "gw_data (join_room r c g) = gw_data g"
  "gw_adminClientsByToken (join_room r c g) = gw_adminClientsByToken g" "gw_joining (join_room r c g) = gw_joining g"
  "gw_rooms (join_room r c g) = List.insert (r, c) (gw_rooms g)"
  by (simp_all add: emit_def emit_room_def join_room_def)

lemma untrack_sel [simp]:
  "gw_connected (untrackAdminClient c g) = gw_connected g" "gw_data (untrackAdminClient c g) = gw_data g"
  "gw_rooms (untrackAdminClient c g) = gw_rooms g" "gw_joining (untrackAdminClient c g) = gw_joining g"
  "gw_connected (trackAdminClient c g) = gw_connected g" "gw_data (trackAdminClient c g) = gw_data g"
  "gw_rooms (trackAdminClient c g) = gw_rooms g" "gw_joining (trackAdminClient c g) = gw_joining g"
  by (simp_all add: untrackAdminClient_def trackAdminClient_def Let_def split: option.split)

lemma data_of_cong: "gw_data g = gw_data h \<Longrightarrow> data_of g c = data_of h c"
  by (simp add: data_of_def)

lemma data_of_same [simp]:
  "data_of (emit c e g) x = data_of g x" "data_of (emit_room r e g) x = data_of g x" "data_of (join_room r c g) x = data_of g x"
  "data_of (untrackAdminClient c g) x = data_of g x" "data_of (trackAdminClient c g) x = data_of g x"
  "data_of (g\<lparr>gw_joining := js\<rparr>) x = data_of g x" "data_of (g\<lparr>gw_connected := cs\<rparr>) x = data_of g x"
  "data_of (g\<lparr>gw_rooms := rs\<rparr>) x = data_of g x" "data_of (g\<lparr>gw_adminClientsByToken := m\<rparr>) x = data_of g x"
  by (simp_all add: data_of_def)

lemma tracked_untrack:
  "tracked (untrackAdminClient c g) t = (if token_of g c = Some t \<and> t \<noteq> [] then tracked g t - {c} else tracked g t)"
  by (auto simp: tracked_def untrackAdminClient_def Let_def map_get_set map_get_delete removeAll_filter_not_eq filter_empty_conv
      split: option.splits)

lemma tracked_track:
  "tracked (trackAdminClient c g) t = (if token_of g c = Some t \<and> t \<noteq> [] then insert c (tracked g t) else tracked g t)"
  by (auto simp: tracked_def trackAdminClient_def map_get_set split: option.splits)

lemma tracked_cong: "gw_adminClientsByToken g = gw_adminClientsByToken h \<Longrightarrow> tracked g t = tracked h t"
  by (simp add: tracked_def)

lemma tracked_set_data [simp]: "tracked (set_data c f g) t = tracked g t"
  by (intro tracked_cong) simp

definition gateway_inv :: "gateway \<Rightarrow> bool" where
  "gateway_inv g \<longleftrightarrow> tracked g [] = {} \<and> (\<forall>token. tracked g token \<subseteq> {c. token_of g c = Some token}) \<and>
     set (gw_connected g) \<subseteq> dom (map_of (gw_data g)) \<and>
     (\<forall>token. token \<noteq> [] \<longrightarrow> {c \<in> set (gw_connected g). token_of g c = Some token} \<subseteq> tracked g token)"

lemma gateway_inv_cong:
  assumes "gateway_inv g" and "gw_data h = gw_data g" and "gw_connected h = gw_connected g"
    and "gw_adminClientsByToken h = gw_adminClientsByToken g"
  shows "gateway_inv h"
proof -
  have d: "data_of h = data_of g" and t: "tracked h = tracked g"
    using assms by (auto simp: data_of_def tracked_def)
  from assms(1) show ?thesis unfolding gateway_inv_def d t assms(2,3) .
qed

lemma gateway_invD:
  assumes "gateway_inv g"
  shows "c \<notin> tracked g []" and "c \<in> tracked g token \<Longrightarrow> token_of g c = Some token"
    and "c \<in> set (gw_connected g) \<Longrightarrow> map_get (gw_data g) c \<noteq> None"
    and "c \<in> set (gw_connected g) \<Longrightarrow> token_of g c = Some token \<Longrightarrow> token \<noteq> [] \<Longrightarrow> c \<in> tracked g token"
  using assms unfolding gateway_inv_def by auto

lemma gateway_invI:
  assumes "\<And>c. c \<notin> tracked g []" and "\<And>c token. c \<in> tracked g token \<Longrightarrow> token_of g c = Some token"
    and "\<And>c. c \<in> set (gw_connected g) \<Longrightarrow> map_get (gw_data g) c \<noteq> None"
    and "\<And>c token. c \<in> set (gw_connected g) \<Longrightarrow> token_of g c = Some token \<Longrightarrow> token \<noteq> [] \<Longrightarrow> c \<in> tracked g token"
  shows "gateway_inv g"
  using assms unfolding gateway_inv_def by blast

lemma retrack_inv:
  assumes "gateway_inv g"
  shows "gateway_inv (trackAdminClient client
    (set_data client (\<lambda>d. d\<lparr>sk_role := r, sk_adminToken := newToken, sk_examId := e\<rparr>) (untrackAdminClient client g)))" (is "gateway_inv ?h")
proof -
  have in_h: "c \<in> tracked ?h t \<longleftrightarrow> (if c = client then newToken = Some t \<and> t \<noteq> [] \<or> c \<in> tracked g t \<and> \<not> (token_of g client = Some t \<and> t \<noteq> [])
      else c \<in> tracked g t)" for c t
    by (auto simp: tracked_track tracked_untrack)
  show ?thesis
  proof (rule gateway_invI)
    show "c \<notin> tracked ?h []" for c using gateway_invD(1) [OF assms] by (simp add: in_h)
    show "token_of ?h c = Some token" if "c \<in> tracked ?h token" for c token
      using that gateway_invD(1,2) [OF assms] by (cases "token = []") (auto simp: in_h split: if_splits)
    show "map_get (gw_data ?h) c \<noteq> None" if "c \<in> set (gw_connected ?h)" for c
      using that gateway_invD(3) [OF assms, of c] by simp
    show "c \<in> tracked ?h token" if "c \<in> set (gw_connected ?h)" "token_of ?h c = Some token" "token \<noteq> []" for c token
      using that gateway_invD(4) [OF assms, of c token] by (simp add: in_h split: if_splits)
  qed
qed

lemma finish_inv:
  assumes "gateway_inv g"
  shows "gateway_inv (join_admin_finish client payload g)"
proof -
  have "gateway_inv (g\<lparr>gw_joining := remove1 (client, payload) (gw_joining g)\<rparr>)"
    using assms by (rule gateway_inv_cong) simp_all
  from retrack_inv [OF this] show ?thesis
    unfolding join_admin_finish_def Let_def by (rule gateway_inv_cong) simp_all
qed

lemma handle_disconnect_sel [simp]:
  "gw_connected (handleDisconnect sv c g) = gw_connected g" "gw_data (handleDisconnect sv c g) = gw_data g"
  "gw_rooms (handleDisconnect sv c g) = gw_rooms g" "gw_joining (handleDisconnect sv c g) = gw_joining g"
  "gw_adminClientsByToken (handleDisconnect sv c g) = gw_adminClientsByToken (untrackAdminClient c g)"
  by (simp_all add: handleDisconnect_def Let_def split: sum.split)

lemma disconnect_sel:
  "gw_connected (disconnect sv c g) = removeAll c (gw_connected g)" "gw_data (disconnect sv c g) = gw_data g"
  "data_of (disconnect sv c g) = data_of g"
  "tracked (disconnect sv c g) t = (if c \<in> set (gw_connected g) then tracked (untrackAdminClient c g) t else tracked g t)"
proof -
  have "tracked (disconnect sv c g) t = tracked (untrackAdminClient c (g\<lparr>gw_connected := removeAll c (gw_connected g),
      gw_rooms := filter (\<lambda>(room, x). x \<noteq> c) (gw_rooms g)\<rparr>)) t" if "c \<in> set (gw_connected g)"
    using that by (intro tracked_cong) (simp add: disconnect_def)
  moreover have "tracked (g\<lparr>gw_connected := cs, gw_rooms := rs\<rparr>) t = tracked g t" for cs rs by (intro tracked_cong) simp
  ultimately show "tracked (disconnect sv c g) t = (if c \<in> set (gw_connected g) then tracked (untrackAdminClient c g) t else tracked g t)"
    by (auto simp: tracked_untrack disconnect_def data_of_def)
qed (auto simp: disconnect_def data_of_def)

lemma disconnect_inv:
  assumes "gateway_inv g"
  shows "gateway_inv (disconnect sv c g)"
proof (rule gateway_invI)
  show "x \<notin> tracked (disconnect sv c g) []" for x using gateway_invD(1) [OF assms] by (simp add: disconnect_sel tracked_untrack)
  show "token_of (disconnect sv c g) x = Some token" if "x \<in> tracked (disconnect sv c g) token" for x token
    using that gateway_invD(2) [OF assms, of x token] by (simp add: disconnect_sel tracked_untrack split: if_splits)
  show "map_get (gw_data (disconnect sv c g)) x \<noteq> None" if "x \<in> set (gw_connected (disconnect sv c g))" for x
    using that gateway_invD(3) [OF assms, of x] by (simp add: disconnect_sel)
  show "x \<in> tracked (disconnect sv c g) token"
    if "x \<in> set (gw_connected (disconnect sv c g))" "token_of (disconnect sv c g) x = Some token" "token \<noteq> []" for x token
    using that gateway_invD(4) [OF assms, of x token] by (simp add: disconnect_sel tracked_untrack)
qed

lemma disconnect_all_sel:
  "gw_connected (fold (disconnect sv) cs g) = filter (\<lambda>c. c \<notin> set cs) (gw_connected g)" "gw_data (fold (disconnect sv) cs g) = gw_data g"
  "x \<notin> set cs \<Longrightarrow> x \<in> tracked (fold (disconnect sv) cs g) t \<longleftrightarrow> x \<in> tracked g t"
  "tracked (fold (disconnect sv) cs g) t \<subseteq> tracked g t"
proof (induction cs arbitrary: g)
  case (Cons c cs)
  { case 1 then show ?case using Cons.IH(1) [of "disconnect sv c g"] by (auto simp: disconnect_sel removeAll_filter_not_eq intro: filter_cong) }
  { case 2 then show ?case using Cons.IH(2) [of "disconnect sv c g"] by (simp add: disconnect_sel) }
  { case 3 then show ?case using Cons.IH(3) [of "disconnect sv c g"] by (auto simp: disconnect_sel tracked_untrack split: if_splits) }
  { case 4 then show ?case using Cons.IH(4) [of "disconnect sv c g"] by (auto simp: disconnect_sel tracked_untrack split: if_splits) }
qed simp_all

lemma data_of_connect: "data_of (connect client handshake g) c = (if c = client then no_data\<lparr>sk_handshakeToken := handshake\<rparr> else data_of g c)"
  by (simp add: connect_def data_of_def map_get_set)

lemma connect_inv:
  assumes "gateway_inv g" and "map_get (gw_data g) client = None"
  shows "gateway_inv (connect client handshake g)"
proof (rule gateway_invI)
  let ?h = "connect client handshake g"
  have same: "tracked ?h t = tracked g t" for t by (intro tracked_cong) (simp add: connect_def)
  have fresh: "client \<notin> tracked g t" for t
    using gateway_invD(2) [OF assms(1), of client t] assms(2) by (auto simp: data_of_def no_data_def)
  show "x \<notin> tracked ?h []" for x using gateway_invD(1) [OF assms(1)] by (simp add: same)
  show "token_of ?h x = Some token" if "x \<in> tracked ?h token" for x token
    using that gateway_invD(2) [OF assms(1), of x token] fresh [of token] by (auto simp: same data_of_connect)
  show "map_get (gw_data ?h) x \<noteq> None" if "x \<in> set (gw_connected ?h)" for x
    using that gateway_invD(3) [OF assms(1), of x] by (auto simp: connect_def map_get_set)
  show "x \<in> tracked ?h token" if "x \<in> set (gw_connected ?h)" "token_of ?h x = Some token" "token \<noteq> []" for x token
    using that gateway_invD(4) [OF assms(1), of x token] by (simp add: same data_of_connect no_data_def split: if_splits) (simp add: connect_def)
qed

text \<open>What a handler does not touch.\<close>

definition same_clients :: "gateway \<Rightarrow> gateway \<Rightarrow> bool" where
  "same_clients g h \<longleftrightarrow> gw_data h = gw_data g \<and> gw_connected h = gw_connected g \<and>
     gw_adminClientsByToken h = gw_adminClientsByToken g \<and> gw_rooms h = gw_rooms g"

lemma authenticate_same: "same_clients g (snd (authenticateAdmin sv client token g))"
  by (simp add: authenticateAdmin_def reject_def same_clients_def split: sum.split exn.split)

lemma begin_same: "same_clients g (snd (join_admin_begin sv client payload g))"
  using authenticate_same [of g sv client "extractAdminToken g client payload"]
  by (auto simp: join_admin_begin_def same_clients_def split: prod.split sum.split)

lemma relay_same: "same_clients g (snd (assertCanRelay sv client payload g))"
  using authenticate_same [of g sv client "token_of g client"]
  by (auto simp: assertCanRelay_def Let_def reject_def same_clients_def split: prod.split sum.split)

lemma signal_same: "same_clients g (snd (handleSignal kind sv client payload g))"
  using relay_same [of g sv client payload] by (auto simp: handleSignal_def same_clients_def split: prod.split sum.split)

lemma same_clients_inv: "gateway_inv g \<Longrightarrow> same_clients g h \<Longrightarrow> gateway_inv h"
  by (erule gateway_inv_cong) (simp_all add: same_clients_def)

lemma assertCandidateJoin_same: "same_clients g (snd (assertCandidateJoin sv client payload g))"
  by (simp add: assertCandidateJoin_def reject_def same_clients_def split: sum.split)

lemma candidate_data_inv:
  assumes "gateway_inv g"
  shows "gateway_inv (set_data client (\<lambda>d. d\<lparr>sk_role := r, sk_examId := e, sk_candidateId := i, sk_inviteToken := t, sk_deviceRole := v\<rparr>) g)"
    (is "gateway_inv ?h")
proof (rule gateway_invI)
  have token: "token_of ?h x = token_of g x" for x by (cases "x = client") simp_all
  show "x \<notin> tracked ?h []" for x using gateway_invD(1) [OF assms] by simp
  show "token_of ?h x = Some token" if "x \<in> tracked ?h token" for x token
    using that gateway_invD(2) [OF assms, of x token] by (simp add: token del: data_of_set)
  show "map_get (gw_data ?h) x \<noteq> None" if "x \<in> set (gw_connected ?h)" for x
    using that gateway_invD(3) [OF assms, of x] by simp
  show "x \<in> tracked ?h token" if "x \<in> set (gw_connected ?h)" "token_of ?h x = Some token" "token \<noteq> []" for x token
    using that gateway_invD(4) [OF assms, of x token] by (simp add: token del: data_of_set)
qed

lemma join_candidate_inv:
  assumes "gateway_inv g"
  shows "gateway_inv (snd (handleJoinCandidate sv client payload g))"
proof (cases "assertCandidateJoin sv client payload g")
  case (Pair r h)
  with assertCandidateJoin_same [of g sv client payload] assms have h: "gateway_inv h" by (auto intro: same_clients_inv)
  show ?thesis
  proof (cases r)
    case Inl
    with Pair h show ?thesis by (simp add: handleJoinCandidate_def)
  next
    case (Inr u)
    from candidate_data_inv [OF h] show ?thesis
      unfolding handleJoinCandidate_def Pair Inr prod.case sum.case Let_def snd_conv by (rule gateway_inv_cong) simp_all
  qed
qed

lemma revoke_sel:
  "gw_connected (disconnectAdminClients sv token g) = filter (\<lambda>c. c \<notin> tracked g token) (gw_connected g)"
  "gw_data (disconnectAdminClients sv token g) = gw_data g"
  "tracked (disconnectAdminClients sv token g) t \<subseteq> tracked g t" "tracked (disconnectAdminClients sv token g) token = {}"
  "x \<notin> tracked g token \<Longrightarrow> x \<in> tracked (disconnectAdminClients sv token g) t \<longleftrightarrow> x \<in> tracked g t"
proof -
  let ?g0 = "g\<lparr>gw_adminClientsByToken := map_delete token (gw_adminClientsByToken g)\<rparr>"
  have g0: "tracked ?g0 t = (if t = token then {} else tracked g t)" for t by (simp add: tracked_def map_get_delete)
  show "gw_connected (disconnectAdminClients sv token g) = filter (\<lambda>c. c \<notin> tracked g token) (gw_connected g)"
    "gw_data (disconnectAdminClients sv token g) = gw_data g"
    by (auto simp: disconnectAdminClients_def disconnect_all_sel tracked_def split: option.split)
  have sub: "tracked (disconnectAdminClients sv token g) t \<subseteq> (if t = token then {} else tracked g t)" for t
  proof (cases "map_get (gw_adminClientsByToken g) token")
    case None
    then show ?thesis by (auto simp: disconnectAdminClients_def tracked_def)
  next
    case (Some cs)
    then show ?thesis using disconnect_all_sel(4) [of sv cs ?g0 t] by (simp only: disconnectAdminClients_def g0 option.case)
  qed
  show "tracked (disconnectAdminClients sv token g) t \<subseteq> tracked g t"
    using sub [of t] by (cases "t = token") auto
  show "tracked (disconnectAdminClients sv token g) token = {}"
    using sub [of token] by simp
  show "x \<in> tracked (disconnectAdminClients sv token g) t \<longleftrightarrow> x \<in> tracked g t" if "x \<notin> tracked g token"
  proof (cases "map_get (gw_adminClientsByToken g) token")
    case None
    then show ?thesis by (simp add: disconnectAdminClients_def)
  next
    case (Some cs)
    with that have "x \<notin> set cs" by (simp add: tracked_def)
    then show ?thesis using disconnect_all_sel(3) [of x cs sv ?g0 t] that Some by (simp add: disconnectAdminClients_def g0)
  qed
qed

lemma revoke_inv:
  assumes "gateway_inv g"
  shows "gateway_inv (disconnectAdminClients sv token g)"
proof (rule gateway_invI)
  let ?h = "disconnectAdminClients sv token g"
  have data: "data_of ?h = data_of g" by (intro ext data_of_cong revoke_sel)
  show "x \<notin> tracked ?h []" for x using revoke_sel(3) [of sv token g "[]"] gateway_invD(1) [OF assms] by blast
  show "token_of ?h x = Some t" if "x \<in> tracked ?h t" for x t
    using that revoke_sel(3) [of sv token g t] gateway_invD(2) [OF assms, of x t] by (auto simp: data)
  show "map_get (gw_data ?h) x \<noteq> None" if "x \<in> set (gw_connected ?h)" for x
    using that gateway_invD(3) [OF assms, of x] by (simp add: revoke_sel)
  show "x \<in> tracked ?h t" if "x \<in> set (gw_connected ?h)" "token_of ?h x = Some t" "t \<noteq> []" for x t
    using that gateway_invD(4) [OF assms, of x t] by (simp add: revoke_sel data)
qed

interpretation gateway_machine: machine "\<lambda>g. g = empty_gateway" gateway_step gateway_inv
proof unfold_locales
  fix g :: gateway
  assume "g = empty_gateway"
  then show "gateway_inv g" by (simp add: gateway_inv_def empty_gateway_def tracked_def)
next
  fix g h
  assume inv: "gateway_inv g" and "gateway_step g h"
  from this(2) show "gateway_inv h"
  proof cases
    case begins
    show ?thesis unfolding begins(1) by (rule same_clients_inv [OF inv begin_same])
  next
    case signals
    show ?thesis unfolding signals(1) by (rule same_clients_inv [OF inv signal_same])
  qed (use inv in \<open>auto intro: connect_inv finish_inv join_candidate_inv disconnect_inv revoke_inv\<close>)
qed

section \<open>What the gateway promises\<close>

text \<open>C11. In every reachable state the revocation of a session disconnects exactly the connected sockets that joined with
  its token, so that no connected socket holds it afterwards; the others stay connected, with their data.\<close>

theorem revoked_sessions_are_disconnected:
  assumes "gateway_step\<^sup>*\<^sup>* empty_gateway g" and "token \<noteq> []"
  shows "gw_connected (disconnectAdminClients sv token g) = filter (\<lambda>c. token_of g c \<noteq> Some token) (gw_connected g) \<and>
    gw_data (disconnectAdminClients sv token g) = gw_data g \<and>
    (\<forall>c \<in> set (gw_connected (disconnectAdminClients sv token g)). token_of (disconnectAdminClients sv token g) c \<noteq> Some token)"
proof -
  have inv: "gateway_inv g" by (rule gateway_machine.run_inv [OF refl assms(1)])
  have "c \<in> tracked g token \<longleftrightarrow> token_of g c = Some token" if "c \<in> set (gw_connected g)" for c
    using gateway_invD(2,4) [OF inv] that assms(2) by blast
  then have "gw_connected (disconnectAdminClients sv token g) = filter (\<lambda>c. token_of g c \<noteq> Some token) (gw_connected g)"
    by (auto simp: revoke_sel intro: filter_cong)
  moreover have "data_of (disconnectAdminClients sv token g) = data_of g" by (intro ext data_of_cong revoke_sel)
  ultimately show ?thesis by (simp add: revoke_sel(2))
qed

text \<open>C12. A signal is relayed only by a proctor who joined its exam and whose session is still active, or by the device of
  the candidate it names, and it goes to the connected members of one room: the proctors of the exam, or that device. A
  refused signal reaches nobody; the sender at most gets an error.\<close>

theorem signals_stay_in_their_rooms:
  "(case handleSignal kind sv client payload g of
     (Inr _, h) \<Rightarrow> ((sk_role (data_of g client) = Some SOCKET_ADMIN \<and> sk_examId (data_of g client) = Some (sp_examId payload) \<and>
          (\<exists>session. sv_session sv (token_of g client) = Inr session)) \<or>
        (sk_role (data_of g client) = Some SOCKET_CANDIDATE \<and> sk_examId (data_of g client) = Some (sp_examId payload) \<and>
          sk_candidateId (data_of g client) = Some (sp_candidateId payload) \<and> sk_deviceRole (data_of g client) = Some (sp_deviceRole payload))) \<and>
       gw_sent h = gw_sent g @ map (\<lambda>c. (c, signal_event kind payload client)) (members g (signal_room kind payload (data_of g client))) \<and>
       signal_room kind payload (data_of g client) \<in>
         {adminRoom (sp_examId payload), candidateRoom (sp_examId payload) (sp_candidateId payload) (sp_deviceRole payload)}
   | (Inl _, h) \<Rightarrow> gw_sent h = gw_sent g \<or> (\<exists>message. gw_sent h = gw_sent g @ [(client, ProctorError message)])) \<and>
   same_clients g (snd (handleSignal kind sv client payload g))"
proof -
  have auth: "(case authenticateAdmin sv client token g of (Inr session, h) \<Rightarrow> h = g \<and> sv_session sv token = Inr session
      | (Inl _, h) \<Rightarrow> gw_sent h = gw_sent g \<or> (\<exists>message. gw_sent h = gw_sent g @ [(client, ProctorError message)]))" for token
    by (simp add: authenticateAdmin_def reject_def emit_def split: sum.split exn.split)
  show ?thesis
    using auth [of "token_of g client"] signal_same [of g kind sv client payload]
    by (auto simp: handleSignal_def assertCanRelay_def Let_def reject_def emit_def emit_room_def signal_room_def candidate_room_of_def
        split: prod.splits sum.splits if_splits signal_kind.splits)
qed

lemma disconnect_rooms: "set (gw_rooms (disconnect sv c g)) \<subseteq> set (gw_rooms g) \<and> gw_joining (disconnect sv c g) = gw_joining g"
  by (auto simp: disconnect_def)

lemma revoke_rooms:
  "set (gw_rooms (disconnectAdminClients sv token g)) \<subseteq> set (gw_rooms g) \<and> gw_joining (disconnectAdminClients sv token g) = gw_joining g"
proof -
  have "set (gw_rooms (fold (disconnect sv) cs g)) \<subseteq> set (gw_rooms g) \<and> gw_joining (fold (disconnect sv) cs g) = gw_joining g" for cs g
  proof (induction cs arbitrary: g)
    case (Cons c cs)
    then show ?case using disconnect_rooms [of sv c g] Cons.IH [of "disconnect sv c g"] by auto
  qed simp
  from this [of _ "g\<lparr>gw_adminClientsByToken := map_delete token (gw_adminClientsByToken g)\<rparr>"] show ?thesis
    by (simp add: disconnectAdminClients_def split: option.split)
qed

text \<open>A step brings a socket into a room only by a join: of a proctor whose session may see the live state of the exam,
  checked in an earlier step of the same join, or of a candidate, into the room of the device named in the join, with an
  invite for just that candidate and exam.\<close>

theorem rooms_are_entered_by_right:
  assumes "gateway_step g h"
  shows "((room, client) \<in> set (gw_rooms h) - set (gw_rooms g) \<longrightarrow>
      (\<exists>joined. (client, joined) \<in> set (gw_joining g) \<and> room = adminRoom (ja_examId joined)) \<or>
      (\<exists>(sv :: services) (invite :: candidate_invite) (p :: join_candidate_payload). sv_invite sv (jc_inviteToken p) = Inr invite \<and> ex_id (ci_exam invite) = jc_examId p \<and>
         cand_id (ci_candidate invite) = jc_candidateId p \<and> jc_deviceRole p \<in> {''PRIMARY_PC'', ''MOBILE_AUX''} \<and>
         room = candidateRoom (jc_examId p) (jc_candidateId p) (jc_deviceRole p))) \<and>
    ((client, payload) \<in> set (gw_joining h) - set (gw_joining g) \<longrightarrow>
      (\<exists>(sv :: services) (session :: auth_session) (live :: live_exam). sv_session sv (extractAdminToken g client payload) = Inr session \<and> sv_live sv (ja_examId payload) session = Inr live))"
  using assms
proof cases
  case (begins c sv p)
  show ?thesis
  proof (cases "sv_session sv (extractAdminToken g c p)")
    case Inl
    then have "gw_rooms h = gw_rooms g \<and> gw_joining h = gw_joining g"
      by (auto simp: begins join_admin_begin_def authenticateAdmin_def reject_def split: exn.split)
    then show ?thesis by simp
  next
    case (Inr session)
    note session = this
    show ?thesis
    proof (cases "sv_live sv (ja_examId p) session")
      case Inl
      with session show ?thesis by (simp add: begins join_admin_begin_def authenticateAdmin_def)
    next
      case (Inr live)
      have "gw_rooms h = gw_rooms g" "gw_joining h = (c, p) # gw_joining g"
        by (simp_all add: begins join_admin_begin_def authenticateAdmin_def session Inr)
      moreover have "\<exists>(sv :: services) (session :: auth_session) (live :: live_exam). sv_session sv (extractAdminToken g c p) = Inr session \<and> sv_live sv (ja_examId p) session = Inr live"
        by (intro exI [of _ sv] exI [of _ session] exI [of _ live] conjI session Inr)
      ultimately show ?thesis by auto
    qed
  qed
next
  case (finishes c p)
  then have "gw_rooms h = List.insert (adminRoom (ja_examId p), c) (gw_rooms g)" "set (gw_joining h) \<subseteq> set (gw_joining g)"
    by (simp_all add: join_admin_finish_def Let_def set_remove1_subset)
  with finishes show ?thesis by auto
next
  case (joins c sv p)
  show ?thesis
  proof (cases "assertCandidateJoin sv c p g")
    case (Pair r g1)
    show ?thesis
    proof (cases r)
      case Inl
      have "gw_rooms g1 = gw_rooms g \<and> gw_joining g1 = gw_joining g"
        using Pair by (auto simp: assertCandidateJoin_def reject_def split: if_splits sum.splits)
      moreover have "h = g1" using joins Pair Inl by (simp add: handleJoinCandidate_def)
      ultimately show ?thesis by simp
    next
      case (Inr u)
      with Pair have "g1 = g" and role: "jc_deviceRole p \<in> {''PRIMARY_PC'', ''MOBILE_AUX''}"
        by (auto simp: assertCandidateJoin_def reject_def proctorDeviceRoles_def split: if_splits sum.splits)
      obtain invite where "sv_invite sv (jc_inviteToken p) = Inr invite" "ex_id (ci_exam invite) = jc_examId p"
        "cand_id (ci_candidate invite) = jc_candidateId p"
        using Pair Inr by (auto simp: assertCandidateJoin_def reject_def split: if_splits sum.splits)
      then have allowed: "sv_invite sv (jc_inviteToken p) = Inr invite \<and> ex_id (ci_exam invite) = jc_examId p \<and>
          cand_id (ci_candidate invite) = jc_candidateId p \<and> jc_deviceRole p \<in> {''PRIMARY_PC'', ''MOBILE_AUX''}"
        using role by simp
      have rooms: "gw_rooms h = List.insert (candidateRoom (jc_examId p) (jc_candidateId p) (jc_deviceRole p), c) (gw_rooms g)"
        and joining: "gw_joining h = gw_joining g"
        using joins Pair Inr \<open>g1 = g\<close> by (simp_all add: handleJoinCandidate_def Let_def)
      show ?thesis
      proof (intro conjI impI disjI2 exI)
        assume "(room, client) \<in> set (gw_rooms h) - set (gw_rooms g)"
        with rooms show "room = candidateRoom (jc_examId p) (jc_candidateId p) (jc_deviceRole p)" by auto
        from allowed show "sv_invite sv (jc_inviteToken p) = Inr invite" by simp
      qed (use allowed joining in simp_all)
    qed
  qed
next
  case (signals c kind sv p)
  then have "gw_rooms h = gw_rooms g" using signal_same [of g kind sv c p] by (simp add: same_clients_def)
  moreover have "gw_joining h = gw_joining g"
    by (auto simp: signals handleSignal_def assertCanRelay_def authenticateAdmin_def reject_def Let_def split: prod.split sum.split exn.split)
  ultimately show ?thesis by simp
next
  case (leaves sv c)
  then show ?thesis using disconnect_rooms [of sv c g] by auto
next
  case (revokes sv token)
  then show ?thesis using revoke_rooms [of sv token g] by auto
qed (simp add: connect_def)

text \<open>A join that was admitted is not stopped by the revocation of its session in between: the socket enters the room.\<close>

lemma admitted_join_survives_revocation:
  assumes "(client, payload) \<in> set (gw_joining g)" and "client \<in> set (gw_connected g)" and "client \<notin> tracked g token"
  shows "client \<in> set (members (join_admin_finish client payload (disconnectAdminClients sv token g)) (adminRoom (ja_examId payload)))"
  using assms by (simp add: members_def join_admin_finish_def Let_def revoke_sel)

section \<open>Witnesses\<close>

definition sample_services :: services where
  "sample_services = \<lparr>sv_session = (\<lambda>token. if token = Some ''tok'' then Inr sample_manager else Inl (Unauthorized ''expired'')),
     sv_live = (\<lambda>_ _. Inr \<lparr>le_exam = sample_exam, le_candidates = []\<rparr>), sv_invite = (\<lambda>_. Inr sample_invite),
     sv_device = (\<lambda>_ _. Inr ()), sv_event = (\<lambda>_ _. Inr ())\<rparr>"

definition sample_gateway :: gateway where
  "sample_gateway = join_admin_finish ''s1'' \<lparr>ja_examId = ''e1'', ja_token = None\<rparr>
     (snd (join_admin_begin sample_services ''s1'' \<lparr>ja_examId = ''e1'', ja_token = None\<rparr>
       (connect ''s2'' None (connect ''s1'' (Some ''tok'') empty_gateway))))"

lemma sample_gateway_reachable: "gateway_step\<^sup>*\<^sup>* empty_gateway sample_gateway"
proof -
  let ?p = "\<lparr>ja_examId = ''e1'', ja_token = None\<rparr>"
  let ?g1 = "connect ''s1'' (Some ''tok'') empty_gateway"
  let ?g2 = "connect ''s2'' None ?g1"
  let ?g3 = "snd (join_admin_begin sample_services ''s1'' ?p ?g2)"
  have "gateway_step empty_gateway ?g1" by (rule connects) (simp add: empty_gateway_def)
  moreover have "gateway_step ?g1 ?g2" by (rule connects) (simp add: connect_def empty_gateway_def)
  moreover have "gateway_step ?g2 ?g3" by (rule begins) (simp add: connect_def)
  moreover have "gateway_step ?g3 sample_gateway" unfolding sample_gateway_def
    by (rule finishes) (simp add: join_admin_begin_def authenticateAdmin_def extractAdminToken_def data_of_connect sample_services_def)
  ultimately show ?thesis by (meson rtranclp.rtrancl_into_rtrancl rtranclp.rtrancl_refl)
qed

lemma sample_join:
  "join_admin_begin sample_services ''s1'' \<lparr>ja_examId = ''e1'', ja_token = None\<rparr> (connect ''s2'' None (connect ''s1'' (Some ''tok'') empty_gateway)) =
    (Inr (), connect ''s2'' None (connect ''s1'' (Some ''tok'') empty_gateway)
      \<lparr>gw_joining := [(''s1'', \<lparr>ja_examId = ''e1'', ja_token = None\<rparr>)]\<rparr>)"
  by (simp add: join_admin_begin_def authenticateAdmin_def extractAdminToken_def data_of_connect sample_services_def)
    (simp add: connect_def empty_gateway_def)

lemma sample_gateway_state:
  "gw_connected sample_gateway = [''s2'', ''s1'']" "token_of sample_gateway ''s1'' = Some ''tok''" "token_of sample_gateway ''s2'' = None"
  unfolding sample_gateway_def sample_join
  by (simp_all add: join_admin_finish_def extractAdminToken_def data_of_def set_data_def untrackAdminClient_def Let_def
      connect_def empty_gateway_def no_data_def)

lemma revoked_sessions_are_disconnected_witness:
  "gw_connected (disconnectAdminClients sample_services ''tok'' sample_gateway) = [''s2'']"
  using revoked_sessions_are_disconnected [OF sample_gateway_reachable, of "''tok''"] by (simp add: sample_gateway_state)

lemma rooms_are_entered_by_right_witness:
  "\<exists>joined. (''s1'', joined) \<in> set (gw_joining (snd (join_admin_begin sample_services ''s1'' \<lparr>ja_examId = ''e1'', ja_token = None\<rparr>
       (connect ''s1'' (Some ''tok'') empty_gateway)))) \<and> ja_examId joined = ''e1''"
proof -
  let ?p = "\<lparr>ja_examId = ''e1'', ja_token = None\<rparr>"
  let ?g = "connect ''s1'' (Some ''tok'') empty_gateway"
  let ?h = "snd (join_admin_begin sample_services ''s1'' ?p ?g)"
  have "gateway_step ?g ?h" by (rule begins) (simp add: connect_def)
  from rooms_are_entered_by_right [OF this, of "adminRoom ''e1''" "''s1''" ?p]
  show ?thesis
    by (intro exI [of _ ?p]) (simp add: join_admin_begin_def authenticateAdmin_def extractAdminToken_def data_of_connect sample_services_def)
qed

end
