(* ===== verification/EmailText.thy ===== *)
theory EmailText
  imports Contracts JsText
begin

text \<open>
  The texts of the invitation mails: their content with its escaping (\<open>email-template.ts\<close>), and the texts that go to
  or come from a mail provider (\<open>email-provider-response.ts\<close> and the helpers of \<open>email-delivery.ts\<close>): tags, keys and the
  redaction of keys from what a provider answers. Korean sentences are English here, with the same values in the same
  places.
\<close>

section \<open>Content\<close>

record invite_mail =
  im_candidateId :: string
  im_candidateName :: string
  im_email :: string
  im_examTitle :: string
  im_inviteUrl :: string

record mail_content =
  mc_subject :: string
  mc_html :: string
  mc_text :: string

definition escape_char :: "char \<Rightarrow> string" where
  "escape_char c =
     (if c = CHR ''&'' then ''&amp;'' else if c = CHR ''<'' then ''&lt;'' else if c = CHR ''>'' then ''&gt;''
      else if c = CHR 0x22 then ''&quot;'' else if c = CHR 0x27 then ''&#39;'' else [c])"

definition escapeHtml :: "string \<Rightarrow> string" where
  "escapeHtml v = concat (map escape_char v)"

definition renderInviteEmail :: "invite_mail \<Rightarrow> mail_content" where
  "renderInviteEmail input =
     (let candidateName = escapeHtml (im_candidateName input);
          examTitle = escapeHtml (im_examTitle input);
          inviteUrl = escapeHtml (im_inviteUrl input)
      in \<lparr>mc_subject = ''[DCVP] Invitation to '' @ im_examTitle input,
          mc_html = ''<p>'' @ candidateName @ '', you are invited to '' @ examTitle @ ''.</p>'' @
            ''<p>Open the link below for the environment check, the identity check and the exam.</p>'' @
            ''<p><a href='' @ [CHR 0x22] @ inviteUrl @ [CHR 0x22] @ ''>'' @ inviteUrl @ ''</a></p>'',
          mc_text = im_candidateName input @ '', you are invited to '' @ im_examTitle input @ ''.'' @ [CHR 0x0A] @ im_inviteUrl input\<rparr>)"

section \<open>Keys and tags\<close>

definition word_char :: "char \<Rightarrow> bool" where
  "word_char c \<longleftrightarrow> 48 \<le> cu c \<and> cu c \<le> 57 \<or> 65 \<le> cu c \<and> cu c \<le> 90 \<or> 97 \<le> cu c \<and> cu c \<le> 122 \<or> c = CHR ''_''"

definition key_char :: "char \<Rightarrow> bool" where
  "key_char c \<longleftrightarrow> word_char c \<or> c = CHR ''-''"

text \<open>\<open>replace(/[^A-Za-z0-9_-]+/g, "-")\<close>\<close>

function dash_runs :: "string \<Rightarrow> string" where
  "dash_runs [] = []"
| "dash_runs (c # s) = (if key_char c then c # dash_runs s else CHR ''-'' # dash_runs (dropWhile (\<lambda>d. \<not> key_char d) s))"
  by pat_completeness auto
termination
  by (relation "measure length") (auto simp: le_imp_less_Suc length_dropWhile_le)

definition strip_dashes :: "string \<Rightarrow> string" where
  "strip_dashes s = rev (dropWhile (\<lambda>c. c = CHR ''-'') (rev (dropWhile (\<lambda>c. c = CHR ''-'') s)))"

text \<open>\<open>nfkd\<close> is \<open>String.prototype.normalize("NFKD")\<close>.\<close>

definition emailTagValue :: "(string \<Rightarrow> string) \<Rightarrow> string \<Rightarrow> string" where
  "emailTagValue nfkd v = (let normalized = take 64 (strip_dashes (dash_runs (nfkd v))) in if normalized = [] then ''dcvp'' else normalized)"

section \<open>Redaction\<close>

text \<open>
  A matcher says how many characters of a text match at its beginning, none for 0. \<open>replace_matches\<close> is \<open>replace\<close> with
  a global pattern, and \<open>replaceAll\<close>: the leftmost matches, one after the other.
\<close>

function replace_matches :: "(string \<Rightarrow> nat) \<Rightarrow> string \<Rightarrow> string \<Rightarrow> string" where
  "replace_matches match mark [] = []"
| "replace_matches match mark (c # s) =
     (if match (c # s) = 0 then c # replace_matches match mark s
      else mark @ replace_matches match mark (drop (match (c # s)) (c # s)))"
  by pat_completeness auto
termination
  by (relation "measure (\<lambda>(match, mark, s). length s)") auto

definition match_prefix :: "string \<Rightarrow> (char \<Rightarrow> bool) \<Rightarrow> string \<Rightarrow> nat" where
  "match_prefix p char s = (let run = takeWhile char (drop (length p) s) in
     if startsWith s p \<and> run \<noteq> [] then length p + length run else 0)"

text \<open>\<open>/re_[A-Za-z0-9_]+/\<close>, \<open>/SG\.[A-Za-z0-9_-]+\.[A-Za-z0-9_-]+/\<close>, \<open>/sk-[A-Za-z0-9_-]+/\<close> and a literal text.\<close>

definition match_resend :: "string \<Rightarrow> nat" where
  "match_resend s = match_prefix ''re_'' word_char s"

definition match_sendgrid :: "string \<Rightarrow> nat" where
  "match_sendgrid s = (let n = match_prefix ''SG.'' key_char s; m = match_prefix ''.'' key_char (drop n s)
     in if n = 0 \<or> m = 0 then 0 else n + m)"

definition match_sk :: "string \<Rightarrow> nat" where
  "match_sk s = match_prefix ''sk-'' key_char s"

definition match_text :: "string \<Rightarrow> string \<Rightarrow> nat" where
  "match_text w s = (if startsWith s w then length w else 0)"

definition mark_text :: string where
  "mark_text = ''REDACTED_API_KEY''"

definition redacted_mark :: string where
  "redacted_mark = CHR ''['' # mark_text @ '']''"

definition redact_secret :: "env \<Rightarrow> string \<Rightarrow> string \<Rightarrow> string" where
  "redact_secret env name s = (case env name of
       Some secret \<Rightarrow> if trim secret \<noteq> [] then replace_matches (match_text (trim secret)) redacted_mark s else s
     | None \<Rightarrow> s)"

definition secret_names :: "string list" where
  "secret_names = [''RESEND_API_KEY'', ''SENDGRID_API_KEY'', ''EMAIL_API_KEY'']"

definition redactSensitiveText :: "env \<Rightarrow> string \<Rightarrow> string" where
  "redactSensitiveText env v =
     (let redacted = replace_matches match_sk redacted_mark (replace_matches match_sendgrid redacted_mark
            (replace_matches match_resend redacted_mark v))
      in take 500 (fold (redact_secret env) secret_names redacted))"

section \<open>What a provider answers\<close>

definition json_field :: "json \<Rightarrow> string \<Rightarrow> json option" where
  "json_field body key = (case body of JObj properties \<Rightarrow> map_of properties key | _ \<Rightarrow> None)"

definition providerMessageId :: "json \<Rightarrow> string option" where
  "providerMessageId body = (case json_field body ''id'' of
       Some (JStr s) \<Rightarrow> if trim s \<noteq> [] then Some (take 256 (trim s)) else None | _ \<Rightarrow> None)"

definition localizedProviderMessage :: "string \<Rightarrow> string" where
  "localizedProviderMessage message =
     (if message = ''API key is invalid'' then ''The key is not valid.''
      else if message = ''The from address is not verified'' then ''The sender is not verified.'' else message)"

definition providerErrorMessage :: "json \<Rightarrow> string" where
  "providerErrorMessage body =
     (let unnamed = (case json_field body ''name'' of
            Some (JStr n) \<Rightarrow> if trim n \<noteq> [] then n else ''Provider returned an error response without a message.''
          | _ \<Rightarrow> ''Provider returned an error response without a message.'')
      in case body of
        JObj _ \<Rightarrow> (case json_field body ''message'' of
            Some (JStr message) \<Rightarrow> if trim message \<noteq> [] then localizedProviderMessage message else unnamed
          | _ \<Rightarrow> unnamed)
      | _ \<Rightarrow> ''Provider returned an unreadable error response.'')"

section \<open>Factors of texts\<close>

lemma has_text_self [simp]: "has_text w w"
  by (metis append_Nil append_Nil2 includes_iff)

lemma has_text_Nil [simp]: "has_text s []"
  by (cases s) (simp_all add: startsWith_def)

lemma has_textI: "has_text (a @ w @ b) w"
  by (auto simp: includes_iff)

lemma has_text_set: "has_text s w \<Longrightarrow> set w \<subseteq> set s"
  by (auto simp: includes_iff)

lemma has_text_length: "has_text s w \<Longrightarrow> length w \<le> length s"
  by (auto simp: includes_iff)

lemma has_text_take: "has_text (take n s) w \<Longrightarrow> has_text s w"
  by (metis append_assoc append_take_drop_id includes_iff)

text \<open>A separator that a word does not contain keeps it on one side.\<close>

lemma has_text_sep:
  assumes "d \<notin> set w"
  shows "has_text (x @ d # y) w \<longleftrightarrow> has_text x w \<or> has_text y w"
proof
  assume "has_text (x @ d # y) w"
  then obtain a b where ab: "a @ (w @ b) = x @ d # y" by (auto simp: includes_iff)
  then consider us where "x = a @ us" "w @ b = us @ d # y" | us where "a = x @ us" "us @ w @ b = d # y"
    by (auto simp: append_eq_append_conv2)
  then show "has_text x w \<or> has_text y w"
  proof cases
    case 1
    then obtain zs where "w = us @ zs \<and> zs @ b = d # y \<or> w @ zs = us" by (auto simp: append_eq_append_conv2)
    with assms have "\<exists>vs. us = w @ vs" by (cases zs) auto
    then obtain vs where "us = w @ vs" ..
    with 1 show ?thesis by (auto simp: includes_iff)
  next
    case (2 us)
    show ?thesis
    proof (cases us)
      case Nil
      with 2 assms have "w = []" by (cases w) auto
      then show ?thesis by simp
    next
      case (Cons e vs)
      with 2 have "y = vs @ w @ b" by simp
      then show ?thesis by (simp only: has_textI simp_thms)
    qed
  qed
next
  assume "has_text x w \<or> has_text y w"
  then consider a b where "x = a @ w @ b" | a b where "y = a @ w @ b" by (auto simp: includes_iff)
  then show "has_text (x @ d # y) w"
  proof cases
    case (1 a b)
    with has_textI [of a w "b @ d # y"] show ?thesis by simp
  next
    case (2 a b)
    with has_textI [of "x @ d # a" w b] show ?thesis by simp
  qed
qed

section \<open>What a replacement leaves\<close>

text \<open>Words without brackets that the mark does not hold: they are not made by a replacement, and if the matcher catches
  them wherever they stand, none is left.\<close>

definition unmarked :: "string \<Rightarrow> bool" where
  "unmarked w \<longleftrightarrow> CHR ''['' \<notin> set w \<and> CHR '']'' \<notin> set w \<and> \<not> has_text mark_text w"

lemma unmarked_nonempty: "unmarked w \<Longrightarrow> w \<noteq> []"
  by (auto simp: unmarked_def)

lemma has_text_mark:
  assumes "unmarked w"
  shows "has_text (redacted_mark @ s) w \<longleftrightarrow> has_text s w"
proof -
  have mark: "redacted_mark @ s = [] @ CHR ''['' # (mark_text @ CHR '']'' # s)" by (simp add: redacted_mark_def)
  have "has_text [] w \<Longrightarrow> has_text s w" by simp
  with assms show ?thesis unfolding mark unmarked_def
    by (subst has_text_sep, simp, subst has_text_sep, simp) auto
qed

lemma kept_prefix:
  assumes "CHR ''['' \<notin> set w" and "startsWith (replace_matches m redacted_mark s) w"
  shows "startsWith s w"
  using assms
proof (induction m redacted_mark s arbitrary: w rule: replace_matches.induct)
  case (2 m c s)
  then show ?case
    by (cases w) (auto simp: startsWith_iff redacted_mark_def split: if_splits)
qed (simp add: startsWith_def)

lemma replaced_text:
  assumes "unmarked w" and "has_text (replace_matches m redacted_mark s) w"
  shows "has_text s w"
  using assms(2)
proof (induction m redacted_mark s rule: replace_matches.induct)
  case (2 m c s)
  show ?case
  proof (cases "m (c # s) = 0")
    case True
    with 2 assms(1) kept_prefix [of w m "c # s"] show ?thesis by (auto simp: unmarked_def)
  next
    case False
    with 2 has_text_mark [OF assms(1)] have "has_text (drop (m (c # s)) (c # s)) w" by simp
    then show ?thesis by (metis append.assoc append_take_drop_id includes_iff)
  qed
qed simp

lemma replaced_all:
  assumes "unmarked w" and "\<And>s. startsWith s w \<Longrightarrow> m s \<noteq> 0"
  shows "\<not> has_text (replace_matches m redacted_mark s) w"
  using assms(2)
proof (induction m redacted_mark s rule: replace_matches.induct)
  case (1 m)
  then show ?case using unmarked_nonempty [OF assms(1)] by simp
next
  case (2 m c s)
  show ?case
  proof (cases "m (c # s) = 0")
    case True
    with 2(3) [of "c # s"] have "\<not> startsWith (c # s) w" by auto
    with kept_prefix [of w m "c # s"] assms(1) True have "\<not> startsWith (c # replace_matches m redacted_mark s) w"
      by (auto simp: unmarked_def)
    with 2 True show ?thesis by simp
  next
    case False
    with 2 has_text_mark [OF assms(1)] show ?thesis by simp
  qed
qed


section \<open>What is redacted\<close>

lemma takeWhile_run: "list_all k u \<Longrightarrow> \<not> k d \<Longrightarrow> takeWhile k (u @ d # s) = u"
  by (induction u) auto

lemma match_prefix_run: "startsWith s (p @ [d]) \<Longrightarrow> k d \<Longrightarrow> match_prefix p k s \<noteq> 0"
  by (auto simp: match_prefix_def startsWith_iff)

lemma match_sendgrid_run:
  assumes "startsWith s (''SG.'' @ u @ ''.'' @ [d])" and "u \<noteq> []" and "list_all key_char u" and "key_char d"
  shows "match_sendgrid s \<noteq> 0"
proof -
  have dot: "\<not> key_char CHR ''.''" by (simp add: key_char_def word_char_def)
  from assms(1) obtain t where s: "s = ''SG.'' @ u @ CHR ''.'' # d # t" by (auto simp: startsWith_iff)
  have run: "match_prefix ''SG.'' key_char s = 3 + length u"
    using assms(2) takeWhile_run [of key_char u "CHR ''.''" "d # t"] assms(3) dot by (simp add: s match_prefix_def startsWith_def Let_def)
  moreover have "drop (length (''SG.'' @ u)) s = CHR ''.'' # d # t" unfolding s by (metis append.assoc append_eq_conv_conj)
  then have "drop (3 + length u) s = CHR ''.'' # d # t" by (simp add: numeral_3_eq_3)
  then have "match_prefix ''.'' key_char (drop (3 + length u) s) \<noteq> 0"
    by (intro match_prefix_run [of _ _ d]) (simp_all add: startsWith_def assms(4))
  ultimately show ?thesis by (simp add: match_sendgrid_def Let_def)
qed

lemma unmarked_key: "x \<in> set w \<Longrightarrow> x \<notin> set mark_text \<Longrightarrow> CHR ''['' \<notin> set w \<Longrightarrow> CHR '']'' \<notin> set w \<Longrightarrow> unmarked w"
  unfolding unmarked_def using has_text_set by blast

lemma key_char_plain: "list_all key_char w \<Longrightarrow> CHR ''['' \<notin> set w \<and> CHR '']'' \<notin> set w"
  by (auto simp: list_all_iff key_char_def word_char_def)

text \<open>The words that look like a key of a provider.\<close>

definition key_like :: "string \<Rightarrow> bool" where
  "key_like w \<longleftrightarrow> (\<exists>d. w = ''re_'' @ [d] \<and> word_char d) \<or> (\<exists>d. w = ''sk-'' @ [d] \<and> key_char d) \<or>
     (\<exists>u d. w = ''SG.'' @ u @ ''.'' @ [d] \<and> u \<noteq> [] \<and> list_all key_char u \<and> key_char d)"

lemma key_char_simps [simp]: "word_char d \<Longrightarrow> key_char d" "\<not> key_char CHR ''[''" "\<not> key_char CHR '']''" "\<not> key_char CHR ''.''"
  by (simp add: key_char_def) code_simp+

lemma key_char_letters:
  "key_char CHR ''r''" "key_char CHR ''e''" "key_char CHR ''_''" "key_char CHR ''s''" "key_char CHR ''k''" "key_char CHR ''-''"
  "key_char CHR ''S''" "key_char CHR ''G''"
  by code_simp+

lemma key_likeE:
  assumes "key_like w"
  obtains d where "w = ''re_'' @ [d]" "word_char d" | d where "w = ''sk-'' @ [d]" "key_char d"
    | u d where "w = ''SG.'' @ u @ ''.'' @ [d]" "u \<noteq> []" "list_all key_char u" "key_char d"
  using assms unfolding key_like_def by blast

lemma key_like_unmarked: "key_like w \<Longrightarrow> unmarked w"
proof -
  assume "key_like w"
  then have plain: "list_all (\<lambda>c. key_char c \<or> c = CHR ''.'') w"
  proof (cases rule: key_likeE)
    case (3 u d)
    then have "list_all (\<lambda>c. key_char c \<or> c = CHR ''.'') u" by (simp add: list_all_iff)
    with 3 show ?thesis by (simp add: key_char_letters)
  qed (simp_all add: key_char_letters)
  from \<open>key_like w\<close> obtain x where x: "x \<in> set w" "x \<in> {CHR ''r'', CHR ''s'', CHR ''.''}"
  proof (cases rule: key_likeE)
    case (1 d)
    then show ?thesis by (intro that [of "CHR ''r''"]) simp_all
  next
    case (2 d)
    then show ?thesis by (intro that [of "CHR ''s''"]) simp_all
  next
    case (3 u d)
    then show ?thesis by (intro that [of "CHR ''.''"]) simp_all
  qed
  have other: "c \<notin> set w" if "\<not> key_char c" "c \<noteq> CHR ''.''" for c using plain that by (auto simp: list_all_iff)
  show "unmarked w"
  proof (rule unmarked_key [OF x(1)])
    show "x \<notin> set mark_text" using x(2) by (auto simp: mark_text_def)
    show "CHR ''['' \<notin> set w" by (rule other) simp_all
    show "CHR '']'' \<notin> set w" by (rule other) simp_all
  qed
qed

lemma secrets_redacted:
  assumes "unmarked w" and "has_text (fold (redact_secret env) names s) w"
  shows "has_text s w"
  using assms(2)
proof (induction names arbitrary: s)
  case (Cons name names)
  then have "has_text (redact_secret env name s) w" by simp
  then show ?case by (auto simp: redact_secret_def split: option.splits if_splits dest: replaced_text [OF assms(1)])
qed simp

lemma secret_redacted:
  assumes "env name = Some secret" and "unmarked (trim secret)" and "name \<in> set names"
  shows "\<not> has_text (fold (redact_secret env) names s) (trim secret)"
  using assms(3)
proof (induction names arbitrary: s)
  case (Cons n names)
  show ?case
  proof (cases "name \<in> set names")
    case True
    with Cons.IH show ?thesis by simp
  next
    case False
    with Cons.prems have "n = name" by simp
    have "\<not> has_text (replace_matches (match_text (trim secret)) redacted_mark s) (trim secret)"
      using unmarked_nonempty [OF assms(2)] by (intro replaced_all [OF assms(2)]) (simp add: match_text_def)
    moreover have "redact_secret env n s = replace_matches (match_text (trim secret)) redacted_mark s"
      using unmarked_nonempty [OF assms(2)] \<open>n = name\<close> assms(1) by (simp add: redact_secret_def)
    ultimately show ?thesis using secrets_redacted [OF assms(2), of env names "redact_secret env n s"] by auto
  qed
qed simp

lemma redacted_text:
  "has_text (redactSensitiveText env v) w \<Longrightarrow> has_text (fold (redact_secret env) secret_names (replace_matches match_sk redacted_mark
     (replace_matches match_sendgrid redacted_mark (replace_matches match_resend redacted_mark v)))) w"
  unfolding redactSensitiveText_def Let_def by (rule has_text_take)

lemma configured_redacted:
  assumes "name \<in> set secret_names" and "env name = Some secret" and "unmarked (trim secret)"
  shows "\<not> has_text (redactSensitiveText env v) (trim secret)"
  using secret_redacted [of env name secret secret_names] assms redacted_text by blast

text \<open>C30. Whatever a mail provider answers, the redacted text is at most 500 characters long, holds nothing that looks like a
  key of a provider, and none of the configured keys (a key without brackets that is not part of the mark itself).\<close>

theorem redaction_removes_keys:
  "length (redactSensitiveText env answer) \<le> 500 \<and>
   (key_like w \<or> (\<exists>name \<in> set secret_names. map_option trim (env name) = Some w) \<and> unmarked w \<longrightarrow> \<not> has_text (redactSensitiveText env answer) w)"
proof -
  let ?a = "replace_matches match_resend redacted_mark answer"
  let ?b = "replace_matches match_sendgrid redacted_mark ?a"
  let ?c = "replace_matches match_sk redacted_mark ?b"
  have "\<not> has_text (redactSensitiveText env answer) w" if like: "key_like w"
  proof -
    note u = key_like_unmarked [OF like]
    from like have "\<not> has_text ?c w"
    proof (cases rule: key_likeE)
      case w: (1 d)
      then have "\<not> has_text ?a w"
        by (intro replaced_all [OF u]) (simp add: match_resend_def match_prefix_run del: append.simps)
      then show ?thesis by (blast dest: replaced_text [OF u])
    next
      case w: (2 d)
      then show ?thesis by (intro replaced_all [OF u]) (simp add: match_sk_def match_prefix_run del: append.simps)
    next
      case w: (3 v d)
      then have "\<not> has_text ?b w" by (intro replaced_all [OF u]) (simp add: match_sendgrid_run del: append.simps)
      then show ?thesis by (blast dest: replaced_text [OF u])
    qed
    then show ?thesis using secrets_redacted [OF u redacted_text] by blast
  qed
  moreover have "\<not> has_text (redactSensitiveText env answer) w"
    if n: "name \<in> set secret_names" "map_option trim (env name) = Some w" "unmarked w" for name
  proof -
    from n obtain secret where "env name = Some secret" "w = trim secret" by auto
    with configured_redacted [of name env secret answer] n show ?thesis by simp
  qed
  moreover have "length (redactSensitiveText env answer) \<le> 500" by (simp add: redactSensitiveText_def Let_def)
  ultimately show ?thesis by blast
qed


section \<open>Escaping and tags\<close>

text \<open>The texts that are read back from HTML, and the characters that are markup.\<close>

fun unescape :: "string \<Rightarrow> string" where
  "unescape [] = []"
| "unescape (c # s) =
     (if startsWith (c # s) ''&amp;'' then CHR ''&'' # unescape (drop 4 s)
      else if startsWith (c # s) ''&lt;'' then CHR ''<'' # unescape (drop 3 s)
      else if startsWith (c # s) ''&gt;'' then CHR ''>'' # unescape (drop 3 s)
      else if startsWith (c # s) ''&quot;'' then CHR 0x22 # unescape (drop 5 s)
      else if startsWith (c # s) ''&#39;'' then CHR 0x27 # unescape (drop 4 s)
      else c # unescape s)"

definition is_markup :: "char \<Rightarrow> bool" where
  "is_markup c \<longleftrightarrow> c \<in> {CHR ''<'', CHR ''>'', CHR 0x22, CHR 0x27}"

lemma escape_read_back: "unescape (escape_char c @ s) = c # unescape s"
  by (simp add: escape_char_def startsWith_def)

lemma unescape_escape: "unescape (escapeHtml v) = v"
  by (induction v) (simp_all add: escapeHtml_def escape_read_back)

lemma literal_markup:
  "filter is_markup ''&amp;'' = []" "filter is_markup ''&lt;'' = []" "filter is_markup ''&gt;'' = []" "filter is_markup ''&quot;'' = []"
  "filter is_markup ''&#39;'' = []" "filter is_markup ''<p>'' = ''<>''" "filter is_markup '', you are invited to '' = []"
  "filter is_markup ''.</p>'' = ''<>''" "filter is_markup ''<p><a href='' = ''<><''" "filter is_markup [CHR 0x22] = [CHR 0x22]"
  "filter is_markup ''>'' = ''>''" "filter is_markup ''</a></p>'' = ''<><>''"
  "filter is_markup ''<p>Open the link below for the environment check, the identity check and the exam.</p>'' = ''<><>''"
  by code_simp+

lemma char_markup: "filter is_markup (escape_char c) = []"
  unfolding escape_char_def by (simp only: literal_markup split: if_split) (simp add: is_markup_def)

lemma no_markup: "filter is_markup (escapeHtml v) = []"
  by (induction v) (simp_all add: escapeHtml_def char_markup)

text \<open>C39. An invitation mail shows the values as they are: what stands in its HTML reads back as the name, the title and the
  link, and none of them adds markup, so that the tags and attributes of every mail are those of the template.\<close>

theorem invitation_values_are_escaped:
  "(\<exists>a b d e. mc_html (renderInviteEmail input) =
      ''<p>'' @ a @ '', you are invited to '' @ b @ ''.</p>'' @ ''<p>Open the link below for the environment check, the identity check and the exam.</p>'' @
      ''<p><a href='' @ [CHR 0x22] @ d @ [CHR 0x22] @ ''>'' @ e @ ''</a></p>'' \<and>
      map unescape [a, b, d, e] = [im_candidateName input, im_examTitle input, im_inviteUrl input, im_inviteUrl input]) \<and>
   filter is_markup (mc_html (renderInviteEmail input)) = ''<><><><><><'' @ [CHR 0x22, CHR 0x22] @ ''><><>''"
proof -
  have "map unescape [escapeHtml (im_candidateName input), escapeHtml (im_examTitle input), escapeHtml (im_inviteUrl input), escapeHtml (im_inviteUrl input)] =
      [im_candidateName input, im_examTitle input, im_inviteUrl input, im_inviteUrl input]"
    by (simp add: unescape_escape)
  moreover have "filter is_markup (mc_html (renderInviteEmail input)) = ''<><><><><><'' @ [CHR 0x22, CHR 0x22] @ ''><><>''"
    by (simp only: renderInviteEmail_def Let_def mail_content.simps filter_append no_markup literal_markup)
      (simp only: append_Nil append_Cons append_assoc)
  moreover have "mc_html (renderInviteEmail input) = ''<p>'' @ escapeHtml (im_candidateName input) @ '', you are invited to '' @
      escapeHtml (im_examTitle input) @ ''.</p>'' @ ''<p>Open the link below for the environment check, the identity check and the exam.</p>'' @
      ''<p><a href='' @ [CHR 0x22] @ escapeHtml (im_inviteUrl input) @ [CHR 0x22] @ ''>'' @ escapeHtml (im_inviteUrl input) @ ''</a></p>''"
    by (simp only: renderInviteEmail_def Let_def mail_content.simps)
  ultimately show ?thesis by (intro conjI exI)
qed

lemma dash_runs_chars: "list_all key_char (dash_runs s)"
  by (induction s rule: dash_runs.induct) (simp_all add: key_char_def)

lemma email_tag: "list_all key_char (emailTagValue nfkd v) \<and> emailTagValue nfkd v \<noteq> [] \<and> length (emailTagValue nfkd v) \<le> 64"
proof -
  have "set (take 64 (strip_dashes s)) \<subseteq> set s" for s
    unfolding strip_dashes_def by (metis set_dropWhileD set_rev set_take_subset subsetD subsetI)
  with dash_runs_chars [of "nfkd v"] have "list_all key_char (take 64 (strip_dashes (dash_runs (nfkd v))))"
    unfolding list_all_iff by blast
  moreover have "list_all key_char ''dcvp''" by code_simp
  ultimately show ?thesis by (simp add: emailTagValue_def Let_def)
qed

section \<open>Witnesses\<close>

lemma redaction_removes_keys_witness:
  "\<not> has_text (redactSensitiveText (\<lambda>n. if n = ''EMAIL_API_KEY'' then Some '' hook-key-1 '' else None) ''bad key hook-key-1 or re_x1'') ''hook-key-1''"
proof -
  let ?env = "\<lambda>n. if n = ''EMAIL_API_KEY'' then Some '' hook-key-1 '' else None"
  have "trim '' hook-key-1 '' = ''hook-key-1''" by (simp add: trim_def trimStart_def trimEnd_def js_space_def)
  moreover have "unmarked ''hook-key-1''" by (simp add: unmarked_def mark_text_def startsWith_def)
  ultimately show ?thesis using redaction_removes_keys [of ?env "''bad key hook-key-1 or re_x1''" "''hook-key-1''"]
    by (simp add: secret_names_def)
qed

end
