(* ===== verification/InviteEmail.thy ===== *)
theory InviteEmail
  imports IdentityEnvironment EmailText
begin

text \<open>
  The invitation mails (\<open>email-delivery.ts\<close>, \<open>email.service.ts\<close>, \<open>platform-store.invite-email.ts\<close>, and the address
  of the web application from \<open>platform-store.helpers.ts\<close>): the request to the configured provider, the reading of its
  answer, and the log of every attempt. The network and the normalization of Unicode texts are parameters; the body of a
  request is kept as the fields it is made of.
\<close>

section \<open>Providers\<close>

datatype email_request =
    ResendRequest (er_key: string) (er_from: string) (er_to: string) (er_content: mail_content) (er_tags: "(string \<times> string) list")
  | SendGridRequest (er_key: string) (er_from: string) (er_fromName: string) (er_to: string) (er_toName: string)
      (er_args: "(string \<times> string) list") (er_content: mail_content)
  | WebhookRequest (er_apiKey: "string option") (er_to: string) (er_content: mail_content) (er_data: invite_mail)

record mail_answer =
  ma_response :: http_response
  ma_header :: "string \<Rightarrow> string option"

record mail_services =
  ms_network :: "unit network"
  ms_fetch :: "email_request \<Rightarrow> url \<Rightarrow> mail_answer option"
  ms_nfkd :: "string \<Rightarrow> string"

record mail_result =
  ml_delivered :: bool
  ml_provider :: string
  ml_providerMessageId :: "string option"
  ml_message :: string

text \<open>An \<open>EmailProviderConfigurationError\<close> of a provider, or another error with the message it has.\<close>

datatype mail_failure = ProviderFailure string string | OtherFailure "string option"

type_synonym 'a mail_res = "mail_failure + 'a"

definition bindM :: "'a mail_res \<Rightarrow> ('a \<Rightarrow> 'b mail_res) \<Rightarrow> 'b mail_res" where
  "bindM r f = (case r of Inl e \<Rightarrow> Inl e | Inr x \<Rightarrow> f x)"

lemma bindM_eq_Inr: "bindM r f = Inr y \<longleftrightarrow> (\<exists>x. r = Inr x \<and> f x = Inr y)"
  by (simp add: bindM_def split: sum.split)

lemma bindM_eq_Inl: "bindM r f = Inl e \<longleftrightarrow> r = Inl e \<or> (\<exists>x. r = Inr x \<and> f x = Inl e)"
  by (simp add: bindM_def split: sum.split)

definition present :: "string option \<Rightarrow> string option" where
  "present v = (if truthy v then v else None)"

definition providerFetch :: "mail_services \<Rightarrow> env \<Rightarrow> string \<Rightarrow> string \<Rightarrow> email_request \<Rightarrow> mail_answer mail_res" where
  "providerFetch ms env provider address request =
     (let nw = ms_network ms in
      case secureOutboundFetch (nw_parseUrl nw) (nw_lookup nw) (nw_isIP nw) (nw_check nw) (ms_fetch ms request) env address of
        Inl _ \<Rightarrow> Inl (ProviderFailure provider (provider @ '': the connection is not safe or is not answered.''))
      | Inr answer \<Rightarrow> Inr answer)"

definition boundedProviderText :: "string \<Rightarrow> mail_answer \<Rightarrow> string mail_res" where
  "boundedProviderText provider answer =
     (case readBoundedText (64 * 1024) (hr_contentLength (ma_response answer)) (hr_body (ma_response answer)) of
        Inl _ \<Rightarrow> Inl (ProviderFailure provider (provider @ '': the answer is too large.''))
      | Inr body \<Rightarrow> Inr body)"

definition readProviderResponse :: "mail_services \<Rightarrow> env \<Rightarrow> mail_answer \<Rightarrow> json mail_res" where
  "readProviderResponse ms env answer =
     (let contentType = (case ma_header answer ''content-type'' of Some v \<Rightarrow> v | None \<Rightarrow> []) in
      if has_text contentType ''application/json'' then
        (case readBoundedJson (ms_network ms) (ma_response answer) of
           Inl _ \<Rightarrow> Inr (JObj [(''message'', JStr ''Provider returned invalid JSON.'')])
         | Inr body \<Rightarrow> Inr body)
      else bindM (boundedProviderText ''resend'' answer) (\<lambda>body.
        Inr (JObj [(''message'', JStr (redactSensitiveText env body))])))"

definition parseResendApiKey :: "string option \<Rightarrow> string mail_res" where
  "parseResendApiKey v =
     (let apiKey = map_option trim v in
      if \<not> truthy apiKey \<or> \<not> hasUsableConfigValue apiKey then
        Inl (ProviderFailure ''resend'' ''Resend needs a real key, not a placeholder.'')
      else if \<not> startsWith (the apiKey) ''re_'' then Inl (ProviderFailure ''resend'' ''A Resend key starts with re_.'')
      else Inr (the apiKey))"

definition from_name :: "env \<Rightarrow> string" where
  "from_name env = (case env ''EMAIL_FROM_NAME'' of Some n \<Rightarrow> n | None \<Rightarrow> ''DCVP'')"

definition formatSender :: "env \<Rightarrow> string \<Rightarrow> string" where
  "formatSender env email = from_name env @ '' <'' @ email @ ''>''"

definition base_url :: "env \<Rightarrow> string \<Rightarrow> string \<Rightarrow> string" where
  "base_url env name otherwise = (case env name of Some v \<Rightarrow> v | None \<Rightarrow> otherwise)"

definition sendWithResend :: "mail_services \<Rightarrow> env \<Rightarrow> invite_mail \<Rightarrow> mail_result mail_res" where
  "sendWithResend ms env input =
     bindM (parseResendApiKey (env ''RESEND_API_KEY'')) (\<lambda>apiKey.
     if \<not> truthy (env ''EMAIL_FROM_ADDRESS'') then Inl (ProviderFailure ''resend'' ''Resend needs a key and a sender.'')
     else
       bindM (providerFetch ms env ''resend'' (base_url env ''RESEND_API_BASE_URL'' ''https://api.resend.com'' @ ''/emails'')
         (ResendRequest apiKey (formatSender env (the (env ''EMAIL_FROM_ADDRESS''))) (im_email input) (renderInviteEmail input)
            [(''candidate_id'', emailTagValue (ms_nfkd ms) (im_candidateId input)), (''exam_title'', emailTagValue (ms_nfkd ms) (im_examTitle input))])) (\<lambda>answer.
       bindM (readProviderResponse ms env answer) (\<lambda>body.
       if \<not> hr_ok (ma_response answer) then
         Inl (ProviderFailure ''resend'' (''Resend failed ('' @ nat_text (hr_status (ma_response answer)) @ ''): '' @
           redactSensitiveText env (providerErrorMessage body)))
       else Inr \<lparr>ml_delivered = True, ml_provider = ''resend'', ml_providerMessageId = providerMessageId body,
         ml_message = ''The mail was handed to Resend.''\<rparr>)))"

definition sendWithSendGrid :: "mail_services \<Rightarrow> env \<Rightarrow> invite_mail \<Rightarrow> mail_result mail_res" where
  "sendWithSendGrid ms env input =
     (if \<not> truthy (env ''SENDGRID_API_KEY'') \<or> \<not> truthy (env ''EMAIL_FROM_ADDRESS'') then
        Inl (ProviderFailure ''sendgrid'' ''SendGrid needs a key and a sender.'')
      else
        bindM (providerFetch ms env ''sendgrid'' (base_url env ''SENDGRID_API_BASE_URL'' ''https://api.sendgrid.com/v3'' @ ''/mail/send'')
          (SendGridRequest (the (env ''SENDGRID_API_KEY'')) (the (env ''EMAIL_FROM_ADDRESS'')) (from_name env) (im_email input)
             (im_candidateName input) [(''candidateId'', im_candidateId input), (''examTitle'', im_examTitle input)] (renderInviteEmail input))) (\<lambda>answer.
        if hr_status (ma_response answer) \<noteq> 202 then
          bindM (boundedProviderText ''sendgrid'' answer) (\<lambda>body.
            Inl (ProviderFailure ''sendgrid'' (''SendGrid failed ('' @ nat_text (hr_status (ma_response answer)) @ ''): '' @ redactSensitiveText env body)))
        else Inr \<lparr>ml_delivered = True, ml_provider = ''sendgrid'', ml_providerMessageId = present (ma_header answer ''x-message-id''),
          ml_message = ''The mail was handed to SendGrid.''\<rparr>))"

definition sendWithWebhook :: "mail_services \<Rightarrow> env \<Rightarrow> invite_mail \<Rightarrow> mail_result mail_res" where
  "sendWithWebhook ms env input =
     (if \<not> truthy (env ''EMAIL_WEBHOOK_URL'') then Inl (ProviderFailure ''webhook'' ''The webhook needs an address.'')
      else
        bindM (providerFetch ms env ''webhook'' (the (env ''EMAIL_WEBHOOK_URL''))
          (WebhookRequest (present (env ''EMAIL_API_KEY'')) (im_email input) (renderInviteEmail input) input)) (\<lambda>answer.
        if \<not> hr_ok (ma_response answer) then
          bindM (boundedProviderText ''webhook'' answer) (\<lambda>body.
            Inl (ProviderFailure ''webhook'' (''Webhook failed ('' @ nat_text (hr_status (ma_response answer)) @ ''): '' @ redactSensitiveText env body)))
        else Inr \<lparr>ml_delivered = True, ml_provider = ''webhook'',
          ml_providerMessageId = present (case ma_header answer ''x-message-id'' of Some v \<Rightarrow> Some v | None \<Rightarrow> ma_header answer ''x-request-id''),
          ml_message = ''The mail was handed to the webhook.''\<rparr>))"

definition configuredProviderName :: "env \<Rightarrow> string" where
  "configuredProviderName env = (case env ''EMAIL_PROVIDER'' of Some p \<Rightarrow> p | None \<Rightarrow> ''resend'')"

text \<open>\<open>providerAdapter\<close> and the adapter's \<open>send\<close>.\<close>

definition sendInvite :: "mail_services \<Rightarrow> env \<Rightarrow> invite_mail \<Rightarrow> mail_result mail_res" where
  "sendInvite ms env input =
     (let provider = configuredProviderName env in
      if provider = ''resend'' then sendWithResend ms env input
      else if provider = ''sendgrid'' then sendWithSendGrid ms env input
      else if provider = ''webhook'' then sendWithWebhook ms env input
      else Inl (ProviderFailure provider (''Unsupported EMAIL_PROVIDER '' @ [CHR 0x22] @ provider @ [CHR 0x22] @ ''. Use '' @ [CHR 0x22] @
        ''resend'' @ [CHR 0x22] @ '' for production delivery.'')))"

section \<open>The address of the web application\<close>

record network_address =
  na_family :: string
  na_internal :: bool
  na_address :: string

definition scoreNetworkAddress :: "string \<Rightarrow> string \<Rightarrow> int" where
  "scoreNetworkAddress name address =
     (let normalizedName = toLowerCase name;
          isVirtual = list_ex (has_text normalizedName) [''vmware'', ''virtualbox'', ''vethernet'', ''wsl'', ''hyper-v'', ''bluetooth''];
          score = (if isVirtual then - 100 else 0);
          score = (if list_ex (has_text normalizedName) [''wifi'', ''wi-fi'', ''wireless'', ''wlan''] then score + 100 else score)
      in if startsWith address ''192.168.0.'' then score + 80
         else if startsWith address ''192.168.1.'' then score + 70
         else if startsWith address ''192.168.'' then score + 50
         else if startsWith address ''10.'' then score + 40
         else if startsWith address ''172.'' then score + 20
         else score)"

definition getLanIpv4Address :: "(string \<times> network_address list) list \<Rightarrow> string option" where
  "getLanIpv4Address interfaces =
     map_option fst (head_opt (sort_key (\<lambda>(address, score). - score)
       (map (\<lambda>(name, item). (na_address item, scoreNetworkAddress name (na_address item)))
         (filter (\<lambda>(name, item). na_family item = ''IPv4'' \<and> \<not> na_internal item)
           (concat (map (\<lambda>(name, items). map (\<lambda>item. (name, item)) items) interfaces))))))"

definition lan_url :: "(string \<times> network_address list) list \<Rightarrow> string \<Rightarrow> string" where
  "lan_url interfaces port = ''http://'' @ (case getLanIpv4Address interfaces of Some a \<Rightarrow> a | None \<Rightarrow> ''localhost'') @ '':'' @ port"

definition publicWebBaseUrl :: "env \<Rightarrow> (string \<times> network_address list) list \<Rightarrow> string" where
  "publicWebBaseUrl env interfaces =
     (let configured = (case env ''WEB_PUBLIC_URL'' of Some v \<Rightarrow> Some v | None \<Rightarrow> env ''PUBLIC_WEB_BASE_URL'') in
      if truthy configured then strip_slash (the configured)
      else if truthy (env ''WEB_ORIGIN'') \<and> \<not> has_text (the (env ''WEB_ORIGIN'')) ''localhost'' then strip_slash (the (env ''WEB_ORIGIN''))
      else lan_url interfaces (case env ''WEB_PORT'' of Some p \<Rightarrow> p | None \<Rightarrow> ''5173''))"

section \<open>Sending an invitation\<close>

record invite_result =
  ir_candidateId :: string
  ir_email :: string
  ir_inviteUrl :: string
  ir_delivered :: bool
  ir_provider :: string
  ir_providerMessageId :: "string option"
  ir_message :: string
  ir_log :: invite_email_log

definition invite_mail_of :: "string \<Rightarrow> candidate \<Rightarrow> exam \<Rightarrow> invite_mail" where
  "invite_mail_of inviteUrl candidate exam = \<lparr>im_candidateId = cand_id candidate, im_candidateName = cand_name candidate,
     im_email = cand_email candidate, im_examTitle = ex_title exam, im_inviteUrl = inviteUrl\<rparr>"

definition trySendInviteEmail :: "mail_services \<Rightarrow> env \<Rightarrow> invite_mail \<Rightarrow> mail_result" where
  "trySendInviteEmail ms env input = (case sendInvite ms env input of
       Inr result \<Rightarrow> result
     | Inl (ProviderFailure provider message) \<Rightarrow>
         \<lparr>ml_delivered = False, ml_provider = provider, ml_providerMessageId = None, ml_message = message\<rparr>
     | Inl (OtherFailure message) \<Rightarrow>
         \<lparr>ml_delivered = False, ml_provider = configuredProviderName env, ml_providerMessageId = None,
          ml_message = (case message of Some m \<Rightarrow> m | None \<Rightarrow> ''Email provider failed.'')\<rparr>)"

text \<open>The row of the log; the database puts the time of the insertion into \<open>createdAt\<close>.\<close>

definition invite_log :: "'d store_ctx \<Rightarrow> candidate \<Rightarrow> exam \<Rightarrow> string \<Rightarrow> mail_result \<Rightarrow> invite_email_log" where
  "invite_log c candidate exam inviteUrl result = \<lparr>el_id = createId c 0 ''invite_email'', el_candidateId = cand_id candidate,
     el_examId = ex_id exam, el_email = cand_email candidate, el_inviteUrl = inviteUrl, el_provider = ml_provider result,
     el_providerMessageId = present (ml_providerMessageId result),
     el_status = (if ml_delivered result then EMAIL_SENT else EMAIL_FAILED), el_message = ml_message result,
     el_sentAt = (if ml_delivered result then Some (sc_now c) else None), el_createdAt = sc_now c\<rparr>"

definition saveInviteEmailLog :: "'d store_ctx \<Rightarrow> invite_email_log \<Rightarrow> ('d store, invite_email_log) act" where
  "saveInviteEmailLog c entry =
     with_fallback (storeDatabase c (mapped mapInviteEmailLog (t_create (sc_inviteEmailLogs c) entry)))
       (bindE (set_memory (mm_inviteEmailLogs_update (\<lambda>logs. entry # logs))) (\<lambda>_. ret entry))"

definition sendCandidateInviteEmailInStore ::
  "'d store_ctx \<Rightarrow> mail_services \<Rightarrow> (string \<times> network_address list) list \<Rightarrow> candidate \<times> exam \<Rightarrow> ('d store, invite_result) act"
where
  "sendCandidateInviteEmailInStore c ms interfaces candidateWithExam =
     (let (candidate, exam) = candidateWithExam;
          inviteUrl = publicWebBaseUrl (sc_env c) interfaces @ ''/candidate/'' @ cand_inviteToken candidate;
          result = trySendInviteEmail ms (sc_env c) (invite_mail_of inviteUrl candidate exam)
      in bindE (saveInviteEmailLog c (invite_log c candidate exam inviteUrl result)) (\<lambda>entry.
         ret \<lparr>ir_candidateId = cand_id candidate, ir_email = cand_email candidate, ir_inviteUrl = inviteUrl,
           ir_delivered = ml_delivered result, ir_provider = ml_provider result,
           ir_providerMessageId = present (ml_providerMessageId result), ir_message = ml_message result, ir_log = entry\<rparr>))"

definition sendCandidateInviteEmail ::
  "'d store_ctx \<Rightarrow> mail_services \<Rightarrow> (string \<times> network_address list) list \<Rightarrow> string \<Rightarrow> auth_session \<Rightarrow> ('d store, invite_result) act"
where
  "sendCandidateInviteEmail c ms interfaces candidateId session =
     bindE (findManageableCandidateWithExam c candidateId session) (\<lambda>candidateWithExam.
       sendCandidateInviteEmailInStore c ms interfaces candidateWithExam)"


section \<open>Accepted mails\<close>

definition request_to :: "email_request \<Rightarrow> string" where
  "request_to request = (case request of ResendRequest _ _ to _ _ \<Rightarrow> to | SendGridRequest _ _ _ to _ _ _ \<Rightarrow> to | WebhookRequest _ to _ _ \<Rightarrow> to)"

definition request_content :: "email_request \<Rightarrow> mail_content" where
  "request_content request =
     (case request of ResendRequest _ _ _ m _ \<Rightarrow> m | SendGridRequest _ _ _ _ _ _ m \<Rightarrow> m | WebhookRequest _ _ m _ \<Rightarrow> m)"

text \<open>A provider got the mail, at an address that is safe to call, and accepted it.\<close>

definition mail_accepted :: "mail_services \<Rightarrow> env \<Rightarrow> invite_mail \<Rightarrow> bool" where
  "mail_accepted ms env input \<longleftrightarrow> (\<exists>request address url answer. request_to request = im_email input \<and>
     request_content request = renderInviteEmail input \<and>
     parseSafeOutboundUrl (nw_parseUrl (ms_network ms)) (nw_isIP (ms_network ms)) env address = Inr url \<and>
     assertHostnameResolvesSafely (nw_lookup (ms_network ms)) (nw_isIP (ms_network ms)) (nw_check (ms_network ms)) env url = Inr () \<and>
     ms_fetch ms request url = Some answer \<and> (hr_ok (ma_response answer) \<or> hr_status (ma_response answer) = 202))"

lemma providerFetch_accepted:
  assumes "providerFetch ms env provider address request = Inr answer"
    and "hr_ok (ma_response answer) \<or> hr_status (ma_response answer) = 202"
    and "request_to request = im_email input" and "request_content request = renderInviteEmail input"
  shows "mail_accepted ms env input"
proof -
  from assms(1) obtain url where "parseSafeOutboundUrl (nw_parseUrl (ms_network ms)) (nw_isIP (ms_network ms)) env address = Inr url"
    "assertHostnameResolvesSafely (nw_lookup (ms_network ms)) (nw_isIP (ms_network ms)) (nw_check (ms_network ms)) env url = Inr ()"
    "ms_fetch ms request url = Some answer"
    by (auto simp: providerFetch_def secureOutboundFetch_def Let_def bindR_eq_Inr split: sum.splits option.splits)
  with assms(2-4) show ?thesis unfolding mail_accepted_def by (intro exI conjI)
qed

lemma sendInvite_accepted:
  assumes "sendInvite ms env input = Inr result"
  shows "ml_delivered result" and "mail_accepted ms env input"
  using assms
  by (auto simp: sendInvite_def sendWithResend_def sendWithSendGrid_def sendWithWebhook_def Let_def bindM_eq_Inr request_to_def
      request_content_def elim!: providerFetch_accepted split: if_splits)

text \<open>What the configured provider is asked, if its configuration is complete.\<close>

definition provider_call :: "mail_services \<Rightarrow> env \<Rightarrow> invite_mail \<Rightarrow> (string \<times> email_request) option" where
  "provider_call ms env input =
     (let provider = configuredProviderName env; sender = env ''EMAIL_FROM_ADDRESS''; mail = renderInviteEmail input in
      if provider = ''resend'' then (case parseResendApiKey (env ''RESEND_API_KEY'') of Inl _ \<Rightarrow> None
        | Inr apiKey \<Rightarrow> if \<not> truthy sender then None
            else Some (base_url env ''RESEND_API_BASE_URL'' ''https://api.resend.com'' @ ''/emails'',
              ResendRequest apiKey (formatSender env (the sender)) (im_email input) mail
                [(''candidate_id'', emailTagValue (ms_nfkd ms) (im_candidateId input)), (''exam_title'', emailTagValue (ms_nfkd ms) (im_examTitle input))]))
      else if provider = ''sendgrid'' then (if \<not> truthy (env ''SENDGRID_API_KEY'') \<or> \<not> truthy sender then None
        else Some (base_url env ''SENDGRID_API_BASE_URL'' ''https://api.sendgrid.com/v3'' @ ''/mail/send'',
          SendGridRequest (the (env ''SENDGRID_API_KEY'')) (the sender) (from_name env) (im_email input) (im_candidateName input)
            [(''candidateId'', im_candidateId input), (''examTitle'', im_examTitle input)] mail))
      else if provider = ''webhook'' then (if \<not> truthy (env ''EMAIL_WEBHOOK_URL'') then None
        else Some (the (env ''EMAIL_WEBHOOK_URL''), WebhookRequest (present (env ''EMAIL_API_KEY'')) (im_email input) mail input))
      else None)"

text \<open>The configured provider was reached, at a safe address, and took the mail: SendGrid with 202, the others with a success. An answer
  of Resend that is not JSON must also be short enough to be read.\<close>

definition provider_took :: "mail_services \<Rightarrow> env \<Rightarrow> invite_mail \<Rightarrow> bool" where
  "provider_took ms env input \<longleftrightarrow> (\<exists>address request url answer. provider_call ms env input = Some (address, request) \<and>
     parseSafeOutboundUrl (nw_parseUrl (ms_network ms)) (nw_isIP (ms_network ms)) env address = Inr url \<and>
     assertHostnameResolvesSafely (nw_lookup (ms_network ms)) (nw_isIP (ms_network ms)) (nw_check (ms_network ms)) env url = Inr () \<and>
     ms_fetch ms request url = Some answer \<and>
     (if configuredProviderName env = ''sendgrid'' then hr_status (ma_response answer) = 202 else hr_ok (ma_response answer)) \<and>
     (configuredProviderName env = ''resend'' \<and> \<not> has_text (case ma_header answer ''content-type'' of Some v \<Rightarrow> v | None \<Rightarrow> []) ''application/json'' \<longrightarrow>
       (\<exists>body. readBoundedText (64 * 1024) (hr_contentLength (ma_response answer)) (hr_body (ma_response answer)) = Inr body)))"

lemma providerFetch_Inr:
  "providerFetch ms env provider address request = Inr answer \<longleftrightarrow> (\<exists>url.
     parseSafeOutboundUrl (nw_parseUrl (ms_network ms)) (nw_isIP (ms_network ms)) env address = Inr url \<and>
     assertHostnameResolvesSafely (nw_lookup (ms_network ms)) (nw_isIP (ms_network ms)) (nw_check (ms_network ms)) env url = Inr () \<and>
     ms_fetch ms request url = Some answer)"
  by (auto simp: providerFetch_def secureOutboundFetch_def Let_def bindR_eq_Inr split: sum.splits option.splits)

lemma readProviderResponse_Inr:
  "(\<exists>body. readProviderResponse ms env answer = Inr body) \<longleftrightarrow>
     has_text (case ma_header answer ''content-type'' of Some v \<Rightarrow> v | None \<Rightarrow> []) ''application/json'' \<or>
     (\<exists>body. readBoundedText (64 * 1024) (hr_contentLength (ma_response answer)) (hr_body (ma_response answer)) = Inr body)"
  by (auto simp: readProviderResponse_def boundedProviderText_def bindM_def Let_def split: sum.splits)

lemma sendInvite_took: "(\<exists>result. sendInvite ms env input = Inr result) \<longleftrightarrow> provider_took ms env input"
proof -
  consider (resend) "configuredProviderName env = ''resend''" | (sendgrid) "configuredProviderName env = ''sendgrid''"
    | (webhook) "configuredProviderName env = ''webhook''"
    | (other) "configuredProviderName env \<noteq> ''resend''" "configuredProviderName env \<noteq> ''sendgrid''" "configuredProviderName env \<noteq> ''webhook''"
    by blast
  then show ?thesis
  proof cases
    case resend
    show ?thesis
    proof (cases "parseResendApiKey (env ''RESEND_API_KEY'')")
      case (Inr apiKey)
      have "(\<exists>result. sendInvite ms env input = Inr result) \<longleftrightarrow> truthy (env ''EMAIL_FROM_ADDRESS'') \<and> (\<exists>answer.
          providerFetch ms env ''resend'' (base_url env ''RESEND_API_BASE_URL'' ''https://api.resend.com'' @ ''/emails'')
            (ResendRequest apiKey (formatSender env (the (env ''EMAIL_FROM_ADDRESS''))) (im_email input) (renderInviteEmail input)
              [(''candidate_id'', emailTagValue (ms_nfkd ms) (im_candidateId input)), (''exam_title'', emailTagValue (ms_nfkd ms) (im_examTitle input))])
            = Inr answer \<and> (\<exists>body. readProviderResponse ms env answer = Inr body) \<and> hr_ok (ma_response answer))"
        by (auto simp: sendInvite_def resend sendWithResend_def Inr bindM_eq_Inr Let_def split: if_splits)
      then show ?thesis
        by (auto simp: provider_took_def provider_call_def resend Inr providerFetch_Inr readProviderResponse_Inr Let_def)
    qed (simp add: sendInvite_def resend sendWithResend_def bindM_def provider_took_def provider_call_def Let_def)
  next
    case sendgrid
    then show ?thesis
      by (auto simp: sendInvite_def sendWithSendGrid_def provider_took_def provider_call_def bindM_eq_Inr providerFetch_Inr Let_def split: if_splits)
  next
    case webhook
    then show ?thesis
      by (auto simp: sendInvite_def sendWithWebhook_def provider_took_def provider_call_def bindM_eq_Inr providerFetch_Inr Let_def split: if_splits)
  qed (simp add: sendInvite_def provider_took_def provider_call_def Let_def)
qed

section \<open>Keys stay out of the log\<close>

text \<open>A key: at least 20 letters, digits and the signs \<open>_ - .\<close>, not only digits.\<close>

definition secret_shape :: "string \<Rightarrow> bool" where
  "secret_shape key \<longleftrightarrow> 20 \<le> length key \<and> list_all (\<lambda>c. key_char c \<or> c = CHR ''.'') key \<and> \<not> list_all is_digit key"

text \<open>A text none of whose words, between the given separators, is that long holds no key.\<close>

fun short_words :: "string \<Rightarrow> nat \<Rightarrow> bool" where
  "short_words [] n = (n < 20)"
| "short_words (c # s) n = (if key_char c \<or> c = CHR ''.'' then short_words s (Suc n) else n < 20 \<and> short_words s 0)"

lemma short_words_now: "short_words s n \<Longrightarrow> n < 20"
  by (induction s n rule: short_words.induct) (auto split: if_splits)

lemma short_words_run: "short_words (w @ s) n \<Longrightarrow> list_all (\<lambda>c. key_char c \<or> c = CHR ''.'') w \<Longrightarrow> n + length w < 20"
proof (induction w arbitrary: n)
  case (Cons c w)
  then have "short_words (w @ s) (Suc n)" by (auto split: if_splits)
  with Cons.IH [of "Suc n"] Cons.prems(2) show ?case by simp
qed (simp add: short_words_now)

lemma short_words_later: "short_words (a @ s) n \<Longrightarrow> \<exists>m. short_words s m"
  by (induction a arbitrary: n) (auto split: if_splits)

lemma no_key_in_words:
  assumes "secret_shape key" and "short_words s n"
  shows "\<not> has_text s key"
proof
  assume "has_text s key"
  then obtain a b where "s = a @ key @ b" by (auto simp: includes_iff)
  with assms(2) short_words_later [of a "key @ b" n] obtain m where "short_words (key @ b) m" by auto
  from short_words_run [OF this] assms(1) show False by (simp add: secret_shape_def)
qed

lemma key_has_no:
  assumes "secret_shape key" and "\<not> key_char c" and "c \<noteq> CHR ''.''"
  shows "c \<notin> set key"
  using assms by (auto simp: secret_shape_def list_all_iff)

lemma key_unmarked:
  assumes "secret_shape key"
  shows "unmarked key"
proof -
  have "\<not> has_text mark_text key" using assms has_text_length [of mark_text key] by (auto simp: secret_shape_def mark_text_def)
  moreover have "CHR ''['' \<notin> set key" "CHR '']'' \<notin> set key" by (rule key_has_no [OF assms]; simp)+
  ultimately show ?thesis by (simp add: unmarked_def)
qed

text \<open>The message of a refused mail.\<close>

lemma failed_message:
  assumes key: "secret_shape key" and "name \<in> set secret_names" and "map_option trim (env name) = Some key" and pre: "short_words pre 0"
  shows "\<not> has_text (pre @ CHR ''('' # nat_text status @ CHR '')'' # CHR '':'' # CHR '' '' # redactSensitiveText env answer) key"
proof -
  have no: "CHR ''('' \<notin> set key" "CHR '')'' \<notin> set key" "CHR '':'' \<notin> set key" "CHR '' '' \<notin> set key"
    by (rule key_has_no [OF key]; code_simp)+
  have "list_all is_digit (nat_text status)" using nat_text_chars by (auto simp: list_all_iff is_digit_def)
  then have "\<not> has_text (nat_text status) key"
    using has_text_set [of "nat_text status" key] key by (auto simp: secret_shape_def list_all_iff)
  moreover have "\<not> has_text [] key" using key by (auto simp: secret_shape_def startsWith_def)
  moreover have "\<not> has_text (redactSensitiveText env answer) key"
    using configured_redacted [of name env] assms(2,3) key_unmarked [OF key] by auto
  ultimately show ?thesis
    using no_key_in_words [OF key pre] has_text_sep [OF no(1), of pre] has_text_sep [OF no(2), of "nat_text status"]
      has_text_sep [OF no(3), of "[]"] has_text_sep [OF no(4), of "[]"] by (simp del: has_text.simps)
qed


text \<open>Every message of \<open>sendInvite\<close> but those of \<open>failed_message\<close> has short words.\<close>

lemma resend_messages:
  "short_words ''Resend needs a real key, not a placeholder.'' 0" "short_words ''A Resend key starts with re_.'' 0"
  "short_words ''Resend needs a key and a sender.'' 0" "short_words ''resend: the connection is not safe or is not answered.'' 0"
  "short_words ''resend: the answer is too large.'' 0" "short_words ''The mail was handed to Resend.'' 0" "short_words ''Resend failed '' 0"
  by code_simp+

lemma sendgrid_messages:
  "short_words ''SendGrid needs a key and a sender.'' 0" "short_words ''sendgrid: the connection is not safe or is not answered.'' 0"
  "short_words ''sendgrid: the answer is too large.'' 0" "short_words ''The mail was handed to SendGrid.'' 0" "short_words ''SendGrid failed '' 0"
  by code_simp+

lemma webhook_messages:
  "short_words ''The webhook needs an address.'' 0" "short_words ''webhook: the connection is not safe or is not answered.'' 0"
  "short_words ''webhook: the answer is too large.'' 0" "short_words ''The mail was handed to the webhook.'' 0" "short_words ''Webhook failed '' 0"
  by code_simp+

definition message_of :: "mail_result mail_res \<Rightarrow> string" where
  "message_of r = (case r of Inr result \<Rightarrow> ml_message result | Inl (ProviderFailure _ m) \<Rightarrow> m
     | Inl (OtherFailure m) \<Rightarrow> (case m of Some m \<Rightarrow> m | None \<Rightarrow> ''Email provider failed.''))"

text \<open>The messages of the three providers.\<close>

definition plain_message :: "env \<Rightarrow> string \<Rightarrow> bool" where
  "plain_message env m \<longleftrightarrow> short_words m 0 \<or> (\<exists>pre status answer. short_words pre 0 \<and>
     m = pre @ CHR ''('' # nat_text status @ CHR '')'' # CHR '':'' # CHR '' '' # redactSensitiveText env answer)"

lemma plain_failed:
  "short_words pre 0 \<Longrightarrow> plain_message env (pre @ CHR ''('' # nat_text status @ CHR '')'' # CHR '':'' # CHR '' '' # redactSensitiveText env answer)"
  unfolding plain_message_def by blast

lemma plain_short: "short_words m 0 \<Longrightarrow> plain_message env m"
  by (simp add: plain_message_def)


lemma providerFetch_failed: "providerFetch ms env provider address request = Inl e \<Longrightarrow>
    e = ProviderFailure provider (provider @ '': the connection is not safe or is not answered.'')"
  by (auto simp: providerFetch_def Let_def split: sum.splits)

lemma boundedProviderText_failed: "boundedProviderText provider answer = Inl e \<Longrightarrow> e = ProviderFailure provider (provider @ '': the answer is too large.'')"
  by (auto simp: boundedProviderText_def split: sum.splits)

lemma readProviderResponse_failed: "readProviderResponse ms env answer = Inl e \<Longrightarrow> e = ProviderFailure ''resend'' (''resend'' @ '': the answer is too large.'')"
  by (auto simp: readProviderResponse_def Let_def bindM_eq_Inl dest!: boundedProviderText_failed split: if_splits sum.splits)

lemma message_bindM: "message_of (bindM r f) = (case r of Inl e \<Rightarrow> message_of (Inl e) | Inr x \<Rightarrow> message_of (f x))"
  by (simp add: bindM_def split: sum.split)

lemma message_simps [simp]: "message_of (Inl (ProviderFailure p m)) = m" "message_of (Inr result) = ml_message result"
  by (simp_all add: message_of_def)

lemma resend_plain: "plain_message env (message_of (sendWithResend ms env input))"
proof -
  note short = resend_messages [THEN plain_short] and failed = plain_failed [OF resend_messages(7)]
  show ?thesis
    by (auto simp: sendWithResend_def message_bindM parseResendApiKey_def Let_def short failed [simplified]
        dest!: providerFetch_failed readProviderResponse_failed split: sum.split if_split simp del: short_words.simps)
qed


lemma sendgrid_plain: "plain_message env (message_of (sendWithSendGrid ms env input))"
proof -
  note short = sendgrid_messages [THEN plain_short] and failed = plain_failed [OF sendgrid_messages(5)]
  show ?thesis
    by (auto simp: sendWithSendGrid_def message_bindM Let_def short failed [simplified]
        dest!: providerFetch_failed boundedProviderText_failed split: sum.split if_split simp del: short_words.simps)
qed

lemma webhook_plain: "plain_message env (message_of (sendWithWebhook ms env input))"
proof -
  note short = webhook_messages [THEN plain_short] and failed = plain_failed [OF webhook_messages(5)]
  show ?thesis
    by (auto simp: sendWithWebhook_def message_bindM Let_def short failed [simplified]
        dest!: providerFetch_failed boundedProviderText_failed split: sum.split if_split simp del: short_words.simps)
qed

lemma plain_no_key:
  assumes "plain_message env m" and "secret_shape key" and "name \<in> set secret_names" and "map_option trim (env name) = Some key"
  shows "\<not> has_text m key"
  using assms(1) no_key_in_words [OF assms(2)] failed_message [of key name env] assms(2-4) unfolding plain_message_def by blast

lemma try_message: "ml_message (trySendInviteEmail ms env input) = message_of (sendInvite ms env input)"
  by (simp add: trySendInviteEmail_def message_of_def split: sum.split mail_failure.split)

lemma message_has_no_key:
  assumes "secret_shape key" and "name \<in> set secret_names" and "map_option trim (env name) = Some key"
    and "\<not> has_text (configuredProviderName env) key"
  shows "\<not> has_text (ml_message (trySendInviteEmail ms env input)) key"
proof -
  let ?p = "configuredProviderName env"
  consider "?p \<in> {''resend'', ''sendgrid'', ''webhook''}" | "?p \<noteq> ''resend'' \<and> ?p \<noteq> ''sendgrid'' \<and> ?p \<noteq> ''webhook''" by blast
  then show ?thesis
  proof cases
    case 1
    then have "plain_message env (message_of (sendInvite ms env input))"
      unfolding sendInvite_def Let_def using resend_plain sendgrid_plain webhook_plain by auto
    then show ?thesis unfolding try_message using plain_no_key [of env _ key name] assms(1-3) by blast
  next
    case 2
    have quote: "CHR 0x22 \<notin> set key" by (rule key_has_no [OF assms(1)]; code_simp)
    have short: "short_words ''Unsupported EMAIL_PROVIDER '' 0" "short_words ''. Use '' 0" "short_words ''resend'' 0"
      "short_words '' for production delivery.'' 0"
      by code_simp+
    have "message_of (sendInvite ms env input) = ''Unsupported EMAIL_PROVIDER '' @ CHR 0x22 # (?p @ CHR 0x22 # (''. Use '' @ CHR 0x22 #
        (''resend'' @ CHR 0x22 # '' for production delivery.'')))"
      using 2 by (simp add: sendInvite_def Let_def)
    then show ?thesis unfolding try_message
      using assms(4) no_key_in_words [OF assms(1)] short by (simp only: has_text_sep [OF quote]) blast
  qed
qed

text \<open>C29. In a deployment, an invitation is sent only by an administrator or manager with access to the exam of the candidate: the
  mail goes to the address of the candidate with the link of the own invite token, every attempt is logged, as sent
  exactly if the configured provider, reached at a safe address, took the mail (and gave, if it is Resend, an answer
  that can be read), and the log shows no configured key.\<close>

theorem invitations_reach_their_candidate:
  assumes "good_tables c content" and "deployed c" and "sendCandidateInviteEmail c ms interfaces candidateId session s = (Inr result, s')"
  shows "\<exists>candidate exam entry. List.find (\<lambda>p. cand_id p = candidateId) (k_candidates (content (st_db s))) = Some candidate \<and>
    List.find (\<lambda>e. ex_id e = cand_examId candidate) (k_exams (content (st_db s))) = Some exam \<and> canAccessExam session exam \<and>
    usr_role (as_user session) \<in> {ADMIN, ORGANIZATION} \<and>
    content (st_db s') = k_inviteEmailLogs_update (\<lambda>logs. logs @ [entry]) (content (st_db s)) \<and> st_memory s' = st_memory s \<and>
    ir_email result = cand_email candidate \<and> el_email entry = cand_email candidate \<and> el_candidateId entry = candidateId \<and>
    ir_inviteUrl result = publicWebBaseUrl (sc_env c) interfaces @ ''/candidate/'' @ cand_inviteToken candidate \<and>
    el_inviteUrl entry = ir_inviteUrl result \<and> (ir_delivered result \<longleftrightarrow> el_status entry = EMAIL_SENT) \<and>
    (ir_delivered result \<longleftrightarrow> provider_took ms (sc_env c) (invite_mail_of (ir_inviteUrl result) candidate exam)) \<and>
    (ir_delivered result \<longrightarrow> mail_accepted ms (sc_env c) (invite_mail_of (ir_inviteUrl result) candidate exam)) \<and>
    (\<forall>key name. secret_shape key \<longrightarrow> name \<in> set secret_names \<longrightarrow> map_option trim (sc_env c name) = Some key \<longrightarrow>
       \<not> has_text (configuredProviderName (sc_env c)) key \<longrightarrow> \<not> has_text (el_message entry) key)"
proof -
  from assms(3) obtain p e where role: "assertSessionCanManageExams session = Inr ()"
    and find: "findCandidateWithExam c candidateId (Some session) s = (Inr (p, e), s)"
    and send: "sendCandidateInviteEmailInStore c ms interfaces (p, e) s = (Inr result, s')"
    using deployed_find_candidate(1) [OF assms(1,2)]
    by (fastforce simp: sendCandidateInviteEmail_def findManageableCandidateWithExam_def bindE_eq_Inr liftR_eq_Inr)
  note found = deployed_find_candidate [OF assms(1,2) find]
  let ?url = "publicWebBaseUrl (sc_env c) interfaces @ ''/candidate/'' @ cand_inviteToken p"
  let ?sent = "trySendInviteEmail ms (sc_env c) (invite_mail_of ?url p e)"
  let ?entry = "invite_log c p e ?url ?sent"
  from send obtain entry where save: "saveInviteEmailLog c ?entry s = (Inr entry, s')"
    and result: "result = \<lparr>ir_candidateId = cand_id p, ir_email = cand_email p, ir_inviteUrl = ?url,
           ir_delivered = ml_delivered ?sent, ir_provider = ml_provider ?sent,
           ir_providerMessageId = present (ml_providerMessageId ?sent), ir_message = ml_message ?sent, ir_log = entry\<rparr>"
    by (auto simp: sendCandidateInviteEmailInStore_def bindE_eq_Inr ret_eq_Inr Let_def)
  from save obtain x d where "t_create (sc_inviteEmailLogs c) ?entry (st_db s) = (Inr x, d)" and s': "s' = s\<lparr>st_db := d\<rparr>"
    unfolding saveInviteEmailLog_def
  proof (cases rule: with_database_cases)
    case (database d)
    then show ?thesis using that by (auto simp: store_Inr)
  next
    case (memory s1)
    with deployed_fallback(2) [OF assms(2)] show ?thesis by blast
  qed
  then have created: "content d = k_inviteEmailLogs_update (\<lambda>logs. logs @ [?entry]) (content (st_db s))"
    using store_part.create_InrD [OF good_inviteEmailLogs [OF assms(1)]] by blast
  have delivered: "mail_accepted ms (sc_env c) (invite_mail_of ?url p e)" if "ml_delivered ?sent"
    using that sendInvite_accepted by (auto simp: trySendInviteEmail_def split: sum.splits mail_failure.splits)
  have took: "ml_delivered ?sent \<longleftrightarrow> provider_took ms (sc_env c) (invite_mail_of ?url p e)"
    unfolding sendInvite_took [symmetric] using sendInvite_accepted(1) [of ms "sc_env c"]
    by (auto simp: trySendInviteEmail_def split: sum.splits mail_failure.splits)
  have "cand_id p = candidateId" using find_SomeD [OF found(2)] by simp
  with took found role created s' delivered message_has_no_key [of _ _ "sc_env c" ms "invite_mail_of ?url p e"] show ?thesis
    by (intro exI [of _ p] exI [of _ e] exI [of _ ?entry])
      (auto simp: result invite_log_def assertSessionCanManageExams_def split: if_splits)
qed


section \<open>Witnesses\<close>

definition mail_env :: env where
  "mail_env = (\<lambda>v. if v = ''EMAIL_PROVIDER'' then Some ''webhook'' else if v = ''EMAIL_WEBHOOK_URL'' then Some ''https://api.vendor.io/''
     else if v = ''WEB_PUBLIC_URL'' then Some ''https://exam.io/'' else production_env v)"

definition sample_mail_services :: mail_services where
  "sample_mail_services = \<lparr>ms_network = \<lparr>nw_parseUrl = (\<lambda>_. Some sample_url), nw_lookup = (\<lambda>_. Some [''8.8.8.8'']),
       nw_isIP = (\<lambda>a. if a = ''8.8.8.8'' then 4 else 0), nw_check = (\<lambda>_ _. False), nw_fetch = (\<lambda>_ _. None), nw_json = (\<lambda>_. None),
       nw_parseDate = (\<lambda>_. None)\<rparr>,
     ms_fetch = (\<lambda>_ _. Some \<lparr>ma_response = \<lparr>hr_ok = True, hr_status = 200, hr_contentLength = None, hr_body = None\<rparr>, ma_header = (\<lambda>_. None)\<rparr>),
     ms_nfkd = id\<rparr>"

lemma mail_env_sel [simp]:
  "databaseAvailable mail_env" "\<not> storeDemoAuthEnabled mail_env" "\<not> databaseFallbackEnabled mail_env" "is_production mail_env"
  "configuredProviderName mail_env = ''webhook''" "mail_env ''EMAIL_WEBHOOK_URL'' = Some ''https://api.vendor.io/''"
  "mail_env ''WEB_PUBLIC_URL'' = Some ''https://exam.io/''" "mail_env ''EMAIL_API_KEY'' = None"
  by (simp_all add: databaseAvailable_def storeDemoAuthEnabled_def databaseFallbackEnabled_def is_production_def configuredProviderName_def
      mail_env_def production_env_def)

lemma mail_deployed: "deployed (plain_ctx mail_env now)"
  using deployed_production [of now] by (auto simp: deployed_def ensurePlatformSeedData_def)

lemma sample_sent: "sendInvite sample_mail_services mail_env input =
    Inr \<lparr>ml_delivered = True, ml_provider = ''webhook'', ml_providerMessageId = None, ml_message = ''The mail was handed to the webhook.''\<rparr>"
proof -
  have "parseSafeOutboundUrl (\<lambda>_. Some sample_url) (\<lambda>a. if a = ''8.8.8.8'' then 4 else 0) mail_env v = Inr sample_url" for v
    by (simp add: parseSafeOutboundUrl_def sample_url_def Let_def normalizeHostname_def startsWith_def isLoopbackHostname_def)
  moreover have "assertHostnameResolvesSafely (\<lambda>_. Some [''8.8.8.8'']) (\<lambda>a. if a = ''8.8.8.8'' then 4 else 0) (\<lambda>_ _. False) mail_env sample_url = Inr ()"
    by (simp add: assertHostnameResolvesSafely_def isPublicIpAddress_def)
  ultimately show ?thesis
    by (simp add: sendInvite_def sendWithWebhook_def providerFetch_def secureOutboundFetch_def sample_mail_services_def Let_def bindR_def
        bindM_def present_def)
qed

lemma invitations_reach_their_candidate_witness:
  "\<exists>result s'. sendCandidateInviteEmail (plain_ctx mail_env 95000) sample_mail_services [] ''c1'' sample_manager (store_of workspace_contents) = (Inr result, s') \<and>
     ir_delivered result \<and> map el_status (k_inviteEmailLogs (st_db s')) = [EMAIL_SENT]"
proof -
  obtain result s' where run: "sendCandidateInviteEmail (plain_ctx mail_env 95000) sample_mail_services [] ''c1'' sample_manager (store_of workspace_contents) =
      (Inr result, s')" and sent: "ir_delivered result"
    by (simp add: sendCandidateInviteEmail_def findManageableCandidateWithExam_def assertSessionCanManageExams_def findCandidateWithExam_def
        required_def check_access_def assertSessionCanAccessExam_def sendCandidateInviteEmailInStore_def saveInviteEmailLog_def
        trySendInviteEmail_def sample_sent with_fallback_def seededDatabase_def storeDatabase_def storeOperation_def catchE_def bindE_def
        on_database_def ret_def throwE_def liftR_def mapped_def Let_def)
  have none: "k_inviteEmailLogs workspace_contents = []" by simp
  from invitations_reach_their_candidate [OF good_plain mail_deployed run] sent none run show ?thesis
    by auto
qed

end
