(* ===== verification/Readiness.thy ===== *)
theory Readiness
  imports InviteEmail Auth
begin

text \<open>
  The readiness of an installation (\<open>operations-readiness.service.ts\<close>, \<open>operations.controller.ts\<close>): one check per
  part of the configuration, from the environment and one query. The texts of the checks are left out; the credentials
  are in no field of a check. \<open>JSON.parse\<close>, the parser of URLs and \<open>isIP\<close> are parameters.
\<close>

section \<open>Checks\<close>

datatype readiness_status = READY_STATUS | WARNING_STATUS | ACTION_REQUIRED_STATUS

record readiness_check =
  rk_id :: string
  rk_status :: readiness_status

record operations_readiness =
  or_generatedAt :: time
  or_overallStatus :: readiness_status
  or_checks :: "readiness_check list"

record readiness_ctx =
  rx_env :: env
  rx_now :: time
  rx_parseUrl :: url_parser
  rx_isIP :: ip_family
  rx_json :: "string \<Rightarrow> json option"

definition first_of :: "env \<Rightarrow> string \<Rightarrow> string \<Rightarrow> string option" where
  "first_of env a b = (case env a of Some v \<Rightarrow> Some v | None \<Rightarrow> env b)"

text \<open>\<open>count\<close> is the query of the check; it fails with an \<open>Error\<close> or with something else.\<close>

definition databaseCheck :: "env \<Rightarrow> ('d, int) act \<Rightarrow> ('d, readiness_check) act" where
  "databaseCheck env count =
     (if env ''DISABLE_DATABASE'' = Some ''1'' \<or> \<not> hasUsableConfigValue (env ''DATABASE_URL'')
      then ret \<lparr>rk_id = ''database'', rk_status = ACTION_REQUIRED_STATUS\<rparr>
      else catchE (bindE count (\<lambda>_. ret \<lparr>rk_id = ''database'', rk_status = READY_STATUS\<rparr>))
        (\<lambda>e. if is_error e then ret \<lparr>rk_id = ''database'', rk_status = ACTION_REQUIRED_STATUS\<rparr> else throwE e))"

definition hasUsableResendConfig :: "env \<Rightarrow> bool" where
  "hasUsableResendConfig env =
     (let apiKey = map_option trim (env ''RESEND_API_KEY'') in
      (case apiKey of Some k \<Rightarrow> startsWith k ''re_'' | None \<Rightarrow> False) \<and> hasUsableConfigValue apiKey \<and>
      hasUsableConfigValue (env ''EMAIL_FROM_ADDRESS''))"

definition emailCheck :: "env \<Rightarrow> readiness_check" where
  "emailCheck env =
     (let provider = configuredProviderName env in \<lparr>rk_id = ''email'', rk_status =
        (if provider = ''resend'' \<and> hasUsableResendConfig env then READY_STATUS
         else if provider \<noteq> ''resend'' then WARNING_STATUS else ACTION_REQUIRED_STATUS)\<rparr>)"

definition hasUsableKycConfig :: "readiness_ctx \<Rightarrow> bool res" where
  "hasUsableKycConfig x =
     (if \<not> hasUsableConfigValue (rx_env x ''KYC_SANDBOX_API_BASE_URL'') \<or> \<not> hasUsableConfigValue (rx_env x ''KYC_SANDBOX_API_KEY'') then Inr False
      else (case providerBaseUrl (rx_parseUrl x) (rx_isIP x) (rx_env x) of
          Inr _ \<Rightarrow> Inr True | Inl (ServiceUnavailable _) \<Rightarrow> Inr False | Inl e \<Rightarrow> Inl e))"

definition kycCheck :: "readiness_ctx \<Rightarrow> readiness_check res" where
  "kycCheck x = bindR (hasUsableKycConfig x) (\<lambda>ok.
     Inr \<lparr>rk_id = ''kyc'', rk_status = (if ok then READY_STATUS else ACTION_REQUIRED_STATUS)\<rparr>)"

definition publicUrlCheck :: "readiness_ctx \<Rightarrow> readiness_check" where
  "publicUrlCheck x = \<lparr>rk_id = ''public-url'', rk_status =
     (if isUsablePublicHttpsUrl (rx_parseUrl x) (first_of (rx_env x) ''WEB_PUBLIC_URL'' ''PUBLIC_WEB_BASE_URL'') \<and>
         isUsablePublicHttpsUrl (rx_parseUrl x) (first_of (rx_env x) ''API_PUBLIC_URL'' ''PUBLIC_API_BASE_URL'')
      then READY_STATUS else WARNING_STATUS)\<rparr>"

definition authCheck :: "env \<Rightarrow> readiness_check" where
  "authCheck env =
     (let production = is_production env;
          evidenceSecret = first_of env ''ENVIRONMENT_CHECK_SECRET'' ''AUTH_SESSION_SECRET''
      in \<lparr>rk_id = ''auth'', rk_status =
        (if production \<and> env ''ALLOW_DEMO_AUTH'' = Some ''1'' then ACTION_REQUIRED_STATUS
         else if production \<and> (\<not> hasUsableConfigValue evidenceSecret \<or>
           byteLength (case evidenceSecret of Some s \<Rightarrow> s | None \<Rightarrow> []) < 32) then ACTION_REQUIRED_STATUS
         else READY_STATUS)\<rparr>)"

definition codeRunnerCheck :: "env \<Rightarrow> readiness_check" where
  "codeRunnerCheck env = \<lparr>rk_id = ''code-runner'', rk_status = (if is_production env then ACTION_REQUIRED_STATUS else WARNING_STATUS)\<rparr>"

definition proctorCheck :: "readiness_ctx \<Rightarrow> readiness_check" where
  "proctorCheck x = \<lparr>rk_id = ''proctor'', rk_status =
     (if isUsablePublicHttpsUrl (rx_parseUrl x) (first_of (rx_env x) ''API_PUBLIC_URL'' ''PUBLIC_API_BASE_URL'')
      then READY_STATUS else WARNING_STATUS)\<rparr>"

definition isTurnUrl :: "string \<Rightarrow> bool" where
  "isTurnUrl v = (let normalized = toLowerCase (trim v) in startsWith normalized ''turn:'' \<or> startsWith normalized ''turns:'')"

definition json_text :: "json option \<Rightarrow> string option" where
  "json_text v = (case v of Some (JStr s) \<Rightarrow> Some s | _ \<Rightarrow> None)"

definition isUsableTurnServer :: "json \<Rightarrow> bool" where
  "isUsableTurnServer v = (case v of
       JObj _ \<Rightarrow>
         (case json_field v ''urls'' of
            Some (JStr url) \<Rightarrow> isTurnUrl url
          | Some (JArr urls) \<Rightarrow> list_ex (\<lambda>url. case url of JStr u \<Rightarrow> isTurnUrl u | _ \<Rightarrow> False) urls
          | _ \<Rightarrow> False) \<and>
         hasUsableConfigValue (json_text (json_field v ''username'')) \<and> hasUsableConfigValue (json_text (json_field v ''credential''))
     | _ \<Rightarrow> False)"

definition hasUsableTurnIceServer :: "readiness_ctx \<Rightarrow> string option \<Rightarrow> bool" where
  "hasUsableTurnIceServer x v =
     (let trimmedValue = map_option trim v in
      if \<not> truthy trimmedValue \<or> \<not> hasUsableConfigValue trimmedValue then False
      else (case rx_json x (the trimmedValue) of Some (JArr entries) \<Rightarrow> list_ex isUsableTurnServer entries | _ \<Rightarrow> False))"

definition proctorIceCheck :: "readiness_ctx \<Rightarrow> readiness_check" where
  "proctorIceCheck x = \<lparr>rk_id = ''proctor-ice'', rk_status =
     (if hasUsableTurnIceServer x (first_of (rx_env x) ''PROCTOR_ICE_SERVERS'' ''VITE_PROCTOR_ICE_SERVERS'') then READY_STATUS else WARNING_STATUS)\<rparr>"

definition overallStatus :: "readiness_check list \<Rightarrow> readiness_status" where
  "overallStatus checks =
     (if list_ex (\<lambda>check. rk_status check = ACTION_REQUIRED_STATUS) checks then ACTION_REQUIRED_STATUS
      else if list_ex (\<lambda>check. rk_status check = WARNING_STATUS) checks then WARNING_STATUS
      else READY_STATUS)"

definition getReadiness :: "readiness_ctx \<Rightarrow> ('d, int) act \<Rightarrow> ('d, operations_readiness) act" where
  "getReadiness x count =
     bindE (databaseCheck (rx_env x) count) (\<lambda>database.
     bindE (liftR (kycCheck x)) (\<lambda>kyc.
     let checks = [database, emailCheck (rx_env x), kyc, publicUrlCheck x, authCheck (rx_env x), codeRunnerCheck (rx_env x), proctorCheck x,
           proctorIceCheck x]
     in ret \<lparr>or_generatedAt = rx_now x, or_overallStatus = overallStatus checks, or_checks = checks\<rparr>))"

text \<open>The controller: the session of the bearer token has to be an administrator's.\<close>

definition controller_readiness :: "'d auth_ctx \<Rightarrow> readiness_ctx \<Rightarrow> string option \<Rightarrow> ('d auth_state, operations_readiness) act" where
  "controller_readiness c x authorization =
     bindE (me c (extractBearerToken authorization)) (\<lambda>session.
     if usr_role (as_user session) \<noteq> ADMIN then throwE (Forbidden ''Only operators see the readiness'')
     else on_db (getReadiness x (t_count (ac_users c) (\<lambda>_. True))))"

section \<open>What the checks say\<close>

lemma statuses: "s = READY_STATUS \<or> s = WARNING_STATUS \<or> s = ACTION_REQUIRED_STATUS"
  by (cases s) simp_all

lemma overall_worst:
  "overallStatus checks = ACTION_REQUIRED_STATUS \<longleftrightarrow> (\<exists>check \<in> set checks. rk_status check = ACTION_REQUIRED_STATUS)"
  "overallStatus checks = READY_STATUS \<longleftrightarrow> (\<forall>check \<in> set checks. rk_status check = READY_STATUS)"
  using statuses by (auto simp: overallStatus_def list_ex_iff split: if_splits) (metis readiness_status.distinct)+


lemma usable_truthy: "hasUsableConfigValue v \<Longrightarrow> truthy v"
  by (cases v) (auto simp: hasUsableConfigValue_def toLowerCase_def)

lemma kycCheck_ready:
  "\<exists>check. kycCheck x = Inr check \<and> rk_id check = ''kyc'' \<and> (rk_status check = READY_STATUS \<longleftrightarrow>
     hasUsableConfigValue (rx_env x ''KYC_SANDBOX_API_BASE_URL'') \<and> hasUsableConfigValue (rx_env x ''KYC_SANDBOX_API_KEY'') \<and>
     (\<exists>baseUrl. providerBaseUrl (rx_parseUrl x) (rx_isIP x) (rx_env x) = Inr baseUrl))"
proof -
  have "providerBaseUrl (rx_parseUrl x) (rx_isIP x) (rx_env x) = Inl e \<Longrightarrow> \<exists>m. e = ServiceUnavailable m" for e
    by (auto simp: providerBaseUrl_def split: if_splits option.splits)
  then show ?thesis
    by (cases "providerBaseUrl (rx_parseUrl x) (rx_isIP x) (rx_env x)") (fastforce simp: kycCheck_def hasUsableKycConfig_def bindR_def)+
qed

lemma authCheck_ready:
  assumes "is_production env"
  shows "rk_status (authCheck env) = READY_STATUS \<longleftrightarrow> env ''ALLOW_DEMO_AUTH'' \<noteq> Some ''1'' \<and> (\<exists>secret. environmentCheckSecret env = Inr secret)"
proof -
  have "hasUsableConfigValue v \<Longrightarrow> \<exists>s. v = Some s \<and> s \<noteq> []" for v using usable_truthy [of v] by (cases v) auto
  with assms show ?thesis
    by (auto simp: authCheck_def environmentCheckSecret_def first_of_def Let_def split: option.splits)
qed

lemma emailCheck_ready:
  "rk_status (emailCheck env) = READY_STATUS \<longleftrightarrow> configuredProviderName env = ''resend'' \<and>
     (\<exists>key. parseResendApiKey (env ''RESEND_API_KEY'') = Inr key) \<and> hasUsableConfigValue (env ''EMAIL_FROM_ADDRESS'')"
  using usable_truthy by (auto simp: emailCheck_def hasUsableResendConfig_def parseResendApiKey_def Let_def split: option.splits)


lemma check_ids:
  "rk_id (emailCheck env) = ''email''" "rk_id (publicUrlCheck x) = ''public-url''" "rk_id (authCheck env) = ''auth''"
  "rk_id (codeRunnerCheck env) = ''code-runner''" "rk_id (proctorCheck x) = ''proctor''" "rk_id (proctorIceCheck x) = ''proctor-ice''"
  by (simp_all add: emailCheck_def publicUrlCheck_def authCheck_def codeRunnerCheck_def proctorCheck_def proctorIceCheck_def Let_def)

lemma databaseCheck_id: "databaseCheck env count d = (Inr check, d') \<Longrightarrow> rk_id check = ''database''"
  by (auto simp: databaseCheck_def act_Inr catchE_eq_Inr split: if_splits)

lemma getReadiness_InrD:
  assumes "getReadiness x count d = (Inr r, d')"
  obtains database kyc where "kycCheck x = Inr kyc" and "rk_id database = ''database''"
    and "or_checks r = [database, emailCheck (rx_env x), kyc, publicUrlCheck x, authCheck (rx_env x), codeRunnerCheck (rx_env x), proctorCheck x,
           proctorIceCheck x]" and "or_overallStatus r = overallStatus (or_checks r)"
proof -
  from assms obtain database d1 kyc where "databaseCheck (rx_env x) count d = (Inr database, d1)" and "kycCheck x = Inr kyc"
    and r: "r = \<lparr>or_generatedAt = rx_now x, or_overallStatus = overallStatus [database, emailCheck (rx_env x), kyc, publicUrlCheck x,
        authCheck (rx_env x), codeRunnerCheck (rx_env x), proctorCheck x, proctorIceCheck x],
      or_checks = [database, emailCheck (rx_env x), kyc, publicUrlCheck x, authCheck (rx_env x), codeRunnerCheck (rx_env x), proctorCheck x,
        proctorIceCheck x]\<rparr>"
    by (auto simp: getReadiness_def act_Inr Let_def)
  with databaseCheck_id [of "rx_env x" count d database d1] that [of kyc database] show ?thesis by (simp add: r)
qed

lemma overall_is_a_check:
  assumes "checks \<noteq> []"
  shows "\<exists>check \<in> set checks. overallStatus checks = rk_status check"
proof (cases "overallStatus checks")
  case READY_STATUS
  with overall_worst(2) [of checks] assms show ?thesis by (intro bexI [of _ "hd checks"]) auto
next
  case WARNING_STATUS
  then have "\<exists>check \<in> set checks. rk_status check = WARNING_STATUS" by (auto simp: overallStatus_def list_ex_iff split: if_splits)
  with WARNING_STATUS show ?thesis by metis
next
  case ACTION_REQUIRED_STATUS
  with overall_worst(1) [of checks] show ?thesis by metis
qed

lemma overall_not_ready:
  assumes "codeRunnerCheck env \<in> set checks"
  shows "overallStatus checks \<noteq> READY_STATUS" and "is_production env \<Longrightarrow> overallStatus checks = ACTION_REQUIRED_STATUS"
proof -
  have "rk_status (codeRunnerCheck env) \<noteq> READY_STATUS" by (simp add: codeRunnerCheck_def)
  with overall_worst(2) [of checks] assms show "overallStatus checks \<noteq> READY_STATUS" by blast
  show "overallStatus checks = ACTION_REQUIRED_STATUS" if "is_production env"
  proof -
    from that have "rk_status (codeRunnerCheck env) = ACTION_REQUIRED_STATUS" by (simp add: codeRunnerCheck_def)
    with overall_worst(1) [of checks] assms show ?thesis by blast
  qed
qed

text \<open>The readiness is shown only to the session of an administrator, and it is what the services will do: the checks of
  the mail, the identity provider and (in production) the evidence secret are READY exactly if the services accept the
  same configuration, the overall status is the worst of the checks, production always needs action, and no
  configuration at all is READY.\<close>

theorem readiness_is_what_the_services_do:
  assumes "prisma_table (ac_users c) rows" and "map_wf (reg_sessions (snd s))"
    and "controller_readiness c x authorization s = (Inr r, t)"
  shows "(\<exists>tok session. authorization = Some (''Bearer '' @ tok) \<and> session_of (snd s) tok = Some session \<and> usr_role (as_user session) = ADMIN) \<and>
    (\<exists>check \<in> set (or_checks r). or_overallStatus r = rk_status check) \<and> or_overallStatus r \<noteq> READY_STATUS \<and>
    (or_overallStatus r = WARNING_STATUS \<longrightarrow> \<not> is_production (rx_env x) \<and> (\<forall>check \<in> set (or_checks r). rk_status check \<noteq> ACTION_REQUIRED_STATUS)) \<and>
    (\<forall>check \<in> set (or_checks r). rk_status check = READY_STATUS \<longrightarrow>
      (rk_id check = ''email'' \<longrightarrow> configuredProviderName (rx_env x) = ''resend'' \<and> truthy (rx_env x ''EMAIL_FROM_ADDRESS'') \<and>
         (\<exists>key. parseResendApiKey (rx_env x ''RESEND_API_KEY'') = Inr key)) \<and>
      (rk_id check = ''kyc'' \<longrightarrow> truthy (rx_env x ''KYC_SANDBOX_API_KEY'') \<and>
         (\<exists>baseUrl. providerBaseUrl (rx_parseUrl x) (rx_isIP x) (rx_env x) = Inr baseUrl)) \<and>
      (rk_id check = ''auth'' \<and> is_production (rx_env x) \<longrightarrow> (\<exists>secret. environmentCheckSecret (rx_env x) = Inr secret)))"
proof -
  from assms(3) obtain session s1 where me: "me c (extractBearerToken authorization) s = (Inr session, s1)"
    and admin: "usr_role (as_user session) = ADMIN" and get: "on_db (getReadiness x (t_count (ac_users c) (\<lambda>_. True))) s1 = (Inr r, t)"
    by (auto simp: controller_readiness_def act_Inr split: if_splits)
  from me_Inr [OF assms(1) me assms(2)] obtain tok y where "extractBearerToken authorization = Some tok" "session_of (snd s) tok = Some y"
    and "session = y \<or> session = y\<lparr>as_passwordChangeRequired := Some True\<rparr>" by blast
  moreover from this admin have "usr_role (as_user y) = ADMIN" by auto
  moreover from calculation(1) have "authorization = Some (''Bearer '' @ tok)"
    by (auto simp: extractBearerToken_def startsWith_iff split: option.splits if_splits)
  moreover from get obtain d' where "getReadiness x (t_count (ac_users c) (\<lambda>_. True)) (fst s1) = (Inr r, d')"
    by (auto simp: on_db_eq_Inr)
  then obtain database kyc where kyc: "kycCheck x = Inr kyc" and db: "rk_id database = ''database''"
    and checks: "or_checks r = [database, emailCheck (rx_env x), kyc, publicUrlCheck x, authCheck (rx_env x), codeRunnerCheck (rx_env x), proctorCheck x,
           proctorIceCheck x]" and overall: "or_overallStatus r = overallStatus (or_checks r)"
    by (rule getReadiness_InrD)
  have runner: "codeRunnerCheck (rx_env x) \<in> set (or_checks r)" by (simp add: checks)
  have config: "rk_status check = READY_STATUS \<longrightarrow>
      (rk_id check = ''email'' \<longrightarrow> configuredProviderName (rx_env x) = ''resend'' \<and> truthy (rx_env x ''EMAIL_FROM_ADDRESS'') \<and>
         (\<exists>key. parseResendApiKey (rx_env x ''RESEND_API_KEY'') = Inr key)) \<and>
      (rk_id check = ''kyc'' \<longrightarrow> truthy (rx_env x ''KYC_SANDBOX_API_KEY'') \<and>
         (\<exists>baseUrl. providerBaseUrl (rx_parseUrl x) (rx_isIP x) (rx_env x) = Inr baseUrl)) \<and>
      (rk_id check = ''auth'' \<and> is_production (rx_env x) \<longrightarrow> (\<exists>secret. environmentCheckSecret (rx_env x) = Inr secret))"
    if "check \<in> set (or_checks r)" for check
  proof -
    have "kyc = check" if "rk_id check = ''kyc''" "check \<in> set (or_checks r)" using that by (auto simp: checks db check_ids)
    moreover have "authCheck (rx_env x) = check" if "rk_id check = ''auth''" "check \<in> set (or_checks r)"
      using that kycCheck_ready [of x] kyc by (auto simp: checks db check_ids)
    moreover have "emailCheck (rx_env x) = check" if "rk_id check = ''email''" "check \<in> set (or_checks r)"
      using that kycCheck_ready [of x] kyc by (auto simp: checks db check_ids)
    ultimately show ?thesis
      using that kycCheck_ready [of x] kyc authCheck_ready [of "rx_env x"] emailCheck_ready [of "rx_env x"] usable_truthy by auto
  qed
  show ?thesis
  proof (intro conjI exI)
    show "authorization = Some (''Bearer '' @ tok)" "session_of (snd s) tok = Some y" "usr_role (as_user y) = ADMIN" by fact+
    show "\<exists>check \<in> set (or_checks r). or_overallStatus r = rk_status check"
      unfolding overall by (rule overall_is_a_check) (simp add: checks)
    show "or_overallStatus r \<noteq> READY_STATUS" unfolding overall by (rule overall_not_ready [OF runner])
    show "or_overallStatus r = WARNING_STATUS \<longrightarrow> \<not> is_production (rx_env x) \<and> (\<forall>check \<in> set (or_checks r). rk_status check \<noteq> ACTION_REQUIRED_STATUS)"
      using overall_worst(1) [of "or_checks r"] overall_not_ready(2) [OF runner] unfolding overall by auto
  qed (intro ballI config)
qed

section \<open>Witnesses\<close>

definition sample_readiness :: readiness_ctx where
  "sample_readiness = \<lparr>rx_env = auth_env, rx_now = 7, rx_parseUrl = (\<lambda>_. None), rx_isIP = (\<lambda>_. 0), rx_json = (\<lambda>_. None)\<rparr>"

lemma readiness_is_what_the_services_do_witness:
  "\<exists>r t. controller_readiness (sample_ctx 2000) sample_readiness (Some ''Bearer t'') (sample_db, signed_in) = (Inr r, t) \<and>
     or_overallStatus r = ACTION_REQUIRED_STATUS"
proof -
  obtain kyc where kyc: "kycCheck sample_readiness = Inr kyc" using kycCheck_ready by blast
  have "\<exists>db. databaseCheck (rx_env sample_readiness) (t_count users_table (\<lambda>_. True)) sample_db = (Inr db, sample_db)"
    by (simp add: databaseCheck_def catchE_def bindE_def list_table_def ret_def)
  then obtain db where db: "databaseCheck (rx_env sample_readiness) (t_count users_table (\<lambda>_. True)) sample_db = (Inr db, sample_db)" ..
  obtain r t where run: "controller_readiness (sample_ctx 2000) sample_readiness (Some ''Bearer t'') (sample_db, signed_in) = (Inr r, t)"
    by (simp add: controller_readiness_def bindE_def sample_me extractBearerToken_def startsWith_def sample_session_def on_db_def
        getReadiness_def db kyc liftR_def ret_def Let_def)
  from readiness_is_what_the_services_do [OF _ _ this, of db_users] users.prisma_table_axioms signed_in_wf
  have "or_overallStatus r \<noteq> READY_STATUS \<and> (or_overallStatus r = WARNING_STATUS \<longrightarrow> \<not> is_production (rx_env sample_readiness))"
    by simp
  moreover have "is_production (rx_env sample_readiness)" by (simp add: sample_readiness_def)
  ultimately show ?thesis using run statuses [of "or_overallStatus r"] by blast
qed

end
