(* ===== verification/Api.thy ===== *)
theory Api
  imports Readiness Execution AiEvaluation
begin

text \<open>
  The HTTP interface over the services (\<open>exams.controller.ts\<close>, \<open>dashboard.controller.ts\<close>, \<open>ai.controller.ts\<close>, behind
  \<open>admin-auth.guard.ts\<close>): a request of the administration passes the guard, \<open>me\<close> gives the controller the session of its
  token, and the store acts for that session; a request with an invite token is public, and running or submitting code is
  limited per client and invite. The routes are constructors with the parts of the path and the body that the handler reads.
\<close>

section \<open>The application\<close>

text \<open>The services share one database; the registry of sessions and the limiter are the state of their own objects.\<close>

record 'd app =
  app_store :: "'d store"
  app_registry :: registry
  app_limiter :: buckets

record 'd api =
  api_auth :: "'d auth_ctx"
  api_store :: "'d store_ctx"
  api_mail :: mail_services
  api_interfaces :: "(string \<times> network_address list) list"
  api_kyc :: "kyc_request network"
  api_ai :: "ai_request network"
  api_evidence :: evidence
  api_digest :: "string \<Rightarrow> string"

definition on_auth :: "('d auth_state, 'a) act \<Rightarrow> ('d app, 'a) act" where
  "on_auth m = (\<lambda>s. let (r, (d, g)) = m (st_db (app_store s), app_registry s)
     in (r, s\<lparr>app_store := (app_store s)\<lparr>st_db := d\<rparr>, app_registry := g\<rparr>))"

definition on_store :: "('d store, 'a) act \<Rightarrow> ('d app, 'a) act" where
  "on_store m = (\<lambda>s. let (r, t) = m (app_store s) in (r, s\<lparr>app_store := t\<rparr>))"

section \<open>The routes of the administration\<close>

datatype admin_request =
    ListExams | CreateExam exam_input | UpdateExam string exam_patch | ExamReport string | ProctorLive string | ExamDetail string
  | DeleteExam string | AddQuestion string question_input | AddTestCase string test_case_input | AddCandidate string candidate_input
  | SendInvite string | ProctorAction string action_input | ShowDashboard | GenerateReports string

datatype admin_answer =
    ExamsAnswer "exam list" | ExamAnswer exam | ReportAnswer exam_report | LiveAnswer live_exam | DetailAnswer exam_detail
  | QuestionAnswer question | TestCaseAnswer test_case | CandidateAnswer candidate | InviteAnswer invite_result
  | ActionAnswer proctor_action | DashboardAnswer dashboard_summary | EvaluationsAnswer "competency_report list"

text \<open>The methods of the store that the handlers call, for the session they pass.\<close>

definition admin_operation :: "'d api \<Rightarrow> admin_request \<Rightarrow> auth_session \<Rightarrow> ('d store, admin_answer) act" where
  "admin_operation a request session = (let c = api_store a in case request of
       ListExams \<Rightarrow> mapped ExamsAnswer (listExams c session)
     | CreateExam body \<Rightarrow> mapped ExamAnswer (createExam c body session)
     | UpdateExam examId body \<Rightarrow> mapped ExamAnswer (updateExam c examId body session)
     | ExamReport examId \<Rightarrow> mapped ReportAnswer (getExamReport c examId session)
     | ProctorLive examId \<Rightarrow> mapped LiveAnswer (getLiveProctorState c examId session)
     | ExamDetail examId \<Rightarrow> mapped DetailAnswer (getExamDetail c examId session)
     | DeleteExam examId \<Rightarrow> mapped ExamAnswer (deleteExam c examId session)
     | AddQuestion examId body \<Rightarrow> mapped QuestionAnswer (addQuestion c examId body session)
     | AddTestCase questionId body \<Rightarrow> mapped TestCaseAnswer (addTestCase c questionId body session)
     | AddCandidate examId body \<Rightarrow> mapped CandidateAnswer (addCandidate c examId body session)
     | SendInvite candidateId \<Rightarrow> mapped InviteAnswer (sendCandidateInviteEmail c (api_mail a) (api_interfaces a) candidateId session)
     | ProctorAction candidateId body \<Rightarrow> mapped ActionAnswer (createProctorAction c candidateId body session)
     | ShowDashboard \<Rightarrow> mapped DashboardAnswer (getDashboard c session)
     | GenerateReports examId \<Rightarrow> mapped EvaluationsAnswer (generateExamReports (api_ai a) c examId session))"

text \<open>Every handler of the administration: \<open>auth.me\<close>, then its method.\<close>

definition admin_handler :: "'d api \<Rightarrow> string option \<Rightarrow> admin_request \<Rightarrow> ('d app, admin_answer) act" where
  "admin_handler a authorization request =
     bindE (on_auth (me (api_auth a) (extractBearerToken authorization))) (\<lambda>session. on_store (admin_operation a request session))"

definition serve_admin :: "'d api \<Rightarrow> string \<Rightarrow> string option \<Rightarrow> admin_request \<Rightarrow> ('d app, admin_answer) act" where
  "serve_admin a path authorization request =
     bindE (on_auth (canActivate (api_auth a) (Some path) None authorization)) (\<lambda>_. admin_handler a authorization request)"

section \<open>The routes of the candidates\<close>

datatype candidate_request =
    ShowInvite | MarkReady | EnvironmentSession | SaveEnvironment env_check_input | ShowWorkspace | RunCode code_run_input
  | SaveDraft code_draft_input | SubmitCode code_submit_input | LogEvent event_input | ReportDevice device_input
  | VerifyIdentity identity_input | IdentitySession "consent_input option"

datatype candidate_answer =
    InviteShown candidate_invite | EnvironmentStarted env_check_session | EnvironmentSaved environment_check
  | WorkspaceShown candidate_workspace | CodeRun code_execution | DraftSaved code_draft | CodeSubmitted submission
  | EventLogged proctor_event | DeviceReported proctor_device | IdentityVerified identity_verification | IdentityStarted provider_session

definition candidate_operation :: "'d api \<Rightarrow> string \<Rightarrow> candidate_request \<Rightarrow> ('d store, candidate_answer) act" where
  "candidate_operation a inviteToken request = (let c = api_store a in case request of
       ShowInvite \<Rightarrow> mapped InviteShown (getCandidateInvite c inviteToken)
     | MarkReady \<Rightarrow> mapped InviteShown (markCandidateReady c inviteToken)
     | EnvironmentSession \<Rightarrow> mapped EnvironmentStarted (createCandidateEnvironmentCheckSession (api_evidence a) c inviteToken)
     | SaveEnvironment body \<Rightarrow> mapped EnvironmentSaved (saveCandidateEnvironmentCheck (api_evidence a) c inviteToken body)
     | ShowWorkspace \<Rightarrow> mapped WorkspaceShown (getCandidateWorkspace c inviteToken)
     | RunCode body \<Rightarrow> mapped CodeRun (runCandidateCode c inviteToken body)
     | SaveDraft body \<Rightarrow> mapped DraftSaved (saveCandidateCodeDraft c inviteToken body)
     | SubmitCode body \<Rightarrow> mapped CodeSubmitted (submitCandidateCode c inviteToken body)
     | LogEvent body \<Rightarrow> mapped EventLogged (logProctorEvent c inviteToken body)
     | ReportDevice body \<Rightarrow> mapped DeviceReported (upsertProctorDevice c inviteToken body)
     | VerifyIdentity body \<Rightarrow> mapped IdentityVerified (verifyCandidateIdentity (api_kyc a) c inviteToken body)
     | IdentitySession body \<Rightarrow> mapped IdentityStarted (createCandidateIdentitySession (api_kyc a) c inviteToken body))"

definition assertCandidateInviteExists :: "'d store_ctx \<Rightarrow> string \<Rightarrow> ('d store, unit) act" where
  "assertCandidateInviteExists c inviteToken = bindE (getCandidateInvite c inviteToken) (\<lambda>_. ret ())"

definition assertCandidateExecutionRate :: "'d api \<Rightarrow> request_context \<Rightarrow> string \<Rightarrow> ('d app, unit) act" where
  "assertCandidateExecutionRate a request inviteToken = (\<lambda>s.
     let (retryAfter, m) = consume (api_digest a) (sc_env (api_store a)) execution_limiter request (Some inviteToken) (sc_now (api_store a)) (app_limiter s)
     in (case retryAfter of Some n \<Rightarrow> Inl (TooManyRequests ''too many code runs'' (Some n)) | None \<Rightarrow> Inr (), s\<lparr>app_limiter := m\<rparr>))"

text \<open>\<open>runCode\<close> and \<open>submitCode\<close> assert first that the invite exists and count the request; the other handlers only call the store.\<close>

definition is_execution :: "candidate_request \<Rightarrow> bool" where
  "is_execution request \<longleftrightarrow> (case request of RunCode _ \<Rightarrow> True | SubmitCode _ \<Rightarrow> True | _ \<Rightarrow> False)"

definition serve_candidate :: "'d api \<Rightarrow> request_context \<Rightarrow> string \<Rightarrow> candidate_request \<Rightarrow> ('d app, candidate_answer) act" where
  "serve_candidate a client inviteToken request =
     (if is_execution request then
        bindE (on_store (assertCandidateInviteExists (api_store a) inviteToken)) (\<lambda>_.
        bindE (assertCandidateExecutionRate a client inviteToken) (\<lambda>_.
        on_store (candidate_operation a inviteToken request)))
      else on_store (candidate_operation a inviteToken request))"

section \<open>Mobile access\<close>

record mobile_access =
  mo_host :: string
  mo_webBaseUrl :: string
  mo_apiBaseUrl :: string

definition url_host :: "url \<Rightarrow> string" where
  "url_host u = (if url_port u = [] then url_hostname u else url_hostname u @ '':'' @ url_port u)"

definition mobileAccess :: "url_parser \<Rightarrow> env \<Rightarrow> (string \<times> network_address list) list \<Rightarrow> mobile_access res" where
  "mobileAccess parse env interfaces =
     (case normalizePublicHttpsUrl parse (first_of env ''WEB_PUBLIC_URL'' ''PUBLIC_WEB_BASE_URL'') of
        Some web \<Rightarrow> (case parse web of
            None \<Rightarrow> Inl (OtherError ''Invalid URL'')
          | Some u \<Rightarrow> Inr \<lparr>mo_host = url_host u, mo_webBaseUrl = web,
              mo_apiBaseUrl = (case normalizePublicHttpsUrl parse (first_of env ''API_PUBLIC_URL'' ''PUBLIC_API_BASE_URL'') of
                 Some api \<Rightarrow> api | None \<Rightarrow> web)\<rparr>)
      | None \<Rightarrow> Inr \<lparr>mo_host = (case getLanIpv4Address interfaces of Some h \<Rightarrow> h | None \<Rightarrow> ''localhost''),
          mo_webBaseUrl = lan_url interfaces (case env ''WEB_PORT'' of Some p \<Rightarrow> p | None \<Rightarrow> ''5173''),
          mo_apiBaseUrl = lan_url interfaces (case env ''PORT'' of Some p \<Rightarrow> p | None \<Rightarrow> ''4000'')\<rparr>)"


section \<open>Behind the guard\<close>

lemma on_auth_Inr: "on_auth m s = (Inr x, t) \<longleftrightarrow> (\<exists>d g. m (st_db (app_store s), app_registry s) = (Inr x, (d, g)) \<and>
    t = s\<lparr>app_store := (app_store s)\<lparr>st_db := d\<rparr>, app_registry := g\<rparr>)"
  by (auto simp: on_auth_def Let_def split: prod.splits)

lemma on_store_Inr: "on_store m s = (Inr x, t) \<longleftrightarrow> (\<exists>k. m (app_store s) = (Inr x, k) \<and> t = s\<lparr>app_store := k\<rparr>)"
  by (auto simp: on_store_def Let_def split: prod.splits)

text \<open>A store that acts for a session asks for its role first.\<close>

fun required_roles :: "admin_request \<Rightarrow> user_role set" where
  "required_roles ListExams = {ADMIN, ORGANIZATION, PROCTOR}"
| "required_roles (ProctorLive _) = {ADMIN, ORGANIZATION, PROCTOR}"
| "required_roles (ProctorAction _ _) = {ADMIN, ORGANIZATION, PROCTOR}"
| "required_roles ShowDashboard = {ADMIN, ORGANIZATION, PROCTOR}"
| "required_roles _ = {ADMIN, ORGANIZATION}"

lemma proctors_Inr: "assertSessionCanProctor session = Inr u \<longleftrightarrow> usr_role (as_user session) \<in> {ADMIN, ORGANIZATION, PROCTOR}"
  by (auto simp: assertSessionCanProctor_def)

lemma operation_asks_for_the_role:
  assumes "admin_operation a request session s = (Inr answer, s')"
  shows "usr_role (as_user session) \<in> required_roles request"
proof (cases request)
  case ListExams
  then show ?thesis using assms by (simp add: admin_operation_def Let_def listExams_def store_Inr views_Inr)
next
  case ShowDashboard
  then show ?thesis using assms by (simp add: admin_operation_def Let_def getDashboard_def store_Inr views_Inr)
next
  case (ProctorLive e)
  then show ?thesis using assms by (simp add: admin_operation_def Let_def getLiveProctorState_def store_Inr proctors_Inr)
next
  case (ProctorAction candidateId body)
  then show ?thesis using assms by (auto simp: admin_operation_def Let_def createProctorAction_def store_Inr split: if_splits)
next
  case (SendInvite candidateId)
  then show ?thesis using assms
    by (auto simp: admin_operation_def Let_def sendCandidateInviteEmail_def findManageableCandidateWithExam_def store_Inr manages_Inr)
qed (use assms in \<open>simp_all add: admin_operation_def Let_def createExam_def updateExam_def getExamReport_def getExamDetail_def deleteExam_def
  addQuestion_def addTestCase_def addCandidate_def generateExamReports_def store_Inr manages_Inr\<close>)

text \<open>The exams that an answer shows.\<close>

fun shown_exams :: "admin_answer \<Rightarrow> exam list" where
  "shown_exams (ExamsAnswer exams) = exams"
| "shown_exams (ExamAnswer exam) = [exam]"
| "shown_exams (ReportAnswer report) = [xr_exam report]"
| "shown_exams (LiveAnswer live) = [le_exam live]"
| "shown_exams (DetailAnswer detail) = [exam.truncate detail]"
| "shown_exams (DashboardAnswer summary) = ds_recentExams summary"
| "shown_exams _ = []"

definition own_exam :: "auth_session \<Rightarrow> exam \<Rightarrow> bool" where
  "own_exam session exam \<longleftrightarrow> usr_role (as_user session) = ADMIN \<or> ex_organizationId exam = org_id (as_organization session)"

lemma accessible_is_own: "canAccessExam session exam \<Longrightarrow> own_exam session exam"
  by (auto simp: canAccessExam_def own_exam_def)

lemma created_exam_is_own:
  assumes "good_tables c content" and "createExam c input session s = (Inr exam, s')"
  shows "own_exam session exam"
proof -
  from assms(2) have "with_fallback
       (seededDatabase c (bindE (liftR (database_input c input)) (\<lambda>dated.
          t_create (sc_exams c) (exam_of (createId c 0 ''exam'') (org_id (as_organization session)) DRAFT (sc_now c) dated))))
       (let exam = exam_of (createId c 0 ''exam'') (org_id (as_organization session)) DRAFT (sc_now c) input
        in bindE (set_memory (mm_exams_update (\<lambda>exams. exam # exams))) (\<lambda>_. ret exam)) s = (Inr exam, s')"
    by (simp add: createExam_def store_Inr)
  then have "\<exists>dated. exam = exam_of (createId c 0 ''exam'') (org_id (as_organization session)) DRAFT (sc_now c) dated"
  proof (cases rule: with_seeded_cases)
    case (database d0 d)
    then show ?thesis by (auto simp: store_Inr dest!: store_part.create_InrD [OF good_exams [OF assms(1)]])
  qed (auto simp: store_Inr Let_def)
  then show ?thesis by (auto simp: own_exam_def exam_of_def)
qed

lemma listed_exams_are_own:
  assumes "good_tables c content" and "listExams c session s = (Inr xs, s')" and "e \<in> set xs"
  shows "own_exam session e"
proof -
  from assms(2) have "with_fallback
       (seededDatabase c (bindE (t_findMany (sc_exams c) (scopedExamWhere session)) (\<lambda>exams. ret (sort_newest ex_createdAt exams))))
       (memory_of (\<lambda>m. sort_newest ex_createdAt (filter (canAccessExam session) (mm_exams m)))) s = (Inr xs, s')"
    by (auto simp: listExams_def store_Inr)
  then show ?thesis
  proof (cases rule: with_seeded_cases)
    case (database d0 d)
    then show ?thesis using assms(3)
      by (auto simp: store_Inr canAccess_scoped accessible_is_own dest!: store_part.findMany_InrD [OF good_exams [OF assms(1)]])
  qed (use assms(3) in \<open>auto simp: store_Inr accessible_is_own\<close>)
qed

lemma exam_detail_truncate [simp]: "exam.truncate (exam_detail_of exam questions tests candidates) = exam"
  by (simp add: exam_detail_of_def exam.defs)

lemma detail_is_own:
  assumes "getExamDetail c examId session s = (Inr detail, s')"
  shows "own_exam session (exam.truncate detail)"
proof -
  from assms have "with_fallback
       (seededDatabase c (bindE (find_exam_detail c examId) (\<lambda>found.
          bindE (liftR (require_exam session (map_option fst found))) (\<lambda>exam. case found of
            Some (_, questions, tests, candidates) \<Rightarrow> ret (mapExamDetail exam questions tests candidates)
          | None \<Rightarrow> throwE (NotFound ''Exam not found'')))))
       (bindE (memory_of (\<lambda>m. List.find (\<lambda>e. ex_id e = examId) (mm_exams m))) (\<lambda>found.
        bindE (liftR (require_exam session found)) (\<lambda>exam.
        memory_of (\<lambda>m. exam_detail_of exam (filter (\<lambda>q. q_examId q = examId) (mm_questions m)) (mm_testCases m)
          (filter (\<lambda>p. cand_examId p = examId) (mm_candidates m)))))) s = (Inr detail, s')"
    by (simp add: getExamDetail_def store_Inr)
  then show ?thesis
  proof (cases rule: with_seeded_cases)
    case (database d0 d)
    then show ?thesis
      by (auto simp: store_Inr require_exam_Inr mapExamDetail_def accessible_is_own split: option.splits)
  qed (auto simp: store_Inr require_exam_Inr accessible_is_own)
qed

lemma dashboard_is_own:
  assumes "good_tables c content" and "getDashboard c session s = (Inr summary, s')" and "e \<in> set (ds_recentExams summary)"
  shows "own_exam session e"
proof -
  have sorted: "set (take 5 (sort_newest ex_createdAt exams)) \<subseteq> set exams" for exams
    by (auto simp: sort_newest_def dest: in_set_takeD)
  from assms(2) have "with_fallback (seededDatabase c (find_dashboard c session)) (memory_of (memory_dashboard session)) s = (Inr summary, s')"
    by (simp add: getDashboard_def store_Inr)
  then show ?thesis
  proof (cases rule: with_seeded_cases)
    case (database d0 d)
    then obtain exams d1 d2 where "t_findMany (sc_exams c) (scopedExamWhere session) d1 = (Inr exams, d2)"
      and "ds_recentExams summary = take 5 (sort_newest ex_createdAt exams)"
      by (auto simp: find_dashboard_def store_Inr)
    with sorted [of exams] assms(3) show ?thesis
      by (auto simp: canAccess_scoped accessible_is_own dest!: store_part.findMany_InrD [OF good_exams [OF assms(1)]])
  next
    case (memory s1)
    with sorted [of "filter (canAccessExam session) (mm_exams (st_memory s))"] assms(3) show ?thesis
      by (auto simp: store_Inr memory_dashboard_def Let_def accessible_is_own)
  qed
qed

text \<open>An update without the database may hand the exam over to the organization that its body names.\<close>

definition handed_over :: "'d api \<Rightarrow> admin_request \<Rightarrow> 'd store \<Rightarrow> 'd store \<Rightarrow> exam \<Rightarrow> bool" where
  "handed_over a request s s' exam \<longleftrightarrow> (case request of
       UpdateExam _ body \<Rightarrow> xp_organizationId body = Some (ex_organizationId exam) \<and> \<not> used_database (api_store a) s s'
     | _ \<Rightarrow> False)"

lemma updated_is_own_or_handed_over:
  assumes "good_tables (api_store a) content" and "updateExam (api_store a) examId body session s = (Inr exam, s')"
  shows "own_exam session exam \<or> handed_over a (UpdateExam examId body) s s' exam"
proof -
  from updateExam_changed [OF assms] obtain before after old written where
    "exam_changed session examId old exam before after" "exam = updated_exam written old"
    "if used_database (api_store a) s s' then database_patch (api_store a) body = Inr written else written = body" by blast
  then show ?thesis
    by (cases "xp_organizationId body")
      (auto simp: exam_changed_def canAccessExam_def own_exam_def handed_over_def updated_exam_def database_patch_Inr split: if_splits)
qed

lemma answer_stays_in_the_organization:
  assumes good: "good_tables (api_store a) content" and ok: "admin_operation a request session s = (Inr answer, s')"
    and "e \<in> set (shown_exams answer)"
  shows "own_exam session e \<or> handed_over a request s s' e"
proof -
  show ?thesis
  proof (cases request)
    case (UpdateExam examId body)
    with ok obtain exam where u: "updateExam (api_store a) examId body session s = (Inr exam, s')" "answer = ExamAnswer exam"
      by (auto simp: admin_operation_def Let_def mapped_eq_Inr)
    with updated_is_own_or_handed_over [OF good u(1)] assms(3) UpdateExam show ?thesis by simp
  next
    case (DeleteExam examId)
    with ok obtain exam where u: "deleteExam (api_store a) examId session s = (Inr exam, s')" "answer = ExamAnswer exam"
      by (auto simp: admin_operation_def Let_def mapped_eq_Inr)
    from deleteExam_changed [OF good u(1)] assms(3) u(2) show ?thesis
      by (auto simp: exam_changed_def canAccessExam_def own_exam_def)
  next
    case (ExamReport examId)
    then show ?thesis using ok assms(3) exam_report_in_store(1) [OF good] accessible_is_own
      by (auto simp: admin_operation_def Let_def getExamReport_def store_Inr)
  next
    case (ProctorLive examId)
    then show ?thesis using ok assms(3) exam_report_in_store(1) [OF good] accessible_is_own
      by (auto simp: admin_operation_def Let_def getLiveProctorState_def buildLiveProctorState_def store_Inr)
  qed (use ok assms(3) in \<open>auto simp: admin_operation_def Let_def mapped_eq_Inr
    intro: created_exam_is_own [OF good] listed_exams_are_own [OF good] detail_is_own dashboard_is_own [OF good]\<close>)
qed

section \<open>What the interface promises\<close>

text \<open>C2. A route of the administration that answers was called with the bearer token of an active session, whose
  role the operation asks for; the answer is the operation's for this session on the store as it was, and
  every exam it shows, in a list, a detail, a report, the live view or the dashboard, is of the organization of the
  session, unless the session is an administrator's, or the request is an update that, without a database, has just
  handed the exam over to the organization that its body names.\<close>

theorem administration_serves_active_sessions:
  assumes "prisma_table (ac_users (api_auth a)) rows" and "databaseAvailable (ac_env (api_auth a))"
    and "good_tables (api_store a) content" and "map_wf (reg_sessions (app_registry s))" and "\<not> isPublicPath path"
    and ok: "serve_admin a path authorization request s = (Inr answer, s')"
  shows "\<exists>tok session. authorization = Some (''Bearer '' @ tok) \<and>
    active_session (api_auth a) rows (st_db (app_store s), app_registry s) tok session \<and>
    usr_role (as_user session) \<in> required_roles request \<and>
    admin_operation a request session (app_store s) = (Inr answer, app_store s') \<and>
    (\<forall>exam \<in> set (shown_exams answer). own_exam session exam \<or> handed_over a request (app_store s) (app_store s') exam)"
proof -
  let ?c = "api_auth a"
  from ok assms(5) obtain session x d g where
    guard: "requireActiveSession ?c (extractBearerToken authorization) (st_db (app_store s), app_registry s) = (Inr session, (d, g))"
    and handler: "admin_handler a authorization request (s\<lparr>app_store := (app_store s)\<lparr>st_db := d\<rparr>, app_registry := g\<rparr>) = (Inr answer, s')"
    by (auto simp: serve_admin_def canActivate_def act_Inr on_auth_Inr)
  from guarded [OF assms(1,2) _ guard] assms(4) obtain tok where tok: "extractBearerToken authorization = Some tok"
    "active_session ?c rows (st_db (app_store s), app_registry s) tok session" "active_session ?c rows (d, g) tok session"
    "d = st_db (app_store s)" "map_wf (reg_sessions g)" by auto
  from handler obtain x d2 g2 where
    again: "me ?c (Some tok) (d, g) = (Inr x, (d2, g2))"
    and operation: "admin_operation a request x ((app_store s)\<lparr>st_db := d2\<rparr>) = (Inr answer, app_store s')"
    by (auto simp: admin_handler_def act_Inr on_auth_Inr on_store_Inr tok(1))
  have same: "x = session" "d2 = st_db (app_store s)"
    using me_Inr [OF assms(1) again] tok(3,4,5) assms(2) by (auto simp: active_session_def split: if_splits)
  with operation have op: "admin_operation a request session (app_store s) = (Inr answer, app_store s')" by simp
  from bearer_token [OF tok(1)] tok(2) op operation_asks_for_the_role [OF op] answer_stays_in_the_organization [OF assms(3) op]
  show ?thesis by blast
qed

section \<open>Runs and submissions\<close>

text \<open>A list of candidate requests, each with the application's context and clock at its time.\<close>

type_synonym 'd candidate_call = "'d api \<times> request_context \<times> string \<times> candidate_request"

fun serve_candidates :: "'d candidate_call list \<Rightarrow> 'd app \<Rightarrow> ('d candidate_call \<times> candidate_answer res) list \<times> 'd app" where
  "serve_candidates [] s = ([], s)"
| "serve_candidates ((a, client, inviteToken, request) # calls) s =
     (let (answer, s1) = serve_candidate a client inviteToken request s; (answers, s2) = serve_candidates calls s1
      in (((a, client, inviteToken, request), answer) # answers, s2))"

text \<open>The runs and submissions that were answered.\<close>

definition executions_answered :: "('d candidate_call \<Rightarrow> bool) \<Rightarrow> ('d candidate_call \<times> candidate_answer res) list \<Rightarrow> nat" where
  "executions_answered p answers = length (filter (\<lambda>(call, answer). p call \<and> is_execution (snd (snd (snd call))) \<and> \<not> isl answer) answers)"

fun limited_call :: "'d candidate_call \<Rightarrow> call" where
  "limited_call (a, client, inviteToken, request) = (client, Some inviteToken, sc_now (api_store a))"

lemma app_limiter_on_store [simp]: "app_limiter (snd (on_store m s)) = app_limiter s"
  by (simp add: on_store_def Let_def case_prod_beta)

lemma execution_consumes:
  assumes "serve_candidate a client inviteToken request s = (answer, s')"
  shows "app_limiter s' = app_limiter s \<and> (is_execution request \<longrightarrow> isl answer) \<or>
    is_execution request \<and> (\<exists>res. consume (api_digest a) (sc_env (api_store a)) execution_limiter client (Some inviteToken)
      (sc_now (api_store a)) (app_limiter s) = (res, app_limiter s') \<and> (\<not> isl answer \<longrightarrow> res = None))"
proof (cases "is_execution request")
  case False
  with assms show ?thesis using app_limiter_on_store [of "candidate_operation a inviteToken request" s]
    by (simp add: serve_candidate_def)
next
  case True
  obtain found s1 where invite: "on_store (assertCandidateInviteExists (api_store a) inviteToken) s = (found, s1)" by fastforce
  have s1: "app_limiter s1 = app_limiter s"
    using app_limiter_on_store [of "assertCandidateInviteExists (api_store a) inviteToken" s] invite by simp
  obtain res m where consume: "consume (api_digest a) (sc_env (api_store a)) execution_limiter client (Some inviteToken)
      (sc_now (api_store a)) (app_limiter s) = (res, m)" by fastforce
  show ?thesis
  proof (cases found)
    case (Inl e)
    with assms invite True s1 show ?thesis by (auto simp: serve_candidate_def bindE_def)
  next
    case (Inr u)
    with assms invite True s1 consume app_limiter_on_store [of "candidate_operation a inviteToken request" "s1\<lparr>app_limiter := m\<rparr>"]
    show ?thesis by (cases res) (auto simp: serve_candidate_def bindE_def assertCandidateExecutionRate_def)
  qed
qed

lemma consulted_calls:
  assumes "\<forall>(a, client, inviteToken, request) \<in> set calls. api_digest a = digest \<and> sc_env (api_store a) = env"
    and "sorted (map (\<lambda>call. snd (snd (limited_call call))) calls)"
  shows "\<exists>cs. set cs \<subseteq> limited_call ` set calls \<and> length cs \<le> length calls \<and> sorted (map (\<lambda>(_, _, t). t) cs) \<and>
    (\<forall>p q. (\<forall>call. q call \<longrightarrow> p (limited_call call)) \<longrightarrow> executions_answered q (fst (serve_candidates calls s)) \<le>
      let_through p (fst (consume_all digest env execution_limiter cs (app_limiter s))))"
  using assms
proof (induction calls arbitrary: s)
  case Nil
  show ?case by (rule exI [of _ "[]"]) (simp add: executions_answered_def)
next
  case (Cons x calls)
  obtain a client inviteToken request where x: "x = (a, client, inviteToken, request)" by (cases x)
  obtain answer s1 where first: "serve_candidate a client inviteToken request s = (answer, s1)" by fastforce
  from Cons.IH [of s1] Cons.prems obtain cs where cs: "set cs \<subseteq> limited_call ` set calls" "length cs \<le> length calls"
    "sorted (map (\<lambda>(_, _, t). t) cs)"
    "\<And>p q. (\<forall>call. q call \<longrightarrow> p (limited_call call)) \<Longrightarrow> executions_answered q (fst (serve_candidates calls s1)) \<le>
      let_through p (fst (consume_all digest env execution_limiter cs (app_limiter s1)))"
    by auto
  have answers: "executions_answered q (fst (serve_candidates (x # calls) s)) =
      (if q x \<and> is_execution request \<and> \<not> isl answer then 1 else 0) + executions_answered q (fst (serve_candidates calls s1))" for q
    by (simp add: x first executions_answered_def split: prod.split)
  from execution_consumes [OF first] show ?case
  proof
    assume "app_limiter s1 = app_limiter s \<and> (is_execution request \<longrightarrow> isl answer)"
    with cs answers show ?thesis by (intro exI [of _ cs]) auto
  next
    assume "is_execution request \<and> (\<exists>res. consume (api_digest a) (sc_env (api_store a)) execution_limiter client (Some inviteToken)
      (sc_now (api_store a)) (app_limiter s) = (res, app_limiter s1) \<and> (\<not> isl answer \<longrightarrow> res = None))"
    then obtain res where res: "consume digest env execution_limiter client (Some inviteToken) (sc_now (api_store a)) (app_limiter s) =
        (res, app_limiter s1)" "\<not> isl answer \<longrightarrow> res = None"
      using Cons.prems(1) x by auto
    have "\<forall>t \<in> (\<lambda>call. snd (snd (limited_call call))) ` set calls. sc_now (api_store a) \<le> t"
      using Cons.prems(2) by (simp add: x)
    with cs(1,3) have "sorted (map (\<lambda>(_, _, t). t) (limited_call x # cs))" by (fastforce simp: x)
    moreover have "executions_answered q (fst (serve_candidates (x # calls) s)) \<le>
        let_through p (fst (consume_all digest env execution_limiter (limited_call x # cs) (app_limiter s)))"
      if "\<forall>call. q call \<longrightarrow> p (limited_call call)" for p q
      using cs(4) [OF that] that [rule_format, of x] res answers [of q]
      by (auto simp: x let_through_Cons split: prod.split)
    ultimately show ?thesis using cs(1,2) by (intro exI [of _ "limited_call x # cs"]) auto
  qed
qed

text \<open>C28. Within any minute, from any state of the limiter whose map has room for the calls (two entries a call, 20000 in all), at
  most twice twelve runs and submissions of one client address are answered, and at most twice six for one invite,
  whoever sends them: twelve and six when the minute opens with no window of the address or of the invite, as on a
  server just started; a window that is already open is the one that may end within the minute.\<close>

theorem runs_over_the_api_are_limited:
  assumes "\<forall>(a, client, inviteToken, request) \<in> set calls. api_digest a = digest \<and> sc_env (api_store a) = env \<and>
      sc_now (api_store a) < start + 60 * 1000"
    and "sorted (start # map (\<lambda>call. sc_now (api_store (fst call))) calls)"
    and "length (app_limiter s) + 2 * length calls < 20000"
  shows "executions_answered (\<lambda>(_, client, _, _). clientAddress env client = address) (fst (serve_candidates calls s)) \<le>
      (if bucket_live (app_limiter s) start (digest (''client:'' @ address)) = None then 12 else 24) \<and>
    executions_answered (\<lambda>(_, _, inviteToken, _). toLowerCase (trim inviteToken) = toLowerCase (trim invite))
      (fst (serve_candidates calls s)) \<le>
      (if bucket_live (app_limiter s) start (digest (''candidate-execution:'' @ toLowerCase (trim invite))) = None then 6 else 12)"
proof -
  have times: "snd (snd (limited_call call)) = sc_now (api_store (fst call))" for call :: "'a candidate_call"
    by (cases call) simp
  have "\<forall>(a, client, inviteToken, request) \<in> set calls. api_digest a = digest \<and> sc_env (api_store a) = env"
    "sorted (map (\<lambda>call. snd (snd (limited_call call))) calls)"
    using assms(1,2) by (auto simp: times)
  from consulted_calls [OF this, of s] obtain cs where
    cs: "set cs \<subseteq> limited_call ` set calls" "length cs \<le> length calls" "sorted (map (\<lambda>(_, _, t). t) cs)"
    "\<And>p q. (\<forall>call. q call \<longrightarrow> p (limited_call call)) \<Longrightarrow> executions_answered q (fst (serve_candidates calls s)) \<le>
      let_through p (fst (consume_all digest env execution_limiter cs (app_limiter s)))"
    by blast
  have few: "length (app_limiter s) + 2 * length cs < maximumBuckets" using cs(2) assms(3) by (simp add: maximumBuckets_def)
  have "sorted (start # map (\<lambda>(_, _, t). t) cs)" "\<forall>(_, _, t) \<in> set cs. t < start + windowMs"
    using cs(1,3) assms(1,2) by (fastforce simp: windowMs_def)+
  note limits = consume_all_minute [OF few this]
  have "let_through (\<lambda>(client, _, _). clientAddress env client = address) (fst (consume_all digest env execution_limiter cs (app_limiter s))) \<le>
      (if bucket_live (app_limiter s) start (digest (''client:'' @ address)) = None then 12 else 2 * 12)"
    by (rule limits) (auto simp: client_key_def execution_limiter_def)
  moreover have "let_through (\<lambda>(_, subject, _). \<exists>t. subject = Some t \<and> toLowerCase (trim t) = toLowerCase (trim invite))
      (fst (consume_all digest env execution_limiter cs (app_limiter s))) \<le>
      (if bucket_live (app_limiter s) start (digest (''candidate-execution:'' @ toLowerCase (trim invite))) = None then 6 else 2 * 6)"
    by (rule limits) (auto simp: subject_key_def execution_limiter_def)
  moreover note cs(4) [of "\<lambda>(_, client, _, _). clientAddress env client = address" "\<lambda>(client, _, _). clientAddress env client = address"]
    cs(4) [of "\<lambda>(_, _, inviteToken, _). toLowerCase (trim inviteToken) = toLowerCase (trim invite)"
      "\<lambda>(_, subject, _). \<exists>t. subject = Some t \<and> toLowerCase (trim t) = toLowerCase (trim invite)"]
  ultimately show ?thesis by (auto split: if_splits)
qed

section \<open>Witnesses\<close>

text \<open>One database that holds the users and what the store reads and writes.\<close>

abbreviation kept_table :: "(contents \<Rightarrow> 'r list) \<Rightarrow> (('r list \<Rightarrow> 'r list) \<Rightarrow> contents \<Rightarrow> contents) \<Rightarrow> (database \<times> contents, 'r) store_table" where
  "kept_table get upd \<equiv> part_table (\<lambda>d. get (snd d)) (\<lambda>f. apsnd (upd f))"

definition whole_ctx :: "time \<Rightarrow> (database \<times> contents) store_ctx" where
  "whole_ctx now = \<lparr>sc_env = auth_env, sc_now = now, sc_uuid = (\<lambda>n. replicate (Suc n) CHR ''0''), sc_parseDate = (\<lambda>_. None),
     sc_seed = ret (), sc_admit = (\<lambda>_. Inr ()), sc_docker = echo_docker, sc_clock = (\<lambda>_. now), sc_endedAt = now,
     sc_organizations = kept_table k_organizations k_organizations_update,
     sc_exams = kept_table k_exams k_exams_update,
     sc_questions = kept_table k_questions k_questions_update,
     sc_candidates = kept_table k_candidates k_candidates_update,
     sc_testCases = kept_table k_testCases k_testCases_update,
     sc_proctorEvents = kept_table k_proctorEvents k_proctorEvents_update,
     sc_proctorDevices = kept_table k_proctorDevices k_proctorDevices_update,
     sc_proctorActions = kept_table k_proctorActions k_proctorActions_update,
     sc_competencyReports = kept_table k_competencyReports k_competencyReports_update,
     sc_identityVerifications = kept_table k_identityVerifications k_identityVerifications_update,
     sc_environmentChecks = kept_table k_environmentChecks k_environmentChecks_update,
     sc_examSessions = kept_table k_examSessions k_examSessions_update,
     sc_codeDrafts = kept_table k_codeDrafts k_codeDrafts_update,
     sc_codeExecutions = kept_table k_codeExecutions k_codeExecutions_update,
     sc_submissions = kept_table k_submissions k_submissions_update,
     sc_inviteEmailLogs = kept_table k_inviteEmailLogs k_inviteEmailLogs_update\<rparr>"

lemma kept_part:
  assumes "\<And>f k. get (upd f k) = f (get k)" and "\<And>f g k. f (get k) = g (get k) \<Longrightarrow> upd f k = upd g k"
  shows "store_part (kept_table get upd) snd get upd"
  by unfold_locales
    (auto simp: part_table_def table.defs store_table.defs list_table_def assms(1) apsnd_def map_prod_def intro!: assms(2)
      split: option.splits prod.splits)

lemma good_whole: "good_tables (whole_ctx now) snd"
  unfolding good_tables_def whole_ctx_def store_ctx.simps by (intro conjI; rule kept_part) simp_all

definition whole_auth :: "time \<Rightarrow> (database \<times> contents) auth_ctx" where
  "whole_auth now = \<lparr>ac_env = auth_env, ac_users = list_table (\<lambda>d. db_users (fst d)) (\<lambda>rs. apfst (db_users_update (\<lambda>_. rs))),
     ac_orgs = list_table (\<lambda>d. db_organizations (fst d)) (\<lambda>rs. apfst (db_organizations_update (\<lambda>_. rs))), ac_kdf = sample_kdf,
     ac_base64url = id, ac_from_base64url = id, ac_sha256 = (\<lambda>p. CHR ''h'' # p), ac_now = now, ac_started = 0,
     ac_uuid = (\<lambda>n. replicate (Suc n) CHR ''0''), ac_salt = ''salt'', ac_commit = (\<lambda>_. None)\<rparr>"

definition whole_api :: "time \<Rightarrow> (database \<times> contents) api" where
  "whole_api now = \<lparr>api_auth = whole_auth now, api_store = whole_ctx now, api_mail = sample_mail_services, api_interfaces = [],
     api_kyc = kyc_network, api_ai = no_network, api_evidence = sample_evidence, api_digest = (\<lambda>v. CHR ''#'' # v)\<rparr>"

definition manager_in :: registry where
  "manager_in = set_session default_options 1500 ''t'' sample_manager empty_registry"

definition whole_app :: "contents \<Rightarrow> (database \<times> contents) app" where
  "whole_app k = \<lparr>app_store = \<lparr>st_db = (sample_db, k), st_memory = empty_memory, st_databaseUnavailable = False\<rparr>,
     app_registry = manager_in, app_limiter = []\<rparr>"

lemma whole_sel [simp]:
  "api_auth (whole_api now) = whole_auth now" "api_store (whole_api now) = whole_ctx now" "api_digest (whole_api now) = (\<lambda>v. CHR ''#'' # v)"
  "ac_env (whole_auth now) = auth_env" "ac_now (whole_auth now) = now" "sc_now (whole_ctx now) = now" "sc_env (whole_ctx now) = auth_env"
  "sc_seed (whole_ctx now) = ret ()" "sc_exams (whole_ctx now) = kept_table k_exams k_exams_update"
  "ac_users (whole_auth now) = list_table (\<lambda>d. db_users (fst d)) (\<lambda>rs. apfst (db_users_update (\<lambda>_. rs)))"
  "app_store (whole_app k) = \<lparr>st_db = (sample_db, k), st_memory = empty_memory, st_databaseUnavailable = False\<rparr>"
  "app_registry (whole_app k) = manager_in" "app_limiter (whole_app k) = []"
  by (simp_all add: whole_api_def whole_auth_def whole_ctx_def whole_app_def)

lemma store_auth_env [simp]: "\<not> storeDemoAuthEnabled auth_env" "\<not> databaseFallbackEnabled auth_env"
  by (simp_all add: storeDemoAuthEnabled_def databaseFallbackEnabled_def is_production_def auth_env_def)

lemma whole_users: "prisma_table (ac_users (whole_auth now)) (\<lambda>d. db_users (fst d))"
  using list_table_reliable [of "\<lambda>d. db_users (fst d)" "\<lambda>rs. apfst (db_users_update (\<lambda>_. rs))"]
  by (auto simp: reliable_table_def)

lemma manager_wf: "map_wf (reg_sessions manager_in)"
  unfolding manager_in_def by (rule map_wf_operations) (simp add: empty_registry_def)

definition manager_seen :: registry where
  "manager_seen = snd (get_session default_options 2000 ''t'' manager_in)"

definition manager_served :: registry where
  "manager_served = snd (get_session default_options 2000 ''t'' manager_seen)"

lemma manager_get:
  "get_session default_options 2000 ''t'' manager_in = (Some sample_manager, manager_seen)"
  "get_session default_options 2000 ''t'' manager_seen = (Some sample_manager, manager_served)"
  by (simp_all add: manager_seen_def manager_served_def get_session_def manager_in_def set_session_def store_session_def clear_timer_def
      empty_registry_def Let_def is_expired_def default_options_def ABSOLUTE_TTL_MS_def IDLE_TTL_MS_def)

lemma manager_me:
  "me (whole_auth 2000) (Some ''t'') ((sample_db, k), manager_in) = (Inr sample_manager, ((sample_db, k), manager_seen))"
  "me (whole_auth 2000) (Some ''t'') ((sample_db, k), manager_seen) = (Inr sample_manager, ((sample_db, k), manager_served))"
  by (simp_all add: me_def on_reg_def bindE_def manager_get on_db_def list_table_def sample_db_def sample_user_def sample_manager_def
      password_expired_def passwordLifetimeMs_def ret_def)

lemma manager_guard:
  "canActivate (whole_auth 2000) (Some ''/api/exams'') None (Some ''Bearer t'') ((sample_db, k), manager_in) =
     (Inr (), ((sample_db, k), manager_seen))"
  by (simp add: canActivate_def isPublicPath_def startsWith_def extractBearerToken_def requireActiveSession_def bindE_def manager_me
        on_db_def list_table_def)
    (simp add: sample_db_def sample_user_def sample_manager_def password_expired_def passwordLifetimeMs_def ret_def)

lemma whole_list:
  "listExams (whole_ctx 2000) sample_manager \<lparr>st_db = (sample_db, exam_contents), st_memory = empty_memory, st_databaseUnavailable = False\<rparr> =
     (Inr [sample_exam], \<lparr>st_db = (sample_db, exam_contents), st_memory = empty_memory, st_databaseUnavailable = False\<rparr>)"
  by (simp add: listExams_def assertSessionCanViewExams_def exam_contents_def scopedExamWhere_def sort_newest_def with_fallback_def
      seededDatabase_def storeDatabase_def storeOperation_def catchE_def bindE_def on_database_def ret_def throwE_def liftR_def)

lemma administration_serves_active_sessions_witness:
  "\<exists>s'. serve_admin (whole_api 2000) ''/api/exams'' (Some ''Bearer t'') ListExams (whole_app exam_contents) = (Inr (ExamsAnswer [sample_exam]), s') \<and>
     own_exam sample_manager sample_exam"
proof -
  have tok: "extractBearerToken (Some ''Bearer t'') = Some ''t''" by (simp add: extractBearerToken_def startsWith_def)
  obtain s' where ok: "serve_admin (whole_api 2000) ''/api/exams'' (Some ''Bearer t'') ListExams (whole_app exam_contents) =
      (Inr (ExamsAnswer [sample_exam]), s')"
    by (simp add: serve_admin_def admin_handler_def on_auth_def on_store_def bindE_def manager_guard tok manager_me admin_operation_def
        mapped_def whole_list ret_def)
  have path: "\<not> isPublicPath ''/api/exams''" by (simp add: isPublicPath_def startsWith_def)
  have handed: "\<not> handed_over (whole_api 2000) ListExams x y exam" for x y exam by (simp add: handed_over_def)
  have "prisma_table (ac_users (api_auth (whole_api 2000))) (\<lambda>d. db_users (fst d))" "databaseAvailable (ac_env (api_auth (whole_api 2000)))"
    "good_tables (api_store (whole_api 2000)) snd" "map_wf (reg_sessions (app_registry (whole_app exam_contents)))"
    using whole_users [of 2000] good_whole manager_wf by simp_all
  from administration_serves_active_sessions [OF this path ok] obtain tok session where "Some ''Bearer t'' = Some (''Bearer '' @ tok)"
    "session_of manager_in tok = Some session" "own_exam session sample_exam"
    using handed by (auto simp: active_session_def)
  moreover have "session_of manager_in ''t'' = Some sample_manager"
    by (rule get_session_of [of default_options 2000]) (simp add: manager_get)
  ultimately show ?thesis using ok by auto
qed

definition sample_runs :: "(database \<times> contents) candidate_call list" where
  "sample_runs = replicate 20 (whole_api 95000, sample_request, ''invite_1'',
     RunCode \<lparr>cri_questionId = ''q1'', cri_language = ''python'', cri_code = ''x''\<rparr>)"

lemma runs_over_the_api_are_limited_witness:
  "executions_answered (\<lambda>(_, client, _, _). clientAddress auth_env client = ''10.0.0.1'') (fst (serve_candidates sample_runs (whole_app workspace_contents))) \<le> 12 \<and>
   executions_answered (\<lambda>(_, _, inviteToken, _). toLowerCase (trim inviteToken) = toLowerCase (trim ''invite_1''))
     (fst (serve_candidates sample_runs (whole_app workspace_contents))) \<le> 6"
  using runs_over_the_api_are_limited [of sample_runs "\<lambda>v. CHR ''#'' # v" auth_env 95000 "whole_app workspace_contents" "''10.0.0.1''" "''invite_1''"]
  by (simp add: sample_runs_def bucket_live_def)

end
