(* ===== verification/StoreModes.thy ===== *)
theory StoreModes
  imports Api
begin

text \<open>
  The store implements every operation twice: as queries of the database, and over lists in memory for a server without one.
  Where the code keeps the rows in the same order in both, the second implementation is equivalent to the first.
\<close>

text \<open>The lists in memory hold what the tables hold.\<close>

definition same_rows :: "memory \<Rightarrow> contents \<Rightarrow> bool" where
  "same_rows m k \<longleftrightarrow> mm_exams m = k_exams k \<and> mm_questions m = k_questions k \<and> mm_testCases m = k_testCases k \<and>
     mm_candidates m = k_candidates k"

text \<open>The same server, in an environment without a database.\<close>

definition without_database :: "env \<Rightarrow> 'd api \<Rightarrow> 'd api" where
  "without_database env a = a\<lparr>api_store := (api_store a)\<lparr>sc_env := env\<rparr>\<rparr>"

text \<open>The listing of the exams, the deletion of one, and what is added below one.\<close>

definition is_twofold :: "admin_request \<Rightarrow> bool" where
  "is_twofold request \<longleftrightarrow> (case request of ListExams \<Rightarrow> True | DeleteExam _ \<Rightarrow> True | AddQuestion _ _ \<Rightarrow> True
     | AddTestCase _ _ \<Rightarrow> True | AddCandidate _ _ \<Rightarrow> True | _ \<Rightarrow> False)"

lemma memory_path:
  assumes "\<not> databaseAvailable (sc_env c)"
  shows "with_fallback (seededDatabase c operation) fallback = fallback"
  using assms by (auto simp: with_fallback_def seededDatabase_def storeDatabase_def storeOperation_def bindE_def ret_def)

lemma database_path:
  assumes "deployed c" and "with_fallback (seededDatabase c operation) fallback s = (Inr x, s')"
  obtains d where "operation (st_db s) = (Inr x, d)" and "s' = s\<lparr>st_db := d\<rparr>"
  using assms(2) that deployed_fallback(2) [OF assms(1)] deployed_seed [OF assms(1)]
  by (cases rule: with_seeded_cases) (auto simp: ret_def)

lemma without_database_sel [simp]:
  "sc_env (api_store (without_database env a)) = env" "sc_now (api_store (without_database env a)) = sc_now (api_store a)"
  "sc_uuid (api_store (without_database env a)) = sc_uuid (api_store a)"
  by (simp_all add: without_database_def)

lemma new_rows_without_database [simp]:
  "new_question (api_store (without_database env a)) = new_question (api_store a)"
  "new_test_case (api_store (without_database env a)) = new_test_case (api_store a)"
  "new_candidate (api_store (without_database env a)) = new_candidate (api_store a)"
  by (simp_all add: fun_eq_iff new_question_def new_test_case_def new_candidate_def createId_def createSecretToken_def)

lemma exam_in_both:
  assumes "good_tables c content" and "assertDbExamExists c examId session d = (Inr exam, d')" and "same_rows m (content d)"
  shows "d' = d" and "assertMemoryExamExists m examId session = Inr exam"
  using assertDbExamExists_Inr [OF assms(1,2)] assms(3) by (auto simp: assertMemoryExamExists_def require_exam_Inr same_rows_def)

lemma question_in_both:
  assumes "good_tables c content" and "assertDbQuestionExists c questionId session d = (Inr exam, d')" and "same_rows m (content d)"
  shows "d' = d" and "\<exists>q. List.find (\<lambda>q. q_id q = questionId) (mm_questions m) = Some q \<and> assertMemoryExamExists m (q_examId q) session = Inr exam"
proof -
  from assms(2) obtain q d1 where q: "t_find (sc_questions c) (\<lambda>q. q_id q = questionId) d = (Inr (Some q), d1)"
    and exam: "assertDbExamExists c (q_examId q) session d1 = (Inr exam, d')"
    by (auto simp: assertDbQuestionExists_def store_Inr split: option.splits)
  from good_reads [OF assms(1)] q have "d1 = d" "List.find (\<lambda>q. q_id q = questionId) (k_questions (content d)) = Some q" by auto
  with exam_in_both [OF assms(1) exam] assms(3)
  show "d' = d" "\<exists>q. List.find (\<lambda>q. q_id q = questionId) (mm_questions m) = Some q \<and> assertMemoryExamExists m (q_examId q) session = Inr exam"
    by (auto simp: same_rows_def)
qed

lemma listed_in_both:
  assumes "good_tables c content" and "deployed c" and "\<not> databaseAvailable env" and "same_rows (st_memory t) (content (st_db s))"
    and "listExams c session s = (Inr xs, s')"
  shows "listExams (c\<lparr>sc_env := env\<rparr>) session t = (Inr xs, t) \<and> s' = s"
proof -
  from assms(5) obtain u where role: "assertSessionCanViewExams session = Inr u" and run: "with_fallback
       (seededDatabase c (bindE (t_findMany (sc_exams c) (scopedExamWhere session)) (\<lambda>exams. ret (sort_newest ex_createdAt exams))))
       (memory_of (\<lambda>m. sort_newest ex_createdAt (filter (canAccessExam session) (mm_exams m)))) s = (Inr xs, s')"
    by (auto simp: listExams_def store_Inr)
  from database_path [OF assms(2) run] obtain d where
    "bindE (t_findMany (sc_exams c) (scopedExamWhere session)) (\<lambda>exams. ret (sort_newest ex_createdAt exams)) (st_db s) = (Inr xs, d)"
    and "s' = s\<lparr>st_db := d\<rparr>" .
  with assms(4) have "xs = sort_newest ex_createdAt (filter (canAccessExam session) (mm_exams (st_memory t)))" "s' = s"
    by (auto simp: store_Inr canAccess_scoped same_rows_def dest!: good_reads [OF assms(1)])
  with role assms(3) show ?thesis
    by (simp add: listExams_def memory_path bindE_def liftR_def memory_of_def)
qed

lemma deleted_in_both:
  assumes "good_tables c content" and "deployed c" and "\<not> databaseAvailable env" and "same_rows (st_memory t) (content (st_db s))"
    and "distinct (map ex_id (mm_exams (st_memory t)))" and "deleteExam c examId session s = (Inr exam, s')"
  shows "\<exists>t'. deleteExam (c\<lparr>sc_env := env\<rparr>) examId session t = (Inr exam, t') \<and> same_rows (st_memory t') (content (st_db s'))"
proof -
  from assms(6) obtain u where role: "assertSessionCanManageExams session = Inr u" and run: "with_fallback
       (seededDatabase c (bindE (t_find (sc_exams c) (\<lambda>e. ex_id e = examId)) (\<lambda>found.
          bindE (liftR (require_exam session found)) (\<lambda>_.
          t_update (sc_exams c) (\<lambda>e. ex_id e = examId) (ex_status_update (\<lambda>_. DELETED))))))
       (bindE (memory_of (\<lambda>m. List.find (\<lambda>e. ex_id e = examId) (mm_exams m))) (\<lambda>found.
        bindE (liftR (require_exam session found)) (\<lambda>exam.
        bindE (set_memory (mm_exams_update (replace_where (\<lambda>e. ex_id e = examId) (\<lambda>_. exam\<lparr>ex_status := DELETED\<rparr>)))) (\<lambda>_.
        ret (exam\<lparr>ex_status := DELETED\<rparr>))))) s = (Inr exam, s')"
    by (auto simp: deleteExam_def store_Inr)
  from database_path [OF assms(2) run] obtain d where
    op: "bindE (t_find (sc_exams c) (\<lambda>e. ex_id e = examId)) (\<lambda>found.
          bindE (liftR (require_exam session found)) (\<lambda>_.
          t_update (sc_exams c) (\<lambda>e. ex_id e = examId) (ex_status_update (\<lambda>_. DELETED)))) (st_db s) = (Inr exam, d)"
    and s': "s' = s\<lparr>st_db := d\<rparr>" .
  let ?exams = "mm_exams (st_memory t)"
  from op assms(4) obtain old where old: "List.find (\<lambda>e. ex_id e = examId) ?exams = Some old" "require_exam session (Some old) = Inr old"
    and exam: "exam = old\<lparr>ex_status := DELETED\<rparr>"
    and after: "content d = k_exams_update (replace_where (\<lambda>e. ex_id e = examId) (ex_status_update (\<lambda>_. DELETED))) (content (st_db s))"
    by (auto simp: store_Inr require_exam_Inr same_rows_def dest!: good_reads [OF assms(1)] store_part.update_InrD [OF good_exams [OF assms(1)]])
  have "replace_where (\<lambda>e. ex_id e = examId) (\<lambda>_. old\<lparr>ex_status := DELETED\<rparr>) ?exams =
      replace_where (\<lambda>e. ex_id e = examId) (ex_status_update (\<lambda>_. DELETED)) ?exams"
  proof -
    have "e = old" if "e \<in> set ?exams" "ex_id e = examId" for e
      using that assms(5) find_SomeD [OF old(1)] by (metis distinct_map inj_onD)
    then show ?thesis by (auto simp: replace_where_def)
  qed
  with role assms(3,4) old exam after s' show ?thesis
    by (auto simp: deleteExam_def memory_path bindE_def liftR_def memory_of_def set_memory_def ret_def same_rows_def)
qed

text \<open>An addition, once the exam it belongs to was found.\<close>

lemma added_in_both:
  assumes "deployed c" and "\<not> databaseAvailable env" and part: "store_part T content get put"
    and res: "with_fallback (seededDatabase c (bindE asserts (\<lambda>_. t_create T r))) fallback s = (Inr x, s')"
    and asserts: "\<And>e d. asserts (st_db s) = (Inr e, d) \<Longrightarrow> d = st_db s \<and> (\<exists>e'. memory_asserts t = (Inr e', t))"
    and agree: "\<And>d. content d = put (\<lambda>rs. rs @ [r]) (content (st_db s)) \<Longrightarrow> same_rows (put' (\<lambda>rs. rs @ [r]) (st_memory t)) (content d)"
  shows "\<exists>t'. bindE memory_asserts (\<lambda>_. bindE (set_memory (put' (\<lambda>rs. rs @ [r]))) (\<lambda>_. ret r)) t = (Inr x, t') \<and>
    same_rows (st_memory t') (content (st_db s'))"
proof -
  from database_path [OF assms(1) res] obtain d where op: "bindE asserts (\<lambda>_. t_create T r) (st_db s) = (Inr x, d)"
    and s': "s' = s\<lparr>st_db := d\<rparr>" .
  then obtain e d1 where "asserts (st_db s) = (Inr e, d1)" and cr: "t_create T r d1 = (Inr x, d)" by (auto simp: store_Inr)
  with asserts obtain e' where "d1 = st_db s" "memory_asserts t = (Inr e', t)" by blast
  with cr store_part.create_InrD [OF part cr] agree [of d] s' show ?thesis
    by (auto simp: bindE_def set_memory_def ret_def)
qed

lemma question_added_in_both:
  assumes "good_tables c content" and "deployed c" and "\<not> databaseAvailable env" and "same_rows (st_memory t) (content (st_db s))"
    and "addQuestion c examId input session s = (Inr x, s')"
  shows "\<exists>t'. addQuestion (c\<lparr>sc_env := env\<rparr>) examId input session t = (Inr x, t') \<and> same_rows (st_memory t') (content (st_db s'))"
proof -
  from assms(5) obtain u where role: "assertSessionCanManageExams session = Inr u" and run: "with_fallback
       (seededDatabase c (bindE (assertDbExamExists c examId session) (\<lambda>_. t_create (sc_questions c) (new_question c examId input))))
       (bindE (memory_of (\<lambda>m. assertMemoryExamExists m examId session)) (\<lambda>exam.
        bindE (liftR exam) (\<lambda>_.
        bindE (set_memory (mm_questions_update (\<lambda>xs. xs @ [new_question c examId input]))) (\<lambda>_.
        ret (new_question c examId input))))) s = (Inr x, s')"
    by (auto simp: addQuestion_def store_Inr)
  have "\<exists>t'. bindE (bindE (memory_of (\<lambda>m. assertMemoryExamExists m examId session)) liftR) (\<lambda>_.
      bindE (set_memory (mm_questions_update (\<lambda>xs. xs @ [new_question c examId input]))) (\<lambda>_. ret (new_question c examId input))) t = (Inr x, t') \<and>
    same_rows (st_memory t') (content (st_db s'))"
  proof (rule added_in_both [OF assms(2,3) good_questions [OF assms(1)] run])
    fix e d assume "assertDbExamExists c examId session (st_db s) = (Inr e, d)"
    from exam_in_both [OF assms(1) this assms(4)]
    show "d = st_db s \<and> (\<exists>e'. bindE (memory_of (\<lambda>m. assertMemoryExamExists m examId session)) liftR t = (Inr e', t))"
      by (simp add: bindE_def memory_of_def liftR_def)
  qed (use assms(4) in \<open>auto simp: same_rows_def\<close>)
  with role assms(3) show ?thesis
    by (simp add: addQuestion_def memory_path bindE_def liftR_def memory_of_def set_memory_def ret_def new_question_def createId_def)
qed

lemma candidate_added_in_both:
  assumes "good_tables c content" and "deployed c" and "\<not> databaseAvailable env" and "same_rows (st_memory t) (content (st_db s))"
    and "addCandidate c examId input session s = (Inr x, s')"
  shows "\<exists>t'. addCandidate (c\<lparr>sc_env := env\<rparr>) examId input session t = (Inr x, t') \<and> same_rows (st_memory t') (content (st_db s'))"
proof -
  from assms(5) obtain u where role: "assertSessionCanManageExams session = Inr u" and run: "with_fallback
       (seededDatabase c (bindE (assertDbExamExists c examId session) (\<lambda>_. t_create (sc_candidates c) (new_candidate c examId input))))
       (bindE (memory_of (\<lambda>m. assertMemoryExamExists m examId session)) (\<lambda>exam.
        bindE (liftR exam) (\<lambda>_.
        bindE (set_memory (mm_candidates_update (\<lambda>xs. xs @ [new_candidate c examId input]))) (\<lambda>_.
        ret (new_candidate c examId input))))) s = (Inr x, s')"
    by (auto simp: addCandidate_def store_Inr)
  have "\<exists>t'. bindE (bindE (memory_of (\<lambda>m. assertMemoryExamExists m examId session)) liftR) (\<lambda>_.
      bindE (set_memory (mm_candidates_update (\<lambda>xs. xs @ [new_candidate c examId input]))) (\<lambda>_. ret (new_candidate c examId input))) t = (Inr x, t') \<and>
    same_rows (st_memory t') (content (st_db s'))"
  proof (rule added_in_both [OF assms(2,3) good_candidates [OF assms(1)] run])
    fix e d assume "assertDbExamExists c examId session (st_db s) = (Inr e, d)"
    from exam_in_both [OF assms(1) this assms(4)]
    show "d = st_db s \<and> (\<exists>e'. bindE (memory_of (\<lambda>m. assertMemoryExamExists m examId session)) liftR t = (Inr e', t))"
      by (simp add: bindE_def memory_of_def liftR_def)
  qed (use assms(4) in \<open>auto simp: same_rows_def\<close>)
  with role assms(3) show ?thesis
    by (simp add: addCandidate_def memory_path bindE_def liftR_def memory_of_def set_memory_def ret_def new_candidate_def createId_def
      createSecretToken_def)
qed

lemma test_case_added_in_both:
  assumes "good_tables c content" and "deployed c" and "\<not> databaseAvailable env" and "same_rows (st_memory t) (content (st_db s))"
    and "addTestCase c questionId input session s = (Inr x, s')"
  shows "\<exists>t'. addTestCase (c\<lparr>sc_env := env\<rparr>) questionId input session t = (Inr x, t') \<and> same_rows (st_memory t') (content (st_db s'))"
proof -
  let ?asserts = "bindE (memory_of (\<lambda>m. List.find (\<lambda>q. q_id q = questionId) (mm_questions m))) (\<lambda>found. case found of
          None \<Rightarrow> throwE (NotFound ''Question not found'')
        | Some question \<Rightarrow> bindE (memory_of (\<lambda>m. assertMemoryExamExists m (q_examId question) session)) liftR)"
  from assms(5) obtain u fallback where role: "assertSessionCanManageExams session = Inr u" and run: "with_fallback
       (seededDatabase c (bindE (assertDbQuestionExists c questionId session) (\<lambda>_. t_create (sc_testCases c) (new_test_case c questionId input))))
       fallback s = (Inr x, s')"
    by (auto simp: addTestCase_def store_Inr)
  have "\<exists>t'. bindE ?asserts (\<lambda>_. bindE (set_memory (mm_testCases_update (\<lambda>xs. xs @ [new_test_case c questionId input]))) (\<lambda>_.
      ret (new_test_case c questionId input))) t = (Inr x, t') \<and> same_rows (st_memory t') (content (st_db s'))"
  proof (rule added_in_both [OF assms(2,3) good_testCases [OF assms(1)] run])
    fix e d assume "assertDbQuestionExists c questionId session (st_db s) = (Inr e, d)"
    from question_in_both [OF assms(1) this assms(4)] show "d = st_db s \<and> (\<exists>e'. ?asserts t = (Inr e', t))"
      by (auto simp: bindE_def memory_of_def liftR_def)
  qed (use assms(4) in \<open>auto simp: same_rows_def\<close>)
  with role assms(3) show ?thesis
    by (auto simp: addTestCase_def memory_path bindE_def liftR_def memory_of_def set_memory_def ret_def new_test_case_def createId_def
      throwE_def split: option.splits sum.splits)
qed

section \<open>Refusals\<close>

text \<open>The tables answer: no query of them fails but an update that finds no row.\<close>

definition answering :: "('d, 'r) store_table \<Rightarrow> ('d \<Rightarrow> 'r list) \<Rightarrow> bool" where
  "answering T rows \<longleftrightarrow> (\<forall>p d. \<not> isl (fst (t_find T p d))) \<and> (\<forall>p d. \<not> isl (fst (t_findMany T p d))) \<and>
     (\<forall>r d. \<not> isl (fst (t_create T r d))) \<and> (\<forall>p f d. List.find p (rows d) \<noteq> None \<longrightarrow> \<not> isl (fst (t_update T p f d)))"

definition tables_answer :: "'d store_ctx \<Rightarrow> ('d \<Rightarrow> contents) \<Rightarrow> bool" where
  "tables_answer c content \<longleftrightarrow> answering (sc_exams c) (\<lambda>d. k_exams (content d)) \<and> answering (sc_questions c) (\<lambda>d. k_questions (content d)) \<and>
     answering (sc_testCases c) (\<lambda>d. k_testCases (content d)) \<and> answering (sc_candidates c) (\<lambda>d. k_candidates (content d))"

lemma answers:
  "answering T rows \<Longrightarrow> \<exists>x d'. t_find T p d = (Inr x, d')"
  "answering T rows \<Longrightarrow> \<exists>xs d'. t_findMany T p d = (Inr xs, d')"
  "answering T rows \<Longrightarrow> \<exists>x d'. t_create T r d = (Inr x, d')"
  "answering T rows \<Longrightarrow> List.find p (rows d) = Some r0 \<Longrightarrow> \<exists>x d'. t_update T p f d = (Inr x, d')"
  unfolding answering_def by (metis prod.collapse sum.collapse(2) option.distinct(1))+

lemma database_result:
  assumes "deployed c"
  shows "operation (st_db s) = (Inr x, d) \<Longrightarrow> with_fallback (seededDatabase c operation) fallback s = (Inr x, s\<lparr>st_db := d\<rparr>)"
    and "operation (st_db s) = (Inl e, st_db s) \<Longrightarrow> is_request_error e \<Longrightarrow>
      with_fallback (seededDatabase c operation) fallback s = (Inl e, s)"
  using deployed_fallback [OF assms] deployed_seed [OF assms]
  by (simp_all add: asks_database_def with_fallback_def seededDatabase_def storeDatabase_def storeOperation_def catchE_def bindE_def
      on_database_def ret_def throwE_def)

lemma require_exam_Inl: "require_exam session found = Inl e \<Longrightarrow> is_request_error e"
  by (auto simp: require_exam_def assertSessionCanAccessExam_def is_request_error_def bindR_def split: option.splits if_splits)

lemma exam_check_in_both:
  assumes "good_tables c content" and "tables_answer c content" and "same_rows m (content d)"
  shows "assertDbExamExists c examId session d = (assertMemoryExamExists m examId session, d)"
proof -
  from answers(1) obtain x d' where "t_find (sc_exams c) (\<lambda>e. ex_id e = examId) d = (Inr x, d')"
    using assms(2) unfolding tables_answer_def by meson
  with good_reads [OF assms(1)] assms(3) show ?thesis
    by (auto simp: assertDbExamExists_def assertMemoryExamExists_def bindE_def liftR_def same_rows_def)
qed

text \<open>A listing and a deletion refuse in both what they refuse in one.\<close>

lemma listing_refused_in_both:
  assumes "deployed c" and "tables_answer c content" and "listExams c session s = (Inl e, s')"
  shows "listExams (c\<lparr>sc_env := env\<rparr>) session t = (Inl e, t) \<and> s' = s"
proof (cases "assertSessionCanViewExams session")
  case (Inr u)
  from answers(2) obtain xs d where "t_findMany (sc_exams c) (scopedExamWhere session) (st_db s) = (Inr xs, d)"
    using assms(2) unfolding tables_answer_def by meson
  then have "bindE (t_findMany (sc_exams c) (scopedExamWhere session)) (\<lambda>exams. ret (map mapExam (sort_newest ex_createdAt exams))) (st_db s) =
      (Inr (map mapExam (sort_newest ex_createdAt xs)), d)"
    by (simp add: bindE_def ret_def)
  from database_result(1) [where s = s and operation = "bindE (t_findMany (sc_exams c) (scopedExamWhere session)) (\<lambda>exams. ret (map mapExam (sort_newest ex_createdAt exams)))",
      OF assms(1) this] Inr assms(3) show ?thesis by (simp add: listExams_def bindE_def liftR_def)
qed (use assms(3) in \<open>simp add: listExams_def bindE_def liftR_def\<close>)

lemma deletion_refused_in_both:
  assumes "good_tables c content" and "deployed c" and "tables_answer c content" and "\<not> databaseAvailable env"
    and "same_rows (st_memory t) (content (st_db s))" and "deleteExam c examId session s = (Inl e, s')"
  shows "deleteExam (c\<lparr>sc_env := env\<rparr>) examId session t = (Inl e, t) \<and> s' = s"
proof (cases "assertSessionCanManageExams session")
  case (Inr u)
  let ?found = "List.find (\<lambda>e. ex_id e = examId) (k_exams (content (st_db s)))"
  from answers(1) obtain x d' where "t_find (sc_exams c) (\<lambda>e. ex_id e = examId) (st_db s) = (Inr x, d')"
    using assms(3) unfolding tables_answer_def by meson
  with good_reads(2) [OF assms(1) this]
  have find: "t_find (sc_exams c) (\<lambda>e. ex_id e = examId) (st_db s) = (Inr ?found, st_db s)" by simp
  let ?update = "t_update (sc_exams c) (\<lambda>e. ex_id e = examId) (ex_status_update (\<lambda>_. DELETED))"
  let ?op = "bindE (t_find (sc_exams c) (\<lambda>e. ex_id e = examId)) (\<lambda>found. bindE (liftR (require_exam session found)) (\<lambda>_. mapped mapExam ?update))"
  show ?thesis
  proof (cases "require_exam session ?found")
    case (Inl e')
    with find have "?op (st_db s) = (Inl e', st_db s)" by (simp add: bindE_def liftR_def)
    from database_result(2) [where s = s and operation = ?op, OF assms(2) this require_exam_Inl [OF Inl]] Inr assms(4,5,6) Inl show ?thesis
      by (simp add: deleteExam_def memory_path bindE_def liftR_def memory_of_def same_rows_def)
  next
    case (Inr exam)
    then have "?found = Some exam" by (simp add: require_exam_Inr)
    with answers(4) [of "sc_exams c" "\<lambda>d. k_exams (content d)"] assms(3) obtain x d where "?update (st_db s) = (Inr x, d)"
      unfolding tables_answer_def by meson
    with find Inr have "?op (st_db s) = (Inr (mapExam x), d)" by (simp add: bindE_def liftR_def mapped_def ret_def)
    from database_result(1) [where s = s and operation = ?op, OF assms(2) this] \<open>assertSessionCanManageExams session = Inr u\<close> assms(6) show ?thesis
      by (simp add: deleteExam_def bindE_def liftR_def)
  qed
qed (use assms(6) in \<open>simp add: deleteExam_def bindE_def liftR_def\<close>)

text \<open>An addition refuses what the check of its exam or question refuses.\<close>

lemma addition_refused_in_both:
  assumes "deployed c" and "answering T rows"
    and "with_fallback (seededDatabase c (bindE asserts (\<lambda>_. t_create T r))) fallback s = (Inl e, s')"
    and "asserts (st_db s) = (check, st_db s)" and "memory_asserts t = (check, t)" and "\<And>e. check = Inl e \<Longrightarrow> is_request_error e"
  shows "bindE memory_asserts continue t = (Inl e, t) \<and> s' = s"
proof (cases check)
  case (Inl e')
  with assms(4) have "bindE asserts (\<lambda>_. t_create T r) (st_db s) = (Inl e', st_db s)" by (simp add: bindE_def)
  from database_result(2) [where s = s and operation = "bindE asserts (\<lambda>_. t_create T r)", OF assms(1) this assms(6) [OF Inl]] assms(3,5) Inl show ?thesis by (simp add: bindE_def)
next
  case (Inr u)
  from answers(3) [OF assms(2)] obtain x d where "t_create T r (st_db s) = (Inr x, d)" by blast
  with assms(4) Inr have "bindE asserts (\<lambda>_. t_create T r) (st_db s) = (Inr x, d)" by (simp add: bindE_def)
  from database_result(1) [where s = s and operation = "bindE asserts (\<lambda>_. t_create T r)", OF assms(1) this] assms(3) show ?thesis by simp
qed

lemma question_refused_in_both:
  assumes "good_tables c content" and "deployed c" and "tables_answer c content" and "\<not> databaseAvailable env"
    and "same_rows (st_memory t) (content (st_db s))" and "addQuestion c examId input session s = (Inl e, s')"
  shows "addQuestion (c\<lparr>sc_env := env\<rparr>) examId input session t = (Inl e, t) \<and> s' = s"
proof (cases "assertSessionCanManageExams session")
  case (Inr u)
  let ?check = "assertMemoryExamExists (st_memory t) examId session"
  have "with_fallback (seededDatabase c (bindE (assertDbExamExists c examId session) (\<lambda>_. t_create (sc_questions c) (new_question c examId input))))
       (bindE (memory_of (\<lambda>m. assertMemoryExamExists m examId session)) (\<lambda>exam.
        bindE (liftR exam) (\<lambda>_.
        bindE (set_memory (mm_questions_update (\<lambda>xs. xs @ [new_question c examId input]))) (\<lambda>_.
        ret (new_question c examId input))))) s = (Inl e, s')"
    using assms(6) Inr by (simp add: addQuestion_def bindE_def liftR_def)
  from addition_refused_in_both [OF assms(2) _ this exam_check_in_both [OF assms(1,3,5)],
      where memory_asserts = "bindE (memory_of (\<lambda>m. assertMemoryExamExists m examId session)) liftR" and t = t and
        continue = "\<lambda>_. bindE (set_memory (mm_questions_update (\<lambda>xs. xs @ [new_question (c\<lparr>sc_env := env\<rparr>) examId input]))) (\<lambda>_.
          ret (new_question (c\<lparr>sc_env := env\<rparr>) examId input))"]
  show ?thesis using assms(3,4) Inr require_exam_Inl
    by (auto simp: addQuestion_def memory_path bindE_def liftR_def memory_of_def tables_answer_def assertMemoryExamExists_def)
qed (use assms(6) in \<open>simp add: addQuestion_def bindE_def liftR_def\<close>)

lemma candidate_refused_in_both:
  assumes "good_tables c content" and "deployed c" and "tables_answer c content" and "\<not> databaseAvailable env"
    and "same_rows (st_memory t) (content (st_db s))" and "addCandidate c examId input session s = (Inl e, s')"
  shows "addCandidate (c\<lparr>sc_env := env\<rparr>) examId input session t = (Inl e, t) \<and> s' = s"
proof (cases "assertSessionCanManageExams session")
  case (Inr u)
  have "with_fallback (seededDatabase c (bindE (assertDbExamExists c examId session) (\<lambda>_. t_create (sc_candidates c) (new_candidate c examId input))))
       (bindE (memory_of (\<lambda>m. assertMemoryExamExists m examId session)) (\<lambda>exam.
        bindE (liftR exam) (\<lambda>_.
        bindE (set_memory (mm_candidates_update (\<lambda>xs. xs @ [new_candidate c examId input]))) (\<lambda>_.
        ret (new_candidate c examId input))))) s = (Inl e, s')"
    using assms(6) Inr by (simp add: addCandidate_def bindE_def liftR_def)
  from addition_refused_in_both [OF assms(2) _ this exam_check_in_both [OF assms(1,3,5)],
      where memory_asserts = "bindE (memory_of (\<lambda>m. assertMemoryExamExists m examId session)) liftR" and t = t and
        continue = "\<lambda>_. bindE (set_memory (mm_candidates_update (\<lambda>xs. xs @ [new_candidate (c\<lparr>sc_env := env\<rparr>) examId input]))) (\<lambda>_.
          ret (new_candidate (c\<lparr>sc_env := env\<rparr>) examId input))"]
  show ?thesis using assms(3,4) Inr require_exam_Inl
    by (auto simp: addCandidate_def memory_path bindE_def liftR_def memory_of_def tables_answer_def assertMemoryExamExists_def)
qed (use assms(6) in \<open>simp add: addCandidate_def bindE_def liftR_def\<close>)

lemma test_case_refused_in_both:
  assumes "good_tables c content" and "deployed c" and "tables_answer c content" and "\<not> databaseAvailable env"
    and "same_rows (st_memory t) (content (st_db s))" and "addTestCase c questionId input session s = (Inl e, s')"
  shows "addTestCase (c\<lparr>sc_env := env\<rparr>) questionId input session t = (Inl e, t) \<and> s' = s"
proof (cases "assertSessionCanManageExams session")
  case (Inr u)
  let ?check = "case List.find (\<lambda>q. q_id q = questionId) (mm_questions (st_memory t)) of None \<Rightarrow> Inl (NotFound ''Question not found'')
    | Some q \<Rightarrow> assertMemoryExamExists (st_memory t) (q_examId q) session"
  let ?asserts = "bindE (memory_of (\<lambda>m. List.find (\<lambda>q. q_id q = questionId) (mm_questions m))) (\<lambda>found. case found of
          None \<Rightarrow> throwE (NotFound ''Question not found'')
        | Some question \<Rightarrow> bindE (memory_of (\<lambda>m. assertMemoryExamExists m (q_examId question) session)) liftR)"
  from answers(1) obtain x d' where "t_find (sc_questions c) (\<lambda>q. q_id q = questionId) (st_db s) = (Inr x, d')"
    using assms(3) unfolding tables_answer_def by meson
  with store_part.find_InrD [OF good_questions [OF assms(1)] this] assms(5)
  have "t_find (sc_questions c) (\<lambda>q. q_id q = questionId) (st_db s) =
      (Inr (List.find (\<lambda>q. q_id q = questionId) (mm_questions (st_memory t))), st_db s)" by (simp add: same_rows_def)
  then have check: "assertDbQuestionExists c questionId session (st_db s) = (?check, st_db s)"
    by (simp add: assertDbQuestionExists_def bindE_def throwE_def exam_check_in_both [OF assms(1,3,5)] split: option.split)
  have memory: "?asserts t = (?check, t)"
    by (simp add: bindE_def memory_of_def liftR_def throwE_def split: option.split)
  have refusal: "is_request_error e'" if "?check = Inl e'" for e'
    using that require_exam_Inl by (auto simp: assertMemoryExamExists_def is_request_error_def split: option.splits)
  obtain fallback where "with_fallback
      (seededDatabase c (bindE (assertDbQuestionExists c questionId session) (\<lambda>_. t_create (sc_testCases c) (new_test_case c questionId input))))
      fallback s = (Inl e, s')"
    using assms(6) Inr by (simp add: addTestCase_def bindE_def liftR_def)
  from addition_refused_in_both [where s = s and t = t and asserts = "assertDbQuestionExists c questionId session" and check = ?check and
        memory_asserts = ?asserts and rows = "\<lambda>d. k_testCases (content d)" and continue = "\<lambda>_. bindE (set_memory (mm_testCases_update (\<lambda>xs. xs @ [new_test_case (c\<lparr>sc_env := env\<rparr>) questionId input]))) (\<lambda>_.
          ret (new_test_case (c\<lparr>sc_env := env\<rparr>) questionId input))", OF assms(2) _ this check memory refusal]
  show ?thesis using assms(3,4) Inr
    by (auto simp: addTestCase_def memory_path bindE_def liftR_def memory_of_def throwE_def tables_answer_def split: option.splits sum.splits)
qed (use assms(6) in \<open>simp add: addTestCase_def bindE_def liftR_def\<close>)

section \<open>What the two implementations share\<close>

lemma answered_in_both:
  assumes "good_tables (api_store a) content" and "deployed (api_store a)" and "\<not> databaseAvailable env" and "is_twofold request"
    and "same_rows (st_memory t) (content (st_db s))" and "distinct (map ex_id (mm_exams (st_memory t)))"
    and "admin_operation a request session s = (Inr answer, s')"
  shows "\<exists>t'. admin_operation (without_database env a) request session t = (Inr answer, t') \<and>
    same_rows (st_memory t') (content (st_db s'))"
proof -
  note both = assms(1-3,5)
  note ok = assms(7)
  show ?thesis
  proof (cases request)
    case ListExams
    with ok obtain xs where "listExams (api_store a) session s = (Inr xs, s')" "answer = ExamsAnswer xs"
      by (auto simp: admin_operation_def Let_def mapped_eq_Inr)
    with listed_in_both [OF both this(1)] assms(5) ListExams show ?thesis
      by (simp add: admin_operation_def without_database_def Let_def mapped_eq_Inr)
  next
    case (DeleteExam examId)
    with ok obtain e where "deleteExam (api_store a) examId session s = (Inr e, s')" "answer = ExamAnswer e"
      by (auto simp: admin_operation_def Let_def mapped_eq_Inr)
    with deleted_in_both [OF both assms(6) this(1)] DeleteExam show ?thesis
      by (auto simp: admin_operation_def without_database_def Let_def mapped_eq_Inr)
  next
    case (AddQuestion examId body)
    with ok obtain q where "addQuestion (api_store a) examId body session s = (Inr q, s')" "answer = QuestionAnswer q"
      by (auto simp: admin_operation_def Let_def mapped_eq_Inr)
    with question_added_in_both [OF both this(1)] AddQuestion show ?thesis
      by (auto simp: admin_operation_def without_database_def Let_def mapped_eq_Inr)
  next
    case (AddTestCase questionId body)
    with ok obtain q where "addTestCase (api_store a) questionId body session s = (Inr q, s')" "answer = TestCaseAnswer q"
      by (auto simp: admin_operation_def Let_def mapped_eq_Inr)
    with test_case_added_in_both [OF both this(1)] AddTestCase show ?thesis
      by (auto simp: admin_operation_def without_database_def Let_def mapped_eq_Inr)
  next
    case (AddCandidate examId body)
    with ok obtain q where "addCandidate (api_store a) examId body session s = (Inr q, s')" "answer = CandidateAnswer q"
      by (auto simp: admin_operation_def Let_def mapped_eq_Inr)
    with candidate_added_in_both [OF both this(1)] AddCandidate show ?thesis
      by (auto simp: admin_operation_def without_database_def Let_def mapped_eq_Inr)
  qed (use assms(4) in \<open>simp_all add: is_twofold_def\<close>)
qed

lemma mapped_eq_Inl: "mapped f m s = (Inl e, t) \<longleftrightarrow> m s = (Inl e, t)"
  by (auto simp: mapped_def bindE_def ret_def split: prod.splits sum.splits)

lemma refused_in_both:
  assumes "good_tables (api_store a) content" and "deployed (api_store a)" and "tables_answer (api_store a) content"
    and "\<not> databaseAvailable env" and "is_twofold request" and "same_rows (st_memory t) (content (st_db s))"
    and "admin_operation a request session s = (Inl e, s')"
  shows "admin_operation (without_database env a) request session t = (Inl e, t) \<and> s' = s"
proof -
  note both = assms(1-4,6)
  show ?thesis
  proof (cases request)
    case ListExams
    with assms(7) listing_refused_in_both [OF assms(2,3)] show ?thesis
      by (simp add: admin_operation_def without_database_def Let_def mapped_eq_Inl)
  next
    case (DeleteExam examId)
    with assms(7) deletion_refused_in_both [OF both] show ?thesis
      by (simp add: admin_operation_def without_database_def Let_def mapped_eq_Inl)
  next
    case (AddQuestion examId body)
    with assms(7) question_refused_in_both [OF both] show ?thesis
      by (simp add: admin_operation_def without_database_def Let_def mapped_eq_Inl)
  next
    case (AddTestCase questionId body)
    with assms(7) test_case_refused_in_both [OF both] show ?thesis
      by (simp add: admin_operation_def without_database_def Let_def mapped_eq_Inl)
  next
    case (AddCandidate examId body)
    with assms(7) candidate_refused_in_both [OF both] show ?thesis
      by (simp add: admin_operation_def without_database_def Let_def mapped_eq_Inl)
  qed (use assms(5) in \<open>simp_all add: is_twofold_def\<close>)
qed

text \<open>C20. A server without a database, whose lists hold the rows of a deployment, answers like it: where the database lists the
  exams, deletes one, or adds a question, a test case or a candidate, the lists give the same answer and hold the same rows
  afterwards; and where the deployment refuses, with tables that answer, the lists refuse with the same error and stay as they
  are. So neither allows what the other does not.\<close>

theorem memory_answers_like_the_database:
  assumes "good_tables (api_store a) content" and "deployed (api_store a)" and "\<not> databaseAvailable env" and "is_twofold request"
    and "same_rows (st_memory t) (content (st_db s))" and "distinct (map ex_id (mm_exams (st_memory t)))"
    and "admin_operation a request session s = (result, s')" and "isl result \<longrightarrow> tables_answer (api_store a) content"
  shows "\<exists>t'. admin_operation (without_database env a) request session t = (result, t') \<and>
    same_rows (st_memory t') (content (st_db s')) \<and> (isl result \<longrightarrow> t' = t \<and> s' = s)"
proof (cases result)
  case (Inl e)
  then have "tables_answer (api_store a) content" using assms(8) by simp
  from refused_in_both [OF assms(1,2) this assms(3-5) assms(7) [unfolded Inl]] assms(5) Inl show ?thesis by simp
next
  case (Inr answer)
  from answered_in_both [OF assms(1-6) assms(7) [unfolded Inr]] Inr show ?thesis by simp
qed

section \<open>Witness\<close>

definition sample_lists :: "(database \<times> contents) store" where
  "sample_lists = \<lparr>st_db = (sample_db, empty_contents), st_memory = empty_memory\<lparr>mm_exams := k_exams exam_contents\<rparr>, st_databaseUnavailable = False\<rparr>"

lemma whole_deployed: "deployed (whole_ctx now)"
proof -
  have "ret () = ensurePlatformSeedData (whole_ctx now) state" for state
    by (simp add: ensurePlatformSeedData_def)
  then show ?thesis by (auto simp: deployed_def)
qed

lemma memory_answers_like_the_database_witness:
  "\<exists>exam t'. admin_operation (without_database (\<lambda>_. None) (whole_api 2000)) (DeleteExam ''e1'') sample_manager sample_lists = (Inr (ExamAnswer exam), t') \<and>
     ex_status exam = DELETED \<and> map ex_status (mm_exams (st_memory t')) = [DELETED, SCHEDULED]"
proof -
  let ?s = "\<lparr>st_db = (sample_db, exam_contents), st_memory = empty_memory, st_databaseUnavailable = False\<rparr>"
  let ?gone = "exam_contents\<lparr>k_exams := [sample_exam\<lparr>ex_status := DELETED\<rparr>, sample_exam\<lparr>ex_id := ''e2'', ex_organizationId := ''o2''\<rparr>]\<rparr>"
  have "deleteExam (whole_ctx 2000) ''e1'' sample_manager ?s = (Inr (sample_exam\<lparr>ex_status := DELETED\<rparr>), ?s\<lparr>st_db := (sample_db, ?gone)\<rparr>)"
    by (simp add: deleteExam_def assertSessionCanManageExams_def exam_contents_def require_exam_def
        assertSessionCanAccessExam_def with_fallback_def seededDatabase_def storeDatabase_def storeOperation_def catchE_def bindE_def
        on_database_def ret_def throwE_def liftR_def replace_where_def)
  then have run: "admin_operation (whole_api 2000) (DeleteExam ''e1'') sample_manager ?s =
      (Inr (ExamAnswer (sample_exam\<lparr>ex_status := DELETED\<rparr>)), ?s\<lparr>st_db := (sample_db, ?gone)\<rparr>)"
    by (simp add: admin_operation_def mapped_eq_Inr)
  have same: "same_rows (st_memory sample_lists) (snd (st_db ?s))" "distinct (map ex_id (mm_exams (st_memory sample_lists)))"
    by (simp_all add: same_rows_def sample_lists_def exam_contents_def empty_contents_def empty_memory_def)
  obtain t' where "admin_operation (without_database (\<lambda>_. None) (whole_api 2000)) (DeleteExam ''e1'') sample_manager sample_lists =
      (Inr (ExamAnswer (sample_exam\<lparr>ex_status := DELETED\<rparr>)), t')" "same_rows (st_memory t') ?gone"
    using memory_answers_like_the_database [of "whole_api 2000" snd "\<lambda>_. None" "DeleteExam ''e1''" sample_lists, OF _ _ _ _ same run] good_whole [of 2000] whole_deployed [of 2000]
    by (auto simp: databaseAvailable_def is_twofold_def)
  then show ?thesis by (auto simp: same_rows_def)
qed

end
