(* ===== verification/BoundedRead.thy ===== *)
theory BoundedRead
  imports TransportPolicy
begin

text \<open>
  The reading loop of \<open>outbound-http-security.ts\<close> over the reader itself: \<open>for (;;)\<close> reads until the body is done or passes
  the limit, and a peer decides how many chunks it sends. The loop is a partial function, so that a read that never ends is
  the value \<open>None\<close>.
\<close>

text \<open>The n-th call of \<open>reader.read()\<close>: a chunk, or \<open>None\<close> when it is \<open>done\<close>. The loop returns the number of its reads too.\<close>

type_synonym reader = "nat \<Rightarrow> string option"

partial_function (option) read_stream :: "nat \<Rightarrow> reader \<Rightarrow> nat \<Rightarrow> nat \<Rightarrow> string \<Rightarrow> (string res \<times> nat) option" where
  "read_stream limitBytes body reads receivedBytes result =
     (case body reads of
        None \<Rightarrow> Some (Inr result, Suc reads)
      | Some chunk \<Rightarrow>
          if limitBytes < receivedBytes + length chunk then Some (Inl (OtherError ''outbound response too large''), Suc reads)
          else read_stream limitBytes body (Suc reads) (receivedBytes + length chunk) (result @ chunk))"

definition received_text :: "reader \<Rightarrow> nat \<Rightarrow> string" where
  "received_text body n = concat (map (\<lambda>i. case body i of Some chunk \<Rightarrow> chunk | None \<Rightarrow> []) [0..<n])"

text \<open>A body that is received as a list is read as \<open>read_chunks\<close> reads it.\<close>

definition reader_of :: "string list \<Rightarrow> reader" where
  "reader_of chunks = (\<lambda>i. if i < length chunks then Some (chunks ! i) else None)"

text \<open>The loop stops at the n-th read.\<close>

definition stops_at :: "nat \<Rightarrow> reader \<Rightarrow> nat \<Rightarrow> bool" where
  "stops_at limitBytes body n \<longleftrightarrow> body n = None \<or> limitBytes < length (received_text body (Suc n))"

lemma received_text_Suc: "received_text body (Suc n) = received_text body n @ (case body n of Some chunk \<Rightarrow> chunk | None \<Rightarrow> [])"
  by (simp add: received_text_def)

lemma read_stream_step:
  assumes "\<not> stops_at limitBytes body n"
  shows "read_stream limitBytes body n (length (received_text body n)) (received_text body n) =
    read_stream limitBytes body (Suc n) (length (received_text body (Suc n))) (received_text body (Suc n))"
  using assms by (subst read_stream.simps) (auto simp: stops_at_def received_text_Suc)

lemma read_stream_stop:
  assumes "stops_at limitBytes body n"
  shows "read_stream limitBytes body n (length (received_text body n)) (received_text body n) =
    Some (case body n of None \<Rightarrow> Inr (received_text body n) | Some _ \<Rightarrow> Inl (OtherError ''outbound response too large''), Suc n)"
  using assms by (subst read_stream.simps) (auto simp: stops_at_def received_text_Suc split: option.splits)

lemma read_stream_runs:
  assumes "stops_at limitBytes body n" and "\<And>i. i < n \<Longrightarrow> \<not> stops_at limitBytes body i"
  shows "read_stream limitBytes body 0 0 [] =
    Some (case body n of None \<Rightarrow> Inr (received_text body n) | Some _ \<Rightarrow> Inl (OtherError ''outbound response too large''), Suc n)"
proof -
  have "read_stream limitBytes body 0 0 [] = read_stream limitBytes body i (length (received_text body i)) (received_text body i)"
    if "i \<le> n" for i
    using that
  proof (induction i)
    case 0
    show ?case by (simp add: received_text_def)
  next
    case (Suc i)
    then show ?case using read_stream_step [OF assms(2) [of i]] by simp
  qed
  from this [of n] read_stream_stop [OF assms(1)] show ?thesis by simp
qed

lemma read_stream_stops:
  assumes "read_stream limitBytes body reads receivedBytes result = Some out"
  shows "receivedBytes = length (received_text body reads) \<longrightarrow> (\<exists>n. stops_at limitBytes body n)"
proof (rule read_stream.raw_induct [OF _ assms])
  fix loop :: "nat \<Rightarrow> reader \<Rightarrow> nat \<Rightarrow> nat \<Rightarrow> string \<Rightarrow> (string res \<times> nat) option" and l body n received result out
  assume rest: "\<And>l body n received result out. loop l body n received result = Some out \<Longrightarrow>
      received = length (received_text body n) \<longrightarrow> (\<exists>n. stops_at l body n)"
    and step: "(case body n of None \<Rightarrow> Some (Inr result, Suc n)
      | Some chunk \<Rightarrow> if l < received + length chunk then Some (Inl (OtherError ''outbound response too large''), Suc n)
          else loop l body (Suc n) (received + length chunk) (result @ chunk)) = Some out"
  show "received = length (received_text body n) \<longrightarrow> (\<exists>n. stops_at l body n)"
  proof (cases "stops_at l body n")
    case False
    then obtain chunk where chunk: "body n = Some chunk" by (auto simp: stops_at_def)
    with False step rest [of l body "Suc n" "received + length chunk" "result @ chunk" out] show ?thesis
      by (auto simp: stops_at_def received_text_Suc split: if_splits)
  qed blast
qed

lemma every_chunk_counts:
  assumes "\<forall>i. body i \<noteq> Some []" and "\<forall>i < n. body i \<noteq> None"
  shows "n \<le> length (received_text body n)"
  using assms(2)
proof (induction n)
  case (Suc n)
  then obtain c cs where "body n = Some (c # cs)" using assms(1) by (metis lessI list.exhaust option.exhaust)
  then show ?case using Suc by (simp add: received_text_Suc)
qed simp

lemma first_stop:
  assumes "\<exists>n. stops_at limitBytes body n"
  obtains n where "stops_at limitBytes body n" and "\<And>i. i < n \<Longrightarrow> \<not> stops_at limitBytes body i"
  using assms that [of "LEAST n. stops_at limitBytes body n"] LeastI_ex [of "stops_at limitBytes body"] not_less_Least by blast

lemma read_stream_ends:
  "(\<exists>out. read_stream limitBytes body 0 0 [] = Some out) \<longleftrightarrow> (\<exists>n. stops_at limitBytes body n)"
proof
  assume "\<exists>out. read_stream limitBytes body 0 0 [] = Some out"
  then show "\<exists>n. stops_at limitBytes body n"
    using read_stream_stops [of limitBytes body 0 0 "[]"] by (auto simp: received_text_def)
next
  assume "\<exists>n. stops_at limitBytes body n"
  from first_stop [OF this] obtain n where "stops_at limitBytes body n" "\<And>i. i < n \<Longrightarrow> \<not> stops_at limitBytes body i" by blast
  from read_stream_runs [OF this] show "\<exists>out. read_stream limitBytes body 0 0 [] = Some out" by blast
qed

lemma received_reader_of: "n \<le> length chunks \<Longrightarrow> received_text (reader_of chunks) n = concat (take n chunks)"
  by (induction n) (simp_all add: received_text_Suc received_text_def reader_of_def take_Suc_conv_app_nth)

lemma read_stream_list: "\<exists>n. read_stream limitBytes (reader_of chunks) 0 0 [] = Some (fst (read_chunks limitBytes 0 [] chunks), n)"
proof -
  have "stops_at limitBytes (reader_of chunks) (length chunks)" by (simp add: stops_at_def reader_of_def)
  from first_stop [of limitBytes "reader_of chunks"] this obtain n where
    n: "stops_at limitBytes (reader_of chunks) n" "\<And>i. i < n \<Longrightarrow> \<not> stops_at limitBytes (reader_of chunks) i" by blast
  have le: "n \<le> length chunks" using n(2) [of "length chunks"] by (force simp: stops_at_def reader_of_def)
  show ?thesis
  proof (cases "n = length chunks")
    case True
    have "length (concat chunks) \<le> limitBytes"
    proof (cases n)
      case (Suc i)
      with n(2) [of i] True received_reader_of [of n chunks] show ?thesis by (simp add: stops_at_def)
    qed (use True in simp)
    with True read_stream_runs [OF n] read_chunks_spec [of 0 limitBytes "[]" chunks] received_reader_of [of n chunks]
    show ?thesis by (simp add: reader_of_def)
  next
    case False
    with le n(1) have "limitBytes < length (concat (take (Suc n) chunks))"
      using received_reader_of [of "Suc n" chunks] by (simp add: stops_at_def reader_of_def)
    moreover have "length (concat (take (Suc n) chunks)) \<le> length (concat chunks)"
      by (metis append_take_drop_id concat_append le_add1 length_append)
    ultimately show ?thesis using False le read_stream_runs [OF n] read_chunks_spec [of 0 limitBytes "[]" chunks]
      by (simp add: reader_of_def)
  qed
qed

section \<open>What the reader promises\<close>

text \<open>The reading loop ends: a peer whose chunks are not empty cannot hold it longer than one read more than the limit
  has bytes, even with a body that never ends; a text it returns is the whole body, within the limit, and it fails only
  after it received more than the limit.\<close>

theorem bounded_reading_ends:
  assumes "\<forall>i. body i \<noteq> Some []"
  shows "\<exists>out reads. read_stream limitBytes body 0 0 [] = Some (out, reads) \<and> reads \<le> limitBytes + 1 \<and>
    (case out of Inr text \<Rightarrow> body (reads - 1) = None \<and> text = received_text body (reads - 1) \<and> length text \<le> limitBytes
     | Inl _ \<Rightarrow> limitBytes < length (received_text body reads))"
proof -
  have "\<exists>n. stops_at limitBytes body n"
  proof (rule ccontr)
    assume "\<nexists>n. stops_at limitBytes body n"
    then have never: "body i \<noteq> None" "\<not> limitBytes < length (received_text body (Suc i))" for i
      by (simp_all add: stops_at_def)
    have "limitBytes < length (received_text body (Suc limitBytes))"
      using every_chunk_counts [OF assms, of "Suc limitBytes"] never(1) by simp
    with never(2) [of limitBytes] show False by contradiction
  qed
  from first_stop [OF this] obtain n where n: "stops_at limitBytes body n" "\<And>i. i < n \<Longrightarrow> \<not> stops_at limitBytes body i" by blast
  have before: "length (received_text body n) \<le> limitBytes"
  proof (cases n)
    case (Suc i)
    with n(2) [of i] show ?thesis by (simp add: stops_at_def)
  qed (simp add: received_text_def)
  moreover have "n \<le> limitBytes"
    using every_chunk_counts [OF assms, of n] n(2) before by (simp add: stops_at_def)
  ultimately show ?thesis using read_stream_runs [OF n] n(1)
    by (cases "body n") (auto simp: stops_at_def)
qed

section \<open>Witness\<close>

text \<open>A body that never ends: one byte for every read.\<close>

lemma bounded_reading_ends_witness:
  "\<exists>out reads. read_stream 3 (\<lambda>_. Some ''a'') 0 0 [] = Some (out, reads) \<and> reads \<le> 4 \<and> isl out"
proof -
  have "\<forall>i :: nat. Some ''a'' \<noteq> Some []" by simp
  from bounded_reading_ends [OF this, of 3] obtain out reads where
    "read_stream 3 (\<lambda>_. Some ''a'') 0 0 [] = Some (out, reads)" "reads \<le> 3 + 1"
    "case out of Inr text \<Rightarrow> Some ''a'' = None \<and> text = received_text (\<lambda>_. Some ''a'') (reads - 1) \<and> length text \<le> 3
      | Inl _ \<Rightarrow> 3 < length (received_text (\<lambda>_. Some ''a'') reads)" by blast
  then show ?thesis by (cases out) simp_all
qed

text \<open>A peer that sends empty chunks for ever holds the loop: nothing but the abort signal of the request ends it.\<close>

lemma empty_chunks_hold_the_reader: "read_stream limitBytes (\<lambda>_. Some []) 0 0 [] = None"
proof -
  have "received_text (\<lambda>_. Some []) n = []" for n by (simp add: received_text_def)
  then have "\<nexists>n. stops_at limitBytes (\<lambda>_. Some []) n" by (simp add: stops_at_def)
  with read_stream_ends [of limitBytes "\<lambda>_. Some []"] show ?thesis by (cases "read_stream limitBytes (\<lambda>_. Some []) 0 0 []") auto
qed

end
