(* ===== verification/PageMachine.thy ===== *)
theory PageMachine
  imports Base
begin

text \<open>
  A page or hook of the web client as a machine: a step for every event gives the next state and the requests that leave the page. The
  locales carry an invariant, and the silence of a page that was left, from the steps to the runs.
\<close>

fun run_page :: "('e \<Rightarrow> 's \<Rightarrow> 's \<times> 'r list) \<Rightarrow> 'e list \<Rightarrow> 's \<Rightarrow> 's \<times> 'r list" where
  "run_page step [] s = (s, [])"
| "run_page step (e # es) s = (let (s1, rs1) = step e s; (s2, rs2) = run_page step es s1 in (s2, rs1 @ rs2))"

lemma run_page_Cons:
  "fst (run_page step (e # es) s) = fst (run_page step es (fst (step e s)))"
  "snd (run_page step (e # es) s) = snd (step e s) @ snd (run_page step es (fst (step e s)))"
  by (simp_all add: case_prod_beta Let_def)

locale page_machine =
  fixes step :: "'e \<Rightarrow> 's \<Rightarrow> 's \<times> 'r list" and inv :: "'s \<Rightarrow> bool"
  assumes step_keeps: "inv s \<Longrightarrow> inv (fst (step e s))"
begin

lemma run_keeps: "inv s \<Longrightarrow> inv (fst (run_page step es s))"
  by (induction es arbitrary: s) (simp_all only: run_page_Cons step_keeps, simp)

text \<open>Whatever leaves the page leaves it in a step from a state with the invariant.\<close>

lemma request_step: "inv s \<Longrightarrow> r \<in> set (snd (run_page step es s)) \<Longrightarrow> \<exists>s' e. inv s' \<and> r \<in> set (snd (step e s'))"
proof (induction es arbitrary: s)
  case (Cons e es)
  have "r \<in> set (snd (step e s)) \<or> r \<in> set (snd (run_page step es (fst (step e s))))"
    using Cons.prems(2) by (simp only: run_page_Cons set_append Un_iff)
  then show ?case using Cons.IH [OF step_keeps [OF Cons.prems(1)]] Cons.prems(1) by blast
qed simp

end

locale silent_page = page_machine step inv for step :: "'e \<Rightarrow> 's \<Rightarrow> 's \<times> 'r list" and inv +
  assumes step_is_silent: "inv s \<Longrightarrow> snd (step e s) = []"
begin

lemma run_is_silent: "inv s \<Longrightarrow> snd (run_page step es s) = []"
  by (induction es arbitrary: s) (simp_all only: run_page_Cons step_keeps step_is_silent, simp_all)

end

end
