(* ===== verification/ExamClient.thy ===== *)
theory ExamClient
  imports Execution PageMachine
begin

text \<open>
  The exam page of a candidate (\<open>CandidateExamWorkspace.tsx\<close>, \<open>candidateExamConfig.ts\<close>): the state of the component, one function
  for every effect, and one for every event. An event is modelled with the effects it triggers, in the order of the
  component, so the state after it is the one React has settled in; what the page sends to the server is a list of requests.
  The clock of the page is the argument \<open>now\<close>.
\<close>

section \<open>Configuration\<close>

record runnable_language =
  rl_label :: string
  rl_value :: string
  rl_aliases :: "string list"

definition runnableLanguages :: "runnable_language list" where
  "runnableLanguages = [
     \<lparr>rl_label = ''JavaScript'', rl_value = ''javascript'', rl_aliases = [''javascript'', ''js'']\<rparr>,
     \<lparr>rl_label = ''Python'', rl_value = ''python'', rl_aliases = [''python'', ''py'']\<rparr>]"

definition starterCode :: string where
  "starterCode = ''function solution(input) {'' @ [CHR 0x0A] @ ''  // Write your answer here.'' @ [CHR 0x0A] @ ''  return input;'' @ [CHR 0x0A] @ ''}''"

definition padStart2 :: "string \<Rightarrow> string" where
  "padStart2 s = replicate (2 - length s) CHR ''0'' @ s"

definition formatDuration :: "int option \<Rightarrow> string" where
  "formatDuration seconds = (case seconds of None \<Rightarrow> ''--:--''
     | Some s \<Rightarrow> padStart2 (int_text (s div 60)) @ '':'' @ padStart2 (int_text (s mod 60)))"

text \<open>The languages of the exam that the page can run, or all of them.\<close>

definition selectableLanguages :: "string list \<Rightarrow> runnable_language list" where
  "selectableLanguages languages =
     (let enabled = filter (\<lambda>item. list_ex (\<lambda>examLanguage. toLowerCase examLanguage \<in> set (rl_aliases item)) languages) runnableLanguages
      in if enabled \<noteq> [] then enabled else runnableLanguages)"

section \<open>The page\<close>

text \<open>\<open>pg_timer\<close> is the running interval with the values it captured; \<open>pg_save\<close> is the pending \<open>setTimeout\<close> of the draft.\<close>

record page_timer =
  pt_offset :: int
  pt_endsAt :: time
  pt_latest :: "action_type option"

record pending_save =
  ps_due :: time
  ps_draft :: code_draft_input

record exam_page =
  pg_data :: "candidate_workspace option"
  pg_question :: string
  pg_language :: string
  pg_code :: string
  pg_remaining :: "int option"
  pg_locked :: bool
  pg_timer :: "page_timer option"
  pg_save :: "pending_save option"
  pg_running :: bool
  pg_submitting :: bool
  pg_timeoutSubmitted :: bool
  pg_events :: "event_type \<Rightarrow> time"

datatype page_request = SaveDraftRequest code_draft_input | SubmitRequest code_submit_input | RunRequest code_run_input
  | EventRequest event_type

definition initial_page :: exam_page where
  "initial_page = \<lparr>pg_data = None, pg_question = [], pg_language = ''javascript'', pg_code = starterCode, pg_remaining = None,
     pg_locked = False, pg_timer = None, pg_save = None, pg_running = False, pg_submitting = False, pg_timeoutSubmitted = False, pg_events = (\<lambda>_. 0)\<rparr>"

section \<open>Effects\<close>

text \<open>
  React runs the effects of a render in order, every one with the values of that render (\<open>shown\<close>), and collects what they set for
  the next one (\<open>n\<close>). An effect runs again when a value it depends on differs from the render before. The first two effects
  need no such test: they set nothing when their condition was already met.
\<close>

definition is_stop :: "action_type option \<Rightarrow> bool" where
  "is_stop latest \<longleftrightarrow> latest = Some PAUSE_EXAM \<or> latest = Some TERMINATE_EXAM"

definition select_question :: "exam_page \<Rightarrow> exam_page \<Rightarrow> exam_page" where
  "select_question shown n = (case pg_data shown of
       Some w \<Rightarrow> (case ci_questions w of q # _ \<Rightarrow> if pg_question shown = [] then n\<lparr>pg_question := q_id q\<rparr> else n | [] \<Rightarrow> n)
     | None \<Rightarrow> n)"

definition is_selectable :: "candidate_workspace \<Rightarrow> string \<Rightarrow> bool" where
  "is_selectable w language \<longleftrightarrow> list_ex (\<lambda>item. rl_value item = language) (selectableLanguages (ex_languages (ci_exam w)))"

definition select_language :: "exam_page \<Rightarrow> exam_page \<Rightarrow> exam_page" where
  "select_language shown n = (case pg_data shown of
       Some w \<Rightarrow> if is_selectable w (pg_language shown) then n
         else n\<lparr>pg_language := rl_value (hd (selectableLanguages (ex_languages (ci_exam w))))\<rparr>
     | None \<Rightarrow> n)"

text \<open>\<open>updateRemaining\<close>, with the values the interval captured.\<close>

definition updateRemaining :: "time \<Rightarrow> page_timer \<Rightarrow> exam_page \<Rightarrow> exam_page" where
  "updateRemaining now timer n =
     (let serverNow = now + pt_offset timer; remainingSeconds = max 0 ((pt_endsAt timer - serverNow) div 1000)
      in n\<lparr>pg_remaining := Some remainingSeconds, pg_locked := is_stop (pt_latest timer) \<or> remainingSeconds = 0\<rparr>)"

definition start_clock :: "time \<Rightarrow> exam_page \<Rightarrow> exam_page \<Rightarrow> exam_page" where
  "start_clock now shown n = (case pg_data shown of
       None \<Rightarrow> n
     | Some w \<Rightarrow>
         (let latest = map_option pa_type (head_opt (cw_proctorActions w))
          in if is_stop latest then n\<lparr>pg_timer := None, pg_locked := True\<rparr>
             else (let timer = \<lparr>pt_offset = xs_serverNow (cw_examSession w) - now, pt_endsAt = xs_endsAt (cw_examSession w), pt_latest = latest\<rparr>
                   in updateRemaining now timer (n\<lparr>pg_timer := Some timer, pg_locked := (if latest = Some RESUME_EXAM then False else pg_locked n)\<rparr>))))"

definition server_draft :: "candidate_workspace \<Rightarrow> string \<Rightarrow> string \<Rightarrow> code_draft option" where
  "server_draft w questionId language = List.find (\<lambda>d. cd_questionId d = questionId \<and> cd_language d = language) (cw_drafts w)"

definition loaded_code :: "candidate_workspace \<Rightarrow> string \<Rightarrow> string \<Rightarrow> string" where
  "loaded_code w questionId language = (case server_draft w questionId language of Some d \<Rightarrow> cd_code d | None \<Rightarrow> starterCode)"

definition load_draft :: "exam_page \<Rightarrow> exam_page \<Rightarrow> exam_page" where
  "load_draft shown n = (case pg_data shown of
       Some w \<Rightarrow> if pg_question shown = [] then n else n\<lparr>pg_code := loaded_code w (pg_question shown) (pg_language shown)\<rparr>
     | None \<Rightarrow> n)"

definition draft_of :: "exam_page \<Rightarrow> code_draft_input" where
  "draft_of p = \<lparr>cdi_questionId = pg_question p, cdi_language = pg_language p, cdi_code = pg_code p\<rparr>"

text \<open>The effect that saves depends on the code, the lock, the language and the question.\<close>

definition schedule_save :: "time \<Rightarrow> exam_page \<Rightarrow> exam_page \<Rightarrow> exam_page \<Rightarrow> exam_page" where
  "schedule_save now before shown n =
     (if draft_of shown = draft_of before \<and> pg_locked shown = pg_locked before then n
      else n\<lparr>pg_save := (if pg_question shown = [] \<or> pg_locked shown then None else Some \<lparr>ps_due = now + 600, ps_draft = draft_of shown\<rparr>)\<rparr>)"

definition submission_of :: "exam_page \<Rightarrow> code_submit_input" where
  "submission_of p = \<lparr>csi_questionId = pg_question p, csi_language = pg_language p, csi_code = pg_code p\<rparr>"

definition timed_out :: "exam_page \<Rightarrow> bool" where
  "timed_out p \<longleftrightarrow> pg_remaining p = Some 0 \<and> \<not> pg_timeoutSubmitted p \<and> pg_question p \<noteq> [] \<and> \<not> pg_submitting p"

definition submit_at_timeout :: "exam_page \<Rightarrow> exam_page \<Rightarrow> exam_page \<times> page_request list" where
  "submit_at_timeout shown n =
     (if timed_out shown then (n\<lparr>pg_timeoutSubmitted := True, pg_submitting := True\<rparr>, [SubmitRequest (submission_of shown)]) else (n, []))"

text \<open>The effects of one render; \<open>fetched\<close> says that the workspace is not the one of the render before.\<close>

definition run_effects :: "time \<Rightarrow> bool \<Rightarrow> exam_page \<Rightarrow> exam_page \<Rightarrow> exam_page \<times> page_request list" where
  "run_effects now fetched before shown =
     (let n1 = select_language shown (select_question shown shown);
          n2 = (if fetched then start_clock now shown n1 else n1);
          n3 = (if fetched \<or> pg_language shown \<noteq> pg_language before \<or> pg_question shown \<noteq> pg_question before then load_draft shown n2 else n2)
      in submit_at_timeout shown (schedule_save now before shown n3))"

text \<open>What the effects can change of what the page renders; the page is rendered again while it does.\<close>

definition rendered :: "exam_page \<Rightarrow> string \<times> string \<times> string \<times> int option \<times> bool \<times> bool" where
  "rendered p = (pg_question p, pg_language p, pg_code p, pg_remaining p, pg_locked p, pg_submitting p)"

fun settle :: "nat \<Rightarrow> time \<Rightarrow> bool \<Rightarrow> exam_page \<Rightarrow> exam_page \<Rightarrow> exam_page \<times> page_request list" where
  "settle 0 now fetched before shown = (shown, [])"
| "settle (Suc k) now fetched before shown =
     (let (n, rs) = run_effects now fetched before shown
      in if rendered n = rendered shown then (n, rs)
         else (let (m, rs') = settle k now False shown n in (m, rs @ rs')))"

section \<open>Events\<close>

datatype page_event =
    Fetched candidate_workspace | Typed string | QuestionChosen string | LanguageChosen string | ClockTick | SaveTick
  | RunClicked | RunAnswered | SubmitClicked | SubmitAnswered | Noticed event_type

text \<open>\<open>logEvent\<close>: one of a kind in three seconds.\<close>

definition logEvent :: "time \<Rightarrow> event_type \<Rightarrow> exam_page \<Rightarrow> exam_page \<times> page_request list" where
  "logEvent now type p =
     (if now - pg_events p type < 3000 then (p, [])
      else (p\<lparr>pg_events := (pg_events p)(type := now)\<rparr>, [EventRequest type]))"

definition is_coding :: "exam_page \<Rightarrow> bool" where
  "is_coding p \<longleftrightarrow> (case pg_data p of None \<Rightarrow> False | Some w \<Rightarrow>
     (case List.find (\<lambda>q. q_id q = pg_question p) (ci_questions w) of
        Some q \<Rightarrow> q_type q = CODING
      | None \<Rightarrow> (case ci_questions w of q # _ \<Rightarrow> q_type q = CODING | [] \<Rightarrow> False)))"

text \<open>Three renders are enough for every event (\<open>settled\<close> below).\<close>

definition react :: "time \<Rightarrow> bool \<Rightarrow> exam_page \<Rightarrow> exam_page \<Rightarrow> exam_page \<times> page_request list" where
  "react = settle 3"

fun page_step :: "time \<Rightarrow> page_event \<Rightarrow> exam_page \<Rightarrow> exam_page \<times> page_request list" where
  "page_step now (Fetched w) p = react now True p (p\<lparr>pg_data := Some w\<rparr>)"
| "page_step now (Typed code) p = (if pg_locked p then (p, []) else react now False p (p\<lparr>pg_code := code\<rparr>))"
| "page_step now (QuestionChosen questionId) p = react now False p (p\<lparr>pg_question := questionId\<rparr>)"
| "page_step now (LanguageChosen language) p = react now False p (p\<lparr>pg_language := language\<rparr>)"
| "page_step now ClockTick p = (case pg_timer p of None \<Rightarrow> (p, []) | Some timer \<Rightarrow> react now False p (updateRemaining now timer p))"
| "page_step now SaveTick p = (case pg_save p of
     Some save \<Rightarrow> if ps_due save \<le> now then (p\<lparr>pg_save := None\<rparr>, [SaveDraftRequest (ps_draft save)]) else (p, [])
   | None \<Rightarrow> (p, []))"
| "page_step now RunClicked p = (if pg_running p \<or> pg_locked p \<or> \<not> is_coding p then (p, [])
     else (p\<lparr>pg_running := True\<rparr>, [RunRequest \<lparr>cri_questionId = pg_question p, cri_language = pg_language p, cri_code = pg_code p\<rparr>]))"
| "page_step now RunAnswered p = react now False p (p\<lparr>pg_running := False\<rparr>)"
| "page_step now SubmitClicked p = (if pg_submitting p \<or> pg_locked p then (p, [])
     else (p\<lparr>pg_submitting := True\<rparr>, [SubmitRequest (submission_of p)]))"
| "page_step now SubmitAnswered p = react now False p (p\<lparr>pg_submitting := False\<rparr>)"
| "page_step now (Noticed type) p = logEvent now type p"

abbreviation page_run :: "(time \<times> page_event) list \<Rightarrow> exam_page \<Rightarrow> exam_page \<times> page_request list" where
  "page_run \<equiv> run_page (\<lambda>(now, e). page_step now e)"

section \<open>What one render keeps\<close>

lemma select_question_sel [simp]:
  "pg_data (select_question s n) = pg_data n" "pg_language (select_question s n) = pg_language n" "pg_code (select_question s n) = pg_code n"
  "pg_remaining (select_question s n) = pg_remaining n" "pg_locked (select_question s n) = pg_locked n"
  "pg_timer (select_question s n) = pg_timer n" "pg_save (select_question s n) = pg_save n"
  "pg_submitting (select_question s n) = pg_submitting n" "pg_timeoutSubmitted (select_question s n) = pg_timeoutSubmitted n"
  by (simp_all add: select_question_def split: option.split list.split)

lemma select_language_sel [simp]:
  "pg_data (select_language s n) = pg_data n" "pg_question (select_language s n) = pg_question n" "pg_code (select_language s n) = pg_code n"
  "pg_remaining (select_language s n) = pg_remaining n" "pg_locked (select_language s n) = pg_locked n"
  "pg_timer (select_language s n) = pg_timer n" "pg_save (select_language s n) = pg_save n"
  "pg_submitting (select_language s n) = pg_submitting n" "pg_timeoutSubmitted (select_language s n) = pg_timeoutSubmitted n"
  by (simp_all add: select_language_def split: option.split)

lemma start_clock_sel [simp]:
  "pg_data (start_clock now s n) = pg_data n" "pg_question (start_clock now s n) = pg_question n"
  "pg_language (start_clock now s n) = pg_language n" "pg_code (start_clock now s n) = pg_code n"
  "pg_save (start_clock now s n) = pg_save n" "pg_submitting (start_clock now s n) = pg_submitting n"
  "pg_timeoutSubmitted (start_clock now s n) = pg_timeoutSubmitted n"
  by (simp_all add: start_clock_def updateRemaining_def Let_def split: option.split)

lemma load_draft_sel [simp]:
  "pg_data (load_draft s n) = pg_data n" "pg_question (load_draft s n) = pg_question n" "pg_language (load_draft s n) = pg_language n"
  "pg_remaining (load_draft s n) = pg_remaining n" "pg_locked (load_draft s n) = pg_locked n"
  "pg_timer (load_draft s n) = pg_timer n" "pg_save (load_draft s n) = pg_save n"
  "pg_submitting (load_draft s n) = pg_submitting n" "pg_timeoutSubmitted (load_draft s n) = pg_timeoutSubmitted n"
  by (simp_all add: load_draft_def split: option.split)

lemma schedule_save_sel [simp]:
  "pg_data (schedule_save now b s n) = pg_data n" "pg_question (schedule_save now b s n) = pg_question n"
  "pg_language (schedule_save now b s n) = pg_language n" "pg_code (schedule_save now b s n) = pg_code n"
  "pg_remaining (schedule_save now b s n) = pg_remaining n" "pg_locked (schedule_save now b s n) = pg_locked n"
  "pg_timer (schedule_save now b s n) = pg_timer n" "pg_submitting (schedule_save now b s n) = pg_submitting n"
  "pg_timeoutSubmitted (schedule_save now b s n) = pg_timeoutSubmitted n"
  by (simp_all add: schedule_save_def)

lemma submit_at_timeout_sel [simp]:
  "pg_data (fst (submit_at_timeout s n)) = pg_data n" "pg_question (fst (submit_at_timeout s n)) = pg_question n"
  "pg_language (fst (submit_at_timeout s n)) = pg_language n" "pg_code (fst (submit_at_timeout s n)) = pg_code n"
  "pg_remaining (fst (submit_at_timeout s n)) = pg_remaining n" "pg_locked (fst (submit_at_timeout s n)) = pg_locked n"
  "pg_timer (fst (submit_at_timeout s n)) = pg_timer n" "pg_save (fst (submit_at_timeout s n)) = pg_save n"
  "pg_submitting (fst (submit_at_timeout s n)) \<longleftrightarrow> timed_out s \<or> pg_submitting n"
  "pg_timeoutSubmitted (fst (submit_at_timeout s n)) \<longleftrightarrow> timed_out s \<or> pg_timeoutSubmitted n"
  "snd (submit_at_timeout s n) = (if timed_out s then [SubmitRequest (submission_of s)] else [])"
  by (simp_all add: submit_at_timeout_def)

text \<open>The choice of question and language is made: the first two effects change nothing.\<close>

definition chosen :: "exam_page \<Rightarrow> bool" where
  "chosen p \<longleftrightarrow> pg_question (select_question p p) = pg_question p \<and> pg_language (select_language p p) = pg_language p"

lemma chosenD: "chosen p \<Longrightarrow> select_question p p = p" "chosen p \<Longrightarrow> select_language p p = p"
  by (auto simp: chosen_def select_question_def select_language_def split: option.splits list.splits if_splits)

lemma selectable_hd: "is_selectable w (rl_value (hd (selectableLanguages (ex_languages (ci_exam w)))))"
proof -
  have "selectableLanguages (ex_languages (ci_exam w)) \<noteq> []" by (simp add: selectableLanguages_def runnableLanguages_def Let_def)
  then have "hd (selectableLanguages (ex_languages (ci_exam w))) \<in> set (selectableLanguages (ex_languages (ci_exam w)))" by (rule hd_in_set)
  then show ?thesis unfolding is_selectable_def list_ex_iff by (rule bexI [rotated]) (rule refl)
qed

lemma select_fields:
  "pg_question (select_question s n) = (case pg_data s of Some w \<Rightarrow>
     (case ci_questions w of q # _ \<Rightarrow> if pg_question s = [] then q_id q else pg_question n | [] \<Rightarrow> pg_question n) | None \<Rightarrow> pg_question n)"
  "pg_language (select_language s n) = (case pg_data s of Some w \<Rightarrow>
     if is_selectable w (pg_language s) then pg_language n else rl_value (hd (selectableLanguages (ex_languages (ci_exam w)))) | None \<Rightarrow> pg_language n)"
  by (simp_all add: select_question_def select_language_def split: option.split list.split)

lemma run_effects_fields:
  "pg_data (fst (run_effects now fetched b s)) = pg_data s"
  "pg_question (fst (run_effects now fetched b s)) = pg_question (select_question s s)"
  "pg_language (fst (run_effects now fetched b s)) = pg_language (select_language s s)"
  "pg_submitting (fst (run_effects now fetched b s)) \<longleftrightarrow> timed_out s \<or> pg_submitting s"
  "pg_timeoutSubmitted (fst (run_effects now fetched b s)) \<longleftrightarrow> timed_out s \<or> pg_timeoutSubmitted s"
  "snd (run_effects now fetched b s) = (if timed_out s then [SubmitRequest (submission_of s)] else [])"
  by (simp_all add: run_effects_def Let_def select_fields split: option.split)

lemma run_effects_chosen: "chosen (fst (run_effects now fetched b s))"
  using selectable_hd by (auto simp: chosen_def run_effects_fields select_fields split: option.split list.split)

lemma chosen_cong: "chosen p \<Longrightarrow> pg_data q = pg_data p \<Longrightarrow> pg_question q = pg_question p \<Longrightarrow> pg_language q = pg_language p \<Longrightarrow> chosen q"
  by (auto simp: chosen_def select_fields split: option.splits list.splits if_splits)

text \<open>The effects of a second render: the choice is made and the workspace is the same.\<close>

lemma run_effects_again:
  assumes "chosen s"
  shows "run_effects now False b s = submit_at_timeout s (schedule_save now b s
    (if pg_language s \<noteq> pg_language b \<or> pg_question s \<noteq> pg_question b then load_draft s s else s))"
  using chosenD [OF assms] by (simp add: run_effects_def)

lemma run_effects_still:
  assumes "chosen s" and "\<not> timed_out s" and "pg_language s = pg_language b" and "pg_question s = pg_question b"
  shows "run_effects now False b s = (schedule_save now b s s, [])"
  using assms by (simp add: run_effects_again submit_at_timeout_def)

text \<open>The page is at rest: rendering it again changes nothing and asks for nothing.\<close>

definition at_rest :: "exam_page \<Rightarrow> bool" where
  "at_rest p \<longleftrightarrow> chosen p \<and> \<not> timed_out p"

lemma at_rest_iff: "at_rest p \<longleftrightarrow> (\<forall>now. run_effects now False p p = (p, []))"
proof
  assume "at_rest p"
  then show "\<forall>now. run_effects now False p p = (p, [])" by (simp add: at_rest_def run_effects_still schedule_save_def)
next
  assume r: "\<forall>now. run_effects now False p p = (p, [])"
  then have "\<not> timed_out p" using run_effects_fields(6) [of 0 False p p] by (auto split: if_splits)
  moreover have "chosen p" using r run_effects_chosen [of 0 False p p] by simp
  ultimately show "at_rest p" by (simp add: at_rest_def)
qed

lemma rendered_timed_out:
  assumes "n = fst (run_effects now fetched b s)" and "rendered n = rendered s"
  shows "at_rest n"
proof -
  have "\<not> timed_out s" using assms run_effects_fields(4) [of now fetched b s] by (auto simp: rendered_def timed_out_def)
  then have "\<not> timed_out n" using assms run_effects_fields(5) [of now fetched b s] by (auto simp: rendered_def timed_out_def)
  then show ?thesis using run_effects_chosen assms(1) by (simp add: at_rest_def)
qed

text \<open>A pending save of \<open>p\<close> holds what \<open>q\<close> shows, and nothing is pending while it is locked.\<close>

definition save_of :: "exam_page \<Rightarrow> exam_page \<Rightarrow> bool" where
  "save_of p q \<longleftrightarrow> (\<forall>save. pg_save p = Some save \<longrightarrow> ps_draft save = draft_of q \<and> \<not> pg_locked q \<and> pg_question q \<noteq> [])"

lemma save_of_cong:
  "save_of p q \<Longrightarrow> pg_save p' = pg_save p \<Longrightarrow> draft_of q' = draft_of q \<Longrightarrow> pg_locked q' = pg_locked q \<Longrightarrow> save_of p' q'"
  by (auto simp: save_of_def draft_of_def)

lemma rendered_draft: "rendered p = rendered q \<Longrightarrow> draft_of p = draft_of q \<and> pg_locked p = pg_locked q"
  by (simp add: rendered_def draft_of_def)

lemma run_effects_save:
  assumes "save_of s b"
  shows "save_of (fst (run_effects now fetched b s)) s"
proof -
  have "save_of (schedule_save now b s n) s" if "pg_save n = pg_save s" for n
    using assms that by (auto simp: save_of_def schedule_save_def draft_of_def)
  then show ?thesis by (rule save_of_cong) (simp_all add: run_effects_def Let_def)
qed

section \<open>Every event settles in three renders\<close>

lemma third_render:
  assumes "n = fst (run_effects now fetched b s)" and "m = fst (run_effects now False s n)"
  shows "rendered (fst (run_effects now False n m)) = rendered m"
proof -
  have cn: "chosen n" using assms(1) run_effects_chosen by simp
  have m: "pg_data m = pg_data n" "pg_question m = pg_question n" "pg_language m = pg_language n"
    using chosenD [OF cn] by (simp_all add: assms(2) run_effects_fields)
  have cm: "chosen m" using chosen_cong [OF cn] m by simp
  have "pg_remaining m = pg_remaining n" using cn by (simp add: assms(2) run_effects_again)
  then have "\<not> timed_out m" using m by (auto simp: timed_out_def assms(2) run_effects_fields)
  from run_effects_still [OF cm this m(3) m(2)] show ?thesis by (simp add: rendered_def)
qed

lemma settled:
  assumes "save_of s b"
  shows "at_rest (fst (settle 3 now fetched b s))" and "save_of (fst (settle 3 now fetched b s)) (fst (settle 3 now fetched b s))"
proof -
  let ?n = "fst (run_effects now fetched b s)"
  let ?m = "fst (run_effects now False s ?n)"
  let ?l = "fst (run_effects now False ?n ?m)"
  have saves: "save_of ?n s" "save_of ?m ?n" "save_of ?l ?m" using assms by (blast intro: run_effects_save)+
  have rest: "at_rest q \<and> save_of q q" if "q = fst (run_effects now f b' s')" "rendered q = rendered s'" "save_of q s'" for f b' s' q
    using rendered_timed_out [OF that(1,2)] save_of_cong [OF that(3), of q q] rendered_draft [OF that(2)] by simp
  have "fst (settle 3 now fetched b s) = (if rendered ?n = rendered s then ?n else if rendered ?m = rendered ?n then ?m else ?l)"
    using third_render [OF refl refl, of now fetched b s] by (simp add: numeral_3_eq_3 case_prod_beta Let_def)
  moreover have "rendered ?l = rendered ?m" by (rule third_render [OF refl refl])
  ultimately show "at_rest (fst (settle 3 now fetched b s))" and "save_of (fst (settle 3 now fetched b s)) (fst (settle 3 now fetched b s))"
    using rest [OF refl _ saves(1)] rest [OF refl _ saves(2)] rest [OF refl _ saves(3)] by auto
qed

definition page_inv :: "exam_page \<Rightarrow> bool" where
  "page_inv p \<longleftrightarrow> at_rest p \<and> save_of p p"

lemma react_inv: "page_inv p \<Longrightarrow> pg_save q = pg_save p \<Longrightarrow> page_inv (fst (react now fetched p q))"
  using settled [of q p now fetched] save_of_cong [of p p q p] by (simp add: page_inv_def react_def)

lemma page_inv_cong:
  assumes "page_inv p" and "pg_save q = pg_save p \<or> pg_save q = None" and "rendered q = rendered p \<or> rendered q = rendered (p\<lparr>pg_submitting := True\<rparr>)"
    and "pg_data q = pg_data p" and "pg_timeoutSubmitted q = pg_timeoutSubmitted p"
  shows "page_inv q"
proof -
  have q: "pg_question q = pg_question p" "pg_language q = pg_language p" "pg_code q = pg_code p" "pg_locked q = pg_locked p"
    "pg_remaining q = pg_remaining p" "pg_submitting p \<longrightarrow> pg_submitting q"
    using assms(3) by (auto simp: rendered_def)
  have "chosen q" using assms(1,4) q chosen_cong [of p q] by (simp add: page_inv_def at_rest_def)
  moreover have "\<not> timed_out q" using assms(1,5) q by (auto simp: page_inv_def at_rest_def timed_out_def)
  moreover have "save_of q q" using assms(1,2) q by (auto simp: page_inv_def save_of_def draft_of_def)
  ultimately show ?thesis by (simp add: page_inv_def at_rest_def)
qed

lemma page_step_inv: "page_inv p \<Longrightarrow> page_inv (fst (page_step now e p))"
proof (cases e)
  case SaveTick
  assume "page_inv p"
  then show ?thesis using SaveTick page_inv_cong [of p "p\<lparr>pg_save := None\<rparr>"] by (simp add: rendered_def split: option.split)
next
  case (Noticed type)
  assume "page_inv p"
  then show ?thesis using Noticed page_inv_cong [of p "p\<lparr>pg_events := (pg_events p)(type := now)\<rparr>"] by (simp add: logEvent_def rendered_def)
next
  case SubmitClicked
  assume "page_inv p"
  then show ?thesis using SubmitClicked page_inv_cong [of p "p\<lparr>pg_submitting := True\<rparr>"] by simp
next
  case RunClicked
  assume "page_inv p"
  then show ?thesis using RunClicked page_inv_cong [of p "p\<lparr>pg_running := True\<rparr>"] by (simp add: rendered_def)
qed (auto simp: updateRemaining_def Let_def intro: react_inv split: option.split)

interpretation exam_machine: page_machine "\<lambda>(now, e). page_step now e" page_inv
  by unfold_locales (auto intro: page_step_inv)

lemma initial_inv: "page_inv initial_page"
  by (simp add: page_inv_def at_rest_def chosen_def timed_out_def save_of_def select_fields initial_page_def)

section \<open>Drafts\<close>

text \<open>C18. The exam page settles after every event: whatever happened since it was opened, rendering it once more would change
  nothing and send nothing.\<close>

theorem exam_page_settles:
  "run_effects now False (fst (page_run es initial_page)) (fst (page_run es initial_page)) = (fst (page_run es initial_page), [])"
  using exam_machine.run_keeps [OF initial_inv, of es] by (simp add: page_inv_def at_rest_iff)

definition saved_drafts :: "page_request list \<Rightarrow> code_draft_input list" where
  "saved_drafts rs = concat (map (\<lambda>r. case r of SaveDraftRequest d \<Rightarrow> [d] | _ \<Rightarrow> []) rs)"

definition submissions_of :: "page_request list \<Rightarrow> code_submit_input list" where
  "submissions_of rs = concat (map (\<lambda>r. case r of SubmitRequest x \<Rightarrow> [x] | _ \<Rightarrow> []) rs)"

lemma requests_append [simp]:
  "saved_drafts (rs @ rs') = saved_drafts rs @ saved_drafts rs'" "saved_drafts [] = []"
  "submissions_of (rs @ rs') = submissions_of rs @ submissions_of rs'" "submissions_of [] = []"
  by (simp_all add: saved_drafts_def submissions_of_def)

lemma request_lists [simp]:
  "saved_drafts (r # rs) = (case r of SaveDraftRequest d \<Rightarrow> [d] | _ \<Rightarrow> []) @ saved_drafts rs"
  "submissions_of (r # rs) = (case r of SubmitRequest x \<Rightarrow> [x] | _ \<Rightarrow> []) @ submissions_of rs"
  by (simp_all add: saved_drafts_def submissions_of_def)

lemma run_effects_requests:
  "saved_drafts (snd (run_effects now fetched b s)) = []"
  "submissions_of (snd (run_effects now fetched b s)) = (if timed_out s then [submission_of s] else [])"
  by (simp_all add: run_effects_fields)

lemma settle_saves_nothing: "saved_drafts (snd (settle k now fetched b s)) = []"
proof (induction k arbitrary: fetched b s)
  case (Suc k)
  then show ?case using run_effects_requests(1) [of now fetched b s] by (simp add: case_prod_beta Let_def)
qed simp

lemma step_saves:
  "saved_drafts (snd (page_step now e p)) = (case (e, pg_save p) of (SaveTick, Some save) \<Rightarrow> if ps_due save \<le> now then [ps_draft save] else [] | _ \<Rightarrow> [])"
  by (cases e) (simp_all add: react_def settle_saves_nothing logEvent_def split: option.split)

text \<open>C19. A draft that the exam page saves is what its editor shows, for the question and language that are selected, while the
  page is not locked; whatever happened before, the pending save is made as soon as it is due.\<close>

theorem saved_drafts_are_what_the_editor_shows:
  assumes "fst (page_run es initial_page) = p"
  shows "set (saved_drafts (snd (page_step now e p))) \<subseteq> {draft_of p} \<and>
    (saved_drafts (snd (page_step now e p)) \<noteq> [] \<longrightarrow> e = SaveTick \<and> \<not> pg_locked p \<and> pg_question p \<noteq> []) \<and>
    (\<forall>save. pg_save p = Some save \<and> ps_due save \<le> now \<longrightarrow> saved_drafts (snd (page_step now SaveTick p)) = [draft_of p])"
proof -
  have "save_of p p" using exam_machine.run_keeps [OF initial_inv, of es] assms by (simp add: page_inv_def)
  then show ?thesis by (auto simp: step_saves save_of_def split: option.splits page_event.splits if_splits)
qed

section \<open>Submissions\<close>

lemma settle_submits:
  "length (submissions_of (snd (settle k now fetched b s))) + of_bool (pg_timeoutSubmitted s) = of_bool (pg_timeoutSubmitted (fst (settle k now fetched b s)))"
proof (induction k arbitrary: fetched b s)
  case (Suc k)
  show ?case using Suc [of False s "fst (run_effects now fetched b s)"] run_effects_requests(2) [of now fetched b s]
    run_effects_fields(5) [of now fetched b s]
    by (cases "timed_out s") (auto simp: case_prod_beta Let_def timed_out_def)
qed simp

lemma step_submits:
  "length (submissions_of (snd (page_step now e p))) + of_bool (pg_timeoutSubmitted p) \<le>
    of_bool (pg_timeoutSubmitted (fst (page_step now e p))) + of_bool (e = SubmitClicked)"
proof -
  have r: "length (submissions_of (snd (react now fetched b s))) + of_bool (pg_timeoutSubmitted s) = of_bool (pg_timeoutSubmitted (fst (react now fetched b s)))"
    for fetched b s by (simp add: react_def settle_submits)
  show ?thesis
  proof (cases e)
    case (Fetched w)
    then show ?thesis using r [of True p "p\<lparr>pg_data := Some w\<rparr>"] by simp
  next
    case (Typed code)
    then show ?thesis using r [of False p "p\<lparr>pg_code := code\<rparr>"] by simp
  next
    case (QuestionChosen q)
    then show ?thesis using r [of False p "p\<lparr>pg_question := q\<rparr>"] by simp
  next
    case (LanguageChosen l)
    then show ?thesis using r [of False p "p\<lparr>pg_language := l\<rparr>"] by simp
  next
    case ClockTick
    then show ?thesis
    proof (cases "pg_timer p")
      case (Some timer)
      have "pg_timeoutSubmitted (updateRemaining now timer p) = pg_timeoutSubmitted p" by (simp add: updateRemaining_def Let_def)
      then show ?thesis using ClockTick Some r [of False p "updateRemaining now timer p"] by simp
    qed simp
  next
    case RunAnswered
    then show ?thesis using r [of False p "p\<lparr>pg_running := False\<rparr>"] by simp
  next
    case SubmitAnswered
    then show ?thesis using r [of False p "p\<lparr>pg_submitting := False\<rparr>"] by simp
  qed (simp_all add: logEvent_def split: option.split)
qed

lemma run_submits:
  "length (submissions_of (snd (page_run es p))) + of_bool (pg_timeoutSubmitted p) \<le>
    of_bool (pg_timeoutSubmitted (fst (page_run es p))) + length (filter (\<lambda>(t, e). e = SubmitClicked) es)"
proof (induction es arbitrary: p)
  case (Cons x es)
  obtain t e where x: "x = (t, e)" by (cases x)
  show ?case using Cons [of "fst (page_step t e p)"] step_submits [of t e p]
    by (cases "e = SubmitClicked") (auto simp: x case_prod_beta Let_def)
qed simp

text \<open>The exam page submits once for every click on its button, and at most once more by itself, however often it is
  rendered, fetched or ticked.\<close>

theorem at_most_one_submission_by_itself:
  "length (submissions_of (snd (page_run es initial_page))) \<le> Suc (length (filter (\<lambda>(t, e). e = SubmitClicked) es))"
  using run_submits [of es initial_page] by (cases "pg_timeoutSubmitted (fst (page_run es initial_page))") (auto simp: initial_page_def)

section \<open>Typing and fetching\<close>

text \<open>An edit restarts the pending save: keys that follow each other within 600 ms leave the timer no time. \<open>code\<close> is what the
  editor shows and \<open>due\<close> when its save is due.\<close>

fun hurried :: "string \<Rightarrow> time \<Rightarrow> (time \<times> page_event) list \<Rightarrow> bool" where
  "hurried code due [] \<longleftrightarrow> True"
| "hurried code due ((t, e) # es) \<longleftrightarrow> (case e of
     Typed code' \<Rightarrow> code' \<noteq> code \<and> hurried code' (t + 600) es
   | SaveTick \<Rightarrow> t < due \<and> hurried code due es
   | _ \<Rightarrow> False)"

lemma typed_step:
  assumes "page_inv p" and "\<not> pg_locked p"
  shows "page_step t (Typed code) p = (schedule_save t p (p\<lparr>pg_code := code\<rparr>) (p\<lparr>pg_code := code\<rparr>), [])"
proof -
  let ?q = "p\<lparr>pg_code := code\<rparr>"
  have "chosen ?q" using assms(1) chosen_cong [of p ?q] by (simp add: page_inv_def at_rest_def)
  moreover have "\<not> timed_out ?q" using assms(1) by (simp add: page_inv_def at_rest_def timed_out_def)
  ultimately have "run_effects t False p ?q = (schedule_save t p ?q ?q, [])" by (rule run_effects_still) simp_all
  then show ?thesis using assms(2) by (simp add: react_def numeral_3_eq_3 rendered_def)
qed

lemma hurried_typing:
  assumes "page_inv p" and "\<not> pg_locked p" and "pg_question p \<noteq> []" and "hurried (pg_code p) due es"
    and "\<forall>save. pg_save p = Some save \<longrightarrow> due \<le> ps_due save"
  shows "\<exists>q. page_run es p = (q, []) \<and> page_inv q \<and> pg_question q = pg_question p \<and> pg_language q = pg_language p"
  using assms
proof (induction es arbitrary: p due)
  case (Cons x es)
  obtain t e where x: "x = (t, e)" by (cases x)
  from Cons.prems(4) consider (key) code where "e = Typed code" "code \<noteq> pg_code p" "hurried code (t + 600) es"
    | (tick) "e = SaveTick" "t < due" "hurried (pg_code p) due es" by (auto simp: x split: page_event.splits)
  then show ?case
  proof cases
    case key
    let ?q = "p\<lparr>pg_code := code\<rparr>"
    let ?p = "schedule_save t p ?q ?q"
    have step: "page_step t e p = (?p, [])" unfolding key(1) by (rule typed_step [OF Cons.prems(1,2)])
    have "page_inv ?p" using page_step_inv [OF Cons.prems(1), of t e] step by simp
    moreover have "\<forall>save. pg_save ?p = Some save \<longrightarrow> t + 600 \<le> ps_due save"
      using key(2) Cons.prems(2,3) by (auto simp: schedule_save_def draft_of_def)
    ultimately show ?thesis using Cons.IH [of ?p "t + 600"] key(3) Cons.prems(2,3) by (auto simp: x step)
  next
    case tick
    then have "page_step t e p = (p, [])" using Cons.prems(5) by (auto split: option.split)
    then show ?thesis using Cons.IH [of p due] tick(3) Cons.prems by (auto simp: x)
  qed
qed simp

lemma later_renders_keep_code:
  assumes "chosen s" and "pg_language s = pg_language b" and "pg_question s = pg_question b"
  shows "pg_code (fst (settle k now False b s)) = pg_code s"
  using assms
proof (induction k arbitrary: b s)
  case (Suc k)
  let ?n = "fst (run_effects now False b s)"
  have code: "pg_code ?n = pg_code s" using Suc.prems by (simp add: run_effects_again)
  have "pg_language ?n = pg_language s" "pg_question ?n = pg_question s"
    using chosenD [OF Suc.prems(1)] by (simp_all add: run_effects_fields)
  then show ?case using Suc.IH [of ?n s] run_effects_chosen code by (simp add: case_prod_beta Let_def)
qed simp

lemma fetched_code:
  assumes "pg_question p \<noteq> []" and "is_selectable w (pg_language p)"
  shows "pg_code (fst (page_step now (Fetched w) p)) = loaded_code w (pg_question p) (pg_language p)"
proof -
  let ?s = "p\<lparr>pg_data := Some w\<rparr>"
  let ?n = "fst (run_effects now True p ?s)"
  have "pg_language ?n = pg_language ?s" "pg_question ?n = pg_question ?s"
    using assms by (simp_all add: run_effects_fields select_fields split: list.split)
  then have "pg_code (fst (settle 2 now False ?s ?n)) = pg_code ?n" by (intro later_renders_keep_code run_effects_chosen)
  moreover have "pg_code ?n = loaded_code w (pg_question p) (pg_language p)"
    using assms(1) by (simp add: run_effects_def Let_def load_draft_def)
  ultimately show ?thesis by (simp add: react_def numeral_3_eq_3 numeral_2_eq_2 case_prod_beta Let_def)
qed

text \<open>What a candidate types without pausing for 600 ms is sent nowhere, and the next fetch of the workspace replaces it with
  the draft that the server has: typing on through a fetch loses the text.\<close>

theorem a_fetch_replaces_unsaved_typing:
  assumes "fst (page_run es initial_page) = p" and "\<not> pg_locked p" and "pg_question p \<noteq> []" and "pg_save p = None"
    and "hurried (pg_code p) t keys" and "is_selectable w (pg_language p)"
  shows "snd (page_run keys p) = [] \<and>
    pg_code (fst (page_step now (Fetched w) (fst (page_run keys p)))) = loaded_code w (pg_question p) (pg_language p)"
proof -
  have "page_inv p" using exam_machine.run_keeps [OF initial_inv, of es] assms(1) by simp
  from hurried_typing [OF this assms(2,3,5)] assms(4) obtain q where "page_run keys p = (q, [])" "pg_question q = pg_question p"
    "pg_language q = pg_language p" by auto
  then show ?thesis using fetched_code [of q w now] assms(3,6) by simp
qed

section \<open>The clock of the page and the clock of the server\<close>

text \<open>The page is at zero only when the server, by the page's estimate of its clock, has less than a second left.\<close>

lemma zero_on_page:
  assumes "pg_remaining (updateRemaining now timer p) = Some 0"
  shows "pt_endsAt timer < now + pt_offset timer + 1000"
  using assms by (simp add: updateRemaining_def Let_def)

text \<open>C16. The answer that the page submits by itself when its clock reaches zero is never accepted in a deployment: when the
  request arrives, the server counts the session of the candidate as over.\<close>

theorem a_timeout_submission_is_refused:
  assumes "good_tables c content" and "deployed c" and "devices_wf (k_proctorDevices (content (st_db s)))"
    and "List.find (\<lambda>p. cand_inviteToken p = inviteToken) (k_candidates (content (st_db s))) = Some candidate"
    and "List.find (\<lambda>x. xs_candidateId x = cand_id candidate \<and> xs_examId x = cand_examId candidate) (k_examSessions (content (st_db s))) = Some row"
    and "pg_remaining (updateRemaining now timer p) = Some 0" and "pt_endsAt timer = xs_endsAt row" and "now + pt_offset timer \<le> sc_now c"
  shows "submitCandidateCode c inviteToken input s \<noteq> (Inr submission, s')"
proof
  assume "submitCandidateCode c inviteToken input s = (Inr submission, s')"
  from submit_entered [OF assms(1) this] obtain invite s1 s2 where gate: "getInviteForWorkspaceUse c inviteToken s = (Inr invite, s1)"
    and opened: "assertExamSessionOpen c invite s1 = (Inr (), s2)" unfolding exam_entered_def by metis
  note g = deployed_gate [OF assms(1-3) gate]
  have same: "ci_candidate invite = candidate" "ex_id (ci_exam invite) = cand_examId candidate"
    using g(4,5) assms(4) find_SomeD [OF g(5)] by simp_all
  have find: "List.find (is_session invite) (k_examSessions (content (st_db s1))) = Some row"
    using assms(5) unfolding g(6) is_session_def [abs_def] same by simp
  from open_session [OF assms(1) opened] obtain before after actions row'
    where w: "list_written c content s1 s2 (\<lambda>k. (k_examSessions k, k_proctorActions k)) (\<lambda>m. (mm_examSessions m, mm_proctorActions m)) (before, actions) (after, actions)"
      and kept: "session_kept c invite before after row'" and running: "sc_now c + 1000 \<le> xs_endsAt row'" by blast
  have "used_database c s1 s2" using deployed_fallback [OF assms(2)] by simp
  with w have "before = k_examSessions (content (st_db s1))" by (simp add: list_written_def)
  with kept find have "row' = row" by (simp add: session_kept_def)
  with running have "sc_now c + 1000 \<le> xs_endsAt row" by simp
  with zero_on_page [OF assms(6)] assms(7,8) show False by linarith
qed

section \<open>The lock of the page and the lock of the server\<close>

lemma later_renders_keep_lock: "pg_locked (fst (settle k now False b s)) = pg_locked s"
proof (induction k arbitrary: b s)
  case (Suc k)
  have "pg_locked (fst (run_effects now False b s)) = pg_locked s" by (simp add: run_effects_def Let_def)
  then show ?case using Suc [of s "fst (run_effects now False b s)"] by (simp add: case_prod_beta Let_def)
qed simp

text \<open>After a fetch the page is locked for the newest action alone, whatever its type, and for the time.\<close>

lemma fetched_locked:
  "pg_locked (fst (page_step now (Fetched w) p)) \<longleftrightarrow>
     is_stop (map_option pa_type (head_opt (cw_proctorActions w))) \<or> xs_endsAt (cw_examSession w) < xs_serverNow (cw_examSession w) + 1000"
proof -
  let ?s = "p\<lparr>pg_data := Some w\<rparr>"
  have "pg_locked (fst (run_effects now True p ?s)) \<longleftrightarrow> is_stop (map_option pa_type (head_opt (cw_proctorActions w))) \<or>
      xs_endsAt (cw_examSession w) < xs_serverNow (cw_examSession w) + 1000"
    by (auto simp: run_effects_def Let_def start_clock_def updateRemaining_def)
  then show ?thesis using later_renders_keep_lock [of 2 now ?s]
    by (simp add: react_def numeral_3_eq_3 numeral_2_eq_2 case_prod_beta Let_def)
qed

text \<open>The server asks for the newest pause, resumption or termination, so a message or memo after a pause unlocks the page of a
  candidate whom the server refuses.\<close>

lemma a_memo_unlocks_the_page:
  assumes "cw_proctorActions w = memo # pause # rest" and "pa_type memo = MEMO \<or> pa_type memo = WARNING_MESSAGE"
    and "pa_type pause = PAUSE_EXAM \<or> pa_type pause = TERMINATE_EXAM" and "pa_candidateId pause = cand_id (ci_candidate invite)"
    and "xs_serverNow (cw_examSession w) + 1000 \<le> xs_endsAt (cw_examSession w)"
  shows "\<not> pg_locked (fst (page_step now (Fetched w) p))"
    and "assertProctorActionAllowsExam (head_opt (filter (is_blocking invite) (cw_proctorActions w))) \<noteq> Inr ()"
proof -
  show "\<not> pg_locked (fst (page_step now (Fetched w) p))"
    unfolding fetched_locked using assms(1,2,5) by (auto simp: is_stop_def)
  have "\<not> is_blocking invite memo" "is_blocking invite pause" using assms(2-4) by (auto simp: is_blocking_def)
  then show "assertProctorActionAllowsExam (head_opt (filter (is_blocking invite) (cw_proctorActions w))) \<noteq> Inr ()"
    using assms(1,3) by (auto simp: assertProctorActionAllowsExam_def)
qed

section \<open>Witnesses\<close>

definition page_session :: exam_session where
  "page_session = \<lparr>xs_id = ''x1'', xs_candidateId = ''c1'', xs_examId = ''e1'', xs_startedAt = 0, xs_endsAt = 600000, xs_completedAt = None,
     xs_serverNow = 95000, xs_remainingSeconds = 505\<rparr>"

definition page_workspace :: candidate_workspace where
  "page_workspace = workspace_of workspace_invite [] [] [] [] page_session []"

text \<open>A candidate opens the page, types and waits; the python exam is shown with the code of the starter.\<close>

definition page_visit :: "(time \<times> page_event) list" where
  "page_visit = [(1000, Fetched page_workspace), (2000, SaveTick), (3000, Typed ''print(1)'')]"

lemma visited_page:
  "pg_save (fst (page_run page_visit initial_page)) = Some \<lparr>ps_due = 3600, ps_draft = \<lparr>cdi_questionId = ''q1'', cdi_language = ''python'', cdi_code = ''print(1)''\<rparr>\<rparr>"
  "pg_question (fst (page_run page_visit initial_page)) = ''q1''" "pg_language (fst (page_run page_visit initial_page)) = ''python''"
  "\<not> pg_locked (fst (page_run page_visit initial_page))"
  by code_simp+

lemma saved_drafts_are_what_the_editor_shows_witness:
  "saved_drafts (snd (page_step 3700 SaveTick (fst (page_run page_visit initial_page)))) =
    [\<lparr>cdi_questionId = ''q1'', cdi_language = ''python'', cdi_code = ''print(1)''\<rparr>]"
proof -
  let ?p = "fst (page_run page_visit initial_page)"
  let ?d = "\<lparr>cdi_questionId = ''q1'', cdi_language = ''python'', cdi_code = ''print(1)''\<rparr> :: code_draft_input"
  have "set (saved_drafts (snd (page_step 3700 SaveTick ?p))) \<subseteq> {draft_of ?p}" "saved_drafts (snd (page_step 3700 SaveTick ?p)) = [draft_of ?p]"
    using saved_drafts_are_what_the_editor_shows [OF refl, where es = page_visit and now = 3700 and e = SaveTick] visited_page(1) by auto
  moreover have "saved_drafts (snd (page_step 3700 SaveTick ?p)) = [?d]" using visited_page(1) by (simp add: step_saves)
  ultimately show ?thesis by simp
qed

definition page_saved :: "(time \<times> page_event) list" where
  "page_saved = page_visit @ [(3700, SaveTick)]"

lemma saved_page:
  "pg_save (fst (page_run page_saved initial_page)) = None" "pg_code (fst (page_run page_saved initial_page)) = ''print(1)''"
  "pg_question (fst (page_run page_saved initial_page)) = ''q1''" "pg_language (fst (page_run page_saved initial_page)) = ''python''"
  "\<not> pg_locked (fst (page_run page_saved initial_page))" "is_selectable page_workspace ''python''"
  "hurried ''print(1)'' 4000 [(4000, Typed ''print(12)''), (4300, SaveTick), (4500, Typed ''print(123)'')]"
  "loaded_code page_workspace ''q1'' ''python'' = starterCode"
  by code_simp+

lemma a_fetch_replaces_unsaved_typing_witness:
  "pg_code (fst (page_step 4600 (Fetched page_workspace) (fst (page_run [(4000, Typed ''print(12)''), (4300, SaveTick), (4500, Typed ''print(123)'')]
     (fst (page_run page_saved initial_page)))))) = starterCode"
  using a_fetch_replaces_unsaved_typing [OF refl, where es = page_saved and t = 4000 and w = page_workspace and now = 4600 and
    keys = "[(4000, Typed ''print(12)''), (4300, SaveTick), (4500, Typed ''print(123)'')]"] saved_page by simp

definition timed_contents :: contents where
  "timed_contents = workspace_contents\<lparr>k_examSessions := [page_session]\<rparr>"

text \<open>The page fetched at 1000 of its clock, when the server's was at 95000, and is at zero at 506000.\<close>

lemma a_timeout_submission_is_refused_witness:
  "pg_timer (fst (page_run page_visit initial_page)) = Some \<lparr>pt_offset = 94000, pt_endsAt = 600000, pt_latest = None\<rparr> \<and>
   (\<forall>submission s'. submitCandidateCode (production_ctx 600000) ''invite_1'' \<lparr>csi_questionId = ''q1'', csi_language = ''python'', csi_code = ''print(1)''\<rparr>
     (store_of timed_contents) \<noteq> (Inr submission, s'))"
proof
  show "pg_timer (fst (page_run page_visit initial_page)) = Some \<lparr>pt_offset = 94000, pt_endsAt = 600000, pt_latest = None\<rparr>" by code_simp
  have rows: "k_candidates timed_contents = [sample_candidate]" "k_examSessions timed_contents = [page_session]"
    "devices_wf (k_proctorDevices (id (st_db (store_of timed_contents))))"
    using workspace_devices_wf by (simp_all add: timed_contents_def store_of_def)
  show "\<forall>submission s'. submitCandidateCode (production_ctx 600000) ''invite_1'' \<lparr>csi_questionId = ''q1'', csi_language = ''python'', csi_code = ''print(1)''\<rparr>
     (store_of timed_contents) \<noteq> (Inr submission, s')"
    by (intro allI, rule a_timeout_submission_is_refused [OF good_plain deployed_production rows(3), where candidate = sample_candidate and row = page_session
          and now = 506000 and timer = "\<lparr>pt_offset = 94000, pt_endsAt = 600000, pt_latest = None\<rparr>" and p = initial_page])
      (simp_all add: rows, simp_all add: page_session_def updateRemaining_def Let_def)
qed

end
