(* ===== verification/CameraStream.thy ===== *)
theory CameraStream
  imports Contracts PageMachine
begin

text \<open>
  The camera of a candidate's page (\<open>CandidateProctorStream.ts\<close>): one run of the effect of \<open>useCandidateProctorStream\<close>, from the
  mounting to the cleanup, as a machine over the events of the browser and of the socket. The function \<open>start\<close> is asynchronous: every
  one of its awaits is a stage, and other events come in between. Streams, intervals and connections are numbered in the order in which
  they come into being; what the hook has to stop in the end is kept in lists (\<open>cs_live\<close>, \<open>cs_intervals\<close>, \<open>cs_peers\<close>) apart from the
  references that the code holds. The description of an offer is taken to be ready at once.
\<close>

section \<open>State and requests\<close>

text \<open>The awaits of \<open>start\<close>: \<open>getUserMedia\<close>, \<open>play\<close>, the report of the device, the log of the event; and the report in \<open>catch\<close>.\<close>

datatype start_stage = MediaAsked | Playing nat | DeviceReported | EventReported | FailureReported

record camera_hook =
  cs_active :: bool
  cs_next :: nat
  cs_starts :: "(nat \<times> start_stage) list"
  cs_stream :: "nat option"
  cs_live :: "nat list"
  cs_watched :: "nat list"
  cs_interval :: "nat option"
  cs_intervals :: "nat list"
  cs_peer :: "nat option"
  cs_peers :: "nat list"
  cs_status :: device_status

definition mounted_hook :: camera_hook where
  "mounted_hook = \<lparr>cs_active = True, cs_next = 0, cs_starts = [], cs_stream = None, cs_live = [], cs_watched = [], cs_interval = None,
     cs_intervals = [], cs_peer = None, cs_peers = [], cs_status = DEV_WAITING\<rparr>"

datatype camera_event =
    SocketConnected | SocketDisconnected | MediaGranted nat bool | Resumed nat | Rejected nat | OfferRequested | HeartbeatDue nat
  | TrackEnded nat | VisibilityChanged bool | NetworkOffline | NetworkOnline | PageLeft | Unmounted

datatype camera_request = DeviceReport device_status | EventReport event_type | EventBeacon event_type | JoinAsCandidate | OfferSent nat

type_synonym camera_act = "camera_hook \<times> camera_request list"

section \<open>Names of the events\<close>

definition cameraDisconnectedEventType :: "device_role \<Rightarrow> event_type" where
  "cameraDisconnectedEventType deviceRole = (if deviceRole = PRIMARY_PC then PRIMARY_CAMERA_DISCONNECTED else MOBILE_CAMERA_DISCONNECTED)"

definition cameraConnectedEventType :: "device_role \<Rightarrow> event_type" where
  "cameraConnectedEventType deviceRole = (if deviceRole = PRIMARY_PC then PRIMARY_CAMERA_CONNECTED else MOBILE_CAMERA_CONNECTED)"

definition permissionDeniedEventType :: "device_role \<Rightarrow> event_type" where
  "permissionDeniedEventType deviceRole = (if deviceRole = PRIMARY_PC then PRIMARY_CAMERA_PERMISSION_DENIED else MOBILE_CAMERA_PERMISSION_DENIED)"

definition visibilityEventType :: "device_role \<Rightarrow> bool \<Rightarrow> event_type" where
  "visibilityEventType deviceRole hidden =
     (if deviceRole = MOBILE_AUX then if hidden then MOBILE_PAGE_HIDDEN else MOBILE_PAGE_VISIBLE
      else if hidden then TAB_HIDDEN else TAB_VISIBLE)"

section \<open>The functions of the effect\<close>

definition stopHeartbeat :: "camera_hook \<Rightarrow> camera_hook" where
  "stopHeartbeat h = (case cs_interval h of
     Some i \<Rightarrow> h\<lparr>cs_intervals := removeAll i (cs_intervals h), cs_interval := None\<rparr> | None \<Rightarrow> h)"

definition markDisconnected :: "device_role \<Rightarrow> camera_hook \<Rightarrow> camera_act" where
  "markDisconnected deviceRole h =
     ((stopHeartbeat h)\<lparr>cs_status := DEV_DISCONNECTED\<rparr>, [DeviceReport DEV_DISCONNECTED, EventReport (cameraDisconnectedEventType deviceRole)])"

definition closePeer :: "camera_hook \<Rightarrow> camera_hook" where
  "closePeer h = (case cs_peer h of Some peer \<Rightarrow> h\<lparr>cs_peers := removeAll peer (cs_peers h)\<rparr> | None \<Rightarrow> h)"

definition createOffer :: "camera_hook \<Rightarrow> camera_act" where
  "createOffer h =
     (if cs_stream h = None \<or> \<not> cs_active h then (h, [])
      else (let closed = closePeer h; connection = cs_next h
            in (closed\<lparr>cs_peer := Some connection, cs_peers := connection # cs_peers closed, cs_next := Suc connection\<rparr>, [OfferSent connection])))"

definition set_stage :: "nat \<Rightarrow> start_stage \<Rightarrow> camera_hook \<Rightarrow> camera_hook" where
  "set_stage i stage h = h\<lparr>cs_starts := map (\<lambda>(j, x). if j = i then (j, stage) else (j, x)) (cs_starts h)\<rparr>"

definition end_start :: "nat \<Rightarrow> camera_hook \<Rightarrow> camera_hook" where
  "end_start i h = h\<lparr>cs_starts := filter (\<lambda>(j, x). j \<noteq> i) (cs_starts h)\<rparr>"

text \<open>\<open>start\<close> after the camera was granted: whether the page shows a video element, which is then played.\<close>

definition stream_shown :: "nat \<Rightarrow> nat \<Rightarrow> camera_hook \<Rightarrow> camera_act" where
  "stream_shown i stream h =
     (set_stage i DeviceReported (h\<lparr>cs_watched := stream # cs_watched h, cs_status := DEV_CONNECTED\<rparr>), [DeviceReport DEV_CONNECTED])"

definition media_granted :: "nat \<Rightarrow> bool \<Rightarrow> camera_hook \<Rightarrow> camera_act" where
  "media_granted i video h =
     (if \<not> cs_active h then (end_start i h, [])
      else (let stream = cs_next h; h1 = h\<lparr>cs_next := Suc stream, cs_stream := Some stream, cs_live := stream # cs_live h\<rparr>
            in if video then (set_stage i (Playing stream) h1, []) else stream_shown i stream h1))"

definition start_heartbeat :: "nat \<Rightarrow> device_role \<Rightarrow> camera_hook \<Rightarrow> camera_act" where
  "start_heartbeat i deviceRole h =
     (let interval = cs_next h
      in (set_stage i EventReported (h\<lparr>cs_next := Suc interval, cs_interval := Some interval, cs_intervals := interval # cs_intervals h\<rparr>),
          [EventReport (cameraConnectedEventType deviceRole)]))"

fun start_resumed :: "device_role \<Rightarrow> nat \<Rightarrow> start_stage \<Rightarrow> camera_hook \<Rightarrow> camera_act" where
  "start_resumed deviceRole i MediaAsked h = (h, [])"
| "start_resumed deviceRole i (Playing stream) h = stream_shown i stream h"
| "start_resumed deviceRole i DeviceReported h = start_heartbeat i deviceRole h"
| "start_resumed deviceRole i EventReported h = (let (h1, rs) = createOffer (end_start i h) in (h1, JoinAsCandidate # rs))"
| "start_resumed deviceRole i FailureReported h = (end_start i h, [EventReport (permissionDeniedEventType deviceRole)])"

text \<open>\<open>catch\<close>: whatever failed, the permission is reported as denied.\<close>

definition start_rejected :: "nat \<Rightarrow> start_stage \<Rightarrow> camera_hook \<Rightarrow> camera_act" where
  "start_rejected i stage h =
     (if stage = FailureReported then (end_start i h, [])
      else (set_stage i FailureReported (h\<lparr>cs_status := DEV_PERMISSION_DENIED\<rparr>), [DeviceReport DEV_PERMISSION_DENIED]))"

definition unmount :: "device_role \<Rightarrow> camera_hook \<Rightarrow> camera_act" where
  "unmount deviceRole h =
     (let h1 = stopHeartbeat (closePeer (h\<lparr>cs_active := False\<rparr>))
      in (h1\<lparr>cs_live := (case cs_stream h1 of Some stream \<Rightarrow> removeAll stream (cs_live h1) | None \<Rightarrow> cs_live h1)\<rparr>,
          [DeviceReport DEV_DISCONNECTED, EventReport (cameraDisconnectedEventType deviceRole)]))"

text \<open>The listeners are removed with the cleanup, and a disconnected socket has no events.\<close>

fun camera_step :: "device_role \<Rightarrow> camera_event \<Rightarrow> camera_hook \<Rightarrow> camera_act" where
  "camera_step deviceRole SocketConnected h =
     (if cs_active h then (h\<lparr>cs_starts := (cs_next h, MediaAsked) # cs_starts h, cs_next := Suc (cs_next h)\<rparr>, []) else (h, []))"
| "camera_step deviceRole SocketDisconnected h = (if cs_active h then markDisconnected deviceRole h else (h, []))"
| "camera_step deviceRole (MediaGranted i video) h = (if map_of (cs_starts h) i = Some MediaAsked then media_granted i video h else (h, []))"
| "camera_step deviceRole (Resumed i) h = (case map_of (cs_starts h) i of Some stage \<Rightarrow> start_resumed deviceRole i stage h | None \<Rightarrow> (h, []))"
| "camera_step deviceRole (Rejected i) h = (case map_of (cs_starts h) i of Some stage \<Rightarrow> start_rejected i stage h | None \<Rightarrow> (h, []))"
| "camera_step deviceRole OfferRequested h = createOffer h"
| "camera_step deviceRole (HeartbeatDue i) h = (h, if i \<in> set (cs_intervals h) then [DeviceReport DEV_CONNECTED] else [])"
| "camera_step deviceRole (TrackEnded stream) h =
     (let h1 = h\<lparr>cs_live := removeAll stream (cs_live h)\<rparr>
      in if stream \<in> set (cs_live h) \<and> stream \<in> set (cs_watched h) then markDisconnected deviceRole h1 else (h1, []))"
| "camera_step deviceRole (VisibilityChanged hidden) h = (h, if cs_active h then [EventReport (visibilityEventType deviceRole hidden)] else [])"
| "camera_step deviceRole NetworkOffline h =
     (if cs_active h \<and> deviceRole = MOBILE_AUX then (h\<lparr>cs_status := DEV_DISCONNECTED\<rparr>, [EventReport MOBILE_NETWORK_OFFLINE]) else (h, []))"
| "camera_step deviceRole NetworkOnline h = (h, if cs_active h \<and> deviceRole = MOBILE_AUX then [EventReport MOBILE_NETWORK_ONLINE] else [])"
| "camera_step deviceRole PageLeft h = (h, if cs_active h \<and> deviceRole = MOBILE_AUX then [EventBeacon MOBILE_PAGE_LEFT] else [])"
| "camera_step deviceRole Unmounted h = (if cs_active h then unmount deviceRole h else (h, []))"

abbreviation camera_run :: "device_role \<Rightarrow> camera_event list \<Rightarrow> camera_hook \<Rightarrow> camera_act" where
  "camera_run deviceRole \<equiv> run_page (camera_step deviceRole)"

section \<open>What stays referenced\<close>

lemma stage_sel [simp]:
  "cs_active (set_stage i stage h) = cs_active h" "cs_live (set_stage i stage h) = cs_live h" "cs_stream (set_stage i stage h) = cs_stream h"
  "cs_interval (set_stage i stage h) = cs_interval h" "cs_intervals (set_stage i stage h) = cs_intervals h"
  "cs_peer (set_stage i stage h) = cs_peer h" "cs_peers (set_stage i stage h) = cs_peers h"
  "length (cs_starts (set_stage i stage h)) = length (cs_starts h)"
  "cs_active (end_start i h) = cs_active h" "cs_live (end_start i h) = cs_live h" "cs_stream (end_start i h) = cs_stream h"
  "cs_interval (end_start i h) = cs_interval h" "cs_intervals (end_start i h) = cs_intervals h"
  "cs_peer (end_start i h) = cs_peer h" "cs_peers (end_start i h) = cs_peers h"
  "cs_starts (end_start i h) = filter (\<lambda>(j, x). j \<noteq> i) (cs_starts h)"
  by (simp_all add: set_stage_def end_start_def)

lemma stopHeartbeat_sel [simp]:
  "cs_active (stopHeartbeat h) = cs_active h" "cs_live (stopHeartbeat h) = cs_live h" "cs_stream (stopHeartbeat h) = cs_stream h"
  "cs_starts (stopHeartbeat h) = cs_starts h" "cs_peer (stopHeartbeat h) = cs_peer h" "cs_peers (stopHeartbeat h) = cs_peers h"
  "set (cs_intervals (stopHeartbeat h)) = set (cs_intervals h) - set_option (cs_interval h)"
  by (simp_all add: stopHeartbeat_def split: option.split)

lemma closePeer_sel [simp]:
  "cs_active (closePeer h) = cs_active h" "cs_live (closePeer h) = cs_live h" "cs_stream (closePeer h) = cs_stream h"
  "cs_starts (closePeer h) = cs_starts h" "cs_interval (closePeer h) = cs_interval h" "cs_intervals (closePeer h) = cs_intervals h"
  "cs_peer (closePeer h) = cs_peer h" "set (cs_peers (closePeer h)) = set (cs_peers h) - set_option (cs_peer h)"
  by (simp_all add: closePeer_def split: option.split)

lemma createOffer_sel [simp]:
  "cs_active (fst (createOffer h)) = cs_active h" "cs_live (fst (createOffer h)) = cs_live h" "cs_stream (fst (createOffer h)) = cs_stream h"
  "cs_starts (fst (createOffer h)) = cs_starts h" "cs_interval (fst (createOffer h)) = cs_interval h"
  "cs_intervals (fst (createOffer h)) = cs_intervals h"
  by (simp_all add: createOffer_def Let_def)

text \<open>The connection is the one the hook refers to: an offer closes the one before.\<close>

definition peers_held :: "camera_hook \<Rightarrow> bool" where
  "peers_held h \<longleftrightarrow> set (cs_peers h) \<subseteq> set_option (cs_peer h)"

lemma createOffer_peers: "peers_held h \<Longrightarrow> peers_held (fst (createOffer h))"
  by (auto simp: peers_held_def createOffer_def Let_def)

lemma step_peers: "peers_held h \<Longrightarrow> peers_held (fst (camera_step deviceRole e h))"
proof (cases e)
  case OfferRequested
  assume "peers_held h"
  then show ?thesis using OfferRequested createOffer_peers by simp
next
  case (Resumed i)
  assume h: "peers_held h"
  have "peers_held (fst (start_resumed deviceRole i stage h))" for stage
    using h createOffer_peers [of "end_start i h"]
    by (cases stage) (auto simp: peers_held_def stream_shown_def start_heartbeat_def Let_def case_prod_beta)
  then show ?thesis using Resumed h by (auto split: option.split)
qed (auto simp: peers_held_def markDisconnected_def media_granted_def stream_shown_def start_rejected_def unmount_def Let_def split: option.split)

text \<open>As long as the socket connected once, at most one call of \<open>start\<close> is on its way, and the stream and the interval are the ones
  the hook refers to.\<close>

definition untouched :: "camera_hook \<Rightarrow> bool" where
  "untouched h \<longleftrightarrow> cs_starts h = [] \<and> cs_live h = [] \<and> cs_intervals h = [] \<and> cs_stream h = None"

definition one_start :: "camera_hook \<Rightarrow> bool" where
  "one_start h \<longleftrightarrow> length (cs_starts h) \<le> 1 \<and>
     set (cs_live h) \<subseteq> set_option (cs_stream h) \<and> set (cs_intervals h) \<subseteq> set_option (cs_interval h) \<and>
     (\<forall>(i, stage) \<in> set (cs_starts h). (stage = MediaAsked \<longrightarrow> cs_live h = []) \<and>
        (stage \<noteq> EventReported \<and> stage \<noteq> FailureReported \<longrightarrow> cs_intervals h = []))"

lemma untouched_one: "untouched h \<Longrightarrow> one_start h"
  by (simp add: untouched_def one_start_def)

lemma one_start_cases:
  assumes "length xs \<le> 1" and "map_of xs i = Some stage"
  shows "xs = [(i, stage)]"
  using assms by (cases xs) (auto split: if_splits)

lemma removeAll_only: "set xs \<subseteq> {x} \<Longrightarrow> removeAll x xs = []"
  by (induction xs) auto

lemma stopped_heartbeat: "set (cs_intervals h) \<subseteq> set_option (cs_interval h) \<Longrightarrow> cs_intervals (stopHeartbeat h) = []"
  by (cases "cs_interval h") (simp_all add: stopHeartbeat_def removeAll_only)

lemma closed_peers: "set (cs_peers h) \<subseteq> set_option (cs_peer h) \<Longrightarrow> cs_peers (closePeer h) = []"
  by (cases "cs_peer h") (simp_all add: closePeer_def removeAll_only)

lemma unmounted:
  assumes "one_start h"
  shows "cs_intervals (fst (unmount deviceRole h)) = []" and "cs_live (fst (unmount deviceRole h)) = []"
  using assms by (auto simp: one_start_def unmount_def Let_def removeAll_only stopped_heartbeat split: option.split)

lemma single_stage [simp]:
  "cs_starts h = [(i, stage)] \<Longrightarrow> cs_starts (set_stage i stage' h) = [(i, stage')]"
  by (simp add: set_stage_def)

lemma disconnected_one: "one_start h \<Longrightarrow> one_start (fst (markDisconnected deviceRole h))"
proof -
  assume h: "one_start h"
  have "cs_intervals (stopHeartbeat h) = []" using h by (simp add: one_start_def stopped_heartbeat)
  then show ?thesis using h by (auto simp: markDisconnected_def one_start_def)
qed

lemma step_one:
  assumes "one_start h" and "e \<noteq> SocketConnected"
  shows "one_start (fst (camera_step deviceRole e h))"
proof (cases e)
  case (MediaGranted i video)
  then show ?thesis using assms(1) one_start_cases [of "cs_starts h" i MediaAsked]
    by (auto simp: one_start_def media_granted_def stream_shown_def Let_def)
next
  case (Resumed i)
  show ?thesis
  proof (cases "map_of (cs_starts h) i")
    case (Some stage)
    then have starts: "cs_starts h = [(i, stage)]" using assms(1) by (intro one_start_cases) (auto simp: one_start_def)
    then have "one_start (fst (start_resumed deviceRole i stage h))"
      using assms(1) by (cases stage) (auto simp: one_start_def stream_shown_def start_heartbeat_def Let_def case_prod_beta)
    then show ?thesis using Resumed Some by simp
  qed (use Resumed assms(1) in simp)
next
  case (Rejected i)
  then show ?thesis using assms(1) one_start_cases [of "cs_starts h" i]
    by (auto simp: one_start_def start_rejected_def split: option.split)
next
  case SocketDisconnected
  then show ?thesis using assms(1) disconnected_one by simp
next
  case (TrackEnded stream)
  have "one_start (h\<lparr>cs_live := removeAll stream (cs_live h)\<rparr>)" using assms(1) by (auto simp: one_start_def)
  then show ?thesis using TrackEnded disconnected_one by (simp add: Let_def)
next
  case Unmounted
  have "cs_starts (fst (unmount deviceRole h)) = cs_starts h" by (simp add: unmount_def Let_def)
  then have "one_start (fst (unmount deviceRole h))" using assms(1) unmounted [OF assms(1), of deviceRole] by (simp add: one_start_def)
  then show ?thesis using Unmounted assms(1) by simp
qed (use assms in \<open>auto simp: one_start_def\<close>)

lemma step_untouched: "untouched h \<Longrightarrow> e \<noteq> SocketConnected \<Longrightarrow> untouched (fst (camera_step deviceRole e h))"
  by (cases e) (auto simp: untouched_def createOffer_def markDisconnected_def stopHeartbeat_def unmount_def closePeer_def Let_def split: option.split)

lemma connected_one: "untouched h \<Longrightarrow> one_start (fst (camera_step deviceRole SocketConnected h))"
  by (simp add: untouched_def one_start_def)

lemma run_one:
  "one_start h \<Longrightarrow> count_list es SocketConnected = 0 \<Longrightarrow> one_start (fst (camera_run deviceRole es h))"
proof (induction es arbitrary: h)
  case (Cons e es)
  then show ?case using step_one [of h e deviceRole] by (simp add: case_prod_beta Let_def split: if_splits)
qed simp

lemma run_untouched:
  "untouched h \<Longrightarrow> count_list es SocketConnected \<le> 1 \<Longrightarrow> one_start (fst (camera_run deviceRole es h))"
proof (induction es arbitrary: h)
  case (Cons e es)
  show ?case
  proof (cases "e = SocketConnected")
    case True
    then show ?thesis using run_one [OF connected_one [OF Cons.prems(1), of deviceRole], of es deviceRole] Cons.prems(2)
      by (simp add: case_prod_beta Let_def)
  next
    case False
    then show ?thesis using Cons.IH [OF step_untouched [OF Cons.prems(1) False, of deviceRole]] Cons.prems(2)
      by (simp add: case_prod_beta Let_def)
  qed
qed (simp add: untouched_one)

interpretation held_peers: page_machine "camera_step deviceRole" peers_held for deviceRole
  by unfold_locales (rule step_peers)

section \<open>After the page\<close>

definition all_stopped :: "camera_hook \<Rightarrow> bool" where
  "all_stopped h \<longleftrightarrow> \<not> cs_active h \<and> cs_starts h = [] \<and> cs_live h = [] \<and> cs_intervals h = [] \<and> cs_peers h = []"

interpretation stopped_hook: silent_page "camera_step deviceRole" all_stopped for deviceRole
  by unfold_locales (case_tac e; auto simp: all_stopped_def createOffer_def split: option.split)+

text \<open>C26. Suppose the socket of a page connected at most once (a reconnection loses a stream, see below) and the page, with its camera
  active, is left while no start of the camera is under way. Then everything it opened is stopped: the camera, the heartbeat and the
  connections to the proctor; and nothing that happens later sends anything, so the device is never again reported as connected.\<close>

theorem leaving_stops_the_camera:
  assumes "count_list es SocketConnected \<le> 1" and "cs_starts (fst (camera_run deviceRole es mounted_hook)) = []"
    and "cs_active (fst (camera_run deviceRole es mounted_hook))"
    and "left = fst (camera_step deviceRole Unmounted (fst (camera_run deviceRole es mounted_hook)))"
  shows "cs_live left = [] \<and> cs_intervals left = [] \<and> cs_peers left = [] \<and> snd (camera_run deviceRole later left) = []"
proof -
  let ?h = "fst (camera_run deviceRole es mounted_hook)"
  have "one_start ?h" using assms(1) by (intro run_untouched) (simp_all add: untouched_def mounted_hook_def)
  then have none: "cs_intervals left = []" "cs_live left = []" using assms(3) unmounted by (simp_all add: assms(4))
  have "peers_held ?h" by (rule held_peers.run_keeps) (simp add: peers_held_def mounted_hook_def)
  then have "cs_peers left = []" using assms(3) by (simp add: assms(4) peers_held_def unmount_def Let_def closed_peers)
  then have "all_stopped left" using none assms(2,3) by (simp add: all_stopped_def assms(4) unmount_def Let_def)
  then show ?thesis using stopped_hook.run_is_silent [of left deviceRole later] by (simp add: all_stopped_def)
qed

lemma leaving_stops_the_camera_witness:
  "let left = fst (camera_step MOBILE_AUX Unmounted (fst (camera_run MOBILE_AUX
     [SocketConnected, MediaGranted 0 True, Resumed 0, Resumed 0, HeartbeatDue 2, Resumed 0] mounted_hook)))
   in cs_live left = [] \<and> cs_intervals left = [] \<and> snd (camera_run MOBILE_AUX [HeartbeatDue 2, OfferRequested] left) = []"
proof -
  let ?es = "[SocketConnected, MediaGranted 0 True, Resumed 0, Resumed 0, HeartbeatDue 2, Resumed 0]"
  have run: "cs_starts (fst (camera_run MOBILE_AUX ?es mounted_hook)) = []" "cs_active (fst (camera_run MOBILE_AUX ?es mounted_hook))" by code_simp+
  show ?thesis using leaving_stops_the_camera [OF _ run refl, of "[HeartbeatDue 2, OfferRequested]"] by (simp del: run_page.simps camera_step.simps)
qed

text \<open>Without the two conditions something is left behind: a page left while the report of the device is under way starts the heartbeat
  afterwards and goes on to report the camera as connected, and a reconnection replaces the reference to a stream that is not stopped.\<close>

lemma a_heartbeat_outlives_the_page:
  "snd (camera_run MOBILE_AUX [SocketConnected, MediaGranted 0 False, Unmounted, Resumed 0, HeartbeatDue 2] mounted_hook) =
     [DeviceReport DEV_CONNECTED, DeviceReport DEV_DISCONNECTED, EventReport MOBILE_CAMERA_DISCONNECTED, EventReport MOBILE_CAMERA_CONNECTED,
      DeviceReport DEV_CONNECTED]"
  by code_simp

lemma a_reconnection_leaves_a_camera_on:
  "cs_live (fst (camera_run PRIMARY_PC [SocketConnected, MediaGranted 0 False, Resumed 0, Resumed 0, SocketDisconnected,
     SocketConnected, MediaGranted 4 False, Resumed 4, Resumed 4, Unmounted] mounted_hook)) = [1]"
  by code_simp

end
