(* ===== verification/Masking.thy ===== *)
theory Masking
  imports JsText
begin

text \<open>
  The masks of the administration's pages (\<open>privacyMasking.ts\<close>). What a mask hides is stated as independence: two values that agree on
  the part that stays visible look the same.
\<close>

section \<open>The masks\<close>

definition stars :: "nat \<Rightarrow> string" where
  "stars n = replicate n CHR ''*''"

definition maskNamePart :: "string \<Rightarrow> string" where
  "maskNamePart characters =
     (if characters = [] then []
      else if length characters \<le> 2 then hd characters # ''*''
      else hd characters # stars (length characters - 2) @ [last characters])"

fun split_spaces :: "string \<Rightarrow> string list" where
  "split_spaces [] = [[]]"
| "split_spaces (c # s) = (if js_space c then [] # split_spaces s
     else (case split_spaces s of [] \<Rightarrow> [[c]] | w # ws \<Rightarrow> (c # w) # ws))"

text \<open>\<open>trim().split(/\s+/u).filter(Boolean)\<close>.\<close>

definition name_parts :: "string \<Rightarrow> string list" where
  "name_parts s = filter (\<lambda>w. w \<noteq> []) (split_spaces (trim s))"

definition maskDisplayName :: "string \<Rightarrow> string" where
  "maskDisplayName s = join_with '' '' (map maskNamePart (name_parts s))"

fun last_index_of :: "char \<Rightarrow> string \<Rightarrow> nat option" where
  "last_index_of d [] = None"
| "last_index_of d (c # s) = (case last_index_of d s of Some n \<Rightarrow> Some (Suc n) | None \<Rightarrow> if c = d then Some 0 else None)"

definition maskEmailAddress :: "string \<Rightarrow> string" where
  "maskEmailAddress s = (case last_index_of CHR ''@'' s of
       Some (Suc n) \<Rightarrow>
         (let separator = Suc n; localPart = take separator s; domain = drop (Suc separator) s; visibleLength = min 2 (length localPart)
          in take visibleLength localPart @ stars (max 1 (length localPart - visibleLength)) @ ''@'' @ domain)
     | _ \<Rightarrow> maskNamePart s)"

definition digits_of :: "string \<Rightarrow> string" where
  "digits_of s = filter is_digit s"

definition last_four :: "string \<Rightarrow> string" where
  "last_four digits = drop (length digits - 4) digits"

definition maskPhoneNumber :: "string \<Rightarrow> string" where
  "maskPhoneNumber s = (let digits = digits_of s in
     if length digits < 7 then stars (max 1 (length digits))
     else take 3 digits @ ''-'' @ stars (max 3 (length digits - 7)) @ ''-'' @ last_four digits)"

definition maskResidentRegistrationNumber :: "string \<Rightarrow> string" where
  "maskResidentRegistrationNumber s = (let digits = digits_of s in
     if 6 \<le> length digits then take 6 digits @ ''-*******'' else ''******-*******'')"

text \<open>\<open>replace(/(.{4})(?=.)/gu, "$1-")\<close>.\<close>

fun groups_of_four :: "string \<Rightarrow> string" where
  "groups_of_four (a # b # c # d # e # s) = a # b # c # d # CHR ''-'' # groups_of_four (e # s)"
| "groups_of_four s = s"

definition maskCardNumber :: "string \<Rightarrow> string" where
  "maskCardNumber s = (let digits = digits_of s in
     if length digits < 10 then ''****-****-****-****''
     else groups_of_four (take 6 digits @ stars (length digits - 10) @ last_four digits))"

definition maskAddress :: "string \<Rightarrow> string" where
  "maskAddress s = map (\<lambda>c. if is_digit c then CHR ''*'' else c) s"

definition maskIpAddress :: "string \<Rightarrow> string" where
  "maskIpAddress s =
     (case split_on CHR ''.'' s of
        [a, b, c, d] \<Rightarrow> a @ ''.'' @ b @ ''.***.'' @ d
      | _ \<Rightarrow> (let ipv6Parts = split_on CHR '':'' s
              in if 2 < length ipv6Parts then join_with '':'' (butlast ipv6Parts @ [''****'']) else ''***''))"

section \<open>What stays visible\<close>

text \<open>Parts of a name that look the same: their first character is the same, and either both have at most two characters, or as many
  characters and the same last one.\<close>

definition same_part :: "string \<Rightarrow> string \<Rightarrow> bool" where
  "same_part v w \<longleftrightarrow> (v = [] \<longleftrightarrow> w = []) \<and> (v \<noteq> [] \<longrightarrow> hd v = hd w \<and>
     (length v \<le> 2 \<and> length w \<le> 2 \<or> 2 < length v \<and> length v = length w \<and> last v = last w))"

lemma length_stars [simp]: "length (stars n) = n"
  by (simp add: stars_def)

lemma stars_inj [simp]: "stars m = stars n \<longleftrightarrow> m = n"
  by (metis length_stars)

lemma part_shapes:
  "u \<noteq> [] \<Longrightarrow> length u \<le> 2 \<Longrightarrow> maskNamePart u = [hd u, CHR ''*'']"
  "2 < length u \<Longrightarrow> maskNamePart u = hd u # stars (length u - 2) @ [last u]"
  by (auto simp: maskNamePart_def)

lemma part_ends:
  "length (maskNamePart u) = (if u = [] then 0 else max 2 (length u))"
  "u \<noteq> [] \<Longrightarrow> hd (maskNamePart u) = hd u" "2 < length u \<Longrightarrow> last (maskNamePart u) = last u"
  by (cases u; auto simp: maskNamePart_def; fail)+

lemma mask_part: "maskNamePart v = maskNamePart w \<longleftrightarrow> same_part v w"
proof
  assume eq: "maskNamePart v = maskNamePart w"
  then have "length (maskNamePart v) = length (maskNamePart w)" "hd (maskNamePart v) = hd (maskNamePart w)"
    "last (maskNamePart v) = last (maskNamePart w)" by simp_all
  then have len: "(if v = [] then 0 else max 2 (length v)) = (if w = [] then 0 else max 2 (length w))"
    and ends: "v \<noteq> [] \<Longrightarrow> w \<noteq> [] \<Longrightarrow> hd v = hd w" "2 < length v \<Longrightarrow> 2 < length w \<Longrightarrow> last v = last w"
    by (simp_all add: part_ends del: if_weak_cong cong: if_cong)
  show "same_part v w"
  proof (cases "v = [] \<or> w = []")
    case False
    then have "max 2 (length v) = max 2 (length w)" using len by simp
    then show ?thesis using False ends by (auto simp: same_part_def max_def split: if_splits)
  qed (use len in \<open>auto simp: same_part_def split: if_splits\<close>)
next
  assume same: "same_part v w"
  then consider "v = []" "w = []" | "v \<noteq> []" "w \<noteq> []" "hd v = hd w" "length v \<le> 2" "length w \<le> 2"
    | "v \<noteq> []" "w \<noteq> []" "hd v = hd w" "2 < length v" "length v = length w" "last v = last w"
    unfolding same_part_def by blast
  then show "maskNamePart v = maskNamePart w" by cases (simp_all add: part_shapes)
qed

text \<open>The masked parts can be told apart in the masked name.\<close>

lemma split_spaces_free: "\<forall>w \<in> set (split_spaces s). \<forall>c \<in> set w. \<not> js_space c"
  by (induction s) (auto split: list.splits)

lemma masked_parts_read_back: "filter (\<lambda>w. w \<noteq> []) (split_on CHR '' '' (maskDisplayName s)) = map maskNamePart (name_parts s)"
proof -
  have free: "CHR '' '' \<notin> set (maskNamePart w)" "maskNamePart w \<noteq> []" if "w \<in> set (name_parts s)" for w
  proof -
    have "w \<noteq> []" "\<forall>c \<in> set w. \<not> js_space c" using that split_spaces_free by (auto simp: name_parts_def)
    moreover have "js_space CHR '' ''" by code_simp
    ultimately show "CHR '' '' \<notin> set (maskNamePart w)" "maskNamePart w \<noteq> []"
      by (auto simp: maskNamePart_def stars_def)
  qed
  show ?thesis
  proof (cases "name_parts s = []")
    case True
    then show ?thesis by (simp add: maskDisplayName_def)
  next
    case False
    then have "split_on CHR '' '' (maskDisplayName s) = map maskNamePart (name_parts s)"
      unfolding maskDisplayName_def using free(1) by (intro split_joined) auto
    then show ?thesis using free(2) by (auto intro: filter_True)
  qed
qed

lemma mask_name: "maskDisplayName v = maskDisplayName w \<longleftrightarrow> list_all2 same_part (name_parts v) (name_parts w)"
proof
  assume "maskDisplayName v = maskDisplayName w"
  then have "map maskNamePart (name_parts v) = map maskNamePart (name_parts w)" by (metis masked_parts_read_back)
  then show "list_all2 same_part (name_parts v) (name_parts w)"
    by (simp add: list_all2_conv_all_nth list_eq_iff_nth_eq flip: mask_part)
next
  assume "list_all2 same_part (name_parts v) (name_parts w)"
  then have "map maskNamePart (name_parts v) = map maskNamePart (name_parts w)"
    by (simp add: list_all2_conv_all_nth list_eq_iff_nth_eq flip: mask_part)
  then show "maskDisplayName v = maskDisplayName w" by (simp add: maskDisplayName_def)
qed

lemma last_index_of_none: "d \<notin> set s \<Longrightarrow> last_index_of d s = None"
  by (induction s) auto

lemma last_index_of_append: "d \<notin> set s \<Longrightarrow> last_index_of d (l @ d # s) = Some (length l)"
proof -
  assume s: "d \<notin> set s"
  then have "last_index_of d s = None" by (rule last_index_of_none)
  then show ?thesis by (induction l) auto
qed

lemma maskEmail_local:
  assumes "l \<noteq> []" and "CHR ''@'' \<notin> set domain"
  shows "maskEmailAddress (l @ ''@'' @ domain) = take 2 l @ stars (max 1 (length l - min 2 (length l))) @ ''@'' @ domain"
proof -
  obtain n where n: "length l = Suc n" using assms(1) by (cases l) auto
  have "last_index_of CHR ''@'' (l @ ''@'' @ domain) = Some (Suc n)"
    using last_index_of_append [OF assms(2), of l] by (simp add: n)
  moreover have "take (min 2 (Suc n)) l = take 2 l" using n by (cases "n = 0") (auto simp: min_def)
  ultimately show ?thesis unfolding maskEmailAddress_def by (simp add: Let_def n)
qed

lemma mask_email:
  assumes "l \<noteq> []" "l' \<noteq> []" and "CHR ''@'' \<notin> set domain" "CHR ''@'' \<notin> set domain'"
  shows "maskEmailAddress (l @ ''@'' @ domain) = maskEmailAddress (l' @ ''@'' @ domain') \<longleftrightarrow>
    domain = domain' \<and> take 2 l = take 2 l' \<and> max 1 (length l - 2) = max 1 (length l' - 2)" (is "?same \<longleftrightarrow> ?shown")
proof -
  have hidden: "length l - min 2 (length l) = length l - 2" for l :: string by simp
  note masked = maskEmail_local [OF assms(1,3), unfolded hidden] maskEmail_local [OF assms(2,4), unfolded hidden]
  show ?thesis
  proof
    assume ?same
    from this [unfolded masked] have eq: "(take 2 l @ stars (max 1 (length l - 2))) @ CHR ''@'' # domain =
        (take 2 l' @ stars (max 1 (length l' - 2))) @ CHR ''@'' # domain'" (is "?p @ _ # _ = ?q @ _ # _")
      by simp
    then have "length ?p = length ?q"
      using last_index_of_append [OF assms(3), of ?p] last_index_of_append [OF assms(4), of ?q] by simp
    then have "?p = ?q \<and> CHR ''@'' # domain = CHR ''@'' # domain'" using append_eq_append_conv [THEN iffD1, OF disjI1] eq by blast
    then have parts: "?p = ?q" "domain = domain'" by simp_all
    then have "length ?p = length ?q" by simp
    moreover have "0 < length l" "0 < length l'" using assms(1,2) by simp_all
    ultimately have "length (take 2 l) = length (take 2 l')" by (simp add: min_def max_def split: if_splits)
    with parts show ?shown by simp
  next
    assume ?shown
    then show ?same unfolding masked by simp
  qed
qed

lemma mask_no_local:
  assumes "CHR ''@'' \<notin> set (tl s)"
  shows "maskEmailAddress s = maskNamePart s"
proof (cases s)
  case (Cons c r)
  then have "last_index_of CHR ''@'' r = None" using assms by (simp add: last_index_of_none)
  with Cons show ?thesis by (simp add: maskEmailAddress_def)
qed (simp add: maskEmailAddress_def)

lemma not_digits: "\<not> is_digit CHR ''*''" "\<not> is_digit CHR ''-''"
  by code_simp+

lemma digits_parts:
  "digits_of (v @ w) = digits_of v @ digits_of w" "digits_of (stars n) = []" "digits_of ''-'' = []"
  "digits_of (take n (digits_of s)) = take n (digits_of s)" "digits_of (last_four (digits_of s)) = last_four (digits_of s)"
proof -
  have sub: "digits_of xs = xs" if "set xs \<subseteq> set (digits_of s)" for xs
    using that unfolding digits_of_def by (intro filter_True) auto
  show "digits_of (take n (digits_of s)) = take n (digits_of s)" by (rule sub) (rule set_take_subset)
  show "digits_of (last_four (digits_of s)) = last_four (digits_of s)" by (rule sub) (simp add: last_four_def set_drop_subset)
  show "digits_of (stars n) = []" "digits_of ''-'' = []" using not_digits by (simp_all add: digits_of_def stars_def)
qed (simp add: digits_of_def)

lemma length_last_four [simp]: "length (last_four digits) = min 4 (length digits)"
  by (simp add: last_four_def)

text \<open>Two numbers of which the mask of a telephone number shows the same.\<close>

definition same_phone :: "string \<Rightarrow> string \<Rightarrow> bool" where
  "same_phone v w \<longleftrightarrow> (let m = length v; n = length w in
     m < 7 \<and> n < 7 \<and> max 1 m = max 1 n \<or>
     7 \<le> m \<and> 7 \<le> n \<and> max 10 m = max 10 n \<and> take 3 v = take 3 w \<and> last_four v = last_four w)"

lemma phone_digits: "digits_of (maskPhoneNumber s) = (if length (digits_of s) < 7 then [] else take 3 (digits_of s) @ last_four (digits_of s))"
  by (simp add: maskPhoneNumber_def Let_def digits_parts del: append.simps)

lemma phone_length:
  "length (maskPhoneNumber s) = (let n = length (digits_of s) in if n < 7 then max 1 n else max 10 n + 2)"
  by (auto simp: maskPhoneNumber_def Let_def max_def)

lemma mask_phone: "maskPhoneNumber v = maskPhoneNumber w \<longleftrightarrow> same_phone (digits_of v) (digits_of w)"
proof
  assume eq: "maskPhoneNumber v = maskPhoneNumber w"
  have "digits_of (maskPhoneNumber v) = digits_of (maskPhoneNumber w)" "length (maskPhoneNumber v) = length (maskPhoneNumber w)"
    using eq by simp_all
  then show "same_phone (digits_of v) (digits_of w)"
    unfolding phone_digits phone_length same_phone_def Let_def by (auto split: if_splits)
next
  assume "same_phone (digits_of v) (digits_of w)"
  then show "maskPhoneNumber v = maskPhoneNumber w"
    by (auto simp: same_phone_def maskPhoneNumber_def Let_def max_def split: if_splits)
qed

lemma ungrouped: "CHR ''-'' \<notin> set s \<Longrightarrow> filter (\<lambda>c. c \<noteq> CHR ''-'') (groups_of_four s) = s"
  by (induction s rule: groups_of_four.induct) (auto intro: filter_True)

lemma mask_card:
  "maskCardNumber v = maskCardNumber w \<longleftrightarrow>
     length (digits_of v) < 10 \<and> length (digits_of w) < 10 \<or>
     10 \<le> length (digits_of v) \<and> length (digits_of v) = length (digits_of w) \<and>
       take 6 (digits_of v) = take 6 (digits_of w) \<and> last_four (digits_of v) = last_four (digits_of w)" (is "?same \<longleftrightarrow> ?shown")
proof -
  have plain: "filter (\<lambda>c. c \<noteq> CHR ''-'') (maskCardNumber s) =
      (if length (digits_of s) < 10 then stars 16
       else take 6 (digits_of s) @ stars (length (digits_of s) - 10) @ last_four (digits_of s))" for s
  proof -
    have "CHR ''-'' \<notin> set (digits_of s)" using not_digits by (simp add: digits_of_def)
    then have "CHR ''-'' \<notin> set (take 6 (digits_of s) @ stars n @ last_four (digits_of s))" for n
      by (auto simp: stars_def last_four_def dest: in_set_takeD in_set_dropD)
    then show ?thesis by (simp add: maskCardNumber_def Let_def ungrouped) (simp add: stars_def eval_nat_numeral)
  qed
  show ?thesis
  proof
    assume ?same
    then have same: "filter (\<lambda>c. c \<noteq> CHR ''-'') (maskCardNumber v) = filter (\<lambda>c. c \<noteq> CHR ''-'') (maskCardNumber w)" by simp
    then have "digits_of (filter (\<lambda>c. c \<noteq> CHR ''-'') (maskCardNumber v)) = digits_of (filter (\<lambda>c. c \<noteq> CHR ''-'') (maskCardNumber w))"
      "length (filter (\<lambda>c. c \<noteq> CHR ''-'') (maskCardNumber v)) = length (filter (\<lambda>c. c \<noteq> CHR ''-'') (maskCardNumber w))" by simp_all
    then show ?shown unfolding plain by (auto simp: digits_parts split: if_splits)
  qed (auto simp: maskCardNumber_def Let_def)
qed

lemma mask_registration:
  "maskResidentRegistrationNumber v = maskResidentRegistrationNumber w \<longleftrightarrow>
     length (digits_of v) < 6 \<and> length (digits_of w) < 6 \<or>
     6 \<le> length (digits_of v) \<and> 6 \<le> length (digits_of w) \<and> take 6 (digits_of v) = take 6 (digits_of w)" (is "?same \<longleftrightarrow> ?shown")
proof
  have digits: "digits_of (maskResidentRegistrationNumber s) = (if length (digits_of s) < 6 then [] else take 6 (digits_of s))" for s
    using not_digits digits_parts(4) [of 6 s] by (simp add: maskResidentRegistrationNumber_def Let_def digits_of_def)
  assume ?same
  then have "digits_of (maskResidentRegistrationNumber v) = digits_of (maskResidentRegistrationNumber w)" by simp
  then show ?shown unfolding digits by (auto split: if_splits)
qed (auto simp: maskResidentRegistrationNumber_def Let_def)

text \<open>Two characters of a postal address that look the same; a star of the address itself looks like a digit.\<close>

definition same_address_char :: "char \<Rightarrow> char \<Rightarrow> bool" where
  "same_address_char c d \<longleftrightarrow> c = d \<or> (is_digit c \<or> c = CHR ''*'') \<and> (is_digit d \<or> d = CHR ''*'')"

lemma mask_address: "maskAddress v = maskAddress w \<longleftrightarrow> list_all2 same_address_char v w"
proof -
  have "(if is_digit c then CHR ''*'' else c) = (if is_digit d then CHR ''*'' else d) \<longleftrightarrow> same_address_char c d" for c d
    using not_digits by (auto simp: same_address_char_def)
  then show ?thesis by (simp add: maskAddress_def list_all2_map1 list_all2_map2 flip: list.rel_eq)
qed

lemma mask_ipv4:
  assumes "CHR ''.'' \<notin> set a \<union> set b \<union> set x \<union> set d"
  shows "maskIpAddress (a @ ''.'' @ b @ ''.'' @ x @ ''.'' @ d) = a @ ''.'' @ b @ ''.***.'' @ d"
  using assms split_on_append [of "CHR ''.''" a] split_on_append [of "CHR ''.''" b] split_on_append [of "CHR ''.''" x]
    split_on_single [of "CHR ''.''" d] by (simp add: maskIpAddress_def)

lemma mask_not_ipv4:
  "length (split_on CHR ''.'' s) \<noteq> 4 \<Longrightarrow> maskIpAddress s =
     (if 2 < length (split_on CHR '':'' s) then join_with '':'' (butlast (split_on CHR '':'' s) @ [''****'']) else ''***'')"
  by (auto simp: maskIpAddress_def Let_def split: list.split)

lemma split_last: "d \<notin> set x \<Longrightarrow> split_on d (p @ d # x) = split_on d p @ [x]"
  by (induction p) (auto simp: split_on_single split_on_nonempty split: list.splits)

lemma length_split: "length (split_on d s) = Suc (count_list s d)"
  by (induction s) (auto simp: split_on_nonempty split: list.splits)

lemma join_snoc: "ws \<noteq> [] \<Longrightarrow> join_with sep (ws @ [w]) = join_with sep ws @ sep @ w"
  by (induction sep ws rule: join_with.induct) auto

lemma mask_ipv6:
  assumes "count_list (p @ '':'' @ x) CHR ''.'' \<noteq> 3" and "CHR '':'' \<in> set p" and "CHR '':'' \<notin> set x"
  shows "maskIpAddress (p @ '':'' @ x) = p @ '':****''"
proof -
  have "length (split_on CHR ''.'' (p @ '':'' @ x)) \<noteq> 4" using assms(1) by (simp add: length_split)
  moreover have "0 < count_list p CHR '':''" using assms(2) by (simp add: count_list_0_iff flip: neq0_conv)
  moreover have "split_on CHR '':'' (p @ '':'' @ x) = split_on CHR '':'' p @ [x]" using split_last [OF assms(3)] by simp
  ultimately show ?thesis
    using split_on_nonempty [of "CHR '':''" p] join_split [of "CHR '':''" p] by (simp add: mask_not_ipv4 length_split join_snoc)
qed

lemma mask_no_ip:
  "count_list s CHR ''.'' \<noteq> 3 \<Longrightarrow> count_list s CHR '':'' < 2 \<Longrightarrow> maskIpAddress s = ''***''"
  by (simp add: mask_not_ipv4 length_split)

text \<open>C40. Two values look the same behind a mask exactly if they agree on what it leaves visible: of every part of a name the first
  character and, beyond two characters, its length and the last one; of an address of mail the domain, two characters of the local
  part and its length, or, without a local part, what is shown of a part of a name; of a telephone number the first three and the last
  four digits and how far it goes beyond ten, or below seven digits only how many they are; of a card number its length, the first
  six and the last four digits, or below ten digits nothing; of a registration number the first six digits, or below six nothing;
  of a postal address everything but its digits. Of an IPv4 address the third number is replaced, of one with colons the last
  group, and of anything else nothing is shown.\<close>

theorem masks_show_nothing_else:
  "(maskDisplayName v = maskDisplayName w \<longleftrightarrow> list_all2 same_part (name_parts v) (name_parts w)) \<and>
   (l \<noteq> [] \<and> l' \<noteq> [] \<and> CHR ''@'' \<notin> set domain \<union> set domain' \<longrightarrow>
      (maskEmailAddress (l @ ''@'' @ domain) = maskEmailAddress (l' @ ''@'' @ domain') \<longleftrightarrow>
        domain = domain' \<and> take 2 l = take 2 l' \<and> max 1 (length l - 2) = max 1 (length l' - 2))) \<and>
   (CHR ''@'' \<notin> set (tl v) \<union> set (tl w) \<longrightarrow> (maskEmailAddress v = maskEmailAddress w \<longleftrightarrow> same_part v w)) \<and>
   (maskPhoneNumber v = maskPhoneNumber w \<longleftrightarrow> same_phone (digits_of v) (digits_of w)) \<and>
   (maskCardNumber v = maskCardNumber w \<longleftrightarrow>
      length (digits_of v) < 10 \<and> length (digits_of w) < 10 \<or>
      10 \<le> length (digits_of v) \<and> length (digits_of v) = length (digits_of w) \<and>
        take 6 (digits_of v) = take 6 (digits_of w) \<and> last_four (digits_of v) = last_four (digits_of w)) \<and>
   (maskResidentRegistrationNumber v = maskResidentRegistrationNumber w \<longleftrightarrow>
      length (digits_of v) < 6 \<and> length (digits_of w) < 6 \<or>
      6 \<le> length (digits_of v) \<and> 6 \<le> length (digits_of w) \<and> take 6 (digits_of v) = take 6 (digits_of w)) \<and>
   (maskAddress v = maskAddress w \<longleftrightarrow> list_all2 same_address_char v w) \<and>
   (CHR ''.'' \<notin> set a \<union> set b \<union> set x \<union> set d \<longrightarrow>
      maskIpAddress (a @ ''.'' @ b @ ''.'' @ x @ ''.'' @ d) = a @ ''.'' @ b @ ''.***.'' @ d) \<and>
   (count_list (p @ '':'' @ x) CHR ''.'' \<noteq> 3 \<and> CHR '':'' \<in> set p \<and> CHR '':'' \<notin> set x \<longrightarrow> maskIpAddress (p @ '':'' @ x) = p @ '':****'') \<and>
   (count_list v CHR ''.'' \<noteq> 3 \<and> count_list v CHR '':'' < 2 \<longrightarrow> maskIpAddress v = ''***'')"
  using mask_email [of l l' domain domain'] mask_no_local [of v] mask_no_local [of w]
  by (simp add: mask_name mask_phone mask_card mask_registration mask_address mask_ipv4 mask_ipv6 mask_no_ip mask_part
      del: append.simps)

lemma masks_show_nothing_else_witness:
  "maskEmailAddress (''hong'' @ ''@'' @ ''x.io'') = maskEmailAddress (''hoxx'' @ ''@'' @ ''x.io'') \<and>
   maskEmailAddress ''ab'' = maskEmailAddress ''ac'' \<and>
   maskIpAddress (''1'' @ ''.'' @ ''2'' @ ''.'' @ ''3'' @ ''.'' @ ''4'') = ''1'' @ ''.'' @ ''2'' @ ''.***.'' @ ''4'' \<and>
   maskIpAddress (''fe80:'' @ '':'' @ ''1'') = ''fe80:'' @ '':****'' \<and> maskIpAddress ''ab'' = ''***''"
proof -
  note masked = masks_show_nothing_else [of "''ab''" "''ac''" "''hong''" "''hoxx''" "''x.io''" "''x.io''" "''1''" "''2''" "''3''" "''4''" "''fe80:''"]
    masks_show_nothing_else [of "''ab''" "''ac''" "''hong''" "''hoxx''" "''x.io''" "''x.io''" "''1''" "''2''" "''1''" "''4''" "''fe80:''"]
  show ?thesis
    using masked [THEN conjunct2] by (simp add: same_part_def del: append.simps)
qed

section \<open>What is not hidden\<close>

text \<open>A phone number of seven digits is shown whole, between stars that stand for nothing.\<close>

lemma seven_digits_are_shown:
  assumes "length (digits_of s) = 7"
  shows "digits_of (maskPhoneNumber s) = digits_of s"
proof -
  have "digits_of (maskPhoneNumber s) = take 3 (digits_of s) @ last_four (digits_of s)"
    using assms by (simp add: maskPhoneNumber_def Let_def digits_parts del: append.simps)
  also have "\<dots> = digits_of s" using assms by (simp add: last_four_def)
  finally show ?thesis .
qed

text \<open>So is a card number of ten digits.\<close>

lemma ten_digits_are_shown: "maskCardNumber ''1234567890'' = ''1234-5678-90''"
  by code_simp

end
