(* ===== verification/ProctorDashboard.thy ===== *)
theory ProctorDashboard
  imports Proctor Readiness PageMachine
begin

text \<open>
  The pages of the proctors (\<open>proctoring.ts\<close>, \<open>LiveProctorDashboard.tsx\<close>): the ICE servers of the connections, the colour of an
  event, the filter of the candidates, and the connections and streams of the live view as a machine over the events of its socket.
  The texts of the labels are left out; an answer to an offer is taken to be made at once.
\<close>

section \<open>ICE servers\<close>

datatype ice_urls = OneUrl string | ManyUrls "string list"

record ice_server =
  ice_urls :: ice_urls
  ice_username :: "string option"
  ice_credential :: "string option"

definition defaultIceServers :: "ice_server list" where
  "defaultIceServers = [\<lparr>ice_urls = OneUrl ''stun:stun.l.google.com:19302'', ice_username = None, ice_credential = None\<rparr>]"

definition json_strings :: "json list \<Rightarrow> string list" where
  "json_strings entries = concat (map (\<lambda>entry. case entry of JStr s \<Rightarrow> [s] | _ \<Rightarrow> []) entries)"

definition parseIceServer :: "json \<Rightarrow> ice_server option" where
  "parseIceServer v = (case v of
       JObj _ \<Rightarrow>
         (let server = (\<lambda>urls. \<lparr>ice_urls = urls, ice_username = json_text (json_field v ''username''),
                ice_credential = json_text (json_field v ''credential'')\<rparr>)
          in case json_field v ''urls'' of
               Some (JStr url) \<Rightarrow> Some (server (OneUrl url))
             | Some (JArr urls) \<Rightarrow> if json_strings urls = [] then None else Some (server (ManyUrls (json_strings urls)))
             | _ \<Rightarrow> None)
     | _ \<Rightarrow> None)"

text \<open>\<open>parse\<close> is \<open>JSON.parse\<close>; None is its \<open>SyntaxError\<close>.\<close>

definition getProctorIceServers :: "(string \<Rightarrow> json option) \<Rightarrow> string option \<Rightarrow> ice_server list" where
  "getProctorIceServers parse raw = (case raw of
       None \<Rightarrow> defaultIceServers
     | Some setting \<Rightarrow>
         if trim setting = [] then defaultIceServers
         else (case parse setting of
             Some (JArr entries) \<Rightarrow>
               (let configured = concat (map (\<lambda>entry. case parseIceServer entry of Some server \<Rightarrow> [server] | None \<Rightarrow> []) entries)
                in if configured \<noteq> [] then configured else defaultIceServers)
           | _ \<Rightarrow> defaultIceServers))"

fun server_urls :: "ice_urls \<Rightarrow> string list" where
  "server_urls (OneUrl url) = [url]"
| "server_urls (ManyUrls urls) = urls"

lemma parsed_server:
  assumes "parseIceServer v = Some server"
  shows "server_urls (ice_urls server) \<noteq> []"
  using assms by (auto simp: parseIceServer_def Let_def split: json.splits option.splits if_splits)

lemma turn_server_parses:
  assumes "isUsableTurnServer v"
  shows "\<exists>server. parseIceServer v = Some server \<and> (\<exists>url \<in> set (server_urls (ice_urls server)). isTurnUrl url) \<and>
    hasUsableConfigValue (ice_username server) \<and> hasUsableConfigValue (ice_credential server)"
proof -
  obtain fields where v: "v = JObj fields" using assms by (cases v) (auto simp: isUsableTurnServer_def)
  from assms consider (one) url where "json_field v ''urls'' = Some (JStr url)" "isTurnUrl url"
    | (many) urls url where "json_field v ''urls'' = Some (JArr urls)" "JStr url \<in> set urls" "isTurnUrl url"
  proof (cases "json_field v ''urls''")
    case (Some urls)
    then show ?thesis
    proof (cases urls)
      case (JArr entries)
      then have "list_ex (\<lambda>url. case url of JStr u \<Rightarrow> isTurnUrl u | _ \<Rightarrow> False) entries" using assms Some by (simp add: isUsableTurnServer_def v)
      then obtain entry where "entry \<in> set entries" "case entry of JStr u \<Rightarrow> isTurnUrl u | _ \<Rightarrow> False" unfolding list_ex_iff ..
      then show ?thesis using that(2) Some JArr by (cases entry rule: json.exhaust) auto
    qed (use assms Some that(1) in \<open>simp_all add: isUsableTurnServer_def v\<close>)
  qed (use assms in \<open>simp add: isUsableTurnServer_def v\<close>)
  then show ?thesis
  proof cases
    case one
    then show ?thesis using assms by (simp add: parseIceServer_def isUsableTurnServer_def v)
  next
    case many
    then have "url \<in> set (json_strings urls)" unfolding json_strings_def by force
    then show ?thesis using assms many by (auto simp: parseIceServer_def isUsableTurnServer_def v)
  qed
qed

lemma turn_entry_configured:
  assumes "isUsableTurnServer entry" and "entry \<in> set entries" and "parse setting = Some (JArr entries)" and "trim setting \<noteq> []"
  shows "\<exists>server \<in> set (getProctorIceServers parse (Some setting)). (\<exists>url \<in> set (server_urls (ice_urls server)). isTurnUrl url) \<and>
    hasUsableConfigValue (ice_username server) \<and> hasUsableConfigValue (ice_credential server)"
proof -
  let ?configured = "concat (map (\<lambda>entry. case parseIceServer entry of Some server \<Rightarrow> [server] | None \<Rightarrow> []) entries)"
  from turn_server_parses [OF assms(1)] obtain server where server: "parseIceServer entry = Some server"
    "\<exists>url \<in> set (server_urls (ice_urls server)). isTurnUrl url" "hasUsableConfigValue (ice_username server)"
    "hasUsableConfigValue (ice_credential server)" by blast
  have "server \<in> set ?configured" using assms(2) server(1) by force
  moreover have "getProctorIceServers parse (Some setting) = (if ?configured \<noteq> [] then ?configured else defaultIceServers)"
    using assms(3,4) by (simp add: getProctorIceServers_def Let_def)
  moreover have "?configured \<noteq> []" using calculation(1) by (metis empty_iff empty_set)
  ultimately show ?thesis using server(2-4) by auto
qed

text \<open>The pages always have an ICE server with an address; and where the readiness check finds a usable TURN server in the
  setting that the pages were built with, the connections of the pages use one, with its user and credential.\<close>

theorem ice_servers_follow_the_readiness:
  assumes "rx_json x setting = rx_json x (trim setting)"
  shows "getProctorIceServers (rx_json x) raw \<noteq> [] \<and> (\<forall>server \<in> set (getProctorIceServers (rx_json x) raw). server_urls (ice_urls server) \<noteq> []) \<and>
    (hasUsableTurnIceServer x (Some setting) \<longrightarrow>
      (\<exists>server \<in> set (getProctorIceServers (rx_json x) (Some setting)). (\<exists>url \<in> set (server_urls (ice_urls server)). isTurnUrl url) \<and>
        hasUsableConfigValue (ice_username server) \<and> hasUsableConfigValue (ice_credential server)))"
proof (intro conjI impI)
  show "getProctorIceServers (rx_json x) raw \<noteq> []"
    by (simp add: getProctorIceServers_def defaultIceServers_def Let_def split: option.split json.split)
  show "\<forall>server \<in> set (getProctorIceServers (rx_json x) raw). server_urls (ice_urls server) \<noteq> []"
    using parsed_server by (auto simp: getProctorIceServers_def defaultIceServers_def Let_def split: option.splits json.splits if_splits)
  assume usable: "hasUsableTurnIceServer x (Some setting)"
  then obtain entries entry where "rx_json x (trim setting) = Some (JArr entries)" "entry \<in> set entries" "isUsableTurnServer entry" "trim setting \<noteq> []"
    by (auto simp: hasUsableTurnIceServer_def Let_def list_ex_iff split: if_splits option.splits json.splits)
  with turn_entry_configured [of entry entries "rx_json x" setting] assms
  show "\<exists>server \<in> set (getProctorIceServers (rx_json x) (Some setting)). (\<exists>url \<in> set (server_urls (ice_urls server)). isTurnUrl url) \<and>
      hasUsableConfigValue (ice_username server) \<and> hasUsableConfigValue (ice_credential server)" by simp
qed

definition ice_sample :: "readiness_ctx \<Rightarrow> readiness_ctx" where
  "ice_sample x = x\<lparr>rx_json := (\<lambda>_. Some (JArr [JObj [(''urls'', JArr [JStr ''turn:turn.local:3478'']), (''username'', JStr ''dcvp''),
     (''credential'', JStr ''k9v4m2'')]]))\<rparr>"

lemma ice_servers_follow_the_readiness_witness:
  "\<forall>x. \<exists>server \<in> set (getProctorIceServers (rx_json (ice_sample x)) (Some ''[turn]'')). \<exists>url \<in> set (server_urls (ice_urls server)). isTurnUrl url"
proof
  fix x
  have turn: "isUsableTurnServer (JObj [(''urls'', JArr [JStr ''turn:turn.local:3478'']), (''username'', JStr ''dcvp''), (''credential'', JStr ''k9v4m2'')])"
    by code_simp
  have "hasUsableConfigValue (Some (trim ''[turn]''))" "trim ''[turn]'' \<noteq> []" by code_simp+
  then have usable: "hasUsableTurnIceServer (ice_sample x) (Some ''[turn]'')"
    using turn by (simp add: hasUsableTurnIceServer_def ice_sample_def Let_def)
  have "rx_json (ice_sample x) ''[turn]'' = rx_json (ice_sample x) (trim ''[turn]'')" by (simp add: ice_sample_def)
  from ice_servers_follow_the_readiness [OF this] usable
  show "\<exists>server \<in> set (getProctorIceServers (rx_json (ice_sample x)) (Some ''[turn]'')). \<exists>url \<in> set (server_urls (ice_urls server)). isTurnUrl url"
    by blast
qed

section \<open>The colour of an event\<close>

datatype tone = Safe | Warning | Danger

fun proctorEventTone :: "event_type \<Rightarrow> tone" where
  "proctorEventTone TAB_VISIBLE = Safe"
| "proctorEventTone WINDOW_FOCUS = Safe"
| "proctorEventTone FULLSCREEN_ENTER = Safe"
| "proctorEventTone PRIMARY_CAMERA_CONNECTED = Safe"
| "proctorEventTone MOBILE_CAMERA_CONNECTED = Safe"
| "proctorEventTone MOBILE_PAGE_VISIBLE = Safe"
| "proctorEventTone MOBILE_NETWORK_ONLINE = Safe"
| "proctorEventTone TAB_HIDDEN = Warning"
| "proctorEventTone WINDOW_BLUR = Warning"
| "proctorEventTone COPY = Warning"
| "proctorEventTone PASTE = Warning"
| "proctorEventTone MOBILE_PAGE_HIDDEN = Warning"
| "proctorEventTone FULLSCREEN_EXIT = Danger"
| "proctorEventTone PRIMARY_CAMERA_DISCONNECTED = Danger"
| "proctorEventTone PRIMARY_CAMERA_PERMISSION_DENIED = Danger"
| "proctorEventTone MOBILE_CAMERA_DISCONNECTED = Danger"
| "proctorEventTone MOBILE_CAMERA_PERMISSION_DENIED = Danger"
| "proctorEventTone MOBILE_PAGE_LEFT = Danger"
| "proctorEventTone MOBILE_NETWORK_OFFLINE = Danger"
| "proctorEventTone MOBILE_HEARTBEAT_MISSED = Danger"

text \<open>The page colours an event by the weight that the server gives it in the risk of the candidate.\<close>

theorem event_tone_grades_the_risk:
  "proctorEventTone type = (if risk_weight type \<ge> 10 then Danger else if risk_weight type > 1 then Warning else Safe)"
  by (cases type) simp_all

section \<open>The connections of the live view\<close>

text \<open>\<open>peersRef\<close> and \<open>streams\<close> by device, and the connections that are open, each with its device. \<open>lv_danger\<close> is \<open>dangerCountRef\<close>.\<close>

type_synonym stream_key = string

definition role_text :: "device_role \<Rightarrow> string" where
  "role_text deviceRole = (case deviceRole of PRIMARY_PC \<Rightarrow> ''PRIMARY_PC'' | MOBILE_AUX \<Rightarrow> ''MOBILE_AUX'')"

definition proctorStreamKey :: "string \<Rightarrow> device_role \<Rightarrow> stream_key" where
  "proctorStreamKey candidateId deviceRole = candidateId @ '':'' @ role_text deviceRole"

record live_page =
  lv_mounted :: bool
  lv_next :: nat
  lv_peers :: "(stream_key, nat) jsmap"
  lv_open :: "(nat \<times> stream_key) list"
  lv_streams :: "(stream_key, nat) jsmap"
  lv_danger :: nat

definition opened_page :: live_page where
  "opened_page = \<lparr>lv_mounted = True, lv_next = 0, lv_peers = [], lv_open = [], lv_streams = [], lv_danger = 0\<rparr>"

datatype live_event =
    LiveConnected | OfferArrived string device_role bool | TrackArrived nat nat | CandidateArrived string device_role bool
  | DeviceJoined string device_role | DeviceLeft string device_role | LiveFetched "live_candidate list" | LivePageLeft

datatype live_request = JoinAdmin | AnswerOffer nat | AddIceCandidate nat | AskForOffer string device_role | PlayDangerTone

definition close_connection :: "stream_key \<Rightarrow> live_page \<Rightarrow> live_page" where
  "close_connection key p = (case map_get (lv_peers p) key of
     Some peer \<Rightarrow> p\<lparr>lv_open := filter (\<lambda>(c, k). c \<noteq> peer) (lv_open p)\<rparr> | None \<Rightarrow> p)"

definition proctorDeviceRoles :: "device_role list" where
  "proctorDeviceRoles = [PRIMARY_PC, MOBILE_AUX]"

definition dangerCount :: "live_candidate list \<Rightarrow> nat" where
  "dangerCount candidates = length (filter (\<lambda>candidate. lc_riskLevel candidate = RISK_DANGER) candidates)"

text \<open>The two effects that depend on the data: every device is asked for an offer, and a tone is played when more candidates are in danger.\<close>

definition live_fetched :: "live_candidate list \<Rightarrow> live_page \<Rightarrow> live_page \<times> live_request list" where
  "live_fetched candidates p =
     (p\<lparr>lv_danger := dangerCount candidates\<rparr>,
      concat (map (\<lambda>candidate. map (AskForOffer (cand_id (lc_candidate candidate))) proctorDeviceRoles) candidates) @
      (if dangerCount candidates > lv_danger p then [PlayDangerTone] else []))"

fun live_step :: "live_event \<Rightarrow> live_page \<Rightarrow> live_page \<times> live_request list" where
  "live_step LiveConnected p = (p, if lv_mounted p then [JoinAdmin] else [])"
| "live_step (OfferArrived candidateId deviceRole described) p =
     (if \<not> lv_mounted p \<or> \<not> described then (p, [])
      else (let key = proctorStreamKey candidateId deviceRole; closed = close_connection key p; connection = lv_next p
            in (closed\<lparr>lv_next := Suc connection, lv_peers := map_set key connection (lv_peers p), lv_open := (connection, key) # lv_open closed\<rparr>,
                [AnswerOffer connection])))"
| "live_step (TrackArrived connection stream) p =
     (case map_of (lv_open p) connection of Some key \<Rightarrow> (p\<lparr>lv_streams := map_set key stream (lv_streams p)\<rparr>, []) | None \<Rightarrow> (p, []))"
| "live_step (CandidateArrived candidateId deviceRole described) p =
     (p, if lv_mounted p \<and> described
         then (case map_get (lv_peers p) (proctorStreamKey candidateId deviceRole) of Some peer \<Rightarrow> [AddIceCandidate peer] | None \<Rightarrow> []) else [])"
| "live_step (DeviceJoined candidateId deviceRole) p = (p, if lv_mounted p then [AskForOffer candidateId deviceRole] else [])"
| "live_step (DeviceLeft candidateId deviceRole) p =
     (if \<not> lv_mounted p then (p, [])
      else (let key = proctorStreamKey candidateId deviceRole in ((close_connection key p)\<lparr>lv_streams := map_delete key (lv_streams p)\<rparr>, [])))"
| "live_step (LiveFetched candidates) p = (if lv_mounted p then live_fetched candidates p else (p, []))"
| "live_step LivePageLeft p =
     (if lv_mounted p
      then (p\<lparr>lv_mounted := False, lv_open := filter (\<lambda>(c, k). c \<notin> snd ` set (lv_peers p)) (lv_open p), lv_peers := [], lv_streams := []\<rparr>, [])
      else (p, []))"

abbreviation live_run :: "live_event list \<Rightarrow> live_page \<Rightarrow> live_page \<times> live_request list" where
  "live_run \<equiv> run_page live_step"

datatype risk_filter = AllCandidates | WarningOrHigher | DangerOnly

fun displayedCandidates :: "risk_filter \<Rightarrow> live_candidate list \<Rightarrow> live_candidate list" where
  "displayedCandidates DangerOnly candidates = filter (\<lambda>candidate. lc_riskLevel candidate = RISK_DANGER) candidates"
| "displayedCandidates WarningOrHigher candidates = filter (\<lambda>candidate. lc_riskLevel candidate \<noteq> RISK_SAFE) candidates"
| "displayedCandidates AllCandidates candidates = candidates"

text \<open>An open connection is the one that the page refers to for its device.\<close>

definition live_inv :: "live_page \<Rightarrow> bool" where
  "live_inv p \<longleftrightarrow> (\<forall>(c, k) \<in> set (lv_open p). map_get (lv_peers p) k = Some c) \<and> distinct (map snd (lv_open p)) \<and>
     (\<forall>k c. map_get (lv_peers p) k = Some c \<longrightarrow> c < lv_next p) \<and>
     (\<forall>k k' c. map_get (lv_peers p) k = Some c \<and> map_get (lv_peers p) k' = Some c \<longrightarrow> k = k')"

lemma close_sel [simp]:
  "lv_peers (close_connection key p) = lv_peers p" "lv_next (close_connection key p) = lv_next p"
  "lv_mounted (close_connection key p) = lv_mounted p" "lv_streams (close_connection key p) = lv_streams p"
  by (simp_all add: close_connection_def split: option.split)

lemma close_open:
  assumes "live_inv p"
  shows "lv_open (close_connection key p) = filter (\<lambda>(c, k). k \<noteq> key) (lv_open p)"
proof (cases "map_get (lv_peers p) key")
  case None
  then have "\<forall>(c, k) \<in> set (lv_open p). k \<noteq> key" using assms by (auto simp: live_inv_def)
  then show ?thesis using None by (simp add: close_connection_def filter_id_conv [THEN iffD2])
next
  case (Some peer)
  then have "\<forall>(c, k) \<in> set (lv_open p). c \<noteq> peer \<longleftrightarrow> k \<noteq> key" using assms unfolding live_inv_def by fastforce
  then show ?thesis using Some by (auto simp: close_connection_def intro: filter_cong)
qed

lemma left_page_closes_all: "live_inv p \<Longrightarrow> filter (\<lambda>(c, k). c \<notin> snd ` set (lv_peers p)) (lv_open p) = []"
proof -
  assume "live_inv p"
  then have "c \<in> snd ` set (lv_peers p)" if "(c, k) \<in> set (lv_open p)" for c k
    using that map_of_SomeD [of "lv_peers p" k c] by (force simp: live_inv_def)
  then show ?thesis by (auto simp: filter_empty_conv)
qed

lemma live_step_inv:
  assumes inv: "live_inv p"
  shows "live_inv (fst (live_step e p))"
proof (cases e)
  case (OfferArrived candidateId deviceRole described)
  let ?key = "proctorStreamKey candidateId deviceRole"
  have "live_inv (p'\<lparr>lv_next := Suc (lv_next p), lv_peers := map_set ?key (lv_next p) (lv_peers p), lv_open := (lv_next p, ?key) # lv_open p'\<rparr>)"
    if "p' = close_connection ?key p" for p'
    using inv by (auto simp: that live_inv_def map_get_set close_open [OF inv] less_Suc_eq intro!: distinct_map_filter)
  then show ?thesis using inv by (simp add: OfferArrived Let_def)
next
  case (DeviceLeft candidateId deviceRole)
  have "live_inv ((close_connection key p)\<lparr>lv_streams := streams\<rparr>)" for key streams
    using inv by (auto simp: live_inv_def close_open [OF inv] intro!: distinct_map_filter)
  then show ?thesis using inv by (simp add: DeviceLeft Let_def)
next
  case LivePageLeft
  then show ?thesis using inv left_page_closes_all [OF inv] by (simp add: live_inv_def)
qed (use inv in \<open>auto simp: live_inv_def live_fetched_def split: option.split\<close>)

lemma opened_inv: "live_inv opened_page"
  by (simp add: live_inv_def opened_page_def)

definition page_closed :: "live_page \<Rightarrow> bool" where
  "page_closed p \<longleftrightarrow> \<not> lv_mounted p \<and> lv_open p = [] \<and> lv_streams p = []"

interpretation closed_page: silent_page live_step page_closed
  by unfold_locales (case_tac e; auto simp: page_closed_def)+

interpretation open_or_closed: page_machine live_step "\<lambda>p. live_inv p \<and> (lv_mounted p \<or> page_closed p)"
proof
  fix p :: live_page and e
  assume p: "live_inv p \<and> (lv_mounted p \<or> page_closed p)"
  then have "lv_mounted (fst (live_step e p)) \<or> page_closed (fst (live_step e p))" using left_page_closes_all [of p]
    by (cases e) (auto simp: page_closed_def live_fetched_def Let_def split: option.split)
  then show "live_inv (fst (live_step e p)) \<and> (lv_mounted (fst (live_step e p)) \<or> page_closed (fst (live_step e p)))"
    using p live_step_inv by blast
qed

text \<open>C27. Whatever offers, tracks and devices come and go, the live view has at most one open connection for every device; when the page is
  left all of them are closed and no stream is kept, and nothing is sent afterwards.\<close>

theorem live_view_holds_one_connection_per_device:
  "distinct (map snd (lv_open (fst (live_run es opened_page)))) \<and>
   lv_open (fst (live_step LivePageLeft (fst (live_run es opened_page)))) = [] \<and>
   lv_streams (fst (live_step LivePageLeft (fst (live_run es opened_page)))) = [] \<and>
   snd (live_run later (fst (live_step LivePageLeft (fst (live_run es opened_page))))) = []"
proof -
  let ?p = "fst (live_run es opened_page)"
  let ?left = "fst (live_step LivePageLeft ?p)"
  have "lv_mounted opened_page" by (simp add: opened_page_def)
  then have inv: "live_inv ?p" and "lv_mounted ?p \<or> page_closed ?p"
    using open_or_closed.run_keeps [of opened_page es] opened_inv by blast+
  then have "page_closed ?left" using left_page_closes_all [OF inv] by (auto simp: page_closed_def)
  then show ?thesis using closed_page.run_is_silent [of ?left later] inv by (simp add: page_closed_def live_inv_def)
qed

end
