(* ===== verification/CandidatePages.thy ===== *)
theory CandidatePages
  imports IdentityEnvironment
begin

text \<open>
  The pages that lead a candidate into the exam (\<open>CandidateEnvironmentCheck.tsx\<close>, \<open>CandidateIdentityVerification\<close> in
  \<open>CandidateFlow.tsx\<close>): the items of the environment check and what the page sends of them, and the conditions under which a page
  offers its next step, against the server's own conditions.
\<close>

section \<open>The environment check\<close>

datatype check_status = CheckIdle | Checking | CheckPassed | CheckFailed | CheckWarning

record page_item =
  pi_id :: env_item
  pi_description :: string
  pi_status :: check_status
  pi_required :: bool

text \<open>\<open>describe\<close> stands for the Korean descriptions.\<close>

definition initialEnvironmentItems :: "(env_item \<Rightarrow> string) \<Rightarrow> page_item list" where
  "initialEnvironmentItems describe = map (\<lambda>item. \<lparr>pi_id = item, pi_description = describe item, pi_status = CheckIdle, pi_required = True\<rparr>)
     [ITEM_BROWSER, ITEM_NETWORK, ITEM_CAMERA, ITEM_MICROPHONE, ITEM_SCREEN]"

definition setStatus :: "env_item \<Rightarrow> check_status \<Rightarrow> page_item list \<Rightarrow> page_item list" where
  "setStatus item status items = map (\<lambda>x. if pi_id x = item then x\<lparr>pi_status := status\<rparr> else x) items"

text \<open>\<open>runCheck\<close> starts a check and ends it later; checks of several items overlap. \<open>ok\<close>: the browser or the server did not refuse.\<close>

datatype check_event = CheckStarted env_item | CheckEnded env_item bool bool

fun check_step :: "check_event \<Rightarrow> page_item list \<Rightarrow> page_item list" where
  "check_step (CheckStarted item) items = setStatus item Checking items"
| "check_step (CheckEnded item ok secureContext) items =
     setStatus item (if \<not> ok then CheckFailed else if item = ITEM_BROWSER \<and> \<not> secureContext then CheckWarning else CheckPassed) items"

definition page_ready :: "page_item list \<Rightarrow> bool" where
  "page_ready items \<longleftrightarrow> list_all (\<lambda>item. pi_status item = CheckPassed \<or> pi_status item = CheckWarning) (filter pi_required items)"

definition sent_status :: "check_status \<Rightarrow> env_status" where
  "sent_status status = (if status = CheckPassed then ENV_PASSED else if status = CheckWarning then ENV_WARNING else ENV_FAILED)"

definition environment_body :: "env_check_session \<Rightarrow> browser_evidence \<Rightarrow> page_item list \<Rightarrow> env_check_input" where
  "environment_body checkSession evidence items =
     \<lparr>eci_sessionId = es_sessionId checkSession, eci_evidenceToken = es_evidenceToken checkSession,
      eci_results = map (\<lambda>item. JObj [(''id'', JStr (item_text (pi_id item))), (''status'', JStr (status_text (sent_status (pi_status item)))),
        (''detail'', JStr (pi_description item))]) items,
      eci_browserEvidence = evidence\<rparr>"

definition hasConnectedMobileProctor :: "proctor_device list \<Rightarrow> bool" where
  "hasConnectedMobileProctor proctorDevices = list_ex (\<lambda>device. pd_role device = MOBILE_AUX \<and> pd_status device = DEV_CONNECTED) proctorDevices"

definition environmentExamOpenReady :: "candidate_invite \<Rightarrow> bool" where
  "environmentExamOpenReady data \<longleftrightarrow> \<not> ex_mobileCameraRequired (ci_exam data) \<or> hasConnectedMobileProctor (ci_proctorDevices data)"

definition environment_button :: "candidate_invite \<Rightarrow> page_item list \<Rightarrow> bool \<Rightarrow> bool \<Rightarrow> bool" where
  "environment_button data items sessionReady isPending \<longleftrightarrow>
     \<not> (\<not> page_ready items \<or> \<not> sessionReady \<or> isPending \<or> (\<not> ex_identityVerificationEnabled (ci_exam data) \<and> \<not> environmentExamOpenReady data))"

datatype next_page = IdentityPage | ExamPage

definition environment_next :: "candidate_invite \<Rightarrow> next_page" where
  "environment_next data = (if ex_identityVerificationEnabled (ci_exam data) then IdentityPage else ExamPage)"

section \<open>The identity page\<close>

definition identity_verified :: "candidate_invite \<Rightarrow> bool" where
  "identity_verified data \<longleftrightarrow> (case ci_identityVerification data of Some verification \<Rightarrow> iv_status verification = ID_VERIFIED | None \<Rightarrow> False)"

definition identityExamOpenReady :: "candidate_invite \<Rightarrow> bool" where
  "identityExamOpenReady data \<longleftrightarrow> identity_verified data \<and>
     (\<not> ex_mobileCameraRequired (ci_exam data) \<or> hasConnectedMobileProctor (ci_proctorDevices data))"

section \<open>The pages and the server agree\<close>

text \<open>The five items of the page, in their order, all required.\<close>

definition items_ok :: "page_item list \<Rightarrow> bool" where
  "items_ok items \<longleftrightarrow> map pi_id items = environmentCheckItemIds \<and> (\<forall>item \<in> set items. pi_required item)"

lemma set_status_ok: "items_ok items \<Longrightarrow> items_ok (setStatus item status items)"
proof -
  assume ok: "items_ok items"
  have "map pi_id (setStatus item status items) = map pi_id items" by (simp add: setStatus_def comp_def if_distrib cong: if_cong)
  moreover have "\<forall>x \<in> set (setStatus item status items). pi_required x" using ok by (auto simp: items_ok_def setStatus_def)
  ultimately show ?thesis using ok by (simp add: items_ok_def)
qed

lemma checked_items_ok: "items_ok (fold check_step es (initialEnvironmentItems describe))"
proof -
  have "items_ok (check_step e items)" if "items_ok items" for e items using that by (cases e) (simp_all add: set_status_ok)
  moreover have "items_ok (initialEnvironmentItems describe)"
    by (auto simp: items_ok_def initialEnvironmentItems_def environmentCheckItemIds_def)
  ultimately show ?thesis by (induction es rule: rev_induct) simp_all
qed

definition page_result :: "page_item \<Rightarrow> env_check_result" where
  "page_result item = \<lparr>er_id = pi_id item, er_status = sent_status (pi_status item), er_detail = Some (pi_description item)\<rparr>"

lemma sent_results: "evidenced_results (environment_body checkSession evidence items) = map (with_evidence evidence \<circ> page_result) items"
proof -
  have "eci_results (environment_body checkSession evidence items) = toEnvironmentCheckJson (map page_result items)"
    by (simp add: environment_body_def toEnvironmentCheckJson_def page_result_def)
  then show ?thesis
    by (simp add: evidenced_results_def environment_json_reads_back) (simp add: environment_body_def)
qed

lemma evidence_sel [simp]: "er_id (with_evidence evidence r) = er_id r" "er_status (with_evidence evidence r) = er_status r"
  by (simp_all add: with_evidence_def)

lemma found_status:
  assumes "distinct (map pi_id items)" and "item \<in> set items"
  shows "List.find (\<lambda>r. er_id r = pi_id item) (map (with_evidence evidence \<circ> page_result) items) = Some (with_evidence evidence (page_result item))"
  using assms by (induction items) (auto simp: page_result_def)

lemma page_ready_iff_passes:
  assumes "items_ok items"
  shows "page_ready items \<longleftrightarrow> didPassRequiredEnvironmentChecks (evidenced_results (environment_body checkSession evidence items))"
proof -
  have "distinct (map pi_id items)" using assms by (simp add: items_ok_def environmentCheckItemIds_def)
  note found = found_status [OF this]
  have "didPassRequiredEnvironmentChecks (evidenced_results (environment_body checkSession evidence items)) \<longleftrightarrow>
      (\<forall>item \<in> set items. sent_status (pi_status item) = ENV_PASSED \<or> sent_status (pi_status item) = ENV_WARNING)"
  proof -
    have ids: "set environmentCheckItemIds = pi_id ` set items" using assms by (simp add: items_ok_def flip: set_map)
    have "er_status (with_evidence evidence (page_result item)) = sent_status (pi_status item)" for item by (simp add: page_result_def)
    then show ?thesis unfolding didPassRequiredEnvironmentChecks_def sent_results list_all_iff ids
      using found by (simp cong: ball_cong)
  qed
  also have "\<dots> \<longleftrightarrow> page_ready items"
    using assms by (auto simp: page_ready_def items_ok_def list_all_iff sent_status_def split: if_splits)
  finally show ?thesis by simp
qed

lemma mobile_is_connected: "hasConnectedMobileProctor (ci_proctorDevices data) = mobile_connected data"
  by (simp add: hasConnectedMobileProctor_def mobile_connected_def)

text \<open>C17. The environment page is ready exactly when the server will record its check as passed. Once it is saved, the server's gate
  lets the candidate in exactly if the exam is open, the entry is confirmed and the pages offer it: the button of the environment
  page, when the exam comes next, and otherwise that button, which then stands for the passed check alone, and the readiness
  of the identity page.\<close>

theorem candidate_pages_follow_the_gate:
  assumes "good_tables c content" and "items = fold check_step es (initialEnvironmentItems describe)"
    and "saveCandidateEnvironmentCheck ev c inviteToken (environment_body checkSession evidence items) s = (Inr check, s')"
    and "ci_environmentCheck data = Some check"
  shows "(page_ready items \<longleftrightarrow> ec_requiredPassed check) \<and>
    (environment_next data = ExamPage \<longrightarrow>
      (workspace_open c data \<longleftrightarrow> exam_available c (ci_exam data) \<and> cand_status (ci_candidate data) \<noteq> INVITED \<and>
        environment_button data items True False)) \<and>
    (environment_next data = IdentityPage \<longrightarrow>
      (environment_button data items True False \<longleftrightarrow> ec_requiredPassed check) \<and>
      (workspace_open c data \<longleftrightarrow> exam_available c (ci_exam data) \<and> cand_status (ci_candidate data) \<noteq> INVITED \<and>
        environment_button data items True False \<and> identityExamOpenReady data))"
proof -
  have "items_ok items" unfolding assms(2) by (rule checked_items_ok)
  from page_ready_iff_passes [OF this, of checkSession evidence] environment_check_needs_evidence [OF assms(1,3)]
  have ready: "page_ready items \<longleftrightarrow> ec_requiredPassed check"
    by (simp add: environment_passes_iff)
  show ?thesis
  proof (cases "ex_identityVerificationEnabled (ci_exam data)")
    case True
    then have "environment_next data = IdentityPage" "environment_button data items True False \<longleftrightarrow> ec_requiredPassed check"
      using ready by (simp_all add: environment_next_def environment_button_def)
    moreover have "workspace_open c data \<longleftrightarrow> exam_available c (ci_exam data) \<and> cand_status (ci_candidate data) \<noteq> INVITED \<and>
        ec_requiredPassed check \<and> identityExamOpenReady data"
      using True assms(4)
      by (auto simp: identityExamOpenReady_def identity_verified_def mobile_is_connected workspace_open_def split: option.splits)
    ultimately show ?thesis using ready by simp
  next
    case False
    then have "environment_next data = ExamPage"
      "environment_button data items True False \<longleftrightarrow> ec_requiredPassed check \<and> environmentExamOpenReady data"
      using ready by (auto simp: environment_next_def environment_button_def)
    moreover have "workspace_open c data \<longleftrightarrow> exam_available c (ci_exam data) \<and> cand_status (ci_candidate data) \<noteq> INVITED \<and>
        ec_requiredPassed check \<and> environmentExamOpenReady data"
      using False assms(4) by (auto simp: environmentExamOpenReady_def mobile_is_connected workspace_open_def)
    ultimately show ?thesis using ready by simp
  qed
qed

definition checked_page :: "page_item list" where
  "checked_page = fold check_step (CheckStarted ITEM_BROWSER # map (\<lambda>item. CheckEnded item True True) environmentCheckItemIds)
     (initialEnvironmentItems (\<lambda>item. ''check''))"

lemma candidate_pages_follow_the_gate_witness:
  "\<exists>session check s'. createEnvironmentCheckSession sample_evidence (plain_ctx kyc_env 95000) ''invite_1'' = Inr session \<and>
     saveCandidateEnvironmentCheck sample_evidence (plain_ctx kyc_env 95000) ''invite_1''
       (environment_body session \<lparr>be_userAgent = ''ua'', be_secureContext = True, be_checkedAt = ''now''\<rparr> checked_page) (store_of consent_contents) = (Inr check, s') \<and>
     ec_requiredPassed check \<and> workspace_open (plain_ctx kyc_env 95000) (workspace_invite\<lparr>ci_environmentCheck := Some check\<rparr>)"
proof -
  obtain session where created: "createEnvironmentCheckSession sample_evidence (plain_ctx kyc_env 95000) ''invite_1'' = Inr session"
    by (simp add: createEnvironmentCheckSession_def signEnvironmentCheckSession_def environmentCheckSecret_def bindR_def Let_def)
  then obtain secret where secret: "environmentCheckSecret kyc_env = Inr secret" and sid: "es_sessionId session \<noteq> []"
    and token: "es_evidenceToken session = int_text 695000 @ ''|'' @
      ev_hmac sample_evidence secret (''invite_1'' @ ''.'' @ es_sessionId session @ ''.'' @ int_text 695000)"
    by (auto elim!: created_session simp: sample_evidence_def ENVIRONMENT_CHECK_TTL_MS_def createId_def)
  have accepted: "assertEnvironmentCheckSession sample_evidence (plain_ctx kyc_env 95000) ''invite_1'' (es_sessionId session)
      (es_evidenceToken session) = Inr ()"
    unfolding token using int_text_plain [of 695000] secret sid
    by (subst evidence_accepted [where t = 695000 and secret = secret]) (simp_all add: sample_evidence_def int_text_reads_back)
  let ?evidence = "\<lparr>be_userAgent = ''ua'', be_secureContext = True, be_checkedAt = ''now''\<rparr>"
  have sel: "eci_sessionId (environment_body session ?evidence checked_page) = es_sessionId session"
    "eci_evidenceToken (environment_body session ?evidence checked_page) = es_evidenceToken session" by (simp_all add: environment_body_def)
  obtain check s' where run: "saveCandidateEnvironmentCheck sample_evidence (plain_ctx kyc_env 95000) ''invite_1''
      (environment_body session ?evidence checked_page) (store_of consent_contents) = (Inr check, s')"
    by (simp add: saveCandidateEnvironmentCheck_def bindE_apply kyc_invite accepted sel liftR_apply saveCandidateEnvironmentCheckInStore_def Let_def
      mapped_def kyc_store_of run_simps)
  let ?data = "workspace_invite\<lparr>ci_environmentCheck := Some check\<rparr>"
  have open_exam: "exam_available (plain_ctx kyc_env 95000) (ci_exam ?data)" by (simp add: exam_available_def date_value_def)
  have ready: "page_ready checked_page" by code_simp
  have "environment_button ?data checked_page True False" "environment_next ?data = IdentityPage" "identityExamOpenReady ?data"
    using ready by (simp_all add: environment_button_def environment_next_def identityExamOpenReady_def identity_verified_def
      hasConnectedMobileProctor_def mapIdentityVerification_def)
  with candidate_pages_follow_the_gate [OF good_plain checked_page_def run, of ?data] open_exam ready
  have "ec_requiredPassed check \<and> workspace_open (plain_ctx kyc_env 95000) ?data" by simp
  with created run show ?thesis by blast
qed

end
