(* ===== verification/Outcomes.thy ===== *)
theory Outcomes
  imports Base
begin

text \<open>
  Which exceptions an action can end with: \<open>throws_only P m\<close> when it can end with no exception but those of \<open>P\<close>. One rule for each
  combinator, in the collection \<open>throwing\<close>, so that a handler's outcomes follow from those of its parts.
\<close>

definition throws_only :: "(exn \<Rightarrow> bool) \<Rightarrow> ('s, 'a) act \<Rightarrow> bool" where
  "throws_only P m \<longleftrightarrow> (\<forall>s e t. m s = (Inl e, t) \<longrightarrow> P e)"

named_theorems throwing \<open>the exceptions of the effect combinators\<close>

lemma throws_onlyD: "throws_only P m \<Longrightarrow> fst (m s) = Inl e \<Longrightarrow> P e"
  by (metis throws_only_def prod.collapse)

lemma throws_onlyI: "(\<And>s e. fst (m s) = Inl e \<Longrightarrow> P e) \<Longrightarrow> throws_only P m"
  unfolding throws_only_def by (metis fst_conv)

lemma throws_ret [throwing]: "throws_only P (ret x)"
  by (simp add: throws_only_def ret_def)

lemma throws_throwE [throwing]: "P e \<Longrightarrow> throws_only P (throwE e)"
  by (simp add: throws_only_def throwE_def)

lemma throws_liftR [throwing]: "(\<And>e. r = Inl e \<Longrightarrow> P e) \<Longrightarrow> throws_only P (liftR r)"
  by (simp add: throws_only_def liftR_def)

lemma throws_bindE [throwing]: "throws_only P m \<Longrightarrow> (\<And>x. throws_only P (f x)) \<Longrightarrow> throws_only P (bindE m f)"
  by (auto simp: throws_only_def bindE_def split: prod.splits sum.splits)

lemma throws_catchE [throwing]: "(\<And>e. throws_only P (h e)) \<Longrightarrow> throws_only P (catchE m h)"
  by (auto simp: throws_only_def catchE_def split: prod.splits sum.splits)

lemma throws_transaction [throwing]: "throws_only P m \<Longrightarrow> throws_only P (transaction m)"
  by (auto simp: throws_only_def transaction_def split: prod.splits sum.splits)

lemma throws_option [throwing]:
  "throws_only P n \<Longrightarrow> (\<And>x. throws_only P (f x)) \<Longrightarrow> throws_only P (case v of None \<Rightarrow> n | Some x \<Rightarrow> f x)"
  by (simp split: option.split)

lemma throws_if [throwing]: "(b \<Longrightarrow> throws_only P m) \<Longrightarrow> (\<not> b \<Longrightarrow> throws_only P n) \<Longrightarrow> throws_only P (if b then m else n)"
  by simp

lemma throws_pair [throwing]: "(\<And>x y. throws_only P (f x y)) \<Longrightarrow> throws_only P (case v of (x, y) \<Rightarrow> f x y)"
  by (simp split: prod.split)

end
