(* ===== verification/AdminRoles.thy ===== *)
theory AdminRoles
  imports Api Outcomes
begin

text \<open>
  The roles that the operations of the administration demand: an operation answers 403 exactly to the roles that it does not serve.
  That no other part of an operation answers 403 is shown for its combinators once, and the queries of the database are
  assumed not to throw the application's own exception.
\<close>

section \<open>Actions that never answer 403\<close>

definition not_forbidden :: "exn \<Rightarrow> bool" where
  "not_forbidden e \<longleftrightarrow> (\<forall>message. e \<noteq> Forbidden message)"

abbreviation admits :: "('s, 'a) act \<Rightarrow> bool" where
  "admits m \<equiv> throws_only not_forbidden m"

lemma not_forbidden_simps [simp]:
  "not_forbidden (BadRequest m)" "not_forbidden (NotFound m)" "not_forbidden (ServiceUnavailable m)" "not_forbidden (OtherError m)"
  "not_forbidden (PrismaKnown m)" "\<not> not_forbidden (Forbidden m)"
  by (simp_all add: not_forbidden_def)

lemma throws_mapped [throwing]: "throws_only P m \<Longrightarrow> throws_only P (mapped f m)"
  unfolding mapped_def by (intro throwing)

lemma throws_memory_of [throwing]: "throws_only P (memory_of f)"
  by (simp add: throws_only_def memory_of_def)

lemma throws_set_memory [throwing]: "throws_only P (set_memory f)"
  by (simp add: throws_only_def set_memory_def)

text \<open>A check of what the memory holds.\<close>

definition checked :: "(memory \<Rightarrow> 'a res) \<Rightarrow> ('d store, 'a) act" where
  "checked g = (\<lambda>s. (g (st_memory s), s))"

lemma checked_memory: "bindE (memory_of g) (\<lambda>r. bindE (liftR r) f) = bindE (checked g) f"
  by (simp add: fun_eq_iff checked_def bindE_def memory_of_def liftR_def)

lemma throws_checked [throwing]: "(\<And>m e. g m = Inl e \<Longrightarrow> P e) \<Longrightarrow> throws_only P (checked g)"
  by (simp add: throws_only_def checked_def)

lemma admits_storeDatabase [throwing]: "admits m \<Longrightarrow> admits (storeDatabase c m)"
  by (auto simp: throws_only_def storeDatabase_def storeOperation_def catchE_def bindE_def ret_def throwE_def mark_unavailable_def
      on_database_def Let_def split: prod.splits sum.splits if_splits)

lemma admits_seededDatabase [throwing]: "admits (sc_seed c) \<Longrightarrow> admits m \<Longrightarrow> admits (seededDatabase c m)"
  unfolding seededDatabase_def by (intro throwing)

lemma throws_with_fallback [throwing]:
  "throws_only P database \<Longrightarrow> throws_only P fallback \<Longrightarrow> throws_only P (with_fallback database fallback)"
  unfolding with_fallback_def by (intro throwing)

lemma throws_promise_all [throwing]: "(\<And>x. throws_only P (f x)) \<Longrightarrow> throws_only P (promise_all f xs)"
proof (induction xs)
  case (Cons x xs)
  then have "throws_only P (f x)" "throws_only P (promise_all f xs)" by simp_all
  then show ?case by (auto simp: throws_only_def Let_def bindR_def split: prod.splits sum.splits)
qed (simp add: throws_only_def)

text \<open>The queries fail with the errors of the database's client, which are not those of the application.\<close>

definition plain_table :: "('d, 'r) store_table \<Rightarrow> bool" where
  "plain_table T \<longleftrightarrow> (\<forall>p. admits (t_find T p)) \<and> (\<forall>p. admits (t_findMany T p)) \<and> (\<forall>p. admits (t_count T p)) \<and>
     (\<forall>r. admits (t_create T r)) \<and> (\<forall>p f. admits (t_update T p f)) \<and> (\<forall>p f. admits (t_updateMany T p f))"

definition queries_never_forbid :: "'d store_ctx \<Rightarrow> bool" where
  "queries_never_forbid c \<longleftrightarrow> admits (sc_seed c) \<and> plain_table (sc_organizations c) \<and> plain_table (sc_exams c) \<and>
     plain_table (sc_questions c) \<and> plain_table (sc_candidates c) \<and> plain_table (sc_testCases c) \<and> plain_table (sc_proctorEvents c) \<and>
     plain_table (sc_proctorDevices c) \<and> plain_table (sc_proctorActions c) \<and> plain_table (sc_competencyReports c) \<and>
     plain_table (sc_identityVerifications c) \<and> plain_table (sc_environmentChecks c) \<and> plain_table (sc_codeExecutions c) \<and>
     plain_table (sc_submissions c) \<and> plain_table (sc_inviteEmailLogs c)"

lemma plain_queries [throwing]:
  "plain_table T \<Longrightarrow> admits (t_find T p)" "plain_table T \<Longrightarrow> admits (t_findMany T p)" "plain_table T \<Longrightarrow> admits (t_count T p)"
  "plain_table T \<Longrightarrow> admits (t_create T r)" "plain_table T \<Longrightarrow> admits (t_update T p f)" "plain_table T \<Longrightarrow> admits (t_updateMany T p f)"
  by (simp_all add: plain_table_def)

section \<open>The parts of the operations\<close>

lemma checks_admit:
  "assertSessionCanAccessExam session organizationId = Inl e \<Longrightarrow> not_forbidden e" "require_exam session found = Inl e \<Longrightarrow> not_forbidden e"
  "assertMemoryExamExists m examId session = Inl e \<Longrightarrow> not_forbidden e" "check_access who organizationId = Inl e \<Longrightarrow> not_forbidden e"
  "database_date c d = Inl e \<Longrightarrow> not_forbidden e" "unavailable reason r = Inl e \<Longrightarrow> not_forbidden e"
  by (auto simp: assertSessionCanAccessExam_def require_exam_def assertMemoryExamExists_def check_access_def database_date_def unavailable_def
      bindR_def split: option.splits sum.splits if_splits)

lemma bodies_admit:
  "database_input c input = Inl e \<Longrightarrow> not_forbidden e" "database_patch c patch = Inl e \<Longrightarrow> not_forbidden e"
  "generateReport nw env reportId now signals = Inl e \<Longrightarrow> not_forbidden e"
  by (auto simp: database_input_def database_patch_def generateReport_def bindR_def checks_admit split: option.splits sum.splits if_splits)

lemma admits_required [throwing]: "admits (required found)"
  unfolding required_def by (intro throwing) simp

lemma roles_pass:
  "usr_role (as_user session) \<in> {ADMIN, ORGANIZATION} \<Longrightarrow> assertSessionCanManageExams session = Inr ()"
  "usr_role (as_user session) \<in> {ADMIN, ORGANIZATION, PROCTOR} \<Longrightarrow> assertSessionCanViewExams session = Inr ()"
  "usr_role (as_user session) \<in> {ADMIN, ORGANIZATION, PROCTOR} \<Longrightarrow> assertSessionCanProctor session = Inr ()"
  by (auto simp: manages_Inr views_Inr proctors_Inr)

lemma admits_markStale:
  assumes "queries_never_forbid c"
  shows "admits (markStaleProctorDevicesInStore c examId)"
proof -
  have plain: "plain_table (sc_proctorDevices c)" "plain_table (sc_proctorEvents c)" using assms by (simp_all add: queries_never_forbid_def)
  have "admits (disconnect_all c n devices)" for n devices
    by (induction devices arbitrary: n) (auto intro!: throwing plain)
  then show ?thesis unfolding markStaleProctorDevicesInStore_def by (intro throwing plain) (simp_all add: checks_admit)
qed

lemma admits_report:
  assumes "queries_never_forbid c"
  shows "admits (getExamReportInStore c examId session)"
proof -
  note plain = assms [unfolded queries_never_forbid_def]
  have "admits (find_report_rows c candidates)" for candidates
    unfolding find_report_rows_def Let_def using plain by (intro throwing) (simp_all add: checks_admit bodies_admit)
  then have "admits (find_exam_report c examId)"
    unfolding find_exam_report_def using plain by (intro throwing) (simp_all add: checks_admit bodies_admit)
  then show ?thesis unfolding getExamReportInStore_def using plain by (intro throwing) (simp_all add: checks_admit bodies_admit)
qed

lemma admits_candidate:
  assumes "queries_never_forbid c"
  shows "admits (findCandidateWithExam c candidateId who)"
  unfolding findCandidateWithExam_def using assms [unfolded queries_never_forbid_def] by (intro throwing) (simp_all add: checks_admit bodies_admit)

lemma admits_exam_checks:
  assumes "queries_never_forbid c"
  shows "admits (assertDbExamExists c examId session)" and "admits (assertDbQuestionExists c questionId session)"
proof -
  note plain = assms [unfolded queries_never_forbid_def]
  show exam: "admits (assertDbExamExists c i session)" for i
    unfolding assertDbExamExists_def using plain by (intro throwing) (simp_all add: checks_admit bodies_admit)
  show "admits (assertDbQuestionExists c questionId session)"
    unfolding assertDbQuestionExists_def using plain exam by (intro throwing) (simp_all add: checks_admit bodies_admit)
qed

text \<open>Without its role check no operation answers 403.\<close>

lemma exam_operations_admit:
  assumes "queries_never_forbid c" and "usr_role (as_user session) \<in> {ADMIN, ORGANIZATION}"
  shows "admits (createExam c input session)" and "admits (updateExam c examId patch session)" and "admits (deleteExam c examId session)"
    and "admits (getExamDetail c examId session)" and "admits (addQuestion c examId question session)"
    and "admits (addTestCase c questionId test session)" and "admits (addCandidate c examId person session)"
    and "admits (getExamReport c examId session)" and "admits (generateExamReports nw c examId session)"
    and "admits (sendCandidateInviteEmail c ms interfaces candidateId session)"
proof -
  note plain = assms(1) [unfolded queries_never_forbid_def] and role = roles_pass(1) [OF assms(2)] and
    parts = admits_markStale [OF assms(1)] admits_report [OF assms(1)] admits_candidate [OF assms(1)] admits_exam_checks [OF assms(1)]
  show "admits (createExam c input session)"
    unfolding createExam_def Let_def role using plain by (intro throwing) (simp_all add: checks_admit bodies_admit)
  show "admits (updateExam c examId patch session)"
    unfolding updateExam_def role using plain by (intro throwing) (simp_all add: checks_admit bodies_admit)
  show "admits (deleteExam c examId session)"
    unfolding deleteExam_def role using plain by (intro throwing) (simp_all add: checks_admit bodies_admit)
  have "admits (find_exam_detail c examId)"
    unfolding find_exam_detail_def using plain by (intro throwing) (simp_all add: checks_admit bodies_admit)
  then show "admits (getExamDetail c examId session)"
    unfolding getExamDetail_def role using plain by (intro throwing) (simp_all add: checks_admit bodies_admit)
  show "admits (addQuestion c examId question session)"
    unfolding addQuestion_def role checked_memory using plain parts by (intro throwing) (simp_all add: checks_admit bodies_admit)
  show "admits (addTestCase c questionId test session)"
    unfolding addTestCase_def role checked_memory using plain parts by (intro throwing) (simp_all add: checks_admit bodies_admit)
  show "admits (addCandidate c examId person session)"
    unfolding addCandidate_def role checked_memory using plain parts by (intro throwing) (simp_all add: checks_admit bodies_admit)
  show report: "admits (getExamReport c examId session)"
    unfolding getExamReport_def role using parts by (intro throwing) (simp_all add: checks_admit bodies_admit)
  have "admits (saveCompetencyReport c r report)" for r report
    unfolding saveCompetencyReport_def using plain by (intro throwing) (simp_all add: checks_admit bodies_admit)
  then have "admits (evaluate_candidate nw c examId exam numbered)" for exam numbered
    unfolding evaluate_candidate_def Let_def by (intro throwing) (simp_all add: checks_admit bodies_admit)
  then show "admits (generateExamReports nw c examId session)"
    unfolding generateExamReports_def using report by (intro throwing) (simp_all add: checks_admit bodies_admit)
  have "admits (saveInviteEmailLog c entry)" for entry
    unfolding saveInviteEmailLog_def using plain by (intro throwing) (simp_all add: checks_admit bodies_admit)
  then show "admits (sendCandidateInviteEmail c ms interfaces candidateId session)"
    unfolding sendCandidateInviteEmail_def findManageableCandidateWithExam_def sendCandidateInviteEmailInStore_def role Let_def
    using parts by (intro throwing) (simp_all add: checks_admit bodies_admit)
qed

lemma viewing_operations_admit:
  assumes "queries_never_forbid c" and "usr_role (as_user session) \<in> {ADMIN, ORGANIZATION, PROCTOR}"
  shows "admits (listExams c session)" and "admits (getDashboard c session)" and "admits (getLiveProctorState c examId session)"
    and "admits (createProctorAction c candidateId input session)"
proof -
  note plain = assms(1) [unfolded queries_never_forbid_def] and role = roles_pass(2,3) [OF assms(2)] and
    parts = admits_markStale [OF assms(1)] admits_report [OF assms(1)] admits_candidate [OF assms(1)]
  show "admits (listExams c session)"
    unfolding listExams_def role using plain by (intro throwing) (simp_all add: checks_admit bodies_admit)
  have "admits (find_dashboard c session)"
    unfolding find_dashboard_def using plain by (intro throwing) (simp_all add: checks_admit bodies_admit)
  then show "admits (getDashboard c session)"
    unfolding getDashboard_def role using plain by (intro throwing) (simp_all add: checks_admit bodies_admit)
  show "admits (getLiveProctorState c examId session)"
    unfolding getLiveProctorState_def role using parts by (intro throwing) (simp_all add: checks_admit bodies_admit)
  have "\<not> (usr_role (as_user session) \<noteq> ADMIN \<and> usr_role (as_user session) \<noteq> ORGANIZATION \<and> usr_role (as_user session) \<noteq> PROCTOR)"
    using assms(2) by simp
  then show "admits (createProctorAction c candidateId input session)"
    unfolding createProctorAction_def if_not_P using plain parts by (intro throwing) (simp_all add: checks_admit bodies_admit)
qed

section \<open>The roles\<close>

lemma operation_admits_the_role:
  assumes "queries_never_forbid (api_store a)" and "usr_role (as_user session) \<in> required_roles request"
  shows "admits (admin_operation a request session)"
  using assms(2) exam_operations_admit [OF assms(1), of session] viewing_operations_admit [OF assms(1), of session]
  by (cases request) (simp_all add: admin_operation_def Let_def throws_mapped)

lemma operation_refuses_the_role:
  assumes "usr_role (as_user session) \<notin> required_roles request"
  shows "\<exists>message. admin_operation a request session s = (Inl (Forbidden message), s)"
  using assms
  by (cases request) (auto simp: admin_operation_def Let_def mapped_def listExams_def createExam_def updateExam_def getExamReport_def
      getLiveProctorState_def getExamDetail_def deleteExam_def addQuestion_def addTestCase_def addCandidate_def sendCandidateInviteEmail_def
      findManageableCandidateWithExam_def createProctorAction_def getDashboard_def generateExamReports_def bindE_def liftR_def throwE_def
      assertSessionCanManageExams_def assertSessionCanViewExams_def assertSessionCanProctor_def)

end
