(* ===== verification/AdminPages.thy ===== *)
theory AdminPages
  imports AdminRoles
begin

text \<open>
  The pages of the administration: which page the application shows (\<open>App.tsx\<close>, \<open>AdminShell.tsx\<close>) and what a page asks of the server,
  against the roles that the server demands; and the editor of an exam (\<open>ExamEdit.tsx\<close>, \<open>ExamEditorForm.tsx\<close>).
\<close>

section \<open>The page of the application\<close>

datatype app_page = PrivacyPage | CandidatePages | CheckingPage | LoginPage | PasswordPage | RedirectHome | ShellPage

definition application_page :: "string \<Rightarrow> bool \<Rightarrow> auth_session option \<Rightarrow> app_page" where
  "application_page pathname checkingSession session =
     (if pathname = ''/privacy'' then PrivacyPage
      else if startsWith pathname ''/candidate/'' then CandidatePages
      else if checkingSession then CheckingPage
      else (case session of
          None \<Rightarrow> LoginPage
        | Some s \<Rightarrow> if as_passwordChangeRequired s = Some True then PasswordPage
            else if pathname = ''/login'' then RedirectHome else ShellPage))"

section \<open>The session of the application\<close>

text \<open>The state of \<open>App\<close> and the token that \<open>sessionTokenStore\<close> keeps; \<open>ap_asked\<close> are the calls of \<open>api.me\<close> under way, by their token. The
  effect runs on the first render and whenever the path changes.\<close>

record app_state =
  ap_path :: string
  ap_session :: "auth_session option"
  ap_checking :: bool
  ap_token :: "string option"
  ap_asked :: "string list"

definition check_session :: "app_state \<Rightarrow> app_state" where
  "check_session a =
     (if startsWith (ap_path a) ''/candidate/'' then a\<lparr>ap_checking := False\<rparr>
      else if \<not> truthy (ap_token a) then a\<lparr>ap_checking := False\<rparr>
      else a\<lparr>ap_asked := the (ap_token a) # ap_asked a\<rparr>)"

definition opened_app :: "string \<Rightarrow> string option \<Rightarrow> app_state" where
  "opened_app path token = check_session \<lparr>ap_path = path, ap_session = None, ap_checking = True, ap_token = token, ap_asked = []\<rparr>"

datatype app_event = Navigated string | SessionAnswered auth_session | SessionRefused string | LoggedIn auth_session | LogoutClicked

fun app_step :: "app_event \<Rightarrow> app_state \<Rightarrow> app_state" where
  "app_step (Navigated path) a = (if path = ap_path a then a else check_session (a\<lparr>ap_path := path\<rparr>))"
| "app_step (SessionAnswered session) a =
     (if as_token session \<in> set (ap_asked a)
      then a\<lparr>ap_session := Some session, ap_checking := False, ap_asked := remove1 (as_token session) (ap_asked a)\<rparr> else a)"
| "app_step (SessionRefused token) a =
     (if token \<in> set (ap_asked a) then a\<lparr>ap_token := None, ap_checking := False, ap_asked := remove1 token (ap_asked a)\<rparr> else a)"
| "app_step (LoggedIn session) a = a\<lparr>ap_token := Some (as_token session), ap_session := Some session\<rparr>"
| "app_step LogoutClicked a = a\<lparr>ap_token := None, ap_session := None\<rparr>"

text \<open>A check fails only before a session is shown, as the only one under way; nobody logs in or out during a check.\<close>

fun undisturbed :: "app_state \<Rightarrow> app_event list \<Rightarrow> bool" where
  "undisturbed a [] \<longleftrightarrow> True"
| "undisturbed a (e # es) \<longleftrightarrow>
     (case e of SessionRefused _ \<Rightarrow> ap_session a = None \<and> length (ap_asked a) \<le> 1 | LoggedIn session \<Rightarrow> ap_asked a = [] \<and> as_token session \<noteq> []
      | LogoutClicked \<Rightarrow> ap_asked a = [] | _ \<Rightarrow> True) \<and> undisturbed (app_step e a) es"

definition app_inv :: "app_state \<Rightarrow> bool" where
  "app_inv a \<longleftrightarrow> (\<forall>session. ap_session a = Some session \<longrightarrow> ap_token a = Some (as_token session)) \<and>
     (\<forall>t \<in> set (ap_asked a). ap_token a = Some t)"

lemma check_session_inv: "app_inv a \<Longrightarrow> app_inv (check_session a)"
  by (cases "ap_token a") (auto simp: app_inv_def check_session_def)

lemma app_step_inv:
  assumes "app_inv a" and "undisturbed a [e]"
  shows "app_inv (app_step e a)"
proof (cases e)
  case (Navigated path)
  then show ?thesis using assms(1) check_session_inv [of "a\<lparr>ap_path := path\<rparr>"] by (simp add: app_inv_def)
next
  case (SessionAnswered session)
  have "set (remove1 (as_token session) (ap_asked a)) \<subseteq> set (ap_asked a)" by (rule set_remove1_subset)
  then have "\<forall>t \<in> set (remove1 (as_token session) (ap_asked a)). ap_token a = Some t" using assms(1) unfolding app_inv_def by blast
  then show ?thesis using SessionAnswered assms(1) by (simp add: app_inv_def)
next
  case (SessionRefused token)
  then show ?thesis using assms by (cases "ap_asked a") (auto simp: app_inv_def)
qed (use assms in \<open>auto simp: app_inv_def\<close>)

lemma app_run_inv: "app_inv a \<Longrightarrow> undisturbed a es \<Longrightarrow> app_inv (fold app_step es a)"
proof (induction es arbitrary: a)
  case (Cons e es)
  have "undisturbed a [e]" "undisturbed (app_step e a) es" using Cons.prems(2) by simp_all
  then show ?case using Cons.IH app_step_inv [OF Cons.prems(1)] by simp
qed simp

lemma shown_session_has_its_token:
  assumes "undisturbed (opened_app path token) es" and "ap_session (fold app_step es (opened_app path token)) = Some session"
  shows "ap_token (fold app_step es (opened_app path token)) = Some (as_token session)"
proof -
  have "app_inv (opened_app path token)" unfolding opened_app_def by (rule check_session_inv) (simp add: app_inv_def)
  from app_run_inv [OF this assms(1)] assms(2) show ?thesis by (simp add: app_inv_def)
qed

text \<open>A check that fails for whatever reason drops the token of a session that is still shown, and a check that is answered after the
  logout shows the session again.\<close>

lemma a_failed_check_keeps_the_page:
  assumes "ap_session a = Some session" and "ap_asked a = [as_token session]"
  shows "ap_session (app_step (SessionRefused (as_token session)) a) = Some session" and "ap_token (app_step (SessionRefused (as_token session)) a) = None"
  using assms by simp_all

lemma a_late_answer_undoes_the_logout:
  assumes "ap_asked a = [as_token session]"
  shows "ap_session (app_step (SessionAnswered session) (app_step LogoutClicked a)) = Some session"
    and "ap_token (app_step (SessionAnswered session) (app_step LogoutClicked a)) = None"
  using assms by simp_all

section \<open>The shell\<close>

text \<open>The routes of \<open>AdminShell\<close> and their elements.\<close>

datatype shell_route =
    HomeRoute | ExamsRoute | NewExamRoute | EditExamRoute string | ExamRoute string | ProctorRoute string | OperationsRoute
  | AiEvaluationRoute | AdminUsersRoute | OrganizationApplicationRoute | OrganizationInvitationsRoute | ManagerApplicationRoute

datatype shell_page =
    DashboardPage | MemberHomePage | ExamListPage | ExamCreatePage | ExamEditPage string | ExamDetailPage string | LiveProctorPage string
  | OperationsPage | AiEvaluationPage | AdminUsersPage | OrganizationApplicationPage | InvitationInboxPage | ManagerApplicationPage
  | RedirectTo string

definition canManageOrganization :: "auth_session \<Rightarrow> bool" where
  "canManageOrganization session \<longleftrightarrow> usr_role (as_user session) = ADMIN \<or> usr_role (as_user session) = ORGANIZATION"

definition canViewExams :: "auth_session \<Rightarrow> bool" where
  "canViewExams session \<longleftrightarrow> usr_role (as_user session) \<noteq> CANDIDATE"

definition canViewOperations :: "auth_session \<Rightarrow> bool" where
  "canViewOperations session \<longleftrightarrow> usr_role (as_user session) = ADMIN"

definition canRequestOrganization :: "auth_session \<Rightarrow> bool" where
  "canRequestOrganization session \<longleftrightarrow> usr_role (as_user session) \<noteq> ADMIN \<and> \<not> truthy (usr_organizationId (as_user session))"

definition canRequestOrganizationManager :: "auth_session \<Rightarrow> bool" where
  "canRequestOrganizationManager session \<longleftrightarrow> usr_role (as_user session) \<noteq> ADMIN \<and> usr_role (as_user session) \<noteq> ORGANIZATION \<and>
     truthy (usr_organizationId (as_user session))"

fun shell_element :: "auth_session \<Rightarrow> shell_route \<Rightarrow> shell_page" where
  "shell_element session HomeRoute = (if canViewExams session then DashboardPage else MemberHomePage)"
| "shell_element session ExamsRoute = (if canViewExams session then ExamListPage else RedirectTo ''/'')"
| "shell_element session NewExamRoute = (if canManageOrganization session then ExamCreatePage else RedirectTo ''/exams'')"
| "shell_element session (EditExamRoute examId) = (if canManageOrganization session then ExamEditPage examId else RedirectTo ''/exams'')"
| "shell_element session (ExamRoute examId) = (if canManageOrganization session then ExamDetailPage examId else RedirectTo ''/exams'')"
| "shell_element session (ProctorRoute examId) = (if canViewExams session then LiveProctorPage examId else RedirectTo ''/'')"
| "shell_element session OperationsRoute = (if canViewOperations session then OperationsPage else RedirectTo ''/'')"
| "shell_element session AiEvaluationRoute = (if canManageOrganization session then AiEvaluationPage else RedirectTo ''/'')"
| "shell_element session AdminUsersRoute = (if canManageOrganization session then AdminUsersPage else RedirectTo ''/exams'')"
| "shell_element session OrganizationApplicationRoute = (if canRequestOrganization session then OrganizationApplicationPage else RedirectTo ''/'')"
| "shell_element session OrganizationInvitationsRoute = (if canRequestOrganization session then InvitationInboxPage else RedirectTo ''/'')"
| "shell_element session ManagerApplicationRoute = (if canRequestOrganizationManager session then ManagerApplicationPage else RedirectTo ''/'')"

text \<open>What a page with its panels asks of the routes of the administration; \<open>canManage\<close> hides the button of a table.\<close>

fun page_asks :: "auth_session \<Rightarrow> shell_page \<Rightarrow> admin_request \<Rightarrow> bool" where
  "page_asks session DashboardPage request \<longleftrightarrow> (case request of ShowDashboard \<Rightarrow> True | DeleteExam _ \<Rightarrow> canManageOrganization session | _ \<Rightarrow> False)"
| "page_asks session ExamListPage request \<longleftrightarrow> (case request of ListExams \<Rightarrow> True | DeleteExam _ \<Rightarrow> canManageOrganization session | _ \<Rightarrow> False)"
| "page_asks session ExamCreatePage request \<longleftrightarrow> (case request of CreateExam _ \<Rightarrow> True | _ \<Rightarrow> False)"
| "page_asks session (ExamEditPage examId) request \<longleftrightarrow> (case request of ExamDetail i \<Rightarrow> i = examId | UpdateExam i _ \<Rightarrow> i = examId | _ \<Rightarrow> False)"
| "page_asks session (ExamDetailPage examId) request \<longleftrightarrow> (case request of
     ExamDetail i \<Rightarrow> i = examId | ExamReport i \<Rightarrow> i = examId | GenerateReports i \<Rightarrow> i = examId | AddQuestion i _ \<Rightarrow> canManageOrganization session \<and> i = examId
   | AddTestCase _ _ \<Rightarrow> canManageOrganization session | AddCandidate i _ \<Rightarrow> canManageOrganization session \<and> i = examId
   | SendInvite _ \<Rightarrow> canManageOrganization session | DeleteExam i \<Rightarrow> canManageOrganization session \<and> i = examId | _ \<Rightarrow> False)"
| "page_asks session (LiveProctorPage examId) request \<longleftrightarrow> (case request of ProctorLive i \<Rightarrow> i = examId | ProctorAction _ _ \<Rightarrow> True | _ \<Rightarrow> False)"
| "page_asks session AiEvaluationPage request \<longleftrightarrow> (case request of ListExams \<Rightarrow> True | ExamReport _ \<Rightarrow> True | GenerateReports _ \<Rightarrow> True | _ \<Rightarrow> False)"
| "page_asks session _ request \<longleftrightarrow> False"

lemma manages_iff: "canManageOrganization session \<longleftrightarrow> usr_role (as_user session) \<in> {ADMIN, ORGANIZATION}"
  by (simp add: canManageOrganization_def)

lemma views_iff: "canViewExams session \<longleftrightarrow> usr_role (as_user session) \<in> {ADMIN, ORGANIZATION, PROCTOR}"
  by (cases "usr_role (as_user session)") (simp_all add: canViewExams_def)

lemma asked_needs_role: "page_asks session (shell_element session route) request \<Longrightarrow> usr_role (as_user session) \<in> required_roles request"
  by (cases route; cases request) (auto simp: manages_iff views_iff split: if_splits)

definition request_route :: "admin_request \<Rightarrow> shell_route" where
  "request_route request = (case request of ListExams \<Rightarrow> ExamsRoute | CreateExam _ \<Rightarrow> NewExamRoute | UpdateExam i _ \<Rightarrow> EditExamRoute i
     | ExamReport i \<Rightarrow> ExamRoute i | ProctorLive i \<Rightarrow> ProctorRoute i | ExamDetail i \<Rightarrow> ExamRoute i | DeleteExam i \<Rightarrow> ExamsRoute
     | AddQuestion i _ \<Rightarrow> ExamRoute i | AddTestCase i _ \<Rightarrow> ExamRoute i | AddCandidate i _ \<Rightarrow> ExamRoute i | SendInvite i \<Rightarrow> ExamRoute i
     | ProctorAction i _ \<Rightarrow> ProctorRoute i | ShowDashboard \<Rightarrow> HomeRoute | GenerateReports i \<Rightarrow> ExamRoute i)"

lemma role_reaches: "usr_role (as_user session) \<in> required_roles request \<Longrightarrow> page_asks session (shell_element session (request_route request)) request"
  by (cases request) (auto simp: request_route_def manages_iff views_iff)

text \<open>C24. The pages of the administration ask exactly for what the server allows the role of their session: an operation can be asked
  for on some page if and only if the server, in any state, does not answer it with 403; and where it does, nothing has
  happened. The queries of the database are supposed not to fail with the application's own 403.\<close>

theorem pages_ask_what_the_server_allows:
  assumes "queries_never_forbid (api_store a)"
  shows "((\<exists>route. page_asks session (shell_element session route) request) \<longleftrightarrow>
      \<not> (\<exists>message. fst (admin_operation a request session s) = Inl (Forbidden message))) \<and>
    ((\<nexists>route. page_asks session (shell_element session route) request) \<longrightarrow> snd (admin_operation a request session s) = s)"
proof -
  have asked: "(\<exists>route. page_asks session (shell_element session route) request) \<longleftrightarrow> usr_role (as_user session) \<in> required_roles request"
    using asked_needs_role role_reaches by blast
  show ?thesis
  proof (cases "usr_role (as_user session) \<in> required_roles request")
    case True
    with operation_admits_the_role [OF assms True] asked show ?thesis by (metis not_forbidden_def throws_onlyD)
  next
    case False
    with operation_refuses_the_role [OF False, of a s] asked show ?thesis by auto
  qed
qed

lemma kept_tables_are_plain: "plain_table (kept_table get upd)"
  by (simp add: plain_table_def throws_only_def part_table_def table.defs store_table.defs list_table_def split: option.split)

lemma pages_ask_what_the_server_allows_witness:
  "\<exists>message. fst (admin_operation (whole_api 2000) (DeleteExam ''e1'') (sample_manager\<lparr>as_user := (as_user sample_manager)\<lparr>usr_role := PROCTOR\<rparr>\<rparr>)
     (app_store (whole_app exam_contents))) = Inl (Forbidden message)"
proof -
  let ?proctor = "sample_manager\<lparr>as_user := (as_user sample_manager)\<lparr>usr_role := PROCTOR\<rparr>\<rparr>"
  have "queries_never_forbid (api_store (whole_api 2000))"
    by (simp add: queries_never_forbid_def whole_ctx_def whole_api_def kept_tables_are_plain throws_ret)
  from pages_ask_what_the_server_allows [OF this] asked_needs_role [of ?proctor _ "DeleteExam ''e1''"] show ?thesis by fastforce
qed

section \<open>The editor of an exam\<close>

text \<open>
  The value of an input of type \<open>datetime-local\<close> is the minute that its text denotes, read as a clock on the wall; \<open>zone\<close> is how many
  milliseconds the zone of the browser is ahead of UTC.
\<close>

definition toDateTimeLocal :: "time \<Rightarrow> int" where
  "toDateTimeLocal t = t div 60000"

definition fromDateTimeLocal :: "int \<Rightarrow> int \<Rightarrow> date_text" where
  "fromDateTimeLocal zone minute = IsoText (minute * 60000 - zone)"

record exam_form =
  ef_input :: exam_input
  ef_startAt :: int
  ef_endAt :: int

fun iso_time :: "date_text \<Rightarrow> time option" where
  "iso_time (IsoText t) = Some t"
| "iso_time (ClientText s) = None"

text \<open>The initial form of \<open>ExamEdit\<close>, for an exam whose times are in the form that the server prints.\<close>

definition initialExam :: "exam \<Rightarrow> exam_form option" where
  "initialExam exam = (case (iso_time (ex_startAt exam), iso_time (ex_endAt exam)) of
       (Some startAt, Some endAt) \<Rightarrow> Some
         \<lparr>ef_input = \<lparr>xi_title = ex_title exam, xi_description = ex_description exam, xi_startAt = ex_startAt exam, xi_endAt = ex_endAt exam,
            xi_durationMinutes = ex_durationMinutes exam, xi_languages = ex_languages exam, xi_proctoringEnabled = ex_proctoringEnabled exam,
            xi_identityVerificationEnabled = ex_identityVerificationEnabled exam, xi_mobileCameraRequired = ex_mobileCameraRequired exam,
            xi_screenShareRequired = ex_screenShareRequired exam\<rparr>,
          ef_startAt = toDateTimeLocal startAt, ef_endAt = toDateTimeLocal endAt\<rparr>
     | _ \<Rightarrow> None)"

definition submit_form :: "int \<Rightarrow> exam_form \<Rightarrow> exam_input" where
  "submit_form zone form = (ef_input form)
     \<lparr>xi_startAt := fromDateTimeLocal zone (ef_startAt form), xi_endAt := fromDateTimeLocal zone (ef_endAt form),
      xi_languages := if xi_languages (ef_input form) \<noteq> [] then xi_languages (ef_input form) else [''Python'']\<rparr>"

definition shown_languages :: "string list \<Rightarrow> string" where
  "shown_languages languages = join_with '', '' languages"

definition typed_languages :: "string \<Rightarrow> string list" where
  "typed_languages s = filter (\<lambda>item. item \<noteq> []) (map trim (split_on CHR '','' s))"

text \<open>The body that the page sends: the fields of the form, all of them.\<close>

definition exam_body :: "exam_input \<Rightarrow> exam_patch" where
  "exam_body input = \<lparr>xp_id = None, xp_organizationId = None, xp_title = Some (xi_title input), xp_description = Some (xi_description input),
     xp_startAt = Some (xi_startAt input), xp_endAt = Some (xi_endAt input), xp_durationMinutes = Some (xi_durationMinutes input),
     xp_status = None, xp_languages = Some (xi_languages input), xp_proctoringEnabled = Some (xi_proctoringEnabled input),
     xp_identityVerificationEnabled = Some (xi_identityVerificationEnabled input),
     xp_mobileCameraRequired = Some (xi_mobileCameraRequired input), xp_screenShareRequired = Some (xi_screenShareRequired input),
     xp_createdAt = None\<rparr>"

lemma saved_form:
  assumes "initialExam exam = Some form" and "ex_startAt exam = IsoText startAt" and "ex_endAt exam = IsoText endAt"
    and "ex_languages exam \<noteq> []"
  shows "updated_exam (exam_body (submit_form zone form)) exam =
      exam\<lparr>ex_startAt := IsoText (startAt - startAt mod 60000 - zone), ex_endAt := IsoText (endAt - endAt mod 60000 - zone)\<rparr>"
    and "database_patch c (exam_body (submit_form zone form)) = Inr (exam_body (submit_form zone form))"
proof -
  have cut: "t div 60000 * 60000 = t - t mod 60000" for t :: int by (simp add: minus_mod_eq_div_mult)
  have form: "submit_form zone form = \<lparr>xi_title = ex_title exam, xi_description = ex_description exam,
      xi_startAt = IsoText (startAt - startAt mod 60000 - zone), xi_endAt = IsoText (endAt - endAt mod 60000 - zone),
      xi_durationMinutes = ex_durationMinutes exam, xi_languages = ex_languages exam, xi_proctoringEnabled = ex_proctoringEnabled exam,
      xi_identityVerificationEnabled = ex_identityVerificationEnabled exam, xi_mobileCameraRequired = ex_mobileCameraRequired exam,
      xi_screenShareRequired = ex_screenShareRequired exam\<rparr>"
    using assms by (auto simp: initialExam_def submit_form_def fromDateTimeLocal_def toDateTimeLocal_def cut)
  show "updated_exam (exam_body (submit_form zone form)) exam =
      exam\<lparr>ex_startAt := IsoText (startAt - startAt mod 60000 - zone), ex_endAt := IsoText (endAt - endAt mod 60000 - zone)\<rparr>"
    unfolding form by (simp add: updated_exam_def exam_body_def)
  show "database_patch c (exam_body (submit_form zone form)) = Inr (exam_body (submit_form zone form))"
    unfolding form by (simp add: database_patch_def exam_body_def database_date_def date_value_def bindR_def)
qed

lemma zone_moves:
  assumes "(zone :: int) mod 60000 = 0"
  shows "t - t mod 60000 - zone = t \<longleftrightarrow> zone = 0 \<and> t mod 60000 = 0"
proof
  assume "t - t mod 60000 - zone = t"
  then have zone: "zone = - (t mod 60000)" by simp
  have "60000 dvd zone" using assms by (simp add: dvd_eq_mod_eq_0)
  then have "60000 dvd t mod 60000" by (simp only: zone dvd_minus_iff)
  then have "t mod 60000 = 0" by (simp only: dvd_eq_mod_eq_0 mod_mod_trivial)
  with zone show "zone = 0 \<and> t mod 60000 = 0" by simp
qed simp

text \<open>C25. Opening an exam in the editor and saving it without a change, while it stays as it was opened, keeps everything of the
  exam in the store but its times: both are cut to the minute and moved back by the distance of the browser's zone from
  UTC. So the exam stays as it is only in UTC and only if both times are whole minutes.\<close>

theorem saving_an_exam_moves_its_schedule:
  assumes "good_tables c content" and "initialExam exam = Some form" and "ex_startAt exam = IsoText startAt" and "ex_endAt exam = IsoText endAt"
    and "ex_languages exam \<noteq> []" and "zone mod 60000 = 0"
    and "updateExam c (ex_id exam) (exam_body (submit_form zone form)) session s = (Inr saved, s')"
  shows "\<exists>before after old. list_moved c content s s' k_exams mm_exams before after \<and> exam_changed session (ex_id exam) old saved before after \<and>
    (old = exam \<longrightarrow>
      saved = exam\<lparr>ex_startAt := IsoText (startAt - startAt mod 60000 - zone), ex_endAt := IsoText (endAt - endAt mod 60000 - zone)\<rparr> \<and>
      (saved = exam \<longleftrightarrow> zone = 0 \<and> startAt mod 60000 = 0 \<and> endAt mod 60000 = 0))"
proof -
  let ?saved = "exam\<lparr>ex_startAt := IsoText (startAt - startAt mod 60000 - zone), ex_endAt := IsoText (endAt - endAt mod 60000 - zone)\<rparr>"
  note form = saved_form [OF assms(2-5)]
  from updateExam_changed [OF assms(1,7)] obtain before after old written where
    moved: "list_moved c content s s' k_exams mm_exams before after" "exam_changed session (ex_id exam) old saved before after"
      "saved = updated_exam written old"
    and w: "if used_database c s s' then database_patch c (exam_body (submit_form zone form)) = Inr written
      else written = exam_body (submit_form zone form)" by blast
  have "written = exam_body (submit_form zone form)" using w by (simp add: form(2) split: if_splits)
  have "?saved = exam \<longleftrightarrow> ex_startAt ?saved = ex_startAt exam \<and> ex_endAt ?saved = ex_endAt exam"
    by (cases exam) simp
  then have "?saved = exam \<longleftrightarrow> zone = 0 \<and> startAt mod 60000 = 0 \<and> endAt mod 60000 = 0"
    using zone_moves [OF assms(6), of startAt] zone_moves [OF assms(6), of endAt] assms(3,4) by auto
  with moved form(1) \<open>written = _\<close> show ?thesis by metis
qed

lemma saving_an_exam_moves_its_schedule_witness:
  "\<exists>form saved s'. initialExam sample_exam = Some form \<and>
     updateExam (production_ctx 5) ''e1'' (exam_body (submit_form 32400000 form)) sample_manager (store_of exam_contents) = (Inr saved, s') \<and>
     ex_startAt saved = IsoText (- 32400000) \<and> saved \<noteq> sample_exam"
proof -
  obtain form where form: "initialExam sample_exam = Some form" by (simp add: initialExam_def sample_exam_def)
  have dates: "ex_startAt sample_exam = IsoText 0" "ex_endAt sample_exam = IsoText 1000000" "ex_languages sample_exam \<noteq> []"
    by (simp_all add: sample_exam_def)
  let ?body = "exam_body (submit_form 32400000 form)"
  obtain s' where run: "updateExam (production_ctx 5) (ex_id sample_exam) ?body sample_manager (store_of exam_contents) =
      (Inr (updated_exam ?body sample_exam), s')"
    using saved_form(2) [OF form dates, of "production_ctx 5" 32400000]
    by (simp add: updateExam_def run_simps assertSessionCanManageExams_def require_exam_def assertSessionCanAccessExam_def exam_contents_def)
  have "(32400000 :: int) mod 60000 = 0" by simp
  from saving_an_exam_moves_its_schedule [OF good_plain form dates this run] obtain before after old where
    "list_moved (production_ctx 5) id (store_of exam_contents) s' k_exams mm_exams before after"
    "exam_changed sample_manager (ex_id sample_exam) old (updated_exam ?body sample_exam) before after"
    "old = sample_exam \<longrightarrow> updated_exam ?body sample_exam = sample_exam\<lparr>ex_startAt := IsoText (0 - 0 mod 60000 - 32400000),
       ex_endAt := IsoText (1000000 - 1000000 mod 60000 - 32400000)\<rparr>" by blast
  moreover from this(1,2) have "old = sample_exam"
    by (auto simp: list_moved_def exam_changed_def exam_contents_def used_database_def asks_database_def run_simps)
  ultimately have start: "ex_startAt (updated_exam ?body sample_exam) = IsoText (- 32400000)" by simp
  then have "updated_exam ?body sample_exam \<noteq> sample_exam" using dates(1) by auto
  with form start run show ?thesis
    by (intro exI [of _ form] exI [of _ "updated_exam ?body sample_exam"] exI [of _ s']) simp
qed

text \<open>The languages: what the field shows is read back, and so is a comma typed after it, which is thereby lost.\<close>

lemma trim_space: "trim (CHR '' '' # s) = trim s"
proof -
  have "js_space CHR '' ''" by code_simp
  then show ?thesis by (simp add: trim_def trimStart_def)
qed

lemma typed_leading_space: "typed_languages (CHR '' '' # s) = typed_languages s"
proof -
  obtain w ws where "split_on CHR '','' s = w # ws" using split_on_nonempty by (cases "split_on CHR '','' s") auto
  then show ?thesis by (simp add: typed_languages_def trim_space)
qed

lemma typed_comma:
  assumes "l \<noteq> []" and "trim l = l" and "CHR '','' \<notin> set l"
  shows "typed_languages (l @ CHR '','' # s) = l # typed_languages s"
  using assms split_on_append [OF assms(3), of s] by (simp add: typed_languages_def)

lemma languages_read_back:
  assumes "\<forall>l \<in> set ls. l \<noteq> [] \<and> trim l = l \<and> CHR '','' \<notin> set l"
  shows "typed_languages (shown_languages ls) = ls" and "typed_languages (shown_languages ls @ '','') = ls"
proof -
  have empty: "typed_languages [] = []" by (simp add: typed_languages_def)
  have "typed_languages (shown_languages ls) = ls \<and> typed_languages (shown_languages ls @ '','') = ls"
    using assms
  proof (induction ls)
    case Nil
    then show ?case by (simp add: shown_languages_def typed_languages_def)
  next
    case (Cons l ls)
    then have l: "l \<noteq> []" "trim l = l" "CHR '','' \<notin> set l" by simp_all
    show ?case
    proof (cases ls)
      case Nil
      then show ?thesis using typed_comma [OF l, of "[]"] split_on_single [OF l(3)] l empty by (simp add: shown_languages_def typed_languages_def)
    next
      case (Cons m ms)
      then have "shown_languages (l # ls) = l @ CHR '','' # CHR '' '' # shown_languages ls" by (simp add: shown_languages_def)
      then show ?thesis using Cons.IH Cons.prems typed_comma [OF l] typed_leading_space by simp
    qed
  qed
  then show "typed_languages (shown_languages ls) = ls" "typed_languages (shown_languages ls @ '','') = ls" by simp_all
qed

section \<open>The page of the evaluations\<close>

text \<open>\<open>AiEvaluation.tsx\<close>: the exam that is selected, the reports of the last generation, and the exam of the generation under way.\<close>

record evaluation_page =
  ep_selected :: string
  ep_generated :: "competency_report list"
  ep_pending :: "string option"

definition opened_evaluation :: evaluation_page where
  "opened_evaluation = \<lparr>ep_selected = [], ep_generated = [], ep_pending = None\<rparr>"

datatype evaluation_event =
    ExamsFetched "exam list" | ExamSelected string | GenerateClicked | ReportsArrived "competency_report list" | GenerationFailed

fun evaluation_step :: "evaluation_event \<Rightarrow> evaluation_page \<Rightarrow> evaluation_page \<times> admin_request list" where
  "evaluation_step (ExamsFetched exams) p =
     (if ep_selected p = [] \<and> exams \<noteq> [] then p\<lparr>ep_selected := ex_id (hd exams)\<rparr> else p, [])"
| "evaluation_step (ExamSelected examId) p = (p\<lparr>ep_generated := [], ep_selected := examId\<rparr>, [])"
| "evaluation_step GenerateClicked p =
     (if ep_selected p \<noteq> [] \<and> ep_pending p = None then (p\<lparr>ep_pending := Some (ep_selected p)\<rparr>, [GenerateReports (ep_selected p)]) else (p, []))"
| "evaluation_step (ReportsArrived reports) p = (p\<lparr>ep_generated := reports, ep_pending := None\<rparr>, [])"
| "evaluation_step GenerationFailed p = (p\<lparr>ep_pending := None\<rparr>, [])"

definition currentReports :: "exam_report option \<Rightarrow> evaluation_page \<Rightarrow> competency_report list" where
  "currentReports report p =
     (if ep_generated p \<noteq> [] then ep_generated p
      else (case report of Some r \<Rightarrow> concat (map cr_aiReports (xr_candidates r)) | None \<Rightarrow> []))"

text \<open>The reports that arrive are of the exam that they were asked for, and the exam is not changed while they are awaited.\<close>

fun awaited :: "evaluation_page \<Rightarrow> evaluation_event list \<Rightarrow> bool" where
  "awaited p [] \<longleftrightarrow> True"
| "awaited p (e # es) \<longleftrightarrow>
     (case e of ExamSelected _ \<Rightarrow> ep_pending p = None
      | ReportsArrived reports \<Rightarrow> (\<exists>i. ep_pending p = Some i \<and> (\<forall>r \<in> set reports. rep_examId r = i)) | _ \<Rightarrow> True) \<and>
     awaited (fst (evaluation_step e p)) es"

definition evaluation_inv :: "evaluation_page \<Rightarrow> bool" where
  "evaluation_inv p \<longleftrightarrow> (\<forall>r \<in> set (ep_generated p). rep_examId r = ep_selected p) \<and>
     (\<forall>i. ep_pending p = Some i \<longrightarrow> i = ep_selected p \<and> i \<noteq> []) \<and> (ep_selected p = [] \<longrightarrow> ep_generated p = [])"

lemma evaluation_step_inv:
  assumes "evaluation_inv p" and "awaited p [e]"
  shows "evaluation_inv (fst (evaluation_step e p))"
proof (cases e)
  case (ExamsFetched exams)
  then show ?thesis using assms(1) by (cases "ep_pending p") (simp_all add: evaluation_inv_def)
next
  case (ReportsArrived reports)
  then show ?thesis using assms by (simp add: evaluation_inv_def) metis
qed (use assms in \<open>simp_all add: evaluation_inv_def\<close>)

lemma evaluation_run_inv:
  "evaluation_inv p \<Longrightarrow> awaited p es \<Longrightarrow> evaluation_inv (fold (\<lambda>e p. fst (evaluation_step e p)) es p)"
proof (induction es arbitrary: p)
  case (Cons e es)
  have "awaited p [e]" "awaited (fst (evaluation_step e p)) es" using Cons.prems(2) by simp_all
  then show ?case using Cons.IH evaluation_step_inv [OF Cons.prems(1)] by simp
qed simp

text \<open>The generated reports that the page shows are of the exam that is selected, if the selection does not change while they are
  awaited; if it does, the reports of the one exam are shown for the other.\<close>

lemma shown_evaluations_are_of_the_exam:
  assumes "awaited opened_evaluation es" and "p = fold (\<lambda>e p. fst (evaluation_step e p)) es opened_evaluation"
    and "\<forall>r \<in> set (currentReports report (p\<lparr>ep_generated := []\<rparr>)). rep_examId r = ep_selected p"
  shows "\<forall>r \<in> set (currentReports report p). rep_examId r = ep_selected p"
proof -
  have "evaluation_inv p" unfolding assms(2) by (rule evaluation_run_inv [OF _ assms(1)]) (simp add: evaluation_inv_def opened_evaluation_def)
  then show ?thesis using assms(3) by (auto simp: evaluation_inv_def currentReports_def)
qed

lemma reports_of_another_exam_are_shown:
  assumes "reports \<noteq> []" and "i \<noteq> []"
  shows "currentReports report (fold (\<lambda>e p. fst (evaluation_step e p)) [ExamSelected i, GenerateClicked, ExamSelected j, ReportsArrived reports] opened_evaluation) = reports"
    and "ep_selected (fold (\<lambda>e p. fst (evaluation_step e p)) [ExamSelected i, GenerateClicked, ExamSelected j, ReportsArrived reports] opened_evaluation) = j"
  using assms by (simp_all add: opened_evaluation_def currentReports_def)

end
