(* ===== verification/MobileIdentity.thy ===== *)
theory MobileIdentity
  imports CandidatePages PageMachine
begin

text \<open>
  The identity check on the candidate's phone (\<open>CandidateMobileIdentityVerification\<close> in \<open>CandidateFlow.tsx\<close>, with the controls of
  \<open>CandidateIdentityParts.tsx\<close>) as a machine over clicks, answers of the server and the camera. \<open>captureFace\<close> and the verification are
  asynchronous; other events come in between. What the page sends is compared with what the server asks of it.
\<close>

section \<open>State and requests\<close>

text \<open>The awaits of \<open>startCamera\<close>: \<open>getUserMedia\<close> with its facing mode, and \<open>play\<close>.\<close>

datatype capture_stage = CameraAsked bool | PreviewStarting

text \<open>The mutation: idle, waiting for the provider's session with the flags of the click, or waiting for the verification.\<close>

datatype verify_stage = VerifyIdle | SessionAsked bool bool bool | VerifyAsked

text \<open>\<open>mi_live\<close> holds the streams whose tracks run, \<open>mi_stream\<close> is \<open>streamRef\<close>, \<open>mi_result\<close> is \<open>mutation.data\<close>.\<close>

record mobile_page =
  mi_mounted :: bool
  mi_data :: "candidate_invite option"
  mi_error :: bool
  mi_documentProvided :: bool
  mi_faceCaptured :: bool
  mi_livenessConfirmed :: bool
  mi_privacyConsentAccepted :: bool
  mi_cameraActive :: bool
  mi_userFacing :: bool
  mi_stream :: "nat option"
  mi_live :: "nat list"
  mi_next :: nat
  mi_captures :: "(nat \<times> capture_stage) list"
  mi_session :: "provider_session option"
  mi_verifying :: verify_stage
  mi_result :: "identity_verification option"

definition opened_page :: mobile_page where
  "opened_page = \<lparr>mi_mounted = True, mi_data = None, mi_error = False, mi_documentProvided = False, mi_faceCaptured = False,
     mi_livenessConfirmed = False, mi_privacyConsentAccepted = False, mi_cameraActive = False, mi_userFacing = True, mi_stream = None,
     mi_live = [], mi_next = 0, mi_captures = [], mi_session = None, mi_verifying = VerifyIdle, mi_result = None\<rparr>"

datatype mobile_event =
    InviteFetched candidate_invite | InviteFailed | ConsentChanged bool | DocumentChosen | FaceClicked | LivenessClicked | FacingToggled
  | CameraGranted nat bool | PreviewShown nat | CaptureRejected nat | VerifyClicked | SessionCreated provider_session
  | VerificationAnswered identity_verification | MutationFailed | MobileLeft

datatype mobile_request = CameraRequested bool | SessionRequested consent_input | VerificationSent identity_input

type_synonym mobile_act = "mobile_page \<times> mobile_request list"

section \<open>The functions of the page\<close>

definition shown_verification :: "mobile_page \<Rightarrow> identity_verification option" where
  "shown_verification p = (case mi_result p of Some v \<Rightarrow> Some v
     | None \<Rightarrow> (case mi_data p of Some data \<Rightarrow> ci_identityVerification data | None \<Rightarrow> None))"

definition page_verified :: "mobile_page \<Rightarrow> bool" where
  "page_verified p \<longleftrightarrow> (case shown_verification p of Some v \<Rightarrow> iv_status v = ID_VERIFIED | None \<Rightarrow> False)"

text \<open>The controls are on the page once the invitation is there, unless fetching it failed; every one is disabled after the verification.\<close>

definition controls_enabled :: "mobile_page \<Rightarrow> bool" where
  "controls_enabled p \<longleftrightarrow> mi_mounted p \<and> mi_data p \<noteq> None \<and> \<not> mi_error p \<and> \<not> page_verified p"

definition stop_tracks :: "mobile_page \<Rightarrow> mobile_page" where
  "stop_tracks p = (case mi_stream p of Some stream \<Rightarrow> p\<lparr>mi_live := removeAll stream (mi_live p)\<rparr> | None \<Rightarrow> p)"

definition stopCamera :: "mobile_page \<Rightarrow> mobile_page" where
  "stopCamera p = (stop_tracks p)\<lparr>mi_stream := None, mi_cameraActive := False\<rparr>"

definition captureFace :: "mobile_page \<Rightarrow> mobile_act" where
  "captureFace p =
     (if mi_cameraActive p then (p\<lparr>mi_faceCaptured := True\<rparr>, [])
      else (let stopped = stopCamera p
            in (stopped\<lparr>mi_captures := (mi_next p, CameraAsked (mi_userFacing p)) # mi_captures p, mi_next := Suc (mi_next p)\<rparr>,
                [CameraRequested (mi_userFacing p)])))"

definition end_capture :: "nat \<Rightarrow> mobile_page \<Rightarrow> mobile_page" where
  "end_capture i p = p\<lparr>mi_captures := filter (\<lambda>(j, x). j \<noteq> i) (mi_captures p)\<rparr>"

text \<open>\<open>startCamera\<close> after the grant; \<open>preview\<close>: the page shows its video element, which is then played.\<close>

definition camera_granted :: "nat \<Rightarrow> bool \<Rightarrow> mobile_page \<Rightarrow> mobile_page" where
  "camera_granted i preview p =
     (let stream = mi_next p;
          started = (end_capture i p)\<lparr>mi_next := Suc stream, mi_stream := Some stream, mi_live := stream # mi_live p, mi_cameraActive := True\<rparr>
      in if preview then started\<lparr>mi_captures := (i, PreviewStarting) # mi_captures started\<rparr> else started\<lparr>mi_faceCaptured := True\<rparr>)"

definition toggleCamera :: "mobile_page \<Rightarrow> mobile_page" where
  "toggleCamera p = (stopCamera p)\<lparr>mi_userFacing := \<not> mi_userFacing p\<rparr>"

definition verify_enabled :: "mobile_page \<Rightarrow> bool" where
  "verify_enabled p \<longleftrightarrow> controls_enabled p \<and>
     \<not> (mi_verifying p \<noteq> VerifyIdle \<or> \<not> mi_privacyConsentAccepted p \<or> \<not> mi_documentProvided p \<or> \<not> mi_faceCaptured p \<or> \<not> mi_livenessConfirmed p)"

definition verification_body :: "provider_session \<Rightarrow> bool \<Rightarrow> bool \<Rightarrow> bool \<Rightarrow> identity_input" where
  "verification_body providerSession documentProvided faceCaptured livenessConfirmed =
     \<lparr>idi_documentImageName = None, idi_documentCaptured = documentProvided, idi_faceImageCaptured = faceCaptured,
      idi_livenessConfirmed = livenessConfirmed, idi_providerSessionId = Some (ps_providerSessionId providerSession),
      idi_documentUploadRef = Some (ps_documentUploadRef providerSession), idi_faceUploadRef = Some (ps_faceUploadRef providerSession)\<rparr>"

text \<open>\<open>getSession\<close> of \<open>useIdentityProviderSession\<close> keeps the first session for every later attempt.\<close>

definition verify_clicked :: "mobile_page \<Rightarrow> mobile_act" where
  "verify_clicked p = (case mi_session p of
       Some providerSession \<Rightarrow> (p\<lparr>mi_result := None, mi_verifying := VerifyAsked\<rparr>,
         [VerificationSent (verification_body providerSession (mi_documentProvided p) (mi_faceCaptured p) (mi_livenessConfirmed p))])
     | None \<Rightarrow> (p\<lparr>mi_result := None, mi_verifying := SessionAsked (mi_documentProvided p) (mi_faceCaptured p) (mi_livenessConfirmed p)\<rparr>,
         [SessionRequested \<lparr>coi_privacyConsentAccepted = mi_privacyConsentAccepted p, coi_privacyPolicyVersion = CURRENT_PRIVACY_POLICY_VERSION\<rparr>]))"

definition session_created :: "provider_session \<Rightarrow> mobile_page \<Rightarrow> mobile_act" where
  "session_created nextSession p = (case mi_verifying p of
       SessionAsked documentProvided faceCaptured livenessConfirmed \<Rightarrow>
         (p\<lparr>mi_session := Some nextSession, mi_verifying := VerifyAsked\<rparr>,
          [VerificationSent (verification_body nextSession documentProvided faceCaptured livenessConfirmed)])
     | _ \<Rightarrow> (p, []))"

fun mobile_step :: "mobile_event \<Rightarrow> mobile_page \<Rightarrow> mobile_act" where
  "mobile_step (InviteFetched data) p = (if mi_mounted p then p\<lparr>mi_data := Some data, mi_error := False\<rparr> else p, [])"
| "mobile_step InviteFailed p = (if mi_mounted p then p\<lparr>mi_error := True\<rparr> else p, [])"
| "mobile_step (ConsentChanged checked) p = (if controls_enabled p then p\<lparr>mi_privacyConsentAccepted := checked\<rparr> else p, [])"
| "mobile_step DocumentChosen p = (if controls_enabled p then p\<lparr>mi_documentProvided := True\<rparr> else p, [])"
| "mobile_step FaceClicked p = (if controls_enabled p then captureFace p else (p, []))"
| "mobile_step LivenessClicked p = (if controls_enabled p \<and> mi_faceCaptured p then p\<lparr>mi_livenessConfirmed := True\<rparr> else p, [])"
| "mobile_step FacingToggled p = (if controls_enabled p then toggleCamera p else p, [])"
| "mobile_step (CameraGranted i preview) p = (case map_of (mi_captures p) i of
       Some (CameraAsked userFacing) \<Rightarrow> (camera_granted i preview p, []) | _ \<Rightarrow> (p, []))"
| "mobile_step (PreviewShown i) p =
     (if map_of (mi_captures p) i = Some PreviewStarting then (end_capture i p)\<lparr>mi_faceCaptured := True\<rparr> else p, [])"
| "mobile_step (CaptureRejected i) p = (end_capture i p, [])"
| "mobile_step VerifyClicked p = (if verify_enabled p then verify_clicked p else (p, []))"
| "mobile_step (SessionCreated nextSession) p = session_created nextSession p"
| "mobile_step (VerificationAnswered v) p =
     (if mi_verifying p = VerifyAsked then p\<lparr>mi_result := Some v, mi_verifying := VerifyIdle\<rparr> else p, [])"
| "mobile_step MutationFailed p = (p\<lparr>mi_verifying := VerifyIdle\<rparr>, [])"
| "mobile_step MobileLeft p = (if mi_mounted p then (stop_tracks p)\<lparr>mi_mounted := False\<rparr> else p, [])"

section \<open>What the flags mean\<close>

text \<open>The liveness follows the face, the face follows a granted camera, and a verification under way was asked for with every flag.\<close>

definition mobile_inv :: "mobile_page \<Rightarrow> bool" where
  "mobile_inv p \<longleftrightarrow> (mi_livenessConfirmed p \<longrightarrow> mi_faceCaptured p) \<and>
     (\<forall>d f l. mi_verifying p = SessionAsked d f l \<longrightarrow> d \<and> f \<and> l \<and> mi_session p = None \<and> mi_faceCaptured p)"

lemma stop_sel [simp]:
  "mi_livenessConfirmed (stop_tracks p) = mi_livenessConfirmed p" "mi_faceCaptured (stop_tracks p) = mi_faceCaptured p"
  "mi_verifying (stop_tracks p) = mi_verifying p" "mi_session (stop_tracks p) = mi_session p" "mi_captures (stop_tracks p) = mi_captures p"
  "mi_stream (stop_tracks p) = mi_stream p" "mi_mounted (stop_tracks p) = mi_mounted p" "mi_cameraActive (stop_tracks p) = mi_cameraActive p"
  "set (mi_live (stop_tracks p)) = set (mi_live p) - set_option (mi_stream p)"
  by (auto simp: stop_tracks_def split: option.split)

lemmas page_functions = stopCamera_def captureFace_def end_capture_def camera_granted_def toggleCamera_def verify_clicked_def
  session_created_def verify_enabled_def Let_def

lemma step_mobile_inv: "mobile_inv p \<Longrightarrow> mobile_inv (fst (mobile_step e p))"
  by (cases e) (auto simp: mobile_inv_def page_functions split: option.split capture_stage.split verify_stage.split)

interpretation mobile_machine: page_machine mobile_step mobile_inv
  by unfold_locales (rule step_mobile_inv)

section \<open>One complete verification\<close>

declare run_page.simps(2) [simp del] run_page_Cons [simp]

lemma sends_of_the_session:
  assumes "mi_session p = Some providerSession" and "mobile_inv p"
    and "VerificationSent i \<in> set (snd (run_page mobile_step es p))"
  shows "i = verification_body providerSession True True True"
  using assms
proof (induction es arbitrary: p)
  case (Cons e es)
  have kept: "mi_session (fst (mobile_step e p)) = Some providerSession"
    using Cons.prems(1,2) by (cases e) (auto simp: mobile_inv_def page_functions stop_tracks_def split: option.split capture_stage.split verify_stage.split)
  have now: "i = verification_body providerSession True True True" if "VerificationSent i \<in> set (snd (mobile_step e p))"
    using that Cons.prems(1,2) by (cases e) (auto simp: mobile_inv_def page_functions split: if_splits option.splits capture_stage.splits verify_stage.splits)
  show ?case using Cons.prems(3) now Cons.IH [OF kept step_mobile_inv [OF Cons.prems(2)]] by auto
qed simp

text \<open>Before the first session nothing is sent; with it the page sends the one body that it will ever send.\<close>

lemma step_without_session:
  assumes "mi_session p = None" "mobile_inv p"
  shows "(mi_session (fst (mobile_step e p)) = None \<and> (\<forall>i. VerificationSent i \<notin> set (snd (mobile_step e p)))) \<or>
    (\<exists>s. e = SessionCreated s \<and> mi_session (fst (mobile_step e p)) = Some s \<and> snd (mobile_step e p) = [VerificationSent (verification_body s True True True)])"
  using assms by (cases e) (auto simp: mobile_inv_def page_functions stop_tracks_def split: option.split capture_stage.split verify_stage.split)

lemma sends_one_body:
  assumes "mi_session p = None" "mobile_inv p" "VerificationSent i \<in> set (snd (run_page mobile_step es p))"
  shows "\<exists>s. SessionCreated s \<in> set es \<and>
    (\<forall>j. VerificationSent j \<in> set (snd (run_page mobile_step es p)) \<longrightarrow> j = verification_body s True True True)"
  using assms
proof (induction es arbitrary: p)
  case (Cons e es)
  note inv = step_mobile_inv [OF Cons.prems(2), of e]
  show ?case
    using step_without_session [OF Cons.prems(1,2), of e]
  proof (elim disjE exE conjE)
    assume "mi_session (fst (mobile_step e p)) = None" and none: "\<forall>i. VerificationSent i \<notin> set (snd (mobile_step e p))"
    then show ?thesis using Cons.IH [OF _ inv] Cons.prems(3) by auto
  next
    fix s assume "e = SessionCreated s" "mi_session (fst (mobile_step e p)) = Some s"
      "snd (mobile_step e p) = [VerificationSent (verification_body s True True True)]"
    then show ?thesis using sends_of_the_session [OF _ inv] by (auto intro!: exI [of _ s])
  qed
qed simp

lemma sends_after_a_session_request:
  assumes "mi_session p = None" "\<forall>d f l. mi_verifying p \<noteq> SessionAsked d f l" "VerificationSent i \<in> set (snd (run_page mobile_step es p))"
  shows "SessionRequested \<lparr>coi_privacyConsentAccepted = True, coi_privacyPolicyVersion = CURRENT_PRIVACY_POLICY_VERSION\<rparr>
    \<in> set (snd (run_page mobile_step es p))"
  using assms
proof (induction es arbitrary: p)
  case (Cons e es)
  have "(mi_session (fst (mobile_step e p)) = None \<and> (\<forall>d f l. mi_verifying (fst (mobile_step e p)) \<noteq> SessionAsked d f l) \<and>
      (\<forall>i. VerificationSent i \<notin> set (snd (mobile_step e p)))) \<or>
    SessionRequested \<lparr>coi_privacyConsentAccepted = True, coi_privacyPolicyVersion = CURRENT_PRIVACY_POLICY_VERSION\<rparr> \<in> set (snd (mobile_step e p))"
    using Cons.prems(1,2) by (cases e) (auto simp: page_functions stop_tracks_def split: option.split capture_stage.split verify_stage.split)
  then show ?case using Cons.IH Cons.prems(3) by auto
qed simp

text \<open>No face without a camera.\<close>

definition faceless :: "mobile_page \<Rightarrow> bool" where
  "faceless p \<longleftrightarrow> \<not> mi_faceCaptured p \<and> \<not> mi_cameraActive p \<and> (\<forall>i. (i, PreviewStarting) \<notin> set (mi_captures p)) \<and>
     (\<forall>d f l. mi_verifying p \<noteq> SessionAsked d f l)"

lemma sends_after_a_grant:
  assumes "faceless p" "VerificationSent i \<in> set (snd (run_page mobile_step es p))"
  shows "\<exists>k preview. CameraGranted k preview \<in> set es"
proof (rule ccontr)
  assume none: "\<not> ?thesis"
  have "faceless (fst (mobile_step e q)) \<and> VerificationSent i \<notin> set (snd (mobile_step e q))"
    if "faceless q" "\<forall>k preview. e \<noteq> CameraGranted k preview" for e q
    using that by (cases e) (auto simp: faceless_def page_functions stop_tracks_def dest: map_of_SomeD split: option.split verify_stage.split)
  then have "VerificationSent i \<notin> set (snd (run_page mobile_step es q))"
    if "faceless q" "\<forall>e\<in>set es. \<forall>k preview. e \<noteq> CameraGranted k preview" for q
    using that by (induction es arbitrary: q) simp_all
  then show False using assms none by blast
qed

lemma body_preconditions:
  "identity_preconditions invite (verification_body s True True True) = Inr () \<longleftrightarrow>
     ex_identityVerificationEnabled (ci_exam invite) \<and>
     cand_identityPrivacyConsentVersion (ci_candidate invite) = Some CURRENT_PRIVACY_POLICY_VERSION \<and>
     cand_identityPrivacyConsentAcceptedAt (ci_candidate invite) \<noteq> None \<and>
     ps_providerSessionId s \<noteq> [] \<and> ps_documentUploadRef s \<noteq> [] \<and> ps_faceUploadRef s \<noteq> []"
  by (auto simp: identity_preconditions_def rejectRawIdentityMedia_def verification_body_def bindR_def truthy_def)

section \<open>The camera of the capture\<close>

text \<open>Nobody asks for a face while a capture is under way, and the page is not left while it waits for the camera.\<close>

fun orderly :: "mobile_page \<Rightarrow> mobile_event list \<Rightarrow> bool" where
  "orderly p [] \<longleftrightarrow> True"
| "orderly p (e # es) \<longleftrightarrow>
     (case e of FaceClicked \<Rightarrow> mi_captures p = [] | MobileLeft \<Rightarrow> (\<forall>(i, stage) \<in> set (mi_captures p). stage = PreviewStarting) | _ \<Rightarrow> True) \<and>
     orderly (fst (mobile_step e p)) es"

definition camera_held :: "mobile_page \<Rightarrow> bool" where
  "camera_held p \<longleftrightarrow> set (mi_live p) \<subseteq> set_option (mi_stream p) \<and> length (mi_captures p) \<le> 1 \<and>
     ((\<exists>(i, stage) \<in> set (mi_captures p). stage \<noteq> PreviewStarting) \<longrightarrow> mi_mounted p \<and> mi_stream p = None) \<and>
     (\<not> mi_mounted p \<longrightarrow> mi_live p = [])"

lemma short_list_cases: "length xs \<le> 1 \<Longrightarrow> (xs = [] \<Longrightarrow> P) \<Longrightarrow> (\<And>x. xs = [x] \<Longrightarrow> P) \<Longrightarrow> P"
  by (cases xs) auto

lemma removed_all: "set xs \<subseteq> {x} \<Longrightarrow> removeAll x xs = []"
  by (induction xs) auto

lemma step_camera_held:
  assumes "camera_held p" "orderly p [e]"
  shows "camera_held (fst (mobile_step e p))"
proof -
  have "length (mi_captures p) \<le> 1" using assms(1) by (simp add: camera_held_def)
  then show ?thesis
    by (rule short_list_cases; use assms in \<open>cases e\<close>)
      (auto simp: camera_held_def controls_enabled_def page_functions stop_tracks_def removed_all
        split: option.splits capture_stage.splits verify_stage.splits if_splits)
qed

lemma run_camera_held: "camera_held p \<Longrightarrow> orderly p es \<Longrightarrow> camera_held (fst (run_page mobile_step es p))"
  by (induction es arbitrary: p) (simp_all add: step_camera_held)

lemma left_page_stays_left: "\<not> mi_mounted p \<Longrightarrow> \<not> mi_mounted (fst (run_page mobile_step es p))"
proof (induction es arbitrary: p)
  case (Cons e es)
  have "\<not> mi_mounted (fst (mobile_step e p))"
    using Cons.prems by (cases e) (auto simp: controls_enabled_def page_functions split: option.split capture_stage.split verify_stage.split)
  then show ?case by (simp add: Cons.IH)
qed simp

lemma leaving_unmounts: "MobileLeft \<in> set es \<Longrightarrow> \<not> mi_mounted (fst (run_page mobile_step es p))"
proof (induction es arbitrary: p)
  case (Cons e es)
  have "\<not> mi_mounted (fst (mobile_step MobileLeft p))" by simp
  then show ?case using Cons left_page_stays_left [of "fst (mobile_step MobileLeft p)" es] by auto
qed simp

text \<open>In order, a page that was left has no camera running, and an open one at most the camera it can stop.\<close>

theorem the_capture_camera_is_released:
  assumes "orderly opened_page es"
  shows "length (remdups (mi_live (fst (run_page mobile_step es opened_page)))) \<le> 1"
    and "MobileLeft \<in> set es \<Longrightarrow> mi_live (fst (run_page mobile_step es opened_page)) = []"
proof -
  let ?p = "fst (run_page mobile_step es opened_page)"
  have held: "camera_held ?p"
    by (rule run_camera_held [OF _ assms]) (simp add: camera_held_def opened_page_def)
  then have "set (mi_live ?p) \<subseteq> set_option (mi_stream ?p)" by (simp add: camera_held_def)
  then have "card (set (mi_live ?p)) \<le> card (set_option (mi_stream ?p))" by (rule card_mono [rotated]) simp
  moreover have "card (set_option (mi_stream ?p)) \<le> 1" by (cases "mi_stream ?p") simp_all
  ultimately show "length (remdups (mi_live ?p)) \<le> 1" by (simp add: length_remdups_card_conv)
  show "mi_live ?p = []" if "MobileLeft \<in> set es"
    using held leaving_unmounts [OF that] by (simp add: camera_held_def)
qed

text \<open>Out of order, a camera granted late runs on after the page was left, and a second click leaves the camera of the first one on.\<close>

definition unverified_invite :: candidate_invite where
  "unverified_invite = consent_invite\<lparr>ci_identityVerification := None\<rparr>"

lemma unverified_sel [simp]:
  "ci_identityVerification unverified_invite = None" "ci_candidate unverified_invite = consenting_candidate"
  "ci_exam unverified_invite = sample_exam"
  by (simp_all add: unverified_invite_def)

lemmas run_simps = opened_page_def page_functions stop_tracks_def controls_enabled_def page_verified_def shown_verification_def

lemma a_late_grant_leaves_the_camera_on:
  "mi_live (fst (run_page mobile_step [InviteFetched unverified_invite, FaceClicked, MobileLeft, CameraGranted 0 False] opened_page)) = [1]"
  by (simp add: run_simps)

lemma two_clicks_leave_a_camera_on:
  "mi_live (fst (run_page mobile_step
     [InviteFetched unverified_invite, FaceClicked, FaceClicked, CameraGranted 0 True, CameraGranted 1 True, MobileLeft] opened_page)) = [2]"
  by (simp add: run_simps)

section \<open>What reaches the server\<close>

text \<open>C21. A verification that the phone sends was preceded by a granted camera, by a request for a provider session that the server's
  check of the consent accepts, and by that session; it carries the references of the session and every capture, so the server refuses it
  beforehand only for the exam's setting, a consent it has not recorded or an empty reference. Every further attempt sends the same.\<close>

theorem the_phone_sends_one_complete_verification:
  assumes "VerificationSent i \<in> set (snd (run_page mobile_step es opened_page))"
  shows "(\<exists>s k preview. SessionCreated s \<in> set es \<and> CameraGranted k preview \<in> set es \<and> i = verification_body s True True True \<and>
      (\<forall>invite. identity_preconditions invite i = Inr () \<longleftrightarrow> ex_identityVerificationEnabled (ci_exam invite) \<and>
        cand_identityPrivacyConsentVersion (ci_candidate invite) = Some CURRENT_PRIVACY_POLICY_VERSION \<and>
        cand_identityPrivacyConsentAcceptedAt (ci_candidate invite) \<noteq> None \<and>
        ps_providerSessionId s \<noteq> [] \<and> ps_documentUploadRef s \<noteq> [] \<and> ps_faceUploadRef s \<noteq> [])) \<and>
    (\<exists>c. SessionRequested c \<in> set (snd (run_page mobile_step es opened_page)) \<and> assertIdentityPrivacyConsent (Some c) = Inr ()) \<and>
    (\<forall>j. VerificationSent j \<in> set (snd (run_page mobile_step es opened_page)) \<longrightarrow> j = i)"
proof -
  obtain s where s: "SessionCreated s \<in> set es"
    and body: "\<And>j. VerificationSent j \<in> set (snd (run_page mobile_step es opened_page)) \<Longrightarrow> j = verification_body s True True True"
    using sends_one_body [OF _ _ assms] by (auto simp: opened_page_def mobile_inv_def)
  obtain k preview where "CameraGranted k preview \<in> set es"
    using sends_after_a_grant [OF _ assms] by (auto simp: opened_page_def faceless_def)
  moreover have "SessionRequested \<lparr>coi_privacyConsentAccepted = True, coi_privacyPolicyVersion = CURRENT_PRIVACY_POLICY_VERSION\<rparr>
      \<in> set (snd (run_page mobile_step es opened_page))"
    using sends_after_a_session_request [OF _ _ assms] by (simp add: opened_page_def)
  moreover have "assertIdentityPrivacyConsent (Some \<lparr>coi_privacyConsentAccepted = True,
      coi_privacyPolicyVersion = CURRENT_PRIVACY_POLICY_VERSION\<rparr>) = Inr ()"
    by (simp add: assertIdentityPrivacyConsent_def)
  ultimately show ?thesis
    using s body [OF assms] body body_preconditions [of _ s] by blast
qed

text \<open>A verification that failed is tried again, with the session of the first attempt.\<close>

definition sample_provider_session :: provider_session where
  "sample_provider_session = \<lparr>ps_provider = ''kyc'', ps_providerSessionId = ''s1'', ps_documentUploadRef = ''d1'', ps_faceUploadRef = ''f1'',
     ps_expiresAt = ''2030''\<rparr>"

definition phone_events :: "mobile_event list" where
  "phone_events = [InviteFetched unverified_invite, ConsentChanged True, DocumentChosen, FaceClicked, CameraGranted 0 True, PreviewShown 0,
     LivenessClicked, VerifyClicked, SessionCreated sample_provider_session, MutationFailed, VerifyClicked]"

lemma phone_sends:
  "snd (run_page mobile_step phone_events opened_page) = [CameraRequested True,
     SessionRequested \<lparr>coi_privacyConsentAccepted = True, coi_privacyPolicyVersion = CURRENT_PRIVACY_POLICY_VERSION\<rparr>,
     VerificationSent (verification_body sample_provider_session True True True),
     VerificationSent (verification_body sample_provider_session True True True)]"
  by (simp add: phone_events_def run_simps)

lemma the_phone_sends_one_complete_verification_witness:
  "\<exists>s k preview. SessionCreated s \<in> set phone_events \<and> CameraGranted k preview \<in> set phone_events \<and>
     verification_body sample_provider_session True True True = verification_body s True True True"
  using the_phone_sends_one_complete_verification [of "verification_body sample_provider_session True True True" phone_events]
  unfolding phone_sends by auto

end
