(* ===== verification/AccountPages.thy ===== *)
theory AccountPages
  imports Accounts Outcomes PageMachine "HOL-Library.Multiset"
begin

text \<open>
  The account pages of the web client: the forms of \<open>LoginPage.tsx\<close> and \<open>PasswordChangePage.tsx\<close>, against the checks that the server makes
  on what they send; the table of the accounts with its search and its order (\<open>AdminUsersTable.tsx\<close>); and the edits that
  \<open>AdminUsers.tsx\<close> keeps for its rows.
\<close>

section \<open>The sign-in page\<close>

datatype account_form = LoginForm | RegistrationForm | OperatorForm

record login_page =
  lg_email :: string
  lg_password :: string
  lg_initialOperator :: initial_admin_input
  lg_registration :: register_input
  lg_registrationError :: "string option"
  lg_operatorError :: "string option"
  lg_setup :: "setup_status option"
  lg_pending :: "account_form list"

definition demoLoginDefaults :: "bool \<Rightarrow> string \<times> string" where
  "demoLoginDefaults dev = (if dev then (''admin@acme.test'', ''@A1234567890'') else ([], []))"

definition initialOperatorDefaults :: initial_admin_input where
  "initialOperatorDefaults = \<lparr>ia_organizationName = [], ia_name = [], ia_email = [], ia_password = Some [], ia_privacyConsentAccepted = False,
     ia_privacyPolicyVersion = CURRENT_PRIVACY_POLICY_VERSION\<rparr>"

definition registrationDefaults :: register_input where
  "registrationDefaults = \<lparr>ri_name = [], ri_email = [], ri_password = Some [], ri_privacyConsentAccepted = False,
     ri_privacyPolicyVersion = CURRENT_PRIVACY_POLICY_VERSION\<rparr>"

definition opened_login :: "bool \<Rightarrow> login_page" where
  "opened_login dev = \<lparr>lg_email = fst (demoLoginDefaults dev), lg_password = snd (demoLoginDefaults dev),
     lg_initialOperator = initialOperatorDefaults, lg_registration = registrationDefaults, lg_registrationError = None,
     lg_operatorError = None, lg_setup = None, lg_pending = []\<rparr>"

text \<open>A form with its fields typed is one event; the browser submits a form whose required fields are filled, an address with its \<open>@\<close>.\<close>

datatype login_event =
    SetupFetched setup_status | LoginTyped string string | DemoFilled | RegistrationTyped string string string bool
  | OperatorTyped string string string string bool | LoginSubmitted | RegistrationSubmitted | OperatorSubmitted
  | AccountAnswered account_form auth_session | AccountRefused account_form

datatype account_request =
    LoginAsked login_input | RegisterAsked register_input | SetupAsked initial_admin_input | ChangeAsked string change_password_input
  | TokenStored string | SessionShown auth_session

definition email_field :: "string \<Rightarrow> bool" where
  "email_field email \<longleftrightarrow> CHR ''@'' \<in> set email"

definition submit_registration :: "login_page \<Rightarrow> login_page \<times> account_request list" where
  "submit_registration p =
     (let registration = lg_registration p
      in case ri_password registration of None \<Rightarrow> (p, []) | Some password \<Rightarrow>
         if ri_name registration = [] \<or> \<not> email_field (ri_email registration) \<or> password = [] \<or> \<not> ri_privacyConsentAccepted registration then (p, [])
         else (case passwordPolicyError password of
             Some validationError \<Rightarrow> (p\<lparr>lg_registrationError := Some validationError\<rparr>, [])
           | None \<Rightarrow> (p\<lparr>lg_registrationError := None, lg_pending := RegistrationForm # lg_pending p\<rparr>, [RegisterAsked registration])))"

definition submit_operator :: "login_page \<Rightarrow> login_page \<times> account_request list" where
  "submit_operator p =
     (let operator = lg_initialOperator p
      in case ia_password operator of None \<Rightarrow> (p, []) | Some password \<Rightarrow>
         if ia_organizationName operator = [] \<or> ia_name operator = [] \<or> \<not> email_field (ia_email operator) \<or> password = [] \<or>
           \<not> ia_privacyConsentAccepted operator then (p, [])
         else (case passwordPolicyError password of
             Some validationError \<Rightarrow> (p\<lparr>lg_operatorError := Some validationError\<rparr>, [])
           | None \<Rightarrow> (p\<lparr>lg_operatorError := None, lg_pending := OperatorForm # lg_pending p\<rparr>, [SetupAsked operator])))"

definition setup_enabled :: "login_page \<Rightarrow> bool" where
  "setup_enabled p \<longleftrightarrow> (case lg_setup p of Some setup \<Rightarrow> ss_enabled setup | None \<Rightarrow> False)"

fun login_step :: "bool \<Rightarrow> login_event \<Rightarrow> login_page \<Rightarrow> login_page \<times> account_request list" where
  "login_step dev (SetupFetched setup) p = (p\<lparr>lg_setup := Some setup\<rparr>, [])"
| "login_step dev (LoginTyped email password) p = (p\<lparr>lg_email := email, lg_password := password\<rparr>, [])"
| "login_step dev DemoFilled p =
     (if dev then p\<lparr>lg_email := fst (demoLoginDefaults dev), lg_password := snd (demoLoginDefaults dev)\<rparr> else p, [])"
| "login_step dev (RegistrationTyped name email password consent) p =
     (p\<lparr>lg_registration := (lg_registration p)\<lparr>ri_name := name, ri_email := email, ri_password := Some password, ri_privacyConsentAccepted := consent\<rparr>\<rparr>, [])"
| "login_step dev (OperatorTyped organizationName name email password consent) p =
     (p\<lparr>lg_initialOperator := (lg_initialOperator p)\<lparr>ia_organizationName := organizationName, ia_name := name, ia_email := email,
        ia_password := Some password, ia_privacyConsentAccepted := consent\<rparr>\<rparr>, [])"
| "login_step dev LoginSubmitted p =
     (if LoginForm \<in> set (lg_pending p) \<or> \<not> email_field (lg_email p) \<or> lg_password p = [] then (p, [])
      else (p\<lparr>lg_pending := LoginForm # lg_pending p\<rparr>, [LoginAsked \<lparr>li_email = Some (lg_email p), li_password = Some (lg_password p)\<rparr>]))"
| "login_step dev RegistrationSubmitted p = (if RegistrationForm \<in> set (lg_pending p) then (p, []) else submit_registration p)"
| "login_step dev OperatorSubmitted p =
     (if \<not> setup_enabled p \<or> OperatorForm \<in> set (lg_pending p) then (p, []) else submit_operator p)"
| "login_step dev (AccountAnswered form session) p =
     (if form \<in> set (lg_pending p) then (p\<lparr>lg_pending := removeAll form (lg_pending p)\<rparr>, [TokenStored (as_token session), SessionShown session])
      else (p, []))"
| "login_step dev (AccountRefused form) p = (p\<lparr>lg_pending := removeAll form (lg_pending p)\<rparr>, [])"

section \<open>The page for a new password\<close>

record password_page =
  pw_current :: string
  pw_new :: string
  pw_confirmation :: string
  pw_validationError :: "string option"
  pw_pending :: bool

definition opened_password :: password_page where
  "opened_password = \<lparr>pw_current = [], pw_new = [], pw_confirmation = [], pw_validationError = None, pw_pending = False\<rparr>"

datatype password_event = PasswordsTyped string string string | ChangeSubmitted | ChangeAnswered auth_session | ChangeRefused

definition submit_change :: "string \<Rightarrow> password_page \<Rightarrow> password_page \<times> account_request list" where
  "submit_change token p = (case passwordPolicyError (pw_new p) of
       Some policyError \<Rightarrow> (p\<lparr>pw_validationError := Some policyError\<rparr>, [])
     | None \<Rightarrow>
         if pw_new p \<noteq> pw_confirmation p then (p\<lparr>pw_validationError := Some ''the new password and its confirmation differ''\<rparr>, [])
         else (p\<lparr>pw_validationError := None, pw_pending := True\<rparr>,
           [ChangeAsked token \<lparr>cp_currentPassword = Some (pw_current p), cp_newPassword = Some (pw_new p)\<rparr>]))"

fun password_step :: "string \<Rightarrow> password_event \<Rightarrow> password_page \<Rightarrow> password_page \<times> account_request list" where
  "password_step token (PasswordsTyped current new confirmation) p =
     (p\<lparr>pw_current := take 256 current, pw_new := take 256 new, pw_confirmation := take 256 confirmation\<rparr>, [])"
| "password_step token ChangeSubmitted p =
     (if pw_pending p \<or> pw_current p = [] \<or> pw_new p = [] \<or> pw_confirmation p = [] then (p, []) else submit_change token p)"
| "password_step token (ChangeAnswered session) p =
     (if pw_pending p then (p\<lparr>pw_pending := False\<rparr>, [TokenStored (as_token session), SessionShown session]) else (p, []))"
| "password_step token ChangeRefused p = (p\<lparr>pw_pending := False\<rparr>, [])"

section \<open>What the forms send\<close>

text \<open>The version of the privacy policy is never typed; a current password has at most the length of its field.\<close>

definition forms_inv :: "login_page \<Rightarrow> bool" where
  "forms_inv p \<longleftrightarrow> ri_privacyPolicyVersion (lg_registration p) = CURRENT_PRIVACY_POLICY_VERSION \<and>
     ia_privacyPolicyVersion (lg_initialOperator p) = CURRENT_PRIVACY_POLICY_VERSION"

definition fields_inv :: "password_page \<Rightarrow> bool" where
  "fields_inv p \<longleftrightarrow> length (pw_current p) \<le> 256"

lemma login_step_inv: "forms_inv p \<Longrightarrow> forms_inv (fst (login_step dev e p))"
  by (cases e) (simp_all add: forms_inv_def submit_registration_def submit_operator_def Let_def split: option.split)

lemma password_step_inv: "fields_inv p \<Longrightarrow> fields_inv (fst (password_step token e p))"
  by (cases e) (simp_all add: fields_inv_def submit_change_def split: option.split)

interpretation login_forms: page_machine "login_step dev" forms_inv for dev
  by unfold_locales (rule login_step_inv)

interpretation password_form: page_machine "password_step token" fields_inv for token
  by unfold_locales (rule password_step_inv)

lemma dropWhile_keeps: "c \<in> set s \<Longrightarrow> \<not> P c \<Longrightarrow> c \<in> set (dropWhile P s)"
  by (induction s) auto

lemma at_kept:
  assumes "email_field s"
  shows "has_text (toLowerCase (trim s)) ''@''" and "toLowerCase (trim s) \<noteq> []"
proof -
  have "\<not> js_space CHR ''@''" by code_simp
  then have "CHR ''@'' \<in> set (trim s)"
    using assms by (simp add: email_field_def trim_def trimStart_def trimEnd_def dropWhile_keeps)
  moreover have "lower_char CHR ''@'' = CHR ''@''" by code_simp
  ultimately have "CHR ''@'' \<in> set (toLowerCase (trim s))" by (force simp: toLowerCase_def)
  then show "has_text (toLowerCase (trim s)) ''@''" "toLowerCase (trim s) \<noteq> []"
    by (auto simp: includes_iff in_set_conv_decomp)
qed

lemmas submit_defs = submit_registration_def submit_operator_def submit_change_def Let_def

lemma registration_sent:
  assumes "forms_inv p" "RegisterAsked input \<in> set (snd (login_step dev e p))"
  obtains password where "ri_password input = Some password" "passwordPolicyError password = None" "email_field (ri_email input)"
    "ri_privacyConsentAccepted input" "ri_privacyPolicyVersion input = CURRENT_PRIVACY_POLICY_VERSION"
  using assms by (cases e) (auto simp: submit_defs forms_inv_def split: if_splits option.splits)

lemma operator_sent:
  assumes "forms_inv p" "SetupAsked input \<in> set (snd (login_step dev e p))"
  obtains password where "ia_password input = Some password" "passwordPolicyError password = None" "email_field (ia_email input)"
    "ia_privacyConsentAccepted input" "ia_privacyPolicyVersion input = CURRENT_PRIVACY_POLICY_VERSION"
  using assms by (cases e) (auto simp: submit_defs forms_inv_def split: if_splits option.splits)

lemma change_sent:
  assumes "fields_inv p" "ChangeAsked token' input \<in> set (snd (password_step token e p))"
  shows "token' = token \<and> (\<exists>current new. input = \<lparr>cp_currentPassword = Some current, cp_newPassword = Some new\<rparr> \<and> length current \<le> 256 \<and>
    passwordPolicyError new = None)"
  using assms by (cases e) (auto simp: submit_defs fields_inv_def split: if_splits option.splits)

lemma registration_accepted:
  assumes "ri_password input = Some password" "passwordPolicyError password = None" "email_field (ri_email input)"
    "ri_privacyConsentAccepted input" "ri_privacyPolicyVersion input = CURRENT_PRIVACY_POLICY_VERSION"
  shows "(\<exists>r. parseRegisterInput input = Inr r) \<longleftrightarrow> trim (ri_name input) \<noteq> [] \<and> length (trim (ri_name input)) \<le> 100 \<and>
    length (trim (ri_email input)) \<le> 320"
  using assms at_kept [OF assms(3)] client_policy_matches_server [of password]
  by (auto simp: parseRegisterInput_def Let_def assertCurrentPrivacyConsent_def bindR_def guardR_def)

lemma operator_accepted:
  assumes "ia_password input = Some password" "passwordPolicyError password = None" "email_field (ia_email input)"
    "ia_privacyConsentAccepted input" "ia_privacyPolicyVersion input = CURRENT_PRIVACY_POLICY_VERSION"
  shows "(\<exists>r. parseInitialAdminInput input = Inr r) \<longleftrightarrow> trim (ia_organizationName input) \<noteq> [] \<and> length (trim (ia_organizationName input)) \<le> 160 \<and>
    trim (ia_name input) \<noteq> [] \<and> length (trim (ia_name input)) \<le> 100 \<and> length (trim (ia_email input)) \<le> 320"
  using assms at_kept [OF assms(3)] client_policy_matches_server [of password]
  by (auto simp: parseInitialAdminInput_def Let_def assertCurrentPrivacyConsent_def bindR_def guardR_def)

lemma login_sent:
  assumes "LoginAsked input \<in> set (snd (login_step dev e p))"
  obtains email password where "input = \<lparr>li_email = Some email, li_password = Some password\<rparr>" "email_field email" "password \<noteq> []"
  using assms by (cases e) (auto simp: submit_defs split: if_splits option.splits)

lemma login_accepted:
  assumes "input = \<lparr>li_email = Some email, li_password = Some password\<rparr>" "email_field email" "password \<noteq> []"
  shows "(\<exists>r. parseLoginInput input = Inr r) \<longleftrightarrow> length (trim email) \<le> 320 \<and> length password \<le> 256"
    and "parseLoginInput input = Inl e \<Longrightarrow> e = invalidCredentials"
  using assms(1,3) at_kept [OF assms(2)] by (auto simp: parseLoginInput_def Let_def split: if_splits)

text \<open>The server's answer that a body is malformed is 400. The queries and the derivation of a key are supposed not to fail with it.\<close>

definition not_malformed :: "exn \<Rightarrow> bool" where
  "not_malformed e \<longleftrightarrow> (\<forall>message. e \<noteq> BadRequest message)"

lemma not_malformed_simps [simp]:
  "not_malformed (Unauthorized m)" "not_malformed (Conflict m)" "not_malformed (ServiceUnavailable m)" "\<not> not_malformed (BadRequest m)"
  by (simp_all add: not_malformed_def)

definition sound_table :: "('d, 'r) table \<Rightarrow> bool" where
  "sound_table T \<longleftrightarrow> (\<forall>p. throws_only not_malformed (t_find T p)) \<and> (\<forall>p. throws_only not_malformed (t_count T p)) \<and>
     (\<forall>r. throws_only not_malformed (t_create T r)) \<and> (\<forall>p f. throws_only not_malformed (t_update T p f))"

definition sound_accounts :: "'d auth_ctx \<Rightarrow> bool" where
  "sound_accounts c \<longleftrightarrow> sound_table (ac_users c) \<and> sound_table (ac_orgs c) \<and>
     (\<forall>password salt n e. ac_kdf c password salt n = Inl e \<longrightarrow> not_malformed e) \<and> (\<forall>n e. ac_commit c n = Some e \<longrightarrow> not_malformed e)"

lemma sound_queries [throwing]:
  "sound_table T \<Longrightarrow> throws_only not_malformed (t_find T p)" "sound_table T \<Longrightarrow> throws_only not_malformed (t_count T p)"
  "sound_table T \<Longrightarrow> throws_only not_malformed (t_create T r)" "sound_table T \<Longrightarrow> throws_only not_malformed (t_update T p f)"
  by (simp_all add: sound_table_def)

lemma throws_on_db [throwing]: "throws_only P m \<Longrightarrow> throws_only P (on_db m)"
  by (auto simp: throws_only_def on_db_def Let_def split: prod.splits)

lemma throws_on_reg [throwing]: "throws_only P (on_reg f)"
  by (simp add: throws_only_def on_reg_def Let_def split: prod.splits)

lemma throws_retry_loop:
  assumes "P exceeded" and "\<And>n. throws_only P (attempt n)"
  shows "throws_only P (retry_loop attempt exceeded retries)"
proof (induction retries)
  case (Cons n retries)
  have "attempt n s = (Inl e, t) \<Longrightarrow> P e" for s e t using assms(2) [of n] unfolding throws_only_def by blast
  then show ?case using Cons by (auto simp: throws_only_def catchE_def throwE_def split: prod.splits sum.splits if_splits)
qed (simp add: throws_throwE assms(1))

lemma throws_run_transaction [throwing]:
  "throws_only P m \<Longrightarrow> (\<And>e. commit = Some e \<Longrightarrow> P e) \<Longrightarrow> throws_only P (run_transaction commit m)"
  unfolding run_transaction_def by (cases commit) (auto intro!: throwing)

lemma throws_createSession [throwing]: "throws_only P (createSession c uuid user organization)"
  unfolding createSession_def put_session_def Let_def by (intro throwing)

lemma hashes_sound:
  assumes "sound_accounts c"
  shows "new_hash c password = Inl e \<Longrightarrow> not_malformed e" and "passwordMatches c password hash = Inl e \<Longrightarrow> not_malformed e"
  using assms
  by (auto simp: new_hash_def createPasswordHash_def passwordMatches_def verifyPassword_def sound_accounts_def bindR_def Let_def
      split: sum.splits list.splits js_num.splits if_splits)

text \<open>A form is parsed or refused with 400.\<close>

lemma register_parse: "(\<exists>message. parseRegisterInput input = Inl (BadRequest message)) \<longleftrightarrow> \<not> (\<exists>r. parseRegisterInput input = Inr r)"
  by (auto simp: parseRegisterInput_def Let_def assertCurrentPrivacyConsent_def bindR_def guardR_def)

lemma setup_parse: "(\<exists>message. parseInitialAdminInput input = Inl (BadRequest message)) \<longleftrightarrow> \<not> (\<exists>r. parseInitialAdminInput input = Inr r)"
  by (auto simp: parseInitialAdminInput_def Let_def assertCurrentPrivacyConsent_def bindR_def guardR_def)

text \<open>After its form, no operation answers 400.\<close>

lemma register_malformed:
  assumes "databaseAvailable (ac_env c)"
  shows "(\<exists>message. fst (register c input s) = Inl (BadRequest message)) \<longleftrightarrow> (\<exists>message. parseRegisterInput input = Inl (BadRequest message))"
proof (cases "parseRegisterInput input")
  case (Inl e)
  then show ?thesis using assms by (simp add: register_def bindE_def liftR_def)
next
  case (Inr parsed)
  have "throws_only not_malformed (\<lambda>s. register c input s)"
    using assms Inr by (auto simp: register_def bindE_def liftR_def intro!: throwing split: exn.split)
  then show ?thesis using Inr by (auto simp: not_malformed_def dest: throws_onlyD)
qed

lemma setup_malformed:
  assumes "sound_accounts c"
  shows "(\<exists>message. fst (createInitialAdmin c input s) = Inl (BadRequest message)) \<longleftrightarrow> (\<exists>message. parseInitialAdminInput input = Inl (BadRequest message))"
proof (cases "parseInitialAdminInput input")
  case (Inl e)
  then show ?thesis by (simp add: createInitialAdmin_def bindE_def liftR_def)
next
  case (Inr parsed)
  note sound = assms [unfolded sound_accounts_def] hashes_sound [OF assms]
  have "throws_only not_malformed (initial_admin_transaction c parsed)"
    unfolding initial_admin_transaction_def using sound by (intro throwing) auto
  then have "throws_only not_malformed (retry_loop (\<lambda>retry.
        bindE (on_db (run_transaction (ac_commit c retry) (initial_admin_transaction c parsed))) (\<lambda>(organization, user).
        createSession c (ac_uuid c 3) (toUser user) (toOrganization organization)))
       (ServiceUnavailable ''setup retry limit'') [0, 1, 2])"
    using sound by (intro throws_retry_loop throwing) auto
  then have "throws_only not_malformed (\<lambda>s. createInitialAdmin c input s)"
    using Inr by (auto simp: createInitialAdmin_def bindE_def liftR_def intro!: throwing)
  then show ?thesis using Inr by (auto simp: not_malformed_def dest: throws_onlyD)
qed

lemma change_malformed:
  assumes "sound_accounts c" and "parseChangePasswordInput input = Inr parsed"
  shows "fst (changePassword c token input s) \<noteq> Inl (BadRequest message)"
proof -
  note sound = assms(1) [unfolded sound_accounts_def] hashes_sound [OF assms(1)]
  have "throws_only not_malformed (me c token)"
    unfolding me_def Let_def drop_session_def put_session_def using sound by (intro throwing) auto
  moreover have "throws_only not_malformed (find_with_organization c p)" for p
    unfolding find_with_organization_def using sound by (intro throwing) auto
  ultimately have "throws_only not_malformed (changePassword c token input)"
    unfolding changePassword_def revokeUserSessions_def using sound assms(2)
    by (intro throwing) (auto simp: invalidCredentials_def)
  then show ?thesis by (auto simp: not_malformed_def dest: throws_onlyD)
qed

text \<open>C22. Of what the account forms send, the server refuses as malformed (400, and 401 for a login) only a name or an address that is too
  long or, apart from its spaces, empty, and the password of a login beyond 256 characters: a registration and a first
  administrator always have a password of the policy, an address with its \<open>@\<close> and the consent to the current version, and a change of
  the password, sent with the token of the session, is never malformed. (Whether the account exists, the address is free or the
  password right is another matter.) The queries and the derivation of keys are supposed not to fail with 400.\<close>

theorem forms_send_what_the_server_accepts:
  assumes "sound_accounts c" and "databaseAvailable (ac_env c)"
  shows "(\<forall>input. LoginAsked input \<in> set (snd (run_page (login_step dev) es (opened_login dev))) \<longrightarrow>
      (\<exists>email password. input = \<lparr>li_email = Some email, li_password = Some password\<rparr> \<and>
        ((\<exists>r. parseLoginInput input = Inr r) \<longleftrightarrow> length (trim email) \<le> 320 \<and> length password \<le> 256) \<and>
        (\<not> (length (trim email) \<le> 320 \<and> length password \<le> 256) \<longrightarrow> login c input s = (Inl invalidCredentials, s)))) \<and>
   (\<forall>input. RegisterAsked input \<in> set (snd (run_page (login_step dev) es (opened_login dev))) \<longrightarrow>
      ((\<exists>message. fst (register c input s) = Inl (BadRequest message)) \<longleftrightarrow>
        \<not> (trim (ri_name input) \<noteq> [] \<and> length (trim (ri_name input)) \<le> 100 \<and> length (trim (ri_email input)) \<le> 320))) \<and>
   (\<forall>input. SetupAsked input \<in> set (snd (run_page (login_step dev) es (opened_login dev))) \<longrightarrow>
      ((\<exists>message. fst (createInitialAdmin c input s) = Inl (BadRequest message)) \<longleftrightarrow>
        \<not> (trim (ia_organizationName input) \<noteq> [] \<and> length (trim (ia_organizationName input)) \<le> 160 \<and>
          trim (ia_name input) \<noteq> [] \<and> length (trim (ia_name input)) \<le> 100 \<and> length (trim (ia_email input)) \<le> 320))) \<and>
   (\<forall>token' input. ChangeAsked token' input \<in> set (snd (run_page (password_step token) fs opened_password)) \<longrightarrow>
      token' = token \<and> (\<forall>message. fst (changePassword c (Some token') input s) \<noteq> Inl (BadRequest message)))"
proof (intro conjI allI impI)
  have forms: "forms_inv (opened_login dev)"
    by (simp add: forms_inv_def opened_login_def registrationDefaults_def initialOperatorDefaults_def)
  note asked = login_forms.request_step [OF forms]
  show "\<exists>email password. input = \<lparr>li_email = Some email, li_password = Some password\<rparr> \<and>
        ((\<exists>r. parseLoginInput input = Inr r) \<longleftrightarrow> length (trim email) \<le> 320 \<and> length password \<le> 256) \<and>
        (\<not> (length (trim email) \<le> 320 \<and> length password \<le> 256) \<longrightarrow> login c input s = (Inl invalidCredentials, s))"
    if sent: "LoginAsked input \<in> set (snd (run_page (login_step dev) es (opened_login dev)))" for input
  proof -
    from asked [OF sent] login_sent obtain email password where
      form: "input = \<lparr>li_email = Some email, li_password = Some password\<rparr>" "email_field email" "password \<noteq> []" by metis
    note accepted = login_accepted [OF form]
    have "login c input s = (Inl invalidCredentials, s)" if "\<not> (length (trim email) \<le> 320 \<and> length password \<le> 256)"
      using that accepted by (cases "parseLoginInput input") (auto simp: login_def bindE_def liftR_def)
    with form(1) accepted(1) show ?thesis by blast
  qed
  show "(\<exists>message. fst (register c input s) = Inl (BadRequest message)) \<longleftrightarrow>
      \<not> (trim (ri_name input) \<noteq> [] \<and> length (trim (ri_name input)) \<le> 100 \<and> length (trim (ri_email input)) \<le> 320)"
    if sent: "RegisterAsked input \<in> set (snd (run_page (login_step dev) es (opened_login dev)))" for input
    unfolding register_malformed [OF assms(2)] register_parse
    using asked [OF sent] registration_sent registration_accepted by metis
  show "(\<exists>message. fst (createInitialAdmin c input s) = Inl (BadRequest message)) \<longleftrightarrow>
      \<not> (trim (ia_organizationName input) \<noteq> [] \<and> length (trim (ia_organizationName input)) \<le> 160 \<and>
        trim (ia_name input) \<noteq> [] \<and> length (trim (ia_name input)) \<le> 100 \<and> length (trim (ia_email input)) \<le> 320)"
    if sent: "SetupAsked input \<in> set (snd (run_page (login_step dev) es (opened_login dev)))" for input
    unfolding setup_malformed [OF assms(1)] setup_parse
    using asked [OF sent] operator_sent operator_accepted by metis
next
  fix token' input
  assume "ChangeAsked token' input \<in> set (snd (run_page (password_step token) fs opened_password))"
  moreover have "fields_inv opened_password" by (simp add: fields_inv_def opened_password_def)
  ultimately obtain p e where "fields_inv p" "ChangeAsked token' input \<in> set (snd (password_step token e p))"
    using password_form.request_step by blast
  then obtain current new where sent: "token' = token" "input = \<lparr>cp_currentPassword = Some current, cp_newPassword = Some new\<rparr>"
    "length current \<le> 256" "passwordPolicyError new = None"
    using change_sent by blast
  then show "token' = token" by simp
  have "parseChangePasswordInput input = Inr (current, new)"
    using sent client_policy_matches_server [of new] by (simp add: parseChangePasswordInput_def)
  then show "fst (changePassword c (Some token') input s) \<noteq> Inl (BadRequest message)" for message
    by (rule change_malformed [OF assms(1)])
qed

definition typed_registration :: register_input where
  "typed_registration = registrationDefaults\<lparr>ri_name := ''Kim'', ri_email := ''kim@acme.test'', ri_password := Some ''@A1234567890'',
     ri_privacyConsentAccepted := True\<rparr>"

lemma policy_sample: "passwordPolicyError ''@A1234567890'' = None"
  by code_simp

lemma email_sample: "email_field ''kim@acme.test''"
  by (simp add: email_field_def)

lemma typed_registration_sent:
  "RegisterAsked typed_registration \<in> set (snd (run_page (login_step dev)
     [RegistrationTyped ''Kim'' ''kim@acme.test'' ''@A1234567890'' True, RegistrationSubmitted] (opened_login dev)))"
  by (simp add: typed_registration_def opened_login_def registrationDefaults_def submit_registration_def Let_def policy_sample email_sample)

lemma password_sample_sent:
  "ChangeAsked ''t'' \<lparr>cp_currentPassword = Some ''old'', cp_newPassword = Some ''@A1234567890''\<rparr> \<in> set (snd (run_page (password_step ''t'')
     [PasswordsTyped ''old'' ''@A1234567890'' ''@A1234567890'', ChangeSubmitted] opened_password))"
  by (simp add: opened_password_def submit_change_def policy_sample)

lemma sample_sound: "sound_accounts (sample_ctx 2000)"
  by (auto simp: sound_accounts_def sound_table_def throws_only_def list_table_def sample_ctx_def sample_kdf_def not_malformed_def
      split: option.splits)

lemma forms_send_what_the_server_accepts_witness:
  "(\<nexists>message. fst (register (sample_ctx 2000) typed_registration (sample_db, empty_registry)) = Inl (BadRequest message)) \<and>
   (\<nexists>message. fst (changePassword (sample_ctx 2000) (Some ''t'') \<lparr>cp_currentPassword = Some ''old'', cp_newPassword = Some ''@A1234567890''\<rparr>
     (sample_db, empty_registry)) = Inl (BadRequest message))"
proof
  have "trim ''Kim'' = ''Kim''" "trim ''kim@acme.test'' = ''kim@acme.test''" by code_simp+
  moreover have available: "databaseAvailable (ac_env (sample_ctx 2000))" by (simp add: sample_ctx_def)
  note forms = forms_send_what_the_server_accepts [OF sample_sound available, of False
      "[RegistrationTyped ''Kim'' ''kim@acme.test'' ''@A1234567890'' True, RegistrationSubmitted]" "(sample_db, empty_registry)" "''t''"
      "[PasswordsTyped ''old'' ''@A1234567890'' ''@A1234567890'', ChangeSubmitted]"]
  ultimately show "\<nexists>message. fst (register (sample_ctx 2000) typed_registration (sample_db, empty_registry)) = Inl (BadRequest message)"
    using forms [THEN conjunct2, THEN conjunct1, rule_format, OF typed_registration_sent]
    by (simp add: typed_registration_def)
  show "\<nexists>message. fst (changePassword (sample_ctx 2000) (Some ''t'') \<lparr>cp_currentPassword = Some ''old'', cp_newPassword = Some ''@A1234567890''\<rparr>
     (sample_db, empty_registry)) = Inl (BadRequest message)"
    using forms [THEN conjunct2, THEN conjunct2, THEN conjunct2, rule_format, OF password_sample_sent] by blast
qed

section \<open>The table of the accounts\<close>

text \<open>\<open>sort\<close> of an array by a comparison: stable, so an element stays behind those that it does not precede.\<close>

fun insert_by :: "('a \<Rightarrow> 'a \<Rightarrow> int) \<Rightarrow> 'a \<Rightarrow> 'a list \<Rightarrow> 'a list" where
  "insert_by compare x [] = [x]"
| "insert_by compare x (y # ys) = (if compare x y \<le> 0 then x # y # ys else y # insert_by compare x ys)"

definition sort_by :: "('a \<Rightarrow> 'a \<Rightarrow> int) \<Rightarrow> 'a list \<Rightarrow> 'a list" where
  "sort_by compare xs = foldr (insert_by compare) xs []"

locale comparison =
  fixes compare :: "'a \<Rightarrow> 'a \<Rightarrow> int"
  assumes opposite: "compare x y \<le> 0 \<longleftrightarrow> 0 \<le> compare y x"
    and transitive: "compare x y \<le> 0 \<Longrightarrow> compare y z \<le> 0 \<Longrightarrow> compare x z \<le> 0"
begin

lemma set_insert_by [simp]: "set (insert_by compare x ys) = insert x (set ys)"
  by (induction ys) auto

lemma mset_insert_by [simp]: "mset (insert_by compare x ys) = add_mset x (mset ys)"
  by (induction ys) auto

lemma mset_sort_by: "mset (sort_by compare xs) = mset xs"
  unfolding sort_by_def by (induction xs) simp_all

lemma sorted_insert_by:
  "sorted_wrt (\<lambda>x y. compare x y \<le> 0) ys \<Longrightarrow> sorted_wrt (\<lambda>x y. compare x y \<le> 0) (insert_by compare x ys)"
proof (induction ys)
  case (Cons y ys)
  have "compare y x \<le> 0" if "\<not> compare x y \<le> 0" using that opposite [of y x] by linarith
  then show ?case using Cons transitive by auto
qed simp

lemma sorted_sort_by: "sorted_wrt (\<lambda>x y. compare x y \<le> 0) (sort_by compare xs)"
  unfolding sort_by_def by (induction xs) (simp_all add: sorted_insert_by)

lemma insert_by_stable:
  assumes "sorted_wrt (\<lambda>x y. compare x y \<le> 0) ys"
  shows "filter (\<lambda>v. compare u v = 0) (insert_by compare x ys) = filter (\<lambda>v. compare u v = 0) (x # ys)"
  using assms
proof (induction ys)
  case (Cons y ys)
  have "\<not> (compare u x = 0 \<and> compare u y = 0)" if before: "\<not> compare x y \<le> 0"
  proof
    assume "compare u x = 0 \<and> compare u y = 0"
    then have "compare x u \<le> 0" "compare u y \<le> 0" using opposite [of x u] by simp_all
    with transitive [of x u y] before show False by simp
  qed
  with Cons show ?case by auto
qed simp

lemma sort_by_stable: "filter (\<lambda>v. compare u v = 0) (sort_by compare xs) = filter (\<lambda>v. compare u v = 0) xs"
  unfolding sort_by_def
proof (induction xs)
  case (Cons x xs)
  have "sorted_wrt (\<lambda>x y. compare x y \<le> 0) (foldr (insert_by compare) xs [])"
    using sorted_sort_by [of xs] by (simp add: sort_by_def)
  then show ?case using Cons insert_by_stable by simp
qed simp

end

datatype account_sort_key = SORT_ORGANIZATION | SORT_NAME | SORT_ROLE | SORT_CREATED_AT

record account_filters =
  af_query :: string
  af_organizationFilter :: "string option"
  af_roleFilter :: "user_role option"

text \<open>\<open>localeCompare\<close> compares the collation keys of its texts; \<open>collate\<close> stands for the key of a text. \<open>roleText\<close> stands for the labels.\<close>

definition compareText :: "(string \<Rightarrow> 'k::linorder) \<Rightarrow> string \<Rightarrow> string \<Rightarrow> int" where
  "compareText collate left right = (if collate left < collate right then - 1 else if collate left = collate right then 0 else 1)"

definition organizationNameById :: "organization_option list \<Rightarrow> string \<Rightarrow> string option" where
  "organizationNameById organizations = map_of (rev (map (\<lambda>organization. (oo_id organization, oo_name organization)) organizations))"

definition organization_text :: "(string \<Rightarrow> string option) \<Rightarrow> user \<Rightarrow> string" where
  "organization_text names u =
     (let organizationId = (case usr_organizationId u of Some i \<Rightarrow> i | None \<Rightarrow> [])
      in case names organizationId of Some name \<Rightarrow> name | None \<Rightarrow> organizationId)"

definition user_matches :: "(string \<Rightarrow> string option) \<Rightarrow> account_filters \<Rightarrow> user \<Rightarrow> bool" where
  "user_matches names filters u =
     (let normalizedQuery = toLowerCase (trim (af_query filters));
          queryMatched = (normalizedQuery = [] \<or> has_text (toLowerCase (usr_name u)) normalizedQuery \<or>
            has_text (toLowerCase (usr_email u)) normalizedQuery \<or> has_text (toLowerCase (organization_text names u)) normalizedQuery);
          organizationMatched = (case af_organizationFilter filters of None \<Rightarrow> True
            | Some i \<Rightarrow> (case usr_organizationId u of Some j \<Rightarrow> j | None \<Rightarrow> []) = i);
          roleMatched = (case af_roleFilter filters of None \<Rightarrow> True | Some role \<Rightarrow> usr_role u = role)
      in queryMatched \<and> organizationMatched \<and> roleMatched)"

definition filterUsers :: "(string \<Rightarrow> string option) \<Rightarrow> account_filters \<Rightarrow> user list \<Rightarrow> user list" where
  "filterUsers names filters users = filter (user_matches names filters) users"

text \<open>\<open>a || b\<close> of two comparisons.\<close>

definition or_else :: "int \<Rightarrow> int \<Rightarrow> int" where
  "or_else a b = (if a \<noteq> 0 then a else b)"

definition compare_users ::
  "(string \<Rightarrow> 'k::linorder) \<Rightarrow> (user_role \<Rightarrow> string) \<Rightarrow> (string \<Rightarrow> string option) \<Rightarrow> account_sort_key \<Rightarrow> user \<Rightarrow> user \<Rightarrow> int"
where
  "compare_users collate roleText names sortKey left right = (case sortKey of
       SORT_ORGANIZATION \<Rightarrow> or_else (compareText collate (organization_text names left) (organization_text names right))
         (compareText collate (usr_name left) (usr_name right))
     | SORT_NAME \<Rightarrow> compareText collate (usr_name left) (usr_name right)
     | SORT_ROLE \<Rightarrow> or_else (compareText collate (roleText (usr_role left)) (roleText (usr_role right)))
         (compareText collate (usr_name left) (usr_name right))
     | SORT_CREATED_AT \<Rightarrow> (if usr_createdAt right < usr_createdAt left then - 1 else if usr_createdAt right = usr_createdAt left then 0 else 1))"

definition sortUsers ::
  "(string \<Rightarrow> 'k::linorder) \<Rightarrow> (user_role \<Rightarrow> string) \<Rightarrow> (string \<Rightarrow> string option) \<Rightarrow> account_sort_key \<Rightarrow> user list \<Rightarrow> user list"
where
  "sortUsers collate roleText names sortKey users = sort_by (compare_users collate roleText names sortKey) users"

text \<open>\<open>useMemo\<close> of the rows.\<close>

definition filteredUsers ::
  "(string \<Rightarrow> 'k::linorder) \<Rightarrow> (user_role \<Rightarrow> string) \<Rightarrow> organization_option list \<Rightarrow> account_filters \<Rightarrow> account_sort_key \<Rightarrow> user list \<Rightarrow> user list"
where
  "filteredUsers collate roleText organizations filters sortKey users =
     (let names = organizationNameById organizations in sortUsers collate roleText names sortKey (filterUsers names filters users))"

interpretation user_order: comparison "compare_users collate roleText names sortKey" for collate roleText names sortKey
  by unfold_locales (auto simp: compare_users_def or_else_def compareText_def split: account_sort_key.splits if_splits)

text \<open>The table of the accounts shows exactly the accounts that match the search and the filters, each as often as the server
  listed it, in the chosen order, and accounts that the order does not tell apart in the order of the server.\<close>

theorem account_table_shows_the_matches:
  "mset (filteredUsers collate roleText organizations filters sortKey users) =
      filter_mset (user_matches (organizationNameById organizations) filters) (mset users) \<and>
   sorted_wrt (\<lambda>u v. compare_users collate roleText (organizationNameById organizations) sortKey u v \<le> 0)
      (filteredUsers collate roleText organizations filters sortKey users) \<and>
   filter (\<lambda>v. compare_users collate roleText (organizationNameById organizations) sortKey u v = 0)
      (filteredUsers collate roleText organizations filters sortKey users) =
    filter (\<lambda>v. compare_users collate roleText (organizationNameById organizations) sortKey u v = 0)
      (filter (user_matches (organizationNameById organizations) filters) users)"
  unfolding filteredUsers_def Let_def sortUsers_def filterUsers_def
  by (simp add: user_order.mset_sort_by user_order.sorted_sort_by user_order.sort_by_stable)

section \<open>The edits of the rows\<close>

datatype user_patch = PatchName string | PatchEmail string | PatchRole user_role | PatchOrganization string

record accounts_page =
  up_users :: "user list"
  up_edits :: "string \<rightharpoonup> update_user_input"
  up_editing :: "string option"
  up_saving :: bool
  up_deleting :: bool

definition opened_accounts :: accounts_page where
  "opened_accounts = \<lparr>up_users = [], up_edits = Map.empty, up_editing = None, up_saving = False, up_deleting = False\<rparr>"

definition userEditState :: "user \<Rightarrow> update_user_input" where
  "userEditState u = \<lparr>uu_name = usr_name u, uu_email = usr_email u, uu_role = usr_role u, uu_organizationId = usr_organizationId u\<rparr>"

fun patched :: "user_patch \<Rightarrow> update_user_input \<Rightarrow> update_user_input" where
  "patched (PatchName name) edit = edit\<lparr>uu_name := name\<rparr>"
| "patched (PatchEmail email) edit = edit\<lparr>uu_email := email\<rparr>"
| "patched (PatchRole role) edit = edit\<lparr>uu_role := role\<rparr>"
| "patched (PatchOrganization organizationId) edit = edit\<lparr>uu_organizationId := Some organizationId\<rparr>"

definition edit_of :: "accounts_page \<Rightarrow> user \<Rightarrow> update_user_input" where
  "edit_of p u = (case up_edits p (usr_id u) of Some edit \<Rightarrow> edit | None \<Rightarrow> userEditState u)"

definition updateEdit :: "user \<Rightarrow> (update_user_input \<Rightarrow> update_user_input) \<Rightarrow> accounts_page \<Rightarrow> accounts_page" where
  "updateEdit u patch p = p\<lparr>up_edits := (up_edits p)(usr_id u \<mapsto> patch (edit_of p u))\<rparr>"

text \<open>The roles that the select of a row offers; the field of the organization is for operators.\<close>

definition parseEditableRole_page :: "bool \<Rightarrow> user_role \<Rightarrow> user_role" where
  "parseEditableRole_page operator role =
     (if operator \<and> role = ADMIN then ADMIN else if role = ORGANIZATION \<or> role = PROCTOR then role else PROCTOR)"

definition allowed_patch :: "bool \<Rightarrow> user_patch \<Rightarrow> user_patch option" where
  "allowed_patch operator patch = (case patch of PatchRole role \<Rightarrow> Some (PatchRole (parseEditableRole_page operator role))
     | PatchOrganization i \<Rightarrow> if operator then Some patch else None | _ \<Rightarrow> Some patch)"

definition delete_offered :: "auth_session \<Rightarrow> user \<Rightarrow> bool" where
  "delete_offered session u \<longleftrightarrow> session_role session = ADMIN \<and> usr_id (as_user session) \<noteq> usr_id u"

datatype accounts_event =
    UsersFetched "user list" | EditClicked user | FieldChanged user user_patch | CancelClicked user | SaveClicked user
  | DeleteConfirmed user | SaveEnded | DeleteEnded bool

datatype accounts_request = UpdateAsked string update_user_input | DeleteAsked string

text \<open>The buttons of a row are disabled while something is saved or deleted; the fields and \<open>Save\<close> belong to the row that is edited.\<close>

fun accounts_step :: "auth_session \<Rightarrow> accounts_event \<Rightarrow> accounts_page \<Rightarrow> accounts_page \<times> accounts_request list" where
  "accounts_step session (UsersFetched users) p = (p\<lparr>up_users := users\<rparr>, [])"
| "accounts_step session (EditClicked u) p =
     (if u \<in> set (up_users p) \<and> up_editing p \<noteq> Some (usr_id u) \<and> \<not> up_saving p \<and> \<not> up_deleting p
      then (updateEdit u id p)\<lparr>up_editing := Some (usr_id u)\<rparr> else p, [])"
| "accounts_step session (FieldChanged u patch) p =
     (if u \<in> set (up_users p) \<and> up_editing p = Some (usr_id u)
      then (case allowed_patch (session_role session = ADMIN) patch of Some allowed \<Rightarrow> updateEdit u (patched allowed) p | None \<Rightarrow> p) else p, [])"
| "accounts_step session (CancelClicked u) p =
     (if up_editing p = Some (usr_id u) \<and> \<not> up_saving p \<and> \<not> up_deleting p then p\<lparr>up_editing := None\<rparr> else p, [])"
| "accounts_step session (SaveClicked u) p =
     (if u \<in> set (up_users p) \<and> up_editing p = Some (usr_id u) \<and> \<not> up_saving p \<and> \<not> up_deleting p
      then (p\<lparr>up_saving := True\<rparr>, [UpdateAsked (usr_id u) (edit_of p u)]) else (p, []))"
| "accounts_step session (DeleteConfirmed u) p =
     (if u \<in> set (up_users p) \<and> delete_offered session u \<and> \<not> up_saving p \<and> \<not> up_deleting p
      then (p\<lparr>up_deleting := True\<rparr>, [DeleteAsked (usr_id u)]) else (p, []))"
| "accounts_step session SaveEnded p = (p\<lparr>up_saving := False\<rparr>, [])"
| "accounts_step session (DeleteEnded deleted) p = (p\<lparr>up_deleting := False, up_edits := if deleted then Map.empty else up_edits p\<rparr>, [])"

abbreviation accounts_run :: "auth_session \<Rightarrow> accounts_event list \<Rightarrow> accounts_page \<Rightarrow> accounts_page \<times> accounts_request list" where
  "accounts_run session \<equiv> run_page (accounts_step session)"

text \<open>A row that was opened and saved as it was sends the account as it is; the server keeps it, or refuses it for its role.\<close>

lemma untouched_edit_is_the_account:
  assumes "u \<in> set (up_users p)" "up_editing p \<noteq> Some (usr_id u)" "\<not> up_saving p" "\<not> up_deleting p" "up_edits p (usr_id u) = None"
  shows "snd (accounts_run session [EditClicked u, SaveClicked u] p) = [UpdateAsked (usr_id u) (userEditState u)]"
  using assms by (simp add: updateEdit_def edit_of_def)

lemma untouched_account_is_kept:
  assumes "trim (usr_name u) = usr_name u" "trim (usr_email u) = usr_email u" "toLowerCase (usr_email u) = usr_email u" "usr_name u \<noteq> []"
    and "has_text (usr_email u) ''@''" "usr_organizationId u = Some i" "trim i = i" "i \<noteq> []"
    and "session_role session = ADMIN \<or> session_role session = ORGANIZATION \<and> i = org_id (as_organization session)"
  shows "parseUpdateUserInput session (userEditState u) = bindR (parseEditableRole session (usr_role u)) (\<lambda>_. Inr (userEditState u))"
proof -
  have "usr_email u \<noteq> []" using assms(5) by auto
  then show ?thesis using assms
    by (auto simp: parseUpdateUserInput_def parseEditableRole_def userEditState_def Let_def bindR_def split: sum.split)
qed

text \<open>The account of a candidate cannot be saved without another role, and the select shows an operator the role of an administrator
  for it.\<close>

lemma a_candidate_row_is_refused:
  "usr_role u = CANDIDATE \<Longrightarrow> \<exists>e. parseUpdateUserInput session (userEditState u) = Inl e"
  by (cases "session_role session") (simp_all add: parseUpdateUserInput_def parseEditableRole_def userEditState_def Let_def bindR_def)

text \<open>Cancelling keeps the edit: the row shows it when it is opened again, and saves it.\<close>

lemma a_cancelled_edit_is_saved_later:
  assumes "u \<in> set (up_users p)" "up_editing p = None" "\<not> up_saving p" "\<not> up_deleting p" "up_edits p (usr_id u) = None"
  shows "snd (accounts_run session [EditClicked u, FieldChanged u (PatchName name), CancelClicked u, EditClicked u, SaveClicked u] p) =
    [UpdateAsked (usr_id u) ((userEditState u)\<lparr>uu_name := name\<rparr>)]"
  using assms by (simp add: updateEdit_def edit_of_def allowed_patch_def)

text \<open>A saved edit is kept too: when the account was changed elsewhere since, opening and saving its row writes the old values back.\<close>

lemma an_old_edit_overwrites_the_account:
  assumes "up_users p = [u]" "up_editing p = None" "\<not> up_saving p" "\<not> up_deleting p" "up_edits p (usr_id u) = None"
  shows "snd (accounts_run session [EditClicked u, SaveClicked u, SaveEnded, CancelClicked u, UsersFetched [u\<lparr>usr_role := role, usr_name := name\<rparr>],
      EditClicked (u\<lparr>usr_role := role, usr_name := name\<rparr>), SaveClicked (u\<lparr>usr_role := role, usr_name := name\<rparr>)] p) =
    [UpdateAsked (usr_id u) (userEditState u), UpdateAsked (usr_id u) (userEditState u)]"
  using assms by (simp add: updateEdit_def edit_of_def)

end
