(* ===== verification/ApiRoutes.thy ===== *)
theory ApiRoutes
  imports Auth EmailText Kyc
begin

text \<open>
  The calls of the web client (\<open>apiCore.ts\<close>, \<open>apiAuth.ts\<close>, \<open>apiAdmin.ts\<close>, \<open>apiCandidate.ts\<close>, \<open>apiAi.ts\<close>) and the routes of the server (the
  decorators of its controllers): every call reaches the handler it is meant for, with its identifiers and its token, and the guard
  asks for a session exactly where the client has one. The bodies are passed on as JSON.
\<close>

section \<open>The routes of the server\<close>

datatype http_method = GET | POST | PUT | PATCH | DELETE

text \<open>The handlers, by controller and method.\<close>

datatype (plugins only: code) endpoint =
    Auth_login | Auth_register | Auth_changePassword | Auth_setupStatus | Auth_createInitialAdmin | Auth_me | Auth_logout
  | Users_list | Users_organizations | Users_pendingApprovalCount | Users_update | Users_delete | Users_listSignupRequests
  | Users_reviewSignupRequest | Users_createOrganizationRequest | Users_createOrganizationCreationRequest
  | Users_createOrganizationInvitation | Users_listOrganizationInvitations | Users_listReceivedOrganizationInvitations
  | Users_acceptOrganizationInvitation | Users_listOrganizationRequests | Users_reviewOrganizationRequest
  | Dashboard_health | Dashboard_mobileAccess | Dashboard_dashboard
  | Exams_list | Exams_create | Exams_update | Exams_invite | Exams_markReady | Exams_createEnvironmentCheckSession
  | Exams_saveEnvironmentCheck | Exams_workspace | Exams_runCode | Exams_saveCodeDraft | Exams_submitCode | Exams_logProctorEvent
  | Exams_upsertProctorDevice | Exams_verifyIdentity | Exams_createIdentitySession | Exams_report | Exams_proctorLive | Exams_detail
  | Exams_delete | Exams_addQuestion | Exams_addTestCase | Exams_addCandidate | Exams_sendCandidateInviteEmail
  | Exams_createProctorAction | Ai_generateExamReports | Operations_getReadiness

type_synonym route = "http_method \<times> string \<times> endpoint"

definition controller :: "string \<Rightarrow> route list \<Rightarrow> route list" where
  "controller prefix routes = map (\<lambda>(verb, path, handler). (verb, prefix @ path, handler)) routes"

definition authRoutes :: "route list" where
  "authRoutes = controller ''/api/auth''
    [(POST, ''/login'', Auth_login),
     (POST, ''/register'', Auth_register),
     (POST, ''/change-password'', Auth_changePassword),
     (GET, ''/setup'', Auth_setupStatus),
     (POST, ''/setup'', Auth_createInitialAdmin),
     (GET, ''/me'', Auth_me),
     (POST, ''/logout'', Auth_logout)]"

definition usersRoutes :: "route list" where
  "usersRoutes = controller ''/api/admin/users''
    [(GET, '''', Users_list),
     (GET, ''/organizations'', Users_organizations),
     (GET, ''/pending-approval-count'', Users_pendingApprovalCount),
     (PUT, ''/:userId'', Users_update),
     (DELETE, ''/:userId'', Users_delete),
     (GET, ''/signup-requests'', Users_listSignupRequests),
     (POST, ''/signup-requests/:requestId/review'', Users_reviewSignupRequest),
     (POST, ''/organization-requests'', Users_createOrganizationRequest),
     (POST, ''/organization-creation-requests'', Users_createOrganizationCreationRequest),
     (POST, ''/organization-invitations'', Users_createOrganizationInvitation),
     (GET, ''/organization-invitations'', Users_listOrganizationInvitations),
     (GET, ''/received-organization-invitations'', Users_listReceivedOrganizationInvitations),
     (POST, ''/received-organization-invitations/accept'', Users_acceptOrganizationInvitation),
     (GET, ''/organization-requests'', Users_listOrganizationRequests),
     (POST, ''/organization-requests/:requestId/review'', Users_reviewOrganizationRequest)]"

definition dashboardRoutes :: "route list" where
  "dashboardRoutes = controller ''''
    [(GET, ''/health'', Dashboard_health),
     (GET, ''/api/mobile-access'', Dashboard_mobileAccess),
     (GET, ''/api/dashboard'', Dashboard_dashboard)]"

definition examsRoutes :: "route list" where
  "examsRoutes = controller ''/api/exams''
    [(GET, '''', Exams_list),
     (POST, '''', Exams_create),
     (PATCH, ''/:examId'', Exams_update),
     (GET, ''/invites/:inviteToken'', Exams_invite),
     (POST, ''/invites/:inviteToken/ready'', Exams_markReady),
     (POST, ''/invites/:inviteToken/environment-check-session'', Exams_createEnvironmentCheckSession),
     (POST, ''/invites/:inviteToken/environment-checks'', Exams_saveEnvironmentCheck),
     (GET, ''/invites/:inviteToken/workspace'', Exams_workspace),
     (POST, ''/invites/:inviteToken/run'', Exams_runCode),
     (POST, ''/invites/:inviteToken/drafts'', Exams_saveCodeDraft),
     (POST, ''/invites/:inviteToken/submit'', Exams_submitCode),
     (POST, ''/invites/:inviteToken/proctor-events'', Exams_logProctorEvent),
     (POST, ''/invites/:inviteToken/proctor-devices'', Exams_upsertProctorDevice),
     (POST, ''/invites/:inviteToken/identity-verifications'', Exams_verifyIdentity),
     (POST, ''/invites/:inviteToken/identity-session'', Exams_createIdentitySession),
     (GET, ''/:examId/report'', Exams_report),
     (GET, ''/:examId/proctor-live'', Exams_proctorLive),
     (GET, ''/:examId'', Exams_detail),
     (DELETE, ''/:examId'', Exams_delete),
     (POST, ''/:examId/questions'', Exams_addQuestion),
     (POST, ''/questions/:questionId/test-cases'', Exams_addTestCase),
     (POST, ''/:examId/candidates'', Exams_addCandidate),
     (POST, ''/candidates/:candidateId/invite-email'', Exams_sendCandidateInviteEmail),
     (POST, ''/candidates/:candidateId/proctor-actions'', Exams_createProctorAction)]"

definition aiRoutes :: "route list" where
  "aiRoutes = controller ''/api/ai'' [(POST, ''/exams/:examId/reports/generate'', Ai_generateExamReports)]"

definition operationsRoutes :: "route list" where
  "operationsRoutes = controller ''/api/operations'' [(GET, ''/readiness'', Operations_getReadiness)]"

text \<open>The controllers in the order of \<open>AppModule\<close>.\<close>

definition serverRoutes :: "route list" where
  "serverRoutes = authRoutes @ usersRoutes @ dashboardRoutes @ examsRoutes @ aiRoutes @ operationsRoutes"

text \<open>The router takes the first route that matches: a parameter takes a segment that is not empty, other segments are compared without
  their case. The paths of the client end without a slash.\<close>

fun match_segments :: "string list \<Rightarrow> string list \<Rightarrow> string list option" where
  "match_segments [] [] = Some []"
| "match_segments (p # ps) (w # ws) =
     (if startsWith p '':'' then (if w = [] then None else map_option (\<lambda>params. w # params) (match_segments ps ws))
      else if toLowerCase w = p then match_segments ps ws else None)"
| "match_segments _ _ = None"

definition match_route :: "http_method \<Rightarrow> string \<Rightarrow> route \<Rightarrow> (endpoint \<times> string list) option" where
  "match_route verb path r = (case r of (verb', pattern, handler) \<Rightarrow>
     if verb' = verb then map_option (\<lambda>params. (handler, params)) (match_segments (split_on CHR ''/'' pattern) (split_on CHR ''/'' path)) else None)"

fun first_some :: "('a \<Rightarrow> 'b option) \<Rightarrow> 'a list \<Rightarrow> 'b option" where
  "first_some f [] = None"
| "first_some f (x # xs) = (case f x of Some y \<Rightarrow> Some y | None \<Rightarrow> first_some f xs)"

definition route_request :: "http_method \<Rightarrow> string \<Rightarrow> (endpoint \<times> string list) option" where
  "route_request verb path = first_some (match_route verb path) serverRoutes"

section \<open>The calls of the client\<close>

datatype auth_call = Login | Register | SetupStatus | CreateInitialAdmin | ChangePassword string | Me string | Logout string

datatype (plugins only: size) admin_call =
    Dashboard | OperationsReadiness | MobileAccess | AdminUsers | AdminOrganizations | PendingApprovalCount | UpdateAdminUser string
  | DeleteAdminUser string | AdminSignupRequests | ReviewAdminSignupRequest string | CreateOrganizationAccessRequest
  | CreateOrganizationSignupRequest | CreateOrganizationInvitation | OrganizationInvitations | ReceivedOrganizationInvitations
  | AcceptOrganizationInvitation | OrganizationAccessRequests | ReviewOrganizationAccessRequest string | Exams | CreateExamCall
  | UpdateExamCall string | ExamDetailCall string | DeleteExamCall string | ExamReportCall string | ProctorLiveCall string
  | AddQuestionCall string | AddTestCaseCall string | AddCandidateCall string | SendCandidateInviteEmail string | CreateProctorAction string

datatype (plugins only: size) candidate_call =
    CandidateInvite string | MarkCandidateReady string | CreateEnvironmentCheckSession string | SaveEnvironmentCheck string
  | CandidateWorkspace string | RunCandidateCode string | SaveCandidateCodeDraft string | SubmitCandidateCode string
  | LogProctorEvent string | UpsertProctorDevice string | VerifyCandidateIdentity string | CreateIdentityProviderSession string

datatype api_call = AuthCall auth_call | AdminCall admin_call | CandidateCall candidate_call | GenerateExamAiReports string

text \<open>A call has its method, its path and, where it is given one, its token.\<close>

type_synonym call_request = "http_method \<times> string \<times> string option"

primrec authApi :: "auth_call \<Rightarrow> call_request" where
  "authApi Login = (POST, ''/api/auth/login'', None)"
| "authApi Register = (POST, ''/api/auth/register'', None)"
| "authApi SetupStatus = (GET, ''/api/auth/setup'', None)"
| "authApi CreateInitialAdmin = (POST, ''/api/auth/setup'', None)"
| "authApi (ChangePassword token) = (POST, ''/api/auth/change-password'', Some token)"
| "authApi (Me token) = (GET, ''/api/auth/me'', Some token)"
| "authApi (Logout token) = (POST, ''/api/auth/logout'', Some token)"

primrec adminApi :: "admin_call \<Rightarrow> call_request" where
  "adminApi Dashboard = (GET, ''/api/dashboard'', None)"
| "adminApi OperationsReadiness = (GET, ''/api/operations/readiness'', None)"
| "adminApi MobileAccess = (GET, ''/api/mobile-access'', None)"
| "adminApi AdminUsers = (GET, ''/api/admin/users'', None)"
| "adminApi AdminOrganizations = (GET, ''/api/admin/users/organizations'', None)"
| "adminApi PendingApprovalCount = (GET, ''/api/admin/users/pending-approval-count'', None)"
| "adminApi (UpdateAdminUser userId) = (PUT, ''/api/admin/users/'' @ userId, None)"
| "adminApi (DeleteAdminUser userId) = (DELETE, ''/api/admin/users/'' @ userId, None)"
| "adminApi AdminSignupRequests = (GET, ''/api/admin/users/signup-requests'', None)"
| "adminApi (ReviewAdminSignupRequest requestId) = (POST, ''/api/admin/users/signup-requests/'' @ requestId @ ''/review'', None)"
| "adminApi CreateOrganizationAccessRequest = (POST, ''/api/admin/users/organization-requests'', None)"
| "adminApi CreateOrganizationSignupRequest = (POST, ''/api/admin/users/organization-creation-requests'', None)"
| "adminApi CreateOrganizationInvitation = (POST, ''/api/admin/users/organization-invitations'', None)"
| "adminApi OrganizationInvitations = (GET, ''/api/admin/users/organization-invitations'', None)"
| "adminApi ReceivedOrganizationInvitations = (GET, ''/api/admin/users/received-organization-invitations'', None)"
| "adminApi AcceptOrganizationInvitation = (POST, ''/api/admin/users/received-organization-invitations/accept'', None)"
| "adminApi OrganizationAccessRequests = (GET, ''/api/admin/users/organization-requests'', None)"
| "adminApi (ReviewOrganizationAccessRequest requestId) = (POST, ''/api/admin/users/organization-requests/'' @ requestId @ ''/review'', None)"
| "adminApi Exams = (GET, ''/api/exams'', None)"
| "adminApi CreateExamCall = (POST, ''/api/exams'', None)"
| "adminApi (UpdateExamCall examId) = (PATCH, ''/api/exams/'' @ examId, None)"
| "adminApi (ExamDetailCall examId) = (GET, ''/api/exams/'' @ examId, None)"
| "adminApi (DeleteExamCall examId) = (DELETE, ''/api/exams/'' @ examId, None)"
| "adminApi (ExamReportCall examId) = (GET, ''/api/exams/'' @ examId @ ''/report'', None)"
| "adminApi (ProctorLiveCall examId) = (GET, ''/api/exams/'' @ examId @ ''/proctor-live'', None)"
| "adminApi (AddQuestionCall examId) = (POST, ''/api/exams/'' @ examId @ ''/questions'', None)"
| "adminApi (AddTestCaseCall questionId) = (POST, ''/api/exams/questions/'' @ questionId @ ''/test-cases'', None)"
| "adminApi (AddCandidateCall examId) = (POST, ''/api/exams/'' @ examId @ ''/candidates'', None)"
| "adminApi (SendCandidateInviteEmail candidateId) = (POST, ''/api/exams/candidates/'' @ candidateId @ ''/invite-email'', None)"
| "adminApi (CreateProctorAction candidateId) = (POST, ''/api/exams/candidates/'' @ candidateId @ ''/proctor-actions'', None)"

primrec candidateApi :: "candidate_call \<Rightarrow> call_request" where
  "candidateApi (CandidateInvite inviteToken) = (GET, ''/api/exams/invites/'' @ inviteToken, None)"
| "candidateApi (MarkCandidateReady inviteToken) = (POST, ''/api/exams/invites/'' @ inviteToken @ ''/ready'', None)"
| "candidateApi (CreateEnvironmentCheckSession inviteToken) = (POST, ''/api/exams/invites/'' @ inviteToken @ ''/environment-check-session'', None)"
| "candidateApi (SaveEnvironmentCheck inviteToken) = (POST, ''/api/exams/invites/'' @ inviteToken @ ''/environment-checks'', None)"
| "candidateApi (CandidateWorkspace inviteToken) = (GET, ''/api/exams/invites/'' @ inviteToken @ ''/workspace'', None)"
| "candidateApi (RunCandidateCode inviteToken) = (POST, ''/api/exams/invites/'' @ inviteToken @ ''/run'', None)"
| "candidateApi (SaveCandidateCodeDraft inviteToken) = (POST, ''/api/exams/invites/'' @ inviteToken @ ''/drafts'', None)"
| "candidateApi (SubmitCandidateCode inviteToken) = (POST, ''/api/exams/invites/'' @ inviteToken @ ''/submit'', None)"
| "candidateApi (LogProctorEvent inviteToken) = (POST, ''/api/exams/invites/'' @ inviteToken @ ''/proctor-events'', None)"
| "candidateApi (UpsertProctorDevice inviteToken) = (POST, ''/api/exams/invites/'' @ inviteToken @ ''/proctor-devices'', None)"
| "candidateApi (VerifyCandidateIdentity inviteToken) = (POST, ''/api/exams/invites/'' @ inviteToken @ ''/identity-verifications'', None)"
| "candidateApi (CreateIdentityProviderSession inviteToken) = (POST, ''/api/exams/invites/'' @ inviteToken @ ''/identity-session'', None)"

definition aiApi :: "string \<Rightarrow> call_request" where
  "aiApi examId = (POST, ''/api/ai/exams/'' @ examId @ ''/reports/generate'', None)"

primrec api :: "api_call \<Rightarrow> call_request" where
  "api (AuthCall call) = authApi call"
| "api (AdminCall call) = adminApi call"
| "api (CandidateCall call) = candidateApi call"
| "api (GenerateExamAiReports examId) = aiApi examId"

text \<open>\<open>request\<close>: the token of the call, or else the stored one, goes into the header.\<close>

definition authorization_header :: "string option \<Rightarrow> string option \<Rightarrow> string option" where
  "authorization_header storedToken given =
     (let token = (case given of Some t \<Rightarrow> Some t | None \<Rightarrow> storedToken)
      in if truthy token then Some (''Bearer '' @ the token) else None)"

record api_response =
  rp_ok :: bool
  rp_status :: int
  rp_contentType :: "string option"
  rp_json :: "json option"
  rp_text :: "string option"

text \<open>\<open>element\<close> is the text of an element of a joined array; \<open>None\<close> as JSON or text is a failed read.\<close>

definition responseErrorMessage :: "(json \<Rightarrow> string) \<Rightarrow> api_response \<Rightarrow> string" where
  "responseErrorMessage element response =
     (let fallback = ''API request failed ('' @ int_text (rp_status response) @ '')'';
          contentType = (case rp_contentType response of Some t \<Rightarrow> t | None \<Rightarrow> [])
      in if has_text contentType ''application/json'' then
           (case rp_json response of
              Some (JObj properties) \<Rightarrow>
                (case map_of properties ''message'' of
                   Some (JArr items) \<Rightarrow> join_with '', '' (map element items)
                 | other \<Rightarrow>
                    (case other of
                       Some (JStr message) \<Rightarrow> if trim message \<noteq> [] then message
                         else (case map_of properties ''error'' of Some (JStr err) \<Rightarrow> if trim err \<noteq> [] then err else fallback | _ \<Rightarrow> fallback)
                     | _ \<Rightarrow> (case map_of properties ''error'' of Some (JStr err) \<Rightarrow> if trim err \<noteq> [] then err else fallback | _ \<Rightarrow> fallback)))
            | _ \<Rightarrow> fallback)
         else (let body = (case rp_text response of Some t \<Rightarrow> t | None \<Rightarrow> []) in if trim body \<noteq> [] then trim body else fallback))"

text \<open>The answer of a call: \<open>ApiRequestError\<close> with status and message, or what \<open>response.json()\<close> reads.\<close>

definition api_request :: "(json \<Rightarrow> string) \<Rightarrow> (http_method \<Rightarrow> string \<Rightarrow> string option \<Rightarrow> api_response) \<Rightarrow> string option \<Rightarrow> api_call \<Rightarrow>
    (int \<times> string) + json option" where
  "api_request element fetch storedToken call = (case api call of (verb, path, given) \<Rightarrow>
     let response = fetch verb path (authorization_header storedToken given)
     in if \<not> rp_ok response then Inl (rp_status response, responseErrorMessage element response) else Inr (rp_json response))"

section \<open>The handlers the calls are meant for\<close>

primrec auth_handler :: "auth_call \<Rightarrow> endpoint" where
  "auth_handler Login = Auth_login"
| "auth_handler Register = Auth_register"
| "auth_handler SetupStatus = Auth_setupStatus"
| "auth_handler CreateInitialAdmin = Auth_createInitialAdmin"
| "auth_handler (ChangePassword token) = Auth_changePassword"
| "auth_handler (Me token) = Auth_me"
| "auth_handler (Logout token) = Auth_logout"

primrec admin_handler :: "admin_call \<Rightarrow> endpoint \<times> string list" where
  "admin_handler Dashboard = (Dashboard_dashboard, [])"
| "admin_handler OperationsReadiness = (Operations_getReadiness, [])"
| "admin_handler MobileAccess = (Dashboard_mobileAccess, [])"
| "admin_handler AdminUsers = (Users_list, [])"
| "admin_handler AdminOrganizations = (Users_organizations, [])"
| "admin_handler PendingApprovalCount = (Users_pendingApprovalCount, [])"
| "admin_handler (UpdateAdminUser userId) = (Users_update, [userId])"
| "admin_handler (DeleteAdminUser userId) = (Users_delete, [userId])"
| "admin_handler AdminSignupRequests = (Users_listSignupRequests, [])"
| "admin_handler (ReviewAdminSignupRequest requestId) = (Users_reviewSignupRequest, [requestId])"
| "admin_handler CreateOrganizationAccessRequest = (Users_createOrganizationRequest, [])"
| "admin_handler CreateOrganizationSignupRequest = (Users_createOrganizationCreationRequest, [])"
| "admin_handler CreateOrganizationInvitation = (Users_createOrganizationInvitation, [])"
| "admin_handler OrganizationInvitations = (Users_listOrganizationInvitations, [])"
| "admin_handler ReceivedOrganizationInvitations = (Users_listReceivedOrganizationInvitations, [])"
| "admin_handler AcceptOrganizationInvitation = (Users_acceptOrganizationInvitation, [])"
| "admin_handler OrganizationAccessRequests = (Users_listOrganizationRequests, [])"
| "admin_handler (ReviewOrganizationAccessRequest requestId) = (Users_reviewOrganizationRequest, [requestId])"
| "admin_handler Exams = (Exams_list, [])"
| "admin_handler CreateExamCall = (Exams_create, [])"
| "admin_handler (UpdateExamCall examId) = (Exams_update, [examId])"
| "admin_handler (ExamDetailCall examId) = (Exams_detail, [examId])"
| "admin_handler (DeleteExamCall examId) = (Exams_delete, [examId])"
| "admin_handler (ExamReportCall examId) = (Exams_report, [examId])"
| "admin_handler (ProctorLiveCall examId) = (Exams_proctorLive, [examId])"
| "admin_handler (AddQuestionCall examId) = (Exams_addQuestion, [examId])"
| "admin_handler (AddTestCaseCall questionId) = (Exams_addTestCase, [questionId])"
| "admin_handler (AddCandidateCall examId) = (Exams_addCandidate, [examId])"
| "admin_handler (SendCandidateInviteEmail candidateId) = (Exams_sendCandidateInviteEmail, [candidateId])"
| "admin_handler (CreateProctorAction candidateId) = (Exams_createProctorAction, [candidateId])"

primrec candidate_handler :: "candidate_call \<Rightarrow> endpoint \<times> string list" where
  "candidate_handler (CandidateInvite inviteToken) = (Exams_invite, [inviteToken])"
| "candidate_handler (MarkCandidateReady inviteToken) = (Exams_markReady, [inviteToken])"
| "candidate_handler (CreateEnvironmentCheckSession inviteToken) = (Exams_createEnvironmentCheckSession, [inviteToken])"
| "candidate_handler (SaveEnvironmentCheck inviteToken) = (Exams_saveEnvironmentCheck, [inviteToken])"
| "candidate_handler (CandidateWorkspace inviteToken) = (Exams_workspace, [inviteToken])"
| "candidate_handler (RunCandidateCode inviteToken) = (Exams_runCode, [inviteToken])"
| "candidate_handler (SaveCandidateCodeDraft inviteToken) = (Exams_saveCodeDraft, [inviteToken])"
| "candidate_handler (SubmitCandidateCode inviteToken) = (Exams_submitCode, [inviteToken])"
| "candidate_handler (LogProctorEvent inviteToken) = (Exams_logProctorEvent, [inviteToken])"
| "candidate_handler (UpsertProctorDevice inviteToken) = (Exams_upsertProctorDevice, [inviteToken])"
| "candidate_handler (VerifyCandidateIdentity inviteToken) = (Exams_verifyIdentity, [inviteToken])"
| "candidate_handler (CreateIdentityProviderSession inviteToken) = (Exams_createIdentitySession, [inviteToken])"

primrec handler_of :: "api_call \<Rightarrow> endpoint \<times> string list" where
  "handler_of (AuthCall call) = (auth_handler call, [])"
| "handler_of (AdminCall call) = admin_handler call"
| "handler_of (CandidateCall call) = candidate_handler call"
| "handler_of (GenerateExamAiReports examId) = (Ai_generateExamReports, [examId])"

section \<open>Every call reaches its handler\<close>

text \<open>The identifiers that the server makes: a prefix and hexadecimal digits.\<close>

definition plain_id :: "string \<Rightarrow> bool" where
  "plain_id i \<longleftrightarrow> i \<noteq> [] \<and> (\<forall>c \<in> set i. key_char c) \<and> toLowerCase i \<noteq> ''invites''"

lemma plain_segment: "plain_id i \<Longrightarrow> CHR ''/'' \<notin> set i"
proof
  assume "plain_id i" "CHR ''/'' \<in> set i"
  then have "key_char CHR ''/''" unfolding plain_id_def by blast
  moreover have "\<not> key_char CHR ''/''" by code_simp
  ultimately show False by simp
qed

lemma split_id:
  assumes "plain_id i"
  shows "split_on CHR ''/'' i = [i]" and "split_on CHR ''/'' (i @ CHR ''/'' # s) = i # split_on CHR ''/'' s" and "i \<noteq> []"
    and "toLowerCase i \<noteq> ''invites''"
  using plain_segment [OF assms] assms by (simp_all add: split_on_single split_on_append plain_id_def)

text \<open>The routes of a method with a number of segments; \<open>None\<close> stands for a parameter.\<close>

definition word_of :: "string \<Rightarrow> string option" where
  "word_of p = (if startsWith p '':'' then None else Some p)"

definition bucket :: "http_method \<Rightarrow> nat \<Rightarrow> (string option list \<times> endpoint) list" where
  "bucket verb n = map (\<lambda>(verb', pattern, handler). (map word_of (split_on CHR ''/'' pattern), handler))
     (filter (\<lambda>(verb', pattern, handler). verb' = verb \<and> length (split_on CHR ''/'' pattern) = n) serverRoutes)"

fun match_words :: "string option list \<Rightarrow> string list \<Rightarrow> string list option" where
  "match_words [] [] = Some []"
| "match_words (None # ps) (w # ws) = (if w = [] then None else map_option (\<lambda>params. w # params) (match_words ps ws))"
| "match_words (Some p # ps) (w # ws) = (if toLowerCase w = p then match_words ps ws else None)"
| "match_words _ _ = None"

fun match_bucket :: "string list \<Rightarrow> (string option list \<times> endpoint) list \<Rightarrow> (endpoint \<times> string list) option" where
  "match_bucket segments [] = None"
| "match_bucket segments ((words, handler) # routes) = (case match_words words segments of
     Some params \<Rightarrow> Some (handler, params) | None \<Rightarrow> match_bucket segments routes)"

lemma match_words_eq: "match_words (map word_of pattern) segments = match_segments pattern segments"
  by (induction pattern segments rule: match_segments.induct) (auto simp: word_of_def)

lemma match_segments_length: "match_segments pattern segments = Some params \<Longrightarrow> length pattern = length segments"
  by (induction pattern segments arbitrary: params rule: match_segments.induct) (auto split: if_splits)

lemma route_by_bucket:
  "route_request verb path = match_bucket (split_on CHR ''/'' path) (bucket verb (length (split_on CHR ''/'' path)))"
proof -
  have "first_some (match_route verb path) routes = match_bucket (split_on CHR ''/'' path)
      (map (\<lambda>(verb', pattern, handler). (map word_of (split_on CHR ''/'' pattern), handler))
        (filter (\<lambda>(verb', pattern, handler). verb' = verb \<and> length (split_on CHR ''/'' pattern) = length (split_on CHR ''/'' path)) routes))" for routes
    by (induction routes) (auto simp: match_route_def match_words_eq dest: match_segments_length split: option.splits if_splits)
  then show ?thesis by (simp add: route_request_def bucket_def)
qed

lemma buckets:
  "bucket DELETE (Suc (Suc (Suc (Suc 0)))) = [([Some '''', Some ''api'', Some ''exams'', None], Exams_delete)]"
  "bucket DELETE (Suc (Suc (Suc (Suc (Suc 0))))) = [([Some '''', Some ''api'', Some ''admin'', Some ''users'', None], Users_delete)]"
  "bucket GET (Suc (Suc 0)) = [([Some '''', Some ''health''], Dashboard_health)]"
  "bucket GET (Suc (Suc (Suc 0))) = [([Some '''', Some ''api'', Some ''mobile-access''], Dashboard_mobileAccess), ([Some '''', Some ''api'', Some ''dashboard''], Dashboard_dashboard), ([Some '''', Some ''api'', Some ''exams''], Exams_list)]"
  "bucket GET (Suc (Suc (Suc (Suc 0)))) = [([Some '''', Some ''api'', Some ''auth'', Some ''setup''], Auth_setupStatus), ([Some '''', Some ''api'', Some ''auth'', Some ''me''], Auth_me), ([Some '''', Some ''api'', Some ''admin'', Some ''users''], Users_list), ([Some '''', Some ''api'', Some ''exams'', None], Exams_detail), ([Some '''', Some ''api'', Some ''operations'', Some ''readiness''], Operations_getReadiness)]"
  "bucket GET (Suc (Suc (Suc (Suc (Suc 0))))) = [([Some '''', Some ''api'', Some ''admin'', Some ''users'', Some ''organizations''], Users_organizations), ([Some '''', Some ''api'', Some ''admin'', Some ''users'', Some ''pending-approval-count''], Users_pendingApprovalCount), ([Some '''', Some ''api'', Some ''admin'', Some ''users'', Some ''signup-requests''], Users_listSignupRequests), ([Some '''', Some ''api'', Some ''admin'', Some ''users'', Some ''organization-invitations''], Users_listOrganizationInvitations), ([Some '''', Some ''api'', Some ''admin'', Some ''users'', Some ''received-organization-invitations''], Users_listReceivedOrganizationInvitations), ([Some '''', Some ''api'', Some ''admin'', Some ''users'', Some ''organization-requests''], Users_listOrganizationRequests), ([Some '''', Some ''api'', Some ''exams'', Some ''invites'', None], Exams_invite), ([Some '''', Some ''api'', Some ''exams'', None, Some ''report''], Exams_report), ([Some '''', Some ''api'', Some ''exams'', None, Some ''proctor-live''], Exams_proctorLive)]"
  "bucket GET (Suc (Suc (Suc (Suc (Suc (Suc 0)))))) = [([Some '''', Some ''api'', Some ''exams'', Some ''invites'', None, Some ''workspace''], Exams_workspace)]"
  "bucket PATCH (Suc (Suc (Suc (Suc 0)))) = [([Some '''', Some ''api'', Some ''exams'', None], Exams_update)]"
  "bucket POST (Suc (Suc (Suc 0))) = [([Some '''', Some ''api'', Some ''exams''], Exams_create)]"
  "bucket POST (Suc (Suc (Suc (Suc 0)))) = [([Some '''', Some ''api'', Some ''auth'', Some ''login''], Auth_login), ([Some '''', Some ''api'', Some ''auth'', Some ''register''], Auth_register), ([Some '''', Some ''api'', Some ''auth'', Some ''change-password''], Auth_changePassword), ([Some '''', Some ''api'', Some ''auth'', Some ''setup''], Auth_createInitialAdmin), ([Some '''', Some ''api'', Some ''auth'', Some ''logout''], Auth_logout)]"
  "bucket POST (Suc (Suc (Suc (Suc (Suc 0))))) = [([Some '''', Some ''api'', Some ''admin'', Some ''users'', Some ''organization-requests''], Users_createOrganizationRequest), ([Some '''', Some ''api'', Some ''admin'', Some ''users'', Some ''organization-creation-requests''], Users_createOrganizationCreationRequest), ([Some '''', Some ''api'', Some ''admin'', Some ''users'', Some ''organization-invitations''], Users_createOrganizationInvitation), ([Some '''', Some ''api'', Some ''exams'', None, Some ''questions''], Exams_addQuestion), ([Some '''', Some ''api'', Some ''exams'', None, Some ''candidates''], Exams_addCandidate)]"
  "bucket POST (Suc (Suc (Suc (Suc (Suc (Suc 0)))))) = [([Some '''', Some ''api'', Some ''admin'', Some ''users'', Some ''received-organization-invitations'', Some ''accept''], Users_acceptOrganizationInvitation), ([Some '''', Some ''api'', Some ''exams'', Some ''invites'', None, Some ''ready''], Exams_markReady), ([Some '''', Some ''api'', Some ''exams'', Some ''invites'', None, Some ''environment-check-session''], Exams_createEnvironmentCheckSession), ([Some '''', Some ''api'', Some ''exams'', Some ''invites'', None, Some ''environment-checks''], Exams_saveEnvironmentCheck), ([Some '''', Some ''api'', Some ''exams'', Some ''invites'', None, Some ''run''], Exams_runCode), ([Some '''', Some ''api'', Some ''exams'', Some ''invites'', None, Some ''drafts''], Exams_saveCodeDraft), ([Some '''', Some ''api'', Some ''exams'', Some ''invites'', None, Some ''submit''], Exams_submitCode), ([Some '''', Some ''api'', Some ''exams'', Some ''invites'', None, Some ''proctor-events''], Exams_logProctorEvent), ([Some '''', Some ''api'', Some ''exams'', Some ''invites'', None, Some ''proctor-devices''], Exams_upsertProctorDevice), ([Some '''', Some ''api'', Some ''exams'', Some ''invites'', None, Some ''identity-verifications''], Exams_verifyIdentity), ([Some '''', Some ''api'', Some ''exams'', Some ''invites'', None, Some ''identity-session''], Exams_createIdentitySession), ([Some '''', Some ''api'', Some ''exams'', Some ''questions'', None, Some ''test-cases''], Exams_addTestCase), ([Some '''', Some ''api'', Some ''exams'', Some ''candidates'', None, Some ''invite-email''], Exams_sendCandidateInviteEmail), ([Some '''', Some ''api'', Some ''exams'', Some ''candidates'', None, Some ''proctor-actions''], Exams_createProctorAction)]"
  "bucket POST (Suc (Suc (Suc (Suc (Suc (Suc (Suc 0))))))) = [([Some '''', Some ''api'', Some ''admin'', Some ''users'', Some ''signup-requests'', None, Some ''review''], Users_reviewSignupRequest), ([Some '''', Some ''api'', Some ''admin'', Some ''users'', Some ''organization-requests'', None, Some ''review''], Users_reviewOrganizationRequest), ([Some '''', Some ''api'', Some ''ai'', Some ''exams'', None, Some ''reports'', Some ''generate''], Ai_generateExamReports)]"
  "bucket PUT (Suc (Suc (Suc (Suc (Suc 0))))) = [([Some '''', Some ''api'', Some ''admin'', Some ''users'', None], Users_update)]"
  by code_simp+

lemma words_lower:
  "toLowerCase ''accept'' = ''accept''" "toLowerCase ''admin'' = ''admin''" "toLowerCase ''ai'' = ''ai''" "toLowerCase ''api'' = ''api''"
  "toLowerCase ''auth'' = ''auth''" "toLowerCase ''candidates'' = ''candidates''" "toLowerCase ''change-password'' = ''change-password''"
  "toLowerCase ''dashboard'' = ''dashboard''" "toLowerCase ''drafts'' = ''drafts''"
  "toLowerCase ''environment-check-session'' = ''environment-check-session''" "toLowerCase ''environment-checks'' = ''environment-checks''"
  "toLowerCase ''exams'' = ''exams''" "toLowerCase ''generate'' = ''generate''" "toLowerCase ''health'' = ''health''"
  "toLowerCase ''identity-session'' = ''identity-session''" "toLowerCase ''identity-verifications'' = ''identity-verifications''"
  "toLowerCase ''invite-email'' = ''invite-email''" "toLowerCase ''invites'' = ''invites''" "toLowerCase ''login'' = ''login''"
  "toLowerCase ''logout'' = ''logout''" "toLowerCase ''me'' = ''me''" "toLowerCase ''mobile-access'' = ''mobile-access''"
  "toLowerCase ''operations'' = ''operations''" "toLowerCase ''organization-creation-requests'' = ''organization-creation-requests''"
  "toLowerCase ''organization-invitations'' = ''organization-invitations''"
  "toLowerCase ''organization-requests'' = ''organization-requests''" "toLowerCase ''organizations'' = ''organizations''"
  "toLowerCase ''pending-approval-count'' = ''pending-approval-count''" "toLowerCase ''proctor-actions'' = ''proctor-actions''"
  "toLowerCase ''proctor-devices'' = ''proctor-devices''" "toLowerCase ''proctor-events'' = ''proctor-events''"
  "toLowerCase ''proctor-live'' = ''proctor-live''" "toLowerCase ''questions'' = ''questions''" "toLowerCase ''readiness'' = ''readiness''"
  "toLowerCase ''ready'' = ''ready''" "toLowerCase ''received-organization-invitations'' = ''received-organization-invitations''"
  "toLowerCase ''register'' = ''register''" "toLowerCase ''report'' = ''report''" "toLowerCase ''reports'' = ''reports''"
  "toLowerCase ''review'' = ''review''" "toLowerCase ''run'' = ''run''" "toLowerCase ''setup'' = ''setup''"
  "toLowerCase ''signup-requests'' = ''signup-requests''" "toLowerCase ''submit'' = ''submit''"
  "toLowerCase ''test-cases'' = ''test-cases''" "toLowerCase ''users'' = ''users''" "toLowerCase ''workspace'' = ''workspace''"
  by code_simp+

lemma empty_lower: "toLowerCase [] = []"
  by (simp add: toLowerCase_def)

lemmas routing = route_by_bucket buckets words_lower empty_lower split_id

abbreviation routed :: "call_request \<Rightarrow> (endpoint \<times> string list) option" where
  "routed request \<equiv> route_request (fst request) (fst (snd request))"

lemma auth_routed: "routed (authApi call) = Some (auth_handler call, [])"
  by (cases call) (simp_all add: routing)

lemma candidate_routed:
  "\<forall>i \<in> set (snd (candidate_handler call)). plain_id i \<Longrightarrow> routed (candidateApi call) = Some (candidate_handler call)"
  by (cases call) (simp_all add: routing)

lemma admin_routed: "\<forall>i \<in> set (snd (admin_handler call)). plain_id i \<Longrightarrow> routed (adminApi call) = Some (admin_handler call)"
  by (cases call) (simp_all add: routing)

lemma ai_routed: "plain_id examId \<Longrightarrow> routed (aiApi examId) = Some (Ai_generateExamReports, [examId])"
  by (simp add: aiApi_def routing)

lemma calls_routed: "\<forall>i \<in> set (snd (handler_of call)). plain_id i \<Longrightarrow> routed (api call) = Some (handler_of call)"
  by (cases call) (simp_all add: auth_routed candidate_routed admin_routed ai_routed)

section \<open>The guard and the token\<close>

lemma plain_not_invites:
  assumes "plain_id i" "s = [] \<or> (\<exists>r. s = CHR ''/'' # r)"
  shows "\<not> startsWith (i @ s) ''invites/''"
proof
  assume "startsWith (i @ s) ''invites/''"
  then obtain r where "i @ s = ''invites'' @ CHR ''/'' # r" by (auto simp: startsWith_iff)
  then have "split_on CHR ''/'' (i @ s) = split_on CHR ''/'' (''invites'' @ CHR ''/'' # r)" by simp
  also have "\<dots> = ''invites'' # split_on CHR ''/'' r" by (rule split_on_append) simp
  finally have "hd (split_on CHR ''/'' (i @ s)) = ''invites''" by simp
  moreover have "hd (split_on CHR ''/'' (i @ s)) = i" using assms(2) split_id [OF assms(1)] by auto
  ultimately show False using split_id(4) [OF assms(1)] words_lower by simp
qed

lemma startsWith_Cons:
  "startsWith (c # s) (d # p) \<longleftrightarrow> c = d \<and> startsWith s p" "startsWith s []" "\<not> startsWith [] (d # p)"
  by (auto simp: startsWith_def)

lemma plain_private:
  assumes "plain_id i"
  shows "\<not> startsWith i ''invites/''" and "\<not> startsWith (i @ CHR ''/'' # s) ''invites/''"
  using plain_not_invites [OF assms, of "[]"] plain_not_invites [OF assms, of "CHR ''/'' # s"] by simp_all

lemmas guarding = isPublicPath_def startsWith_Cons plain_private

lemma admin_public:
  "\<forall>i \<in> set (snd (admin_handler c)). plain_id i \<Longrightarrow> isPublicPath (fst (snd (adminApi c))) \<longleftrightarrow> c = MobileAccess"
  by (cases c) (simp_all add: guarding)

lemma open_calls: "isPublicPath (fst (snd (authApi a)))" "isPublicPath (fst (snd (candidateApi b)))" "\<not> isPublicPath (fst (snd (aiApi examId)))"
  by (cases a; simp add: guarding; fail | cases b; simp add: guarding; fail | simp add: guarding aiApi_def)+

lemma public_calls:
  "\<forall>i \<in> set (snd (handler_of call)). plain_id i \<Longrightarrow> isPublicPath (fst (snd (api call))) \<longleftrightarrow>
     (\<exists>c. call = AuthCall c) \<or> (\<exists>c. call = CandidateCall c) \<or> call = AdminCall MobileAccess"
  by (cases call) (simp_all add: admin_public open_calls)

lemma token_read_back:
  "extractBearerToken (authorization_header storedToken given) =
     (case given of Some t \<Rightarrow> if t \<noteq> [] then Some t else None | None \<Rightarrow> if truthy storedToken then storedToken else None)"
  by (cases storedToken) (auto simp: authorization_header_def extractBearerToken_def Let_def startsWith_Cons split: option.split)

text \<open>C23. Every call of the client, with identifiers as the server makes them, is routed to the handler it is meant for with just these
  identifiers. The guard lets it pass without looking for a session exactly if it is a call of \<open>authApi\<close>, of \<open>candidateApi\<close>, or for the
  address of the mobile page (of these, the handlers of \<open>me\<close>, \<open>logout\<close> and \<open>changePassword\<close> look at the token themselves). The server reads
  back the token that the call was given, or else the stored one.\<close>

theorem every_call_reaches_its_handler:
  assumes "api call = (verb, path, given)" and "\<forall>i \<in> set (snd (handler_of call)). plain_id i"
  shows "route_request verb path = Some (handler_of call) \<and>
    (isPublicPath path \<longleftrightarrow> (\<exists>c. call = AuthCall c) \<or> (\<exists>c. call = CandidateCall c) \<or> call = AdminCall MobileAccess) \<and>
    extractBearerToken (authorization_header storedToken given) =
      (case given of Some t \<Rightarrow> if t \<noteq> [] then Some t else None | None \<Rightarrow> if truthy storedToken then storedToken else None)"
  using calls_routed [OF assms(2)] public_calls [OF assms(2)] token_read_back [of storedToken given] by (simp add: assms(1))

lemma every_call_reaches_its_handler_witness:
  "route_request GET ''/api/exams/exam_1/report'' = Some (Exams_report, [''exam_1'']) \<and> \<not> isPublicPath ''/api/exams/exam_1/report'' \<and>
   extractBearerToken (authorization_header (Some ''t'') None) = Some ''t''"
proof -
  have "plain_id ''exam_1''" by code_simp
  then show ?thesis
    using every_call_reaches_its_handler [of "AdminCall (ExamReportCall ''exam_1'')" GET "''/api/exams/exam_1/report''" None "Some ''t''"]
    by simp
qed

text \<open>No route of the server but the one for the health of the process is left without a call, and the pages show what a handler's
  exception says.\<close>

lemma every_handler_is_called:
  assumes "handler \<noteq> Dashboard_health"
  shows "\<exists>call. fst (handler_of call) = handler"
  using assms
  by (cases handler; metis handler_of.simps auth_handler.simps admin_handler.simps candidate_handler.simps fst_conv)

lemma exception_message_is_shown:
  assumes "rp_contentType response = Some contentType" "has_text contentType ''application/json''"
    and "rp_json response = Some (JObj properties)" "map_of properties ''message'' = Some (JStr message)" "trim message \<noteq> []"
  shows "responseErrorMessage element response = message"
  using assms by (simp add: responseErrorMessage_def)

end
