(* ===== verification/ContentPages.thy ===== *)
theory ContentPages
  imports Api PageMachine
begin

text \<open>
  The forms for the content of an exam: \<open>QuestionManager.tsx\<close> (questions with their choices, and test cases) and \<open>CandidateManager.tsx\<close>
  (candidates and their invitations), for a session that may manage the exam. Their requests are those of the server's interface.
\<close>

section \<open>Questions and test cases\<close>

datatype save_state = NotSaved | Saving | SaveDone | SaveFailed

record question_page =
  qp_question :: question_input
  qp_choiceText :: string
  qp_testQuestionId :: string
  qp_testCase :: test_case_input
  qp_questionSaveState :: save_state
  qp_testCaseSaveState :: save_state

definition empty_question :: question_input where
  "empty_question = \<lparr>qi_title = [], qi_description = [], qi_type = CODING, qi_points = 100, qi_difficulty = MEDIUM, qi_timeLimitMs = 2000,
     qi_memoryLimitMb = 256, qi_choices = [], qi_expectedAnswer = None\<rparr>"

definition empty_test_case :: test_case_input where
  "empty_test_case = \<lparr>tci_input = [], tci_expectedOutput = [], tci_isPublic = True\<rparr>"

definition opened_questions :: question_page where
  "opened_questions = \<lparr>qp_question = empty_question, qp_choiceText = [], qp_testQuestionId = [], qp_testCase = empty_test_case,
     qp_questionSaveState = NotSaved, qp_testCaseSaveState = NotSaved\<rparr>"

text \<open>\<open>choiceText.split("\n").map(trim).filter(Boolean)\<close>\<close>

definition choices_of :: "string \<Rightarrow> string list" where
  "choices_of choiceText = filter (\<lambda>choice. choice \<noteq> []) (map trim (split_on (CHR 0x0A) choiceText))"

text \<open>An empty expected answer is none. A form is submitted with its required fields filled; its button is disabled while it is saved.\<close>

datatype question_event =
    QuestionTyped string string question_type int difficulty string | ChoicesTyped string | TestCaseTyped string string string bool
  | QuestionSubmitted | TestCaseSubmitted | QuestionAnswered bool | TestCaseAnswered bool

fun question_step :: "string \<Rightarrow> question_event \<Rightarrow> question_page \<Rightarrow> question_page \<times> admin_request list" where
  "question_step examId (QuestionTyped title description type points difficulty expectedAnswer) p =
     (p\<lparr>qp_question := (qp_question p)\<lparr>qi_title := title, qi_description := description, qi_type := type, qi_points := points,
        qi_difficulty := difficulty, qi_expectedAnswer := if expectedAnswer = [] then None else Some expectedAnswer\<rparr>\<rparr>, [])"
| "question_step examId (ChoicesTyped choiceText) p = (p\<lparr>qp_choiceText := choiceText\<rparr>, [])"
| "question_step examId (TestCaseTyped questionId input expectedOutput isPublic) p =
     (p\<lparr>qp_testQuestionId := questionId, qp_testCase := \<lparr>tci_input = input, tci_expectedOutput = expectedOutput, tci_isPublic = isPublic\<rparr>\<rparr>, [])"
| "question_step examId QuestionSubmitted p =
     (if qp_questionSaveState p = Saving \<or> qi_title (qp_question p) = [] \<or> qi_description (qp_question p) = [] \<or> qi_points (qp_question p) < 1
      then (p, [])
      else (p\<lparr>qp_questionSaveState := Saving\<rparr>, [AddQuestion examId ((qp_question p)\<lparr>qi_choices := choices_of (qp_choiceText p)\<rparr>)]))"
| "question_step examId TestCaseSubmitted p =
     (if qp_testCaseSaveState p = Saving \<or> qp_testQuestionId p = [] \<or> tci_input (qp_testCase p) = [] \<or> tci_expectedOutput (qp_testCase p) = []
      then (p, [])
      else (p\<lparr>qp_testCaseSaveState := Saving\<rparr>, [AddTestCase (qp_testQuestionId p) (qp_testCase p)]))"
| "question_step examId (QuestionAnswered ok) p =
     (if qp_questionSaveState p \<noteq> Saving then p
      else if ok then p\<lparr>qp_question := empty_question, qp_choiceText := [], qp_questionSaveState := SaveDone\<rparr>
      else p\<lparr>qp_questionSaveState := SaveFailed\<rparr>, [])"
| "question_step examId (TestCaseAnswered ok) p =
     (if qp_testCaseSaveState p \<noteq> Saving then p
      else if ok then p\<lparr>qp_testQuestionId := [], qp_testCase := empty_test_case, qp_testCaseSaveState := SaveDone\<rparr>
      else p\<lparr>qp_testCaseSaveState := SaveFailed\<rparr>, [])"

text \<open>What is typed line by line is what is sent.\<close>

theorem choices_read_back:
  assumes "\<forall>choice \<in> set choices. choice \<noteq> [] \<and> trim choice = choice \<and> CHR 0x0A \<notin> set choice"
  shows "choices_of (join_with [CHR 0x0A] choices) = choices"
proof (cases "choices = []")
  case True
  then show ?thesis by (simp add: choices_of_def)
next
  case False
  then have "split_on (CHR 0x0A) (join_with [CHR 0x0A] choices) = choices" using assms by (intro split_joined) auto
  moreover have "map trim choices = choices" using assms by (intro map_idI) auto
  moreover have "filter (\<lambda>choice. choice \<noteq> []) choices = choices" using assms by (auto simp: filter_id_conv)
  ultimately show ?thesis by (simp add: choices_of_def)
qed

text \<open>A question is sent once: however often the button is pressed, the answers and the one under way account for every question sent.\<close>

definition question_count :: "admin_request list \<Rightarrow> nat" where
  "question_count requests = length (filter (\<lambda>r. case r of AddQuestion _ _ \<Rightarrow> True | _ \<Rightarrow> False) requests)"

definition saving_question :: "question_page \<Rightarrow> nat" where
  "saving_question p = (if qp_questionSaveState p = Saving then 1 else 0)"

lemma question_count_append [simp]: "question_count [] = 0" "question_count (rs @ rs') = question_count rs + question_count rs'"
  by (simp_all add: question_count_def)

theorem questions_are_sent_once:
  "question_count (snd (run_page (question_step examId) es p)) + saving_question p
     \<le> length (filter (\<lambda>e. case e of QuestionAnswered _ \<Rightarrow> True | _ \<Rightarrow> False) es) + saving_question (fst (run_page (question_step examId) es p))"
proof (induction es arbitrary: p)
  case (Cons e es)
  have "question_count (snd (question_step examId e p)) + saving_question p
      \<le> (case e of QuestionAnswered _ \<Rightarrow> 1 | _ \<Rightarrow> 0) + saving_question (fst (question_step examId e p))"
    by (cases e) (simp_all add: question_count_def saving_question_def)
  then show ?case using Cons.IH [of "fst (question_step examId e p)"]
    by (cases e) (simp_all only: run_page_Cons question_count_append, auto)
qed simp

section \<open>Candidates\<close>

text \<open>\<open>cm_adding\<close> counts the additions under way: the button is not disabled meanwhile.\<close>

datatype invite_notice = NoNotice | CandidateFailed | InviteResult bool | InviteFailed

record candidates_page =
  cm_form :: candidate_input
  cm_notice :: invite_notice
  cm_adding :: nat
  cm_inviting :: bool

definition opened_candidates :: candidates_page where
  "opened_candidates = \<lparr>cm_form = \<lparr>cai_name = [], cai_email = []\<rparr>, cm_notice = NoNotice, cm_adding = 0, cm_inviting = False\<rparr>"

datatype candidates_event =
    CandidateTyped string string | CandidateSubmitted | CandidateAdded | AdditionFailed | InviteClicked string | InviteAnswered bool | InviteRefused

fun candidates_step :: "string \<Rightarrow> candidates_event \<Rightarrow> candidates_page \<Rightarrow> candidates_page \<times> admin_request list" where
  "candidates_step examId (CandidateTyped name email) p = (p\<lparr>cm_form := \<lparr>cai_name = name, cai_email = email\<rparr>\<rparr>, [])"
| "candidates_step examId CandidateSubmitted p =
     (if cai_name (cm_form p) = [] \<or> CHR ''@'' \<notin> set (cai_email (cm_form p)) then (p, [])
      else (p\<lparr>cm_adding := Suc (cm_adding p)\<rparr>, [AddCandidate examId (cm_form p)]))"
| "candidates_step examId CandidateAdded p =
     (if cm_adding p = 0 then p
      else p\<lparr>cm_adding := cm_adding p - 1, cm_form := \<lparr>cai_name = [], cai_email = []\<rparr>, cm_notice := NoNotice\<rparr>, [])"
| "candidates_step examId AdditionFailed p =
     (if cm_adding p = 0 then p else p\<lparr>cm_adding := cm_adding p - 1, cm_notice := CandidateFailed\<rparr>, [])"
| "candidates_step examId (InviteClicked candidateId) p =
     (if cm_inviting p then (p, []) else (p\<lparr>cm_inviting := True\<rparr>, [SendInvite candidateId]))"
| "candidates_step examId (InviteAnswered delivered) p = (if cm_inviting p then p\<lparr>cm_inviting := False, cm_notice := InviteResult delivered\<rparr> else p, [])"
| "candidates_step examId InviteRefused p = (if cm_inviting p then p\<lparr>cm_inviting := False, cm_notice := InviteFailed\<rparr> else p, [])"

text \<open>Two clicks before the first answer add the same candidate twice; the server does not compare addresses.\<close>

lemma two_clicks_add_two_candidates:
  assumes "name \<noteq> []" "CHR ''@'' \<in> set email"
  shows "snd (run_page (candidates_step examId) [CandidateTyped name email, CandidateSubmitted, CandidateSubmitted] opened_candidates) =
    [AddCandidate examId \<lparr>cai_name = name, cai_email = email\<rparr>, AddCandidate examId \<lparr>cai_name = name, cai_email = email\<rparr>]"
  using assms by (simp add: opened_candidates_def)

end
