(* ===== verification/Spec2Isabelle.thy ===== *)
theory Spec2Isabelle
  imports Base JsText JsNumber Contracts SessionRegistry FixedWindow RateLimiter PasswordKdf TransportPolicy
    Prisma Auth Accounts CodeRunner Mappers Store Seed ExamAdmin Proctor Workspace JsDouble Execution
    Kyc IdentityEnvironment Report AiEvaluation Gateway EmailText InviteEmail Readiness Api StoreModes BoundedRead
    ExamClient CameraStream Masking ProctorDashboard CandidatePages Outcomes AdminRoles AdminPages
    MobileIdentity AccountPages ApiRoutes ContentPages
begin

text \<open>
  \<^bold>\<open>The program.\<close> A platform for coding exams: organizations prepare exams, candidates solve them in the browser under the eyes of
  proctors, and submissions are judged by running them. The server (\<open>apps/api/src\<close>, NestJS over Prisma) keeps the accounts, the
  exams and what happens in them; the web client (\<open>apps/web/src\<close>, React) has the pages of administrators, proctors and candidates; both
  share the interfaces of \<open>packages/shared/src/index.ts\<close>. A request of the administration carries the token of a session, which the
  guard looks up in the registry of sessions; a request of a candidate carries the token of an invitation and passes a gate of checks
  (identity, environment, devices, time). The store answers either from the database or, on a server without one, from lists in memory. A
  gateway of sockets relays the camera signals between candidates and proctors, and disconnects the sockets of a revoked session.

  \<^bold>\<open>How the theories correspond to the code.\<close>
  \<^item> The prelude. \<open>Base\<close>: exceptions (\<open>exn\<close>, one constructor per exception class), results (\<open>res\<close>), handlers (\<open>('s, 'a) act\<close>, which
    change a state and return or throw), JavaScript maps as association lists in the order of insertion, and the locale \<open>machine\<close>.
    \<open>JsText\<close>, \<open>JsNumber\<close>, \<open>JsDouble\<close>: the functions of JavaScript on strings, integers and IEEE doubles that the code uses.
    \<open>Contracts\<close>: the shared interfaces. \<open>PageMachine\<close>: runs of the pages of the web client. \<open>Outcomes\<close>: the exceptions with which an action can end.
  \<^item> Sessions and limits. \<open>SessionRegistry\<close> (\<open>auth-session-registry.ts\<close>, with its expiry timers), \<open>FixedWindow\<close> (a contract),
    \<open>RateLimiter\<close> (\<open>login-rate-limiter.ts\<close>), \<open>PasswordKdf\<close> (\<open>password-hash.ts\<close>, \<open>passwordPolicy.ts\<close>), \<open>TransportPolicy\<close>
    (\<open>auth-transport-security.ts\<close>, \<open>outbound-http-security.ts\<close>, the middleware of \<open>main.ts\<close>), \<open>BoundedRead\<close> (its reading loop).
  \<^item> Accounts. \<open>Prisma\<close> (the database client, the rows of \<open>schema.prisma\<close>), \<open>Auth\<close> (\<open>auth.service.ts\<close>, \<open>auth.controller.ts\<close>,
    \<open>admin-auth.guard.ts\<close>), \<open>Accounts\<close> (users, sign-up requests, access requests, invitations to an organization).
  \<^item> The store (\<open>platform-store.*.ts\<close>). \<open>Mappers\<close>, \<open>Store\<close>, \<open>Seed\<close>, \<open>ExamAdmin\<close>, \<open>Proctor\<close>, \<open>Workspace\<close> (portal, gate, exam session
    and workspace), \<open>Execution\<close> (drafts, runs, submissions), \<open>Report\<close> (reports, live view, dashboard), \<open>IdentityEnvironment\<close>, and
    \<open>StoreModes\<close>, which compares the two implementations.
  \<^item> Services. \<open>CodeRunner\<close> (\<open>code-runner.service.ts\<close>), \<open>Kyc\<close> (\<open>identity-verification.service.ts\<close>), \<open>AiEvaluation\<close>, \<open>EmailText\<close> and
    \<open>InviteEmail\<close> (the invitation mails), \<open>Readiness\<close> (\<open>operations-readiness.service.ts\<close>), \<open>Gateway\<close> (\<open>proctor.gateway.ts\<close>), and \<open>Api\<close>:
    the routes of the controllers behind the guard and the limiters, over one state \<open>app\<close>. \<open>AdminRoles\<close>: which role each operation of the
    administration answers, shown of the handlers themselves.
  \<^item> The web client. \<open>ExamClient\<close> (\<open>CandidateExamWorkspace.tsx\<close>), \<open>CameraStream\<close> (\<open>CandidateProctorStream.ts\<close>), \<open>CandidatePages\<close> (the pages
    before the exam), \<open>MobileIdentity\<close> (the capture on the phone in \<open>CandidateFlow.tsx\<close>), \<open>ProctorDashboard\<close> (\<open>LiveProctorDashboard.tsx\<close>, \<open>proctoring.ts\<close>), \<open>AdminPages\<close> (\<open>App.tsx\<close> and the pages of the
    administration), \<open>AccountPages\<close> (\<open>LoginPage.tsx\<close>, \<open>PasswordChangePage.tsx\<close>, \<open>AdminUsers.tsx\<close>, \<open>AdminUsersTable.tsx\<close>),
    \<open>ContentPages\<close> (\<open>QuestionManager.tsx\<close>, \<open>CandidateManager.tsx\<close>), \<open>Masking\<close> (\<open>privacyMasking.ts\<close>), and \<open>ApiRoutes\<close> (the calls
    in \<open>apiCore.ts\<close> and its neighbours against the routes of the controllers).

  A component has a record of its state, a datatype or record for its data, and one definition per operation with the name of the function
  in the code. Handlers compose as the code does: \<open>bindE\<close> is \<open>await\<close>, \<open>catchE\<close> is \<open>try\<close>, \<open>with_fallback\<close> is the
  turn from the database to the memory. A step relation (\<open>reg_step\<close>, \<open>kdf_step\<close>, \<open>runner_step\<close>, \<open>gateway_step\<close>) lets the
  operations of a component come in any order; the pages of the client are functions from an event to the next state and its requests.

  \<^bold>\<open>The interfaces.\<close> \<open>machine\<close> (an invariant that every step keeps) holds for the registry, the derivation pool, the runner and the
  gateway; \<open>page_machine\<close> and \<open>silent_page\<close> (an invariant over runs and of every request that leaves, and a page that sends nothing after it was
  left) for the exam page, the camera, the live view, the phone and the account forms; \<open>comparison\<close> (a stable sort) for the accounts; \<open>fixed_window\<close> (how many calls of a key pass in any period) for the request limiters and the runner's limit per
  candidate; \<open>prisma_table\<close>, \<open>reliable_table\<close> and \<open>framed_table\<close> (what a query returns after a write, and what a write leaves alone)
  for the account tables; \<open>store_part\<close> for every list of the store in memory and in the database.

  \<^bold>\<open>What the lemmas show.\<close>
  \<^item> Access: logins are sound, look alike when they fail, and lock an account; only active sessions of the right role are answered,
    and only about their organization (an administrator's about any); a password change and a revocation end the other sessions and their
    sockets; the pages offer exactly the operations whose handler does not refuse the role.
  \<^item> Exams: the workspace opens only after every check, hides the tests, and lets a candidate act only inside the fixed session; drafts refine a
    map; the judge accounts for every case; scores are bounded and reach the maximum exactly when every test passes; the lists in memory
    answer and refuse like the database.
  \<^item> Limits: rates over the routes (a fixed window lets up to twice its limit through within a minute that it divides), the number of runs and derivations at once, the draining of the runner, the end of the reading of
    a response.
  \<^item> Outside services: what is accepted from the identity provider, what an invitation contains and what is kept of a provider's error, what
    readiness means, one evaluation per candidate.
  \<^item> The client: the exam page is at rest after every event and saves what the editor shows; a page that was left stops its camera; the
    live view holds one connection per device; the phone sends one complete verification; what the account forms send is malformed to the server
    only by a length or an empty name; every call reaches its handler; two values look the same behind a mask exactly if their visible parts agree.
  \<^item> Behaviour worth knowing, proved on the definitions: the submission that the page makes at the end of its time is refused; saving an exam
    unchanged shifts its times; an update without a database writes every field of its body, the identifier, organization and status too; a heartbeat can outlive its page; a failed check removes a token while its session is shown; a cancelled edit of an account is
    saved later; two clicks add a candidate twice.

  \<^bold>\<open>Bounds.\<close> The limit of runs over the routes holds while the limiter's map, of 20000 entries, has room for the calls (two entries each).
  \<open>settle\<close> renders the exam page until no effect is due, with fuel 3, which the lemma \<open>settled\<close> shows to be enough after every
  event. \<open>read_stream\<close> is a partial function, so that a reader that never ends is \<open>None\<close>; it ends when no chunk is empty. All other
  recursion is structural or has a measure. Times are integers of milliseconds, as \<open>Date.now()\<close> gives them, scores are doubles with their
  rounding where a quotient is taken.

  \<^bold>\<open>What is a parameter.\<close> The database client (an answer or an error, under the laws of its locale where a theorem needs them),
  SHA-256, PBKDF2, HMAC, base64url and random values, the URL parser and DNS, Docker, \<open>fetch\<close>, \<open>JSON.parse\<close>, the texts of dates,
  Unicode normalization and the browser. A handler has one reading of the clock, \<open>now\<close>, except the judge, which reads it before every
  case. Strings are those with code units below 256. Messages of errors are English texts that stand for those of the code. A handler is one
  step, except where the code relies on an order between awaits: the runner, the derivation pool, the gateway's join of a proctor, the camera,
  the application's check of its session and the exam page have the steps in between. The description of a connection is ready at once.

  \<^bold>\<open>Not modelled.\<close> The markup, labels and styles of the web client, and its panels that only list what the server sends or pass one
  decision on (requests and invitations of organizations, the report of an exam): they decide nothing; the wiring and the start of the modules, which
  are configuration of the framework; the schema's migrations and the seed script; the regression and end-to-end scripts, which are tests of the program.
\<close>

end
